(* ===== verification/Bt_Prelude.thy ===== *)
theory Bt_Prelude
  imports Main "HOL-Library.Word" "HOL-Library.Sublist" "HOL-Library.Char_ord"
    "HOL-Library.List_Lexorder"
begin

section \<open>Shared vocabulary of the development\<close>

text \<open>
  The pieces of Rust and of its standard library that every component uses: machine integers,
  \<open>Result\<close> with the \<open>?\<close> operator, \<open>String\<close> as its UTF-8 bytes, and the generic list facts the
  component proofs share.

  \<^item> \<open>u64\<close> and \<open>u32\<close> are words, so \<open>+\<close> wraps as it does in a release build; \<open>i64\<close> columns and
    row ids are \<open>int\<close>, with the casts \<open>as i64\<close> and \<open>as u64\<close> written out.
  \<^item> \<open>Result<T, E>\<close> is \<open>'e + 'a\<close>; \<open>and_then\<close> is the \<open>?\<close> operator followed by the rest of the body.
  \<^item> A Rust \<open>String\<close> is the list of its UTF-8 bytes. \<open>utf8_chars\<close> cuts it at the character
    boundaries, so functions on \<open>.chars()\<close> count Unicode scalars and not bytes.
  \<^item> An \<open>OffsetDateTime\<close> is an \<open>int\<close> (nanoseconds); it ranges over the instants RFC 3339 can print,
    so writing it to a column and reading it back is the identity.
\<close>

named_theorems res_simps \<open>evaluation of Result pipelines\<close>
named_theorems sql_simps \<open>evaluation of table operations\<close>
named_theorems core_defs \<open>small definitions of the data model that proofs unfold together\<close>

subsection \<open>Machine integers\<close>

type_synonym u64 = "64 word"
type_synonym u32 = "32 word"
type_synonym i64 = int
type_synonym time = int

definition i64_max :: int where
  "i64_max = 2 ^ 63 - 1"

text \<open>\<open>value as i64\<close> of a \<open>u64\<close> reinterprets the bits; \<open>row.get::<_, i64>(i)?.max(0) as u64\<close> clamps
  a negative column value to zero.\<close>

definition as_i64 :: "u64 \<Rightarrow> i64" where
  "as_i64 w = (if uint w < 2 ^ 63 then uint w else uint w - 2 ^ 64)"

definition clamped_u64 :: "i64 \<Rightarrow> u64" where
  "clamped_u64 i = word_of_int (max 0 i)"

definition clamped_u32 :: "i64 \<Rightarrow> u32" where
  "clamped_u32 i = word_of_int (max 0 i)"

definition saturating_add_u64 :: "u64 \<Rightarrow> u64 \<Rightarrow> u64" where
  "saturating_add_u64 a b = word_of_nat (min (unat a + unat b) (2 ^ 64 - 1))"

definition saturating_sub_u64 :: "u64 \<Rightarrow> u64 \<Rightarrow> u64" where
  "saturating_sub_u64 a b = (if b \<le> a then a - b else 0)"

lemma unat_u64_less: "unat (w :: u64) < 2 ^ 64"
  using unsigned_less [of w, where 'a = nat] by simp

lemma unat_saturating_add_u64:
  "unat (saturating_add_u64 a b) = min (unat a + unat b) (2 ^ 64 - 1)"
proof -
  have "min (unat a + unat b) (2 ^ 64 - 1) < 2 ^ LENGTH(64)"
    by simp
  then show ?thesis
    unfolding saturating_add_u64_def by (simp only: unat_of_nat mod_less)
qed

lemma as_i64_range: "- (2 ^ 63) \<le> as_i64 w" "as_i64 w < 2 ^ 63"
  using uint_ge_0 [of w] uint_lt2p [of w] unfolding as_i64_def by (simp_all, linarith?)

lemma as_i64_small: "uint w < 2 ^ 63 \<Longrightarrow> as_i64 w = uint w"
  by (simp add: as_i64_def)

lemma clamped_as_i64_large: "2 ^ 63 \<le> uint w \<Longrightarrow> clamped_u64 (as_i64 w) = 0"
  using uint_lt2p [of w] by (simp add: clamped_u64_def as_i64_def)

lemma clamped_as_i64_small: "uint w < 2 ^ 63 \<Longrightarrow> clamped_u64 (as_i64 w) = w"
  by (simp add: clamped_u64_def as_i64_small)

lemma clamped_u32_uint [simp]: "clamped_u32 (uint w) = w"
  by (simp add: clamped_u32_def)

subsection \<open>Result\<close>

definition and_then :: "'e + 'a \<Rightarrow> ('a \<Rightarrow> 'e + 'b) \<Rightarrow> 'e + 'b" where
  "and_then r f = (case r of Inl e \<Rightarrow> Inl e | Inr a \<Rightarrow> f a)"

definition ok_or :: "'e \<Rightarrow> 'a option \<Rightarrow> 'e + 'a" where
  "ok_or e x = (case x of None \<Rightarrow> Inl e | Some a \<Rightarrow> Inr a)"

definition guard_err :: "bool \<Rightarrow> 'e \<Rightarrow> 'e + unit" where
  "guard_err bad e = (if bad then Inl e else Inr ())"

lemma and_then_simps [simp, res_simps]:
  "and_then (Inl e) f = Inl e"
  "and_then (Inr a) f = f a"
  by (simp_all add: and_then_def)

lemma and_then_eq_Inr: "and_then r f = Inr b \<longleftrightarrow> (\<exists>a. r = Inr a \<and> f a = Inr b)"
  by (cases r) simp_all

lemma ok_or_eq_Inr [simp]: "ok_or e x = Inr a \<longleftrightarrow> x = Some a"
  by (cases x) (simp_all add: ok_or_def)

lemma ok_or_simps [simp, res_simps]: "ok_or e None = Inl e" "ok_or e (Some a) = Inr a"
  by (simp_all add: ok_or_def)

lemma guard_err_eq_Inr [simp]: "guard_err bad e = Inr u \<longleftrightarrow> \<not> bad"
  by (simp add: guard_err_def)

lemma guard_err_simps [simp, res_simps]: "guard_err True e = Inl e" "guard_err False e = Inr ()"
  by (simp_all add: guard_err_def)

text \<open>Elimination of a successful pipeline; every \<open>?\<close> of the source is one use of it.\<close>

lemma and_thenE:
  assumes "and_then r f = Inr b"
  obtains a where "r = Inr a" "f a = Inr b"
  using assms by (auto simp: and_then_eq_Inr)

subsection \<open>Strings\<close>

definition byte_of :: "char \<Rightarrow> nat" where
  "byte_of c = of_char c"

definition is_continuation :: "char \<Rightarrow> bool" where
  "is_continuation c \<longleftrightarrow> 128 \<le> byte_of c \<and> byte_of c < 192"

function utf8_chars :: "string \<Rightarrow> string list" where
  "utf8_chars [] = []"
| "utf8_chars (c # cs) =
     (c # takeWhile is_continuation cs) # utf8_chars (dropWhile is_continuation cs)"
  by pat_completeness auto
termination
  by (relation "measure length") (auto simp: length_dropWhile_le le_imp_less_Suc)

lemma concat_utf8_chars [simp]: "concat (utf8_chars s) = s"
  by (induction s rule: utf8_chars.induct) simp_all

lemma utf8_chars_nonempty: "x \<in> set (utf8_chars s) \<Longrightarrow> x \<noteq> []"
  by (induction s rule: utf8_chars.induct) auto

lemma utf8_chars_Nil_iff [simp]: "utf8_chars s = [] \<longleftrightarrow> s = []"
  by (cases s) simp_all

definition chars_count :: "string \<Rightarrow> nat" where
  "chars_count s = length (utf8_chars s)"

text \<open>\<open>s.chars().take(n).collect()\<close>\<close>

definition chars_take :: "nat \<Rightarrow> string \<Rightarrow> string" where
  "chars_take n s = concat (take n (utf8_chars s))"

text \<open>\<open>char::is_whitespace\<close>: the Unicode property White\_Space, by the UTF-8 bytes of the scalar.\<close>

definition is_whitespace :: "string \<Rightarrow> bool" where
  "is_whitespace ch \<longleftrightarrow> map byte_of ch \<in> set
     [[9], [10], [11], [12], [13], [32], [194, 133], [194, 160], [225, 154, 128],
      [226, 128, 128], [226, 128, 129], [226, 128, 130], [226, 128, 131], [226, 128, 132],
      [226, 128, 133], [226, 128, 134], [226, 128, 135], [226, 128, 136], [226, 128, 137],
      [226, 128, 138], [226, 128, 168], [226, 128, 169], [226, 128, 175], [226, 129, 159],
      [227, 128, 128]]"

definition str_trim_start :: "string \<Rightarrow> string" where
  "str_trim_start s = concat (dropWhile is_whitespace (utf8_chars s))"

definition str_trim :: "string \<Rightarrow> string" where
  "str_trim s =
     concat (rev (dropWhile is_whitespace (rev (dropWhile is_whitespace (utf8_chars s)))))"

definition strip_prefix :: "string \<Rightarrow> string \<Rightarrow> string option" where
  "strip_prefix p s = (if prefix p s then Some (drop (length p) s) else None)"

fun str_contains :: "string \<Rightarrow> string \<Rightarrow> bool" where
  "str_contains needle [] = (needle = [])"
| "str_contains needle (c # cs) = (prefix needle (c # cs) \<or> str_contains needle cs)"

definition ascii_lower :: "char \<Rightarrow> char" where
  "ascii_lower c = (if 65 \<le> byte_of c \<and> byte_of c \<le> 90 then char_of (byte_of c + 32) else c)"

definition to_ascii_lowercase :: "string \<Rightarrow> string" where
  "to_ascii_lowercase s = map ascii_lower s"

definition eq_ignore_ascii_case :: "string \<Rightarrow> string \<Rightarrow> bool" where
  "eq_ignore_ascii_case a b \<longleftrightarrow> to_ascii_lowercase a = to_ascii_lowercase b"

fun join_with :: "string \<Rightarrow> string list \<Rightarrow> string" where
  "join_with sep [] = []"
| "join_with sep [x] = x"
| "join_with sep (x # y # ys) = x @ sep @ join_with sep (y # ys)"

fun show_nat :: "nat \<Rightarrow> string" where
  "show_nat n = (if n < 10 then [char_of (48 + n)] else show_nat (n div 10) @ [char_of (48 + n mod 10)])"

declare show_nat.simps [simp del]

lemma chars_take_all: "chars_count s \<le> n \<Longrightarrow> chars_take n s = s"
  by (simp add: chars_take_def chars_count_def)

lemma strip_prefix_Some_iff: "strip_prefix p s = Some r \<longleftrightarrow> s = p @ r"
  by (auto simp: strip_prefix_def prefix_def)

lemma str_contains_iff: "str_contains n h \<longleftrightarrow> sublist n h"
  by (induction h) (auto simp: sublist_Cons_right)

subsection \<open>Lists\<close>

text \<open>\<open>Iterator::find_map\<close>\<close>

fun find_map :: "('a \<Rightarrow> 'b option) \<Rightarrow> 'a list \<Rightarrow> 'b option" where
  "find_map f [] = None"
| "find_map f (x # xs) = (case f x of None \<Rightarrow> find_map f xs | Some y \<Rightarrow> Some y)"

lemma find_map_append:
  "find_map f (xs @ ys) = (case find_map f xs of None \<Rightarrow> find_map f ys | Some y \<Rightarrow> Some y)"
  by (induction xs) (auto split: option.splits)

lemma find_map_SomeD: "find_map f xs = Some y \<Longrightarrow> \<exists>x \<in> set xs. f x = Some y"
  by (induction xs) (auto split: option.splits)

lemma find_map_None_iff: "find_map f xs = None \<longleftrightarrow> (\<forall>x \<in> set xs. f x = None)"
  by (induction xs) (auto split: option.splits)

lemma find_Some_iff_filter: "List.find P xs = Some x \<longleftrightarrow> (\<exists>ys. filter P xs = x # ys)"
  by (induction xs) auto

lemma find_None_filter: "List.find P xs = None \<longleftrightarrow> filter P xs = []"
  by (auto simp: find_None_iff filter_empty_conv)

lemma find_append: "List.find P (xs @ ys) = (case List.find P xs of None \<Rightarrow> List.find P ys | Some x \<Rightarrow> Some x)"
  by (induction xs) auto

lemma find_SomeD: "List.find P xs = Some x \<Longrightarrow> P x \<and> x \<in> set xs"
  by (auto simp: find_Some_iff in_set_conv_nth)

lemma sorted_wrt_snoc: "sorted_wrt R (xs @ [x]) \<longleftrightarrow> sorted_wrt R xs \<and> (\<forall>y \<in> set xs. R y x)"
  by (simp add: sorted_wrt_append)

lemma list_eq_takeWhile_dropWhile:
  "xs = takeWhile P xs @ dropWhile P xs"
  by simp

end
