(* ===== verification/Bt_Float.thy ===== *)
theory Bt_Float
  imports Bt_Prelude
begin

section \<open>IEEE 754 double precision\<close>

text \<open>
  Costs and cost limits are \<open>f64\<close>. A finite double is an integer multiple of \<open>2 ^ -1074\<close>, so
  \<open>F64_Fin n\<close> stands for the double \<open>n * 2 ^ -1074\<close>; addition is exact on the integers and then
  rounded to 53 significant bits, ties to even, with overflow to infinity. Signed zeros and NaN
  payloads are identified, which comparison and addition cannot tell apart. Comparisons are the
  IEEE ones: every comparison with NaN is false.
\<close>

datatype f64 = F64_NaN | F64_Inf bool | F64_Fin int

fun bit_len :: "nat \<Rightarrow> nat" where
  "bit_len n = (if n = 0 then 0 else Suc (bit_len (n div 2)))"

declare bit_len.simps [simp del]

definition round_half_even :: "nat \<Rightarrow> nat \<Rightarrow> nat" where
  "round_half_even m k =
     (let q = m div 2 ^ k; r = m mod 2 ^ k; h = 2 ^ (k - 1)
      in if r > h \<or> (r = h \<and> odd q) then q + 1 else q)"

definition f64_round :: "int \<Rightarrow> f64" where
  "f64_round n =
     (let m = nat \<bar>n\<bar>; k = bit_len m - 53
      in if k = 0 then F64_Fin n
         else let v = round_half_even m k * 2 ^ k
              in if v \<ge> 2 ^ 2098 then F64_Inf (n < 0) else F64_Fin (sgn n * int v))"

fun f64_add :: "f64 \<Rightarrow> f64 \<Rightarrow> f64" where
  "f64_add F64_NaN b = F64_NaN"
| "f64_add a F64_NaN = F64_NaN"
| "f64_add (F64_Inf s) (F64_Inf t) = (if s = t then F64_Inf s else F64_NaN)"
| "f64_add (F64_Inf s) (F64_Fin n) = F64_Inf s"
| "f64_add (F64_Fin m) (F64_Inf t) = F64_Inf t"
| "f64_add (F64_Fin m) (F64_Fin n) = f64_round (m + n)"

fun f64_lt :: "f64 \<Rightarrow> f64 \<Rightarrow> bool" where
  "f64_lt F64_NaN b = False"
| "f64_lt a F64_NaN = False"
| "f64_lt (F64_Inf s) (F64_Inf t) = (s \<and> \<not> t)"
| "f64_lt (F64_Inf s) (F64_Fin n) = s"
| "f64_lt (F64_Fin m) (F64_Inf t) = (\<not> t)"
| "f64_lt (F64_Fin m) (F64_Fin n) = (m < n)"

fun f64_ge :: "f64 \<Rightarrow> f64 \<Rightarrow> bool" where
  "f64_ge F64_NaN b = False"
| "f64_ge a F64_NaN = False"
| "f64_ge (F64_Inf s) (F64_Inf t) = (\<not> s \<or> t)"
| "f64_ge (F64_Inf s) (F64_Fin n) = (\<not> s)"
| "f64_ge (F64_Fin m) (F64_Inf t) = t"
| "f64_ge (F64_Fin m) (F64_Fin n) = (m \<ge> n)"

abbreviation f64_zero :: f64 where
  "f64_zero \<equiv> F64_Fin 0"

text \<open>Binding a double to an SQLite REAL column: NaN has no REAL representation and becomes NULL.\<close>

definition sql_real :: "f64 \<Rightarrow> f64 option" where
  "sql_real x = (if x = F64_NaN then None else Some x)"

lemma bit_len_bound: "m < 2 ^ n \<Longrightarrow> bit_len m \<le> n"
proof (induction m arbitrary: n rule: bit_len.induct)
  case (1 m)
  show ?case
  proof (cases "m = 0")
    case True
    then show ?thesis by (simp add: bit_len.simps)
  next
    case False
    with 1 have "n \<noteq> 0" by (intro notI) simp
    then obtain k where n: "n = Suc k" by (cases n) auto
    with 1 False have "bit_len (m div 2) \<le> k" by (intro 1) auto
    with False n show ?thesis by (subst bit_len.simps) simp
  qed
qed

text \<open>Sums that fit 53 bits are exact; in particular adding zero to an exact value keeps it.\<close>

lemma f64_round_exact: "\<bar>n\<bar> < 2 ^ 53 \<Longrightarrow> f64_round n = F64_Fin n"
proof -
  assume "\<bar>n\<bar> < 2 ^ 53"
  then have "nat \<bar>n\<bar> < 2 ^ 53" by (simp add: nat_less_iff)
  then have "bit_len (nat \<bar>n\<bar>) \<le> 53" by (rule bit_len_bound)
  then show ?thesis by (simp add: f64_round_def)
qed

lemma f64_add_commute: "f64_add a b = f64_add b a"
  by (cases a; cases b) (simp_all add: add.commute)

text \<open>Two ordered doubles: \<open>>=\<close> is the negation of \<open><\<close> unless one of them is NaN.\<close>

lemma f64_ge_not_lt: "a \<noteq> F64_NaN \<Longrightarrow> b \<noteq> F64_NaN \<Longrightarrow> f64_ge a b \<longleftrightarrow> \<not> f64_lt a b"
  by (cases a; cases b) auto

lemma f64_lt_irrefl [simp]: "\<not> f64_lt a a"
  by (cases a) auto

lemma f64_not_lt_trans:
  "\<not> f64_lt b a \<Longrightarrow> \<not> f64_lt c b \<Longrightarrow> b \<noteq> F64_NaN \<Longrightarrow> \<not> f64_lt c a"
  by (cases a; cases b; cases c) auto

end
