(* ===== verification/Bt_Types.thy ===== *)
theory Bt_Types
  imports Bt_Float
begin

section \<open>The data model of bt-core\<close>

text \<open>
  The identifiers, errors, JSON values, messages, tool and approval types of the crate
  \<open>bt-core\<close>, with its operations on them: part coalescing (\<open>messages.rs\<close>), argument
  normalisation, redaction, canonical JSON and request fingerprints (\<open>types.rs\<close>), and the
  session budget (\<open>BudgetConfig\<close>).

  A UUID is represented by its hyphenated text, which is what \<open>Display\<close> prints and what the
  store writes. \<open>serde_json\<close> is not part of the repository: the only function of it these
  operations compute with, the quoting of a string (\<open>serde_json::to_string(&str)\<close>), is the argument
  \<open>quote\<close>. A JSON number is represented by the text \<open>Number::to_string\<close> gives for it, an object by
  its entries in key order (\<open>serde_json::Map\<close> is a \<open>BTreeMap\<close>).
\<close>

subsection \<open>Identifiers (ids.rs)\<close>

datatype session_id = SessionId (session_id_text: string)
datatype turn_id = TurnId (turn_id_text: string)
datatype branch_id = BranchId (branch_id_text: string)
datatype event_id = EventId (event_id_text: string)
datatype message_id = MessageId (message_id_text: string)
datatype span_id = SpanId (span_id_text: string)
datatype compaction_id = CompactionId (compaction_id_text: string)
datatype related_session_message_id =
  RelatedSessionMessageId (related_session_message_id_text: string)
datatype connection_id = ConnectionId (connection_id_text: string)
datatype tool_call_id = ToolCallId (tool_call_id_text: string)

subsection \<open>Errors (error.rs)\<close>

datatype error_class =
  EcConfig | EcAuth | EcProvider | EcTool | EcProtocol | EcStorage | EcNotFound | EcRuntime
| EcUnsupported

primrec error_class_as_str :: "error_class \<Rightarrow> string" where
  "error_class_as_str EcConfig = ''config''"
| "error_class_as_str EcAuth = ''auth''"
| "error_class_as_str EcProvider = ''provider''"
| "error_class_as_str EcTool = ''tool''"
| "error_class_as_str EcProtocol = ''protocol''"
| "error_class_as_str EcStorage = ''storage''"
| "error_class_as_str EcNotFound = ''not_found''"
| "error_class_as_str EcRuntime = ''runtime''"
| "error_class_as_str EcUnsupported = ''unsupported''"

text \<open>The library errors wrapped by the last five constructors carry their message only.\<close>

datatype belltower_error =
  Config string | Auth string | Provider string | Tool string | Protocol string | Storage string
| NotFound string | Runtime string | InvalidState string | Unsupported string
| Io string | Json string | TomlDeserialize string | TomlSerialize string | UrlParse string

type_synonym 'a result = "belltower_error + 'a"

primrec error_class_of :: "belltower_error \<Rightarrow> error_class" where
  "error_class_of (Config m) = EcConfig"
| "error_class_of (TomlDeserialize m) = EcConfig"
| "error_class_of (TomlSerialize m) = EcConfig"
| "error_class_of (Auth m) = EcAuth"
| "error_class_of (Provider m) = EcProvider"
| "error_class_of (Tool m) = EcTool"
| "error_class_of (Protocol m) = EcProtocol"
| "error_class_of (Json m) = EcProtocol"
| "error_class_of (Storage m) = EcStorage"
| "error_class_of (NotFound m) = EcNotFound"
| "error_class_of (Runtime m) = EcRuntime"
| "error_class_of (InvalidState m) = EcRuntime"
| "error_class_of (Io m) = EcRuntime"
| "error_class_of (UrlParse m) = EcRuntime"
| "error_class_of (Unsupported m) = EcUnsupported"

primrec error_code :: "belltower_error \<Rightarrow> string" where
  "error_code (Config m) = ''config_error''"
| "error_code (Auth m) = ''auth_error''"
| "error_code (Provider m) = ''provider_error''"
| "error_code (Tool m) = ''tool_error''"
| "error_code (Protocol m) = ''protocol_error''"
| "error_code (Storage m) = ''storage_error''"
| "error_code (NotFound m) = ''not_found''"
| "error_code (Runtime m) = ''runtime_error''"
| "error_code (InvalidState m) = ''invalid_state''"
| "error_code (Unsupported m) = ''unsupported_operation''"
| "error_code (Io m) = ''io_error''"
| "error_code (Json m) = ''json_error''"
| "error_code (TomlDeserialize m) = ''toml_deserialize_error''"
| "error_code (TomlSerialize m) = ''toml_serialize_error''"
| "error_code (UrlParse m) = ''url_parse_error''"

primrec error_retryable :: "belltower_error \<Rightarrow> bool" where
  "error_retryable (Provider m) = True"
| "error_retryable (Protocol m) = True"
| "error_retryable (Storage m) = True"
| "error_retryable (Runtime m) = True"
| "error_retryable (NotFound m) = False"
| "error_retryable (Io m) = True"
| "error_retryable (InvalidState m) = True"
| "error_retryable (Config m) = False"
| "error_retryable (Auth m) = False"
| "error_retryable (Tool m) = False"
| "error_retryable (Unsupported m) = False"
| "error_retryable (Json m) = False"
| "error_retryable (TomlDeserialize m) = False"
| "error_retryable (TomlSerialize m) = False"
| "error_retryable (UrlParse m) = False"

subsection \<open>JSON values\<close>

datatype json =
  JNull | JBool bool | JNumber string | JString string | JArray "json list"
| JObject "(string \<times> json) list"

fun json_get :: "string \<Rightarrow> json \<Rightarrow> json option" where
  "json_get k (JObject es) = map_of es k"
| "json_get k v = None"

fun json_as_str :: "json \<Rightarrow> string option" where
  "json_as_str (JString s) = Some s"
| "json_as_str v = None"

subsection \<open>Tools (types.rs)\<close>

record token_usage =
  prompt_tokens :: u64
  completion_tokens :: u64
  total_tokens :: u64
  cache_read_tokens :: "u64 option"
  cache_write_tokens :: "u64 option"
  reasoning_tokens :: "u64 option"

record cost_breakdown =
  prompt_usd :: f64
  completion_usd :: f64
  total_usd :: f64
  cache_read_usd :: "f64 option"
  cache_write_usd :: "f64 option"
  reasoning_usd :: "f64 option"

datatype thinking_effort = TeNone | TeMinimal | TeLow | TeMedium | TeHigh | TeXHigh

record thinking_config =
  th_enabled :: bool
  th_effort :: "thinking_effort option"
  th_budget_tokens :: "u64 option"
  th_include_summaries :: bool

datatype tool_risk_class = Safe | Moderate | High

datatype tool_interrupt_behavior = IbImmediate | WaitForCompletion | TerminateProcess

datatype tool_execution_mode = EmImmediate | UserInput

datatype tool_display_group =
  Codebase | Execution | Web | Planning | Interaction | Inspection | Workflow | External

record tool_metadata =
  risk_class :: tool_risk_class
  is_read_only :: bool
  is_concurrency_safe :: bool
  interrupt_behavior :: tool_interrupt_behavior
  execution_mode :: tool_execution_mode
  should_defer :: bool
  catalogue_tags :: "string list"
  display_group :: tool_display_group

datatype plan_status = PlPending | PlInProgress | PlCompleted | PlBlocked

record plan_item =
  pi_id :: string
  pi_content :: string
  pi_status :: plan_status

record tool_spec =
  ts_name :: string
  ts_description :: string
  ts_parameters_schema :: json
  ts_metadata :: tool_metadata

record artifact_ref =
  ar_id :: string
  ar_kind :: string
  ar_uri :: "string option"
  ar_content_type :: "string option"
  ar_digest :: "string option"
  ar_producer_event_id :: "event_id option"
  ar_producer_tool_call_id :: "tool_call_id option"
  ar_model_visible :: bool
  ar_preview :: "string option"

datatype tool_operation_initiator = OiAgent | OiHuman | OiRuntime | OiMcp

record tool_operation_context =
  oc_initiator :: tool_operation_initiator
  oc_risk_class :: "tool_risk_class option"
  oc_is_read_only :: "bool option"
  oc_execution_mode :: "tool_execution_mode option"
  oc_artifact_refs :: "artifact_ref list"

definition from_tool_spec :: "tool_operation_initiator \<Rightarrow> tool_spec \<Rightarrow> tool_operation_context" where
  "from_tool_spec initiator tool =
     \<lparr>oc_initiator = initiator,
      oc_risk_class = Some (risk_class (ts_metadata tool)),
      oc_is_read_only = Some (is_read_only (ts_metadata tool)),
      oc_execution_mode = Some (execution_mode (ts_metadata tool)),
      oc_artifact_refs = []\<rparr>"

record tool_result_envelope =
  tr_call_id :: tool_call_id
  tr_tool_name :: string
  tr_is_error :: bool
  tr_output :: json
  tr_duration_ms :: "u64 option"

subsection \<open>Session budget (types.rs)\<close>

record budget_config =
  max_wall_clock_seconds :: "u64 option"
  max_tokens :: "u64 option"
  max_turns :: "u32 option"
  max_cost_usd :: "f64 option"

text \<open>\<open>Option::is_some_and\<close> and \<open>Option::is_none_or\<close>.\<close>

definition is_some_and :: "'a option \<Rightarrow> ('a \<Rightarrow> bool) \<Rightarrow> bool" where
  "is_some_and x p = (case x of None \<Rightarrow> False | Some a \<Rightarrow> p a)"

definition is_none_or :: "'a option \<Rightarrow> ('a \<Rightarrow> bool) \<Rightarrow> bool" where
  "is_none_or x p = (case x of None \<Rightarrow> True | Some a \<Rightarrow> p a)"

definition is_exhausted :: "budget_config \<Rightarrow> u64 \<Rightarrow> u32 \<Rightarrow> u64 \<Rightarrow> f64 option \<Rightarrow> bool" where
  "is_exhausted b tokens_used turns_used elapsed_seconds cost_used_usd \<longleftrightarrow>
     is_some_and (max_tokens b) (\<lambda>m. tokens_used \<ge> m)
   \<or> is_some_and (max_turns b) (\<lambda>m. turns_used \<ge> m)
   \<or> is_some_and (max_wall_clock_seconds b) (\<lambda>m. elapsed_seconds \<ge> m)
   \<or> is_some_and (max_cost_usd b) (\<lambda>m. is_none_or cost_used_usd (\<lambda>used. f64_ge used m))"

lemma is_some_and_simps [simp]: "is_some_and None p = False" "is_some_and (Some a) p = p a"
  by (simp_all add: is_some_and_def)

lemma is_none_or_simps [simp]: "is_none_or None p = True" "is_none_or (Some a) p = p a"
  by (simp_all add: is_none_or_def)

lemma is_some_and_iff: "is_some_and x p \<longleftrightarrow> (\<exists>a. x = Some a \<and> p a)"
  by (cases x) simp_all

subsection \<open>Messages (messages.rs)\<close>

datatype role = RSystem | RUser | RAssistant | RTool

record tool_call =
  tc_tool_name :: string
  tc_call_id :: string
  tc_arguments :: json

datatype message_part =
  Text string
| Reasoning "string option" bool "json option"
| ToolCall tool_call
| ToolResult tool_result_envelope
| Refusal "string option" "string option" "json option"
| Structured "string option" json

record message =
  m_message_id :: message_id
  m_role :: role
  m_parts :: "message_part list"
  m_created_at :: time

fun can_coalesce_with :: "message_part \<Rightarrow> message_part \<Rightarrow> bool" where
  "can_coalesce_with (Text t) (Text u) = True"
| "can_coalesce_with (Reasoning t r None) (Reasoning u s None) = (r = s)"
| "can_coalesce_with p q = False"

text \<open>\<open>coalesce_with\<close> mutates its receiver and says whether it did: \<open>None\<close> is \<open>false\<close>.\<close>

definition coalesce_with :: "message_part \<Rightarrow> message_part \<Rightarrow> message_part option" where
  "coalesce_with self next =
     (if \<not> can_coalesce_with self next then None
      else case (self, next) of
        (Text t, Text u) \<Rightarrow> Some (Text (t @ u))
      | (Reasoning t r None, Reasoning u s None) \<Rightarrow>
          Some (Reasoning
            (case (t, u) of
               (Some current, Some addition) \<Rightarrow> Some (current @ addition)
             | (None, Some addition) \<Rightarrow> Some addition
             | _ \<Rightarrow> t) r None)
      | _ \<Rightarrow> None)"

definition push_message_part :: "message_part list \<Rightarrow> message_part \<Rightarrow> message_part list" where
  "push_message_part parts part =
     (if parts = [] then parts @ [part]
      else case coalesce_with (last parts) part of
        Some merged \<Rightarrow> butlast parts @ [merged]
      | None \<Rightarrow> parts @ [part])"

fun extend_message_parts :: "message_part list \<Rightarrow> message_part list \<Rightarrow> message_part list" where
  "extend_message_parts parts [] = parts"
| "extend_message_parts parts (p # ps) = extend_message_parts (push_message_part parts p) ps"

text \<open>\<open>Message::new\<close>; the fresh message id and the clock reading are arguments.\<close>

definition message_new :: "message_id \<Rightarrow> time \<Rightarrow> role \<Rightarrow> message_part list \<Rightarrow> message" where
  "message_new fresh now r parts =
     \<lparr>m_message_id = fresh, m_role = r, m_parts = extend_message_parts [] parts,
      m_created_at = now\<rparr>"

definition message_text :: "message_id \<Rightarrow> time \<Rightarrow> role \<Rightarrow> string \<Rightarrow> message" where
  "message_text fresh now r text = message_new fresh now r [Text text]"

definition message_from_part :: "message_id \<Rightarrow> time \<Rightarrow> role \<Rightarrow> message_part \<Rightarrow> message" where
  "message_from_part fresh now r part = message_new fresh now r [part]"

definition message_push_part :: "message \<Rightarrow> message_part \<Rightarrow> message" where
  "message_push_part m part = m\<lparr>m_parts := push_message_part (m_parts m) part\<rparr>"

fun visible_text :: "message_part \<Rightarrow> string option" where
  "visible_text (Text t) = Some t"
| "visible_text (Refusal (Some t) r m) = Some t"
| "visible_text p = None"

definition text_parts :: "message \<Rightarrow> string list" where
  "text_parts m = List.map_filter visible_text (m_parts m)"

definition message_tool_call :: "message \<Rightarrow> tool_call option" where
  "message_tool_call m = find_map (\<lambda>p. case p of ToolCall c \<Rightarrow> Some c | _ \<Rightarrow> None) (m_parts m)"

definition message_tool_result :: "message \<Rightarrow> tool_result_envelope option" where
  "message_tool_result m =
     find_map (\<lambda>p. case p of ToolResult r \<Rightarrow> Some r | _ \<Rightarrow> None) (m_parts m)"

subsection \<open>Approvals (types.rs)\<close>

datatype approval_scope = Once | Session | AlwaysScope

datatype approval_decision_source = Human | Policy string | RuntimeSource

datatype approval_decision =
  Approved time string approval_scope approval_decision_source
| Denied time string "string option" approval_scope approval_decision_source

datatype approval_requirement = Always | FirstUsePerSession | Never | Conditional string

record approval_request =
  rq_session_id :: session_id
  rq_call_id :: tool_call_id
  rq_tool_name :: string
  rq_arguments :: json
  rq_requirement :: approval_requirement
  rq_tool_metadata :: tool_metadata
  rq_requested_at :: time

record approval_request_snapshot =
  sn_session_id :: session_id
  sn_call_id :: tool_call_id
  sn_tool_name :: string
  sn_request_fingerprint :: string
  sn_arguments_hash :: string
  sn_redacted_arguments_preview :: "json option"
  sn_requirement :: approval_requirement
  sn_tool_metadata :: tool_metadata
  sn_initiator :: tool_operation_initiator
  sn_surface :: string
  sn_registry_schema_hash :: "string option"
  sn_policy_rule :: "string option"
  sn_requested_at :: time

record approval_resolution =
  ap_request_fingerprint :: string
  ap_decision :: approval_decision

end
