(* ===== verification/Bt_Fingerprint.thy ===== *)
theory Bt_Fingerprint
  imports Bt_Types "HOL-Library.Multiset"
begin

section \<open>Approval request fingerprints\<close>

text \<open>
  \<open>normalize_approval_arguments\<close>, \<open>redact_argument_preview\<close>, \<open>canonical_json\<close>, \<open>stable_hash\<close> and
  \<open>ApprovalRequest::fingerprint\<close>/\<open>snapshot\<close> of \<open>bt-core/src/types.rs\<close>. The lemmas show what an
  approval is bound to: the tool name and the arguments up to the order of object entries and up
  to \<open>call_id\<close> entries, which are dropped at every depth.
\<close>

unbundle bit_operations_syntax

fun normalize_approval_arguments :: "json \<Rightarrow> json" where
  "normalize_approval_arguments (JObject es) =
     JObject (map (\<lambda>(k, v). (k, normalize_approval_arguments v))
       (filter (\<lambda>(k, v). k \<noteq> ''call_id'') es))"
| "normalize_approval_arguments (JArray vs) = JArray (map normalize_approval_arguments vs)"
| "normalize_approval_arguments v = v"

definition sensitive_key :: "string \<Rightarrow> bool" where
  "sensitive_key key \<longleftrightarrow>
     (let lowered = to_ascii_lowercase key
      in str_contains ''secret'' lowered \<or> str_contains ''token'' lowered
       \<or> str_contains ''password'' lowered \<or> str_contains ''authorization'' lowered
       \<or> suffix ''_key'' lowered)"

fun redact_argument_preview :: "json \<Rightarrow> json" where
  "redact_argument_preview (JObject es) =
     JObject (map (\<lambda>(k, v).
       (k, if sensitive_key k then JString ''[redacted]'' else redact_argument_preview v)) es)"
| "redact_argument_preview (JArray vs) = JArray (map redact_argument_preview vs)"
| "redact_argument_preview (JString s) =
     (if chars_count s > 240 then JString (chars_take 240 s @ ''...'') else JString s)"
| "redact_argument_preview v = v"

text \<open>The entries are rendered first and then sorted by key; the source sorts and then renders,
  which is the same list because the sort looks at the keys only.\<close>

fun canonical_json :: "(string \<Rightarrow> string) \<Rightarrow> json \<Rightarrow> string" where
  "canonical_json quote JNull = ''null''"
| "canonical_json quote (JBool b) = (if b then ''true'' else ''false'')"
| "canonical_json quote (JNumber n) = n"
| "canonical_json quote (JString s) = quote s"
| "canonical_json quote (JArray vs) = ''['' @ join_with '','' (map (canonical_json quote) vs) @ '']''"
| "canonical_json quote (JObject es) =
     ''{'' @ join_with '','' (map (\<lambda>(k, v). quote k @ '':'' @ v)
        (sort_key fst (map (\<lambda>(k, v). (k, canonical_json quote v)) es))) @ ''}''"

definition fnv_step :: "u64 \<Rightarrow> char \<Rightarrow> u64" where
  "fnv_step hash b = (hash XOR word_of_nat (byte_of b)) * 0x100000001b3"

definition hex_digit :: "nat \<Rightarrow> char" where
  "hex_digit d = (if d < 10 then char_of (48 + d) else char_of (87 + d))"

fun hex_digits :: "nat \<Rightarrow> nat \<Rightarrow> string" where
  "hex_digits 0 n = []"
| "hex_digits (Suc w) n = hex_digits w (n div 16) @ [hex_digit (n mod 16)]"

definition stable_hash :: "string \<Rightarrow> string" where
  "stable_hash s = ''fnv1a64:'' @ hex_digits 16 (unat (foldl fnv_step 0xcbf29ce484222325 s))"

definition fingerprint :: "(string \<Rightarrow> string) \<Rightarrow> approval_request \<Rightarrow> string" where
  "fingerprint quote r =
     rq_tool_name r @ '':'' @
     stable_hash (canonical_json quote (normalize_approval_arguments (rq_arguments r)))"

definition snapshot ::
  "(string \<Rightarrow> string) \<Rightarrow> approval_request \<Rightarrow> tool_operation_initiator \<Rightarrow> string \<Rightarrow> string option
     \<Rightarrow> string option \<Rightarrow> approval_request_snapshot" where
  "snapshot quote r initiator surface registry_schema_hash policy_rule =
     (let normalized_arguments = normalize_approval_arguments (rq_arguments r);
          canonical_arguments = canonical_json quote normalized_arguments
      in \<lparr>sn_session_id = rq_session_id r,
          sn_call_id = rq_call_id r,
          sn_tool_name = rq_tool_name r,
          sn_request_fingerprint = fingerprint quote r,
          sn_arguments_hash = stable_hash canonical_arguments,
          sn_redacted_arguments_preview = Some (redact_argument_preview normalized_arguments),
          sn_requirement = rq_requirement r,
          sn_tool_metadata = rq_tool_metadata r,
          sn_initiator = initiator,
          sn_surface = surface,
          sn_registry_schema_hash = registry_schema_hash,
          sn_policy_rule = policy_rule,
          sn_requested_at = rq_requested_at r\<rparr>)"

definition from_snapshot_with_arguments ::
  "approval_request_snapshot \<Rightarrow> json \<Rightarrow> approval_request" where
  "from_snapshot_with_arguments s arguments =
     \<lparr>rq_session_id = sn_session_id s,
      rq_call_id = sn_call_id s,
      rq_tool_name = sn_tool_name s,
      rq_arguments = arguments,
      rq_requirement = sn_requirement s,
      rq_tool_metadata = sn_tool_metadata s,
      rq_requested_at = sn_requested_at s\<rparr>"

definition resolution_from_request ::
  "(string \<Rightarrow> string) \<Rightarrow> approval_request \<Rightarrow> approval_decision \<Rightarrow> approval_resolution" where
  "resolution_from_request quote r decision =
     \<lparr>ap_request_fingerprint = fingerprint quote r, ap_decision = decision\<rparr>"

subsection \<open>Key paths of a JSON value\<close>

text \<open>All object keys of a value, at any depth, with the values under them.\<close>

fun json_entries :: "json \<Rightarrow> (string \<times> json) list" where
  "json_entries (JObject es) = es @ concat (map (\<lambda>(k, v). json_entries v) es)"
| "json_entries (JArray vs) = concat (map json_entries vs)"
| "json_entries v = []"

lemma normalize_no_call_id:
  "(k, v) \<in> set (json_entries (normalize_approval_arguments j)) \<Longrightarrow> k \<noteq> ''call_id''"
  by (induction j arbitrary: k v rule: normalize_approval_arguments.induct) fastforce+

lemma normalize_idem:
  "normalize_approval_arguments (normalize_approval_arguments j) = normalize_approval_arguments j"
proof (induction j rule: normalize_approval_arguments.induct)
  case (1 es)
  then show ?case by (auto simp: filter_map comp_def case_prod_unfold)
next
  case (2 vs)
  then show ?case by simp
qed simp_all

lemma redact_sensitive:
  "(k, v) \<in> set (json_entries (redact_argument_preview j)) \<Longrightarrow> sensitive_key k
     \<Longrightarrow> v = JString ''[redacted]''"
  by (induction j arbitrary: k v rule: redact_argument_preview.induct)
    (fastforce split: if_splits)+

lemma sort_key_fst_unique:
  fixes xs ys :: "('k::linorder \<times> 'v) list"
  assumes "mset xs = mset ys" "distinct (map fst xs)"
  shows "sort_key fst xs = sort_key fst ys"
proof (rule properties_for_sort_key)
  show "mset (sort_key fst ys) = mset xs"
    using assms by simp
  show "sorted (map fst (sort_key fst ys))"
    by simp
next
  fix k
  have d: "distinct (map fst ys)"
    using assms by (metis mset_eq_imp_distinct_iff mset_map)
  assume "k \<in> set (sort_key fst ys)"
  have "filter (\<lambda>x. fst k = fst x) zs = [z]" if "distinct (map fst zs)" "z \<in> set zs" "fst z = fst k" for z and zs :: "('k \<times> 'v) list"
    using that by (induction zs) (auto simp: filter_empty_conv image_iff)
  then show "filter (\<lambda>x. fst k = fst x) (sort_key fst ys) = filter (\<lambda>x. fst k = fst x) xs"
    using assms d \<open>k \<in> set (sort_key fst ys)\<close>
    by (metis (mono_tags, lifting) distinct_map mset_eq_setD set_sort distinct_sort)
qed

subsection \<open>What a fingerprint identifies\<close>

text \<open>Two argument values that differ only in the order of object entries and in \<open>call_id\<close> entries,
  at any depth.\<close>

inductive same_arguments :: "json \<Rightarrow> json \<Rightarrow> bool" where
  sa_refl: "same_arguments v v"
| sa_sym: "same_arguments v w \<Longrightarrow> same_arguments w v"
| sa_trans: "same_arguments u v \<Longrightarrow> same_arguments v w \<Longrightarrow> same_arguments u w"
| sa_array: "list_all2 same_arguments vs ws \<Longrightarrow> same_arguments (JArray vs) (JArray ws)"
| sa_object: "list_all2 (\<lambda>p q. fst p = fst q \<and> same_arguments (snd p) (snd q)) es fs \<Longrightarrow>
     mset fs = mset gs \<Longrightarrow> distinct (map fst fs) \<Longrightarrow> same_arguments (JObject es) (JObject gs)"
| sa_call_id: "same_arguments (JObject (filter (\<lambda>(k, v). k \<noteq> ''call_id'') es)) (JObject es)"

lemma list_all2_map_eq: "list_all2 (\<lambda>p q. f p = g q) xs ys \<longleftrightarrow> map f xs = map g ys"
  by (simp add: list_all2_conv_all_nth list_eq_iff_nth_eq cong: conj_cong)

lemma list_all2_filter_fst:
  "list_all2 (\<lambda>p q. fst p = fst q \<and> R p q) xs ys \<Longrightarrow>
     list_all2 (\<lambda>p q. fst p = fst q \<and> R p q)
       (filter (\<lambda>p. P (fst p)) xs) (filter (\<lambda>p. P (fst p)) ys)"
  by (induction rule: list_all2_induct) auto

lemma canonical_same_arguments:
  "same_arguments a b \<Longrightarrow>
     canonical_json quote (normalize_approval_arguments a) =
     canonical_json quote (normalize_approval_arguments b)"
proof (induction rule: same_arguments.induct)
  case (sa_array vs ws)
  let ?c = "\<lambda>v. canonical_json quote (normalize_approval_arguments v)"
  from sa_array have "list_all2 (\<lambda>v w. ?c v = ?c w) vs ws"
    by (auto elim: list_all2_mono)
  then have "map ?c vs = map ?c ws" by (simp only: list_all2_map_eq)
  then show ?case by (simp add: comp_def)
next
  case (sa_object es fs gs)
  let ?c = "\<lambda>v. canonical_json quote (normalize_approval_arguments v)"
  let ?keep = "\<lambda>p. fst p \<noteq> ''call_id''"
  let ?r = "\<lambda>p. (fst p, ?c (snd p))"
  from sa_object have "list_all2 (\<lambda>p q. fst p = fst q \<and> ?c (snd p) = ?c (snd q)) es fs"
    by (auto elim: list_all2_mono)
  then have "list_all2 (\<lambda>p q. fst p = fst q \<and> ?c (snd p) = ?c (snd q))
      (filter ?keep es) (filter ?keep fs)"
    by (rule list_all2_filter_fst)
  then have "list_all2 (\<lambda>p q. ?r p = ?r q) (filter ?keep es) (filter ?keep fs)"
    by simp
  then have ef: "map ?r (filter ?keep es) = map ?r (filter ?keep fs)"
    by (simp only: list_all2_map_eq)
  have "mset (map ?r (filter ?keep fs)) = mset (map ?r (filter ?keep gs))"
    using sa_object by simp
  moreover have "distinct (map fst (map ?r (filter ?keep fs)))"
    using sa_object by (simp add: comp_def distinct_map_filter)
  ultimately have "sort_key fst (map ?r (filter ?keep fs)) = sort_key fst (map ?r (filter ?keep gs))"
    by (rule sort_key_fst_unique)
  with ef show ?case
    by (simp add: case_prod_unfold comp_def)
qed (simp_all add: case_prod_unfold)

definition ex_request :: "string \<Rightarrow> json \<Rightarrow> approval_request" where
  "ex_request call arguments =
     \<lparr>rq_session_id = SessionId ''s'', rq_call_id = ToolCallId call, rq_tool_name = ''bash'',
      rq_arguments = arguments, rq_requirement = Always,
      rq_tool_metadata = \<lparr>risk_class = High, is_read_only = False, is_concurrency_safe = False,
        interrupt_behavior = TerminateProcess, execution_mode = EmImmediate, should_defer = False,
        catalogue_tags = [], display_group = Execution\<rparr>,
      rq_requested_at = 0\<rparr>"

definition ex_arguments :: json where
  "ex_arguments = JObject [(''cmd'', JString ''ls''), (''cwd'', JString ''/'')]"

definition ex_arguments' :: json where
  "ex_arguments' = JObject [(''call_id'', JString ''c2''), (''cwd'', JString ''/''), (''cmd'', JString ''ls'')]"

lemma ex_same_arguments: "same_arguments ex_arguments ex_arguments'"
proof (rule sa_trans)
  show "same_arguments ex_arguments (JObject [(''cwd'', JString ''/''), (''cmd'', JString ''ls'')])"
    unfolding ex_arguments_def
    by (rule sa_object [of _ "[(''cmd'', JString ''ls''), (''cwd'', JString ''/'')]"]) (simp_all add: sa_refl)
  show "same_arguments (JObject [(''cwd'', JString ''/''), (''cmd'', JString ''ls'')]) ex_arguments'"
    using sa_call_id [of "[(''call_id'', JString ''c2''), (''cwd'', JString ''/''), (''cmd'', JString ''ls'')]"]
    by (simp add: ex_arguments'_def)
qed

text \<open>C21: an approval is bound to the tool and the meaning of its arguments: two requests for the same
  tool whose arguments differ only in object entry order and in \<open>call_id\<close> entries have the same
  fingerprint, whatever the call, the session and the time.\<close>

theorem fingerprint_same_arguments:
  assumes "rq_tool_name r = rq_tool_name r'"
    and "same_arguments (rq_arguments r) (rq_arguments r')"
  shows "fingerprint quote r = fingerprint quote r'"
  using canonical_same_arguments [OF assms(2)] assms(1) by (simp add: fingerprint_def)

theorem fingerprint_same_arguments_witness:
  "same_arguments ex_arguments ex_arguments'
   \<and> fingerprint (\<lambda>s. s) (ex_request ''c1'' ex_arguments) = fingerprint (\<lambda>s. s) (ex_request ''c2'' ex_arguments')"
  using fingerprint_same_arguments [of "ex_request ''c1'' ex_arguments" "ex_request ''c2'' ex_arguments'"]
    ex_same_arguments by (simp add: ex_request_def)

end
