(* ===== verification/Bt_Events.thy ===== *)
theory Bt_Events
  imports Bt_Types
begin

section \<open>Canonical events\<close>

text \<open>
  The event taxonomy of \<open>bt-core/src/events.rs\<close>: the payload union with the source's variants and
  fields in the source's order, the derived kind labels, and the envelope every component
  appends, together with the session, branch, related-session and manifest records events refer to
  (\<open>branches.rs\<close>, \<open>related_sessions.rs\<close>, \<open>types.rs\<close>).
\<close>

subsection \<open>Session and branch records (branches.rs)\<close>

definition default_settings_revision_id :: u64 where
  "default_settings_revision_id = 1"

datatype session_status = Active | Completed | Failed | Abandoned

datatype session_tool_mode = Standard | Extended

record session_record =
  sr_session_id :: session_id
  sr_project_root :: string
  sr_connection_id :: connection_id
  sr_model_id :: "string option"
  sr_tool_mode :: session_tool_mode
  sr_settings_revision_id :: u64
  sr_created_at :: time
  sr_updated_at :: time
  sr_status :: session_status
  sr_display_name :: "string option"
  sr_objective :: "string option"
  sr_parent_session_id :: "session_id option"
  sr_parent_branch_id :: "branch_id option"
  sr_parent_turn_id :: "turn_id option"

record session_settings_snapshot =
  ss_session_id :: session_id
  ss_settings_revision_id :: u64
  ss_connection_id :: connection_id
  ss_model_id :: "string option"
  ss_tool_mode :: session_tool_mode
  ss_updated_at :: time

definition settings_snapshot :: "session_record \<Rightarrow> session_settings_snapshot" where
  "settings_snapshot s =
     \<lparr>ss_session_id = sr_session_id s,
      ss_settings_revision_id = sr_settings_revision_id s,
      ss_connection_id = sr_connection_id s,
      ss_model_id = sr_model_id s,
      ss_tool_mode = sr_tool_mode s,
      ss_updated_at = sr_updated_at s\<rparr>"

definition with_settings_snapshot ::
  "session_record \<Rightarrow> session_settings_snapshot \<Rightarrow> session_record" where
  "with_settings_snapshot s snap =
     s\<lparr>sr_connection_id := ss_connection_id snap,
       sr_model_id := ss_model_id snap,
       sr_tool_mode := ss_tool_mode snap,
       sr_settings_revision_id := ss_settings_revision_id snap,
       sr_updated_at := ss_updated_at snap\<rparr>"

record branch_record =
  br_branch_id :: branch_id
  br_session_id :: session_id
  br_parent_branch_id :: "branch_id option"
  br_parent_event_id :: "event_id option"
  br_head_event_id :: "event_id option"
  br_summary :: "string option"
  br_created_at :: time
  br_is_default :: bool

subsection \<open>Related sessions (related\_sessions.rs)\<close>

definition MAX_RELATED_SESSION_DEPTH :: nat where
  "MAX_RELATED_SESSION_DEPTH = 4"

definition MAX_RELATED_SESSION_DESCENDANTS :: nat where
  "MAX_RELATED_SESSION_DESCENDANTS = 8"

datatype related_session_message_kind =
  Instruction | Question | Answer | Progress | ResultKind | ErrorKind

datatype related_session_delivery_mode = Notify | Wake

datatype related_session_message_direction = Sent | Received

datatype related_session_message_status = RmDelivered | RmPending | RmClaimed | RmDropped

record related_session_message =
  rm_message_id :: related_session_message_id
  rm_context_message_id :: message_id
  rm_source_session_id :: session_id
  rm_source_branch_id :: branch_id
  rm_caused_by_turn_id :: "turn_id option"
  rm_destination_session_id :: session_id
  rm_destination_branch_id :: branch_id
  rm_kind :: related_session_message_kind
  rm_delivery_mode :: related_session_delivery_mode
  rm_in_reply_to :: "related_session_message_id option"
  rm_text :: string
  rm_artifact_refs :: "artifact_ref list"
  rm_created_at :: time

subsection \<open>Context manifests and instruction provenance (types.rs)\<close>

record context_message_ref =
  cm_message_id :: message_id
  cm_role :: role
  cm_source_branch_id :: "branch_id option"
  cm_source_seq_id :: "i64 option"
  cm_part_count :: u32
  cm_visible_text_chars :: u64

record context_message_source_ref =
  cs_message_id :: message_id
  cs_branch_id :: branch_id
  cs_seq_id :: i64

record context_tool_ref =
  ct_name :: string
  ct_risk_class :: tool_risk_class
  ct_is_read_only :: bool
  ct_execution_mode :: tool_execution_mode
  ct_should_defer :: bool

datatype context_attachment_type = AtGenerated | AtCompaction | AtMemory | AtSignal | AtResource

datatype context_attachment_producer =
  PdRuntime | PdOperator | PdTool | PdMemoryProvider | PdExternalServer

datatype context_prompt_placement =
  NotPlaced | SystemPrompt | MessageHistory | ToolContext | AttachmentBlock

datatype context_truncation_status = NotTruncated | Truncated | TruncationUnknown

record context_attachment =
  ca_id :: string
  ca_attachment_type :: context_attachment_type
  ca_producer :: context_attachment_producer
  ca_source_event_id :: "event_id option"
  ca_source_tool_call_id :: "tool_call_id option"
  ca_source_uri :: "string option"
  ca_digest :: "string option"
  ca_model_visible :: bool
  ca_operator_visible :: bool
  ca_exportable :: bool
  ca_placement :: context_prompt_placement
  ca_token_estimate :: "u64 option"
  ca_truncation :: context_truncation_status

record context_manifest =
  mf_turn_id :: turn_id
  mf_branch_id :: branch_id
  mf_llm_call_ordinal :: u32
  mf_provider :: string
  mf_model :: string
  mf_settings_revision_id :: u64
  mf_context_boundary_seq_id :: "i64 option"
  mf_system_prompt_present :: bool
  mf_system_prompt_char_count :: u64
  mf_messages :: "context_message_ref list"
  mf_tools :: "context_tool_ref list"
  mf_attachments :: "context_attachment list"
  mf_max_tokens :: "u64 option"
  mf_thinking :: "thinking_config option"
  mf_compacted :: bool

datatype context_compaction_trigger = Forced | TokenBudget

datatype context_compaction_phase = Manual | PreTurn

datatype context_compaction_status = CcCompleted | CcFailed

record instruction_document =
  id_source :: string
  id_title :: string
  id_body :: string

record turn_instruction_provenance =
  ip_turn_id :: turn_id
  ip_provider :: string
  ip_model :: string
  ip_settings_revision_id :: u64
  ip_core_prompt :: instruction_document
  ip_provider_overlay :: "instruction_document option"
  ip_instructions :: "instruction_document list"
  ip_rendered_system_prompt :: string

datatype completion_delta =
  AppendText string
| AppendReasoning "string option" bool "json option"
| OpenToolCall string string "json option"
| AppendToolCallArguments string string
| CloseToolCall string
| AppendRefusal "string option" "string option" "json option"
| SetStructuredOutput "string option" json

subsection \<open>Payloads (events.rs)\<close>

datatype span_kind = SkSession | SkAgent | SkLlm | SkTool | SkChain

datatype queued_message_resolution_outcome = QDispatched | QDropped

datatype steer_resolution_outcome = SApplied | SDropped

datatype turn_start_source =
  UserMessage | ApprovalResume | InputResume | SteerFollowUp | QueuedFollowUp
| RelatedSessionMessageSource

text \<open>The fields of \<open>EventPayload::ContextCompacted\<close>.\<close>

record context_compacted =
  cc_compaction_id :: compaction_id
  cc_window_number :: "u64 option"
  cc_previous_compaction_id :: "compaction_id option"
  cc_first_compaction_id :: "compaction_id option"
  cc_trigger :: context_compaction_trigger
  cc_phase :: context_compaction_phase
  cc_status :: context_compaction_status
  cc_reason :: "string option"
  cc_provider :: "string option"
  cc_model :: "string option"
  cc_context_boundary_seq_id :: "i64 option"
  cc_summary_message_id :: "message_id option"
  cc_first_kept_message_id :: "message_id option"
  cc_first_kept_branch_id :: "branch_id option"
  cc_first_kept_seq_id :: "i64 option"
  cc_latency_ms :: "u64 option"
  cc_summary :: string
  cc_messages_before :: u32
  cc_messages_after :: u32
  cc_tokens_before :: u64
  cc_tokens_after :: u64
  cc_files_read :: "string list"
  cc_files_modified :: "string list"

text \<open>Variant fields are positional, in the source's order: for example \<open>TurnStarted turn_id provider
  model message_count settings_revision_id source resumed_from_call_id\<close>.\<close>

datatype (plugins only: size) event_payload =
  SessionStarted string string
| SessionSpawnRequested session_id string string "string option"
| SessionSpawned session_id branch_id string
| SessionHandoffRecorded session_id branch_id "turn_id option" string string
| SessionResultImported session_id string string
| SessionResultRejected session_id string
| RelatedSessionMessageRecorded related_session_message_direction event_id related_session_message
| RelatedSessionMessageResolved related_session_message_id related_session_message_status
    "turn_id option" "string option"
| RelatedSessionMessageSettled related_session_message_id related_session_message_id
    related_session_message_kind turn_id
| SessionSettingsUpdated u64 string "string option" string
| SessionEnded string
| BranchCreated "branch_id option" "event_id option"
| BranchActivated branch_id
| BranchSummarized branch_id string "string list" "string list"
| MessageAppended message
| TurnStarted turn_id string string u32 u64 turn_start_source "tool_call_id option"
| TurnInstructionProvenanceRecorded turn_instruction_provenance
| TurnContextManifestRecorded context_manifest
| CompletionRequested u32 string string u32
| CompletionChunk "u32 option" "completion_delta list" "i64 option"
| CompletionFinished u32 string string token_usage "cost_breakdown option" string u64
| SessionError error_class string string bool
| TurnFinished turn_id string string string "string option" u64
| ToolCallRequested tool_call_id string json
| ToolOperationRecorded tool_call_id string tool_operation_context
| ToolApprovalRequested tool_call_id string "approval_request_snapshot option"
| ToolApprovalResolved tool_call_id string "string option" "approval_resolution option"
    approval_decision
| ToolExecutionFinished tool_call_id string tool_result_envelope
| PlanUpdated "plan_item list"
| BudgetConfigured budget_config
| ContextCompacted context_compacted
| BudgetCheckpoint u64 u32 u64 "f64 option"
| SessionQueuedMessageEnqueued message u64
| SessionQueuedMessageResolved event_id queued_message_resolution_outcome "string option"
| SessionCancelled string
| SessionCancelCleared string
| SessionSteered string u64
| SessionSteersResolved "event_id list" steer_resolution_outcome "string option" "string option"
| OperatorCommandRecorded string string string bool
| RawChunkPersisted string i64 string "u32 option"

primrec payload_kind :: "event_payload \<Rightarrow> string" where
  "payload_kind (SessionStarted a b) = ''session.started''"
| "payload_kind (SessionSpawnRequested a b c d) = ''session.spawn.requested''"
| "payload_kind (SessionSpawned a b c) = ''session.spawned''"
| "payload_kind (SessionHandoffRecorded a b c d e) = ''session.handoff.recorded''"
| "payload_kind (SessionResultImported a b c) = ''session.result.imported''"
| "payload_kind (SessionResultRejected a b) = ''session.result.rejected''"
| "payload_kind (RelatedSessionMessageRecorded a b c) = ''session.related_message.recorded''"
| "payload_kind (RelatedSessionMessageResolved a b c d) = ''session.related_message.resolved''"
| "payload_kind (RelatedSessionMessageSettled a b c d) = ''session.related_message.settled''"
| "payload_kind (SessionSettingsUpdated a b c d) = ''session.settings.updated''"
| "payload_kind (SessionEnded a) = ''session.ended''"
| "payload_kind (BranchCreated a b) = ''branch.created''"
| "payload_kind (BranchActivated a) = ''branch.activated''"
| "payload_kind (BranchSummarized a b c d) = ''branch.summarized''"
| "payload_kind (MessageAppended a) = ''message.appended''"
| "payload_kind (TurnStarted a b c d e f g) = ''turn.started''"
| "payload_kind (TurnInstructionProvenanceRecorded a) = ''turn.instructions.recorded''"
| "payload_kind (TurnContextManifestRecorded a) = ''turn.context_manifest.recorded''"
| "payload_kind (CompletionRequested a b c d) = ''completion.requested''"
| "payload_kind (CompletionChunk a b c) = ''completion.chunk''"
| "payload_kind (CompletionFinished a b c d e f g) = ''completion.finished''"
| "payload_kind (SessionError a b c d) = ''session.error''"
| "payload_kind (TurnFinished a b c d e f) = ''turn.finished''"
| "payload_kind (ToolCallRequested a b c) = ''tool.call.requested''"
| "payload_kind (ToolOperationRecorded a b c) = ''tool.operation.recorded''"
| "payload_kind (ToolApprovalRequested a b c) = ''tool.approval.requested''"
| "payload_kind (ToolApprovalResolved a b c d e) = ''tool.approval.resolved''"
| "payload_kind (ToolExecutionFinished a b c) = ''tool.execution.finished''"
| "payload_kind (PlanUpdated a) = ''plan.updated''"
| "payload_kind (BudgetConfigured a) = ''budget.configured''"
| "payload_kind (ContextCompacted a) = ''context.compacted''"
| "payload_kind (BudgetCheckpoint a b c d) = ''budget.checkpoint''"
| "payload_kind (SessionQueuedMessageEnqueued a b) = ''session.queued_message.enqueued''"
| "payload_kind (SessionQueuedMessageResolved a b c) = ''session.queued_message.resolved''"
| "payload_kind (SessionCancelled a) = ''session.cancelled''"
| "payload_kind (SessionCancelCleared a) = ''session.cancel.cleared''"
| "payload_kind (SessionSteered a b) = ''session.steered''"
| "payload_kind (SessionSteersResolved a b c d) = ''session.steers.resolved''"
| "payload_kind (OperatorCommandRecorded a b c d) = ''operator.command.recorded''"
| "payload_kind (RawChunkPersisted a b c d) = ''raw_chunk.persisted''"

subsection \<open>Envelopes (events.rs)\<close>

record event_envelope =
  ev_seq_id :: "i64 option"
  ev_event_id :: event_id
  ev_session_id :: session_id
  ev_branch_id :: branch_id
  ev_turn_id :: "turn_id option"
  ev_span_id :: span_id
  ev_parent_span_id :: "span_id option"
  ev_span_kind :: span_kind
  ev_occurred_at :: time
  ev_payload :: event_payload
  ev_attributes :: "(string \<times> json) list"

text \<open>\<open>BTreeMap::insert\<close> on the sorted entry list.\<close>

fun btree_insert :: "string \<Rightarrow> 'v \<Rightarrow> (string \<times> 'v) list \<Rightarrow> (string \<times> 'v) list" where
  "btree_insert k v [] = [(k, v)]"
| "btree_insert k v ((k', v') # es) =
     (if k < k' then (k, v) # (k', v') # es
      else if k = k' then (k, v) # es
      else (k', v') # btree_insert k v es)"

text \<open>\<open>EventEnvelope::new\<close>; the fresh event and span ids and the clock are arguments.\<close>

definition envelope_new ::
  "event_id \<Rightarrow> span_id \<Rightarrow> time \<Rightarrow> session_id \<Rightarrow> branch_id \<Rightarrow> span_kind \<Rightarrow> event_payload \<Rightarrow> event_envelope"
where
  "envelope_new fresh_event fresh_span now sid bid kind payload =
     \<lparr>ev_seq_id = None, ev_event_id = fresh_event, ev_session_id = sid, ev_branch_id = bid,
      ev_turn_id = None, ev_span_id = fresh_span, ev_parent_span_id = None, ev_span_kind = kind,
      ev_occurred_at = now, ev_payload = payload, ev_attributes = []\<rparr>"

definition with_attribute :: "event_envelope \<Rightarrow> string \<Rightarrow> json \<Rightarrow> event_envelope" where
  "with_attribute e key v = e\<lparr>ev_attributes := btree_insert key v (ev_attributes e)\<rparr>"

definition with_turn_id :: "event_envelope \<Rightarrow> turn_id \<Rightarrow> event_envelope" where
  "with_turn_id e t =
     e\<lparr>ev_turn_id := Some t,
       ev_attributes := btree_insert ''turn.id'' (JString (turn_id_text t)) (ev_attributes e)\<rparr>"

definition event_kind :: "event_envelope \<Rightarrow> string" where
  "event_kind e = payload_kind (ev_payload e)"

lemma map_of_btree_insert: "map_of (btree_insert k v es) k' = (if k' = k then Some v else map_of es k')"
  by (induction es) auto

lemma sorted_btree_insert:
  "sorted_wrt (<) (map fst es) \<Longrightarrow> sorted_wrt (<) (map fst (btree_insert k v es))"
proof -
  have keys: "set (map fst (btree_insert k v es)) = insert k (set (map fst es))" for es
    by (induction es rule: btree_insert.induct) auto
  show "sorted_wrt (<) (map fst es) \<Longrightarrow> sorted_wrt (<) (map fst (btree_insert k v es))"
  proof (induction es)
    case (Cons e es)
    obtain k' v' where e: "e = (k', v')" by (cases e)
    show ?case
      using Cons keys [of es] by (auto simp: e dest: less_trans)
  qed simp
qed

text \<open>The kind labels identify the variant of a payload, so filtering a log by \<open>event_kind\<close> is
  filtering it by variant.\<close>

lemma payload_kind_turn_started: "payload_kind p = ''turn.started'' \<longleftrightarrow> (\<exists>a b c d e f g. p = TurnStarted a b c d e f g)"
  by (cases p) simp_all

lemma payload_kind_turn_finished: "payload_kind p = ''turn.finished'' \<longleftrightarrow> (\<exists>a b c d e f. p = TurnFinished a b c d e f)"
  by (cases p) simp_all

end
