(* ===== verification/Bt_Sql.thy ===== *)
theory Bt_Sql
  imports Bt_Events
begin

section \<open>SQLite tables\<close>

text \<open>
  The store's SQL statements work on tables with a primary key. A table is the list of its rows in
  insertion order; each statement shape the source uses is one operation:
  \<open>INSERT\<close> (refused when the key is taken), \<open>INSERT ... ON CONFLICT DO UPDATE\<close> and \<open>INSERT OR
  REPLACE\<close>, \<open>UPDATE ... WHERE\<close>, \<open>DELETE ... WHERE\<close> and the \<open>SELECT\<close> forms.

  The locale \<open>keyed_table\<close> is the contract a primary key gives its clients: keys stay unique and a
  row is found under its key after every statement. It is interpreted for every table of the store
  that is updated by upsert, with the table's key column and its \<open>DO UPDATE SET\<close> clause.
\<close>

definition sql_insert :: "('r \<Rightarrow> 'k) \<Rightarrow> 'r \<Rightarrow> 'r list \<Rightarrow> 'r list option" where
  "sql_insert key r t = (if key r \<in> set (map key t) then None else Some (t @ [r]))"

definition sql_upsert :: "('r \<Rightarrow> 'k) \<Rightarrow> ('r \<Rightarrow> 'r \<Rightarrow> 'r) \<Rightarrow> 'r \<Rightarrow> 'r list \<Rightarrow> 'r list" where
  "sql_upsert key merge excluded t =
     (if key excluded \<in> set (map key t)
      then map (\<lambda>r. if key r = key excluded then merge r excluded else r) t
      else t @ [excluded])"

text \<open>\<open>INSERT OR REPLACE\<close> deletes the conflicting row and inserts the new one.\<close>

definition sql_replace :: "('r \<Rightarrow> 'k) \<Rightarrow> 'r \<Rightarrow> 'r list \<Rightarrow> 'r list" where
  "sql_replace key r t = filter (\<lambda>x. key x \<noteq> key r) t @ [r]"

definition sql_update :: "('r \<Rightarrow> bool) \<Rightarrow> ('r \<Rightarrow> 'r) \<Rightarrow> 'r list \<Rightarrow> 'r list" where
  "sql_update p f t = map (\<lambda>r. if p r then f r else r) t"

definition sql_delete :: "('r \<Rightarrow> bool) \<Rightarrow> 'r list \<Rightarrow> 'r list" where
  "sql_delete p t = filter (\<lambda>r. \<not> p r) t"

definition sql_exists :: "('r \<Rightarrow> bool) \<Rightarrow> 'r list \<Rightarrow> bool" where
  "sql_exists p t \<longleftrightarrow> list_ex p t"

definition sql_lookup :: "('r \<Rightarrow> 'k) \<Rightarrow> 'k \<Rightarrow> 'r list \<Rightarrow> 'r option" where
  "sql_lookup key k t = List.find (\<lambda>r. key r = k) t"

text \<open>\<open>SELECT ... WHERE p ORDER BY c ASC\<close>.\<close>

definition sql_ordered :: "('r \<Rightarrow> int) \<Rightarrow> ('r \<Rightarrow> bool) \<Rightarrow> 'r list \<Rightarrow> 'r list" where
  "sql_ordered c p t = sort_key c (filter p t)"

lemma sql_exists_iff [simp]: "sql_exists p t \<longleftrightarrow> (\<exists>r \<in> set t. p r)"
  by (simp add: sql_exists_def list_ex_iff)

lemma sql_insert_Some: "sql_insert key r t = Some t' \<longleftrightarrow> key r \<notin> set (map key t) \<and> t' = t @ [r]"
  by (auto simp: sql_insert_def)

lemma sql_insert_None: "sql_insert key r t = None \<longleftrightarrow> key r \<in> set (map key t)"
  by (auto simp: sql_insert_def)

lemma sql_lookup_SomeD: "sql_lookup key k t = Some r \<Longrightarrow> r \<in> set t \<and> key r = k"
  by (auto simp: sql_lookup_def dest: find_SomeD)

lemma sql_lookup_None_iff: "sql_lookup key k t = None \<longleftrightarrow> k \<notin> set (map key t)"
  by (auto simp: sql_lookup_def find_None_iff)

lemma sql_lookup_append:
  "sql_lookup key k (t @ u) = (case sql_lookup key k t of None \<Rightarrow> sql_lookup key k u | Some r \<Rightarrow> Some r)"
  by (simp add: sql_lookup_def find_append split: option.split)

lemma sql_lookup_Nil [simp]: "sql_lookup key k [] = None"
  by (simp add: sql_lookup_def)

lemma sql_lookup_Cons [simp]:
  "sql_lookup key k (r # t) = (if key r = k then Some r else sql_lookup key k t)"
  by (simp add: sql_lookup_def)

lemma sql_lookup_update:
  assumes "\<And>r. key (f r) = key r"
  shows "sql_lookup key k (sql_update p f t) =
    map_option (\<lambda>r. if p r then f r else r) (sql_lookup key k t)"
  by (induction t) (auto simp: sql_update_def sql_lookup_def assms)

lemma map_key_update:
  assumes "\<And>r. key (f r) = key r"
  shows "map key (sql_update p f t) = map key t"
  by (induction t) (auto simp: sql_update_def assms)

lemma sql_update_cong_id: "(\<And>r. r \<in> set t \<Longrightarrow> p r \<Longrightarrow> f r = r) \<Longrightarrow> sql_update p f t = t"
  by (induction t) (auto simp: sql_update_def)

lemma set_sql_update: "set (sql_update p f t) = (\<lambda>r. if p r then f r else r) ` set t"
  by (auto simp: sql_update_def)

lemma sql_lookup_delete_key:
  "sql_lookup key k (sql_delete (\<lambda>r. key r = k') t) = (if k = k' then None else sql_lookup key k t)"
  by (induction t) (auto simp: sql_delete_def sql_lookup_def)

lemma distinct_delete: "distinct (map key t) \<Longrightarrow> distinct (map key (sql_delete p t))"
  by (simp add: sql_delete_def distinct_map_filter)

lemma sql_lookup_replace:
  "sql_lookup key k (sql_replace key r t) = (if k = key r then Some r else sql_lookup key k t)"
proof -
  have "sql_lookup key k (filter (\<lambda>x. key x \<noteq> key r) t) = (if k = key r then None else sql_lookup key k t)"
    by (induction t) auto
  then show ?thesis
    by (auto simp: sql_replace_def sql_lookup_append split: option.split)
qed

lemma distinct_replace: "distinct (map key t) \<Longrightarrow> distinct (map key (sql_replace key r t))"
  by (auto simp: sql_replace_def distinct_map_filter)

subsection \<open>The contract of a primary key\<close>

locale keyed_table =
  fixes key :: "'r \<Rightarrow> 'k"
    and merge :: "'r \<Rightarrow> 'r \<Rightarrow> 'r"
  assumes key_merge: "key (merge old excluded) = key old"
begin

lemma keys_merged: "map key (map (\<lambda>x. if key x = key r then merge x r else x) t) = map key t"
  by (simp add: key_merge)

lemma keys_upsert: "set (map key (sql_upsert key merge r t)) = insert (key r) (set (map key t))"
proof (cases "key r \<in> set (map key t)")
  case True
  then show ?thesis by (simp only: sql_upsert_def if_True keys_merged insert_absorb)
next
  case False
  then show ?thesis by (simp add: sql_upsert_def)
qed

lemma distinct_upsert:
  assumes "distinct (map key t)"
  shows "distinct (map key (sql_upsert key merge r t))"
proof (cases "key r \<in> set (map key t)")
  case True
  with assms show ?thesis by (simp only: sql_upsert_def if_True keys_merged)
next
  case False
  with assms show ?thesis by (simp add: sql_upsert_def)
qed

lemma distinct_insert:
  "distinct (map key t) \<Longrightarrow> sql_insert key r t = Some t' \<Longrightarrow> distinct (map key t')"
  by (auto simp: sql_insert_Some)

lemma lookup_upsert_same:
  "sql_lookup key (key r) (sql_upsert key merge r t) =
     Some (case sql_lookup key (key r) t of None \<Rightarrow> r | Some old \<Rightarrow> merge old r)"
proof (cases "key r \<in> set (map key t)")
  case True
  then show ?thesis
    by (induction t) (auto simp: sql_upsert_def sql_lookup_def key_merge)
next
  case False
  then have "sql_lookup key (key r) t = None" by (simp add: sql_lookup_None_iff)
  with False show ?thesis
    by (auto simp: sql_upsert_def sql_lookup_append)
qed

lemma lookup_upsert_other:
  assumes "k \<noteq> key r"
  shows "sql_lookup key k (sql_upsert key merge r t) = sql_lookup key k t"
proof -
  have "sql_lookup key k (map (\<lambda>x. if key x = key r then merge x r else x) t) = sql_lookup key k t"
    using assms by (induction t) (auto simp: sql_lookup_def key_merge)
  with assms show ?thesis
    by (auto simp: sql_upsert_def sql_lookup_append split: option.splits)
qed

lemma lookup_upsert:
  "sql_lookup key k (sql_upsert key merge r t) =
     (if k = key r then Some (case sql_lookup key k t of None \<Rightarrow> r | Some old \<Rightarrow> merge old r)
      else sql_lookup key k t)"
  by (simp add: lookup_upsert_same lookup_upsert_other)

lemma lookup_insert:
  assumes "sql_insert key r t = Some t'"
  shows "sql_lookup key k t' = (if k = key r then Some r else sql_lookup key k t)"
proof -
  from assms have "sql_lookup key (key r) t = None" "t' = t @ [r]"
    by (auto simp: sql_insert_Some sql_lookup_None_iff)
  then show ?thesis
    by (cases "sql_lookup key k t") (auto simp: sql_lookup_append)
qed

end

end
