(* ===== verification/Bt_TurnProjection.thy ===== *)
theory Bt_TurnProjection
  imports Bt_Sql
begin

section \<open>The turn projection fold\<close>

text \<open>
  \<open>bt-session/src/turn_projection.rs\<close>: the fold that turns the events of one turn into one summary
  row, and the row codec. The fold is used by the incremental refresh inside the append
  transaction (\<open>Bt_Projections\<close>) and by the rebuild at migration time (\<open>Bt_Replay\<close>).
\<close>

record turn_tool_call_summary =
  tt_call_id :: tool_call_id
  tt_tool_name :: string
  tt_approval_status :: "string option"
  tt_execution_status :: "string option"

record turn_inspection =
  ti_turn_id :: turn_id
  ti_branch_id :: branch_id
  ti_provider :: string
  ti_model :: string
  ti_message_count :: u32
  ti_settings_revision_id :: u64
  ti_started_at :: time
  ti_finished_at :: "time option"
  ti_status :: "string option"
  ti_finish_reason :: "string option"
  ti_latency_ms :: "u64 option"
  ti_event_seq_start :: "i64 option"
  ti_event_seq_end :: "i64 option"
  ti_event_count :: u32
  ti_pending_approval_count :: u32
  ti_raw_chunk_count :: u32
  ti_tool_calls :: "turn_tool_call_summary list"

definition projected_turn_id :: "event_envelope \<Rightarrow> turn_id option" where
  "projected_turn_id e =
     (case ev_turn_id e of
        Some t \<Rightarrow> Some t
      | None \<Rightarrow> (case ev_payload e of
           TurnStarted t _ _ _ _ _ _ \<Rightarrow> Some t
         | TurnFinished t _ _ _ _ _ \<Rightarrow> Some t
         | TurnInstructionProvenanceRecorded p \<Rightarrow> Some (ip_turn_id p)
         | _ \<Rightarrow> None))"

definition new_turn_projection :: "event_envelope \<Rightarrow> turn_id \<Rightarrow> i64 \<Rightarrow> turn_inspection" where
  "new_turn_projection e t seq =
     \<lparr>ti_turn_id = t, ti_branch_id = ev_branch_id e, ti_provider = [], ti_model = [],
      ti_message_count = 0, ti_settings_revision_id = default_settings_revision_id,
      ti_started_at = ev_occurred_at e, ti_finished_at = None, ti_status = None,
      ti_finish_reason = None, ti_latency_ms = None, ti_event_seq_start = Some seq,
      ti_event_seq_end = Some seq, ti_event_count = 0, ti_pending_approval_count = 0,
      ti_raw_chunk_count = 0, ti_tool_calls = []\<rparr>"

text \<open>\<open>ensure_tool_call\<close> returns a mutable reference to the entry of the call, which it creates when
  there is none; the update through the reference is the argument \<open>f\<close>. Only the first entry with
  the call id is updated, as \<open>position\<close> finds it.\<close>

fun update_first :: "('a \<Rightarrow> bool) \<Rightarrow> ('a \<Rightarrow> 'a) \<Rightarrow> 'a list \<Rightarrow> 'a list" where
  "update_first p f [] = []"
| "update_first p f (x # xs) = (if p x then f x # xs else x # update_first p f xs)"

definition ensure_tool_call ::
  "turn_tool_call_summary list \<Rightarrow> tool_call_id \<Rightarrow> string
     \<Rightarrow> (turn_tool_call_summary \<Rightarrow> turn_tool_call_summary) \<Rightarrow> turn_tool_call_summary list" where
  "ensure_tool_call calls cid name f =
     (if list_ex (\<lambda>t. tt_call_id t = cid) calls
      then update_first (\<lambda>t. tt_call_id t = cid) f calls
      else calls @ [f \<lparr>tt_call_id = cid, tt_tool_name = name, tt_approval_status = None,
                       tt_execution_status = None\<rparr>])"

definition fold_turn_payload :: "turn_inspection \<Rightarrow> event_envelope \<Rightarrow> i64 \<Rightarrow> turn_inspection" where
  "fold_turn_payload turn e seq =
     (case ev_payload e of
        TurnStarted _ provider model message_count revision _ _ \<Rightarrow>
          turn\<lparr>ti_provider := provider, ti_model := model, ti_message_count := message_count,
               ti_settings_revision_id := revision, ti_started_at := ev_occurred_at e,
               ti_event_seq_start := Some seq\<rparr>
      | CompletionRequested _ provider model message_count \<Rightarrow>
          turn\<lparr>ti_provider := (if ti_provider turn = [] then provider else ti_provider turn),
               ti_model := (if ti_model turn = [] then model else ti_model turn),
               ti_message_count :=
                 (if ti_message_count turn = 0 then message_count else ti_message_count turn)\<rparr>
      | SessionError _ code _ _ \<Rightarrow>
          (if ti_finish_reason turn = None then turn\<lparr>ti_finish_reason := Some code\<rparr> else turn)
      | TurnFinished _ provider model status finish_reason latency \<Rightarrow>
          turn\<lparr>ti_provider := provider, ti_model := model, ti_status := Some status,
               ti_finish_reason := finish_reason, ti_latency_ms := Some latency,
               ti_finished_at := Some (ev_occurred_at e)\<rparr>
      | RawChunkPersisted _ _ _ _ \<Rightarrow> turn\<lparr>ti_raw_chunk_count := ti_raw_chunk_count turn + 1\<rparr>
      | ToolCallRequested cid name _ \<Rightarrow>
          turn\<lparr>ti_tool_calls := ensure_tool_call (ti_tool_calls turn) cid name
            (\<lambda>t. t\<lparr>tt_tool_name := name, tt_approval_status := None, tt_execution_status := None\<rparr>)\<rparr>
      | ToolApprovalRequested cid name _ \<Rightarrow>
          turn\<lparr>ti_tool_calls := ensure_tool_call (ti_tool_calls turn) cid name
                 (\<lambda>t. t\<lparr>tt_approval_status := Some ''pending''\<rparr>),
               ti_pending_approval_count := ti_pending_approval_count turn + 1\<rparr>
      | ToolApprovalResolved cid name _ _ decision \<Rightarrow>
          turn\<lparr>ti_tool_calls := ensure_tool_call (ti_tool_calls turn) cid name
                 (\<lambda>t. t\<lparr>tt_approval_status := Some
                    (case decision of Approved _ _ _ _ \<Rightarrow> ''approved'' | Denied _ _ _ _ _ \<Rightarrow> ''denied'')\<rparr>),
               ti_pending_approval_count :=
                 (if ti_pending_approval_count turn > 0 then ti_pending_approval_count turn - 1
                  else ti_pending_approval_count turn)\<rparr>
      | ToolExecutionFinished cid name result \<Rightarrow>
          turn\<lparr>ti_tool_calls := ensure_tool_call (ti_tool_calls turn) cid name
            (\<lambda>t. t\<lparr>tt_execution_status := Some (if tr_is_error result then ''error'' else ''completed'')\<rparr>)\<rparr>
      | _ \<Rightarrow> turn)"

definition apply_turn_projection_event ::
  "turn_inspection \<Rightarrow> event_envelope \<Rightarrow> i64 \<Rightarrow> turn_inspection" where
  "apply_turn_projection_event turn e seq =
     fold_turn_payload
       (turn\<lparr>ti_event_count := ti_event_count turn + 1,
             ti_event_seq_start :=
               (if ti_event_seq_start turn = None then Some seq else ti_event_seq_start turn),
             ti_event_seq_end := Some seq\<rparr>) e seq"

subsection \<open>Row codec\<close>

text \<open>A row of \<open>turn_projection\<close>: the counters are INTEGER columns, the tool calls are stored as
  JSON (the value itself here).\<close>

record turn_row =
  tp_session_id :: session_id
  tp_branch_id :: branch_id
  tp_turn_id :: turn_id
  tp_provider :: string
  tp_model :: string
  tp_message_count :: i64
  tp_settings_revision_id :: i64
  tp_started_at :: time
  tp_finished_at :: "time option"
  tp_status :: "string option"
  tp_finish_reason :: "string option"
  tp_latency_ms :: "i64 option"
  tp_event_seq_start :: "i64 option"
  tp_event_seq_end :: "i64 option"
  tp_event_count :: i64
  tp_pending_approval_count :: i64
  tp_raw_chunk_count :: i64
  tp_tool_calls :: "turn_tool_call_summary list"

definition turn_row_key :: "turn_row \<Rightarrow> session_id \<times> turn_id" where
  "turn_row_key r = (tp_session_id r, tp_turn_id r)"

definition turn_row_of :: "session_id \<Rightarrow> turn_inspection \<Rightarrow> turn_row" where
  "turn_row_of sid t =
     \<lparr>tp_session_id = sid, tp_branch_id = ti_branch_id t, tp_turn_id = ti_turn_id t,
      tp_provider = ti_provider t, tp_model = ti_model t,
      tp_message_count = uint (ti_message_count t),
      tp_settings_revision_id = as_i64 (ti_settings_revision_id t),
      tp_started_at = ti_started_at t, tp_finished_at = ti_finished_at t,
      tp_status = ti_status t, tp_finish_reason = ti_finish_reason t,
      tp_latency_ms = map_option as_i64 (ti_latency_ms t),
      tp_event_seq_start = ti_event_seq_start t, tp_event_seq_end = ti_event_seq_end t,
      tp_event_count = uint (ti_event_count t),
      tp_pending_approval_count = uint (ti_pending_approval_count t),
      tp_raw_chunk_count = uint (ti_raw_chunk_count t), tp_tool_calls = ti_tool_calls t\<rparr>"

definition upsert_turn_projection :: "session_id \<Rightarrow> turn_inspection \<Rightarrow> turn_row list \<Rightarrow> turn_row list" where
  "upsert_turn_projection sid t table = sql_replace turn_row_key (turn_row_of sid t) table"

text \<open>\<open>u32::try_from(i64)\<close> and \<open>u64::try_from(i64)\<close>.\<close>

definition try_u32 :: "i64 \<Rightarrow> u32 option" where
  "try_u32 i = (if 0 \<le> i \<and> i < 2 ^ 32 then Some (word_of_int i) else None)"

definition try_u64 :: "i64 \<Rightarrow> u64 option" where
  "try_u64 i = (if 0 \<le> i \<and> i < 2 ^ 64 then Some (word_of_int i) else None)"

fun try_u64_opt :: "i64 option \<Rightarrow> u64 option option" where
  "try_u64_opt None = Some None"
| "try_u64_opt (Some i) = map_option Some (try_u64 i)"

definition conversion_failed :: belltower_error where
  "conversion_failed = Storage ''out of range integral type conversion attempted''"

definition parse_turn_projection_row :: "turn_row \<Rightarrow> turn_inspection result" where
  "parse_turn_projection_row r =
     and_then (ok_or conversion_failed (try_u32 (tp_message_count r))) (\<lambda>message_count.
     and_then (ok_or conversion_failed (try_u64 (tp_settings_revision_id r))) (\<lambda>revision.
     and_then (ok_or conversion_failed (try_u64_opt (tp_latency_ms r))) (\<lambda>latency.
     and_then (ok_or conversion_failed (try_u32 (tp_event_count r))) (\<lambda>event_count.
     and_then (ok_or conversion_failed (try_u32 (tp_pending_approval_count r))) (\<lambda>pending.
     and_then (ok_or conversion_failed (try_u32 (tp_raw_chunk_count r))) (\<lambda>raw_chunks.
     Inr \<lparr>ti_turn_id = tp_turn_id r, ti_branch_id = tp_branch_id r, ti_provider = tp_provider r,
          ti_model = tp_model r, ti_message_count = message_count,
          ti_settings_revision_id = revision, ti_started_at = tp_started_at r,
          ti_finished_at = tp_finished_at r, ti_status = tp_status r,
          ti_finish_reason = tp_finish_reason r, ti_latency_ms = latency,
          ti_event_seq_start = tp_event_seq_start r, ti_event_seq_end = tp_event_seq_end r,
          ti_event_count = event_count, ti_pending_approval_count = pending,
          ti_raw_chunk_count = raw_chunks, ti_tool_calls = tp_tool_calls r\<rparr>))))))"

definition load_turn_projection ::
  "session_id \<Rightarrow> turn_id \<Rightarrow> turn_row list \<Rightarrow> turn_inspection option result" where
  "load_turn_projection sid tid table =
     (case sql_lookup turn_row_key (sid, tid) table of
        None \<Rightarrow> Inr None
      | Some r \<Rightarrow> and_then (parse_turn_projection_row r) (\<lambda>t. Inr (Some t)))"

fun collect_results :: "('r \<Rightarrow> 'a result) \<Rightarrow> 'r list \<Rightarrow> 'a list result" where
  "collect_results f [] = Inr []"
| "collect_results f (r # rs) = and_then (f r) (\<lambda>a. and_then (collect_results f rs) (\<lambda>as. Inr (a # as)))"

text \<open>\<open>ORDER BY event_seq_start ASC\<close> puts NULL first, as SQLite does.\<close>

definition load_turn_projections_ordered :: "session_id \<Rightarrow> turn_row list \<Rightarrow> turn_inspection list result" where
  "load_turn_projections_ordered sid table =
     collect_results parse_turn_projection_row
       (let rows = filter (\<lambda>r. tp_session_id r = sid) table
        in filter (\<lambda>r. tp_event_seq_start r = None) rows
           @ sort_key (\<lambda>r. the (tp_event_seq_start r)) (filter (\<lambda>r. tp_event_seq_start r \<noteq> None) rows))"

subsection \<open>Facts about the codec\<close>

lemma try_u32_uint [simp]: "try_u32 (uint w) = Some w"
  using uint_lt2p [of w] by (simp add: try_u32_def)

lemma try_u64_as_i64: "try_u64 (as_i64 w) = (if uint w < 2 ^ 63 then Some w else None)"
  using uint_lt2p [of w] by (auto simp: try_u64_def as_i64_def)

definition turn_storable :: "turn_inspection \<Rightarrow> bool" where
  "turn_storable t \<longleftrightarrow> uint (ti_settings_revision_id t) < 2 ^ 63
     \<and> (\<forall>l. ti_latency_ms t = Some l \<longrightarrow> uint l < 2 ^ 63)"

lemma try_u64_opt_as_i64:
  "try_u64_opt (map_option as_i64 x) = (if \<forall>l. x = Some l \<longrightarrow> uint l < 2 ^ 63 then Some x else None)"
  by (cases x) (auto simp: try_u64_as_i64)

lemma parse_turn_row_of:
  "parse_turn_projection_row (turn_row_of sid t) =
     (if turn_storable t then Inr t else Inl conversion_failed)"
  by (auto simp: parse_turn_projection_row_def turn_row_of_def turn_storable_def try_u64_as_i64
      try_u64_opt_as_i64)

lemma turn_row_key_of [simp]: "turn_row_key (turn_row_of sid t) = (sid, ti_turn_id t)"
  by (simp add: turn_row_key_def turn_row_of_def)

lemma fold_turn_payload_turn_id [simp]: "ti_turn_id (fold_turn_payload t e s) = ti_turn_id t"
  by (cases "ev_payload e") (simp_all add: fold_turn_payload_def)

lemma apply_turn_id [simp]: "ti_turn_id (apply_turn_projection_event t e s) = ti_turn_id t"
  by (simp add: apply_turn_projection_event_def)

lemma fold_turn_payload_frame [simp]:
  "ti_branch_id (fold_turn_payload t e s) = ti_branch_id t"
  "ti_event_count (fold_turn_payload t e s) = ti_event_count t"
  "ti_event_seq_end (fold_turn_payload t e s) = ti_event_seq_end t"
  by (cases "ev_payload e"; simp add: fold_turn_payload_def)+

lemma apply_turn_frame:
  "ti_branch_id (apply_turn_projection_event t e s) = ti_branch_id t"
  "ti_event_count (apply_turn_projection_event t e s) = ti_event_count t + 1"
  "ti_event_seq_end (apply_turn_projection_event t e s) = Some s"
  by (simp_all add: apply_turn_projection_event_def)

subsection \<open>Tool calls of a turn\<close>

lemma update_first_keys:
  assumes "\<And>t. tt_call_id (f t) = tt_call_id t"
  shows "map tt_call_id (update_first p f calls) = map tt_call_id calls"
  by (induction calls) (simp_all add: assms)

lemma ensure_tool_call_distinct:
  assumes "\<And>t. tt_call_id (f t) = tt_call_id t" "distinct (map tt_call_id calls)"
  shows "distinct (map tt_call_id (ensure_tool_call calls cid name f))"
  using assms by (auto simp: ensure_tool_call_def update_first_keys list_ex_iff image_iff)

lemma fold_turn_payload_calls_distinct:
  "distinct (map tt_call_id (ti_tool_calls t)) \<Longrightarrow>
     distinct (map tt_call_id (ti_tool_calls (fold_turn_payload t e s)))"
  by (cases "ev_payload e") (simp_all add: fold_turn_payload_def ensure_tool_call_distinct)

text \<open>The number of calls whose approval is pending, according to the call summaries.\<close>

definition pending_calls :: "turn_inspection \<Rightarrow> nat" where
  "pending_calls t = length (filter (\<lambda>c. tt_approval_status c = Some ''pending'') (ti_tool_calls t))"

end
