(* ===== verification/Bt_Database.thy ===== *)
theory Bt_Database
  imports Bt_TurnProjection
begin

section \<open>The session database\<close>

text \<open>
  The tables of \<open>bt-session/src/migration.rs\<close> as one record, a row type per table with the columns
  the statements read and write, the enum codec of \<open>store/codec.rs\<close>, and the row inserts of
  \<open>store.rs\<close> that the write paths share.

  JSON columns hold the value they encode; a column with the text of an identifier holds the
  identifier. Integer columns are \<open>int\<close> and the casts into and out of them are written out. An
  \<open>AUTOINCREMENT\<close> table keeps the counter SQLite keeps in \<open>sqlite_sequence\<close>; when it is exhausted the
  insert fails, as SQLite's does. Foreign keys are enforced (\<open>PRAGMA foreign_keys=ON\<close>).
\<close>

subsection \<open>Enum codec (store/codec.rs)\<close>

primrec session_status_to_str :: "session_status \<Rightarrow> string" where
  "session_status_to_str Active = ''active''"
| "session_status_to_str Completed = ''completed''"
| "session_status_to_str Failed = ''failed''"
| "session_status_to_str Abandoned = ''abandoned''"

primrec session_tool_mode_to_str :: "session_tool_mode \<Rightarrow> string" where
  "session_tool_mode_to_str Standard = ''standard''"
| "session_tool_mode_to_str Extended = ''extended''"

definition parse_session_tool_mode :: "string \<Rightarrow> session_tool_mode" where
  "parse_session_tool_mode v = (if v = ''standard'' then Standard else Extended)"

definition parse_status :: "string \<Rightarrow> session_status" where
  "parse_status v =
     (if v = ''completed'' then Completed else if v = ''failed'' then Failed
      else if v = ''abandoned'' then Abandoned else Active)"

primrec span_kind_to_str :: "span_kind \<Rightarrow> string" where
  "span_kind_to_str SkSession = ''session''"
| "span_kind_to_str SkAgent = ''agent''"
| "span_kind_to_str SkLlm = ''llm''"
| "span_kind_to_str SkTool = ''tool''"
| "span_kind_to_str SkChain = ''chain''"

primrec approval_status :: "approval_decision \<Rightarrow> string" where
  "approval_status (Approved a b c d) = ''approved''"
| "approval_status (Denied a b c d e) = ''denied''"

primrec queued_message_resolution_status :: "queued_message_resolution_outcome \<Rightarrow> string" where
  "queued_message_resolution_status QDispatched = ''dispatched''"
| "queued_message_resolution_status QDropped = ''dropped''"

primrec steer_resolution_status :: "steer_resolution_outcome \<Rightarrow> string" where
  "steer_resolution_status SApplied = ''applied''"
| "steer_resolution_status SDropped = ''dropped''"

primrec related_message_direction :: "related_session_message_direction \<Rightarrow> string" where
  "related_message_direction Sent = ''sent''"
| "related_message_direction Received = ''received''"

primrec related_message_status :: "related_session_message_status \<Rightarrow> string" where
  "related_message_status RmDelivered = ''delivered''"
| "related_message_status RmPending = ''pending''"
| "related_message_status RmClaimed = ''claimed''"
| "related_message_status RmDropped = ''dropped''"

definition parse_related_message_status :: "string \<Rightarrow> related_session_message_status result" where
  "parse_related_message_status v =
     (if v = ''delivered'' then Inr RmDelivered else if v = ''pending'' then Inr RmPending
      else if v = ''claimed'' then Inr RmClaimed else if v = ''dropped'' then Inr RmDropped
      else Inl (Storage (''unknown related-session message status `'' @ v @ ''`'')))"

subsection \<open>Numeric columns\<close>

text \<open>SQLite integer addition: the sum of two integers that leaves the 64-bit range is a REAL.\<close>

datatype sql_number = SqlInt int | SqlReal f64

definition in_i64 :: "int \<Rightarrow> bool" where
  "in_i64 i \<longleftrightarrow> - (2 ^ 63) \<le> i \<and> i \<le> i64_max"

fun sql_to_real :: "sql_number \<Rightarrow> f64" where
  "sql_to_real (SqlInt i) = f64_round (i * 2 ^ 1074)"
| "sql_to_real (SqlReal x) = x"

fun sql_add :: "sql_number \<Rightarrow> sql_number \<Rightarrow> sql_number" where
  "sql_add (SqlInt a) (SqlInt b) =
     (if in_i64 (a + b) then SqlInt (a + b)
      else SqlReal (f64_add (sql_to_real (SqlInt a)) (sql_to_real (SqlInt b))))"
| "sql_add a b = SqlReal (f64_add (sql_to_real a) (sql_to_real b))"

text \<open>Binding a \<open>u64\<close> parameter: rusqlite refuses a value above \<open>i64::MAX\<close>.\<close>

definition bind_u64 :: "u64 \<Rightarrow> sql_number result" where
  "bind_u64 w =
     (if uint w \<le> i64_max then Inr (SqlInt (uint w))
      else Inl (Storage ''out of range integral type conversion attempted''))"

definition unique_failed :: "string \<Rightarrow> belltower_error" where
  "unique_failed columns = Storage (''UNIQUE constraint failed: '' @ columns)"

definition not_null_failed :: "string \<Rightarrow> belltower_error" where
  "not_null_failed column = Storage (''NOT NULL constraint failed: '' @ column)"

definition foreign_key_failed :: belltower_error where
  "foreign_key_failed = Storage ''FOREIGN KEY constraint failed''"

definition no_rows :: belltower_error where
  "no_rows = Storage ''Query returned no rows''"

subsection \<open>Rows\<close>

record session_row =
  se_session_id :: session_id
  se_project_root :: string
  se_connection_id :: string
  se_model_id :: "string option"
  se_tool_mode :: string
  se_settings_revision_id :: i64
  se_created_at :: time
  se_updated_at :: time
  se_status :: string
  se_display_name :: "string option"
  se_objective :: "string option"
  se_parent_session_id :: "session_id option"
  se_parent_branch_id :: "branch_id option"
  se_parent_turn_id :: "turn_id option"

record event_row =
  er_seq_id :: i64
  er_event :: event_envelope

record raw_chunk_row =
  rc_chunk_id :: i64
  rc_session_id :: session_id
  rc_branch_id :: branch_id
  rc_turn_id :: "turn_id option"
  rc_llm_call_ordinal :: "u32 option"
  rc_event_id :: "string option"
  rc_provider :: string
  rc_stream_name :: string
  rc_content :: string
  rc_received_at :: time

record message_row =
  mr_event_id :: event_id
  mr_session_id :: session_id
  mr_branch_id :: branch_id
  mr_message_id :: message_id
  mr_role :: role
  mr_message :: message
  mr_created_at :: time

record manifest_row =
  mn_session_id :: session_id
  mn_branch_id :: branch_id
  mn_turn_id :: turn_id
  mn_llm_call_ordinal :: u32
  mn_manifest :: context_manifest
  mn_recorded_event_id :: event_id
  mn_recorded_seq_id :: i64
  mn_recorded_at :: time

record branch_head_row =
  bh_branch_id :: branch_id
  bh_session_id :: session_id
  bh_head_event_seq :: i64
  bh_updated_at :: time

record cost_row =
  co_session_id :: session_id
  co_prompt_tokens :: sql_number
  co_completion_tokens :: sql_number
  co_total_tokens :: sql_number
  co_total_cost_usd :: f64
  co_unpriced_completion_count :: sql_number
  co_updated_at :: time

record budget_row =
  bu_session_id :: session_id
  bu_max_wall_clock_seconds :: "i64 option"
  bu_max_tokens :: "i64 option"
  bu_max_turns :: "i64 option"
  bu_max_cost_usd :: "f64 option"
  bu_tokens_used :: i64
  bu_turns_used :: i64
  bu_elapsed_seconds :: i64
  bu_cost_used_usd :: "f64 option"
  bu_updated_at :: time

record plan_row =
  pl_session_id :: session_id
  pl_branch_id :: branch_id
  pl_items :: "plan_item list"
  pl_updated_at :: time

record control_row =
  ct_session_id :: session_id
  ct_cancel_requested :: bool
  ct_updated_at :: time

record active_turn_row =
  at_session_id :: session_id
  at_branch_id :: branch_id
  at_turn_id :: turn_id
  at_started_seq_id :: i64
  at_started_at :: time

record queued_row =
  qu_queue_event_id :: event_id
  qu_session_id :: session_id
  qu_branch_id :: branch_id
  qu_message :: message
  qu_settings_revision_id :: i64
  qu_status :: string
  qu_source_seq :: i64
  qu_enqueued_at :: time
  qu_resolved_at :: "time option"

record steer_row =
  st_steer_event_id :: event_id
  st_session_id :: session_id
  st_branch_id :: branch_id
  st_message :: string
  st_settings_revision_id :: i64
  st_status :: string
  st_source_seq :: i64
  st_enqueued_at :: time
  st_resolved_at :: "time option"

text \<open>The settlement columns are written together, so they are one optional value.\<close>

record settlement_columns =
  sl_event_id :: event_id
  sl_reply_message_id :: related_session_message_id
  sl_reply_kind :: related_session_message_kind
  sl_settling_turn_id :: turn_id
  sl_seq :: i64
  sl_settled_at :: time

record related_row =
  re_session_id :: session_id
  re_message_id :: related_session_message_id
  re_direction :: string
  re_event_id :: event_id
  re_counterpart_event_id :: event_id
  re_source_session_id :: session_id
  re_destination_session_id :: session_id
  re_message :: related_session_message
  re_status :: string
  re_source_seq :: i64
  re_resulting_turn_id :: "turn_id option"
  re_created_at :: time
  re_resolved_at :: "time option"
  re_settlement :: "settlement_columns option"

record settings_revision_row =
  sv_session_id :: session_id
  sv_settings_revision_id :: i64
  sv_connection_id :: string
  sv_model_id :: "string option"
  sv_tool_mode :: string
  sv_updated_at :: time

record approval_row =
  av_session_id :: session_id
  av_call_id :: tool_call_id
  av_tool_name :: string
  av_status :: string
  av_branch_id :: "branch_id option"
  av_turn_id :: "turn_id option"
  av_requested_seq_id :: "i64 option"
  av_request_fingerprint :: "string option"
  av_request_snapshot :: "approval_request_snapshot option"
  av_decision :: "approval_decision option"
  av_resolution :: "approval_resolution option"
  av_updated_at :: time

record tool_run_row =
  tn_session_id :: session_id
  tn_call_id :: tool_call_id
  tn_tool_name :: string
  tn_status :: string
  tn_branch_id :: "branch_id option"
  tn_turn_id :: "turn_id option"
  tn_requested_seq_id :: "i64 option"
  tn_arguments :: "json option"
  tn_result :: "tool_result_envelope option"
  tn_updated_at :: time

record database =
  sessions :: "session_row list"
  branches :: "branch_record list"
  events :: "event_row list"
  events_autoincrement :: i64
  raw_chunks :: "raw_chunk_row list"
  raw_chunks_autoincrement :: i64
  message_projection :: "message_row list"
  context_manifest_projection :: "manifest_row list"
  branch_heads :: "branch_head_row list"
  cost_summary_projection :: "cost_row list"
  session_budget_projection :: "budget_row list"
  plan_projection :: "plan_row list"
  session_control_projection :: "control_row list"
  active_turn_projection :: "active_turn_row list"
  turn_projection :: "turn_row list"
  queued_message_projection :: "queued_row list"
  steer_projection :: "steer_row list"
  related_session_message_projection :: "related_row list"
  session_settings_revision_projection :: "settings_revision_row list"
  approval_projection :: "approval_row list"
  tool_run_projection :: "tool_run_row list"

definition empty_database :: database where
  "empty_database =
     \<lparr>sessions = [], branches = [], events = [], events_autoincrement = 0, raw_chunks = [],
      raw_chunks_autoincrement = 0, message_projection = [], context_manifest_projection = [],
      branch_heads = [], cost_summary_projection = [], session_budget_projection = [],
      plan_projection = [], session_control_projection = [], active_turn_projection = [],
      turn_projection = [], queued_message_projection = [], steer_projection = [],
      related_session_message_projection = [], session_settings_revision_projection = [],
      approval_projection = [], tool_run_projection = []\<rparr>"

subsection \<open>Session and branch rows (store.rs, codec.rs)\<close>

definition insert_session_in_tx :: "session_record \<Rightarrow> database \<Rightarrow> database result" where
  "insert_session_in_tx s db =
     and_then (ok_or (unique_failed ''sessions.session_id'')
       (sql_insert se_session_id
         \<lparr>se_session_id = sr_session_id s, se_project_root = sr_project_root s,
          se_connection_id = connection_id_text (sr_connection_id s), se_model_id = sr_model_id s,
          se_tool_mode = session_tool_mode_to_str (sr_tool_mode s),
          se_settings_revision_id = as_i64 (sr_settings_revision_id s),
          se_created_at = sr_created_at s, se_updated_at = sr_updated_at s,
          se_status = session_status_to_str (sr_status s), se_display_name = sr_display_name s,
          se_objective = sr_objective s, se_parent_session_id = sr_parent_session_id s,
          se_parent_branch_id = sr_parent_branch_id s, se_parent_turn_id = sr_parent_turn_id s\<rparr>
         (sessions db)))
     (\<lambda>t. Inr (db\<lparr>sessions := t\<rparr>))"

definition settings_revision_key :: "settings_revision_row \<Rightarrow> session_id \<times> i64" where
  "settings_revision_key r = (sv_session_id r, sv_settings_revision_id r)"

definition insert_session_settings_revision_in_tx :: "session_record \<Rightarrow> database \<Rightarrow> database result" where
  "insert_session_settings_revision_in_tx s db =
     and_then (ok_or (unique_failed
         ''session_settings_revision_projection.session_id, session_settings_revision_projection.settings_revision_id'')
       (sql_insert settings_revision_key
         \<lparr>sv_session_id = sr_session_id s,
          sv_settings_revision_id = as_i64 (sr_settings_revision_id s),
          sv_connection_id = connection_id_text (sr_connection_id s), sv_model_id = sr_model_id s,
          sv_tool_mode = session_tool_mode_to_str (sr_tool_mode s),
          sv_updated_at = sr_updated_at s\<rparr>
         (session_settings_revision_projection db)))
     (\<lambda>t. Inr (db\<lparr>session_settings_revision_projection := t\<rparr>))"

definition insert_branch_in_tx :: "branch_record \<Rightarrow> database \<Rightarrow> database result" where
  "insert_branch_in_tx b db =
     and_then (ok_or (unique_failed ''branches.branch_id'') (sql_insert br_branch_id b (branches db)))
     (\<lambda>t. if sql_exists (\<lambda>s. se_session_id s = br_session_id b) (sessions db)
          then Inr (db\<lparr>branches := t\<rparr>) else Inl foreign_key_failed)"

definition parse_session_record :: "session_row \<Rightarrow> session_record" where
  "parse_session_record r =
     \<lparr>sr_session_id = se_session_id r, sr_project_root = se_project_root r,
      sr_connection_id = ConnectionId (se_connection_id r), sr_model_id = se_model_id r,
      sr_tool_mode = parse_session_tool_mode (se_tool_mode r),
      sr_settings_revision_id = word_of_int (max 1 (se_settings_revision_id r)),
      sr_created_at = se_created_at r, sr_updated_at = se_updated_at r,
      sr_status = parse_status (se_status r), sr_display_name = se_display_name r,
      sr_objective = se_objective r, sr_parent_session_id = se_parent_session_id r,
      sr_parent_branch_id = se_parent_branch_id r, sr_parent_turn_id = se_parent_turn_id r\<rparr>"

definition load_session :: "session_id \<Rightarrow> database \<Rightarrow> session_record option" where
  "load_session sid db = map_option parse_session_record (sql_lookup se_session_id sid (sessions db))"

definition load_branch :: "session_id \<Rightarrow> branch_id \<Rightarrow> database \<Rightarrow> branch_record option" where
  "load_branch sid bid db = List.find (\<lambda>b. br_session_id b = sid \<and> br_branch_id b = bid) (branches db)"

lemma parse_tool_mode_to_str [simp]: "parse_session_tool_mode (session_tool_mode_to_str m) = m"
  by (cases m) (simp_all add: parse_session_tool_mode_def)

lemma parse_status_to_str [simp]: "parse_status (session_status_to_str s) = s"
  by (cases s) (simp_all add: parse_status_def)

lemma parse_related_status_to_str [simp]:
  "parse_related_message_status (related_message_status s) = Inr s"
  by (cases s) (simp_all add: parse_related_message_status_def)

end
