(* ===== verification/Bt_Projections.thy ===== *)
theory Bt_Projections
  imports Bt_Database
begin

section \<open>Projection refresh\<close>

text \<open>
  \<open>bt-session/src/store/projections.rs\<close>: what one appended event does to the derived tables. There
  is one definition per helper and per arm of \<open>refresh_projections\<close>; \<open>refresh_projections\<close>
  composes them in the source's order.
\<close>

subsection \<open>Upsert clauses\<close>

definition merge_branch_head :: "branch_head_row \<Rightarrow> branch_head_row \<Rightarrow> branch_head_row" where
  "merge_branch_head old excluded =
     old\<lparr>bh_head_event_seq := bh_head_event_seq excluded, bh_updated_at := bh_updated_at excluded\<rparr>"

definition merge_budget_config :: "budget_row \<Rightarrow> budget_row \<Rightarrow> budget_row" where
  "merge_budget_config old excluded =
     old\<lparr>bu_max_wall_clock_seconds := bu_max_wall_clock_seconds excluded,
         bu_max_tokens := bu_max_tokens excluded, bu_max_turns := bu_max_turns excluded,
         bu_max_cost_usd := bu_max_cost_usd excluded, bu_updated_at := bu_updated_at excluded\<rparr>"

definition merge_control :: "control_row \<Rightarrow> control_row \<Rightarrow> control_row" where
  "merge_control old excluded =
     old\<lparr>ct_cancel_requested := ct_cancel_requested excluded, ct_updated_at := ct_updated_at excluded\<rparr>"

definition merge_plan :: "plan_row \<Rightarrow> plan_row \<Rightarrow> plan_row" where
  "merge_plan old excluded =
     old\<lparr>pl_items := pl_items excluded, pl_updated_at := pl_updated_at excluded\<rparr>"

definition merge_queued :: "queued_row \<Rightarrow> queued_row \<Rightarrow> queued_row" where
  "merge_queued old excluded =
     old\<lparr>qu_message := qu_message excluded,
         qu_settings_revision_id := qu_settings_revision_id excluded, qu_status := ''pending'',
         qu_source_seq := qu_source_seq excluded, qu_enqueued_at := qu_enqueued_at excluded,
         qu_resolved_at := None\<rparr>"

definition merge_steer :: "steer_row \<Rightarrow> steer_row \<Rightarrow> steer_row" where
  "merge_steer old excluded =
     old\<lparr>st_message := st_message excluded,
         st_settings_revision_id := st_settings_revision_id excluded, st_status := ''pending'',
         st_source_seq := st_source_seq excluded, st_enqueued_at := st_enqueued_at excluded,
         st_resolved_at := None\<rparr>"

definition merge_manifest :: "manifest_row \<Rightarrow> manifest_row \<Rightarrow> manifest_row" where
  "merge_manifest old excluded =
     old\<lparr>mn_branch_id := mn_branch_id excluded, mn_manifest := mn_manifest excluded,
         mn_recorded_event_id := mn_recorded_event_id excluded,
         mn_recorded_seq_id := mn_recorded_seq_id excluded,
         mn_recorded_at := mn_recorded_at excluded\<rparr>"

definition merge_approval_requested :: "approval_row \<Rightarrow> approval_row \<Rightarrow> approval_row" where
  "merge_approval_requested old excluded =
     old\<lparr>av_status := ''pending'', av_tool_name := av_tool_name excluded,
         av_branch_id := av_branch_id excluded, av_turn_id := av_turn_id excluded,
         av_requested_seq_id := av_requested_seq_id excluded,
         av_request_fingerprint := av_request_fingerprint excluded,
         av_request_snapshot := av_request_snapshot excluded, av_decision := None,
         av_resolution := None, av_updated_at := av_updated_at excluded\<rparr>"

definition merge_approval_resolved :: "approval_row \<Rightarrow> approval_row \<Rightarrow> approval_row" where
  "merge_approval_resolved old excluded =
     old\<lparr>av_status := av_status excluded, av_request_fingerprint := av_request_fingerprint excluded,
         av_decision := av_decision excluded, av_resolution := av_resolution excluded,
         av_updated_at := av_updated_at excluded\<rparr>"

definition merge_tool_requested :: "tool_run_row \<Rightarrow> tool_run_row \<Rightarrow> tool_run_row" where
  "merge_tool_requested old excluded =
     old\<lparr>tn_tool_name := tn_tool_name excluded, tn_status := ''requested'',
         tn_branch_id := tn_branch_id excluded, tn_turn_id := tn_turn_id excluded,
         tn_requested_seq_id := tn_requested_seq_id excluded,
         tn_arguments := tn_arguments excluded, tn_result := None,
         tn_updated_at := tn_updated_at excluded\<rparr>"

definition merge_tool_finished :: "tool_run_row \<Rightarrow> tool_run_row \<Rightarrow> tool_run_row" where
  "merge_tool_finished old excluded =
     old\<lparr>tn_status := ''completed'', tn_result := tn_result excluded,
         tn_updated_at := tn_updated_at excluded\<rparr>"

definition approval_key :: "approval_row \<Rightarrow> session_id \<times> tool_call_id" where
  "approval_key r = (av_session_id r, av_call_id r)"

definition tool_run_key :: "tool_run_row \<Rightarrow> session_id \<times> tool_call_id" where
  "tool_run_key r = (tn_session_id r, tn_call_id r)"

definition plan_key :: "plan_row \<Rightarrow> session_id \<times> branch_id" where
  "plan_key r = (pl_session_id r, pl_branch_id r)"

definition manifest_key :: "manifest_row \<Rightarrow> session_id \<times> turn_id \<times> u32" where
  "manifest_key r = (mn_session_id r, mn_turn_id r, mn_llm_call_ordinal r)"

definition related_key :: "related_row \<Rightarrow> session_id \<times> related_session_message_id \<times> string" where
  "related_key r = (re_session_id r, re_message_id r, re_direction r)"

interpretation heads: keyed_table bh_branch_id merge_branch_head
  by unfold_locales (simp add: merge_branch_head_def)

interpretation budgets: keyed_table bu_session_id merge_budget_config
  by unfold_locales (simp add: merge_budget_config_def)

interpretation controls: keyed_table ct_session_id merge_control
  by unfold_locales (simp add: merge_control_def)

interpretation plans: keyed_table plan_key merge_plan
  by unfold_locales (simp add: merge_plan_def plan_key_def)

interpretation queue: keyed_table qu_queue_event_id merge_queued
  by unfold_locales (simp add: merge_queued_def)

interpretation steers: keyed_table st_steer_event_id merge_steer
  by unfold_locales (simp add: merge_steer_def)

interpretation manifests: keyed_table manifest_key merge_manifest
  by unfold_locales (simp add: merge_manifest_def manifest_key_def)

interpretation approvals_requested: keyed_table approval_key merge_approval_requested
  by unfold_locales (simp add: merge_approval_requested_def approval_key_def)

interpretation approvals_resolved: keyed_table approval_key merge_approval_resolved
  by unfold_locales (simp add: merge_approval_resolved_def approval_key_def)

interpretation tools_requested: keyed_table tool_run_key merge_tool_requested
  by unfold_locales (simp add: merge_tool_requested_def tool_run_key_def)

interpretation tools_finished: keyed_table tool_run_key merge_tool_finished
  by unfold_locales (simp add: merge_tool_finished_def tool_run_key_def)

subsection \<open>Cost and budget helpers\<close>

text \<open>The new row, or the sum with the existing one; \<open>total_cost_usd\<close> is NOT NULL and a NaN is NULL.\<close>

definition merge_cost :: "cost_row \<Rightarrow> cost_row \<Rightarrow> cost_row" where
  "merge_cost old excluded =
     old\<lparr>co_prompt_tokens := sql_add (co_prompt_tokens old) (co_prompt_tokens excluded),
         co_completion_tokens := sql_add (co_completion_tokens old) (co_completion_tokens excluded),
         co_total_tokens := sql_add (co_total_tokens old) (co_total_tokens excluded),
         co_total_cost_usd := f64_add (co_total_cost_usd old) (co_total_cost_usd excluded),
         co_unpriced_completion_count :=
           sql_add (co_unpriced_completion_count old) (co_unpriced_completion_count excluded),
         co_updated_at := co_updated_at excluded\<rparr>"

interpretation costs: keyed_table co_session_id merge_cost
  by unfold_locales (simp add: merge_cost_def)

definition refresh_cost_summary_projection ::
  "session_id \<Rightarrow> time \<Rightarrow> token_usage \<Rightarrow> cost_breakdown option \<Rightarrow> database \<Rightarrow> database result" where
  "refresh_cost_summary_projection sid occurred_at usage cost db =
     and_then (bind_u64 (prompt_tokens usage)) (\<lambda>prompt.
     and_then (bind_u64 (completion_tokens usage)) (\<lambda>completion.
     and_then (bind_u64 (total_tokens usage)) (\<lambda>total.
     let excluded = \<lparr>co_session_id = sid, co_prompt_tokens = prompt, co_completion_tokens = completion,
           co_total_tokens = total,
           co_total_cost_usd = (case cost of None \<Rightarrow> f64_zero | Some c \<Rightarrow> total_usd c),
           co_unpriced_completion_count = SqlInt (if cost = None then 1 else 0),
           co_updated_at = occurred_at\<rparr>;
         table = sql_upsert co_session_id merge_cost excluded (cost_summary_projection db)
     in if co_total_cost_usd excluded = F64_NaN
           \<or> sql_exists (\<lambda>r. co_total_cost_usd r = F64_NaN) table
        then Inl (not_null_failed ''cost_summary_projection.total_cost_usd'')
        else Inr (db\<lparr>cost_summary_projection := table\<rparr>))))"

definition refresh_budget_projection_from_config ::
  "session_id \<Rightarrow> time \<Rightarrow> budget_config \<Rightarrow> database \<Rightarrow> database" where
  "refresh_budget_projection_from_config sid occurred_at budget db =
     db\<lparr>session_budget_projection :=
       sql_upsert bu_session_id merge_budget_config
         \<lparr>bu_session_id = sid,
          bu_max_wall_clock_seconds = map_option as_i64 (max_wall_clock_seconds budget),
          bu_max_tokens = map_option as_i64 (max_tokens budget),
          bu_max_turns = map_option uint (max_turns budget),
          bu_max_cost_usd = Option.bind (max_cost_usd budget) sql_real,
          bu_tokens_used = 0, bu_turns_used = 0, bu_elapsed_seconds = 0,
          bu_cost_used_usd = Some f64_zero, bu_updated_at = occurred_at\<rparr>
         (session_budget_projection db)\<rparr>"

definition cost_regressed :: "f64 option \<Rightarrow> f64 option \<Rightarrow> bool" where
  "cost_regressed current next =
     (case (current, next) of
        (Some c, Some n) \<Rightarrow> f64_lt n c
      | (None, Some _) \<Rightarrow> True
      | _ \<Rightarrow> False)"

definition checkpoint_regressed :: "budget_row \<Rightarrow> u64 \<Rightarrow> u32 \<Rightarrow> u64 \<Rightarrow> f64 option \<Rightarrow> bool" where
  "checkpoint_regressed r tokens_used turns_used elapsed_seconds cost_used_usd \<longleftrightarrow>
     tokens_used < clamped_u64 (bu_tokens_used r)
   \<or> turns_used < clamped_u32 (bu_turns_used r)
   \<or> elapsed_seconds < clamped_u64 (bu_elapsed_seconds r)
   \<or> cost_regressed (bu_cost_used_usd r) cost_used_usd"

definition refresh_budget_projection_from_checkpoint ::
  "session_id \<Rightarrow> time \<Rightarrow> u64 \<Rightarrow> u32 \<Rightarrow> u64 \<Rightarrow> f64 option \<Rightarrow> database \<Rightarrow> database result" where
  "refresh_budget_projection_from_checkpoint sid occurred_at tokens_used turns_used elapsed_seconds
      cost_used_usd db =
     and_then (ok_or (InvalidState ''budget checkpoint requires a prior budget configuration'')
       (sql_lookup bu_session_id sid (session_budget_projection db))) (\<lambda>current.
     and_then (guard_err
         (checkpoint_regressed current tokens_used turns_used elapsed_seconds cost_used_usd)
         (InvalidState ''budget checkpoint counters must be monotonic'')) (\<lambda>_.
     Inr (db\<lparr>session_budget_projection :=
       sql_update (\<lambda>r. bu_session_id r = sid)
         (\<lambda>r. r\<lparr>bu_tokens_used := as_i64 tokens_used, bu_turns_used := uint turns_used,
                bu_elapsed_seconds := as_i64 elapsed_seconds,
                bu_cost_used_usd := Option.bind cost_used_usd sql_real,
                bu_updated_at := occurred_at\<rparr>)
         (session_budget_projection db)\<rparr>)))"

subsection \<open>The turn projection\<close>

definition refresh_turn_projection :: "event_envelope \<Rightarrow> i64 \<Rightarrow> database \<Rightarrow> database result" where
  "refresh_turn_projection e seq db =
     (case projected_turn_id e of
        None \<Rightarrow> Inr db
      | Some tid \<Rightarrow>
          and_then (load_turn_projection (ev_session_id e) tid (turn_projection db)) (\<lambda>loaded.
          let turn = (case loaded of Some t \<Rightarrow> t | None \<Rightarrow> new_turn_projection e tid seq)
          in Inr (db\<lparr>turn_projection :=
               upsert_turn_projection (ev_session_id e) (apply_turn_projection_event turn e seq)
                 (turn_projection db)\<rparr>)))"

subsection \<open>One definition per event kind\<close>

definition project_message_appended :: "event_envelope \<Rightarrow> message \<Rightarrow> database \<Rightarrow> database result" where
  "project_message_appended e m db =
     and_then (ok_or (unique_failed ''message_projection.event_id'')
       (sql_insert mr_event_id
         \<lparr>mr_event_id = ev_event_id e, mr_session_id = ev_session_id e,
          mr_branch_id = ev_branch_id e, mr_message_id = m_message_id m, mr_role = m_role m,
          mr_message = m, mr_created_at = m_created_at m\<rparr>
         (message_projection db)))
     (\<lambda>t. Inr (db\<lparr>message_projection := t\<rparr>))"

definition project_related_recorded ::
  "event_envelope \<Rightarrow> i64 \<Rightarrow> related_session_message_direction \<Rightarrow> event_id \<Rightarrow> related_session_message
     \<Rightarrow> database \<Rightarrow> database result" where
  "project_related_recorded e seq direction counterpart m db =
     (let resolved_pair = List.find (\<lambda>r. re_message_id r = rm_message_id m
              \<and> re_source_session_id r = rm_source_session_id m
              \<and> re_destination_session_id r = rm_destination_session_id m
              \<and> re_status r \<in> set [''claimed'', ''dropped''])
            (related_session_message_projection db);
          default_status =
            (if direction = Received \<and> rm_delivery_mode m = Wake then ''pending'' else ''delivered'');
          row = \<lparr>re_session_id = ev_session_id e, re_message_id = rm_message_id m,
            re_direction = related_message_direction direction, re_event_id = ev_event_id e,
            re_counterpart_event_id = counterpart,
            re_source_session_id = rm_source_session_id m,
            re_destination_session_id = rm_destination_session_id m, re_message = m,
            re_status = (case resolved_pair of Some r \<Rightarrow> re_status r | None \<Rightarrow> default_status),
            re_source_seq = seq,
            re_resulting_turn_id =
              (case resolved_pair of Some r \<Rightarrow> re_resulting_turn_id r | None \<Rightarrow> None),
            re_created_at = rm_created_at m,
            re_resolved_at = (case resolved_pair of Some r \<Rightarrow> re_resolved_at r | None \<Rightarrow> None),
            re_settlement = None\<rparr>
      in if sql_exists (\<lambda>r. re_event_id r = ev_event_id e) (related_session_message_projection db)
         then Inl (unique_failed ''related_session_message_projection.event_id'')
         else and_then (ok_or (unique_failed
             ''related_session_message_projection.session_id, related_session_message_projection.message_id, related_session_message_projection.direction'')
           (sql_insert related_key row (related_session_message_projection db)))
         (\<lambda>t. Inr (db\<lparr>related_session_message_projection := t\<rparr>)))"

definition project_related_resolved ::
  "event_envelope \<Rightarrow> related_session_message_id \<Rightarrow> related_session_message_status \<Rightarrow> turn_id option
     \<Rightarrow> database \<Rightarrow> database result" where
  "project_related_resolved e mid status resulting_turn db =
     and_then (ok_or (InvalidState (''related message '' @ related_session_message_id_text mid
          @ '' has no received projection in session '' @ session_id_text (ev_session_id e)))
       (sql_lookup related_key (ev_session_id e, mid, ''received'')
         (related_session_message_projection db))) (\<lambda>found.
     Inr (db\<lparr>related_session_message_projection :=
       sql_update (\<lambda>r. re_message_id r = mid
           \<and> re_source_session_id r = re_source_session_id found
           \<and> re_destination_session_id r = re_destination_session_id found)
         (\<lambda>r. r\<lparr>re_status := related_message_status status, re_resulting_turn_id := resulting_turn,
                re_resolved_at := Some (ev_occurred_at e)\<rparr>)
         (related_session_message_projection db)\<rparr>))"

definition project_related_settled ::
  "event_envelope \<Rightarrow> i64 \<Rightarrow> related_session_message_id \<Rightarrow> related_session_message_id
     \<Rightarrow> related_session_message_kind \<Rightarrow> turn_id \<Rightarrow> database \<Rightarrow> database" where
  "project_related_settled e seq mid reply_id reply_kind settling_turn db =
     db\<lparr>related_session_message_projection :=
       sql_update (\<lambda>r. related_key r = (ev_session_id e, mid, ''received''))
         (\<lambda>r. r\<lparr>re_settlement := Some
            \<lparr>sl_event_id = ev_event_id e, sl_reply_message_id = reply_id,
             sl_reply_kind = reply_kind, sl_settling_turn_id = settling_turn, sl_seq = seq,
             sl_settled_at = ev_occurred_at e\<rparr>\<rparr>)
         (related_session_message_projection db)\<rparr>"

definition project_turn_started :: "event_envelope \<Rightarrow> i64 \<Rightarrow> turn_id \<Rightarrow> database \<Rightarrow> database result" where
  "project_turn_started e seq tid db =
     and_then (ok_or (unique_failed ''active_turn_projection.session_id'')
       (sql_insert at_session_id
         \<lparr>at_session_id = ev_session_id e, at_branch_id = ev_branch_id e, at_turn_id = tid,
          at_started_seq_id = seq, at_started_at = ev_occurred_at e\<rparr>
         (active_turn_projection db)))
     (\<lambda>t. Inr (db\<lparr>active_turn_projection := t\<rparr>))"

definition project_turn_finished :: "event_envelope \<Rightarrow> turn_id \<Rightarrow> database \<Rightarrow> database" where
  "project_turn_finished e tid db =
     db\<lparr>active_turn_projection :=
       sql_delete (\<lambda>r. at_session_id r = ev_session_id e \<and> at_turn_id r = tid)
         (active_turn_projection db)\<rparr>"

definition project_manifest_recorded :: "event_envelope \<Rightarrow> i64 \<Rightarrow> context_manifest \<Rightarrow> database \<Rightarrow> database" where
  "project_manifest_recorded e seq m db =
     db\<lparr>context_manifest_projection :=
       sql_upsert manifest_key merge_manifest
         \<lparr>mn_session_id = ev_session_id e, mn_branch_id = ev_branch_id e,
          mn_turn_id = mf_turn_id m, mn_llm_call_ordinal = mf_llm_call_ordinal m,
          mn_manifest = m, mn_recorded_event_id = ev_event_id e, mn_recorded_seq_id = seq,
          mn_recorded_at = ev_occurred_at e\<rparr>
         (context_manifest_projection db)\<rparr>"

definition project_approval_requested ::
  "event_envelope \<Rightarrow> i64 \<Rightarrow> tool_call_id \<Rightarrow> string \<Rightarrow> approval_request_snapshot option \<Rightarrow> database \<Rightarrow> database"
where
  "project_approval_requested e seq cid name snap db =
     db\<lparr>approval_projection :=
       sql_upsert approval_key merge_approval_requested
         \<lparr>av_session_id = ev_session_id e, av_call_id = cid, av_tool_name = name,
          av_status = ''pending'', av_branch_id = Some (ev_branch_id e),
          av_turn_id = ev_turn_id e, av_requested_seq_id = Some seq,
          av_request_fingerprint = map_option sn_request_fingerprint snap,
          av_request_snapshot = snap, av_decision = None, av_resolution = None,
          av_updated_at = ev_occurred_at e\<rparr>
         (approval_projection db)\<rparr>"

definition project_approval_resolved ::
  "event_envelope \<Rightarrow> tool_call_id \<Rightarrow> string \<Rightarrow> string option \<Rightarrow> approval_resolution option
     \<Rightarrow> approval_decision \<Rightarrow> database \<Rightarrow> database" where
  "project_approval_resolved e cid name request_fingerprint resolution decision db =
     db\<lparr>approval_projection :=
       sql_upsert approval_key merge_approval_resolved
         \<lparr>av_session_id = ev_session_id e, av_call_id = cid, av_tool_name = name,
          av_status = approval_status decision, av_branch_id = None, av_turn_id = None,
          av_requested_seq_id = None,
          av_request_fingerprint =
            (case resolution of Some r \<Rightarrow> Some (ap_request_fingerprint r) | None \<Rightarrow> request_fingerprint),
          av_request_snapshot = None, av_decision = Some decision, av_resolution = resolution,
          av_updated_at = ev_occurred_at e\<rparr>
         (approval_projection db)\<rparr>"

definition project_tool_requested ::
  "event_envelope \<Rightarrow> i64 \<Rightarrow> tool_call_id \<Rightarrow> string \<Rightarrow> json \<Rightarrow> database \<Rightarrow> database" where
  "project_tool_requested e seq cid name arguments db =
     db\<lparr>approval_projection :=
         sql_delete (\<lambda>r. approval_key r = (ev_session_id e, cid)) (approval_projection db),
        tool_run_projection :=
         sql_upsert tool_run_key merge_tool_requested
           \<lparr>tn_session_id = ev_session_id e, tn_call_id = cid, tn_tool_name = name,
            tn_status = ''requested'', tn_branch_id = Some (ev_branch_id e),
            tn_turn_id = ev_turn_id e, tn_requested_seq_id = Some seq,
            tn_arguments = Some arguments, tn_result = None, tn_updated_at = ev_occurred_at e\<rparr>
           (tool_run_projection db)\<rparr>"

definition project_tool_finished ::
  "event_envelope \<Rightarrow> tool_call_id \<Rightarrow> string \<Rightarrow> tool_result_envelope \<Rightarrow> database \<Rightarrow> database" where
  "project_tool_finished e cid name result db =
     db\<lparr>tool_run_projection :=
       sql_upsert tool_run_key merge_tool_finished
         \<lparr>tn_session_id = ev_session_id e, tn_call_id = cid, tn_tool_name = name,
          tn_status = ''completed'', tn_branch_id = None, tn_turn_id = None,
          tn_requested_seq_id = None, tn_arguments = None, tn_result = Some result,
          tn_updated_at = ev_occurred_at e\<rparr>
         (tool_run_projection db)\<rparr>"

definition project_plan_updated :: "event_envelope \<Rightarrow> plan_item list \<Rightarrow> database \<Rightarrow> database" where
  "project_plan_updated e items db =
     db\<lparr>plan_projection :=
       sql_upsert plan_key merge_plan
         \<lparr>pl_session_id = ev_session_id e, pl_branch_id = ev_branch_id e, pl_items = items,
          pl_updated_at = ev_occurred_at e\<rparr>
         (plan_projection db)\<rparr>"

text \<open>\<open>row.get::<_, i64>(0)?.max(1) as u64\<close>.\<close>

definition revision_of_column :: "i64 \<Rightarrow> u64" where
  "revision_of_column i = word_of_int (max 1 i)"

definition project_settings_updated ::
  "event_envelope \<Rightarrow> u64 \<Rightarrow> string \<Rightarrow> string option \<Rightarrow> string \<Rightarrow> database \<Rightarrow> database result" where
  "project_settings_updated e revision conn model mode db =
     and_then (guard_err (revision = 0) (InvalidState ''session settings revision must be positive''))
     (\<lambda>_. and_then (ok_or no_rows (sql_lookup se_session_id (ev_session_id e) (sessions db)))
     (\<lambda>session.
     let current = revision_of_column (se_settings_revision_id session);
         existing = sql_lookup settings_revision_key (ev_session_id e, as_i64 revision)
           (session_settings_revision_projection db)
     in and_then
       (case existing of
          Some r \<Rightarrow>
            (if (sv_connection_id r, sv_model_id r, sv_tool_mode r) \<noteq> (conn, model, mode)
             then Inl (InvalidState (''session settings revision '' @ show_nat (unat revision)
                       @ '' is immutable''))
             else Inr db)
        | None \<Rightarrow>
            Inr (db\<lparr>session_settings_revision_projection :=
              session_settings_revision_projection db @
                [\<lparr>sv_session_id = ev_session_id e, sv_settings_revision_id = as_i64 revision,
                  sv_connection_id = conn, sv_model_id = model, sv_tool_mode = mode,
                  sv_updated_at = ev_occurred_at e\<rparr>]\<rparr>))
     (\<lambda>db1. Inr
       (if revision > current
        then db1\<lparr>sessions :=
          sql_update (\<lambda>s. se_session_id s = ev_session_id e)
            (\<lambda>s. s\<lparr>se_connection_id := conn, se_model_id := model, se_tool_mode := mode,
                   se_settings_revision_id := as_i64 revision,
                   se_updated_at := ev_occurred_at e\<rparr>) (sessions db1)\<rparr>
        else db1))))"

definition project_queued_enqueued :: "event_envelope \<Rightarrow> i64 \<Rightarrow> message \<Rightarrow> u64 \<Rightarrow> database \<Rightarrow> database" where
  "project_queued_enqueued e seq m revision db =
     db\<lparr>queued_message_projection :=
       sql_upsert qu_queue_event_id merge_queued
         \<lparr>qu_queue_event_id = ev_event_id e, qu_session_id = ev_session_id e,
          qu_branch_id = ev_branch_id e, qu_message = m,
          qu_settings_revision_id = as_i64 revision, qu_status = ''pending'',
          qu_source_seq = seq, qu_enqueued_at = ev_occurred_at e, qu_resolved_at = None\<rparr>
         (queued_message_projection db)\<rparr>"

definition project_queued_resolved ::
  "event_envelope \<Rightarrow> event_id \<Rightarrow> queued_message_resolution_outcome \<Rightarrow> database \<Rightarrow> database" where
  "project_queued_resolved e qid outcome db =
     db\<lparr>queued_message_projection :=
       sql_update (\<lambda>r. qu_queue_event_id r = qid)
         (\<lambda>r. r\<lparr>qu_status := queued_message_resolution_status outcome,
                qu_resolved_at := Some (ev_occurred_at e)\<rparr>)
         (queued_message_projection db)\<rparr>"

definition project_cancel :: "event_envelope \<Rightarrow> bool \<Rightarrow> database \<Rightarrow> database" where
  "project_cancel e requested db =
     db\<lparr>session_control_projection :=
       sql_upsert ct_session_id merge_control
         \<lparr>ct_session_id = ev_session_id e, ct_cancel_requested = requested,
          ct_updated_at = ev_occurred_at e\<rparr>
         (session_control_projection db)\<rparr>"

definition project_steered :: "event_envelope \<Rightarrow> i64 \<Rightarrow> string \<Rightarrow> u64 \<Rightarrow> database \<Rightarrow> database" where
  "project_steered e seq text revision db =
     db\<lparr>steer_projection :=
       sql_upsert st_steer_event_id merge_steer
         \<lparr>st_steer_event_id = ev_event_id e, st_session_id = ev_session_id e,
          st_branch_id = ev_branch_id e, st_message = text,
          st_settings_revision_id = as_i64 revision, st_status = ''pending'',
          st_source_seq = seq, st_enqueued_at = ev_occurred_at e, st_resolved_at = None\<rparr>
         (steer_projection db)\<rparr>"

fun project_steers_resolved ::
  "event_envelope \<Rightarrow> event_id list \<Rightarrow> steer_resolution_outcome \<Rightarrow> database \<Rightarrow> database" where
  "project_steers_resolved e [] outcome db = db"
| "project_steers_resolved e (i # is) outcome db =
     project_steers_resolved e is outcome
       (db\<lparr>steer_projection :=
         sql_update (\<lambda>r. st_steer_event_id r = i)
           (\<lambda>r. r\<lparr>st_status := steer_resolution_status outcome,
                  st_resolved_at := Some (ev_occurred_at e)\<rparr>)
           (steer_projection db)\<rparr>)"

definition project_branch_summarized :: "branch_id \<Rightarrow> string \<Rightarrow> database \<Rightarrow> database" where
  "project_branch_summarized bid text db =
     db\<lparr>branches := sql_update (\<lambda>b. br_branch_id b = bid) (\<lambda>b. b\<lparr>br_summary := Some text\<rparr>)
         (branches db)\<rparr>"

definition project_session_ended :: "event_envelope \<Rightarrow> string \<Rightarrow> database \<Rightarrow> database" where
  "project_session_ended e reason db =
     db\<lparr>sessions :=
       sql_update (\<lambda>s. se_session_id s = ev_session_id e)
         (\<lambda>s. s\<lparr>se_status := (if eq_ignore_ascii_case reason ''completed'' then ''completed'' else ''failed''),
                se_updated_at := ev_occurred_at e\<rparr>)
         (sessions db)\<rparr>"

subsection \<open>Refresh\<close>

definition refresh_heads :: "event_envelope \<Rightarrow> i64 \<Rightarrow> database \<Rightarrow> database" where
  "refresh_heads e seq db =
     db\<lparr>branch_heads :=
          sql_upsert bh_branch_id merge_branch_head
            \<lparr>bh_branch_id = ev_branch_id e, bh_session_id = ev_session_id e,
             bh_head_event_seq = seq, bh_updated_at = ev_occurred_at e\<rparr>
            (branch_heads db),
        branches :=
          sql_update (\<lambda>b. br_branch_id b = ev_branch_id e)
            (\<lambda>b. b\<lparr>br_head_event_id := Some (ev_event_id e)\<rparr>) (branches db),
        sessions :=
          sql_update (\<lambda>s. se_session_id s = ev_session_id e)
            (\<lambda>s. s\<lparr>se_updated_at := ev_occurred_at e\<rparr>) (sessions db)\<rparr>"

definition refresh_payload :: "event_envelope \<Rightarrow> i64 \<Rightarrow> database \<Rightarrow> database result" where
  "refresh_payload e seq db =
     (case ev_payload e of
        MessageAppended m \<Rightarrow> project_message_appended e m db
      | RelatedSessionMessageRecorded direction counterpart m \<Rightarrow>
          project_related_recorded e seq direction counterpart m db
      | RelatedSessionMessageResolved mid status resulting_turn _ \<Rightarrow>
          project_related_resolved e mid status resulting_turn db
      | RelatedSessionMessageSettled mid reply_id reply_kind settling_turn \<Rightarrow>
          Inr (project_related_settled e seq mid reply_id reply_kind settling_turn db)
      | TurnStarted tid _ _ _ _ _ _ \<Rightarrow> project_turn_started e seq tid db
      | TurnFinished tid _ _ _ _ _ \<Rightarrow> Inr (project_turn_finished e tid db)
      | TurnContextManifestRecorded m \<Rightarrow> Inr (project_manifest_recorded e seq m db)
      | ToolApprovalRequested cid name snap \<Rightarrow>
          Inr (project_approval_requested e seq cid name snap db)
      | ToolApprovalResolved cid name fp resolution decision \<Rightarrow>
          Inr (project_approval_resolved e cid name fp resolution decision db)
      | ToolCallRequested cid name arguments \<Rightarrow>
          Inr (project_tool_requested e seq cid name arguments db)
      | ToolExecutionFinished cid name result \<Rightarrow> Inr (project_tool_finished e cid name result db)
      | PlanUpdated items \<Rightarrow> Inr (project_plan_updated e items db)
      | SessionSettingsUpdated revision conn model mode \<Rightarrow>
          project_settings_updated e revision conn model mode db
      | SessionQueuedMessageEnqueued m revision \<Rightarrow> Inr (project_queued_enqueued e seq m revision db)
      | SessionQueuedMessageResolved qid outcome _ \<Rightarrow> Inr (project_queued_resolved e qid outcome db)
      | CompletionFinished _ _ _ usage cost _ _ \<Rightarrow>
          refresh_cost_summary_projection (ev_session_id e) (ev_occurred_at e) usage cost db
      | BudgetConfigured budget \<Rightarrow>
          Inr (refresh_budget_projection_from_config (ev_session_id e) (ev_occurred_at e) budget db)
      | BudgetCheckpoint tokens turns elapsed cost \<Rightarrow>
          refresh_budget_projection_from_checkpoint (ev_session_id e) (ev_occurred_at e)
            tokens turns elapsed cost db
      | SessionCancelled _ \<Rightarrow> Inr (project_cancel e True db)
      | SessionCancelCleared _ \<Rightarrow> Inr (project_cancel e False db)
      | SessionSteered text revision \<Rightarrow> Inr (project_steered e seq text revision db)
      | SessionSteersResolved ids outcome _ _ \<Rightarrow> Inr (project_steers_resolved e ids outcome db)
      | BranchSummarized bid text _ _ \<Rightarrow> Inr (project_branch_summarized bid text db)
      | SessionEnded reason \<Rightarrow> Inr (project_session_ended e reason db)
      | _ \<Rightarrow> Inr db)"

definition refresh_projections :: "event_envelope \<Rightarrow> i64 \<Rightarrow> database \<Rightarrow> database result" where
  "refresh_projections e seq db =
     and_then (refresh_turn_projection e seq (refresh_heads e seq db)) (refresh_payload e seq)"

end
