(* ===== verification/Bt_Admission.thy ===== *)
theory Bt_Admission
  imports Bt_Events
begin

section \<open>Validation of control-plane transitions\<close>

text \<open>
  \<open>bt-session/src/store/admission.rs\<close>: the checks a batch of events passes before a transition that
  starts a turn is committed. The loops are recursive functions over the batch with the loop
  variables as arguments, so the first offending event decides the error as it does in the source.
\<close>

datatype resumed_continuation_kind = ApprovalKind | InputKind

definition invalid_transition :: "string \<Rightarrow> belltower_error" where
  "invalid_transition m = InvalidState m"

definition validate_event_scope :: "session_id \<Rightarrow> branch_id \<Rightarrow> event_envelope list \<Rightarrow> unit result" where
  "validate_event_scope sid bid evs =
     guard_err (list_ex (\<lambda>e. ev_session_id e \<noteq> sid \<or> ev_branch_id e \<noteq> bid) evs)
       (invalid_transition ''control-plane transition events must share one session and branch'')"

text \<open>The loop of \<open>validate_message_and_turn_start\<close>: \<open>message_turn_id.replace(event.turn_id)\<close> and
  \<open>started.replace(...)\<close> store the new value and report the old one.\<close>

type_synonym started_info = "branch_id \<times> turn_id \<times> u64 \<times> turn_start_source"

primrec scan_message_and_turn_start ::
  "event_envelope list \<Rightarrow> turn_id option option \<Rightarrow> started_info option
     \<Rightarrow> (turn_id option option \<times> started_info option) result" where
  "scan_message_and_turn_start [] message_turn started = Inr (message_turn, started)"
| "scan_message_and_turn_start (e # es) message_turn started =
     (case ev_payload e of
        MessageAppended m \<Rightarrow>
          (if m_role m \<noteq> RUser
           then Inl (invalid_transition ''turn transition may contain only its user input message'')
           else if message_turn \<noteq> None \<or> ev_turn_id e = None
           then Inl (invalid_transition
             ''turn transition must contain exactly one turn-bound user message'')
           else scan_message_and_turn_start es (Some (ev_turn_id e)) started)
      | TurnStarted tid _ _ _ revision source _ \<Rightarrow>
          (if started \<noteq> None \<or> ev_turn_id e \<noteq> Some tid
           then Inl (invalid_transition
             ''turn transition must contain exactly one self-consistent turn.started event'')
           else scan_message_and_turn_start es message_turn
             (Some (ev_branch_id e, tid, revision, source)))
      | _ \<Rightarrow> scan_message_and_turn_start es message_turn started)"

definition validate_message_and_turn_start ::
  "event_envelope list \<Rightarrow> u64 option \<Rightarrow> turn_start_source \<Rightarrow> (branch_id \<times> turn_id) result" where
  "validate_message_and_turn_start evs expected_revision expected_source =
     and_then (scan_message_and_turn_start evs None None) (\<lambda>(message_turn, started).
     and_then (ok_or (invalid_transition ''turn transition is missing its turn-bound user message'')
       (Option.bind message_turn (\<lambda>t. t))) (\<lambda>message_turn_id.
     and_then (ok_or (invalid_transition ''turn transition is missing its turn.started event'') started)
       (\<lambda>(bid, tid, revision, source).
     and_then (guard_err (message_turn_id \<noteq> tid)
       (invalid_transition ''turn transition message and turn.started event use different turn ids'')) (\<lambda>_.
     and_then (guard_err (source \<noteq> expected_source)
       (invalid_transition ''turn transition uses an unexpected start source'')) (\<lambda>_.
     and_then (guard_err (is_some_and expected_revision (\<lambda>x. x \<noteq> revision))
       (invalid_transition ''turn transition uses an unexpected settings revision'')) (\<lambda>_.
     Inr (bid, tid)))))))"

primrec scan_queued_admission :: "u64 \<Rightarrow> event_envelope list \<Rightarrow> nat \<Rightarrow> nat result" where
  "scan_queued_admission expected [] queued_count = Inr queued_count"
| "scan_queued_admission expected (e # es) queued_count =
     (case ev_payload e of
        SessionQueuedMessageEnqueued _ revision \<Rightarrow>
          (if revision \<noteq> expected
           then Inl (invalid_transition ''queued admission uses an unexpected settings revision'')
           else scan_queued_admission expected es (queued_count + 1))
      | OperatorCommandRecorded _ _ _ _ \<Rightarrow> scan_queued_admission expected es queued_count
      | _ \<Rightarrow> Inl (invalid_transition ''queued admission contains an unexpected event''))"

definition is_start_event :: "event_payload \<Rightarrow> bool" where
  "is_start_event p = (case p of MessageAppended _ \<Rightarrow> True | TurnStarted _ _ _ _ _ _ _ \<Rightarrow> True | _ \<Rightarrow> False)"

definition is_cancel_clear :: "event_payload \<Rightarrow> bool" where
  "is_cancel_clear p = (case p of SessionCancelCleared _ \<Rightarrow> True | _ \<Rightarrow> False)"

definition validate_turn_admission_events ::
  "session_id \<Rightarrow> u64 \<Rightarrow> event_envelope \<Rightarrow> event_envelope list \<Rightarrow> event_envelope list \<Rightarrow> unit result" where
  "validate_turn_admission_events sid expected cancel_clear started_events queued_events =
     and_then (validate_message_and_turn_start started_events (Some expected) UserMessage) (\<lambda>(bid, _).
     and_then (validate_event_scope sid bid started_events) (\<lambda>_.
     and_then (validate_event_scope sid bid queued_events) (\<lambda>_.
     and_then (validate_event_scope sid bid [cancel_clear]) (\<lambda>_.
     and_then (guard_err (\<not> is_cancel_clear (ev_payload cancel_clear))
       (invalid_transition ''turn admission cancel event must be session.cancel.cleared'')) (\<lambda>_.
     and_then (scan_queued_admission expected queued_events 0) (\<lambda>queued_count.
     and_then (guard_err (queued_count \<noteq> 1)
       (invalid_transition ''queued admission must contain one queued message and optional operator audit events'')) (\<lambda>_.
     guard_err (list_ex (\<lambda>e. \<not> is_start_event (ev_payload e)) started_events)
       (invalid_transition ''started admission may contain only its user message and turn.started event''))))))))"

primrec scan_queued_continuation :: "event_id \<Rightarrow> event_envelope list \<Rightarrow> nat \<Rightarrow> nat result" where
  "scan_queued_continuation qid [] resolution_count = Inr resolution_count"
| "scan_queued_continuation qid (e # es) resolution_count =
     (case ev_payload e of
        SessionQueuedMessageResolved resolved_id outcome _ \<Rightarrow>
          (if outcome = QDispatched \<and> resolved_id = qid
           then scan_queued_continuation qid es (resolution_count + 1)
           else Inl (invalid_transition
             ''queued continuation resolves an unexpected source or outcome''))
      | OperatorCommandRecorded _ _ _ _ \<Rightarrow> scan_queued_continuation qid es resolution_count
      | MessageAppended _ \<Rightarrow> scan_queued_continuation qid es resolution_count
      | TurnStarted _ _ _ _ _ _ _ \<Rightarrow> scan_queued_continuation qid es resolution_count
      | _ \<Rightarrow> Inl (invalid_transition ''queued continuation contains an unexpected event''))"

definition validate_queued_continuation_events ::
  "session_id \<Rightarrow> event_id \<Rightarrow> u64 \<Rightarrow> event_envelope list \<Rightarrow> unit result" where
  "validate_queued_continuation_events sid qid expected evs =
     and_then (validate_message_and_turn_start evs (Some expected) QueuedFollowUp) (\<lambda>(bid, _).
     and_then (validate_event_scope sid bid evs) (\<lambda>_.
     and_then (scan_queued_continuation qid evs 0) (\<lambda>resolution_count.
     guard_err (resolution_count \<noteq> 1)
       (invalid_transition ''queued continuation must resolve its source and start exactly one turn''))))"

primrec scan_steer_continuation :: "event_id list \<Rightarrow> event_envelope list \<Rightarrow> nat \<Rightarrow> nat result" where
  "scan_steer_continuation ids [] resolution_count = Inr resolution_count"
| "scan_steer_continuation ids (e # es) resolution_count =
     (case ev_payload e of
        SessionSteersResolved resolved_ids outcome _ _ \<Rightarrow>
          (if outcome = SApplied \<and> resolved_ids = ids
           then scan_steer_continuation ids es (resolution_count + 1)
           else Inl (invalid_transition ''steer continuation resolves unexpected sources or outcome''))
      | MessageAppended _ \<Rightarrow> scan_steer_continuation ids es resolution_count
      | TurnStarted _ _ _ _ _ _ _ \<Rightarrow> scan_steer_continuation ids es resolution_count
      | _ \<Rightarrow> Inl (invalid_transition ''steer continuation contains an unexpected event''))"

definition validate_steer_continuation_events ::
  "session_id \<Rightarrow> branch_id \<Rightarrow> event_id list \<Rightarrow> u64 \<Rightarrow> event_envelope list \<Rightarrow> unit result" where
  "validate_steer_continuation_events sid bid ids expected evs =
     and_then (validate_message_and_turn_start evs (Some expected) SteerFollowUp) (\<lambda>(event_bid, _).
     and_then (guard_err (event_bid \<noteq> bid)
       (invalid_transition ''steer continuation events target the wrong branch'')) (\<lambda>_.
     and_then (validate_event_scope sid bid evs) (\<lambda>_.
     and_then (scan_steer_continuation ids evs 0) (\<lambda>resolution_count.
     guard_err (resolution_count \<noteq> 1)
       (invalid_transition ''steer continuation must resolve its exact sources and start one turn'')))))"

primrec scan_resumed_continuation ::
  "tool_call_id \<Rightarrow> u64 \<Rightarrow> resumed_continuation_kind \<Rightarrow> turn_start_source \<Rightarrow> event_envelope list
     \<Rightarrow> turn_id option \<Rightarrow> nat \<Rightarrow> (turn_id option \<times> nat) result" where
  "scan_resumed_continuation cid expected kind source [] turn count = Inr (turn, count)"
| "scan_resumed_continuation cid expected kind source (e # es) turn count =
     (case ev_payload e of
        TurnStarted tid _ _ _ revision src resumed_from \<Rightarrow>
          (if turn \<noteq> None \<or> ev_turn_id e \<noteq> Some tid \<or> revision \<noteq> expected \<or> src \<noteq> source
              \<or> resumed_from \<noteq> Some cid
           then Inl (invalid_transition ''resumed continuation has an inconsistent turn.started event'')
           else scan_resumed_continuation cid expected kind source es (Some tid) count)
      | ToolApprovalResolved resolved_cid _ _ _ _ \<Rightarrow>
          (if kind = ApprovalKind \<and> resolved_cid = cid
           then scan_resumed_continuation cid expected kind source es turn (count + 1)
           else Inl (invalid_transition ''resumed continuation contains an unexpected event''))
      | ToolExecutionFinished resolved_cid _ _ \<Rightarrow>
          (if kind = InputKind \<and> resolved_cid = cid
           then scan_resumed_continuation cid expected kind source es turn (count + 1)
           else Inl (invalid_transition ''resumed continuation contains an unexpected event''))
      | SessionSteersResolved _ _ _ _ \<Rightarrow> scan_resumed_continuation cid expected kind source es turn count
      | MessageAppended _ \<Rightarrow> scan_resumed_continuation cid expected kind source es turn count
      | _ \<Rightarrow> Inl (invalid_transition ''resumed continuation contains an unexpected event''))"

definition validate_resumed_continuation_events ::
  "session_id \<Rightarrow> branch_id \<Rightarrow> tool_call_id \<Rightarrow> u64 \<Rightarrow> resumed_continuation_kind
     \<Rightarrow> event_envelope list \<Rightarrow> unit result" where
  "validate_resumed_continuation_events sid bid cid expected kind evs =
     and_then (validate_event_scope sid bid evs) (\<lambda>_.
     and_then (scan_resumed_continuation cid expected kind
         (case kind of ApprovalKind \<Rightarrow> ApprovalResume | InputKind \<Rightarrow> InputResume) evs None 0)
       (\<lambda>(turn, resolution_count).
     and_then (ok_or (invalid_transition ''resumed continuation is missing its turn.started event'') turn)
       (\<lambda>tid.
     guard_err (resolution_count \<noteq> 1 \<or> list_ex (\<lambda>e. ev_turn_id e \<noteq> Some tid) evs)
       (invalid_transition ''resumed continuation must resolve one pending call into exactly one turn''))))"

subsection \<open>What an accepted batch contains\<close>

definition is_turn_started :: "event_payload \<Rightarrow> bool" where
  "is_turn_started p = (case p of TurnStarted _ _ _ _ _ _ _ \<Rightarrow> True | _ \<Rightarrow> False)"

definition is_turn_finished :: "event_payload \<Rightarrow> bool" where
  "is_turn_finished p = (case p of TurnFinished _ _ _ _ _ _ \<Rightarrow> True | _ \<Rightarrow> False)"

definition turn_starts :: "event_envelope list \<Rightarrow> event_envelope list" where
  "turn_starts evs = filter (\<lambda>e. is_turn_started (ev_payload e)) evs"

definition is_message_appended :: "event_payload \<Rightarrow> bool" where
  "is_message_appended p = (case p of MessageAppended _ \<Rightarrow> True | _ \<Rightarrow> False)"

definition user_messages :: "event_envelope list \<Rightarrow> event_envelope list" where
  "user_messages evs = filter (\<lambda>e. is_message_appended (ev_payload e)) evs"

lemma is_turn_started_iff: "is_turn_started p \<longleftrightarrow> (\<exists>a b c d e f g. p = TurnStarted a b c d e f g)"
  by (cases p) (simp_all add: is_turn_started_def)

lemma is_turn_finished_iff: "is_turn_finished p \<longleftrightarrow> (\<exists>a b c d e f. p = TurnFinished a b c d e f)"
  by (cases p) (simp_all add: is_turn_finished_def)

text \<open>Every scan looks at a payload through these three cases.\<close>

lemma start_event_cases:
  obtains (message) m where "p = MessageAppended m"
  | (start) tid pr md n r s c where "p = TurnStarted tid pr md n r s c"
  | (other) "\<not> is_start_event p"
  by (cases p) (simp_all add: is_start_event_def)

lemma start_event_simps [simp]:
  "is_start_event (MessageAppended m)" "is_start_event (TurnStarted tid pr md n r s c)"
  "is_turn_started (TurnStarted tid pr md n r s c)" "\<not> is_turn_started (MessageAppended m)"
  by (simp_all add: is_start_event_def is_turn_started_def)

lemma not_start_event: "\<not> is_start_event p \<Longrightarrow> \<not> is_turn_started p" "\<not> is_start_event p \<Longrightarrow> p \<noteq> MessageAppended m"
  by (auto simp: is_turn_started_iff)

lemma scan_step:
  "ev_payload e = MessageAppended m \<Longrightarrow> scan_message_and_turn_start (e # es) mt st =
     (if m_role m \<noteq> RUser
      then Inl (invalid_transition ''turn transition may contain only its user input message'')
      else if mt \<noteq> None \<or> ev_turn_id e = None
      then Inl (invalid_transition ''turn transition must contain exactly one turn-bound user message'')
      else scan_message_and_turn_start es (Some (ev_turn_id e)) st)"
  "ev_payload e = TurnStarted tid pr md n r s c \<Longrightarrow> scan_message_and_turn_start (e # es) mt st =
     (if st \<noteq> None \<or> ev_turn_id e \<noteq> Some tid
      then Inl (invalid_transition ''turn transition must contain exactly one self-consistent turn.started event'')
      else scan_message_and_turn_start es mt (Some (ev_branch_id e, tid, r, s)))"
  "\<not> is_start_event (ev_payload e) \<Longrightarrow>
     scan_message_and_turn_start (e # es) mt st = scan_message_and_turn_start es mt st"
    apply simp
   apply simp
  apply (cases "ev_payload e"; simp)
  done

lemma is_message_appended_simps [simp]:
  "is_message_appended (MessageAppended m)" "\<not> is_message_appended (TurnStarted tid pr md n r s c)"
  by (simp_all add: is_message_appended_def)

lemma not_start_event_message [simp]: "\<not> is_start_event p \<Longrightarrow> \<not> is_message_appended p"
  by (cases p) (simp_all add: is_message_appended_def is_start_event_def)

text \<open>The state of the scan after a prefix: how many messages and starts it saw, of which role, and
  which ones it remembers.\<close>

lemma scan_counts:
  "scan_message_and_turn_start evs mt st = Inr (mt', st') \<Longrightarrow>
   (if mt = None then 0 else 1) + length (user_messages evs) = (if mt' = None then 0 else 1)
    \<and> (if st = None then 0 else 1) + length (turn_starts evs) = (if st' = None then (0::nat) else 1)"
proof (induction evs arbitrary: mt st)
  case Nil
  then show ?case by (simp add: user_messages_def turn_starts_def)
next
  case (Cons e es)
  show ?case
  proof (cases "ev_payload e" rule: start_event_cases)
    case (message m)
    with Cons.prems have mt: "mt = None"
      and es: "scan_message_and_turn_start es (Some (ev_turn_id e)) st = Inr (mt', st')"
      by (auto simp: scan_step simp del: scan_message_and_turn_start.simps split: if_splits)
    from Cons.IH [OF es] mt message show ?thesis
      by (simp add: user_messages_def turn_starts_def)
  next
    case (start tid pr md n r s c)
    with Cons.prems have st: "st = None"
      and es: "scan_message_and_turn_start es mt (Some (ev_branch_id e, tid, r, s)) = Inr (mt', st')"
      by (cases st; simp add: scan_step del: scan_message_and_turn_start.simps split: if_splits)+
    from Cons.IH [OF es] st start show ?thesis
      by (simp add: user_messages_def turn_starts_def)
  next
    case other
    with Cons.prems have "scan_message_and_turn_start es mt st = Inr (mt', st')"
      by (simp add: scan_step del: scan_message_and_turn_start.simps)
    from Cons.IH [OF this] other show ?thesis
      by (simp add: user_messages_def turn_starts_def not_start_event)
  qed
qed

lemma scan_user_role:
  "scan_message_and_turn_start evs mt st = Inr r \<Longrightarrow> e \<in> set evs \<Longrightarrow> ev_payload e = MessageAppended m
     \<Longrightarrow> m_role m = RUser \<and> ev_turn_id e \<noteq> None"
proof (induction evs arbitrary: mt st)
  case (Cons e' es)
  then show ?case
    by (cases "ev_payload e'" rule: start_event_cases)
      (auto simp: scan_step simp del: scan_message_and_turn_start.simps split: if_splits)
qed simp

lemma scan_last:
  "scan_message_and_turn_start evs mt st = Inr (mt', st') \<Longrightarrow>
   (mt' = mt \<or> (\<exists>e m. e \<in> set evs \<and> ev_payload e = MessageAppended m \<and> mt' = Some (ev_turn_id e)))
    \<and> (st' = st \<or> (\<exists>e tid p m n r s c. e \<in> set evs \<and> ev_payload e = TurnStarted tid p m n r s c
         \<and> ev_turn_id e = Some tid \<and> st' = Some (ev_branch_id e, tid, r, s)))"
proof (induction evs arbitrary: mt st)
  case (Cons e es)
  then show ?case
    by (cases "ev_payload e" rule: start_event_cases)
      (auto 0 4 simp: scan_step simp del: scan_message_and_turn_start.simps split: if_splits dest!: Cons.IH)
qed simp

text \<open>A batch accepted by \<open>validate_message_and_turn_start\<close> holds exactly one user message and exactly
  one turn start, both of the turn it returns.\<close>

lemma validate_message_and_turn_startD:
  assumes "validate_message_and_turn_start evs expected source = Inr (bid, tid)"
  shows "\<exists>s m p md n r c msg. turn_starts evs = [s] \<and> user_messages evs = [m]
    \<and> ev_payload s = TurnStarted tid p md n r source c \<and> ev_turn_id s = Some tid \<and> ev_branch_id s = bid
    \<and> ev_payload m = MessageAppended msg \<and> m_role msg = RUser \<and> ev_turn_id m = Some tid
    \<and> (\<forall>x. expected = Some x \<longrightarrow> r = x)"
proof -
  from assms obtain r where
    scan: "scan_message_and_turn_start evs None None = Inr (Some (Some tid), Some (bid, tid, r, source))"
    and r: "\<forall>x. expected = Some x \<longrightarrow> r = x"
    by (auto simp: validate_message_and_turn_start_def and_then_eq_Inr is_some_and_iff bind_eq_Some_conv)
  from scan_counts [OF scan] have "length (turn_starts evs) = 1" "length (user_messages evs) = 1"
    by simp_all
  then obtain s m where sm: "turn_starts evs = [s]" "user_messages evs = [m]"
    by (metis One_nat_def length_0_conv length_Suc_conv)
  from scan_last [OF scan] obtain e em msg p md n c where
    e: "e \<in> set evs" "ev_payload e = TurnStarted tid p md n r source c" "ev_turn_id e = Some tid" "ev_branch_id e = bid"
    and em: "em \<in> set evs" "ev_payload em = MessageAppended msg" "ev_turn_id em = Some tid"
    by auto
  have "e \<in> set (turn_starts evs)" "em \<in> set (user_messages evs)"
    using e em by (simp_all add: turn_starts_def user_messages_def)
  with sm have "e = s" "em = m" by simp_all
  moreover have "m_role msg = RUser" using scan_user_role [OF scan em(1,2)] by simp
  ultimately show ?thesis using sm e em r by blast
qed

end
