(* ===== verification/Bt_Store.thy ===== *)
theory Bt_Store
  imports Bt_Projections Bt_Admission
begin

section \<open>The event store: appends and transactions\<close>

text \<open>
  \<open>bt-session/src/store.rs\<close>, the primitive writes every public operation is composed of:
  \<open>append_event_in_tx\<close> and \<open>append_events_in_tx\<close>, the raw chunk insert, the branch and session
  updates, and the transaction that commits or rolls back. Encoding an envelope as JSON and a time
  as text does not fail for the values the types allow.

  A transaction body maps the database to an error or to the new database with a result. When the
  body fails, the transaction is dropped, which rolls back.
\<close>

type_synonym 'a tx = "database \<Rightarrow> (database \<times> 'a) result"

definition tx_ok :: "'a \<Rightarrow> 'a tx" where
  "tx_ok a db = Inr (db, a)"

definition tx_bind :: "'a tx \<Rightarrow> ('a \<Rightarrow> 'b tx) \<Rightarrow> 'b tx" where
  "tx_bind m f db = and_then (m db) (\<lambda>(db', a). f a db')"

text \<open>A check that reads the database, and a write without a result.\<close>

definition tx_read :: "(database \<Rightarrow> 'a result) \<Rightarrow> 'a tx" where
  "tx_read q db = and_then (q db) (\<lambda>a. Inr (db, a))"

definition tx_write :: "(database \<Rightarrow> database result) \<Rightarrow> unit tx" where
  "tx_write w db = and_then (w db) (\<lambda>db'. Inr (db', ()))"

definition transaction :: "'a tx \<Rightarrow> database \<Rightarrow> database \<times> 'a result" where
  "transaction body db =
     (case body db of
        Inl e \<Rightarrow> (db, Inl e)
      | Inr (db', a) \<Rightarrow> (db', Inr a))"

lemmas tx_defs = tx_ok_def tx_bind_def tx_read_def tx_write_def

lemma tx_bind_eq_Inr:
  "tx_bind m f db = Inr (db', b) \<longleftrightarrow> (\<exists>db1 a. m db = Inr (db1, a) \<and> f a db1 = Inr (db', b))"
  by (auto simp: tx_bind_def and_then_eq_Inr)

lemma tx_ok_eq_Inr: "tx_ok a db = Inr (db', b) \<longleftrightarrow> db' = db \<and> b = a"
  by (auto simp: tx_ok_def)

lemma tx_read_eq_Inr: "tx_read q db = Inr (db', a) \<longleftrightarrow> db' = db \<and> q db = Inr a"
  by (auto simp: tx_read_def and_then_eq_Inr)

lemma tx_write_eq_Inr: "tx_write w db = Inr (db', u) \<longleftrightarrow> w db = Inr db'"
  by (auto simp: tx_write_def and_then_eq_Inr)

lemmas tx_eqs = tx_bind_eq_Inr tx_ok_eq_Inr tx_read_eq_Inr tx_write_eq_Inr

lemma transaction_Inl: "transaction body db = (db', Inl e) \<longleftrightarrow> body db = Inl e \<and> db' = db"
  by (auto simp: transaction_def split: sum.splits)

lemma transaction_Inr: "transaction body db = (db', Inr a) \<longleftrightarrow> body db = Inr (db', a)"
  by (auto simp: transaction_def split: sum.splits)

subsection \<open>Appending events\<close>

definition insert_event_row :: "event_envelope \<Rightarrow> i64 tx" where
  "insert_event_row e db =
     (if events_autoincrement db \<ge> i64_max then Inl (Storage ''database or disk is full'')
      else if sql_exists (\<lambda>r. ev_event_id (er_event r) = ev_event_id e) (events db)
      then Inl (unique_failed ''events.event_id'')
      else if \<not> sql_exists (\<lambda>s. se_session_id s = ev_session_id e) (sessions db)
         \<or> \<not> sql_exists (\<lambda>b. br_branch_id b = ev_branch_id e) (branches db)
      then Inl foreign_key_failed
      else let seq = events_autoincrement db + 1
           in Inr (db\<lparr>events := events db @ [\<lparr>er_seq_id = seq, er_event = e\<rparr>],
                      events_autoincrement := seq\<rparr>, seq))"

definition append_event_in_tx :: "event_envelope \<Rightarrow> i64 tx" where
  "append_event_in_tx e =
     tx_bind (insert_event_row e) (\<lambda>seq.
     tx_bind (tx_write (refresh_projections e seq)) (\<lambda>_.
     tx_ok seq))"

primrec append_events_in_tx :: "event_envelope list \<Rightarrow> i64 list tx" where
  "append_events_in_tx [] = tx_ok []"
| "append_events_in_tx (e # es) =
     tx_bind (append_event_in_tx e) (\<lambda>seq.
     tx_bind (append_events_in_tx es) (\<lambda>seqs.
     tx_ok (seq # seqs)))"

definition append_event :: "event_envelope \<Rightarrow> database \<Rightarrow> database \<times> i64 result" where
  "append_event e = transaction (append_event_in_tx e)"

definition append_events :: "event_envelope list \<Rightarrow> database \<Rightarrow> database \<times> i64 list result" where
  "append_events es = transaction (append_events_in_tx es)"

subsection \<open>Raw chunks\<close>

record raw_chunk_insert =
  ri_session_id :: session_id
  ri_branch_id :: branch_id
  ri_turn_id :: "turn_id option"
  ri_llm_call_ordinal :: "u32 option"
  ri_event_id :: "string option"
  ri_provider :: string
  ri_stream_name :: string
  ri_content :: string

text \<open>The clock is the argument \<open>now\<close>.\<close>

definition append_raw_chunk_in_tx :: "time \<Rightarrow> raw_chunk_insert \<Rightarrow> i64 tx" where
  "append_raw_chunk_in_tx now c db =
     (if raw_chunks_autoincrement db \<ge> i64_max then Inl (Storage ''database or disk is full'')
      else let cid = raw_chunks_autoincrement db + 1
           in Inr (db\<lparr>raw_chunks := raw_chunks db @
                [\<lparr>rc_chunk_id = cid, rc_session_id = ri_session_id c,
                  rc_branch_id = ri_branch_id c, rc_turn_id = ri_turn_id c,
                  rc_llm_call_ordinal = ri_llm_call_ordinal c, rc_event_id = ri_event_id c,
                  rc_provider = ri_provider c, rc_stream_name = ri_stream_name c,
                  rc_content = ri_content c, rc_received_at = now\<rparr>],
              raw_chunks_autoincrement := cid\<rparr>, cid))"

primrec append_raw_chunks_in_tx :: "time \<Rightarrow> raw_chunk_insert list \<Rightarrow> i64 list tx" where
  "append_raw_chunks_in_tx now [] = tx_ok []"
| "append_raw_chunks_in_tx now (c # cs) =
     tx_bind (append_raw_chunk_in_tx now c) (\<lambda>cid.
     tx_bind (append_raw_chunks_in_tx now cs) (\<lambda>cids.
     tx_ok (cid # cids)))"

text \<open>\<open>UPDATE raw_chunks SET event_id = ?1 WHERE chunk_id = ?2\<close>\<close>

definition link_raw_chunk :: "event_id \<Rightarrow> i64 \<Rightarrow> database \<Rightarrow> database" where
  "link_raw_chunk eid cid db =
     db\<lparr>raw_chunks := sql_update (\<lambda>r. rc_chunk_id r = cid)
         (\<lambda>r. r\<lparr>rc_event_id := Some (event_id_text eid)\<rparr>) (raw_chunks db)\<rparr>"

subsection \<open>Active turns\<close>

definition active_turn_exists_in_tx :: "session_id \<Rightarrow> database \<Rightarrow> bool" where
  "active_turn_exists_in_tx sid db =
     sql_exists (\<lambda>r. at_session_id r = sid) (active_turn_projection db)"

definition ensure_active_turn_owner_in_tx ::
  "session_id \<Rightarrow> branch_id \<Rightarrow> turn_id \<Rightarrow> database \<Rightarrow> unit result" where
  "ensure_active_turn_owner_in_tx sid bid tid db =
     guard_err (\<not> sql_exists (\<lambda>r. at_session_id r = sid \<and> at_branch_id r = bid \<and> at_turn_id r = tid)
         (active_turn_projection db))
       (InvalidState ''terminal transition does not own the active turn'')"

definition ensure_optional_owner ::
  "session_id \<Rightarrow> branch_id \<Rightarrow> turn_id option \<Rightarrow> database \<Rightarrow> unit result" where
  "ensure_optional_owner sid bid turn db =
     (case turn of None \<Rightarrow> Inr () | Some tid \<Rightarrow> ensure_active_turn_owner_in_tx sid bid tid db)"

definition append_raw_chunk :: "time \<Rightarrow> raw_chunk_insert \<Rightarrow> database \<Rightarrow> database \<times> i64 result" where
  "append_raw_chunk now c = transaction
     (tx_bind (tx_read (ensure_optional_owner (ri_session_id c) (ri_branch_id c) (ri_turn_id c))) (\<lambda>_.
      append_raw_chunk_in_tx now c))"

text \<open>\<open>build_event\<close> is the caller's closure. The chunk is inserted without an event id and linked once
  the event is built.\<close>

definition append_raw_chunk_with_event ::
  "time \<Rightarrow> raw_chunk_insert \<Rightarrow> (i64 \<Rightarrow> event_envelope result) \<Rightarrow> database
     \<Rightarrow> database \<times> (i64 \<times> event_envelope \<times> i64) result" where
  "append_raw_chunk_with_event now c build_event = transaction
     (tx_bind (tx_read (ensure_optional_owner (ri_session_id c) (ri_branch_id c) (ri_turn_id c))) (\<lambda>_.
      tx_bind (append_raw_chunk_in_tx now (c\<lparr>ri_event_id := None\<rparr>)) (\<lambda>cid.
      tx_bind (tx_read (\<lambda>_. build_event cid)) (\<lambda>e.
      tx_bind (tx_write (\<lambda>db. Inr (link_raw_chunk (ev_event_id e) cid db))) (\<lambda>_.
      tx_bind (append_event_in_tx e) (\<lambda>seq.
      tx_ok (cid, e, seq)))))))"

definition append_live_completion_chunk ::
  "time \<Rightarrow> session_id \<Rightarrow> branch_id \<Rightarrow> turn_id option \<Rightarrow> u32 option \<Rightarrow> string \<Rightarrow> string \<Rightarrow> string option
     \<Rightarrow> (i64 \<Rightarrow> event_envelope result) \<Rightarrow> (i64 option \<Rightarrow> event_envelope result) \<Rightarrow> database
     \<Rightarrow> database \<times> (i64 option \<times> event_envelope list) result" where
  "append_live_completion_chunk now sid bid turn ordinal provider stream raw_content
      build_raw_event build_chunk_event = transaction
     (tx_bind (tx_read (ensure_optional_owner sid bid turn)) (\<lambda>_.
      tx_bind
        (case raw_content of
           None \<Rightarrow> tx_ok (None, [])
         | Some content \<Rightarrow>
             tx_bind (append_raw_chunk_in_tx now
               \<lparr>ri_session_id = sid, ri_branch_id = bid, ri_turn_id = turn,
                ri_llm_call_ordinal = ordinal, ri_event_id = None, ri_provider = provider,
                ri_stream_name = stream, ri_content = content\<rparr>) (\<lambda>cid.
             tx_bind (tx_read (\<lambda>_. build_raw_event cid)) (\<lambda>raw_event.
             tx_bind (tx_write (\<lambda>db. Inr (link_raw_chunk (ev_event_id raw_event) cid db))) (\<lambda>_.
             tx_bind (append_event_in_tx raw_event) (\<lambda>seq.
             tx_ok (Some cid, [raw_event\<lparr>ev_seq_id := Some seq\<rparr>]))))))
        (\<lambda>(raw_chunk_index, evs).
      tx_bind (tx_read (\<lambda>_. build_chunk_event raw_chunk_index)) (\<lambda>chunk_event.
      tx_bind (append_event_in_tx chunk_event) (\<lambda>seq.
      tx_ok (raw_chunk_index, evs @ [chunk_event\<lparr>ev_seq_id := Some seq\<rparr>]))))))"

subsection \<open>Sessions and branches\<close>

definition create_session :: "session_record \<Rightarrow> branch_record \<Rightarrow> database \<Rightarrow> database \<times> unit result" where
  "create_session s b = transaction
     (tx_bind (tx_write (insert_session_in_tx s)) (\<lambda>_.
      tx_bind (tx_write (insert_session_settings_revision_in_tx s)) (\<lambda>_.
      tx_write (insert_branch_in_tx b))))"

primrec insert_branches_in_tx :: "branch_record list \<Rightarrow> unit tx" where
  "insert_branches_in_tx [] = tx_ok ()"
| "insert_branches_in_tx (b # bs) =
     tx_bind (tx_write (insert_branch_in_tx b)) (\<lambda>_. insert_branches_in_tx bs)"

definition import_session_with_raw_chunks_and_events ::
  "time \<Rightarrow> session_record \<Rightarrow> branch_record list \<Rightarrow> raw_chunk_insert list
     \<Rightarrow> (i64 list \<Rightarrow> event_envelope list result) \<Rightarrow> database \<Rightarrow> database \<times> (i64 list \<times> i64 list) result" where
  "import_session_with_raw_chunks_and_events now s bs chunks build_events = transaction
     (tx_bind (tx_write (insert_session_in_tx s)) (\<lambda>_.
      tx_bind (tx_write (insert_session_settings_revision_in_tx s)) (\<lambda>_.
      tx_bind (insert_branches_in_tx bs) (\<lambda>_.
      tx_bind (append_raw_chunks_in_tx now chunks) (\<lambda>raw_chunk_ids.
      tx_bind (tx_read (\<lambda>_. build_events raw_chunk_ids)) (\<lambda>evs.
      tx_bind (append_events_in_tx evs) (\<lambda>seq_ids.
      tx_ok (raw_chunk_ids, seq_ids))))))))"

text \<open>\<open>create_branch\<close> runs the insert outside a transaction; a failed statement changes nothing.\<close>

definition create_branch :: "branch_record \<Rightarrow> database \<Rightarrow> database \<times> unit result" where
  "create_branch b = transaction (tx_write (insert_branch_in_tx b))"

definition set_default_branch_in_tx :: "session_id \<Rightarrow> branch_id \<Rightarrow> database \<Rightarrow> database result" where
  "set_default_branch_in_tx sid bid db =
     and_then (guard_err (\<not> sql_exists (\<lambda>b. br_session_id b = sid \<and> br_branch_id b = bid) (branches db))
       (InvalidState (''branch '' @ branch_id_text bid @ '' not found in session '' @ session_id_text sid)))
     (\<lambda>_. Inr (db\<lparr>branches := sql_update (\<lambda>b. br_session_id b = sid)
            (\<lambda>b. b\<lparr>br_is_default := (br_branch_id b = bid)\<rparr>) (branches db)\<rparr>))"

definition set_default_branch :: "session_id \<Rightarrow> branch_id \<Rightarrow> database \<Rightarrow> database \<times> unit result" where
  "set_default_branch sid bid = transaction (tx_write (set_default_branch_in_tx sid bid))"

definition set_default_branch_with_event ::
  "session_id \<Rightarrow> branch_id \<Rightarrow> event_envelope \<Rightarrow> database \<Rightarrow> database \<times> i64 result" where
  "set_default_branch_with_event sid bid e = transaction
     (tx_bind (tx_write (set_default_branch_in_tx sid bid)) (\<lambda>_. append_event_in_tx e))"

definition create_branch_with_event_and_default ::
  "branch_record \<Rightarrow> event_envelope \<Rightarrow> database \<Rightarrow> database \<times> i64 result" where
  "create_branch_with_event_and_default b e = transaction
     (tx_bind (tx_write (insert_branch_in_tx b)) (\<lambda>_.
      tx_bind (append_event_in_tx e) (\<lambda>seq.
      tx_bind (tx_write (set_default_branch_in_tx (br_session_id b) (br_branch_id b))) (\<lambda>_.
      tx_ok seq))))"

definition update_branch_summary :: "branch_id \<Rightarrow> string option \<Rightarrow> database \<Rightarrow> database" where
  "update_branch_summary bid summary db =
     db\<lparr>branches := sql_update (\<lambda>b. br_branch_id b = bid) (\<lambda>b. b\<lparr>br_summary := summary\<rparr>)
         (branches db)\<rparr>"

definition update_session_parent ::
  "time \<Rightarrow> session_id \<Rightarrow> session_id \<Rightarrow> branch_id \<Rightarrow> turn_id option \<Rightarrow> database \<Rightarrow> database" where
  "update_session_parent now sid parent parent_branch parent_turn db =
     db\<lparr>sessions := sql_update (\<lambda>s. se_session_id s = sid)
         (\<lambda>s. s\<lparr>se_parent_session_id := Some parent, se_parent_branch_id := Some parent_branch,
                se_parent_turn_id := parent_turn, se_updated_at := now\<rparr>) (sessions db)\<rparr>"

end
