(* ===== verification/Bt_Control.thy ===== *)
theory Bt_Control
  imports Bt_Store
begin

section \<open>Control-plane transitions\<close>

text \<open>
  \<open>bt-session/src/store.rs\<close>: the transactions by which turns start, run and end. Each checks the
  durable control state (settings revision, cancel flag, active turn, budget, pending work) and its
  events inside one immediate transaction and appends all events or none. An early \<open>return Ok(...)\<close>
  comes before any write, so it leaves the database as it was.
\<close>

datatype session_turn_admission =
  Started "i64 list"
| Queued "i64 list" nat
| RetryWithSettings u64
| AdmissionBudgetExhausted

datatype continuation_claim =
  Claimed "i64 list"
| Busy
| ClaimBudgetExhausted
| CancelPending
| Stale

record committed_budget_checkpoint =
  cb_checkpoint_seq_id :: i64
  cb_cancellation_seq_id :: "i64 option"
  cb_terminal_seq_ids :: "i64 list"
  cb_exhausted :: bool

record committed_budget_configuration =
  cf_configuration_seq_id :: i64
  cf_cancellation_seq_id :: "i64 option"
  cf_exhausted :: bool

record committed_session_settings_update =
  cu_session :: session_record
  cu_event :: event_envelope
  cu_seq_id :: i64

subsection \<open>Checks\<close>

definition validate_active_turn_events ::
  "session_id \<Rightarrow> branch_id \<Rightarrow> turn_id \<Rightarrow> event_envelope list \<Rightarrow> unit result" where
  "validate_active_turn_events sid bid tid evs =
     guard_err (evs = [] \<or> list_ex (\<lambda>e. ev_session_id e \<noteq> sid \<or> ev_branch_id e \<noteq> bid
         \<or> ev_turn_id e \<noteq> Some tid \<or> is_turn_finished (ev_payload e)) evs)
       (InvalidState ''active turn transition must contain non-terminal events for exactly one turn'')"

definition ends_with_finish :: "turn_id option \<Rightarrow> event_envelope list \<Rightarrow> bool" where
  "ends_with_finish turn evs =
     (evs \<noteq> [] \<and> (case ev_payload (last evs) of
        TurnFinished t _ _ _ _ _ \<Rightarrow> Some t = turn | _ \<Rightarrow> False))"

definition validate_turn_terminal_events ::
  "session_id \<Rightarrow> branch_id \<Rightarrow> turn_id \<Rightarrow> event_envelope list \<Rightarrow> unit result" where
  "validate_turn_terminal_events sid bid tid evs =
     guard_err (list_ex (\<lambda>e. ev_session_id e \<noteq> sid \<or> ev_branch_id e \<noteq> bid
         \<or> ev_turn_id e \<noteq> Some tid) evs \<or> \<not> ends_with_finish (Some tid) evs)
       (InvalidState ''terminal transition must contain one turn and end with turn.finished'')"

definition cancel_requested_in_tx :: "session_id \<Rightarrow> database \<Rightarrow> bool" where
  "cancel_requested_in_tx sid db =
     (case sql_lookup ct_session_id sid (session_control_projection db) of
        None \<Rightarrow> False | Some r \<Rightarrow> ct_cancel_requested r)"

fun try_u32_opt :: "i64 option \<Rightarrow> u32 option option" where
  "try_u32_opt None = Some None"
| "try_u32_opt (Some i) = map_option Some (try_u32 i)"

definition read_budget_config :: "budget_row \<Rightarrow> budget_config result" where
  "read_budget_config r =
     and_then (ok_or conversion_failed (try_u64_opt (bu_max_wall_clock_seconds r))) (\<lambda>wall.
     and_then (ok_or conversion_failed (try_u64_opt (bu_max_tokens r))) (\<lambda>tokens.
     and_then (ok_or conversion_failed (try_u32_opt (bu_max_turns r))) (\<lambda>turns.
     Inr \<lparr>max_wall_clock_seconds = wall, max_tokens = tokens, max_turns = turns,
          max_cost_usd = bu_max_cost_usd r\<rparr>)))"

definition session_budget_exhausted_in_tx :: "session_id \<Rightarrow> database \<Rightarrow> bool result" where
  "session_budget_exhausted_in_tx sid db =
     (case sql_lookup bu_session_id sid (session_budget_projection db) of
        None \<Rightarrow> Inr False
      | Some r \<Rightarrow>
          and_then (read_budget_config r) (\<lambda>budget.
          Inr (is_exhausted budget (clamped_u64 (bu_tokens_used r)) (clamped_u32 (bu_turns_used r))
            (clamped_u64 (bu_elapsed_seconds r)) (bu_cost_used_usd r))))"

definition session_has_pending_work_in_tx :: "session_id \<Rightarrow> database \<Rightarrow> bool" where
  "session_has_pending_work_in_tx sid db \<longleftrightarrow>
     sql_exists (\<lambda>r. at_session_id r = sid) (active_turn_projection db)
   \<or> sql_exists (\<lambda>r. av_session_id r = sid \<and> av_status r = ''pending'') (approval_projection db)
   \<or> sql_exists (\<lambda>r. tn_session_id r = sid \<and> tn_tool_name r = ''ask'' \<and> tn_status r = ''requested'')
       (tool_run_projection db)
   \<or> sql_exists (\<lambda>r. qu_session_id r = sid \<and> qu_status r = ''pending'') (queued_message_projection db)
   \<or> sql_exists (\<lambda>r. st_session_id r = sid \<and> st_status r = ''pending'') (steer_projection db)"

subsection \<open>Events of a running turn\<close>

definition commit_active_turn_events ::
  "session_id \<Rightarrow> branch_id \<Rightarrow> turn_id \<Rightarrow> event_envelope list \<Rightarrow> database \<Rightarrow> database \<times> i64 list result" where
  "commit_active_turn_events sid bid tid evs = transaction
     (tx_bind (tx_read (\<lambda>_. validate_active_turn_events sid bid tid evs)) (\<lambda>_.
      tx_bind (tx_read (ensure_active_turn_owner_in_tx sid bid tid)) (\<lambda>_.
      append_events_in_tx evs)))"

definition commit_turn_terminal_transition ::
  "session_id \<Rightarrow> branch_id \<Rightarrow> turn_id \<Rightarrow> event_envelope list \<Rightarrow> database \<Rightarrow> database \<times> i64 list result" where
  "commit_turn_terminal_transition sid bid tid evs = transaction
     (tx_bind (tx_read (\<lambda>_. validate_turn_terminal_events sid bid tid evs)) (\<lambda>_.
      tx_bind (tx_read (ensure_active_turn_owner_in_tx sid bid tid)) (\<lambda>_.
      append_events_in_tx evs)))"

subsection \<open>Budget\<close>

definition is_budget_checkpoint :: "event_payload \<Rightarrow> bool" where
  "is_budget_checkpoint p = (case p of BudgetCheckpoint _ _ _ _ \<Rightarrow> True | _ \<Rightarrow> False)"

definition is_budget_configured :: "event_payload \<Rightarrow> bool" where
  "is_budget_configured p = (case p of BudgetConfigured _ \<Rightarrow> True | _ \<Rightarrow> False)"

definition is_session_cancelled :: "event_payload \<Rightarrow> bool" where
  "is_session_cancelled p = (case p of SessionCancelled _ \<Rightarrow> True | _ \<Rightarrow> False)"

definition validate_budget_checkpoint_transition ::
  "event_envelope \<Rightarrow> event_envelope \<Rightarrow> event_envelope list \<Rightarrow> bool \<Rightarrow> turn_id result" where
  "validate_budget_checkpoint_transition checkpoint cancellation terminal_events require_finish =
     and_then (guard_err (ev_session_id checkpoint \<noteq> ev_session_id cancellation
         \<or> ev_branch_id checkpoint \<noteq> ev_branch_id cancellation
         \<or> \<not> is_budget_checkpoint (ev_payload checkpoint)
         \<or> \<not> is_session_cancelled (ev_payload cancellation))
       (InvalidState ''budget checkpoint transition contains inconsistent events'')) (\<lambda>_.
     and_then (guard_err (list_ex (\<lambda>e. ev_session_id e \<noteq> ev_session_id checkpoint
         \<or> ev_branch_id e \<noteq> ev_branch_id checkpoint \<or> ev_turn_id e \<noteq> ev_turn_id checkpoint) terminal_events)
       (InvalidState ''budget terminal transition contains events outside the checkpoint turn'')) (\<lambda>_.
     and_then (guard_err (require_finish \<and> \<not> ends_with_finish (ev_turn_id checkpoint) terminal_events)
       (InvalidState ''budget terminal transition must end with turn.finished'')) (\<lambda>_.
     and_then (ok_or (InvalidState ''budget checkpoint transition is missing a turn id'')
       (ev_turn_id checkpoint)) (\<lambda>tid.
     and_then (if require_finish
               then validate_turn_terminal_events (ev_session_id checkpoint) (ev_branch_id checkpoint)
                      tid terminal_events
               else Inr ()) (\<lambda>_.
     Inr tid)))))"

text \<open>\<open>exhausted.then(|| append).transpose()?\<close>\<close>

definition append_when :: "bool \<Rightarrow> event_envelope \<Rightarrow> i64 option tx" where
  "append_when c e =
     (if c then tx_bind (append_event_in_tx e) (\<lambda>seq. tx_ok (Some seq)) else tx_ok None)"

definition commit_budget_checkpoint_transition ::
  "event_envelope \<Rightarrow> event_envelope \<Rightarrow> event_envelope list \<Rightarrow> bool \<Rightarrow> database
     \<Rightarrow> database \<times> committed_budget_checkpoint result" where
  "commit_budget_checkpoint_transition checkpoint cancellation terminal_events require_finish = transaction
     (tx_bind (tx_read (\<lambda>_. validate_budget_checkpoint_transition checkpoint cancellation
         terminal_events require_finish)) (\<lambda>tid.
      tx_bind (tx_read (ensure_active_turn_owner_in_tx (ev_session_id checkpoint)
         (ev_branch_id checkpoint) tid)) (\<lambda>_.
      tx_bind (append_event_in_tx checkpoint) (\<lambda>checkpoint_seq.
      tx_bind (tx_read (session_budget_exhausted_in_tx (ev_session_id checkpoint))) (\<lambda>exhausted.
      tx_bind (append_when exhausted cancellation) (\<lambda>cancellation_seq.
      tx_bind (append_events_in_tx terminal_events) (\<lambda>terminal_seqs.
      tx_ok \<lparr>cb_checkpoint_seq_id = checkpoint_seq, cb_cancellation_seq_id = cancellation_seq,
             cb_terminal_seq_ids = terminal_seqs, cb_exhausted = exhausted\<rparr>)))))))"

definition commit_budget_checkpoint ::
  "event_envelope \<Rightarrow> event_envelope \<Rightarrow> database \<Rightarrow> database \<times> committed_budget_checkpoint result" where
  "commit_budget_checkpoint checkpoint cancellation =
     commit_budget_checkpoint_transition checkpoint cancellation [] False"

definition commit_budget_terminal_transition ::
  "event_envelope \<Rightarrow> event_envelope \<Rightarrow> event_envelope list \<Rightarrow> database
     \<Rightarrow> database \<times> committed_budget_checkpoint result" where
  "commit_budget_terminal_transition checkpoint cancellation terminal_events =
     commit_budget_checkpoint_transition checkpoint cancellation terminal_events True"

definition commit_budget_configuration ::
  "event_envelope \<Rightarrow> event_envelope \<Rightarrow> database \<Rightarrow> database \<times> committed_budget_configuration result" where
  "commit_budget_configuration configuration cancellation = transaction
     (tx_bind (tx_read (\<lambda>_. guard_err (ev_session_id configuration \<noteq> ev_session_id cancellation
         \<or> ev_branch_id configuration \<noteq> ev_branch_id cancellation
         \<or> \<not> is_budget_configured (ev_payload configuration)
         \<or> \<not> is_session_cancelled (ev_payload cancellation))
       (InvalidState ''budget configuration transition contains inconsistent events''))) (\<lambda>_.
      tx_bind (tx_read (\<lambda>db. guard_err (active_turn_exists_in_tx (ev_session_id configuration) db)
       (InvalidState ''session budget can only be configured while the session is idle''))) (\<lambda>_.
      tx_bind (append_event_in_tx configuration) (\<lambda>configuration_seq.
      tx_bind (tx_read (session_budget_exhausted_in_tx (ev_session_id configuration))) (\<lambda>exhausted.
      tx_bind (append_when exhausted cancellation) (\<lambda>cancellation_seq.
      tx_ok \<lparr>cf_configuration_seq_id = configuration_seq, cf_cancellation_seq_id = cancellation_seq,
             cf_exhausted = exhausted\<rparr>))))))"

subsection \<open>Settings\<close>

definition unwrap_or :: "'a option \<Rightarrow> 'a \<Rightarrow> 'a" where
  "unwrap_or x d = (case x of None \<Rightarrow> d | Some v \<Rightarrow> v)"

definition next_settings_revision :: "u64 \<Rightarrow> u64 result" where
  "next_settings_revision current =
     (if uint current + 1 \<le> i64_max then Inr (current + 1)
      else Inl (InvalidState ''session settings revision exhausted''))"

text \<open>\<open>EventEnvelope::new\<close> draws the event and span ids and the time; they are the first three
  arguments.\<close>

definition commit_session_settings_update ::
  "event_id \<Rightarrow> span_id \<Rightarrow> time \<Rightarrow> session_id \<Rightarrow> branch_id \<Rightarrow> connection_id option
     \<Rightarrow> string option option \<Rightarrow> session_tool_mode option \<Rightarrow> database
     \<Rightarrow> database \<times> committed_session_settings_update result" where
  "commit_session_settings_update eid span now sid bid conn model mode = transaction
     (tx_bind (tx_read (\<lambda>db. ok_or (InvalidState ''session not found'')
         (sql_lookup se_session_id sid (sessions db)))) (\<lambda>current.
      tx_bind (tx_read (\<lambda>_. next_settings_revision
         (revision_of_column (se_settings_revision_id current)))) (\<lambda>revision.
      let event = envelope_new eid span now sid bid SkSession
            (SessionSettingsUpdated revision
              (connection_id_text (unwrap_or conn (ConnectionId (se_connection_id current))))
              (unwrap_or model (se_model_id current))
              (session_tool_mode_to_str
                (unwrap_or mode (parse_session_tool_mode (se_tool_mode current)))))
      in tx_bind (append_event_in_tx event) (\<lambda>seq.
         tx_bind (tx_read (\<lambda>db. ok_or no_rows (load_session sid db))) (\<lambda>session.
         tx_ok \<lparr>cu_session = session, cu_event = event, cu_seq_id = seq\<rparr>)))))"

subsection \<open>Admission of a user message\<close>

definition append_cancel_clear :: "bool \<Rightarrow> event_envelope \<Rightarrow> i64 list tx" where
  "append_cancel_clear requested e =
     (if requested then tx_bind (append_event_in_tx e) (\<lambda>seq. tx_ok [seq]) else tx_ok [])"

definition pending_queue_length :: "session_id \<Rightarrow> database \<Rightarrow> nat" where
  "pending_queue_length sid db =
     length (filter (\<lambda>r. qu_session_id r = sid \<and> qu_status r = ''pending'') (queued_message_projection db))"

definition admit_idle_or_pending ::
  "session_id \<Rightarrow> event_envelope \<Rightarrow> event_envelope list \<Rightarrow> event_envelope list
     \<Rightarrow> session_turn_admission tx" where
  "admit_idle_or_pending sid cancel_clear started_events queued_events db =
     (if session_has_pending_work_in_tx sid db
      then tx_bind (append_events_in_tx queued_events) (\<lambda>seqs.
           tx_bind (tx_read (\<lambda>db1. Inr (pending_queue_length sid db1))) (\<lambda>position.
           tx_ok (Queued seqs position))) db
      else tx_bind (append_cancel_clear (cancel_requested_in_tx sid db) cancel_clear) (\<lambda>cleared.
           tx_bind (append_events_in_tx started_events) (\<lambda>seqs.
           tx_ok (Started (cleared @ seqs)))) db)"

definition admit_turn_or_queue ::
  "session_id \<Rightarrow> u64 \<Rightarrow> event_envelope \<Rightarrow> event_envelope list \<Rightarrow> event_envelope list \<Rightarrow> database
     \<Rightarrow> database \<times> session_turn_admission result" where
  "admit_turn_or_queue sid expected cancel_clear started_events queued_events = transaction
     (tx_bind (tx_read (\<lambda>db. ok_or (InvalidState ''session not found'')
         (sql_lookup se_session_id sid (sessions db)))) (\<lambda>session.
      let current = revision_of_column (se_settings_revision_id session)
      in if current \<noteq> expected then tx_ok (RetryWithSettings current)
         else
           tx_bind (tx_read (\<lambda>_. validate_turn_admission_events sid expected cancel_clear
             started_events queued_events)) (\<lambda>_.
           tx_bind (tx_read (session_budget_exhausted_in_tx sid)) (\<lambda>exhausted.
           if exhausted then tx_ok AdmissionBudgetExhausted
           else admit_idle_or_pending sid cancel_clear started_events queued_events))))"

subsection \<open>Claims of pending work\<close>

definition claim_events :: "event_envelope list \<Rightarrow> continuation_claim tx" where
  "claim_events evs = tx_bind (append_events_in_tx evs) (\<lambda>seqs. tx_ok (Claimed seqs))"

text \<open>The three checks that open the queued and steer claims.\<close>

definition when_claimable :: "session_id \<Rightarrow> continuation_claim tx \<Rightarrow> continuation_claim tx" where
  "when_claimable sid body db =
     (if cancel_requested_in_tx sid db then tx_ok CancelPending db
      else if active_turn_exists_in_tx sid db then tx_ok Busy db
      else tx_bind (tx_read (session_budget_exhausted_in_tx sid)) (\<lambda>exhausted.
           if exhausted then tx_ok ClaimBudgetExhausted else body) db)"

text \<open>\<open>ORDER BY source_seq ASC\<close>\<close>

definition pending_queue :: "session_id \<Rightarrow> database \<Rightarrow> queued_row list" where
  "pending_queue sid db =
     sql_ordered qu_source_seq (\<lambda>r. qu_session_id r = sid \<and> qu_status r = ''pending'')
       (queued_message_projection db)"

definition claim_queued_continuation ::
  "session_id \<Rightarrow> event_id \<Rightarrow> event_envelope list \<Rightarrow> database \<Rightarrow> database \<times> continuation_claim result" where
  "claim_queued_continuation sid qid evs = transaction
     (when_claimable sid (\<lambda>db.
        case pending_queue sid db of
          [] \<Rightarrow> tx_ok Stale db
        | next # _ \<Rightarrow>
            (if qu_queue_event_id next \<noteq> qid then tx_ok Stale db
             else tx_bind (tx_read (\<lambda>_. validate_queued_continuation_events sid qid
                    (revision_of_column (qu_settings_revision_id next)) evs)) (\<lambda>_.
                  claim_events evs) db)))"

definition pending_steers :: "session_id \<Rightarrow> branch_id \<Rightarrow> database \<Rightarrow> steer_row list" where
  "pending_steers sid bid db =
     sql_ordered st_source_seq
       (\<lambda>r. st_session_id r = sid \<and> st_branch_id r = bid \<and> st_status r = ''pending'')
       (steer_projection db)"

definition claim_steer_continuation ::
  "session_id \<Rightarrow> branch_id \<Rightarrow> event_id list \<Rightarrow> event_envelope list \<Rightarrow> database
     \<Rightarrow> database \<times> continuation_claim result" where
  "claim_steer_continuation sid bid ids evs = transaction
     (when_claimable sid (\<lambda>db.
        let pending = pending_steers sid bid db
        in if map st_steer_event_id pending \<noteq> ids \<or> pending = [] then tx_ok Stale db
           else tx_bind (tx_read (\<lambda>_. validate_steer_continuation_events sid bid ids
                  (revision_of_column (st_settings_revision_id (last pending))) evs)) (\<lambda>_.
                claim_events evs) db))"

definition claimed_turn_of :: "related_session_message_id \<Rightarrow> event_envelope list \<Rightarrow> turn_id option" where
  "claimed_turn_of mid evs =
     (case evs of
        [] \<Rightarrow> None
      | e # _ \<Rightarrow> (case ev_payload e of
          RelatedSessionMessageResolved event_mid status resulting_turn _ \<Rightarrow>
            (if event_mid = mid \<and> status = RmClaimed then resulting_turn else None)
        | _ \<Rightarrow> None))"

definition starts_related_turn :: "turn_id option \<Rightarrow> u64 \<Rightarrow> event_payload \<Rightarrow> bool" where
  "starts_related_turn claimed expected p =
     (case p of
        TurnStarted tid _ _ _ revision source _ \<Rightarrow>
          source = RelatedSessionMessageSource \<and> Some tid = claimed \<and> revision = expected
      | _ \<Rightarrow> False)"

definition related_continuation_malformed ::
  "session_id \<Rightarrow> related_session_message_id \<Rightarrow> u64 \<Rightarrow> related_session_message \<Rightarrow> event_envelope list \<Rightarrow> bool" where
  "related_continuation_malformed sid mid expected m evs =
     (case evs of
        [e0, e1] \<Rightarrow>
          rm_delivery_mode m \<noteq> Wake
        \<or> list_ex (\<lambda>e. ev_session_id e \<noteq> sid \<or> ev_branch_id e \<noteq> rm_destination_branch_id m) evs
        \<or> ev_turn_id e0 \<noteq> None
        \<or> claimed_turn_of mid evs = None
        \<or> ev_turn_id e1 \<noteq> claimed_turn_of mid evs
        \<or> \<not> starts_related_turn (claimed_turn_of mid evs) expected (ev_payload e1)
      | _ \<Rightarrow> True)"

definition pending_related :: "session_id \<Rightarrow> database \<Rightarrow> related_row list" where
  "pending_related sid db =
     sql_ordered re_source_seq
       (\<lambda>r. re_session_id r = sid \<and> re_direction r = ''received'' \<and> re_status r = ''pending'')
       (related_session_message_projection db)"

text \<open>\<open>row.get::<_, u64>\<close> refuses a negative column.\<close>

definition session_revision_u64 :: "session_id \<Rightarrow> database \<Rightarrow> u64 option result" where
  "session_revision_u64 sid db =
     (case sql_lookup se_session_id sid (sessions db) of
        None \<Rightarrow> Inr None
      | Some s \<Rightarrow> and_then (ok_or conversion_failed (try_u64 (se_settings_revision_id s))) (\<lambda>r. Inr (Some r)))"

definition claim_related_message_continuation ::
  "session_id \<Rightarrow> related_session_message_id \<Rightarrow> u64 \<Rightarrow> event_envelope list \<Rightarrow> database
     \<Rightarrow> database \<times> continuation_claim result" where
  "claim_related_message_continuation sid mid expected evs = transaction (\<lambda>db.
     if cancel_requested_in_tx sid db then tx_ok CancelPending db
     else if session_has_pending_work_in_tx sid db then tx_ok Busy db
     else tx_bind (tx_read (session_budget_exhausted_in_tx sid)) (\<lambda>exhausted.
       if exhausted then tx_ok ClaimBudgetExhausted
       else tx_bind (tx_read (session_revision_u64 sid)) (\<lambda>revision.
         if revision \<noteq> Some expected then tx_ok Stale
         else (\<lambda>db1. case pending_related sid db1 of
             [] \<Rightarrow> tx_ok Stale db1
           | next # _ \<Rightarrow>
               (if re_message_id next \<noteq> mid then tx_ok Stale db1
                else if related_continuation_malformed sid mid expected (re_message next) evs
                then Inl (InvalidState ''related-session continuation events are malformed'')
                else claim_events evs db1)))) db)"

definition resolves_for_turn :: "related_session_message_id \<Rightarrow> turn_id \<Rightarrow> event_payload \<Rightarrow> bool" where
  "resolves_for_turn mid tid p =
     (case p of
        RelatedSessionMessageResolved event_mid status resulting_turn _ \<Rightarrow>
          status = RmClaimed \<and> event_mid = mid \<and> resulting_turn = Some tid
      | _ \<Rightarrow> False)"

text \<open>The loop over the zipped ids and events: an error, or whether every message is claimable.\<close>

primrec check_active_claims ::
  "session_id \<Rightarrow> branch_id \<Rightarrow> turn_id \<Rightarrow> (related_session_message_id \<times> event_envelope) list \<Rightarrow> database
     \<Rightarrow> bool result" where
  "check_active_claims sid bid tid [] db = Inr True"
| "check_active_claims sid bid tid (x # xs) db =
     (case x of (mid, e) \<Rightarrow>
      (if ev_session_id e \<noteq> sid \<or> ev_branch_id e \<noteq> bid \<or> ev_turn_id e \<noteq> Some tid
         \<or> \<not> resolves_for_turn mid tid (ev_payload e)
       then Inl (InvalidState ''active-turn related-message claim contains a malformed resolution event'')
       else case sql_lookup related_key (sid, mid, ''received'') (related_session_message_projection db) of
           None \<Rightarrow> Inr False
         | Some r \<Rightarrow>
             (if re_status r \<noteq> ''pending'' \<or> rm_delivery_mode (re_message r) \<noteq> Wake
                \<or> rm_destination_session_id (re_message r) \<noteq> sid
                \<or> rm_destination_branch_id (re_message r) \<noteq> bid
              then Inr False
              else check_active_claims sid bid tid xs db)))"

definition claim_related_messages_for_active_turn ::
  "session_id \<Rightarrow> branch_id \<Rightarrow> turn_id \<Rightarrow> related_session_message_id list \<Rightarrow> event_envelope list \<Rightarrow> database
     \<Rightarrow> database \<times> continuation_claim result" where
  "claim_related_messages_for_active_turn sid bid tid mids evs = transaction (\<lambda>db.
     if mids = [] \<or> length mids \<noteq> length evs
     then Inl (InvalidState ''active-turn related-message claim requires one resolution event per message'')
     else if \<not> distinct mids
     then Inl (InvalidState ''active-turn related-message claim contains duplicate message ids'')
     else case ensure_active_turn_owner_in_tx sid bid tid db of
         Inl _ \<Rightarrow> tx_ok Busy db
       | Inr _ \<Rightarrow>
           tx_bind (tx_read (check_active_claims sid bid tid (zip mids evs))) (\<lambda>claimable.
           if claimable then claim_events evs else tx_ok Stale) db)"

definition resumed_pending ::
  "session_id \<Rightarrow> branch_id \<Rightarrow> tool_call_id \<Rightarrow> string \<Rightarrow> turn_id \<Rightarrow> i64 \<Rightarrow> resumed_continuation_kind
     \<Rightarrow> database \<Rightarrow> bool" where
  "resumed_pending sid bid cid name tid request_seq kind db =
     (case kind of
        ApprovalKind \<Rightarrow>
          sql_exists (\<lambda>r. av_session_id r = sid \<and> av_call_id r = cid \<and> av_tool_name r = name
            \<and> av_status r = ''pending'' \<and> av_branch_id r = Some bid \<and> av_turn_id r = Some tid
            \<and> av_requested_seq_id r = Some request_seq) (approval_projection db)
      | InputKind \<Rightarrow>
          sql_exists (\<lambda>r. tn_session_id r = sid \<and> tn_call_id r = cid \<and> tn_tool_name r = name
            \<and> tn_status r = ''requested'' \<and> tn_branch_id r = Some bid \<and> tn_turn_id r = Some tid
            \<and> tn_requested_seq_id r = Some request_seq) (tool_run_projection db))"

definition claim_resumed_continuation ::
  "session_id \<Rightarrow> branch_id \<Rightarrow> tool_call_id \<Rightarrow> string \<Rightarrow> turn_id \<Rightarrow> i64 \<Rightarrow> u64 \<Rightarrow> resumed_continuation_kind
     \<Rightarrow> event_envelope list \<Rightarrow> database \<Rightarrow> database \<times> continuation_claim result" where
  "claim_resumed_continuation sid bid cid name tid request_seq expected kind evs = transaction
     (tx_bind (tx_read (session_budget_exhausted_in_tx sid)) (\<lambda>exhausted.
        if exhausted then tx_ok ClaimBudgetExhausted
        else (\<lambda>db.
          if cancel_requested_in_tx sid db then tx_ok CancelPending db
          else if active_turn_exists_in_tx sid db then tx_ok Busy db
          else if \<not> resumed_pending sid bid cid name tid request_seq kind db then tx_ok Stale db
          else tx_bind (tx_read (\<lambda>_. validate_resumed_continuation_events sid bid cid expected kind evs)) (\<lambda>_.
               claim_events evs) db)))"

end
