(* ===== verification/Bt_Related.thy ===== *)
theory Bt_Related
  imports Bt_Control
begin

section \<open>Related sessions\<close>

text \<open>
  \<open>bt-session/src/store.rs\<close>: spawning child sessions and the messages sessions of one lineage tree
  exchange. The walk to the lineage root keeps the set of visited sessions, as the source does; its
  termination measure is the number of sessions named in the table that were not visited. The two
  recursive SQL queries of the spawn check are worklists whose rows are never taken twice, which is
  what \<open>UNION\<close> in a recursive common table expression does.
\<close>

record related_session_message_receipt =
  rr_message_id :: related_session_message_id
  rr_sent_event_id :: event_id
  rr_sent_seq_id :: i64
  rr_received_event_id :: event_id
  rr_received_seq_id :: i64
  rr_status :: related_session_message_status

record related_session_message_settlement =
  rs_obligation_message_id :: related_session_message_id
  rs_reply_message_id :: related_session_message_id
  rs_reply_kind :: related_session_message_kind
  rs_settling_turn_id :: turn_id
  rs_settlement_event_id :: event_id
  rs_settlement_seq_id :: i64
  rs_settled_at :: time

record related_session_settlement_receipt =
  rq_settlement :: related_session_message_settlement
  rq_reply :: related_session_message_receipt
  rq_newly_committed :: bool

record related_session_message_record =
  rd_message :: related_session_message
  rd_direction :: related_session_message_direction
  rd_status :: related_session_message_status
  rd_event_id :: event_id
  rd_counterpart_event_id :: event_id
  rd_seq_id :: i64
  rd_resulting_turn_id :: "turn_id option"
  rd_resolved_at :: "time option"
  rd_settlement :: "related_session_message_settlement option"

definition parse_direction :: "string \<Rightarrow> related_session_message_direction result" where
  "parse_direction d =
     (if d = ''sent'' then Inr Sent else if d = ''received'' then Inr Received
      else Inl (Storage (''unknown related-session message direction `'' @ d @ ''`'')))"

definition parse_related_message_record :: "related_row \<Rightarrow> related_session_message_record result" where
  "parse_related_message_record r =
     and_then (parse_direction (re_direction r)) (\<lambda>direction.
     and_then (parse_related_message_status (re_status r)) (\<lambda>status.
     Inr \<lparr>rd_message = re_message r, rd_direction = direction, rd_status = status,
          rd_event_id = re_event_id r, rd_counterpart_event_id = re_counterpart_event_id r,
          rd_seq_id = re_source_seq r, rd_resulting_turn_id = re_resulting_turn_id r,
          rd_resolved_at = re_resolved_at r,
          rd_settlement = map_option (\<lambda>s.
            \<lparr>rs_obligation_message_id = rm_message_id (re_message r),
             rs_reply_message_id = sl_reply_message_id s, rs_reply_kind = sl_reply_kind s,
             rs_settling_turn_id = sl_settling_turn_id s,
             rs_settlement_event_id = sl_event_id s, rs_settlement_seq_id = sl_seq s,
             rs_settled_at = sl_settled_at s\<rparr>) (re_settlement r)\<rparr>))"

subsection \<open>Envelopes of one delivery\<close>

definition delivery_mismatch ::
  "event_envelope \<Rightarrow> event_envelope \<Rightarrow> event_id \<Rightarrow> event_id \<Rightarrow> related_session_message
     \<Rightarrow> related_session_message \<Rightarrow> bool" where
  "delivery_mismatch sent received sent_counterpart received_counterpart m received_m \<longleftrightarrow>
     m \<noteq> received_m
   \<or> ev_event_id sent \<noteq> received_counterpart
   \<or> ev_event_id received \<noteq> sent_counterpart
   \<or> ev_session_id sent \<noteq> rm_source_session_id m
   \<or> ev_branch_id sent \<noteq> rm_source_branch_id m
   \<or> ev_turn_id sent \<noteq> rm_caused_by_turn_id m
   \<or> ev_session_id received \<noteq> rm_destination_session_id m
   \<or> ev_branch_id received \<noteq> rm_destination_branch_id m
   \<or> ev_turn_id received \<noteq> None
   \<or> str_trim (rm_text m) = []"

definition validate_related_session_message_envelopes ::
  "event_envelope \<Rightarrow> event_envelope \<Rightarrow> related_session_message result" where
  "validate_related_session_message_envelopes sent received =
     (case ev_payload sent of
        RelatedSessionMessageRecorded d1 c1 m1 \<Rightarrow>
          (case ev_payload received of
             RelatedSessionMessageRecorded d2 c2 m2 \<Rightarrow>
               (if d1 = Sent \<and> d2 = Received
                then and_then (guard_err (delivery_mismatch sent received c1 c2 m1 m2)
                  (InvalidState ''related-session delivery envelopes do not match the canonical message''))
                  (\<lambda>_. Inr m1)
                else Inl (InvalidState ''related-session delivery requires one sent and one received event''))
           | _ \<Rightarrow> Inl (InvalidState ''related-session delivery requires one sent and one received event''))
      | _ \<Rightarrow> Inl (InvalidState ''related-session delivery requires one sent and one received event''))"

subsection \<open>Lineage\<close>

definition parent_session_id_in_tx :: "session_id \<Rightarrow> database \<Rightarrow> session_id option result" where
  "parent_session_id_in_tx sid db =
     and_then (ok_or (NotFound (''session `'' @ session_id_text sid @ ''`''))
       (sql_lookup se_session_id sid (sessions db)))
     (\<lambda>s. Inr (se_parent_session_id s))"

definition parent_ids :: "database \<Rightarrow> session_id list" where
  "parent_ids db = List.map_filter se_parent_session_id (sessions db)"

lemma parent_in_parent_ids: "parent_session_id_in_tx sid db = Inr (Some p) \<Longrightarrow> p \<in> set (parent_ids db)"
  by (force simp: parent_session_id_in_tx_def and_then_eq_Inr parent_ids_def map_filter_def
      dest: sql_lookup_SomeD)

function lineage_walk :: "database \<Rightarrow> session_id list \<Rightarrow> session_id \<Rightarrow> session_id result" where
  "lineage_walk db visited cursor =
     (case parent_session_id_in_tx cursor db of
        Inl e \<Rightarrow> Inl e
      | Inr None \<Rightarrow> Inr cursor
      | Inr (Some parent) \<Rightarrow>
          (if parent \<in> set visited then Inl (InvalidState ''session lineage contains a cycle'')
           else lineage_walk db (parent # visited) parent))"
  by pat_completeness auto
termination
proof (relation "measure (\<lambda>(db, visited, _). card (set (parent_ids db) - set visited))")
  fix db :: database and visited cursor y parent
  assume "parent_session_id_in_tx cursor db = Inr y" "y = Some parent" and new: "parent \<notin> set visited"
  then have "parent \<in> set (parent_ids db)" by (simp add: parent_in_parent_ids)
  with new have "set (parent_ids db) - set (parent # visited) \<subset> set (parent_ids db) - set visited"
    by auto
  then show "((db, parent # visited, parent), (db, visited, cursor))
      \<in> measure (\<lambda>(db, visited, _). card (set (parent_ids db) - set visited))"
    by (simp add: psubset_card_mono)
qed simp

declare lineage_walk.simps [simp del]

definition lineage_root_in_tx :: "session_id \<Rightarrow> database \<Rightarrow> session_id result" where
  "lineage_root_in_tx sid db = lineage_walk db [sid] sid"

definition ensure_branch_owner_in_tx :: "session_id \<Rightarrow> branch_id \<Rightarrow> database \<Rightarrow> unit result" where
  "ensure_branch_owner_in_tx sid bid db =
     guard_err (\<not> sql_exists (\<lambda>b. br_branch_id b = bid \<and> br_session_id b = sid) (branches db))
       (Protocol (''branch `'' @ branch_id_text bid @ ''` does not belong to session `''
          @ session_id_text sid @ ''`''))"

definition same_lineage_tree :: "related_session_message \<Rightarrow> database \<Rightarrow> unit result" where
  "same_lineage_tree m db =
     (let limited = Protocol ''related-session messages are limited to sessions in the same lineage tree''
      in if rm_source_session_id m = rm_destination_session_id m then Inl limited
         else and_then (lineage_root_in_tx (rm_source_session_id m) db) (\<lambda>source_root.
              and_then (lineage_root_in_tx (rm_destination_session_id m) db) (\<lambda>destination_root.
              guard_err (source_root \<noteq> destination_root) limited)))"

definition owns_causal_turn :: "related_session_message \<Rightarrow> turn_id \<Rightarrow> database \<Rightarrow> bool" where
  "owns_causal_turn m tid db \<longleftrightarrow>
     sql_exists (\<lambda>r. at_session_id r = rm_source_session_id m \<and> at_branch_id r = rm_source_branch_id m
        \<and> at_turn_id r = tid) (active_turn_projection db)
   \<or> sql_exists (\<lambda>r. tp_session_id r = rm_source_session_id m \<and> tp_branch_id r = rm_source_branch_id m
        \<and> tp_turn_id r = tid) (turn_projection db)"

definition check_reply_edge :: "related_session_message \<Rightarrow> related_session_message_id \<Rightarrow> database \<Rightarrow> unit result" where
  "check_reply_edge m reply_id db =
     and_then (ok_or (Protocol ''related-session reply target was not received by the sender'')
       (sql_lookup related_key (rm_source_session_id m, reply_id, ''received'')
         (related_session_message_projection db))) (\<lambda>r.
     let original = re_message r
     in guard_err (rm_source_session_id m \<noteq> rm_destination_session_id original
          \<or> rm_source_branch_id m \<noteq> rm_destination_branch_id original
          \<or> rm_destination_session_id m \<noteq> rm_source_session_id original
          \<or> rm_destination_branch_id m \<noteq> rm_source_branch_id original)
        (Protocol ''related-session reply must reverse the original session and branch edge''))"

definition ensure_related_session_message_constraints_in_tx ::
  "related_session_message \<Rightarrow> database \<Rightarrow> unit result" where
  "ensure_related_session_message_constraints_in_tx m db =
     and_then (same_lineage_tree m db) (\<lambda>_.
     and_then (ensure_branch_owner_in_tx (rm_source_session_id m) (rm_source_branch_id m) db) (\<lambda>_.
     and_then (ensure_branch_owner_in_tx (rm_destination_session_id m) (rm_destination_branch_id m) db) (\<lambda>_.
     and_then (case rm_caused_by_turn_id m of
         None \<Rightarrow> Inr ()
       | Some tid \<Rightarrow> guard_err (\<not> owns_causal_turn m tid db)
           (Protocol ''related-session message causal turn does not belong to the sender'')) (\<lambda>_.
     case rm_in_reply_to m of None \<Rightarrow> Inr () | Some reply_id \<Rightarrow> check_reply_edge m reply_id db))))"

subsection \<open>Spawn bounds\<close>

text \<open>The rows of the \<open>ancestors\<close> query, from the session upwards.\<close>

function ancestor_rows :: "database \<Rightarrow> session_id list \<Rightarrow> session_id \<Rightarrow> session_row list" where
  "ancestor_rows db seen sid =
     (case sql_lookup se_session_id sid (sessions db) of
        None \<Rightarrow> []
      | Some s \<Rightarrow>
          s # (case se_parent_session_id s of
                 None \<Rightarrow> []
               | Some p \<Rightarrow> if p \<in> set (sid # seen) then [] else ancestor_rows db (sid # seen) p))"
  by pat_completeness auto
termination
proof (relation "measure (\<lambda>(db, seen, sid). card (set (map se_session_id (sessions db)) - set seen)
    + (if sid \<in> set seen then 1 else 0))")
  fix db :: database and seen sid s p
  let ?ids = "set (map se_session_id (sessions db))"
  assume s: "sql_lookup se_session_id sid (sessions db) = Some s" and p: "p \<notin> set (sid # seen)"
  have "sid \<in> ?ids" using s by (auto dest: sql_lookup_SomeD)
  then have "card (?ids - set (sid # seen)) < card (?ids - set seen) + (if sid \<in> set seen then 1 else 0)"
  proof (cases "sid \<in> set seen")
    case True
    then have "insert sid (set seen) = set seen" by auto
    with True show ?thesis by simp
  next
    case False
    with \<open>sid \<in> ?ids\<close> have "?ids - set (sid # seen) \<subset> ?ids - set seen" by auto
    with False show ?thesis by (simp add: psubset_card_mono)
  qed
  with p show "((db, sid # seen, p), (db, seen, sid))
      \<in> measure (\<lambda>(db, seen, sid). card (set (map se_session_id (sessions db)) - set seen)
          + (if sid \<in> set seen then 1 else 0))"
    by simp
qed simp

declare ancestor_rows.simps [simp del]

text \<open>The \<open>lineage\<close> query: the ids reachable from the root over \<open>parent_session_id\<close>.\<close>

definition children_of :: "database \<Rightarrow> session_id \<Rightarrow> session_id list" where
  "children_of db sid =
     map se_session_id (filter (\<lambda>s. se_parent_session_id s = Some sid) (sessions db))"

function lineage_ids :: "database \<Rightarrow> session_id list \<Rightarrow> session_id list \<Rightarrow> session_id list" where
  "lineage_ids db [] seen = seen"
| "lineage_ids db (x # queue) seen =
     (let new = remdups (filter (\<lambda>c. c \<notin> set seen) (children_of db x))
      in lineage_ids db (queue @ new) (seen @ new))"
  by pat_completeness auto
termination
proof (relation "measures [\<lambda>(db, queue, seen). card (set (map se_session_id (sessions db)) - set seen),
    \<lambda>(db, queue, seen). length queue]")
  fix db :: database and x queue seen new
  assume new: "new = remdups (filter (\<lambda>c. c \<notin> set seen) (children_of db x))"
  let ?ids = "set (map se_session_id (sessions db))"
  have sub: "set new \<subseteq> ?ids - set seen" by (auto simp: new children_of_def)
  show "((db, queue @ new, seen @ new), (db, x # queue, seen))
      \<in> measures [\<lambda>(db, queue, seen). card (set (map se_session_id (sessions db)) - set seen),
           \<lambda>(db, queue, seen). length queue]"
  proof (cases "new = []")
    case True
    then show ?thesis by simp
  next
    case False
    then have "?ids - set (seen @ new) \<subset> ?ids - set seen"
      using sub by (cases new) auto
    then have "card (?ids - set (seen @ new)) < card (?ids - set seen)"
      by (simp only: psubset_card_mono finite_Diff finite_set)
    then show ?thesis by (simp only: measures_less split_conv simp_thms in_measures list.simps)
  qed
qed simp

declare lineage_ids.simps [simp del]

definition ensure_child_spawn_bounds_in_tx :: "session_id \<Rightarrow> database \<Rightarrow> unit result" where
  "ensure_child_spawn_bounds_in_tx parent db =
     (let rows = ancestor_rows db [] parent
      in and_then (ok_or (InvalidState ''session lineage has no reachable root session'')
           (List.find (\<lambda>s. se_parent_session_id s = None) rows)) (\<lambda>root.
         and_then (guard_err (length rows - 1 \<ge> MAX_RELATED_SESSION_DEPTH)
           (Protocol (''subagent depth limit of '' @ show_nat MAX_RELATED_SESSION_DEPTH @ '' reached''))) (\<lambda>_.
         guard_err (length (lineage_ids db [se_session_id root] [se_session_id root]) - 1
             \<ge> MAX_RELATED_SESSION_DESCENDANTS)
           (Protocol (''subagent lineage limit of '' @ show_nat MAX_RELATED_SESSION_DESCENDANTS @ '' reached'')))))"

subsection \<open>Spawning a child session\<close>

definition spawn_scope_valid ::
  "session_record \<Rightarrow> branch_record \<Rightarrow> session_id \<Rightarrow> branch_id \<Rightarrow> event_envelope \<Rightarrow> event_envelope
     \<Rightarrow> event_envelope \<Rightarrow> event_envelope \<Rightarrow> bool" where
  "spawn_scope_valid child branch parent parent_branch requested started handoff completed \<longleftrightarrow>
     br_session_id branch = sr_session_id child
   \<and> ev_session_id requested = parent \<and> ev_branch_id requested = parent_branch
   \<and> ev_turn_id requested = sr_parent_turn_id child
   \<and> ev_session_id started = sr_session_id child \<and> ev_branch_id started = br_branch_id branch
   \<and> ev_turn_id started = None
   \<and> ev_session_id handoff = sr_session_id child \<and> ev_branch_id handoff = br_branch_id branch
   \<and> ev_turn_id handoff = None
   \<and> ev_session_id completed = parent \<and> ev_branch_id completed = parent_branch
   \<and> ev_turn_id completed = sr_parent_turn_id child"

definition spawn_requested_matches :: "session_record \<Rightarrow> string \<Rightarrow> event_payload \<Rightarrow> bool" where
  "spawn_requested_matches child objective p =
     (case p of SessionSpawnRequested cid obj conn model \<Rightarrow>
          cid = sr_session_id child \<and> obj = objective
        \<and> conn = connection_id_text (sr_connection_id child) \<and> model = sr_model_id child
      | _ \<Rightarrow> False)"

definition child_started_matches :: "session_record \<Rightarrow> event_payload \<Rightarrow> bool" where
  "child_started_matches child p =
     (case p of SessionStarted root conn \<Rightarrow>
          root = sr_project_root child \<and> conn = connection_id_text (sr_connection_id child)
      | _ \<Rightarrow> False)"

definition child_handoff_matches ::
  "session_record \<Rightarrow> session_id \<Rightarrow> branch_id \<Rightarrow> string \<Rightarrow> event_payload \<Rightarrow> bool" where
  "child_handoff_matches child parent parent_branch objective p =
     (case p of SessionHandoffRecorded ps pb pt obj summary \<Rightarrow>
          ps = parent \<and> pb = parent_branch \<and> pt = sr_parent_turn_id child
        \<and> obj = objective \<and> summary = objective
      | _ \<Rightarrow> False)"

definition spawn_completed_matches ::
  "session_record \<Rightarrow> branch_record \<Rightarrow> string \<Rightarrow> event_payload \<Rightarrow> bool" where
  "spawn_completed_matches child branch objective p =
     (case p of SessionSpawned cid cb obj \<Rightarrow>
          cid = sr_session_id child \<and> cb = br_branch_id branch \<and> obj = objective
      | _ \<Rightarrow> False)"

definition validate_spawn ::
  "session_record \<Rightarrow> branch_record \<Rightarrow> event_envelope \<Rightarrow> event_envelope \<Rightarrow> event_envelope \<Rightarrow> event_envelope
     \<Rightarrow> (event_envelope \<times> event_envelope) option \<Rightarrow> session_id result" where
  "validate_spawn child branch requested started handoff completed initial =
     and_then (ok_or (InvalidState ''child session spawn requires an objective'') (sr_objective child)) (\<lambda>objective.
     and_then (ok_or (InvalidState ''child session spawn requires a parent session'') (sr_parent_session_id child)) (\<lambda>parent.
     and_then (ok_or (InvalidState ''child session spawn requires a parent branch'') (sr_parent_branch_id child)) (\<lambda>parent_branch.
     and_then (guard_err
         (\<not> spawn_scope_valid child branch parent parent_branch requested started handoff completed
          \<or> \<not> (spawn_requested_matches child objective (ev_payload requested)
             \<and> child_started_matches child (ev_payload started)
             \<and> child_handoff_matches child parent parent_branch objective (ev_payload handoff)
             \<and> spawn_completed_matches child branch objective (ev_payload completed)))
       (InvalidState ''child session spawn events do not match the canonical parent/child records'')) (\<lambda>_.
     and_then (case initial of
         None \<Rightarrow> Inr ()
       | Some (sent, received) \<Rightarrow>
           and_then (validate_related_session_message_envelopes sent received) (\<lambda>m.
           guard_err (rm_source_session_id m \<noteq> parent \<or> rm_source_branch_id m \<noteq> parent_branch
               \<or> rm_destination_session_id m \<noteq> sr_session_id child
               \<or> rm_destination_branch_id m \<noteq> br_branch_id branch
               \<or> rm_delivery_mode m \<noteq> Wake)
             (InvalidState ''initial child message does not match the canonical spawn''))) (\<lambda>_.
     Inr parent)))))"

definition initial_message_events ::
  "(event_envelope \<times> event_envelope) option \<Rightarrow> database \<Rightarrow> event_envelope list result" where
  "initial_message_events initial db =
     (case initial of
        None \<Rightarrow> Inr []
      | Some (sent, received) \<Rightarrow>
          and_then (validate_related_session_message_envelopes sent received) (\<lambda>m.
          and_then (ensure_related_session_message_constraints_in_tx m db) (\<lambda>_.
          Inr [sent, received])))"

definition commit_child_session_spawn_transition ::
  "session_record \<Rightarrow> branch_record \<Rightarrow> event_envelope \<Rightarrow> event_envelope \<Rightarrow> event_envelope \<Rightarrow> event_envelope
     \<Rightarrow> (event_envelope \<times> event_envelope) option \<Rightarrow> database \<Rightarrow> database \<times> i64 list result" where
  "commit_child_session_spawn_transition child branch requested started handoff completed initial = transaction
     (tx_bind (tx_read (\<lambda>_. validate_spawn child branch requested started handoff completed initial)) (\<lambda>parent.
      tx_bind (tx_read (ensure_child_spawn_bounds_in_tx parent)) (\<lambda>_.
      tx_bind (tx_write (insert_session_in_tx child)) (\<lambda>_.
      tx_bind (tx_write (insert_session_settings_revision_in_tx child)) (\<lambda>_.
      tx_bind (tx_write (insert_branch_in_tx branch)) (\<lambda>_.
      tx_bind (tx_read (initial_message_events initial)) (\<lambda>initial_events.
      append_events_in_tx ([requested, started, handoff, completed] @ initial_events))))))))"

definition commit_child_session_spawn ::
  "session_record \<Rightarrow> branch_record \<Rightarrow> event_envelope \<Rightarrow> event_envelope \<Rightarrow> event_envelope \<Rightarrow> event_envelope
     \<Rightarrow> database \<Rightarrow> database \<times> i64 list result" where
  "commit_child_session_spawn child branch requested started handoff completed =
     commit_child_session_spawn_transition child branch requested started handoff completed None"

definition commit_child_session_spawn_with_initial_message ::
  "session_record \<Rightarrow> branch_record \<Rightarrow> event_envelope \<Rightarrow> event_envelope \<Rightarrow> event_envelope \<Rightarrow> event_envelope
     \<Rightarrow> event_envelope \<Rightarrow> event_envelope \<Rightarrow> database \<Rightarrow> database \<times> i64 list result" where
  "commit_child_session_spawn_with_initial_message child branch requested started handoff completed sent received =
     commit_child_session_spawn_transition child branch requested started handoff completed
       (Some (sent, received))"

subsection \<open>Delivering a message\<close>

definition load_related_message_receipt_in_tx ::
  "session_id \<Rightarrow> session_id \<Rightarrow> related_session_message_id \<Rightarrow> related_session_message option \<Rightarrow> database
     \<Rightarrow> related_session_message_receipt option result" where
  "load_related_message_receipt_in_tx source destination mid expected db =
     (case sql_lookup related_key (source, mid, ''sent'') (related_session_message_projection db) of
        None \<Rightarrow> Inr None
      | Some sent \<Rightarrow>
          and_then (guard_err (is_some_and expected (\<lambda>x. x \<noteq> re_message sent))
            (Protocol (''related-session message id `'' @ related_session_message_id_text mid
               @ ''` was reused with different content''))) (\<lambda>_.
          and_then (ok_or no_rows (sql_lookup related_key (destination, mid, ''received'')
            (related_session_message_projection db))) (\<lambda>received.
          and_then (parse_related_message_status (re_status received)) (\<lambda>status.
          Inr (Some \<lparr>rr_message_id = mid, rr_sent_event_id = re_event_id sent,
            rr_sent_seq_id = re_source_seq sent,
            rr_received_event_id = re_counterpart_event_id sent,
            rr_received_seq_id = re_source_seq received, rr_status = status\<rparr>)))))"

definition initial_status :: "related_session_message \<Rightarrow> related_session_message_status" where
  "initial_status m = (if rm_delivery_mode m = Wake then RmPending else RmDelivered)"

definition commit_related_session_message ::
  "event_envelope \<Rightarrow> event_envelope \<Rightarrow> database \<Rightarrow> database \<times> related_session_message_receipt result" where
  "commit_related_session_message sent received = transaction
     (tx_bind (tx_read (\<lambda>_. validate_related_session_message_envelopes sent received)) (\<lambda>m.
      tx_bind (tx_read (load_related_message_receipt_in_tx (rm_source_session_id m)
         (rm_destination_session_id m) (rm_message_id m) (Some m))) (\<lambda>existing.
      case existing of
        Some receipt \<Rightarrow> tx_ok receipt
      | None \<Rightarrow>
          tx_bind (tx_read (ensure_related_session_message_constraints_in_tx m)) (\<lambda>_.
          tx_bind (append_event_in_tx sent) (\<lambda>sent_seq.
          tx_bind (append_event_in_tx received) (\<lambda>received_seq.
          tx_ok \<lparr>rr_message_id = rm_message_id m, rr_sent_event_id = ev_event_id sent,
            rr_sent_seq_id = sent_seq, rr_received_event_id = ev_event_id received,
            rr_received_seq_id = received_seq, rr_status = initial_status m\<rparr>))))))"

subsection \<open>Settling an obligation\<close>

definition validate_settlement ::
  "related_session_message_id \<Rightarrow> related_session_message \<Rightarrow> event_envelope \<Rightarrow> turn_id result" where
  "validate_settlement obligation_id reply settlement_event =
     (case ev_payload settlement_event of
        RelatedSessionMessageSettled mid reply_id reply_kind settling_turn \<Rightarrow>
          and_then (guard_err (mid \<noteq> obligation_id \<or> reply_id \<noteq> rm_message_id reply
              \<or> reply_kind \<noteq> rm_kind reply
              \<or> ev_session_id settlement_event \<noteq> rm_source_session_id reply
              \<or> ev_branch_id settlement_event \<noteq> rm_source_branch_id reply
              \<or> ev_turn_id settlement_event \<noteq> Some settling_turn
              \<or> rm_caused_by_turn_id reply \<noteq> Some settling_turn
              \<or> rm_in_reply_to reply \<noteq> Some obligation_id
              \<or> rm_kind reply \<notin> set [ResultKind, ErrorKind])
            (InvalidState ''related-session settlement events do not describe one terminal reply''))
          (\<lambda>_. Inr settling_turn)
      | _ \<Rightarrow> Inl (InvalidState ''related-session settlement requires a settlement event''))"

definition not_claimed_obligation ::
  "related_session_message \<Rightarrow> related_session_message_record \<Rightarrow> bool" where
  "not_claimed_obligation reply obligation \<longleftrightarrow>
     rd_status obligation \<noteq> RmClaimed
   \<or> rd_resulting_turn_id obligation = None
   \<or> rm_kind (rd_message obligation) \<notin> set [Instruction, Question]
   \<or> rm_source_session_id reply \<noteq> rm_destination_session_id (rd_message obligation)
   \<or> rm_source_branch_id reply \<noteq> rm_destination_branch_id (rd_message obligation)
   \<or> rm_destination_session_id reply \<noteq> rm_source_session_id (rd_message obligation)
   \<or> rm_destination_branch_id reply \<noteq> rm_source_branch_id (rd_message obligation)"

definition existing_settlement ::
  "related_session_message_id \<Rightarrow> related_session_message_record \<Rightarrow> related_session_message_settlement
     \<Rightarrow> database \<Rightarrow> related_session_settlement_receipt result" where
  "existing_settlement obligation_id obligation existing db =
     and_then (load_related_message_receipt_in_tx (rm_destination_session_id (rd_message obligation))
       (rm_source_session_id (rd_message obligation)) (rs_reply_message_id existing) None db) (\<lambda>found.
     and_then (ok_or (InvalidState (''settlement for '' @ related_session_message_id_text obligation_id
         @ '' references missing reply '' @ related_session_message_id_text (rs_reply_message_id existing)))
       found) (\<lambda>reply_receipt.
     Inr \<lparr>rq_settlement = existing, rq_reply = reply_receipt, rq_newly_committed = False\<rparr>))"

definition settle_claimed_obligation ::
  "related_session_message_id \<Rightarrow> related_session_message \<Rightarrow> turn_id \<Rightarrow> event_envelope \<Rightarrow> event_envelope
     \<Rightarrow> event_envelope \<Rightarrow> related_session_settlement_receipt tx" where
  "settle_claimed_obligation obligation_id reply settling_turn reply_sent reply_received settlement_event =
     tx_bind (tx_read (ensure_related_session_message_constraints_in_tx reply)) (\<lambda>_.
     tx_bind (append_event_in_tx reply_sent) (\<lambda>sent_seq.
     tx_bind (append_event_in_tx reply_received) (\<lambda>received_seq.
     tx_bind (append_event_in_tx settlement_event) (\<lambda>settlement_seq.
     tx_ok \<lparr>rq_settlement =
         \<lparr>rs_obligation_message_id = obligation_id, rs_reply_message_id = rm_message_id reply,
          rs_reply_kind = rm_kind reply, rs_settling_turn_id = settling_turn,
          rs_settlement_event_id = ev_event_id settlement_event,
          rs_settlement_seq_id = settlement_seq, rs_settled_at = ev_occurred_at settlement_event\<rparr>,
       rq_reply =
         \<lparr>rr_message_id = rm_message_id reply, rr_sent_event_id = ev_event_id reply_sent,
          rr_sent_seq_id = sent_seq, rr_received_event_id = ev_event_id reply_received,
          rr_received_seq_id = received_seq, rr_status = initial_status reply\<rparr>,
       rq_newly_committed = True\<rparr>))))"

definition settle_related_session_message ::
  "related_session_message_id \<Rightarrow> event_envelope \<Rightarrow> event_envelope \<Rightarrow> event_envelope \<Rightarrow> database
     \<Rightarrow> database \<times> related_session_settlement_receipt result" where
  "settle_related_session_message obligation_id reply_sent reply_received settlement_event = transaction
     (tx_bind (tx_read (\<lambda>_. validate_related_session_message_envelopes reply_sent reply_received)) (\<lambda>reply.
      tx_bind (tx_read (\<lambda>_. validate_settlement obligation_id reply settlement_event)) (\<lambda>settling_turn.
      tx_bind (tx_read (\<lambda>db. and_then
          (ok_or (InvalidState (''related-session obligation ''
              @ related_session_message_id_text obligation_id @ '' was not received by session ''
              @ session_id_text (ev_session_id settlement_event)))
            (sql_lookup related_key (ev_session_id settlement_event, obligation_id, ''received'')
              (related_session_message_projection db))) parse_related_message_record)) (\<lambda>obligation.
      case rd_settlement obligation of
        Some existing \<Rightarrow> tx_read (existing_settlement obligation_id obligation existing)
      | None \<Rightarrow>
          (if not_claimed_obligation reply obligation
           then (\<lambda>_. Inl (InvalidState (''related-session message ''
                  @ related_session_message_id_text obligation_id @ '' is not a claimed reply obligation'')))
           else settle_claimed_obligation obligation_id reply settling_turn reply_sent reply_received
                  settlement_event)))))"

end
