(* ===== verification/Bt_Replay.thy ===== *)
theory Bt_Replay
  imports Bt_Related
begin

section \<open>Replaying the log\<close>

text \<open>
  The operations that compute a projection again from the stored events: \<open>reproject_session_budget\<close>
  and \<open>reproject_completion_costs\<close> of \<open>bt-session/src/store.rs\<close>, and the one-time rebuilds of
  \<open>bt-session/src/migration.rs\<close>. \<open>Bt_Log\<close> proves that they give the tables the incremental refresh
  maintains.

  Events are read back from JSON text. JSON has no NaN or infinity: \<open>serde_json\<close> writes \<open>null\<close> for
  them, which an optional field reads as \<open>None\<close> and a required one refuses. A finite double is printed
  and parsed; without the feature \<open>float_roundtrip\<close> the parser of \<open>serde_json\<close> may return a neighbour
  of the printed double, so what it returns is a parameter, \<open>num\<close>, of everything that reads events.
\<close>

type_synonym json_number = "f64 \<Rightarrow> f64 result"

definition f64_finite :: "f64 \<Rightarrow> bool" where
  "f64_finite x = (case x of F64_Fin _ \<Rightarrow> True | _ \<Rightarrow> False)"

definition decode_f64 :: "json_number \<Rightarrow> f64 \<Rightarrow> f64 result" where
  "decode_f64 num x = (if f64_finite x then num x else Inl (Storage ''invalid type: null, expected f64''))"

definition decode_f64_opt :: "json_number \<Rightarrow> f64 option \<Rightarrow> f64 option result" where
  "decode_f64_opt num x =
     (case x of
        Some v \<Rightarrow> if f64_finite v then and_then (num v) (\<lambda>w. Inr (Some w)) else Inr None
      | None \<Rightarrow> Inr None)"

definition decode_cost :: "json_number \<Rightarrow> cost_breakdown \<Rightarrow> cost_breakdown result" where
  "decode_cost num c =
     and_then (decode_f64 num (prompt_usd c)) (\<lambda>prompt.
     and_then (decode_f64 num (completion_usd c)) (\<lambda>completion.
     and_then (decode_f64 num (total_usd c)) (\<lambda>total.
     and_then (decode_f64_opt num (cache_read_usd c)) (\<lambda>cache_read.
     and_then (decode_f64_opt num (cache_write_usd c)) (\<lambda>cache_write.
     and_then (decode_f64_opt num (reasoning_usd c)) (\<lambda>reasoning.
     Inr (c\<lparr>prompt_usd := prompt, completion_usd := completion, cache_read_usd := cache_read,
            cache_write_usd := cache_write, reasoning_usd := reasoning, total_usd := total\<rparr>)))))))"

definition decode_payload :: "json_number \<Rightarrow> event_payload \<Rightarrow> event_payload result" where
  "decode_payload num p =
     (case p of
        CompletionFinished ordinal provider model usage cost finish latency \<Rightarrow>
          (case cost of
             None \<Rightarrow> Inr p
           | Some c \<Rightarrow> and_then (decode_cost num c) (\<lambda>c'.
               Inr (CompletionFinished ordinal provider model usage (Some c') finish latency)))
      | BudgetConfigured b \<Rightarrow> and_then (decode_f64_opt num (max_cost_usd b)) (\<lambda>limit.
          Inr (BudgetConfigured (b\<lparr>max_cost_usd := limit\<rparr>)))
      | BudgetCheckpoint tokens turns elapsed cost \<Rightarrow> and_then (decode_f64_opt num cost) (\<lambda>cost'.
          Inr (BudgetCheckpoint tokens turns elapsed cost'))
      | _ \<Rightarrow> Inr p)"

definition decode_event :: "json_number \<Rightarrow> event_row \<Rightarrow> event_envelope result" where
  "decode_event num r = and_then (decode_payload num (ev_payload (er_event r))) (\<lambda>p.
     Inr ((er_event r)\<lparr>ev_payload := p\<rparr>))"

definition decode_stored :: "json_number \<Rightarrow> event_row \<Rightarrow> event_row result" where
  "decode_stored num r = and_then (decode_event num r) (\<lambda>e.
     Inr \<lparr>er_seq_id = er_seq_id r, er_event = e\<lparr>ev_seq_id := Some (er_seq_id r)\<rparr>\<rparr>)"

definition load_session_event_log :: "json_number \<Rightarrow> session_id \<Rightarrow> database \<Rightarrow> event_row list result" where
  "load_session_event_log num sid db =
     collect_results (decode_stored num)
       (sql_ordered er_seq_id (\<lambda>r. ev_session_id (er_event r) = sid) (events db))"

subsection \<open>Budget\<close>

definition replay_budget_event :: "event_row \<Rightarrow> database \<Rightarrow> database result" where
  "replay_budget_event r db =
     (let e = er_event r in case ev_payload e of
        BudgetConfigured budget \<Rightarrow>
          Inr (refresh_budget_projection_from_config (ev_session_id e) (ev_occurred_at e) budget db)
      | BudgetCheckpoint tokens turns elapsed cost \<Rightarrow>
          refresh_budget_projection_from_checkpoint (ev_session_id e) (ev_occurred_at e) tokens turns
            elapsed cost db
      | _ \<Rightarrow> Inr db)"

primrec replay_budget_events :: "event_row list \<Rightarrow> database \<Rightarrow> database result" where
  "replay_budget_events [] db = Inr db"
| "replay_budget_events (r # rs) db = and_then (replay_budget_event r db) (replay_budget_events rs)"

definition reproject_session_budget :: "json_number \<Rightarrow> session_id \<Rightarrow> database \<Rightarrow> database \<times> unit result" where
  "reproject_session_budget num sid = transaction
     (tx_bind (tx_read (load_session_event_log num sid)) (\<lambda>log.
      tx_write (\<lambda>db. replay_budget_events log
        (db\<lparr>session_budget_projection :=
          sql_delete (\<lambda>r. bu_session_id r = sid) (session_budget_projection db)\<rparr>))))"

subsection \<open>Completion costs\<close>

record reprojection_report =
  rp_events_scanned :: u64
  rp_completion_events_scanned :: u64
  rp_completion_costs_changed :: u64

text \<open>The reprojector is the caller's closure; its own state is threaded through the calls.\<close>

type_synonym 's reprojector =
  "'s \<Rightarrow> string \<Rightarrow> string \<Rightarrow> token_usage \<Rightarrow> cost_breakdown option \<Rightarrow> ('s \<times> cost_breakdown option) result"

primrec replay_cost_events ::
  "'s reprojector \<Rightarrow> event_row list \<Rightarrow> 's \<Rightarrow> reprojection_report \<Rightarrow> database
     \<Rightarrow> (database \<times> reprojection_report) result" where
  "replay_cost_events reproject [] st report db = Inr (db, report)"
| "replay_cost_events reproject (r # rs) st report db =
     (let report1 = report\<lparr>rp_events_scanned := rp_events_scanned report + 1\<rparr>; e = er_event r
      in case ev_payload e of
           CompletionFinished _ provider model usage cost _ _ \<Rightarrow>
             and_then (reproject st provider model usage cost) (\<lambda>(st', projected).
             let report2 = report1\<lparr>rp_completion_events_scanned := rp_completion_events_scanned report1 + 1,
                   rp_completion_costs_changed := (if projected \<noteq> cost
                     then rp_completion_costs_changed report1 + 1 else rp_completion_costs_changed report1)\<rparr>
             in and_then (refresh_cost_summary_projection (ev_session_id e) (ev_occurred_at e) usage
                  projected db) (replay_cost_events reproject rs st' report2))
         | _ \<Rightarrow> replay_cost_events reproject rs st report1 db)"

definition reproject_completion_costs ::
  "json_number \<Rightarrow> 's reprojector \<Rightarrow> 's \<Rightarrow> session_id \<Rightarrow> database \<Rightarrow> database \<times> reprojection_report result" where
  "reproject_completion_costs num reproject st sid = transaction
     (tx_bind (tx_read (load_session_event_log num sid)) (\<lambda>log db.
      replay_cost_events reproject log st
        \<lparr>rp_events_scanned = 0, rp_completion_events_scanned = 0, rp_completion_costs_changed = 0\<rparr>
        (db\<lparr>cost_summary_projection :=
          sql_delete (\<lambda>r. co_session_id r = sid) (cost_summary_projection db)\<rparr>)))"

subsection \<open>Migration rebuilds (migration.rs)\<close>

text \<open>The \<open>HashMap\<close> of active turns is a table with one row per session; the order in which its
  entries are inserted into the projection is not observable.\<close>

definition replay_active_event :: "event_row \<Rightarrow> active_turn_row list \<Rightarrow> active_turn_row list" where
  "replay_active_event r active =
     (let e = er_event r in case ev_payload e of
        TurnStarted tid _ _ _ _ _ _ \<Rightarrow>
          sql_replace at_session_id
            \<lparr>at_session_id = ev_session_id e, at_branch_id = ev_branch_id e, at_turn_id = tid,
             at_started_seq_id = er_seq_id r, at_started_at = ev_occurred_at e\<rparr> active
      | TurnFinished tid _ _ _ _ _ \<Rightarrow>
          (if is_some_and (sql_lookup at_session_id (ev_session_id e) active) (\<lambda>a. at_turn_id a = tid)
           then sql_delete (\<lambda>a. at_session_id a = ev_session_id e) active
           else active)
      | _ \<Rightarrow> active)"

primrec decode_rows :: "json_number \<Rightarrow> event_row list \<Rightarrow> event_row list result" where
  "decode_rows num [] = Inr []"
| "decode_rows num (r # rs) =
     and_then (decode_event num r) (\<lambda>e. and_then (decode_rows num rs) (\<lambda>es.
     Inr (\<lparr>er_seq_id = er_seq_id r, er_event = e\<rparr> # es)))"

definition rebuild_active_turn_projection :: "json_number \<Rightarrow> database \<Rightarrow> database result" where
  "rebuild_active_turn_projection num db =
     and_then (decode_rows num (sql_ordered er_seq_id
         (\<lambda>r. event_kind (er_event r) \<in> set [''turn.started'', ''turn.finished'']) (events db))) (\<lambda>boundaries.
     Inr (db\<lparr>active_turn_projection := fold replay_active_event boundaries []\<rparr>))"

type_synonym turn_map = "((session_id \<times> turn_id) \<times> turn_inspection) list"

definition replay_turn_event :: "event_row \<Rightarrow> turn_map \<Rightarrow> turn_map" where
  "replay_turn_event r turns =
     (let e = er_event r; seq = er_seq_id r in case projected_turn_id e of
        None \<Rightarrow> turns
      | Some tid \<Rightarrow>
          (let key = (ev_session_id e, tid);
               turn = (case sql_lookup fst key turns of
                  Some entry \<Rightarrow> snd entry | None \<Rightarrow> new_turn_projection e tid seq)
           in sql_replace fst (key, apply_turn_projection_event turn e seq) turns))"

definition rebuild_turn_projection :: "json_number \<Rightarrow> database \<Rightarrow> database result" where
  "rebuild_turn_projection num db =
     and_then (decode_rows num (sql_ordered er_seq_id (\<lambda>_. True) (events db))) (\<lambda>evs.
     Inr (db\<lparr>turn_projection :=
       fold (\<lambda>entry. upsert_turn_projection (fst (fst entry)) (snd entry))
         (fold replay_turn_event evs []) []\<rparr>))"

end
