(* ===== verification/Bt_Log.thy ===== *)
theory Bt_Log
  imports Bt_Replay
begin

section \<open>The append-only log and its projections\<close>

text \<open>
  The relation \<open>store_step\<close> has one rule per primitive write of the store; the databases reachable
  from the empty one by it are the databases the store can be in. The locale \<open>event_sourced\<close> is the
  contract of a projection: appending an event takes the table to a function of the table, the event
  and its sequence id, and no other write touches it. Every table that satisfies it is, in every
  reachable database, the fold of that function over the log.
\<close>

subsection \<open>Shape of a refresh\<close>

lemma project_message_shape:
  "project_message_appended e m db = Inr db' \<Longrightarrow> \<exists>t. db' = db\<lparr>message_projection := t\<rparr>"
  by (auto simp: project_message_appended_def and_then_eq_Inr)

lemma project_related_recorded_shape:
  "project_related_recorded e s d c m db = Inr db' \<Longrightarrow> \<exists>t. db' = db\<lparr>related_session_message_projection := t\<rparr>"
  by (auto simp: project_related_recorded_def Let_def and_then_eq_Inr split: if_splits)

lemma project_related_resolved_shape:
  "project_related_resolved e mid st rt db = Inr db' \<Longrightarrow> \<exists>t. db' = db\<lparr>related_session_message_projection := t\<rparr>"
  by (auto simp: project_related_resolved_def and_then_eq_Inr)

lemma project_turn_started_shape:
  "project_turn_started e s tid db = Inr db' \<Longrightarrow> \<exists>t. db' = db\<lparr>active_turn_projection := t\<rparr>"
  by (auto simp: project_turn_started_def and_then_eq_Inr)

text \<open>What an accepted \<open>session.settings.updated\<close> did: the revision row is there, unchanged if it was
  there before, and the session row follows when the revision is newer.\<close>

definition revision_row :: "event_envelope \<Rightarrow> u64 \<Rightarrow> string \<Rightarrow> string option \<Rightarrow> string \<Rightarrow> settings_revision_row" where
  "revision_row e r c m mode =
     \<lparr>sv_session_id = ev_session_id e, sv_settings_revision_id = as_i64 r, sv_connection_id = c,
      sv_model_id = m, sv_tool_mode = mode, sv_updated_at = ev_occurred_at e\<rparr>"

definition session_follows :: "event_envelope \<Rightarrow> u64 \<Rightarrow> string \<Rightarrow> string option \<Rightarrow> string \<Rightarrow> session_row \<Rightarrow> session_row" where
  "session_follows e r c m mode s =
     s\<lparr>se_connection_id := c, se_model_id := m, se_tool_mode := mode,
       se_settings_revision_id := as_i64 r, se_updated_at := ev_occurred_at e\<rparr>"

definition revisions_after :: "event_envelope \<Rightarrow> u64 \<Rightarrow> string \<Rightarrow> string option \<Rightarrow> string \<Rightarrow> database
    \<Rightarrow> settings_revision_row list" where
  "revisions_after e r c m mode db =
     (if sql_lookup settings_revision_key (ev_session_id e, as_i64 r)
           (session_settings_revision_projection db) = None
      then session_settings_revision_projection db @ [revision_row e r c m mode]
      else session_settings_revision_projection db)"

definition sessions_after :: "event_envelope \<Rightarrow> u64 \<Rightarrow> string \<Rightarrow> string option \<Rightarrow> string \<Rightarrow> session_row
    \<Rightarrow> database \<Rightarrow> session_row list" where
  "sessions_after e r c m mode current db =
     (if r > revision_of_column (se_settings_revision_id current)
      then sql_update (\<lambda>s. se_session_id s = ev_session_id e) (session_follows e r c m mode) (sessions db)
      else sessions db)"

lemma project_settings_updated_Inr:
  assumes "project_settings_updated e r c m mode db = Inr db'"
  obtains current where "r \<noteq> 0" "sql_lookup se_session_id (ev_session_id e) (sessions db) = Some current"
    "\<And>old. sql_lookup settings_revision_key (ev_session_id e, as_i64 r)
        (session_settings_revision_projection db) = Some old
        \<Longrightarrow> sv_connection_id old = c \<and> sv_model_id old = m \<and> sv_tool_mode old = mode"
    "db' = db\<lparr>session_settings_revision_projection := revisions_after e r c m mode db,
              sessions := sessions_after e r c m mode current db\<rparr>"
proof -
  from assms obtain current where r: "r \<noteq> 0"
    and current: "sql_lookup se_session_id (ev_session_id e) (sessions db) = Some current"
    by (auto simp: project_settings_updated_def and_then_eq_Inr)
  show thesis
  proof (cases "sql_lookup settings_revision_key (ev_session_id e, as_i64 r)
        (session_settings_revision_projection db)")
    case None
    then show thesis
      using assms r current
      by (intro that [OF r current])
        (simp_all add: project_settings_updated_def revisions_after_def sessions_after_def
          revision_row_def session_follows_def [abs_def] Let_def split: if_splits)
  next
    case (Some old)
    then show thesis
      using assms r current
      by (intro that [OF r current])
        (simp_all add: project_settings_updated_def revisions_after_def sessions_after_def
          session_follows_def [abs_def] Let_def split: if_splits)
  qed
qed

lemma project_settings_shape:
  assumes "project_settings_updated e r c m mode db = Inr db'"
  shows "\<exists>t s. db' = db\<lparr>session_settings_revision_projection := t, sessions := s\<rparr>
    \<and> map se_session_id s = map se_session_id (sessions db)"
proof -
  have "map se_session_id (sessions_after e r c m mode x db) = map se_session_id (sessions db)" for x
    by (simp add: sessions_after_def map_key_update session_follows_def)
  with assms show ?thesis by (elim project_settings_updated_Inr) blast
qed

lemma refresh_cost_shape:
  "refresh_cost_summary_projection sid now u c db = Inr db' \<Longrightarrow> \<exists>t. db' = db\<lparr>cost_summary_projection := t\<rparr>"
  by (auto simp: refresh_cost_summary_projection_def and_then_eq_Inr Let_def split: if_splits)

lemma refresh_checkpoint_shape:
  "refresh_budget_projection_from_checkpoint sid now a b c d db = Inr db'
     \<Longrightarrow> \<exists>t. db' = db\<lparr>session_budget_projection := t\<rparr>"
  by (auto simp: refresh_budget_projection_from_checkpoint_def and_then_eq_Inr)

lemma project_steers_shape: "\<exists>t. project_steers_resolved e is outcome db = db\<lparr>steer_projection := t\<rparr>"
proof (induction "is" arbitrary: db)
  case Nil
  have "db = db\<lparr>steer_projection := steer_projection db\<rparr>" by simp
  then show ?case unfolding project_steers_resolved.simps by blast
next
  case (Cons i "is")
  show ?case using Cons [of "db\<lparr>steer_projection := sql_update (\<lambda>r. st_steer_event_id r = i)
           (\<lambda>r. r\<lparr>st_status := steer_resolution_status outcome, st_resolved_at := Some (ev_occurred_at e)\<rparr>)
           (steer_projection db)\<rparr>"] by auto
qed

lemma refresh_turn_shape:
  "refresh_turn_projection e s db = Inr db' \<Longrightarrow> \<exists>t. db' = db\<lparr>turn_projection := t\<rparr>"
  by (auto simp: refresh_turn_projection_def and_then_eq_Inr Let_def split: option.splits)
    (metis database.surjective database.update_convs(15))?

lemmas project_simple_defs =
  project_related_settled_def project_turn_finished_def project_manifest_recorded_def
  project_approval_requested_def project_approval_resolved_def project_tool_requested_def
  project_tool_finished_def project_plan_updated_def project_queued_enqueued_def
  project_queued_resolved_def refresh_budget_projection_from_config_def project_cancel_def
  project_steered_def project_branch_summarized_def project_session_ended_def

lemmas project_shapes =
  project_message_shape project_related_recorded_shape project_related_resolved_shape
  project_turn_started_shape project_settings_shape refresh_cost_shape refresh_checkpoint_shape


text \<open>One case per arm of \<open>refresh_projections\<close>; the other payloads are inert.\<close>

definition is_inert :: "event_payload \<Rightarrow> bool" where
  "is_inert p \<longleftrightarrow>
     (case p of
        MessageAppended _ \<Rightarrow> False
      | RelatedSessionMessageRecorded _ _ _ \<Rightarrow> False
      | RelatedSessionMessageResolved _ _ _ _ \<Rightarrow> False
      | RelatedSessionMessageSettled _ _ _ _ \<Rightarrow> False
      | TurnStarted _ _ _ _ _ _ _ \<Rightarrow> False
      | TurnFinished _ _ _ _ _ _ \<Rightarrow> False
      | TurnContextManifestRecorded _ \<Rightarrow> False
      | ToolApprovalRequested _ _ _ \<Rightarrow> False
      | ToolApprovalResolved _ _ _ _ _ \<Rightarrow> False
      | ToolCallRequested _ _ _ \<Rightarrow> False
      | ToolExecutionFinished _ _ _ \<Rightarrow> False
      | PlanUpdated _ \<Rightarrow> False
      | SessionSettingsUpdated _ _ _ _ \<Rightarrow> False
      | SessionQueuedMessageEnqueued _ _ \<Rightarrow> False
      | SessionQueuedMessageResolved _ _ _ \<Rightarrow> False
      | CompletionFinished _ _ _ _ _ _ _ \<Rightarrow> False
      | BudgetConfigured _ \<Rightarrow> False
      | BudgetCheckpoint _ _ _ _ \<Rightarrow> False
      | SessionCancelled _ \<Rightarrow> False
      | SessionCancelCleared _ \<Rightarrow> False
      | SessionSteered _ _ \<Rightarrow> False
      | SessionSteersResolved _ _ _ _ \<Rightarrow> False
      | BranchSummarized _ _ _ _ \<Rightarrow> False
      | SessionEnded _ \<Rightarrow> False
      | _ \<Rightarrow> True)"

lemma refresh_payload_eqs:
  "\<And>m. ev_payload e = MessageAppended m \<Longrightarrow> refresh_payload e s db = project_message_appended e m db"
  "\<And>d c m. ev_payload e = RelatedSessionMessageRecorded d c m \<Longrightarrow> refresh_payload e s db = project_related_recorded e s d c m db"
  "\<And>i st t r. ev_payload e = RelatedSessionMessageResolved i st t r \<Longrightarrow> refresh_payload e s db = project_related_resolved e i st t db"
  "\<And>i r k t. ev_payload e = RelatedSessionMessageSettled i r k t \<Longrightarrow> refresh_payload e s db = Inr (project_related_settled e s i r k t db)"
  "\<And>t a b c d f g. ev_payload e = TurnStarted t a b c d f g \<Longrightarrow> refresh_payload e s db = project_turn_started e s t db"
  "\<And>t a b c d f. ev_payload e = TurnFinished t a b c d f \<Longrightarrow> refresh_payload e s db = Inr (project_turn_finished e t db)"
  "\<And>m. ev_payload e = TurnContextManifestRecorded m \<Longrightarrow> refresh_payload e s db = Inr (project_manifest_recorded e s m db)"
  "\<And>c n sn. ev_payload e = ToolApprovalRequested c n sn \<Longrightarrow> refresh_payload e s db = Inr (project_approval_requested e s c n sn db)"
  "\<And>c n fp r d. ev_payload e = ToolApprovalResolved c n fp r d \<Longrightarrow> refresh_payload e s db = Inr (project_approval_resolved e c n fp r d db)"
  "\<And>c n a. ev_payload e = ToolCallRequested c n a \<Longrightarrow> refresh_payload e s db = Inr (project_tool_requested e s c n a db)"
  "\<And>c n r. ev_payload e = ToolExecutionFinished c n r \<Longrightarrow> refresh_payload e s db = Inr (project_tool_finished e c n r db)"
  "\<And>i. ev_payload e = PlanUpdated i \<Longrightarrow> refresh_payload e s db = Inr (project_plan_updated e i db)"
  "\<And>r c m mode. ev_payload e = SessionSettingsUpdated r c m mode \<Longrightarrow> refresh_payload e s db = project_settings_updated e r c m mode db"
  "\<And>m r. ev_payload e = SessionQueuedMessageEnqueued m r \<Longrightarrow> refresh_payload e s db = Inr (project_queued_enqueued e s m r db)"
  "\<And>q out r. ev_payload e = SessionQueuedMessageResolved q out r \<Longrightarrow> refresh_payload e s db = Inr (project_queued_resolved e q out db)"
  "\<And>ord p m u c f l. ev_payload e = CompletionFinished ord p m u c f l \<Longrightarrow> refresh_payload e s db = refresh_cost_summary_projection (ev_session_id e) (ev_occurred_at e) u c db"
  "\<And>b. ev_payload e = BudgetConfigured b \<Longrightarrow> refresh_payload e s db = Inr (refresh_budget_projection_from_config (ev_session_id e) (ev_occurred_at e) b db)"
  "\<And>a b c d. ev_payload e = BudgetCheckpoint a b c d \<Longrightarrow> refresh_payload e s db = refresh_budget_projection_from_checkpoint (ev_session_id e) (ev_occurred_at e) a b c d db"
  "\<And>r. ev_payload e = SessionCancelled r \<Longrightarrow> refresh_payload e s db = Inr (project_cancel e True db)"
  "\<And>r. ev_payload e = SessionCancelCleared r \<Longrightarrow> refresh_payload e s db = Inr (project_cancel e False db)"
  "\<And>x r. ev_payload e = SessionSteered x r \<Longrightarrow> refresh_payload e s db = Inr (project_steered e s x r db)"
  "\<And>ids out a b. ev_payload e = SessionSteersResolved ids out a b \<Longrightarrow> refresh_payload e s db = Inr (project_steers_resolved e ids out db)"
  "\<And>b x c d. ev_payload e = BranchSummarized b x c d \<Longrightarrow> refresh_payload e s db = Inr (project_branch_summarized b x db)"
  "\<And>r. ev_payload e = SessionEnded r \<Longrightarrow> refresh_payload e s db = Inr (project_session_ended e r db)"
  unfolding refresh_payload_def by (simp_all only: event_payload.case)

lemma refresh_payload_inert: "is_inert (ev_payload e) \<Longrightarrow> refresh_payload e s db = Inr db"
  unfolding refresh_payload_def by (cases "ev_payload e"; simp only: is_inert_def event_payload.case)

lemma refresh_payloadE:
  assumes "refresh_payload e s db = Inr db'"
  obtains
    (message) m where "ev_payload e = MessageAppended m" "project_message_appended e m db = Inr db'"
  | (recorded) d c m where "ev_payload e = RelatedSessionMessageRecorded d c m" "project_related_recorded e s d c m db = Inr db'"
  | (resolved) i st t r where "ev_payload e = RelatedSessionMessageResolved i st t r" "project_related_resolved e i st t db = Inr db'"
  | (settled) i r k t where "ev_payload e = RelatedSessionMessageSettled i r k t" "db' = project_related_settled e s i r k t db"
  | (turn_started) t a b c d f g where "ev_payload e = TurnStarted t a b c d f g" "project_turn_started e s t db = Inr db'"
  | (turn_finished) t a b c d f where "ev_payload e = TurnFinished t a b c d f" "db' = project_turn_finished e t db"
  | (manifest) m where "ev_payload e = TurnContextManifestRecorded m" "db' = project_manifest_recorded e s m db"
  | (approval_requested) c n sn where "ev_payload e = ToolApprovalRequested c n sn" "db' = project_approval_requested e s c n sn db"
  | (approval_resolved) c n fp r d where "ev_payload e = ToolApprovalResolved c n fp r d" "db' = project_approval_resolved e c n fp r d db"
  | (tool_requested) c n a where "ev_payload e = ToolCallRequested c n a" "db' = project_tool_requested e s c n a db"
  | (tool_finished) c n r where "ev_payload e = ToolExecutionFinished c n r" "db' = project_tool_finished e c n r db"
  | (plan) i where "ev_payload e = PlanUpdated i" "db' = project_plan_updated e i db"
  | (settings) r c m mode where "ev_payload e = SessionSettingsUpdated r c m mode" "project_settings_updated e r c m mode db = Inr db'"
  | (enqueued) m r where "ev_payload e = SessionQueuedMessageEnqueued m r" "db' = project_queued_enqueued e s m r db"
  | (dequeued) q out r where "ev_payload e = SessionQueuedMessageResolved q out r" "db' = project_queued_resolved e q out db"
  | (completion) ord p m u c f l where "ev_payload e = CompletionFinished ord p m u c f l" "refresh_cost_summary_projection (ev_session_id e) (ev_occurred_at e) u c db = Inr db'"
  | (budget) b where "ev_payload e = BudgetConfigured b" "db' = refresh_budget_projection_from_config (ev_session_id e) (ev_occurred_at e) b db"
  | (checkpoint) a b c d where "ev_payload e = BudgetCheckpoint a b c d" "refresh_budget_projection_from_checkpoint (ev_session_id e) (ev_occurred_at e) a b c d db = Inr db'"
  | (cancelled) r where "ev_payload e = SessionCancelled r" "db' = project_cancel e True db"
  | (cancel_cleared) r where "ev_payload e = SessionCancelCleared r" "db' = project_cancel e False db"
  | (steered) x r where "ev_payload e = SessionSteered x r" "db' = project_steered e s x r db"
  | (steers_resolved) ids out a b where "ev_payload e = SessionSteersResolved ids out a b" "db' = project_steers_resolved e ids out db"
  | (summarized) b x c d where "ev_payload e = BranchSummarized b x c d" "db' = project_branch_summarized b x db"
  | (ended) r where "ev_payload e = SessionEnded r" "db' = project_session_ended e r db"
  | (inert) "is_inert (ev_payload e)" "db' = db"
proof (cases "is_inert (ev_payload e)")
  case True
  with assms have "db' = db" by (simp only: refresh_payload_inert sum.inject)
  with True show ?thesis by (rule that(25))
next
  case False
  from assms show ?thesis
  proof (cases "ev_payload e")
  qed (simp only: refresh_payload_eqs sum.inject; rule that, assumption, (assumption | rule sym, assumption)
      | use False in \<open>simp only: is_inert_def event_payload.case not_True_eq_False\<close>)+
qed

text \<open>The tables that no projection writes, and the keys that no update changes.\<close>

definition same_base :: "database \<Rightarrow> database \<Rightarrow> bool" where
  "same_base db db' \<longleftrightarrow> events db' = events db \<and> events_autoincrement db' = events_autoincrement db
     \<and> raw_chunks db' = raw_chunks db \<and> raw_chunks_autoincrement db' = raw_chunks_autoincrement db
     \<and> map se_session_id (sessions db') = map se_session_id (sessions db)
     \<and> map br_branch_id (branches db') = map br_branch_id (branches db)"

lemma same_base_trans: "same_base a b \<Longrightarrow> same_base b c \<Longrightarrow> same_base a c"
  by (simp add: same_base_def)

lemma refresh_payload_base:
  assumes "refresh_payload e s db = Inr db'"
  shows "same_base db db'"
  using assms
proof (cases rule: refresh_payloadE)
  case (steers_resolved ids out a b)
  with project_steers_shape [of e ids out db] show ?thesis by (auto simp: same_base_def)
qed (simp add: same_base_def project_simple_defs map_key_update | drule project_shapes; clarsimp simp: same_base_def)+

subsection \<open>One append\<close>

definition logged :: "event_envelope \<Rightarrow> i64 \<Rightarrow> database \<Rightarrow> database" where
  "logged e seq db =
     db\<lparr>events := events db @ [\<lparr>er_seq_id = seq, er_event = e\<rparr>], events_autoincrement := seq\<rparr>"

lemma append_event_in_txE:
  assumes "append_event_in_tx e db = Inr (db', seq)"
  obtains db2 where "seq = events_autoincrement db + 1" "seq \<le> i64_max"
    "\<forall>r \<in> set (events db). ev_event_id (er_event r) \<noteq> ev_event_id e"
    "ev_session_id e \<in> set (map se_session_id (sessions db))"
    "ev_branch_id e \<in> set (map br_branch_id (branches db))"
    "refresh_turn_projection e seq (refresh_heads e seq (logged e seq db)) = Inr db2"
    "refresh_payload e seq db2 = Inr db'"
  using assms
  by (force simp: append_event_in_tx_def tx_eqs insert_event_row_def Let_def refresh_projections_def
      and_then_eq_Inr logged_def image_iff split: if_splits)

lemma refresh_heads_base: "same_base db (refresh_heads e s db)"
  by (simp add: same_base_def refresh_heads_def map_key_update)

lemma refresh_turn_base: "refresh_turn_projection e s db = Inr db' \<Longrightarrow> same_base db db'"
  by (drule refresh_turn_shape) (auto simp: same_base_def)

lemma append_event_base:
  assumes "append_event_in_tx e db = Inr (db', seq)"
  shows "same_base (logged e seq db) db'" "seq = events_autoincrement db + 1"
proof -
  from assms obtain db2 where seq: "seq = events_autoincrement db + 1"
    and r: "refresh_turn_projection e seq (refresh_heads e seq (logged e seq db)) = Inr db2"
      "refresh_payload e seq db2 = Inr db'"
    by (rule append_event_in_txE)
  show "same_base (logged e seq db) db'" "seq = events_autoincrement db + 1"
    using same_base_trans [OF refresh_heads_base same_base_trans [OF refresh_turn_base refresh_payload_base]] r seq
    by blast+
qed

lemma append_event_log:
  assumes "append_event_in_tx e db = Inr (db', seq)"
  shows "events db' = events db @ [\<lparr>er_seq_id = seq, er_event = e\<rparr>]" "events_autoincrement db' = seq"
    "seq = events_autoincrement db + 1" "raw_chunks db' = raw_chunks db"
    "map se_session_id (sessions db') = map se_session_id (sessions db)"
    "map br_branch_id (branches db') = map br_branch_id (branches db)"
  using append_event_base [OF assms] by (simp_all add: same_base_def logged_def)

subsection \<open>Steps of the store\<close>

inductive other_write :: "database \<Rightarrow> database \<Rightarrow> bool" where
  new_session: "insert_session_in_tx s db = Inr db' \<Longrightarrow> other_write db db'"
| new_revision: "insert_session_settings_revision_in_tx s db = Inr db' \<Longrightarrow> other_write db db'"
| new_branch: "insert_branch_in_tx b db = Inr db' \<Longrightarrow> other_write db db'"
| default_branch: "set_default_branch_in_tx sid bid db = Inr db' \<Longrightarrow> other_write db db'"
| branch_summary: "other_write db (update_branch_summary bid text db)"
| session_parent: "other_write db (update_session_parent now sid p pb pt db)"
| raw_chunk: "append_raw_chunk_in_tx now c db = Inr (db', cid) \<Longrightarrow> other_write db db'"
| raw_link: "other_write db (link_raw_chunk eid cid db)"

inductive store_step :: "database \<Rightarrow> database \<Rightarrow> bool" where
  append: "append_event_in_tx e db = Inr (db', seq) \<Longrightarrow> store_step db db'"
| other: "other_write db db' \<Longrightarrow> store_step db db'"

definition reachable :: "database \<Rightarrow> bool" where
  "reachable db \<longleftrightarrow> store_step\<^sup>*\<^sup>* empty_database db"

lemma events_empty [simp]: "events empty_database = []"
  by (simp add: empty_database_def)

lemma reachable_empty: "reachable empty_database"
  by (simp add: reachable_def)

lemma reachable_step: "reachable db \<Longrightarrow> store_step db db' \<Longrightarrow> reachable db'"
  by (simp add: reachable_def)

lemma reachable_steps: "reachable db \<Longrightarrow> store_step\<^sup>*\<^sup>* db db' \<Longrightarrow> reachable db'"
  by (simp add: reachable_def)

lemma reachable_induct [consumes 1, case_names empty append other]:
  assumes "reachable db"
    and "P empty_database"
    and "\<And>e db db' seq. reachable db \<Longrightarrow> P db \<Longrightarrow> append_event_in_tx e db = Inr (db', seq) \<Longrightarrow> P db'"
    and "\<And>db db'. reachable db \<Longrightarrow> P db \<Longrightarrow> other_write db db' \<Longrightarrow> P db'"
  shows "P db"
proof -
  from assms(1) have "store_step\<^sup>*\<^sup>* empty_database db" by (simp add: reachable_def)
  then have "reachable db \<and> P db"
  proof (induction rule: rtranclp_induct)
    case base
    show ?case using assms(2) by (simp add: reachable_def)
  next
    case (step db1 db2)
    then have "reachable db2" using reachable_step by blast
    moreover from step.hyps(2) have "P db2"
    proof cases
      case (append e seq)
      with step.IH show ?thesis using assms(3) by blast
    next
      case other
      with step.IH show ?thesis using assms(4) by blast
    qed
    ultimately show ?case ..
  qed
  then show ?thesis by simp
qed

text \<open>The tables a write other than an append may change.\<close>

lemma other_write_shape:
  assumes "other_write db db'"
  shows "db' = db\<lparr>sessions := sessions db', session_settings_revision_projection :=
      session_settings_revision_projection db', branches := branches db', raw_chunks := raw_chunks db',
    raw_chunks_autoincrement := raw_chunks_autoincrement db'\<rparr>"
  using assms
  by cases
    (auto simp: insert_session_in_tx_def insert_session_settings_revision_in_tx_def insert_branch_in_tx_def
      set_default_branch_in_tx_def update_branch_summary_def update_session_parent_def
      append_raw_chunk_in_tx_def link_raw_chunk_def and_then_eq_Inr Let_def split: if_splits)

lemma other_write_frame:
  assumes "other_write db db'"
  shows "events db' = events db" "events_autoincrement db' = events_autoincrement db"
    "message_projection db' = message_projection db"
    "context_manifest_projection db' = context_manifest_projection db" "branch_heads db' = branch_heads db"
    "cost_summary_projection db' = cost_summary_projection db"
    "session_budget_projection db' = session_budget_projection db" "plan_projection db' = plan_projection db"
    "session_control_projection db' = session_control_projection db"
    "active_turn_projection db' = active_turn_projection db" "turn_projection db' = turn_projection db"
    "queued_message_projection db' = queued_message_projection db" "steer_projection db' = steer_projection db"
    "related_session_message_projection db' = related_session_message_projection db"
    "approval_projection db' = approval_projection db" "tool_run_projection db' = tool_run_projection db"
  by (subst other_write_shape [OF assms], simp)+

lemma append_before_payload:
  assumes "append_event_in_tx e db = Inr (db', seq)"
  obtains db2 hs bs ss ts where "refresh_payload e seq db2 = Inr db'"
    "db2 = (logged e seq db)\<lparr>branch_heads := hs, branches := bs, sessions := ss, turn_projection := ts\<rparr>"
proof -
  from assms obtain db2 where r: "refresh_turn_projection e seq (refresh_heads e seq (logged e seq db)) = Inr db2"
      "refresh_payload e seq db2 = Inr db'"
    by (rule append_event_in_txE)
  from refresh_turn_shape [OF r(1)] obtain t where "db2 = (refresh_heads e seq (logged e seq db))\<lparr>turn_projection := t\<rparr>"
    by blast
  with r(2) show thesis
    by (intro that) (auto simp: refresh_heads_def)
qed

subsection \<open>Projections as folds of the log\<close>

locale event_sourced =
  fixes proj :: "database \<Rightarrow> 'p"
    and initial :: 'p
    and step :: "i64 \<Rightarrow> event_envelope \<Rightarrow> 'p \<Rightarrow> 'p"
  assumes proj_empty: "proj empty_database = initial"
    and proj_append: "append_event_in_tx e db = Inr (db', seq) \<Longrightarrow> proj db' = step seq e (proj db)"
    and proj_other: "other_write db db' \<Longrightarrow> proj db' = proj db"
begin

definition replay :: "event_row list \<Rightarrow> 'p" where
  "replay rows = fold (\<lambda>r. step (er_seq_id r) (er_event r)) rows initial"

lemma replay_snoc: "replay (rows @ [r]) = step (er_seq_id r) (er_event r) (replay rows)"
  by (simp add: replay_def)

lemma proj_is_replay: "reachable db \<Longrightarrow> proj db = replay (events db)"
proof (induction rule: reachable_induct)
  case empty
  show ?case by (simp add: proj_empty replay_def)
next
  case (append e db db' seq)
  then show ?case
    by (simp add: proj_append append_event_log(1) replay_snoc)
next
  case (other db db')
  then show ?case by (simp add: proj_other other_write_frame)
qed

lemma proj_append_events:
  "append_events_in_tx es db = Inr (db', seqs) \<Longrightarrow> proj db' = fold (\<lambda>(seq, e). step seq e) (zip seqs es) (proj db)"
proof (induction es arbitrary: db seqs)
  case Nil
  then show ?case by (simp add: tx_ok_def)
next
  case (Cons e es)
  from Cons.prems obtain db1 seq seqs' where
    "append_event_in_tx e db = Inr (db1, seq)" "append_events_in_tx es db1 = Inr (db', seqs')" "seqs = seq # seqs'"
    by (auto simp: tx_eqs)
  with Cons.IH proj_append show ?case by simp
qed

end

text \<open>It is enough to look at the refresh of the payload.\<close>

lemma event_sourcedI:
  assumes "proj empty_database = initial"
    and payload: "\<And>e s db db'. refresh_payload e s db = Inr db' \<Longrightarrow> proj db' = step s e (proj db)"
    and frame: "\<And>e s db hs bs ss ts. proj ((logged e s db)\<lparr>branch_heads := hs, branches := bs, sessions := ss,
      turn_projection := ts\<rparr>) = proj db"
    and "\<And>db db'. other_write db db' \<Longrightarrow> proj db' = proj db"
  shows "event_sourced proj initial step"
proof
  fix e db db' seq
  assume "append_event_in_tx e db = Inr (db', seq)"
  then obtain db2 hs bs ss ts where "refresh_payload e seq db2 = Inr db'"
    "db2 = (logged e seq db)\<lparr>branch_heads := hs, branches := bs, sessions := ss, turn_projection := ts\<rparr>"
    by (rule append_before_payload)
  then show "proj db' = step seq e (proj db)"
    using payload frame by simp
qed (use assms in blast)+

subsection \<open>Active turns\<close>

definition active_row :: "i64 \<Rightarrow> event_envelope \<Rightarrow> turn_id \<Rightarrow> active_turn_row" where
  "active_row seq e tid =
     \<lparr>at_session_id = ev_session_id e, at_branch_id = ev_branch_id e, at_turn_id = tid,
      at_started_seq_id = seq, at_started_at = ev_occurred_at e\<rparr>"

definition active_turn_step :: "i64 \<Rightarrow> event_envelope \<Rightarrow> active_turn_row list \<Rightarrow> active_turn_row list" where
  "active_turn_step seq e t =
     (case ev_payload e of
        TurnStarted tid _ _ _ _ _ _ \<Rightarrow> t @ [active_row seq e tid]
      | TurnFinished tid _ _ _ _ _ \<Rightarrow>
          sql_delete (\<lambda>r. at_session_id r = ev_session_id e \<and> at_turn_id r = tid) t
      | _ \<Rightarrow> t)"

lemma active_turn_step_inert: "is_inert (ev_payload e) \<Longrightarrow> active_turn_step s e t = t"
  unfolding active_turn_step_def by (cases "ev_payload e"; simp only: is_inert_def event_payload.case)

lemma refresh_active:
  assumes "refresh_payload e s db = Inr db'"
  shows "active_turn_projection db' = active_turn_step s e (active_turn_projection db)"
  using assms
proof (cases rule: refresh_payloadE)
  case (turn_started t a b c d f g)
  then show ?thesis
    by (auto simp: active_turn_step_def project_turn_started_def and_then_eq_Inr sql_insert_Some active_row_def)
next
  case (steers_resolved ids out a b)
  with project_steers_shape [of e ids out db] show ?thesis by (auto simp: active_turn_step_def)
next
  case inert
  then show ?thesis by (simp add: active_turn_step_inert)
qed (simp add: active_turn_step_def project_simple_defs | drule project_shapes; clarsimp simp: active_turn_step_def)+

interpretation active_log: event_sourced active_turn_projection "[]" active_turn_step
  by (rule event_sourcedI)
    (simp_all add: empty_database_def refresh_active other_write_frame logged_def)

subsection \<open>Messages\<close>

definition message_row_of :: "event_envelope \<Rightarrow> message \<Rightarrow> message_row" where
  "message_row_of e m =
     \<lparr>mr_event_id = ev_event_id e, mr_session_id = ev_session_id e, mr_branch_id = ev_branch_id e,
      mr_message_id = m_message_id m, mr_role = m_role m, mr_message = m,
      mr_created_at = m_created_at m\<rparr>"

definition message_step :: "i64 \<Rightarrow> event_envelope \<Rightarrow> message_row list \<Rightarrow> message_row list" where
  "message_step seq e t =
     (case ev_payload e of
        MessageAppended m \<Rightarrow>
          t @ [message_row_of e m]
      | _ \<Rightarrow> t)"

lemma message_step_inert: "is_inert (ev_payload e) \<Longrightarrow> message_step s e t = t"
  unfolding message_step_def by (cases "ev_payload e"; simp only: is_inert_def event_payload.case)

lemma refresh_message:
  assumes "refresh_payload e s db = Inr db'"
  shows "message_projection db' = message_step s e (message_projection db)"
  using assms
proof (cases rule: refresh_payloadE)
  case (message m)
  then show ?thesis
    by (auto simp: message_step_def project_message_appended_def and_then_eq_Inr sql_insert_Some message_row_of_def)
next
  case (steers_resolved ids out a b)
  with project_steers_shape [of e ids out db] show ?thesis by (auto simp: message_step_def)
next
  case inert
  then show ?thesis by (simp add: message_step_inert)
qed (simp add: message_step_def project_simple_defs | drule project_shapes; clarsimp simp: message_step_def)+

interpretation message_log: event_sourced message_projection "[]" message_step
  by (rule event_sourcedI)
    (simp_all add: empty_database_def refresh_message other_write_frame logged_def)

subsection \<open>The message queue\<close>

definition queued_row_of :: "i64 \<Rightarrow> event_envelope \<Rightarrow> message \<Rightarrow> u64 \<Rightarrow> queued_row" where
  "queued_row_of seq e m revision =
     \<lparr>qu_queue_event_id = ev_event_id e, qu_session_id = ev_session_id e, qu_branch_id = ev_branch_id e,
      qu_message = m, qu_settings_revision_id = as_i64 revision, qu_status = ''pending'',
      qu_source_seq = seq, qu_enqueued_at = ev_occurred_at e, qu_resolved_at = None\<rparr>"

definition resolve_queued :: "event_envelope \<Rightarrow> queued_message_resolution_outcome \<Rightarrow> queued_row \<Rightarrow> queued_row" where
  "resolve_queued e outcome r =
     r\<lparr>qu_status := queued_message_resolution_status outcome, qu_resolved_at := Some (ev_occurred_at e)\<rparr>"

definition queue_step :: "i64 \<Rightarrow> event_envelope \<Rightarrow> queued_row list \<Rightarrow> queued_row list" where
  "queue_step seq e t =
     (case ev_payload e of
        SessionQueuedMessageEnqueued m revision \<Rightarrow>
          sql_upsert qu_queue_event_id merge_queued (queued_row_of seq e m revision) t
      | SessionQueuedMessageResolved qid outcome _ \<Rightarrow>
          sql_update (\<lambda>r. qu_queue_event_id r = qid) (resolve_queued e outcome) t
      | _ \<Rightarrow> t)"

lemma queue_step_inert: "is_inert (ev_payload e) \<Longrightarrow> queue_step s e t = t"
  unfolding queue_step_def by (cases "ev_payload e"; simp only: is_inert_def event_payload.case)

lemma refresh_queue:
  assumes "refresh_payload e s db = Inr db'"
  shows "queued_message_projection db' = queue_step s e (queued_message_projection db)"
  using assms
proof (cases rule: refresh_payloadE)
  case (enqueued m r)
  then show ?thesis by (simp add: queue_step_def project_queued_enqueued_def queued_row_of_def)
next
  case (dequeued q out r)
  then show ?thesis by (simp add: queue_step_def project_queued_resolved_def resolve_queued_def [abs_def])
next
  case (steers_resolved ids out a b)
  with project_steers_shape [of e ids out db] show ?thesis by (auto simp: queue_step_def)
next
  case inert
  then show ?thesis by (simp add: queue_step_inert)
qed (simp add: queue_step_def project_simple_defs | drule project_shapes; clarsimp simp: queue_step_def)+

interpretation queue_log: event_sourced queued_message_projection "[]" queue_step
  by (rule event_sourcedI)
    (simp_all add: empty_database_def refresh_queue other_write_frame logged_def)

subsection \<open>The cancel flag\<close>

definition control_row_of :: "event_envelope \<Rightarrow> bool \<Rightarrow> control_row" where
  "control_row_of e requested =
     \<lparr>ct_session_id = ev_session_id e, ct_cancel_requested = requested, ct_updated_at = ev_occurred_at e\<rparr>"

definition control_step :: "i64 \<Rightarrow> event_envelope \<Rightarrow> control_row list \<Rightarrow> control_row list" where
  "control_step seq e t =
     (case ev_payload e of
        SessionCancelled _ \<Rightarrow>
          sql_upsert ct_session_id merge_control (control_row_of e True) t
      | SessionCancelCleared _ \<Rightarrow>
          sql_upsert ct_session_id merge_control (control_row_of e False) t
      | _ \<Rightarrow> t)"

lemma control_step_inert: "is_inert (ev_payload e) \<Longrightarrow> control_step s e t = t"
  unfolding control_step_def by (cases "ev_payload e"; simp only: is_inert_def event_payload.case)

lemma refresh_control:
  assumes "refresh_payload e s db = Inr db'"
  shows "session_control_projection db' = control_step s e (session_control_projection db)"
  using assms
proof (cases rule: refresh_payloadE)
  case (cancelled r)
  then show ?thesis by (simp add: control_step_def project_cancel_def control_row_of_def)
next
  case (cancel_cleared r)
  then show ?thesis by (simp add: control_step_def project_cancel_def control_row_of_def)
next
  case (steers_resolved ids out a b)
  with project_steers_shape [of e ids out db] show ?thesis by (auto simp: control_step_def)
next
  case inert
  then show ?thesis by (simp add: control_step_inert)
qed (simp add: control_step_def project_simple_defs | drule project_shapes; clarsimp simp: control_step_def)+

interpretation control_log: event_sourced session_control_projection "[]" control_step
  by (rule event_sourcedI)
    (simp_all add: empty_database_def refresh_control other_write_frame logged_def)

subsection \<open>Steers\<close>

definition steer_row_of :: "i64 \<Rightarrow> event_envelope \<Rightarrow> string \<Rightarrow> u64 \<Rightarrow> steer_row" where
  "steer_row_of seq e text revision =
     \<lparr>st_steer_event_id = ev_event_id e, st_session_id = ev_session_id e, st_branch_id = ev_branch_id e,
      st_message = text, st_settings_revision_id = as_i64 revision, st_status = ''pending'',
      st_source_seq = seq, st_enqueued_at = ev_occurred_at e, st_resolved_at = None\<rparr>"

definition resolve_steer :: "event_envelope \<Rightarrow> steer_resolution_outcome \<Rightarrow> steer_row \<Rightarrow> steer_row" where
  "resolve_steer e outcome r =
     r\<lparr>st_status := steer_resolution_status outcome, st_resolved_at := Some (ev_occurred_at e)\<rparr>"

lemma resolve_steer_simps [simp]:
  "st_steer_event_id (resolve_steer e out r) = st_steer_event_id r"
  "resolve_steer e out (resolve_steer e out r) = resolve_steer e out r"
  by (simp_all add: resolve_steer_def)

lemma project_steers_table:
  "steer_projection (project_steers_resolved e is out db) =
     sql_update (\<lambda>r. st_steer_event_id r \<in> set is) (resolve_steer e out) (steer_projection db)"
proof (induction "is" arbitrary: db)
  case (Cons i "is")
  then show ?case
    by (auto simp: sql_update_def resolve_steer_def)
qed (simp add: sql_update_def)

definition steer_step :: "i64 \<Rightarrow> event_envelope \<Rightarrow> steer_row list \<Rightarrow> steer_row list" where
  "steer_step seq e t =
     (case ev_payload e of
        SessionSteered text revision \<Rightarrow>
          sql_upsert st_steer_event_id merge_steer (steer_row_of seq e text revision) t
      | SessionSteersResolved ids outcome _ _ \<Rightarrow>
          sql_update (\<lambda>r. st_steer_event_id r \<in> set ids) (resolve_steer e outcome) t
      | _ \<Rightarrow> t)"

lemma steer_step_inert: "is_inert (ev_payload e) \<Longrightarrow> steer_step s e t = t"
  unfolding steer_step_def by (cases "ev_payload e"; simp only: is_inert_def event_payload.case)

lemma refresh_steer:
  assumes "refresh_payload e s db = Inr db'"
  shows "steer_projection db' = steer_step s e (steer_projection db)"
  using assms
proof (cases rule: refresh_payloadE)
  case (steered x r)
  then show ?thesis by (simp add: steer_step_def project_steered_def steer_row_of_def)
next
  case (steers_resolved ids out a b)
  then show ?thesis by (simp add: steer_step_def project_steers_table)
next
  case inert
  then show ?thesis by (simp add: steer_step_inert)
qed (simp add: steer_step_def project_simple_defs | drule project_shapes; clarsimp simp: steer_step_def)+

interpretation steer_log: event_sourced steer_projection "[]" steer_step
  by (rule event_sourcedI)
    (simp_all add: empty_database_def refresh_steer other_write_frame logged_def)

subsection \<open>Budgets\<close>

definition budget_row_of :: "event_envelope \<Rightarrow> budget_config \<Rightarrow> budget_row" where
  "budget_row_of e b =
     \<lparr>bu_session_id = ev_session_id e,
      bu_max_wall_clock_seconds = map_option as_i64 (max_wall_clock_seconds b),
      bu_max_tokens = map_option as_i64 (max_tokens b), bu_max_turns = map_option uint (max_turns b),
      bu_max_cost_usd = Option.bind (max_cost_usd b) sql_real, bu_tokens_used = 0, bu_turns_used = 0,
      bu_elapsed_seconds = 0, bu_cost_used_usd = Some f64_zero, bu_updated_at = ev_occurred_at e\<rparr>"

definition record_checkpoint :: "event_envelope \<Rightarrow> u64 \<Rightarrow> u32 \<Rightarrow> u64 \<Rightarrow> f64 option \<Rightarrow> budget_row \<Rightarrow> budget_row" where
  "record_checkpoint e tokens turns elapsed cost r =
     r\<lparr>bu_tokens_used := as_i64 tokens, bu_turns_used := uint turns, bu_elapsed_seconds := as_i64 elapsed,
       bu_cost_used_usd := Option.bind cost sql_real, bu_updated_at := ev_occurred_at e\<rparr>"

definition budget_step :: "i64 \<Rightarrow> event_envelope \<Rightarrow> budget_row list \<Rightarrow> budget_row list" where
  "budget_step seq e t =
     (case ev_payload e of
        BudgetConfigured b \<Rightarrow>
          sql_upsert bu_session_id merge_budget_config (budget_row_of e b) t
      | BudgetCheckpoint tokens turns elapsed cost \<Rightarrow>
          sql_update (\<lambda>r. bu_session_id r = ev_session_id e)
            (record_checkpoint e tokens turns elapsed cost) t
      | _ \<Rightarrow> t)"

lemma budget_step_inert: "is_inert (ev_payload e) \<Longrightarrow> budget_step s e t = t"
  unfolding budget_step_def by (cases "ev_payload e"; simp only: is_inert_def event_payload.case)

lemma refresh_budget:
  assumes "refresh_payload e s db = Inr db'"
  shows "session_budget_projection db' = budget_step s e (session_budget_projection db)"
  using assms
proof (cases rule: refresh_payloadE)
  case (budget b)
  then show ?thesis
    by (simp add: budget_step_def refresh_budget_projection_from_config_def budget_row_of_def)
next
  case (checkpoint a b c d)
  then show ?thesis
    by (auto simp: budget_step_def refresh_budget_projection_from_checkpoint_def and_then_eq_Inr
        record_checkpoint_def [abs_def])
next
  case (steers_resolved ids out a b)
  with project_steers_shape [of e ids out db] show ?thesis by (auto simp: budget_step_def)
next
  case inert
  then show ?thesis by (simp add: budget_step_inert)
qed (simp add: budget_step_def project_simple_defs | drule project_shapes; clarsimp simp: budget_step_def)+

interpretation budget_log: event_sourced session_budget_projection "[]" budget_step
  by (rule event_sourcedI)
    (simp_all add: empty_database_def refresh_budget other_write_frame logged_def)

subsection \<open>Costs\<close>

definition cost_row_of :: "event_envelope \<Rightarrow> token_usage \<Rightarrow> cost_breakdown option \<Rightarrow> cost_row" where
  "cost_row_of e usage cost =
     \<lparr>co_session_id = ev_session_id e, co_prompt_tokens = SqlInt (uint (prompt_tokens usage)),
      co_completion_tokens = SqlInt (uint (completion_tokens usage)),
      co_total_tokens = SqlInt (uint (total_tokens usage)),
      co_total_cost_usd = (case cost of None \<Rightarrow> f64_zero | Some c \<Rightarrow> total_usd c),
      co_unpriced_completion_count = SqlInt (if cost = None then 1 else 0),
      co_updated_at = ev_occurred_at e\<rparr>"

lemma bind_u64_Inr: "bind_u64 w = Inr n \<longleftrightarrow> uint w \<le> i64_max \<and> n = SqlInt (uint w)"
  by (auto simp: bind_u64_def)

definition cost_step :: "i64 \<Rightarrow> event_envelope \<Rightarrow> cost_row list \<Rightarrow> cost_row list" where
  "cost_step seq e t =
     (case ev_payload e of
        CompletionFinished _ _ _ usage cost _ _ \<Rightarrow>
          sql_upsert co_session_id merge_cost (cost_row_of e usage cost) t
      | _ \<Rightarrow> t)"

lemma cost_step_inert: "is_inert (ev_payload e) \<Longrightarrow> cost_step s e t = t"
  unfolding cost_step_def by (cases "ev_payload e"; simp only: is_inert_def event_payload.case)

lemma refresh_cost:
  assumes "refresh_payload e s db = Inr db'"
  shows "cost_summary_projection db' = cost_step s e (cost_summary_projection db)"
  using assms
proof (cases rule: refresh_payloadE)
  case (completion ord p m u c f l)
  then show ?thesis
    by (auto simp: cost_step_def refresh_cost_summary_projection_def and_then_eq_Inr bind_u64_Inr Let_def
        cost_row_of_def split: if_splits)
next
  case (steers_resolved ids out a b)
  with project_steers_shape [of e ids out db] show ?thesis by (auto simp: cost_step_def)
next
  case inert
  then show ?thesis by (simp add: cost_step_inert)
qed (simp add: cost_step_def project_simple_defs | drule project_shapes; clarsimp simp: cost_step_def)+

interpretation cost_log: event_sourced cost_summary_projection "[]" cost_step
  by (rule event_sourcedI)
    (simp_all add: empty_database_def refresh_cost other_write_frame logged_def)

subsection \<open>Approvals\<close>

definition approval_requested_row ::
  "i64 \<Rightarrow> event_envelope \<Rightarrow> tool_call_id \<Rightarrow> string \<Rightarrow> approval_request_snapshot option \<Rightarrow> approval_row" where
  "approval_requested_row seq e cid name snap =
     \<lparr>av_session_id = ev_session_id e, av_call_id = cid, av_tool_name = name, av_status = ''pending'',
      av_branch_id = Some (ev_branch_id e), av_turn_id = ev_turn_id e, av_requested_seq_id = Some seq,
      av_request_fingerprint = map_option sn_request_fingerprint snap, av_request_snapshot = snap,
      av_decision = None, av_resolution = None, av_updated_at = ev_occurred_at e\<rparr>"

definition approval_resolved_row ::
  "event_envelope \<Rightarrow> tool_call_id \<Rightarrow> string \<Rightarrow> string option \<Rightarrow> approval_resolution option \<Rightarrow> approval_decision
     \<Rightarrow> approval_row" where
  "approval_resolved_row e cid name fp resolution decision =
     \<lparr>av_session_id = ev_session_id e, av_call_id = cid, av_tool_name = name,
      av_status = approval_status decision, av_branch_id = None, av_turn_id = None,
      av_requested_seq_id = None,
      av_request_fingerprint =
        (case resolution of Some r \<Rightarrow> Some (ap_request_fingerprint r) | None \<Rightarrow> fp),
      av_request_snapshot = None, av_decision = Some decision, av_resolution = resolution,
      av_updated_at = ev_occurred_at e\<rparr>"

definition approval_step :: "i64 \<Rightarrow> event_envelope \<Rightarrow> approval_row list \<Rightarrow> approval_row list" where
  "approval_step seq e t =
     (case ev_payload e of
        ToolApprovalRequested cid name snap \<Rightarrow>
          sql_upsert approval_key merge_approval_requested (approval_requested_row seq e cid name snap) t
      | ToolApprovalResolved cid name fp resolution decision \<Rightarrow>
          sql_upsert approval_key merge_approval_resolved
            (approval_resolved_row e cid name fp resolution decision) t
      | ToolCallRequested cid _ _ \<Rightarrow>
          sql_delete (\<lambda>r. approval_key r = (ev_session_id e, cid)) t
      | _ \<Rightarrow> t)"

lemma approval_step_inert: "is_inert (ev_payload e) \<Longrightarrow> approval_step s e t = t"
  unfolding approval_step_def by (cases "ev_payload e"; simp only: is_inert_def event_payload.case)

lemma refresh_approval:
  assumes "refresh_payload e s db = Inr db'"
  shows "approval_projection db' = approval_step s e (approval_projection db)"
  using assms
proof (cases rule: refresh_payloadE)
  case (approval_requested c n sn)
  then show ?thesis
    by (simp add: approval_step_def project_approval_requested_def approval_requested_row_def)
next
  case (approval_resolved c n fp r d)
  then show ?thesis
    by (simp add: approval_step_def project_approval_resolved_def approval_resolved_row_def)
next
  case (steers_resolved ids out a b)
  with project_steers_shape [of e ids out db] show ?thesis by (auto simp: approval_step_def)
next
  case inert
  then show ?thesis by (simp add: approval_step_inert)
qed (simp add: approval_step_def project_simple_defs | drule project_shapes; clarsimp simp: approval_step_def)+

interpretation approval_log: event_sourced approval_projection "[]" approval_step
  by (rule event_sourcedI)
    (simp_all add: empty_database_def refresh_approval other_write_frame logged_def)

subsection \<open>Tool runs\<close>

definition tool_requested_row :: "i64 \<Rightarrow> event_envelope \<Rightarrow> tool_call_id \<Rightarrow> string \<Rightarrow> json \<Rightarrow> tool_run_row" where
  "tool_requested_row seq e cid name arguments =
     \<lparr>tn_session_id = ev_session_id e, tn_call_id = cid, tn_tool_name = name, tn_status = ''requested'',
      tn_branch_id = Some (ev_branch_id e), tn_turn_id = ev_turn_id e, tn_requested_seq_id = Some seq,
      tn_arguments = Some arguments, tn_result = None, tn_updated_at = ev_occurred_at e\<rparr>"

definition tool_finished_row :: "event_envelope \<Rightarrow> tool_call_id \<Rightarrow> string \<Rightarrow> tool_result_envelope \<Rightarrow> tool_run_row" where
  "tool_finished_row e cid name result =
     \<lparr>tn_session_id = ev_session_id e, tn_call_id = cid, tn_tool_name = name, tn_status = ''completed'',
      tn_branch_id = None, tn_turn_id = None, tn_requested_seq_id = None, tn_arguments = None,
      tn_result = Some result, tn_updated_at = ev_occurred_at e\<rparr>"

definition tool_step :: "i64 \<Rightarrow> event_envelope \<Rightarrow> tool_run_row list \<Rightarrow> tool_run_row list" where
  "tool_step seq e t =
     (case ev_payload e of
        ToolCallRequested cid name arguments \<Rightarrow>
          sql_upsert tool_run_key merge_tool_requested (tool_requested_row seq e cid name arguments) t
      | ToolExecutionFinished cid name result \<Rightarrow>
          sql_upsert tool_run_key merge_tool_finished (tool_finished_row e cid name result) t
      | _ \<Rightarrow> t)"

lemma tool_step_inert: "is_inert (ev_payload e) \<Longrightarrow> tool_step s e t = t"
  unfolding tool_step_def by (cases "ev_payload e"; simp only: is_inert_def event_payload.case)

lemma refresh_tool:
  assumes "refresh_payload e s db = Inr db'"
  shows "tool_run_projection db' = tool_step s e (tool_run_projection db)"
  using assms
proof (cases rule: refresh_payloadE)
  case (tool_requested c n a)
  then show ?thesis by (simp add: tool_step_def project_tool_requested_def tool_requested_row_def)
next
  case (tool_finished c n r)
  then show ?thesis by (simp add: tool_step_def project_tool_finished_def tool_finished_row_def)
next
  case (steers_resolved ids out a b)
  with project_steers_shape [of e ids out db] show ?thesis by (auto simp: tool_step_def)
next
  case inert
  then show ?thesis by (simp add: tool_step_inert)
qed (simp add: tool_step_def project_simple_defs | drule project_shapes; clarsimp simp: tool_step_def)+

interpretation tool_log: event_sourced tool_run_projection "[]" tool_step
  by (rule event_sourcedI)
    (simp_all add: empty_database_def refresh_tool other_write_frame logged_def)

end
