(* ===== verification/Bt_Ops.thy ===== *)
theory Bt_Ops
  imports Bt_Log
begin

section \<open>Operations as sequences of primitive writes\<close>

text \<open>
  \<open>store_call\<close> has one rule per public write operation of \<open>SqliteSessionStore\<close>. Every call, whether it
  commits, returns early or fails, is a sequence of primitive writes, so an invariant of \<open>store_step\<close>
  holds in every database an execution of the program can leave behind.
\<close>

subsection \<open>Transaction bodies\<close>

definition tx_sound :: "'a tx \<Rightarrow> bool" where
  "tx_sound m \<longleftrightarrow> (\<forall>db db' a. m db = Inr (db', a) \<longrightarrow> store_step\<^sup>*\<^sup>* db db')"

named_theorems sound_intros

lemma tx_soundD: "tx_sound m \<Longrightarrow> m db = Inr (db', a) \<Longrightarrow> store_step\<^sup>*\<^sup>* db db'"
  by (auto simp: tx_sound_def)

lemma tx_sound_ok [sound_intros]: "tx_sound (tx_ok a)"
  by (simp add: tx_sound_def tx_ok_def)

lemma tx_sound_read [sound_intros]: "tx_sound (tx_read q)"
  by (simp add: tx_sound_def tx_read_eq_Inr)

lemma tx_sound_error [sound_intros]: "tx_sound (\<lambda>_. Inl err)"
  by (simp add: tx_sound_def)

lemma tx_sound_bind [sound_intros]:
  assumes "tx_sound m" "\<And>a. tx_sound (f a)"
  shows "tx_sound (tx_bind m f)"
  using assms by (fastforce simp: tx_sound_def tx_bind_eq_Inr intro: rtranclp_trans)

lemma tx_sound_if [sound_intros]: "tx_sound m \<Longrightarrow> tx_sound n \<Longrightarrow> tx_sound (if c then m else n)"
  by simp

lemma tx_sound_option [sound_intros]:
  "tx_sound m \<Longrightarrow> (\<And>x. tx_sound (f x)) \<Longrightarrow> tx_sound (case v of None \<Rightarrow> m | Some x \<Rightarrow> f x)"
  by (cases v) simp_all

lemma tx_sound_prod [sound_intros]: "(\<And>x y. tx_sound (f x y)) \<Longrightarrow> tx_sound (case p of (x, y) \<Rightarrow> f x y)"
  by (cases p) simp

text \<open>A body that looks at the database first.\<close>

lemma tx_sound_cond [sound_intros]: "tx_sound m \<Longrightarrow> tx_sound n \<Longrightarrow> tx_sound (\<lambda>db. if c db then m db else n db)"
  by (simp add: tx_sound_def)

lemma tx_sound_depends: "(\<And>x. tx_sound (f x)) \<Longrightarrow> tx_sound (\<lambda>db. f (g db) db)"
  by (simp add: tx_sound_def)

lemma tx_sound_list [sound_intros]:
  "tx_sound m \<Longrightarrow> (\<And>x xs. tx_sound (f x xs)) \<Longrightarrow> tx_sound (\<lambda>db. case l db of [] \<Rightarrow> m db | x # xs \<Rightarrow> f x xs db)"
  by (auto simp: tx_sound_def split: list.splits)

lemma tx_sound_write_other:
  "(\<And>db db'. w db = Inr db' \<Longrightarrow> other_write db db') \<Longrightarrow> tx_sound (tx_write w)"
  by (auto simp: tx_sound_def tx_write_eq_Inr intro: r_into_rtranclp store_step.other)

lemma tx_sound_inserts [sound_intros]:
  "tx_sound (tx_write (insert_session_in_tx s))"
  "tx_sound (tx_write (insert_session_settings_revision_in_tx s))"
  "tx_sound (tx_write (insert_branch_in_tx b))"
  "tx_sound (tx_write (set_default_branch_in_tx sid bid))"
  by (auto intro: tx_sound_write_other other_write.intros)

lemma tx_sound_link [sound_intros]: "tx_sound (tx_write (\<lambda>db. Inr (link_raw_chunk eid cid db)))"
  by (rule tx_sound_write_other) (auto intro: other_write.raw_link)

lemma tx_sound_append [sound_intros]: "tx_sound (append_event_in_tx e)"
  by (auto simp: tx_sound_def intro: r_into_rtranclp store_step.append)

lemma tx_sound_appends [sound_intros]: "tx_sound (append_events_in_tx es)"
  by (induction es) (simp_all add: sound_intros)

lemma tx_sound_raw [sound_intros]: "tx_sound (append_raw_chunk_in_tx now c)"
  by (auto simp: tx_sound_def intro: r_into_rtranclp store_step.other other_write.raw_chunk)

lemma tx_sound_raws [sound_intros]: "tx_sound (append_raw_chunks_in_tx now cs)"
  by (induction cs) (simp_all add: sound_intros)

lemma tx_sound_branches [sound_intros]: "tx_sound (insert_branches_in_tx bs)"
  by (induction bs) (simp_all add: sound_intros)

lemma transaction_steps: "tx_sound m \<Longrightarrow> transaction m db = (db', r) \<Longrightarrow> store_step\<^sup>*\<^sup>* db db'"
  by (cases r) (auto simp: transaction_Inl transaction_Inr dest: tx_soundD)

subsection \<open>Soundness of the control-plane bodies\<close>

lemma tx_sound_append_when [sound_intros]: "tx_sound (append_when c e)"
  by (simp add: append_when_def sound_intros)

lemma tx_sound_cancel_clear [sound_intros]: "tx_sound (append_cancel_clear c e)"
  by (simp add: append_cancel_clear_def sound_intros)

lemma tx_sound_claim [sound_intros]: "tx_sound (claim_events es)"
  by (simp add: claim_events_def sound_intros)

lemma tx_sound_admit [sound_intros]: "tx_sound (admit_idle_or_pending sid c st q)"
  unfolding admit_idle_or_pending_def [abs_def]
  by (intro sound_intros tx_sound_depends [where g = "cancel_requested_in_tx sid"])

lemma tx_sound_claimable [sound_intros]: "tx_sound body \<Longrightarrow> tx_sound (when_claimable sid body)"
  unfolding when_claimable_def [abs_def] by (intro sound_intros)

lemma tx_sound_settle [sound_intros]: "tx_sound (settle_claimed_obligation a b c d e f)"
  by (simp add: settle_claimed_obligation_def sound_intros)

subsection \<open>Public operations\<close>

inductive store_call :: "database \<Rightarrow> database \<Rightarrow> bool" where
  call_append_event: "append_event e db = (db', r) \<Longrightarrow> store_call db db'"
| call_append_events: "append_events es db = (db', r) \<Longrightarrow> store_call db db'"
| call_raw_chunk: "append_raw_chunk now c db = (db', r) \<Longrightarrow> store_call db db'"
| call_raw_chunk_with_event: "append_raw_chunk_with_event now c build db = (db', r) \<Longrightarrow> store_call db db'"
| call_live_chunk: "append_live_completion_chunk now sid bid turn ordinal provider stream content build_raw build_chunk db = (db', r) \<Longrightarrow> store_call db db'"
| call_create_session: "create_session s b db = (db', r) \<Longrightarrow> store_call db db'"
| call_import_session: "import_session_with_raw_chunks_and_events now s bs cs build_events db = (db', r) \<Longrightarrow> store_call db db'"
| call_create_branch: "create_branch b db = (db', r) \<Longrightarrow> store_call db db'"
| call_default_branch: "set_default_branch sid bid db = (db', r) \<Longrightarrow> store_call db db'"
| call_default_branch_with_event: "set_default_branch_with_event sid bid e db = (db', r) \<Longrightarrow> store_call db db'"
| call_create_branch_with_event: "create_branch_with_event_and_default b e db = (db', r) \<Longrightarrow> store_call db db'"
| call_active_turn_events: "commit_active_turn_events sid bid tid es db = (db', r) \<Longrightarrow> store_call db db'"
| call_terminal_transition: "commit_turn_terminal_transition sid bid tid es db = (db', r) \<Longrightarrow> store_call db db'"
| call_budget_checkpoint: "commit_budget_checkpoint ck cancel db = (db', r) \<Longrightarrow> store_call db db'"
| call_budget_terminal: "commit_budget_terminal_transition ck cancel es db = (db', r) \<Longrightarrow> store_call db db'"
| call_budget_configuration: "commit_budget_configuration cfg cancel db = (db', r) \<Longrightarrow> store_call db db'"
| call_settings_update: "commit_session_settings_update eid span now sid bid conn model mode db = (db', r) \<Longrightarrow> store_call db db'"
| call_admit: "admit_turn_or_queue sid revision clear st q db = (db', r) \<Longrightarrow> store_call db db'"
| call_claim_queued: "claim_queued_continuation sid qid es db = (db', r) \<Longrightarrow> store_call db db'"
| call_claim_steer: "claim_steer_continuation sid bid ids es db = (db', r) \<Longrightarrow> store_call db db'"
| call_claim_related: "claim_related_message_continuation sid mid revision es db = (db', r) \<Longrightarrow> store_call db db'"
| call_claim_related_active: "claim_related_messages_for_active_turn sid bid tid mids es db = (db', r) \<Longrightarrow> store_call db db'"
| call_claim_resumed: "claim_resumed_continuation sid bid cid name tid seq revision kind es db = (db', r) \<Longrightarrow> store_call db db'"
| call_spawn: "commit_child_session_spawn child b e1 e2 e3 e4 db = (db', r) \<Longrightarrow> store_call db db'"
| call_spawn_with_message: "commit_child_session_spawn_with_initial_message child b e1 e2 e3 e4 sent received db = (db', r) \<Longrightarrow> store_call db db'"
| call_related_message: "commit_related_session_message sent received db = (db', r) \<Longrightarrow> store_call db db'"
| call_settle: "settle_related_session_message mid sent received settlement db = (db', r) \<Longrightarrow> store_call db db'"
| call_branch_summary: "store_call db (update_branch_summary bid text db)"
| call_session_parent: "store_call db (update_session_parent now sid p pb pt db)"

text \<open>The databases an execution of the program leaves behind.\<close>

inductive opened :: "database \<Rightarrow> bool" where
  opened_fresh: "opened empty_database"
| opened_call: "opened db \<Longrightarrow> store_call db db' \<Longrightarrow> opened db'"

lemmas store_op_defs =
  append_event_def append_events_def append_raw_chunk_def
  append_raw_chunk_with_event_def append_live_completion_chunk_def create_session_def
  import_session_with_raw_chunks_and_events_def create_branch_def set_default_branch_def
  set_default_branch_with_event_def create_branch_with_event_and_default_def commit_active_turn_events_def
  commit_turn_terminal_transition_def commit_budget_checkpoint_def commit_budget_terminal_transition_def
  commit_budget_configuration_def commit_session_settings_update_def admit_turn_or_queue_def
  claim_queued_continuation_def claim_steer_continuation_def claim_related_message_continuation_def
  claim_related_messages_for_active_turn_def claim_resumed_continuation_def commit_child_session_spawn_def
  commit_child_session_spawn_with_initial_message_def commit_related_session_message_def settle_related_session_message_def
  commit_budget_checkpoint_transition_def commit_child_session_spawn_transition_def

lemma tx_sound_when_ok [sound_intros]:
  "tx_sound m \<Longrightarrow> tx_sound (\<lambda>db. if c db then Inl err else m db)"
  "tx_sound m \<Longrightarrow> tx_sound (\<lambda>db. if c db then tx_ok a db else m db)"
  by (simp_all add: tx_sound_def tx_ok_def)

lemma tx_sound_read_at [sound_intros]: "(\<And>a. tx_sound (f a)) \<Longrightarrow> tx_sound (\<lambda>db. tx_bind (tx_read (q db)) f db)"
  by (force simp: tx_sound_def tx_eqs)

lemma tx_sound_owner [sound_intros]:
  "tx_sound m \<Longrightarrow> tx_sound n \<Longrightarrow> tx_sound (\<lambda>db. case q db of Inl _ \<Rightarrow> m db | Inr _ \<Rightarrow> n db)"
  by (auto simp: tx_sound_def split: sum.splits)

lemma store_call_steps:
  assumes "store_call db db'"
  shows "store_step\<^sup>*\<^sup>* db db'"
  using assms
proof cases
  case (call_branch_summary bid s)
  then show ?thesis by (auto intro: r_into_rtranclp store_step.other other_write.branch_summary)
next
  case (call_session_parent now sid p pb pt)
  then show ?thesis by (auto intro: r_into_rtranclp store_step.other other_write.session_parent)
qed (unfold store_op_defs Let_def; erule transaction_steps [rotated]; intro sound_intros)+

lemma opened_reachable: "opened db \<Longrightarrow> reachable db"
  by (induction rule: opened.induct) (auto intro: reachable_empty reachable_steps store_call_steps)

end
