(* ===== verification/Bt_Turns.thy ===== *)
theory Bt_Turns
  imports Bt_Ops
begin

section \<open>The log and the active turn\<close>

text \<open>
  What holds of the log in every reachable database, and the meaning of \<open>active_turn_projection\<close>: per
  session at most one row, the last turn that was started and not finished. The one-time rebuild of
  \<open>migration.rs\<close> computes the same turns.
\<close>

subsection \<open>Sequence ids and event ids\<close>

definition log_wf :: "database \<Rightarrow> bool" where
  "log_wf db \<longleftrightarrow>
     map er_seq_id (events db) = [1..events_autoincrement db]
   \<and> 0 \<le> events_autoincrement db \<and> events_autoincrement db \<le> i64_max
   \<and> distinct (map (\<lambda>r. ev_event_id (er_event r)) (events db))
   \<and> distinct (map se_session_id (sessions db)) \<and> distinct (map br_branch_id (branches db))
   \<and> (\<forall>r \<in> set (events db). ev_session_id (er_event r) \<in> set (map se_session_id (sessions db))
        \<and> ev_branch_id (er_event r) \<in> set (map br_branch_id (branches db)))"

lemma log_wf_append:
  assumes wf: "log_wf db" and app: "append_event_in_tx e db = Inr (db', seq)"
  shows "log_wf db'"
proof -
  from app obtain db2 where new: "seq \<le> i64_max"
    "\<forall>r \<in> set (events db). ev_event_id (er_event r) \<noteq> ev_event_id e"
    "ev_session_id e \<in> set (map se_session_id (sessions db))"
    "ev_branch_id e \<in> set (map br_branch_id (branches db))"
    by (rule append_event_in_txE)
  have "[1..events_autoincrement db + 1] = [1..events_autoincrement db] @ [events_autoincrement db + 1]"
    using wf upto_rec2 [of 1 "events_autoincrement db + 1"] by (simp add: log_wf_def)
  with wf new append_event_log [OF app] show ?thesis
    unfolding log_wf_def by (auto simp del: list.set_map)
qed

text \<open>Session and branch ids only grow, and stay distinct.\<close>

definition keys_grow :: "'k list \<Rightarrow> 'k list \<Rightarrow> bool" where
  "keys_grow ks ks' \<longleftrightarrow> ks' = ks \<or> (\<exists>k. k \<notin> set ks \<and> ks' = ks @ [k])"

lemma keys_growD: "keys_grow ks ks' \<Longrightarrow> set ks \<subseteq> set ks' \<and> (distinct ks \<longrightarrow> distinct ks')"
  by (auto simp: keys_grow_def)

lemma insert_session_keys:
  assumes "insert_session_in_tx s db = Inr db'"
  shows "map se_session_id (sessions db') = map se_session_id (sessions db) @ [sr_session_id s]"
    "sr_session_id s \<notin> set (map se_session_id (sessions db))" "branches db' = branches db"
  using assms by (auto simp: insert_session_in_tx_def and_then_eq_Inr sql_insert_Some)

lemma insert_branch_keys:
  assumes "insert_branch_in_tx b db = Inr db'"
  shows "map br_branch_id (branches db') = map br_branch_id (branches db) @ [br_branch_id b]"
    "br_branch_id b \<notin> set (map br_branch_id (branches db))" "sessions db' = sessions db"
  using assms by (auto simp: insert_branch_in_tx_def and_then_eq_Inr sql_insert_Some split: if_splits)

lemma other_write_keys:
  assumes "other_write db db'"
  shows "keys_grow (map se_session_id (sessions db)) (map se_session_id (sessions db'))
    \<and> keys_grow (map br_branch_id (branches db)) (map br_branch_id (branches db'))"
  using assms
proof cases
  case (new_session s)
  from insert_session_keys [OF this] show ?thesis by (simp only: keys_grow_def) blast
next
  case (new_branch b)
  from insert_branch_keys [OF this] show ?thesis by (simp only: keys_grow_def) blast
qed (simp_all add: keys_grow_def insert_session_settings_revision_in_tx_def set_default_branch_in_tx_def
    update_branch_summary_def update_session_parent_def append_raw_chunk_in_tx_def link_raw_chunk_def
    and_then_eq_Inr Let_def map_key_update split: if_splits, (clarsimp simp: map_key_update)+)

lemma log_wf_other:
  assumes "log_wf db" "other_write db db'"
  shows "log_wf db'"
proof -
  note keys = other_write_keys [OF assms(2), THEN conjunct1, THEN keys_growD]
    other_write_keys [OF assms(2), THEN conjunct2, THEN keys_growD]
  show ?thesis
    using assms(1) keys other_write_frame(1,2) [OF assms(2)]
    unfolding log_wf_def by (auto simp del: list.set_map)
qed

lemma reachable_log_wf: "reachable db \<Longrightarrow> log_wf db"
proof (induction rule: reachable_induct)
  case empty
  show ?case by (simp add: log_wf_def empty_database_def i64_max_def)
qed (blast intro: log_wf_append log_wf_other)+

lemma log_wf_sorted: "log_wf db \<Longrightarrow> sorted_wrt (<) (map er_seq_id (events db))"
  by (simp add: log_wf_def)

text \<open>Reading the log by sequence id gives it in append order.\<close>

lemma sql_ordered_log:
  assumes "log_wf db"
  shows "sql_ordered er_seq_id p (events db) = filter p (events db)"
proof -
  have "sorted (map er_seq_id (events db))"
    using log_wf_sorted [OF assms] by (simp add: strict_sorted_iff)
  then have "sorted (map er_seq_id (filter p (events db)))" by (rule sorted_filter)
  then show ?thesis by (simp add: sql_ordered_def sorted_sort_id sort_key_id_if_sorted)
qed

subsection \<open>The active turn\<close>

lemma turn_payload_cases:
  obtains (start) tid pr md n r s c where "p = TurnStarted tid pr md n r s c"
  | (finish) tid pr md st fr l where "p = TurnFinished tid pr md st fr l"
  | (other) "\<not> is_turn_started p" "\<not> is_turn_finished p"
  by (meson is_turn_started_iff is_turn_finished_iff)

lemma active_step_other:
  "\<not> is_turn_started (ev_payload e) \<Longrightarrow> \<not> is_turn_finished (ev_payload e) \<Longrightarrow> active_turn_step s e t = t"
  unfolding active_turn_step_def is_turn_started_def is_turn_finished_def
  by (cases "ev_payload e"; simp only: event_payload.case simp_thms)

text \<open>A turn starts only in a session without an active turn.\<close>

lemma refresh_turn_started_idle:
  assumes "refresh_payload e s db = Inr db'" "ev_payload e = TurnStarted tid pr md n r src c"
  shows "ev_session_id e \<notin> set (map at_session_id (active_turn_projection db))"
  using assms by (auto simp: refresh_payload_eqs project_turn_started_def and_then_eq_Inr sql_insert_Some)

lemma append_turn_started_idle:
  assumes "append_event_in_tx e db = Inr (db', seq)" "ev_payload e = TurnStarted tid pr md n r src c"
  shows "ev_session_id e \<notin> set (map at_session_id (active_turn_projection db))"
proof -
  from assms(1) obtain db2 hs bs ss ts where "refresh_payload e seq db2 = Inr db'"
    "db2 = (logged e seq db)\<lparr>branch_heads := hs, branches := bs, sessions := ss, turn_projection := ts\<rparr>"
    by (rule append_before_payload)
  from refresh_turn_started_idle [OF this(1) assms(2)] this(2) show ?thesis by (simp add: logged_def)
qed

lemma reachable_active_distinct: "reachable db \<Longrightarrow> distinct (map at_session_id (active_turn_projection db))"
proof (induction rule: reachable_induct)
  case (append e db db' seq)
  show ?case
  proof (cases "ev_payload e" rule: turn_payload_cases)
    case (start tid pr md n r s c)
    with append append_turn_started_idle [OF append.hyps(2) start] show ?thesis
      by (simp add: active_log.proj_append active_turn_step_def active_row_def)
  next
    case (finish tid pr md st fr l)
    with append show ?thesis
      by (simp add: active_log.proj_append active_turn_step_def distinct_delete)
  next
    case other
    with append show ?thesis by (simp add: active_log.proj_append active_step_other)
  qed
qed (simp_all add: active_log.proj_empty active_log.proj_other)

definition finishes :: "session_id \<Rightarrow> turn_id \<Rightarrow> event_envelope \<Rightarrow> bool" where
  "finishes sid tid e \<longleftrightarrow> ev_session_id e = sid
     \<and> (case ev_payload e of TurnFinished t _ _ _ _ _ \<Rightarrow> t = tid | _ \<Rightarrow> False)"

definition starts :: "session_id \<Rightarrow> active_turn_row \<Rightarrow> event_row \<Rightarrow> bool" where
  "starts sid a r \<longleftrightarrow> ev_session_id (er_event r) = sid
     \<and> (case ev_payload (er_event r) of
          TurnStarted tid _ _ _ _ _ _ \<Rightarrow> a = active_row (er_seq_id r) (er_event r) tid | _ \<Rightarrow> False)"

text \<open>The log holds a start that no later event finishes.\<close>

definition unfinished :: "session_id \<Rightarrow> active_turn_row \<Rightarrow> event_row list \<Rightarrow> bool" where
  "unfinished sid a log \<longleftrightarrow> (\<exists>pre r post. log = pre @ r # post \<and> starts sid a r
     \<and> (\<forall>r' \<in> set post. \<not> finishes sid (at_turn_id a) (er_event r')))"

lemma unfinished_Nil [simp]: "\<not> unfinished sid a []"
  by (simp add: unfinished_def)

lemma unfinished_snoc:
  "unfinished sid a (log @ [r]) \<longleftrightarrow>
     starts sid a r \<or> (unfinished sid a log \<and> \<not> finishes sid (at_turn_id a) (er_event r))"
  (is "?l \<longleftrightarrow> ?r")
proof
  assume ?l
  then obtain pre x post where l: "log @ [r] = pre @ x # post" "starts sid a x"
    "\<forall>r' \<in> set post. \<not> finishes sid (at_turn_id a) (er_event r')"
    by (auto simp: unfinished_def)
  show ?r
  proof (cases post rule: rev_cases)
    case Nil
    with l show ?thesis by simp
  next
    case (snoc ys y)
    with l show ?thesis by (auto simp: unfinished_def)
  qed
next
  assume ?r
  then show ?l
  proof
    assume "starts sid a r"
    then have "log @ [r] = log @ r # [] \<and> starts sid a r \<and> (\<forall>r' \<in> set []. \<not> finishes sid (at_turn_id a) (er_event r'))"
      by simp
    then show ?l unfolding unfinished_def by blast
  next
    assume u: "unfinished sid a log \<and> \<not> finishes sid (at_turn_id a) (er_event r)"
    then obtain pre x post where "log = pre @ x # post" "starts sid a x"
      "\<forall>r' \<in> set post. \<not> finishes sid (at_turn_id a) (er_event r')"
      by (auto simp: unfinished_def)
    with u have "log @ [r] = pre @ x # (post @ [r]) \<and> starts sid a x
        \<and> (\<forall>r' \<in> set (post @ [r]). \<not> finishes sid (at_turn_id a) (er_event r'))" by simp
    then show ?l unfolding unfinished_def by blast
  qed
qed

lemma lookup_active_finish:
  assumes "distinct (map at_session_id t)"
  shows "sql_lookup at_session_id sid (sql_delete (\<lambda>r. at_session_id r = sid' \<and> at_turn_id r = tid) t) =
    (if sid = sid' \<and> is_some_and (sql_lookup at_session_id sid t) (\<lambda>a. at_turn_id a = tid) then None
     else sql_lookup at_session_id sid t)"
  using assms
proof (induction t)
  case (Cons x t)
  have "x \<notin> set t" "at_session_id x = sid \<Longrightarrow> sql_lookup at_session_id sid t = None"
    using Cons.prems by (auto simp: sql_lookup_None_iff)
  with Cons show ?case by (auto simp: sql_delete_def)
qed (simp add: sql_delete_def)

lemma active_lookup_iff_unfinished:
  "reachable db \<Longrightarrow> sql_lookup at_session_id sid (active_turn_projection db) = Some a \<longleftrightarrow> unfinished sid a (events db)"
proof (induction rule: reachable_induct)
  case empty
  show ?case by (simp add: active_log.proj_empty)
next
  case (append e db db' seq)
  note log = append_event_log(1) [OF append.hyps(2)] and act = active_log.proj_append [OF append.hyps(2)]
  show ?case
  proof (cases "ev_payload e" rule: turn_payload_cases)
    case (start tid pr md n r s c)
    then have idle: "sql_lookup at_session_id (ev_session_id e) (active_turn_projection db) = None"
      using append_turn_started_idle [OF append.hyps(2)] by (simp add: sql_lookup_None_iff)
    with start append.IH show ?thesis
      by (cases "ev_session_id e = sid")
        (auto simp: log act unfinished_snoc active_turn_step_def starts_def finishes_def sql_lookup_append
          active_row_def split: option.split)
  next
    case (finish tid pr md st fr l)
    have "sql_lookup at_session_id sid (active_turn_projection db') =
      (if sid = ev_session_id e \<and> is_some_and (sql_lookup at_session_id sid (active_turn_projection db))
            (\<lambda>a. at_turn_id a = tid) then None
       else sql_lookup at_session_id sid (active_turn_projection db))"
      using finish lookup_active_finish [OF reachable_active_distinct [OF append.hyps(1)]]
      by (simp add: act active_turn_step_def)
    with finish append.IH show ?thesis
      by (auto simp: log unfinished_snoc starts_def finishes_def is_some_and_iff)
  next
    case other
    then have "\<not> starts sid a \<lparr>er_seq_id = seq, er_event = e\<rparr>" "\<not> finishes sid (at_turn_id a) e"
      by (auto simp: starts_def finishes_def is_turn_started_def is_turn_finished_def split: event_payload.splits)
    with other append.IH show ?thesis by (simp add: log act unfinished_snoc active_step_other)
  qed
next
  case (other db db')
  then show ?case by (simp add: other_write_frame)
qed

subsection \<open>The rebuild of the active turns\<close>

lemma decode_rows_id:
  "(\<And>r. r \<in> set rows \<Longrightarrow> decode_payload num (ev_payload (er_event r)) = Inr (ev_payload (er_event r)))
     \<Longrightarrow> decode_rows num rows = Inr rows"
  by (induction rows) (simp_all add: decode_event_def)

lemma decode_turn_boundary:
  "is_turn_started p \<or> is_turn_finished p \<Longrightarrow> decode_payload num p = Inr p"
  by (auto simp: is_turn_started_iff is_turn_finished_iff decode_payload_def)

definition is_boundary :: "event_row \<Rightarrow> bool" where
  "is_boundary r \<longleftrightarrow> event_kind (er_event r) \<in> set [''turn.started'', ''turn.finished'']"

lemma is_boundary_iff:
  "is_boundary r \<longleftrightarrow> is_turn_started (ev_payload (er_event r)) \<or> is_turn_finished (ev_payload (er_event r))"
  by (simp add: is_boundary_def event_kind_def payload_kind_turn_started payload_kind_turn_finished
      is_turn_started_iff is_turn_finished_iff)

lemma replay_active_lookup_step:
  "ev_payload (er_event r) = TurnStarted tid pr md n v s c \<Longrightarrow>
     sql_lookup at_session_id sid (replay_active_event r t) =
       (if sid = ev_session_id (er_event r) then Some (active_row (er_seq_id r) (er_event r) tid)
        else sql_lookup at_session_id sid t)"
  "ev_payload (er_event r) = TurnFinished tid pr md st fr l \<Longrightarrow>
     sql_lookup at_session_id sid (replay_active_event r t) =
       (if sid = ev_session_id (er_event r) \<and> is_some_and (sql_lookup at_session_id sid t) (\<lambda>a. at_turn_id a = tid)
        then None else sql_lookup at_session_id sid t)"
  by (auto simp: replay_active_event_def Let_def sql_lookup_replace sql_lookup_delete_key active_row_def)

lemma replayed_active_lookup:
  "reachable db \<Longrightarrow> sql_lookup at_session_id sid (fold replay_active_event (filter is_boundary (events db)) [])
     = sql_lookup at_session_id sid (active_turn_projection db)"
proof (induction arbitrary: sid rule: reachable_induct)
  case empty
  show ?case by (simp add: active_log.proj_empty)
next
  case (append e db db' seq)
  note log = append_event_log(1) [OF append.hyps(2)] and act = active_log.proj_append [OF append.hyps(2)]
  let ?old = "fold replay_active_event (filter is_boundary (events db)) []"
  show ?case
  proof (cases "ev_payload e" rule: turn_payload_cases)
    case (start tid pr md n r s c)
    then have "sql_lookup at_session_id (ev_session_id e) (active_turn_projection db) = None"
      using append_turn_started_idle [OF append.hyps(2)] by (simp add: sql_lookup_None_iff)
    with start append.IH show ?thesis
      by (auto simp: log act is_boundary_iff replay_active_lookup_step active_turn_step_def
          sql_lookup_append active_row_def split: option.split)
  next
    case (finish tid pr md st fr l)
    then have bd: "is_boundary \<lparr>er_seq_id = seq, er_event = e\<rparr>" by (simp add: is_boundary_iff is_turn_finished_iff)
    have "sql_lookup at_session_id sid (active_turn_projection db') =
      (if sid = ev_session_id e \<and> is_some_and (sql_lookup at_session_id sid (active_turn_projection db))
            (\<lambda>a. at_turn_id a = tid) then None
       else sql_lookup at_session_id sid (active_turn_projection db))"
      using finish lookup_active_finish [OF reachable_active_distinct [OF append.hyps(1)]]
      by (simp add: act active_turn_step_def)
    with finish bd append.IH show ?thesis
      by (cases "sid = ev_session_id e") (simp_all add: log replay_active_lookup_step)
  next
    case other
    with append.IH show ?thesis by (simp add: log act is_boundary_iff active_step_other)
  qed
next
  case (other db db')
  then show ?case by (simp add: other_write_frame)
qed

lemma rebuild_active_Inr:
  assumes "reachable db"
  shows "rebuild_active_turn_projection num db =
    Inr (db\<lparr>active_turn_projection := fold replay_active_event (filter is_boundary (events db)) []\<rparr>)"
proof -
  have "decode_rows num (filter is_boundary (events db)) = Inr (filter is_boundary (events db))"
    by (rule decode_rows_id) (simp add: decode_turn_boundary is_boundary_iff)
  moreover have "sql_ordered er_seq_id (\<lambda>r. event_kind (er_event r) \<in> set [''turn.started'', ''turn.finished''])
      (events db) = filter is_boundary (events db)"
    using sql_ordered_log [OF reachable_log_wf [OF assms]] by (simp add: is_boundary_def [abs_def])
  ultimately show ?thesis by (simp only: rebuild_active_turn_projection_def and_then_simps)
qed

subsection \<open>Properties\<close>

text \<open>C18: in every database an execution of the program leaves behind, the log is gap-free and append-only
  ordered: sequence ids are exactly 1 to the number of events, in append order, no event id occurs
  twice, and every event belongs to a stored session and branch.\<close>

theorem execution_log_wf:
  assumes "opened db"
  shows "log_wf db \<and> length (events db) = nat (events_autoincrement db)"
proof -
  have wf: "log_wf db" by (rule reachable_log_wf [OF opened_reachable [OF assms]])
  then have "length (map er_seq_id (events db)) = length [1..events_autoincrement db]" by (simp add: log_wf_def)
  with wf show ?thesis by simp
qed

text \<open>C1: \<open>active_turn_projection\<close> means what the control plane takes it to mean: a session has at most one row,
  and the row is there exactly when the log holds a \<open>turn.started\<close> event of the session with that
  turn, branch, sequence id and time that no later \<open>turn.finished\<close> event of the session finishes.\<close>

theorem active_turn_is_unfinished_start:
  assumes "reachable db"
  shows "distinct (map at_session_id (active_turn_projection db))
    \<and> (\<forall>sid a. sql_lookup at_session_id sid (active_turn_projection db) = Some a \<longleftrightarrow> unfinished sid a (events db))"
  using reachable_active_distinct [OF assms] active_lookup_iff_unfinished [OF assms] by blast

text \<open>C19: the one-time rebuild of the active turns at migration agrees with the incremental projection: on every
  reachable database it succeeds, and every session has the same active turn before and after.\<close>

theorem rebuild_active_same:
  assumes "reachable db"
  shows "\<exists>t. rebuild_active_turn_projection num db = Inr (db\<lparr>active_turn_projection := t\<rparr>)
    \<and> (\<forall>sid. sql_lookup at_session_id sid t = sql_lookup at_session_id sid (active_turn_projection db))"
  using rebuild_active_Inr [OF assms] replayed_active_lookup [OF assms] by blast

end
