(* ===== verification/Bt_Admit.thy ===== *)
theory Bt_Admit
  imports Bt_Turns
begin

section \<open>Admission and claims\<close>

text \<open>
  What the committed control-plane transitions guarantee: a turn is started only in an idle session
  within its budget, queued messages are dispatched first in, first out and at most once, a finished
  turn can no longer write, and an exhausted budget stops the session in the same transaction.
\<close>

subsection \<open>Batches\<close>

definition log_rows :: "i64 list \<Rightarrow> event_envelope list \<Rightarrow> event_row list" where
  "log_rows seqs es = map (\<lambda>(s, e). \<lparr>er_seq_id = s, er_event = e\<rparr>) (zip seqs es)"

lemma append_events_ConsE:
  assumes "append_events_in_tx (e # es) db = Inr (db', seqs)"
  obtains db1 seq seqs' where "append_event_in_tx e db = Inr (db1, seq)"
    "append_events_in_tx es db1 = Inr (db', seqs')" "seqs = seq # seqs'"
  using assms by (auto simp: tx_eqs)

lemma append_events_log:
  "append_events_in_tx es db = Inr (db', seqs) \<Longrightarrow>
     events db' = events db @ log_rows seqs es \<and> length seqs = length es
   \<and> seqs = map (\<lambda>i. events_autoincrement db + 1 + int i) [0..<length es]
   \<and> events_autoincrement db' = events_autoincrement db + int (length es)"
proof (induction es arbitrary: db seqs)
  case Nil
  then show ?case by (simp add: tx_ok_def log_rows_def)
next
  case (Cons e es)
  from Cons.prems obtain db1 seq seqs' where 1: "append_event_in_tx e db = Inr (db1, seq)"
    "append_events_in_tx es db1 = Inr (db', seqs')" "seqs = seq # seqs'"
    by (rule append_events_ConsE)
  have "[0..<Suc (length es)] = 0 # map Suc [0..<length es]" by (simp add: map_Suc_upt upt_conv_Cons del: upt_Suc)
  with 1 Cons.IH [OF 1(2)] append_event_log [OF 1(1)] show ?case
    by (simp add: log_rows_def comp_def add.assoc del: upt_Suc)
qed

lemma append_events_fold_id:
  assumes "append_events_in_tx es db = Inr (db', seqs)"
    and "\<And>e d d' s. e \<in> set es \<Longrightarrow> append_event_in_tx e d = Inr (d', s) \<Longrightarrow> proj d' = proj d"
  shows "proj db' = proj db"
  using assms
proof (induction es arbitrary: db seqs)
  case (Cons e es)
  from Cons.prems(1) obtain db1 seq seqs' where "append_event_in_tx e db = Inr (db1, seq)"
    "append_events_in_tx es db1 = Inr (db', seqs')"
    by (rule append_events_ConsE)
  with Cons.IH Cons.prems(2) show ?case by (metis list.set_intros(1,2))
qed (simp add: tx_ok_def)

subsection \<open>Payloads that leave a projection alone\<close>

lemma control_step_other:
  "\<not> is_session_cancelled (ev_payload e) \<Longrightarrow> \<not> is_cancel_clear (ev_payload e) \<Longrightarrow> control_step s e t = t"
  unfolding control_step_def is_session_cancelled_def is_cancel_clear_def
  by (cases "ev_payload e"; simp only: event_payload.case simp_thms)

definition is_queue_event :: "event_payload \<Rightarrow> bool" where
  "is_queue_event p = (case p of SessionQueuedMessageEnqueued _ _ \<Rightarrow> True
     | SessionQueuedMessageResolved _ _ _ \<Rightarrow> True | _ \<Rightarrow> False)"

lemma queue_step_other: "\<not> is_queue_event (ev_payload e) \<Longrightarrow> queue_step s e t = t"
  unfolding queue_step_def is_queue_event_def
  by (cases "ev_payload e"; simp only: event_payload.case simp_thms)

lemma start_event_class:
  "is_start_event p \<Longrightarrow> \<not> is_session_cancelled p \<and> \<not> is_cancel_clear p \<and> \<not> is_queue_event p \<and> \<not> is_turn_finished p"
  by (cases p rule: start_event_cases)
    (simp_all add: is_session_cancelled_def is_cancel_clear_def is_queue_event_def is_turn_finished_def)

text \<open>The row a start adds to the active turns.\<close>

definition started_row :: "i64 \<times> event_envelope \<Rightarrow> active_turn_row option" where
  "started_row se = (case ev_payload (snd se) of
     TurnStarted tid _ _ _ _ _ _ \<Rightarrow> Some (active_row (fst se) (snd se) tid) | _ \<Rightarrow> None)"

lemma started_row_None: "\<not> is_turn_started (ev_payload e) \<Longrightarrow> started_row (s, e) = None"
  unfolding started_row_def is_turn_started_def
  by (simp only: fst_conv snd_conv, cases "ev_payload e"; simp only: event_payload.case simp_thms)

lemma started_row_start:
  "ev_payload e = TurnStarted tid p md n r src c \<Longrightarrow> started_row (s, e) = Some (active_row s e tid)"
  by (simp add: started_row_def)

lemma active_step_no_finish:
  assumes "\<not> is_turn_finished (ev_payload e)"
  shows "active_turn_step s e t = t @ (case started_row (s, e) of None \<Rightarrow> [] | Some r \<Rightarrow> [r])"
proof (cases "ev_payload e" rule: turn_payload_cases)
  case (start tid pr md n r src c)
  then show ?thesis by (simp add: started_row_start active_turn_step_def)
next
  case (finish tid pr md st fr l)
  with assms show ?thesis by (simp add: is_turn_finished_iff)
next
  case other
  then show ?thesis by (simp add: active_step_other started_row_None)
qed

lemma append_events_active:
  assumes "append_events_in_tx es db = Inr (db', seqs)" "\<And>e. e \<in> set es \<Longrightarrow> \<not> is_turn_finished (ev_payload e)"
  shows "active_turn_projection db' = active_turn_projection db @ List.map_filter started_row (zip seqs es)"
  using assms
proof (induction es arbitrary: db seqs)
  case Nil
  then show ?case by (simp add: tx_ok_def map_filter_def)
next
  case (Cons e es)
  from Cons.prems(1) obtain db1 seq seqs' where 1: "append_event_in_tx e db = Inr (db1, seq)"
    "append_events_in_tx es db1 = Inr (db', seqs')" "seqs = seq # seqs'"
    by (rule append_events_ConsE)
  from Cons.IH [OF 1(2)] Cons.prems(2)
  have "active_turn_projection db' = active_turn_projection db1 @ List.map_filter started_row (zip seqs' es)" by simp
  with active_log.proj_append [OF 1(1)] active_step_no_finish Cons.prems(2) show ?case
    by (simp add: 1(3) map_filter_simps split: option.split)
qed

lemma started_rows_single:
  assumes "turn_starts es = [s]" "length seqs = length es"
    and "ev_payload s = TurnStarted tid p md n r src c"
  shows "\<exists>seq. (seq, s) \<in> set (zip seqs es) \<and> List.map_filter started_row (zip seqs es) = [active_row seq s tid]"
  using assms(2,1)
proof (induction seqs es rule: list_induct2)
  case (Cons q seqs e es)
  show ?case
  proof (cases "is_turn_started (ev_payload e)")
    case True
    with Cons.prems have "e = s" "turn_starts es = []" by (simp_all add: turn_starts_def)
    moreover have "turn_starts es = [] \<Longrightarrow> List.map_filter started_row (zip seqs es) = []"
      using Cons.hyps
      by (induction seqs es rule: list_induct2)
        (simp_all add: map_filter_simps turn_starts_def started_row_None split: if_splits)
    ultimately show ?thesis
      using started_row_start [OF assms(3)] by (auto simp: map_filter_simps)
  next
    case False
    with Cons.prems have "turn_starts es = [s]" by (simp add: turn_starts_def)
    with Cons.IH False show ?thesis by (auto simp: map_filter_simps started_row_None)
  qed
qed (simp add: turn_starts_def)

subsection \<open>The queue\<close>

definition log_ids :: "database \<Rightarrow> event_id set" where
  "log_ids db = (\<lambda>r. ev_event_id (er_event r)) ` set (events db)"

definition queue_wf :: "database \<Rightarrow> bool" where
  "queue_wf db \<longleftrightarrow>
     sorted_wrt (<) (map qu_source_seq (queued_message_projection db))
   \<and> distinct (map qu_queue_event_id (queued_message_projection db))
   \<and> (\<forall>r \<in> set (queued_message_projection db).
        qu_source_seq r \<le> events_autoincrement db \<and> qu_queue_event_id r \<in> log_ids db)"

lemma append_log_ids:
  "append_event_in_tx e db = Inr (db', seq) \<Longrightarrow> log_ids db' = insert (ev_event_id e) (log_ids db)"
  by (simp add: log_ids_def append_event_log(1))

lemma append_fresh_id: "append_event_in_tx e db = Inr (db', seq) \<Longrightarrow> ev_event_id e \<notin> log_ids db"
  by (auto elim!: append_event_in_txE simp: log_ids_def)

lemma queue_event_cases:
  obtains (enqueue) m r where "p = SessionQueuedMessageEnqueued m r"
  | (resolve) q out r where "p = SessionQueuedMessageResolved q out r"
  | (other) "\<not> is_queue_event p"
  unfolding is_queue_event_def by (cases p; simp only: event_payload.case simp_thms)

lemma resolve_queued_simps [simp]:
  "qu_queue_event_id (resolve_queued e out r) = qu_queue_event_id r"
  "qu_source_seq (resolve_queued e out r) = qu_source_seq r"
  "qu_session_id (resolve_queued e out r) = qu_session_id r"
  "qu_settings_revision_id (resolve_queued e out r) = qu_settings_revision_id r"
  "qu_status (resolve_queued e out r) = queued_message_resolution_status out"
  by (simp_all add: resolve_queued_def)

lemma resolution_not_pending [simp]: "queued_message_resolution_status out \<noteq> ''pending''"
  by (cases out) simp_all

lemma enqueue_appends:
  assumes "queue_wf db" "append_event_in_tx e db = Inr (db', seq)"
    and "ev_payload e = SessionQueuedMessageEnqueued m r"
  shows "queued_message_projection db' = queued_message_projection db @ [queued_row_of seq e m r]"
proof -
  have "ev_event_id e \<notin> set (map qu_queue_event_id (queued_message_projection db))"
    using assms(1) append_fresh_id [OF assms(2)] by (auto simp: queue_wf_def)
  then show ?thesis
    using assms(3) by (simp add: queue_log.proj_append [OF assms(2)] queue_step_def sql_upsert_def queued_row_of_def)
qed

lemma resolve_updates:
  assumes "append_event_in_tx e db = Inr (db', seq)" "ev_payload e = SessionQueuedMessageResolved q out r"
  shows "queued_message_projection db' =
    sql_update (\<lambda>r. qu_queue_event_id r = q) (resolve_queued e out) (queued_message_projection db)"
  using assms(2) by (simp add: queue_log.proj_append [OF assms(1)] queue_step_def)

lemma queue_wf_append:
  assumes wf: "queue_wf db" and app: "append_event_in_tx e db = Inr (db', seq)"
  shows "queue_wf db'"
proof (cases "ev_payload e" rule: queue_event_cases)
  case (enqueue m r)
  have "ev_event_id e \<notin> set (map qu_queue_event_id (queued_message_projection db))"
    using wf append_fresh_id [OF app] by (auto simp: queue_wf_def)
  with wf append_event_log(2,3) [OF app] append_log_ids [OF app] show ?thesis
    by (fastforce simp: queue_wf_def enqueue_appends [OF wf app enqueue] sorted_wrt_append queued_row_of_def)
next
  case (resolve q out r)
  have "map qu_source_seq (sql_update (\<lambda>r. qu_queue_event_id r = q) (resolve_queued e out) t) = map qu_source_seq t"
    "map qu_queue_event_id (sql_update (\<lambda>r. qu_queue_event_id r = q) (resolve_queued e out) t) = map qu_queue_event_id t" for t
    by (simp_all add: map_key_update)
  with wf append_event_log(2,3) [OF app] append_log_ids [OF app] show ?thesis
    by (fastforce simp: queue_wf_def resolve_updates [OF app resolve] set_sql_update)
next
  case other
  with wf append_event_log(2,3) [OF app] append_log_ids [OF app] show ?thesis
    by (fastforce simp: queue_wf_def queue_log.proj_append [OF app] queue_step_other)
qed

lemma reachable_queue_wf: "reachable db \<Longrightarrow> queue_wf db"
proof (induction rule: reachable_induct)
  case empty
  show ?case by (simp add: queue_wf_def queue_log.proj_empty)
next
  case (append e db db' seq)
  then show ?case by (blast intro: queue_wf_append)
next
  case (other db db')
  then show ?case by (simp add: queue_wf_def log_ids_def other_write_frame)
qed

definition is_pending :: "session_id \<Rightarrow> queued_row \<Rightarrow> bool" where
  "is_pending sid r \<longleftrightarrow> qu_session_id r = sid \<and> qu_status r = ''pending''"

lemma pending_queue_filter:
  assumes "queue_wf db"
  shows "pending_queue sid db = filter (is_pending sid) (queued_message_projection db)"
proof -
  have "sorted (map qu_source_seq (queued_message_projection db))"
    using assms by (simp add: queue_wf_def strict_sorted_iff)
  then have "sorted (map qu_source_seq (filter (is_pending sid) (queued_message_projection db)))"
    by (rule sorted_filter)
  then show ?thesis
    unfolding pending_queue_def sql_ordered_def is_pending_def [abs_def] by (rule sort_key_id_if_sorted)
qed

lemma pending_queue_length_eq: "queue_wf db \<Longrightarrow> pending_queue_length sid db = length (pending_queue sid db)"
  by (simp add: pending_queue_length_def pending_queue_filter is_pending_def [abs_def])

subsection \<open>Batches and the queue\<close>

definition is_enqueue :: "event_payload \<Rightarrow> bool" where
  "is_enqueue p = (case p of SessionQueuedMessageEnqueued _ _ \<Rightarrow> True | _ \<Rightarrow> False)"

definition is_operator :: "event_payload \<Rightarrow> bool" where
  "is_operator p = (case p of OperatorCommandRecorded _ _ _ _ \<Rightarrow> True | _ \<Rightarrow> False)"

lemma scan_queued_admission_step:
  "ev_payload e = SessionQueuedMessageEnqueued m r \<Longrightarrow> scan_queued_admission expected (e # es) n =
     (if r \<noteq> expected then Inl (invalid_transition ''queued admission uses an unexpected settings revision'')
      else scan_queued_admission expected es (n + 1))"
  "is_operator (ev_payload e) \<Longrightarrow> scan_queued_admission expected (e # es) n = scan_queued_admission expected es n"
  "\<not> is_enqueue (ev_payload e) \<Longrightarrow> \<not> is_operator (ev_payload e) \<Longrightarrow> scan_queued_admission expected (e # es) n =
     Inl (invalid_transition ''queued admission contains an unexpected event'')"
  unfolding scan_queued_admission.simps is_enqueue_def is_operator_def
  by (cases "ev_payload e"; simp only: event_payload.case simp_thms if_True if_False)+

lemma is_enqueue_iff: "is_enqueue p \<longleftrightarrow> (\<exists>m r. p = SessionQueuedMessageEnqueued m r)"
  by (cases p) (simp_all add: is_enqueue_def)

lemma enqueue_cases:
  obtains (enqueue) m r where "p = SessionQueuedMessageEnqueued m r"
  | (operator) "is_operator p"
  | (other) "\<not> is_enqueue p" "\<not> is_operator p"
  by (meson is_enqueue_iff)

lemma operator_neutral:
  "is_operator p \<Longrightarrow> \<not> is_queue_event p \<and> \<not> is_turn_finished p \<and> \<not> is_turn_started p \<and> \<not> is_enqueue p"
  unfolding is_operator_def is_queue_event_def is_turn_finished_def is_turn_started_def is_enqueue_def
  by (cases p; simp only: event_payload.case simp_thms)

lemma enqueue_neutral [simp]:
  "\<not> is_turn_started (SessionQueuedMessageEnqueued m r)" "\<not> is_turn_finished (SessionQueuedMessageEnqueued m r)"
  "is_enqueue (SessionQueuedMessageEnqueued m r)"
  by (simp_all add: is_turn_started_def is_turn_finished_def is_enqueue_def)

text \<open>A queued admission adds its one message at the end of the queue and starts nothing.\<close>

lemma queued_batch:
  "scan_queued_admission expected es n = Inr k \<Longrightarrow> queue_wf db \<Longrightarrow> append_events_in_tx es db = Inr (db', seqs) \<Longrightarrow>
   \<exists>rows. queued_message_projection db' = queued_message_projection db @ rows \<and> length rows + n = k
     \<and> (\<forall>r \<in> set rows. \<exists>(e, seq) \<in> set (zip es seqs). \<exists>m.
          ev_payload e = SessionQueuedMessageEnqueued m expected \<and> r = queued_row_of seq e m expected)
     \<and> active_turn_projection db' = active_turn_projection db \<and> queue_wf db'"
proof (induction es arbitrary: db seqs n)
  case Nil
  then show ?case by (simp add: tx_ok_def)
next
  case (Cons e es)
  from Cons.prems(3) obtain db1 seq seqs' where 1: "append_event_in_tx e db = Inr (db1, seq)"
    "append_events_in_tx es db1 = Inr (db', seqs')" and seqs: "seqs = seq # seqs'"
    by (rule append_events_ConsE)
  note wf1 = queue_wf_append [OF Cons.prems(2) 1(1)]
  show ?case
  proof (cases "ev_payload e" rule: enqueue_cases)
    case (enqueue m r)
    with Cons.prems(1) have es: "scan_queued_admission expected es (n + 1) = Inr k" and r: "r = expected"
      by (simp_all add: scan_queued_admission_step del: scan_queued_admission.simps split: if_splits)
    from Cons.IH [OF es wf1 1(2)] obtain rows where rows:
      "queued_message_projection db' = queued_message_projection db1 @ rows" "length rows + (n + 1) = k"
      "\<forall>r \<in> set rows. \<exists>(e, seq) \<in> set (zip es seqs'). \<exists>m.
          ev_payload e = SessionQueuedMessageEnqueued m expected \<and> r = queued_row_of seq e m expected"
      "active_turn_projection db' = active_turn_projection db1" "queue_wf db'"
      by blast
    have act: "active_turn_projection db1 = active_turn_projection db"
      using enqueue by (simp add: active_log.proj_append [OF 1(1)] active_step_other)
    have table: "queued_message_projection db' = queued_message_projection db @ (queued_row_of seq e m r # rows)"
      by (simp add: rows(1) enqueue_appends [OF Cons.prems(2) 1(1) enqueue])
    have mine: "\<forall>x \<in> set (queued_row_of seq e m r # rows). \<exists>(e, seq) \<in> set (zip (e # es) seqs). \<exists>m.
          ev_payload e = SessionQueuedMessageEnqueued m expected \<and> x = queued_row_of seq e m expected"
      using rows(3) enqueue by (auto simp: seqs r)
    show ?thesis
      by (intro exI [of _ "queued_row_of seq e m r # rows"] conjI table mine) (use rows(2,4,5) act in simp_all)
  next
    case operator
    with Cons.prems(1) have es: "scan_queued_admission expected es n = Inr k"
      by (simp add: scan_queued_admission_step del: scan_queued_admission.simps)
    from operator_neutral [OF operator]
    have "queued_message_projection db1 = queued_message_projection db"
      "active_turn_projection db1 = active_turn_projection db"
      by (simp_all add: queue_log.proj_append [OF 1(1)] queue_step_other active_log.proj_append [OF 1(1)] active_step_other)
    with Cons.IH [OF es wf1 1(2)] show ?thesis by (fastforce simp: seqs)
  next
    case other
    with Cons.prems(1) show ?thesis
      by (simp add: scan_queued_admission_step del: scan_queued_admission.simps)
  qed
qed

lemma when_scope: "validate_event_scope sid bid es = Inr u \<Longrightarrow> e \<in> set es \<Longrightarrow> ev_session_id e = sid \<and> ev_branch_id e = bid"
  by (auto simp: validate_event_scope_def list_ex_iff)

lemma validate_turn_admissionD:
  assumes "validate_turn_admission_events sid expected clear started queued = Inr u"
  shows "\<exists>bid tid s p md n c. turn_starts started = [s] \<and> ev_payload s = TurnStarted tid p md n expected UserMessage c
     \<and> ev_branch_id s = bid \<and> ev_turn_id s = Some tid
     \<and> (\<forall>e \<in> set started \<union> set queued \<union> {clear}. ev_session_id e = sid \<and> ev_branch_id e = bid)
     \<and> (\<forall>e \<in> set started. is_start_event (ev_payload e))
     \<and> is_cancel_clear (ev_payload clear) \<and> scan_queued_admission expected queued 0 = Inr 1"
proof -
  from assms obtain bid tid where v: "validate_message_and_turn_start started (Some expected) UserMessage = Inr (bid, tid)"
    and sc: "validate_event_scope sid bid started = Inr ()" "validate_event_scope sid bid queued = Inr ()"
      "validate_event_scope sid bid [clear] = Inr ()"
    and rest: "is_cancel_clear (ev_payload clear)" "scan_queued_admission expected queued 0 = Inr 1"
      "\<forall>e \<in> set started. is_start_event (ev_payload e)"
    by (auto simp: validate_turn_admission_events_def and_then_eq_Inr list_ex_iff)
  from validate_message_and_turn_startD [OF v] obtain s p md n c where
    s: "turn_starts started = [s]" "ev_payload s = TurnStarted tid p md n expected UserMessage c"
      "ev_turn_id s = Some tid" "ev_branch_id s = bid"
    by auto
  have scope: "\<forall>e \<in> set started \<union> set queued \<union> {clear}. ev_session_id e = sid \<and> ev_branch_id e = bid"
    using when_scope [OF sc(1)] when_scope [OF sc(2)] when_scope [OF sc(3)] by auto
  show ?thesis using s scope rest by blast
qed

lemma admit_committed:
  assumes "admit_turn_or_queue sid expected clear started queued db = (db', Inr r)"
    and "r \<noteq> AdmissionBudgetExhausted" "\<And>v. r \<noteq> RetryWithSettings v"
  obtains session where "sql_lookup se_session_id sid (sessions db) = Some session"
    "revision_of_column (se_settings_revision_id session) = expected"
    "validate_turn_admission_events sid expected clear started queued = Inr ()"
    "session_budget_exhausted_in_tx sid db = Inr False"
    "admit_idle_or_pending sid clear started queued db = Inr (db', r)"
  using assms
  by (auto simp: admit_turn_or_queue_def transaction_Inr tx_eqs Let_def split: if_splits)

lemma admit_idle_started:
  assumes "admit_idle_or_pending sid clear started queued db = Inr (db', Started seqs)"
  obtains db1 cleared seqs' where "\<not> session_has_pending_work_in_tx sid db"
    "append_cancel_clear (cancel_requested_in_tx sid db) clear db = Inr (db1, cleared)"
    "append_events_in_tx started db1 = Inr (db', seqs')" "seqs = cleared @ seqs'"
  using assms by (auto simp: admit_idle_or_pending_def tx_eqs split: if_splits)

lemma admit_pending_queued:
  assumes "admit_idle_or_pending sid clear started queued db = Inr (db', Queued seqs position)"
  shows "session_has_pending_work_in_tx sid db" "append_events_in_tx queued db = Inr (db', seqs)"
    "position = pending_queue_length sid db'"
  using assms by (auto simp: admit_idle_or_pending_def tx_eqs split: if_splits)

text \<open>Clearing the cancel flag.\<close>

lemma cancel_clear_effect:
  assumes "append_cancel_clear (cancel_requested_in_tx sid db) clear db = Inr (db1, cleared)"
    and "is_cancel_clear (ev_payload clear)" "ev_session_id clear = sid"
  shows "\<not> cancel_requested_in_tx sid db1" "active_turn_projection db1 = active_turn_projection db"
    "events db1 = events db @ log_rows cleared (if cancel_requested_in_tx sid db then [clear] else [])"
    "length cleared = (if cancel_requested_in_tx sid db then 1 else 0)"
proof -
  obtain reason where p: "ev_payload clear = SessionCancelCleared reason"
    using assms(2) unfolding is_cancel_clear_def by (cases "ev_payload clear"; simp only: event_payload.case simp_thms)
  then have nt: "\<not> is_turn_started (ev_payload clear)" "\<not> is_turn_finished (ev_payload clear)"
    by (simp_all add: is_turn_started_def is_turn_finished_def)
  have "\<not> cancel_requested_in_tx sid db1 \<and> active_turn_projection db1 = active_turn_projection db
    \<and> events db1 = events db @ log_rows cleared (if cancel_requested_in_tx sid db then [clear] else [])
    \<and> length cleared = (if cancel_requested_in_tx sid db then 1 else 0)"
  proof (cases "cancel_requested_in_tx sid db")
    case True
    with assms(1) obtain seq where a: "append_event_in_tx clear db = Inr (db1, seq)" "cleared = [seq]"
      by (auto simp: append_cancel_clear_def tx_eqs)
    have "sql_lookup ct_session_id sid (session_control_projection db1) =
        Some (case sql_lookup ct_session_id sid (session_control_projection db) of
          None \<Rightarrow> control_row_of clear False | Some old \<Rightarrow> merge_control old (control_row_of clear False))"
      using p assms(3) controls.lookup_upsert_same [of "control_row_of clear False"]
      by (simp add: control_log.proj_append [OF a(1)] control_step_def control_row_of_def)
    then have "\<not> cancel_requested_in_tx sid db1"
      by (simp add: cancel_requested_in_tx_def control_row_of_def merge_control_def split: option.splits)
    with True a nt show ?thesis
      by (simp add: append_event_log active_log.proj_append active_step_other log_rows_def)
  next
    case False
    with assms(1) show ?thesis by (simp add: append_cancel_clear_def tx_ok_def log_rows_def)
  qed
  then show "\<not> cancel_requested_in_tx sid db1" "active_turn_projection db1 = active_turn_projection db"
    "events db1 = events db @ log_rows cleared (if cancel_requested_in_tx sid db then [clear] else [])"
    "length cleared = (if cancel_requested_in_tx sid db then 1 else 0)" by simp_all
qed

lemma log_rows_append:
  "length xs = length es \<Longrightarrow> log_rows (xs @ ys) (es @ fs) = log_rows xs es @ log_rows ys fs"
  by (simp add: log_rows_def)

text \<open>C2: a user message that is answered with \<open>Started\<close> found the session idle and within its budget at
  the settings revision its sender expected. The same transaction appended exactly the start events
  (after the cancel-clear event when a cancellation was pending), made the turn of the
  \<open>turn.started\<close> event the session's one new active turn, and left no cancellation requested.\<close>

theorem admit_started_turn:
  assumes "admit_turn_or_queue sid expected clear started queued db = (db', Inr (Started seqs))"
  shows "\<not> session_has_pending_work_in_tx sid db \<and> session_budget_exhausted_in_tx sid db = Inr False
    \<and> (\<exists>session. sql_lookup se_session_id sid (sessions db) = Some session
         \<and> revision_of_column (se_settings_revision_id session) = expected)
    \<and> events db' = events db @ log_rows seqs ((if cancel_requested_in_tx sid db then [clear] else []) @ started)
    \<and> (\<exists>s tid p md n c seq. turn_starts started = [s]
         \<and> ev_payload s = TurnStarted tid p md n expected UserMessage c \<and> ev_session_id s = sid
         \<and> active_turn_projection db' = active_turn_projection db @ [active_row seq s tid])
    \<and> \<not> cancel_requested_in_tx sid db'"
proof -
  from assms obtain session where
    session: "sql_lookup se_session_id sid (sessions db) = Some session"
      "revision_of_column (se_settings_revision_id session) = expected"
    and v: "validate_turn_admission_events sid expected clear started queued = Inr ()"
    and b: "session_budget_exhausted_in_tx sid db = Inr False"
    and body: "admit_idle_or_pending sid clear started queued db = Inr (db', Started seqs)"
    by (rule admit_committed) simp_all
  from body obtain db1 cleared seqs' where idle: "\<not> session_has_pending_work_in_tx sid db"
    and c: "append_cancel_clear (cancel_requested_in_tx sid db) clear db = Inr (db1, cleared)"
    and a: "append_events_in_tx started db1 = Inr (db', seqs')" and seqs: "seqs = cleared @ seqs'"
    by (rule admit_idle_started)
  from validate_turn_admissionD [OF v] obtain tid s p md n cc where
    s: "turn_starts started = [s]" "ev_payload s = TurnStarted tid p md n expected UserMessage cc"
    and scope: "\<forall>e \<in> set started \<union> set queued \<union> {clear}. ev_session_id e = sid"
    and st: "\<forall>e \<in> set started. is_start_event (ev_payload e)" and cl: "is_cancel_clear (ev_payload clear)"
    by blast
  note clear = cancel_clear_effect [OF c cl] and log = append_events_log [OF a]
  have sclear: "ev_session_id clear = sid" using scope by simp
  have act: "active_turn_projection db' = active_turn_projection db1 @ List.map_filter started_row (zip seqs' started)"
    using st start_event_class by (intro append_events_active [OF a]) blast
  obtain seq where row: "List.map_filter started_row (zip seqs' started) = [active_row seq s tid]"
    using started_rows_single [OF s(1) _ s(2)] log by blast
  have "session_control_projection db' = session_control_projection db1"
    using st by (intro append_events_fold_id [OF a])
      (simp add: control_log.proj_append control_step_other start_event_class)
  then have "\<not> cancel_requested_in_tx sid db'"
    using clear(1) [OF sclear] by (simp add: cancel_requested_in_tx_def)
  moreover have "s \<in> set started" using s(1) by (auto simp: turn_starts_def dest: filter_eq_ConsD)
  ultimately show ?thesis
    using idle b session s scope act row log clear(2-4) [OF sclear] seqs
    by (auto simp: log_rows_append)
qed

end
