(* ===== verification/Bt_Example.thy ===== *)
theory Bt_Example
  imports Bt_Ops
begin

section \<open>Concrete databases\<close>

text \<open>Small databases on which the properties of the other theories are instantiated: one session with
  one branch, a user turn, a queued message and a budget.\<close>

definition ex_sid :: session_id where "ex_sid = SessionId ''s1''"
definition ex_bid :: branch_id where "ex_bid = BranchId ''b1''"
definition ex_tid :: turn_id where "ex_tid = TurnId ''t1''"

lemmas ex_ids = ex_sid_def ex_bid_def ex_tid_def

definition ex_session :: session_record where
  "ex_session =
     \<lparr>sr_session_id = ex_sid, sr_project_root = ''/p'', sr_connection_id = ConnectionId ''c'',
      sr_model_id = None, sr_tool_mode = Standard, sr_settings_revision_id = 1, sr_created_at = 0,
      sr_updated_at = 0, sr_status = Active, sr_display_name = None, sr_objective = None,
      sr_parent_session_id = None, sr_parent_branch_id = None, sr_parent_turn_id = None\<rparr>"

definition ex_branch :: branch_record where
  "ex_branch =
     \<lparr>br_branch_id = ex_bid, br_session_id = ex_sid, br_parent_branch_id = None,
      br_parent_event_id = None, br_head_event_id = None, br_summary = None, br_created_at = 0,
      br_is_default = True\<rparr>"

definition ex_event :: "string \<Rightarrow> turn_id option \<Rightarrow> event_payload \<Rightarrow> event_envelope" where
  "ex_event eid turn p =
     \<lparr>ev_seq_id = None, ev_event_id = EventId eid, ev_session_id = ex_sid, ev_branch_id = ex_bid,
      ev_turn_id = turn, ev_span_id = SpanId ''x'', ev_parent_span_id = None, ev_span_kind = SkSession,
      ev_occurred_at = 7, ev_payload = p, ev_attributes = []\<rparr>"

lemma ex_event_simps [simp]:
  "ev_event_id (ex_event i t p) = EventId i" "ev_session_id (ex_event i t p) = ex_sid"
  "ev_branch_id (ex_event i t p) = ex_bid" "ev_turn_id (ex_event i t p) = t"
  "ev_payload (ex_event i t p) = p" "ev_occurred_at (ex_event i t p) = 7"
  by (simp_all add: ex_event_def)

definition ex_message :: message where
  "ex_message = \<lparr>m_message_id = MessageId ''m1'', m_role = RUser, m_parts = [], m_created_at = 7\<rparr>"

definition ex_started :: "event_envelope list" where
  "ex_started =
     [ex_event ''e1'' (Some ex_tid) (MessageAppended ex_message),
      ex_event ''e2'' (Some ex_tid) (TurnStarted ex_tid ''p'' ''m'' 1 1 UserMessage None)]"

definition ex_queued :: "event_envelope list" where
  "ex_queued = [ex_event ''e3'' None (SessionQueuedMessageEnqueued ex_message 1)]"

definition ex_clear :: event_envelope where
  "ex_clear = ex_event ''e4'' None (SessionCancelCleared ''x'')"

definition ex_db1 :: database where
  "ex_db1 = fst (create_session ex_session ex_branch empty_database)"

definition ex_session_row :: session_row where
  "ex_session_row =
     \<lparr>se_session_id = ex_sid, se_project_root = ''/p'', se_connection_id = ''c'', se_model_id = None,
      se_tool_mode = ''standard'', se_settings_revision_id = 1, se_created_at = 0, se_updated_at = 0,
      se_status = ''active'', se_display_name = None, se_objective = None,
      se_parent_session_id = None, se_parent_branch_id = None, se_parent_turn_id = None\<rparr>"

definition ex_revision_row :: settings_revision_row where
  "ex_revision_row =
     \<lparr>sv_session_id = ex_sid, sv_settings_revision_id = 1, sv_connection_id = ''c'', sv_model_id = None,
      sv_tool_mode = ''standard'', sv_updated_at = 0\<rparr>"

lemma ex_create: "create_session ex_session ex_branch empty_database =
   (empty_database\<lparr>sessions := [ex_session_row], session_settings_revision_projection := [ex_revision_row],
      branches := [ex_branch]\<rparr>, Inr ())"
  by (simp add: create_session_def transaction_def tx_defs insert_session_in_tx_def
      insert_session_settings_revision_in_tx_def insert_branch_in_tx_def sql_insert_def ex_session_def
      ex_branch_def ex_session_row_def ex_revision_row_def empty_database_def as_i64_def sql_exists_def)

lemma ex_db1_eq: "ex_db1 = empty_database\<lparr>sessions := [ex_session_row],
    session_settings_revision_projection := [ex_revision_row], branches := [ex_branch]\<rparr>"
  by (simp add: ex_db1_def ex_create)

lemma ex_db1_opened: "opened ex_db1"
  unfolding ex_db1_def using opened_call [OF opened_fresh call_create_session [of ex_session ex_branch empty_database]]
  by (metis prod.collapse)

subsection \<open>Evaluation\<close>

lemmas ex_rows = ex_db1_eq empty_database_def ex_session_row_def ex_revision_row_def ex_branch_def ex_message_def

lemmas ex_sql = sql_upsert_def sql_update_def sql_insert_def sql_delete_def sql_replace_def sql_ordered_def

lemmas ex_append = append_event_in_tx_def append_cancel_clear_def insert_event_row_def tx_defs
  refresh_projections_def refresh_heads_def merge_branch_head_def refresh_turn_projection_def
  load_turn_projection_def upsert_turn_projection_def turn_row_of_def turn_row_key_def
  projected_turn_id_def new_turn_projection_def apply_turn_projection_event_def fold_turn_payload_def
  parse_turn_projection_row_def try_u64_def try_u32_def as_i64_def i64_max_def
  default_settings_revision_id_def refresh_payload_eqs Let_def transaction_def

lemmas ex_project = project_message_appended_def project_turn_started_def project_turn_finished_def
  project_queued_enqueued_def project_queued_resolved_def project_cancel_def

lemmas ex_validate = validate_turn_admission_events_def validate_message_and_turn_start_def
  validate_event_scope_def is_cancel_clear_def is_start_event_def revision_of_column_def

lemmas ex_checks = session_budget_exhausted_in_tx_def session_has_pending_work_in_tx_def
  cancel_requested_in_tx_def active_turn_exists_in_tx_def ensure_active_turn_owner_in_tx_def

lemmas ex_eval = ex_rows ex_sql ex_append ex_project ex_validate ex_checks

subsection \<open>A user turn is admitted\<close>

definition ex_turn_row :: turn_row where
  "ex_turn_row =
     \<lparr>tp_session_id = ex_sid, tp_branch_id = ex_bid, tp_turn_id = ex_tid, tp_provider = ''p'',
      tp_model = ''m'', tp_message_count = 1, tp_settings_revision_id = 1, tp_started_at = 7,
      tp_finished_at = None, tp_status = None, tp_finish_reason = None, tp_latency_ms = None,
      tp_event_seq_start = Some 2, tp_event_seq_end = Some 2, tp_event_count = 2,
      tp_pending_approval_count = 0, tp_raw_chunk_count = 0, tp_tool_calls = []\<rparr>"

definition ex_db2 :: database where
  "ex_db2 = ex_db1
     \<lparr>sessions := [ex_session_row\<lparr>se_updated_at := 7\<rparr>],
      branches := [ex_branch\<lparr>br_head_event_id := Some (EventId ''e2'')\<rparr>],
      events := [\<lparr>er_seq_id = 1, er_event = ex_started ! 0\<rparr>, \<lparr>er_seq_id = 2, er_event = ex_started ! 1\<rparr>],
      events_autoincrement := 2,
      message_projection := [\<lparr>mr_event_id = EventId ''e1'', mr_session_id = ex_sid, mr_branch_id = ex_bid,
        mr_message_id = MessageId ''m1'', mr_role = RUser, mr_message = ex_message, mr_created_at = 7\<rparr>],
      branch_heads := [\<lparr>bh_branch_id = ex_bid, bh_session_id = ex_sid, bh_head_event_seq = 2, bh_updated_at = 7\<rparr>],
      active_turn_projection := [\<lparr>at_session_id = ex_sid, at_branch_id = ex_bid, at_turn_id = ex_tid,
        at_started_seq_id = 2, at_started_at = 7\<rparr>],
      turn_projection := [ex_turn_row]\<rparr>"

lemma ex_admit: "admit_turn_or_queue ex_sid 1 ex_clear ex_started ex_queued ex_db1 = (ex_db2, Inr (Started [1, 2]))"
  by (simp add: ex_eval admit_turn_or_queue_def admit_idle_or_pending_def ex_db2_def ex_turn_row_def
      ex_started_def ex_queued_def ex_clear_def)

lemma ex_db2_opened: "opened ex_db2"
  by (rule opened_call [OF ex_db1_opened call_admit [OF ex_admit]])

subsection \<open>A second message is queued\<close>

definition ex_started2 :: "event_envelope list" where
  "ex_started2 =
     [ex_event ''f1'' (Some (TurnId ''t2'')) (MessageAppended ex_message),
      ex_event ''f2'' (Some (TurnId ''t2'')) (TurnStarted (TurnId ''t2'') ''p'' ''m'' 1 1 UserMessage None)]"

definition ex_db3 :: database where
  "ex_db3 = ex_db2
     \<lparr>branches := [ex_branch\<lparr>br_head_event_id := Some (EventId ''e3'')\<rparr>],
      events := events ex_db2 @ [\<lparr>er_seq_id = 3, er_event = ex_queued ! 0\<rparr>], events_autoincrement := 3,
      branch_heads := [\<lparr>bh_branch_id = ex_bid, bh_session_id = ex_sid, bh_head_event_seq = 3, bh_updated_at = 7\<rparr>],
      queued_message_projection := [\<lparr>qu_queue_event_id = EventId ''e3'', qu_session_id = ex_sid,
        qu_branch_id = ex_bid, qu_message = ex_message, qu_settings_revision_id = 1,
        qu_status = ''pending'', qu_source_seq = 3, qu_enqueued_at = 7, qu_resolved_at = None\<rparr>]\<rparr>"

lemma ex_queue: "admit_turn_or_queue ex_sid 1 ex_clear ex_started2 ex_queued ex_db2 = (ex_db3, Inr (Queued [3] 1))"
  by (simp add: ex_eval admit_turn_or_queue_def admit_idle_or_pending_def ex_db2_def ex_db3_def ex_turn_row_def
      ex_started_def ex_started2_def ex_queued_def ex_clear_def pending_queue_length_def)

lemma ex_db3_opened: "opened ex_db3"
  by (rule opened_call [OF ex_db2_opened call_admit [OF ex_queue]])

subsection \<open>The turn ends and the queued message is dispatched\<close>

definition ex_finished :: "event_envelope list" where
  "ex_finished = [ex_event ''e5'' (Some ex_tid) (TurnFinished ex_tid ''p'' ''m'' ''completed'' None 9)]"

definition ex_db4 :: database where
  "ex_db4 = ex_db3
     \<lparr>branches := [ex_branch\<lparr>br_head_event_id := Some (EventId ''e5'')\<rparr>],
      events := events ex_db3 @ [\<lparr>er_seq_id = 4, er_event = ex_finished ! 0\<rparr>], events_autoincrement := 4,
      branch_heads := [\<lparr>bh_branch_id = ex_bid, bh_session_id = ex_sid, bh_head_event_seq = 4, bh_updated_at = 7\<rparr>],
      active_turn_projection := [],
      turn_projection := [ex_turn_row\<lparr>tp_status := Some ''completed'', tp_latency_ms := Some 9,
        tp_finished_at := Some 7, tp_event_seq_end := Some 4, tp_event_count := 3\<rparr>]\<rparr>"

lemma ex_finish: "commit_turn_terminal_transition ex_sid ex_bid ex_tid ex_finished ex_db3 = (ex_db4, Inr [4])"
  by (simp add: ex_eval commit_turn_terminal_transition_def validate_turn_terminal_events_def ends_with_finish_def
      ex_db2_def ex_db3_def ex_db4_def ex_turn_row_def ex_finished_def ex_queued_def ex_started_def)

lemma ex_db4_opened: "opened ex_db4"
  by (rule opened_call [OF ex_db3_opened call_terminal_transition [OF ex_finish]])

definition ex_dispatch :: "event_envelope list" where
  "ex_dispatch =
     [ex_event ''g1'' None (SessionQueuedMessageResolved (EventId ''e3'') QDispatched None),
      ex_event ''g2'' (Some (TurnId ''t2'')) (MessageAppended ex_message),
      ex_event ''g3'' (Some (TurnId ''t2'')) (TurnStarted (TurnId ''t2'') ''p'' ''m'' 1 1 QueuedFollowUp None)]"

definition ex_db5 :: database where
  "ex_db5 = fst (claim_queued_continuation ex_sid (EventId ''e3'') ex_dispatch ex_db4)"

lemma ex_claim: "claim_queued_continuation ex_sid (EventId ''e3'') ex_dispatch ex_db4 = (ex_db5, Inr (Claimed [5, 6, 7]))"
  unfolding ex_db5_def
  by (simp add: ex_eval claim_queued_continuation_def when_claimable_def claim_events_def pending_queue_def
      validate_queued_continuation_events_def ex_dispatch_def ex_ids
      ex_db2_def ex_db3_def ex_db4_def ex_turn_row_def ex_finished_def ex_queued_def ex_started_def)

lemma ex_db5_opened: "opened ex_db5"
  by (rule opened_call [OF ex_db4_opened call_claim_queued [OF ex_claim]])

subsection \<open>A budget is configured and exhausted\<close>

definition ex_config :: event_envelope where
  "ex_config = ex_event ''h1'' None (BudgetConfigured
     \<lparr>max_wall_clock_seconds = None, max_tokens = Some 10, max_turns = None, max_cost_usd = None\<rparr>)"

definition ex_cancel :: event_envelope where
  "ex_cancel = ex_event ''h2'' None (SessionCancelled ''budget'')"

definition ex_checkpoint :: event_envelope where
  "ex_checkpoint = ex_event ''h3'' (Some ex_tid) (BudgetCheckpoint 12 1 3 (Some f64_zero))"

lemmas ex_budget = commit_budget_configuration_def commit_budget_checkpoint_def
  commit_budget_checkpoint_transition_def validate_budget_checkpoint_transition_def append_when_def
  is_budget_configured_def is_session_cancelled_def is_budget_checkpoint_def
  refresh_budget_projection_from_config_def refresh_budget_projection_from_checkpoint_def
  read_budget_config_def is_exhausted_def clamped_u64_def clamped_u32_def checkpoint_regressed_def
  cost_regressed_def sql_real_def

definition ex_b1 :: database where
  "ex_b1 = ex_db1
     \<lparr>sessions := [ex_session_row\<lparr>se_updated_at := 7\<rparr>],
      branches := [ex_branch\<lparr>br_head_event_id := Some (EventId ''h1'')\<rparr>],
      events := [\<lparr>er_seq_id = 1, er_event = ex_config\<rparr>], events_autoincrement := 1,
      branch_heads := [\<lparr>bh_branch_id = ex_bid, bh_session_id = ex_sid, bh_head_event_seq = 1, bh_updated_at = 7\<rparr>],
      session_budget_projection := [\<lparr>bu_session_id = ex_sid, bu_max_wall_clock_seconds = None,
        bu_max_tokens = Some 10, bu_max_turns = None, bu_max_cost_usd = None, bu_tokens_used = 0,
        bu_turns_used = 0, bu_elapsed_seconds = 0, bu_cost_used_usd = Some f64_zero, bu_updated_at = 7\<rparr>]\<rparr>"

lemma ex_configure: "commit_budget_configuration ex_config ex_cancel ex_db1 =
    (ex_b1, Inr \<lparr>cf_configuration_seq_id = 1, cf_cancellation_seq_id = None, cf_exhausted = False\<rparr>)"
  by (simp add: ex_eval ex_budget ex_b1_def ex_config_def ex_cancel_def)

definition ex_b2 :: database where
  "ex_b2 = ex_b1
     \<lparr>branches := [ex_branch\<lparr>br_head_event_id := Some (EventId ''e2'')\<rparr>],
      events := events ex_b1 @ [\<lparr>er_seq_id = 2, er_event = ex_started ! 0\<rparr>,
        \<lparr>er_seq_id = 3, er_event = ex_started ! 1\<rparr>],
      events_autoincrement := 3,
      message_projection := [\<lparr>mr_event_id = EventId ''e1'', mr_session_id = ex_sid, mr_branch_id = ex_bid,
        mr_message_id = MessageId ''m1'', mr_role = RUser, mr_message = ex_message, mr_created_at = 7\<rparr>],
      branch_heads := [\<lparr>bh_branch_id = ex_bid, bh_session_id = ex_sid, bh_head_event_seq = 3, bh_updated_at = 7\<rparr>],
      active_turn_projection := [\<lparr>at_session_id = ex_sid, at_branch_id = ex_bid, at_turn_id = ex_tid,
        at_started_seq_id = 3, at_started_at = 7\<rparr>],
      turn_projection := [ex_turn_row\<lparr>tp_event_seq_start := Some 3, tp_event_seq_end := Some 3\<rparr>]\<rparr>"

lemma ex_admit_b: "admit_turn_or_queue ex_sid 1 ex_clear ex_started ex_queued ex_b1 = (ex_b2, Inr (Started [2, 3]))"
  by (simp add: ex_eval ex_budget admit_turn_or_queue_def admit_idle_or_pending_def ex_b1_def ex_b2_def ex_turn_row_def
      ex_config_def ex_started_def ex_queued_def ex_clear_def)

definition ex_b3 :: database where
  "ex_b3 = fst (commit_budget_checkpoint ex_checkpoint ex_cancel ex_b2)"

lemma ex_exhaust: "commit_budget_checkpoint ex_checkpoint ex_cancel ex_b2 =
    (ex_b3, Inr \<lparr>cb_checkpoint_seq_id = 4, cb_cancellation_seq_id = Some 5, cb_terminal_seq_ids = [],
       cb_exhausted = True\<rparr>)"
  unfolding ex_b3_def
  by (simp add: ex_eval ex_budget ex_b1_def ex_b2_def ex_turn_row_def ex_config_def ex_cancel_def
      ex_checkpoint_def ex_started_def)

lemma ex_b2_opened: "opened ex_b2"
  by (rule opened_call [OF opened_call [OF ex_db1_opened call_budget_configuration [OF ex_configure]]
      call_admit [OF ex_admit_b]])

end
