(* ===== verification/Bt_Claims.thy ===== *)
theory Bt_Claims
  imports Bt_Admit Bt_Example
begin

section \<open>Guarantees of admissions and claims\<close>

text \<open>
  The guarantees of the control-plane transitions over whole executions: first in, first out dispatch
  of queued messages, each at most once; the gates a cancellation, an active turn and an exhausted
  budget put in front of every way to start a turn; and the end of a turn.
\<close>

text \<open>C6: a user message that is answered with \<open>Queued\<close> starts no turn; it is the new last element of the
  session's pending queue in dispatch order. The new row is exactly that of the message that was
  admitted: it holds the message, event id, branch and time of the enqueue event of the call, the
  settings revision of the admission and the sequence number the log gave to that event; and the
  position reported to the user is its place in the queue.\<close>

theorem admit_queued_fifo:
  assumes "reachable db"
    and "admit_turn_or_queue sid expected clear started queued db = (db', Inr (Queued seqs position))"
  shows "session_has_pending_work_in_tx sid db
    \<and> active_turn_projection db' = active_turn_projection db
    \<and> (\<exists>(e, seq) \<in> set (zip queued seqs). \<exists>m. ev_payload e = SessionQueuedMessageEnqueued m expected
         \<and> pending_queue sid db' = pending_queue sid db @
             [\<lparr>qu_queue_event_id = ev_event_id e, qu_session_id = sid, qu_branch_id = ev_branch_id e,
               qu_message = m, qu_settings_revision_id = as_i64 expected, qu_status = ''pending'',
               qu_source_seq = seq, qu_enqueued_at = ev_occurred_at e, qu_resolved_at = None\<rparr>])
    \<and> position = length (pending_queue sid db')
    \<and> events db' = events db @ log_rows seqs queued"
proof -
  from assms(2) have v: "validate_turn_admission_events sid expected clear started queued = Inr ()"
    and body: "admit_idle_or_pending sid clear started queued db = Inr (db', Queued seqs position)"
    by (auto elim!: admit_committed)
  note q = admit_pending_queued [OF body]
  from validate_turn_admissionD [OF v] have scope: "\<forall>e \<in> set queued. ev_session_id e = sid"
    and scan: "scan_queued_admission expected queued 0 = Inr 1"
    by blast+
  from queued_batch [OF scan reachable_queue_wf [OF assms(1)] q(2)] obtain rows where rows:
    "queued_message_projection db' = queued_message_projection db @ rows" "length rows = 1"
    "\<forall>r \<in> set rows. \<exists>(e, seq) \<in> set (zip queued seqs). \<exists>m.
        ev_payload e = SessionQueuedMessageEnqueued m expected \<and> r = queued_row_of seq e m expected"
    "active_turn_projection db' = active_turn_projection db" and wf: "queue_wf db'"
    by auto
  obtain row where row: "rows = [row]" using rows(2) by (cases rows) auto
  with rows(3) obtain e seq m where e: "(e, seq) \<in> set (zip queued seqs)"
    "ev_payload e = SessionQueuedMessageEnqueued m expected" "row = queued_row_of seq e m expected" by auto
  have sid: "ev_session_id e = sid" using scope set_zip_leftD [OF e(1)] by blast
  then have "is_pending sid row" by (simp add: e(3) is_pending_def queued_row_of_def)
  then have "pending_queue sid db' = pending_queue sid db @ [row]"
    by (simp add: pending_queue_filter wf reachable_queue_wf [OF assms(1)] rows(1) row)
  then have "\<exists>(e, seq) \<in> set (zip queued seqs). \<exists>m. ev_payload e = SessionQueuedMessageEnqueued m expected
      \<and> pending_queue sid db' = pending_queue sid db @
          [\<lparr>qu_queue_event_id = ev_event_id e, qu_session_id = sid, qu_branch_id = ev_branch_id e,
            qu_message = m, qu_settings_revision_id = as_i64 expected, qu_status = ''pending'',
            qu_source_seq = seq, qu_enqueued_at = ev_occurred_at e, qu_resolved_at = None\<rparr>]"
    using e sid by (intro bexI [of _ "(e, seq)"]) (auto simp: queued_row_of_def)
  then show ?thesis
    using q rows(4) append_events_log [OF q(2)] by (simp add: pending_queue_length_eq [OF wf])
qed

subsection \<open>Claims of queued messages\<close>

definition is_queue_resolved :: "event_payload \<Rightarrow> bool" where
  "is_queue_resolved p = (case p of SessionQueuedMessageResolved _ _ _ \<Rightarrow> True | _ \<Rightarrow> False)"

lemma is_queue_resolved_iff: "is_queue_resolved p \<longleftrightarrow> (\<exists>q out r. p = SessionQueuedMessageResolved q out r)"
  by (cases p) (simp_all add: is_queue_resolved_def)

lemma scan_queued_continuation_step:
  "ev_payload e = SessionQueuedMessageResolved q out r \<Longrightarrow> scan_queued_continuation qid (e # es) n =
     (if out = QDispatched \<and> q = qid then scan_queued_continuation qid es (n + 1)
      else Inl (invalid_transition ''queued continuation resolves an unexpected source or outcome''))"
  "is_operator (ev_payload e) \<or> is_start_event (ev_payload e) \<Longrightarrow>
     scan_queued_continuation qid (e # es) n = scan_queued_continuation qid es n"
  "\<not> is_queue_resolved (ev_payload e) \<Longrightarrow> \<not> is_operator (ev_payload e) \<Longrightarrow> \<not> is_start_event (ev_payload e) \<Longrightarrow>
     scan_queued_continuation qid (e # es) n =
     Inl (invalid_transition ''queued continuation contains an unexpected event'')"
  unfolding scan_queued_continuation.simps is_operator_def is_start_event_def is_queue_resolved_def
  by (cases "ev_payload e"; simp only: event_payload.case simp_thms if_True if_False)+

lemma operator_or_start_neutral:
  "is_operator p \<or> is_start_event p \<Longrightarrow> \<not> is_queue_event p \<and> \<not> is_turn_finished p \<and> \<not> is_queue_resolved p"
  using operator_neutral [of p] start_event_class [of p]
  unfolding is_queue_event_def is_queue_resolved_def is_operator_def is_start_event_def
  by (cases p; simp only: event_payload.case simp_thms)

lemma queue_resolved_neutral [simp]:
  "\<not> is_turn_started (SessionQueuedMessageResolved q out r)" "\<not> is_turn_finished (SessionQueuedMessageResolved q out r)"
  by (simp_all add: is_turn_started_def is_turn_finished_def)

text \<open>The events of a queued continuation change the queue in one place: the row of the claimed message
  is dispatched.\<close>

definition dispatching :: "(queued_row \<Rightarrow> queued_row) \<Rightarrow> bool" where
  "dispatching f \<longleftrightarrow> (\<forall>r. qu_queue_event_id (f r) = qu_queue_event_id r \<and> qu_status (f r) = ''dispatched'')"

lemma dispatching_resolve [simp]: "dispatching (resolve_queued e QDispatched)"
  by (simp add: dispatching_def)

lemma dispatching_comp: "dispatching f \<Longrightarrow> dispatching g \<Longrightarrow> dispatching (f \<circ> g)"
  by (simp add: dispatching_def)

lemma sql_update_update_key:
  "dispatching g \<Longrightarrow> sql_update (\<lambda>r. qu_queue_event_id r = q) f (sql_update (\<lambda>r. qu_queue_event_id r = q) g t) =
     sql_update (\<lambda>r. qu_queue_event_id r = q) (f \<circ> g) t"
  by (simp add: sql_update_def dispatching_def)

lemma queued_continuation_batch:
  "scan_queued_continuation qid es n = Inr k \<Longrightarrow> append_events_in_tx es db = Inr (db', seqs) \<Longrightarrow>
   n \<le> k \<and> (\<forall>e \<in> set es. \<not> is_turn_finished (ev_payload e))
   \<and> (if k = n then queued_message_projection db' = queued_message_projection db
      else \<exists>f. dispatching f \<and> queued_message_projection db' =
        sql_update (\<lambda>r. qu_queue_event_id r = qid) f (queued_message_projection db))"
proof (induction es arbitrary: db seqs n)
  case Nil
  then show ?case by (simp add: tx_ok_def)
next
  case (Cons e es)
  from Cons.prems(2) obtain db1 seq seqs' where 1: "append_event_in_tx e db = Inr (db1, seq)"
    "append_events_in_tx es db1 = Inr (db', seqs')"
    by (rule append_events_ConsE)
  consider (resolved) q out r where "ev_payload e = SessionQueuedMessageResolved q out r"
    | (neutral) "is_operator (ev_payload e) \<or> is_start_event (ev_payload e)"
    | (bad) "\<not> is_queue_resolved (ev_payload e)" "\<not> is_operator (ev_payload e)" "\<not> is_start_event (ev_payload e)"
    by (metis is_queue_resolved_iff)
  then show ?case
  proof cases
    case (resolved q out r)
    with Cons.prems(1) have es: "scan_queued_continuation qid es (n + 1) = Inr k" and q: "out = QDispatched" "q = qid"
      by (simp_all add: scan_queued_continuation_step del: scan_queued_continuation.simps split: if_splits)
    have q1: "queued_message_projection db1 =
        sql_update (\<lambda>r. qu_queue_event_id r = qid) (resolve_queued e QDispatched) (queued_message_projection db)"
      using resolve_updates [OF 1(1) resolved] q by simp
    have "\<exists>f. dispatching f \<and> queued_message_projection db' =
        sql_update (\<lambda>r. qu_queue_event_id r = qid) f (queued_message_projection db)"
    proof (cases "k = n + 1")
      case True
      with Cons.IH [OF es 1(2)] q1 have "queued_message_projection db' =
          sql_update (\<lambda>r. qu_queue_event_id r = qid) (resolve_queued e QDispatched) (queued_message_projection db)" by simp
      then show ?thesis using dispatching_resolve by blast
    next
      case False
      with Cons.IH [OF es 1(2)] obtain f where "dispatching f"
        "queued_message_projection db' = sql_update (\<lambda>r. qu_queue_event_id r = qid) f (queued_message_projection db1)"
        by auto
      then show ?thesis
        using q1 sql_update_update_key [of "resolve_queued e QDispatched"] dispatching_comp by (metis dispatching_resolve)
    qed
    with Cons.IH [OF es 1(2)] resolved show ?thesis by auto
  next
    case neutral
    with Cons.prems(1) have es: "scan_queued_continuation qid es n = Inr k"
      by (simp add: scan_queued_continuation_step del: scan_queued_continuation.simps)
    have "queued_message_projection db1 = queued_message_projection db"
      using operator_or_start_neutral [OF neutral] by (simp add: queue_log.proj_append [OF 1(1)] queue_step_other)
    with Cons.IH [OF es 1(2)] operator_or_start_neutral [OF neutral] show ?thesis
      by (cases "k = n") auto
  next
    case bad
    with Cons.prems(1) show ?thesis
      by (simp add: scan_queued_continuation_step del: scan_queued_continuation.simps)
  qed
qed

lemma claim_queuedE:
  assumes "claim_queued_continuation sid qid es db = (db', Inr (Claimed seqs))"
  obtains head rest where "\<not> cancel_requested_in_tx sid db" "\<not> active_turn_exists_in_tx sid db"
    "session_budget_exhausted_in_tx sid db = Inr False"
    "pending_queue sid db = head # rest" "qu_queue_event_id head = qid"
    "validate_queued_continuation_events sid qid (revision_of_column (qu_settings_revision_id head)) es = Inr ()"
    "append_events_in_tx es db = Inr (db', seqs)"
  using assms
  by (auto simp: claim_queued_continuation_def transaction_Inr when_claimable_def tx_eqs claim_events_def
      split: if_splits list.splits)

lemma validate_queuedD:
  assumes "validate_queued_continuation_events sid qid rev' es = Inr ()"
  shows "(\<exists>s tid p md n c. turn_starts es = [s] \<and> ev_payload s = TurnStarted tid p md n rev' QueuedFollowUp c
      \<and> ev_session_id s = sid) \<and> scan_queued_continuation qid es 0 = Inr 1"
proof -
  from assms obtain bid tid where v: "validate_message_and_turn_start es (Some rev') QueuedFollowUp = Inr (bid, tid)"
    and sc: "validate_event_scope sid bid es = Inr ()" and scan: "scan_queued_continuation qid es 0 = Inr 1"
    by (auto simp: validate_queued_continuation_events_def and_then_eq_Inr)
  from validate_message_and_turn_startD [OF v] obtain s p md n c where s: "turn_starts es = [s]"
    "ev_payload s = TurnStarted tid p md n rev' QueuedFollowUp c" by auto
  moreover have "s \<in> set es" using s(1) by (auto simp: turn_starts_def dest: filter_eq_ConsD)
  ultimately show ?thesis using when_scope [OF sc] scan by blast
qed

text \<open>C4: a queued message is dispatched only when it is the oldest pending message of a session that is
  idle, not cancelled and within its budget. The claim starts one turn under the settings revision
  the message was queued with and removes exactly this message from the pending queue.\<close>

theorem claim_queued_head:
  assumes "reachable db" "claim_queued_continuation sid qid es db = (db', Inr (Claimed seqs))"
  shows "\<not> cancel_requested_in_tx sid db \<and> \<not> active_turn_exists_in_tx sid db
    \<and> session_budget_exhausted_in_tx sid db = Inr False
    \<and> (\<exists>head s tid p md n c seq. pending_queue sid db = head # pending_queue sid db' \<and> qu_queue_event_id head = qid
        \<and> turn_starts es = [s]
        \<and> ev_payload s = TurnStarted tid p md n (revision_of_column (qu_settings_revision_id head)) QueuedFollowUp c
        \<and> active_turn_projection db' = active_turn_projection db @ [active_row seq s tid])"
proof -
  from assms(2) obtain head rest where gates: "\<not> cancel_requested_in_tx sid db" "\<not> active_turn_exists_in_tx sid db"
    "session_budget_exhausted_in_tx sid db = Inr False"
    and head: "pending_queue sid db = head # rest" "qu_queue_event_id head = qid"
    and v: "validate_queued_continuation_events sid qid (revision_of_column (qu_settings_revision_id head)) es = Inr ()"
    and a: "append_events_in_tx es db = Inr (db', seqs)"
    by (rule claim_queuedE)
  from validate_queuedD [OF v] obtain s tid p md n c where s: "turn_starts es = [s]"
    "ev_payload s = TurnStarted tid p md n (revision_of_column (qu_settings_revision_id head)) QueuedFollowUp c"
    and scan: "scan_queued_continuation qid es 0 = Inr 1" by blast
  from queued_continuation_batch [OF scan a] obtain f where nf: "\<forall>e \<in> set es. \<not> is_turn_finished (ev_payload e)"
    and f: "dispatching f"
    and q: "queued_message_projection db' = sql_update (\<lambda>r. qu_queue_event_id r = qid) f (queued_message_projection db)"
    by auto
  obtain seq where act: "active_turn_projection db' = active_turn_projection db @ [active_row seq s tid]"
    using append_events_active [OF a] nf started_rows_single [OF s(1) _ s(2)] append_events_log [OF a] by metis
  have reach': "reachable db'"
    using assms(1) tx_soundD [OF tx_sound_appends a] by (rule reachable_steps)
  have wf: "queue_wf db" "queue_wf db'" using assms(1) reach' by (simp_all add: reachable_queue_wf)
  have pend: "filter (is_pending sid) (sql_update (\<lambda>r. qu_queue_event_id r = qid) f t) =
      filter (\<lambda>r. is_pending sid r \<and> qu_queue_event_id r \<noteq> qid) t" for t
    using f by (induction t) (auto simp: sql_update_def is_pending_def dispatching_def)
  have "distinct (map qu_queue_event_id (pending_queue sid db))"
    using wf(1) by (simp add: queue_wf_def pending_queue_filter wf(1) distinct_map_filter)
  then have "filter (\<lambda>r. qu_queue_event_id r \<noteq> qid) (head # rest) = rest"
    using head by (auto simp: filter_id_conv image_iff)
  then have "pending_queue sid db' = rest"
    using head by (simp add: pending_queue_filter wf q pend filter_filter [symmetric] del: filter_filter)
  with gates head s act show ?thesis by blast
qed

subsection \<open>At most one dispatch\<close>

definition queue_settled :: "event_id \<Rightarrow> database \<Rightarrow> bool" where
  "queue_settled qid db \<longleftrightarrow> qid \<in> log_ids db
     \<and> (\<forall>r \<in> set (queued_message_projection db). qu_queue_event_id r = qid \<longrightarrow> qu_status r \<noteq> ''pending'')"

lemma queue_settled_append:
  assumes "queue_wf db" "queue_settled qid db" "append_event_in_tx e db = Inr (db', seq)"
  shows "queue_settled qid db'"
proof -
  have ids: "qid \<in> log_ids db'" using assms(2) append_log_ids [OF assms(3)] by (simp add: queue_settled_def)
  have fresh: "ev_event_id e \<noteq> qid" using assms(2) append_fresh_id [OF assms(3)] by (auto simp: queue_settled_def)
  show ?thesis
  proof (cases "ev_payload e" rule: queue_event_cases)
    case (enqueue m r)
    with assms(2) ids fresh show ?thesis
      by (auto simp: queue_settled_def enqueue_appends [OF assms(1,3) enqueue] queued_row_of_def)
  next
    case (resolve q out r)
    with assms(2) ids show ?thesis
      by (auto simp: queue_settled_def resolve_updates [OF assms(3) resolve] set_sql_update)
  next
    case other
    with assms(2) ids show ?thesis
      by (simp add: queue_settled_def queue_log.proj_append [OF assms(3)] queue_step_other)
  qed
qed

lemma queue_settled_steps:
  assumes "store_step\<^sup>*\<^sup>* db db'" "reachable db" "queue_settled qid db"
  shows "reachable db' \<and> queue_settled qid db'"
  using assms
proof (induction rule: rtranclp_induct)
  case (step db1 db2)
  then have r: "reachable db1" and q: "queue_settled qid db1" by simp_all
  from step.hyps(2) have "queue_settled qid db2"
  proof cases
    case (append e seq)
    then show ?thesis using queue_settled_append [OF reachable_queue_wf [OF r] q] by simp
  next
    case other
    with q show ?thesis by (simp add: queue_settled_def log_ids_def other_write_frame)
  qed
  with reachable_step [OF r step.hyps(2)] show ?case by simp
qed simp

lemma claimed_settles:
  assumes "reachable db" "claim_queued_continuation sid qid es db = (db', Inr (Claimed seqs))"
  shows "queue_settled qid db'"
proof -
  from assms(2) obtain head rest where head: "pending_queue sid db = head # rest" "qu_queue_event_id head = qid"
    and v: "validate_queued_continuation_events sid qid (revision_of_column (qu_settings_revision_id head)) es = Inr ()"
    and a: "append_events_in_tx es db = Inr (db', seqs)"
    by (rule claim_queuedE)
  from validate_queuedD [OF v] have scan: "scan_queued_continuation qid es 0 = Inr 1" by blast
  from queued_continuation_batch [OF scan a] obtain f where f: "dispatching f"
    and q: "queued_message_projection db' = sql_update (\<lambda>r. qu_queue_event_id r = qid) f (queued_message_projection db)"
    by auto
  have "head \<in> set (queued_message_projection db)"
    using head(1) pending_queue_filter [OF reachable_queue_wf [OF assms(1)]] by (auto dest: filter_eq_ConsD)
  then have "qid \<in> log_ids db"
    using reachable_queue_wf [OF assms(1)] head(2) by (auto simp: queue_wf_def)
  then have "qid \<in> log_ids db'" using append_events_log [OF a] by (auto simp: log_ids_def)
  moreover have "qu_status (f r) \<noteq> ''pending''" for r using f by (simp add: dispatching_def)
  ultimately show ?thesis unfolding queue_settled_def q set_sql_update by (auto split: if_splits)
qed

text \<open>C5: a queued message is dispatched at most once: after a committed claim, no later claim of the same
  message commits, whatever the store did in between.\<close>

theorem queued_dispatched_once:
  assumes "reachable db" "claim_queued_continuation sid qid es db = (db', Inr (Claimed seqs))"
    and "store_step\<^sup>*\<^sup>* db' db''"
  shows "snd (claim_queued_continuation sid' qid es' db'') \<noteq> Inr (Claimed seqs')"
proof
  assume "snd (claim_queued_continuation sid' qid es' db'') = Inr (Claimed seqs')"
  then obtain d where "claim_queued_continuation sid' qid es' db'' = (d, Inr (Claimed seqs'))"
    by (metis prod.collapse)
  then obtain head rest where head: "pending_queue sid' db'' = head # rest" "qu_queue_event_id head = qid"
    by (rule claim_queuedE)
  have "reachable db'"
    by (rule reachable_steps [OF assms(1) store_call_steps [OF call_claim_queued [OF assms(2)]]])
  with queue_settled_steps [OF assms(3) _ claimed_settles [OF assms(1,2)]]
  have "reachable db''" "queue_settled qid db''" by simp_all
  with head pending_queue_filter [OF reachable_queue_wf, of db'' sid']
  show False by (auto simp: queue_settled_def is_pending_def dest: filter_eq_ConsD)
qed

subsection \<open>Gates\<close>

lemma active_is_pending_work: "active_turn_exists_in_tx sid db \<Longrightarrow> session_has_pending_work_in_tx sid db"
  by (simp add: active_turn_exists_in_tx_def session_has_pending_work_in_tx_def)

lemma when_claimable_Claimed:
  assumes "when_claimable sid body db = Inr (db', Claimed seqs)"
  shows "\<not> cancel_requested_in_tx sid db \<and> \<not> active_turn_exists_in_tx sid db
    \<and> session_budget_exhausted_in_tx sid db = Inr False"
  using assms by (auto simp: when_claimable_def tx_eqs split: if_splits)

lemma snd_transaction_Inr: "snd (transaction m db) = Inr a \<Longrightarrow> \<exists>db'. m db = Inr (db', a)"
  by (auto simp: transaction_def split: sum.splits)

text \<open>While a session has an active turn or an exhausted budget, the admission of a user message does not
  answer \<open>Started\<close>, and no queued, steer, related-message or resumed continuation is claimed. (The plain
  \<open>append_event\<close> has no such gate.)\<close>

theorem no_start_when_blocked:
  assumes "active_turn_exists_in_tx sid db \<or> session_budget_exhausted_in_tx sid db = Inr True"
  shows "snd (admit_turn_or_queue sid expected clear started queued db) \<noteq> Inr (Started seqs)
    \<and> snd (claim_queued_continuation sid qid es db) \<noteq> Inr (Claimed seqs)
    \<and> snd (claim_steer_continuation sid bid ids es db) \<noteq> Inr (Claimed seqs)
    \<and> snd (claim_related_message_continuation sid mid expected es db) \<noteq> Inr (Claimed seqs)
    \<and> snd (claim_resumed_continuation sid bid cid name tid rseq expected kind es db) \<noteq> Inr (Claimed seqs)"
proof (intro conjI notI)
  assume "snd (admit_turn_or_queue sid expected clear started queued db) = Inr (Started seqs)"
  then obtain db' where a: "admit_turn_or_queue sid expected clear started queued db = (db', Inr (Started seqs))"
    by (metis prod.collapse)
  then obtain session where "session_budget_exhausted_in_tx sid db = Inr False"
    "admit_idle_or_pending sid clear started queued db = Inr (db', Started seqs)"
    by (rule admit_committed) simp_all
  with assms active_is_pending_work show False by (auto elim!: admit_idle_started)
next
  assume "snd (claim_queued_continuation sid qid es db) = Inr (Claimed seqs)"
  with assms show False
    by (auto simp: claim_queued_continuation_def dest!: snd_transaction_Inr when_claimable_Claimed)
next
  assume "snd (claim_steer_continuation sid bid ids es db) = Inr (Claimed seqs)"
  with assms show False
    by (auto simp: claim_steer_continuation_def dest!: snd_transaction_Inr when_claimable_Claimed)
next
  assume "snd (claim_related_message_continuation sid mid expected es db) = Inr (Claimed seqs)"
  with assms active_is_pending_work [of sid db] show False
    by (auto simp: claim_related_message_continuation_def tx_eqs dest!: snd_transaction_Inr split: if_splits)
next
  assume "snd (claim_resumed_continuation sid bid cid name tid rseq expected kind es db) = Inr (Claimed seqs)"
  with assms show False
    by (auto simp: claim_resumed_continuation_def tx_eqs dest!: snd_transaction_Inr split: if_splits)
qed

subsection \<open>The end of a turn\<close>

lemma append_events_snocE:
  assumes "append_events_in_tx (es @ [e]) db = Inr (db', seqs)"
  shows "\<exists>db1 seq. append_event_in_tx e db1 = Inr (db', seq)"
  using assms
proof (induction es arbitrary: db seqs)
  case Nil
  then show ?case by (auto simp: tx_eqs)
next
  case (Cons x es)
  then show ?case by (auto elim!: append_events_ConsE simp del: append_events_in_tx.simps)
qed

definition owns_turn :: "session_id \<Rightarrow> turn_id \<Rightarrow> database \<Rightarrow> bool" where
  "owns_turn sid tid db \<longleftrightarrow> (\<exists>r \<in> set (active_turn_projection db). at_session_id r = sid \<and> at_turn_id r = tid)"

lemma ensure_owner_fails: "\<not> owns_turn sid tid db \<Longrightarrow> \<exists>err. ensure_active_turn_owner_in_tx sid bid tid db = Inl err"
  by (auto simp: owns_turn_def ensure_active_turn_owner_in_tx_def guard_err_def)

lemma ends_with_finishD:
  "ends_with_finish (Some tid) es \<Longrightarrow> \<exists>a b c d f. ev_payload (last es) = TurnFinished tid a b c d f"
  by (cases "ev_payload (last es)") (simp_all add: ends_with_finish_def)

lemma terminal_releases:
  assumes "validate_turn_terminal_events sid bid tid es = Inr ()" "append_events_in_tx es db = Inr (db', seqs)"
  shows "\<not> owns_turn sid tid db'"
proof -
  from assms(1) have ne: "es \<noteq> []" and l: "ev_session_id (last es) = sid" "ends_with_finish (Some tid) es"
    by (auto simp: validate_turn_terminal_events_def ends_with_finish_def list_ex_iff)
  obtain pr md st fr lat where fin: "ev_payload (last es) = TurnFinished tid pr md st fr lat"
    using ends_with_finishD [OF l(2)] by blast
  from assms(2) append_events_snocE [of "butlast es" "last es"] ne
  obtain db1 seq where "append_event_in_tx (last es) db1 = Inr (db', seq)" by fastforce
  then show ?thesis
    using fin l(1) by (simp add: owns_turn_def active_log.proj_append active_turn_step_def sql_delete_def)
qed

lemma transaction_Inl_of: "m db = Inl err \<Longrightarrow> transaction m db = (db, Inl err)"
  by (simp add: transaction_def)

lemma tx_bind_Inl: "m db = Inl err \<Longrightarrow> tx_bind m f db = Inl err"
  by (simp add: tx_bind_def)

lemma stale_owner_refused:
  assumes "\<not> owns_turn sid tid db"
  shows "\<exists>err. transaction (tx_bind (tx_read (\<lambda>_. v)) (\<lambda>_.
    tx_bind (tx_read (ensure_active_turn_owner_in_tx sid bid tid)) (\<lambda>_. m))) db = (db, Inl err)"
proof -
  obtain err where "ensure_active_turn_owner_in_tx sid bid tid db = Inl err"
    using ensure_owner_fails [OF assms] by blast
  then show ?thesis
    by (cases v) (simp_all add: transaction_def tx_bind_def tx_read_def)
qed

text \<open>C3: once the terminal transition of a turn is committed, the turn has lost the session. The three
  operations that ask for the ownership of the turn refuse it from then on: \<open>commit_active_turn_events\<close>
  and a second \<open>commit_turn_terminal_transition\<close> for the turn, on whatever branch and with whatever
  events, and \<open>append_raw_chunk\<close> for a chunk of the turn; the refused calls change nothing. The general
  \<open>append_event\<close> and \<open>append_events\<close> ask for no owner, and the property says nothing of them.\<close>

theorem finished_turn_cannot_write:
  assumes "commit_turn_terminal_transition sid bid tid es db = (db', Inr seqs)"
  shows "(\<exists>err. commit_active_turn_events sid bid' tid es' db' = (db', Inl err))
    \<and> (\<exists>err. commit_turn_terminal_transition sid bid' tid es' db' = (db', Inl err))
    \<and> (ri_session_id c = sid \<and> ri_turn_id c = Some tid \<longrightarrow> (\<exists>err. append_raw_chunk now c db' = (db', Inl err)))"
proof -
  from assms have v: "validate_turn_terminal_events sid bid tid es = Inr ()"
    and a: "append_events_in_tx es db = Inr (db', seqs)"
    by (auto simp: commit_turn_terminal_transition_def transaction_Inr tx_eqs)
  note gone = terminal_releases [OF v a]
  have "ri_session_id c = sid \<and> ri_turn_id c = Some tid \<longrightarrow> (\<exists>err. append_raw_chunk now c db' = (db', Inl err))"
    using ensure_owner_fails [OF gone, of "ri_branch_id c"]
    by (auto simp: append_raw_chunk_def ensure_optional_owner_def transaction_def tx_bind_def tx_read_def)
  then show ?thesis
    unfolding commit_active_turn_events_def commit_turn_terminal_transition_def
    by (intro conjI stale_owner_refused [OF gone])
qed

end
