(* ===== verification/Bt_BudgetLog.thy ===== *)
theory Bt_BudgetLog
  imports Bt_Claims
begin

section \<open>Budgets over executions\<close>

text \<open>
  The budget row of a session is the fold of its \<open>budget.configured\<close> and \<open>budget.checkpoint\<close> events:
  counters never decrease, replaying the log gives the same row, and a checkpoint that exhausts the
  budget cancels the session in its own transaction.
\<close>

definition budget_of :: "session_id \<Rightarrow> database \<Rightarrow> budget_row option" where
  "budget_of sid db = sql_lookup bu_session_id sid (session_budget_projection db)"

definition is_budget_event :: "event_payload \<Rightarrow> bool" where
  "is_budget_event p = (case p of BudgetConfigured _ \<Rightarrow> True | BudgetCheckpoint _ _ _ _ \<Rightarrow> True | _ \<Rightarrow> False)"

lemma budget_event_cases:
  obtains (config) b where "p = BudgetConfigured b"
  | (checkpoint) a b c d where "p = BudgetCheckpoint a b c d"
  | (other) "\<not> is_budget_event p"
proof -
  have "is_budget_event p \<longleftrightarrow> (\<exists>b. p = BudgetConfigured b) \<or> (\<exists>a b c d. p = BudgetCheckpoint a b c d)"
    by (cases p) (simp_all add: is_budget_event_def)
  then show thesis using that by blast
qed

lemma budget_step_other: "\<not> is_budget_event (ev_payload e) \<Longrightarrow> budget_step s e t = t"
  unfolding budget_step_def is_budget_event_def
  by (cases "ev_payload e"; simp only: event_payload.case simp_thms)

lemma budget_case_other: "\<not> is_budget_event p \<Longrightarrow>
    (case p of BudgetConfigured b \<Rightarrow> x b | BudgetCheckpoint a b c d \<Rightarrow> y a b c d | _ \<Rightarrow> z) = z"
  unfolding is_budget_event_def by (cases p; simp only: event_payload.case simp_thms)

definition configured :: "event_envelope \<Rightarrow> budget_config \<Rightarrow> budget_row option \<Rightarrow> budget_row" where
  "configured e b old =
     (case old of None \<Rightarrow> budget_row_of e b | Some r \<Rightarrow> merge_budget_config r (budget_row_of e b))"

lemma budget_row_of_session [simp]: "bu_session_id (budget_row_of e b) = ev_session_id e"
  by (simp add: budget_row_of_def)

lemma record_checkpoint_session [simp]: "bu_session_id (record_checkpoint e a b c d r) = bu_session_id r"
  by (simp add: record_checkpoint_def)

lemma lookup_config:
  "sql_lookup bu_session_id sid (sql_upsert bu_session_id merge_budget_config (budget_row_of e b) t) =
     (if sid = ev_session_id e then Some (configured e b (sql_lookup bu_session_id sid t))
      else sql_lookup bu_session_id sid t)"
  by (simp add: budgets.lookup_upsert configured_def)

lemma lookup_checkpoint:
  "sql_lookup bu_session_id sid (sql_update (\<lambda>r. bu_session_id r = ev_session_id e) (record_checkpoint e a b c d) t) =
     (if sid = ev_session_id e then map_option (record_checkpoint e a b c d) (sql_lookup bu_session_id sid t)
      else sql_lookup bu_session_id sid t)"
  by (cases "sql_lookup bu_session_id sid t")
    (auto simp: sql_lookup_update dest: sql_lookup_SomeD)

text \<open>A checkpoint is accepted only on a configured budget and only forwards.\<close>

lemma append_budget:
  assumes "append_event_in_tx e db = Inr (db', seq)"
  obtains db2 where "session_budget_projection db2 = session_budget_projection db" "refresh_payload e seq db2 = Inr db'"
proof -
  from assms obtain db2 hs bs ss ts where "refresh_payload e seq db2 = Inr db'"
    "db2 = (logged e seq db)\<lparr>branch_heads := hs, branches := bs, sessions := ss, turn_projection := ts\<rparr>"
    by (rule append_before_payload)
  then show thesis by (intro that [of db2]) (simp_all add: logged_def)
qed

lemma append_checkpoint:
  assumes "append_event_in_tx e db = Inr (db', seq)" "ev_payload e = BudgetCheckpoint a b c d"
  obtains r where "budget_of (ev_session_id e) db = Some r" "\<not> checkpoint_regressed r a b c d"
proof -
  from assms(1) obtain db2 where "session_budget_projection db2 = session_budget_projection db"
    "refresh_payload e seq db2 = Inr db'"
    by (rule append_budget)
  then show thesis
    using assms(2) that
    by (auto simp: refresh_payload_eqs refresh_budget_projection_from_checkpoint_def and_then_eq_Inr budget_of_def)
qed

lemma budget_of_append:
  assumes "append_event_in_tx e db = Inr (db', seq)"
  shows "budget_of sid db' =
    (if sid \<noteq> ev_session_id e then budget_of sid db
     else case ev_payload e of
         BudgetConfigured b \<Rightarrow> Some (configured e b (budget_of sid db))
       | BudgetCheckpoint a b c d \<Rightarrow> map_option (record_checkpoint e a b c d) (budget_of sid db)
       | _ \<Rightarrow> budget_of sid db)"
proof (cases "ev_payload e" rule: budget_event_cases)
  case other
  then show ?thesis
    by (simp add: budget_of_def budget_log.proj_append [OF assms] budget_step_other budget_case_other)
qed (simp_all add: budget_of_def budget_log.proj_append [OF assms] budget_step_def lookup_config lookup_checkpoint)

subsection \<open>Counters\<close>

definition counters_ok :: "budget_row \<Rightarrow> bool" where
  "counters_ok r \<longleftrightarrow> bu_tokens_used r < 2 ^ 63 \<and> bu_elapsed_seconds r < 2 ^ 63
     \<and> 0 \<le> bu_turns_used r \<and> bu_turns_used r < 2 ^ 32"

lemma counters_ok_configured: "(\<And>r. old = Some r \<Longrightarrow> counters_ok r) \<Longrightarrow> counters_ok (configured e b old)"
  by (cases old) (simp_all add: configured_def budget_row_of_def merge_budget_config_def counters_ok_def)

lemma counters_ok_checkpoint: "counters_ok (record_checkpoint e a b c d r)"
  using uint_lt2p [of b] as_i64_range [of a] as_i64_range [of c] by (simp add: record_checkpoint_def counters_ok_def)

lemma reachable_counters_ok: "reachable db \<Longrightarrow> budget_of sid db = Some r \<Longrightarrow> counters_ok r"
proof (induction arbitrary: sid r rule: reachable_induct)
  case empty
  then show ?case by (simp add: budget_of_def budget_log.proj_empty)
next
  case (append e db db' seq)
  show ?case
  proof (cases "ev_payload e" rule: budget_event_cases)
    case (config b)
    with append show ?thesis
      by (auto simp: budget_of_append [OF append.hyps(2)] intro: counters_ok_configured split: if_splits)
  next
    case (checkpoint a b c d)
    with append show ?thesis
      by (auto simp: budget_of_append [OF append.hyps(2)] counters_ok_checkpoint split: if_splits)
  next
    case other
    with append show ?thesis
      by (simp add: budget_of_append [OF append.hyps(2)] budget_case_other split: if_splits)
  qed
next
  case (other db db')
  then show ?case by (simp add: budget_of_def other_write_frame)
qed

definition counters_advance :: "budget_row \<Rightarrow> budget_row \<Rightarrow> bool" where
  "counters_advance r r' \<longleftrightarrow>
     (0 \<le> bu_tokens_used r' \<longrightarrow> bu_tokens_used r \<le> bu_tokens_used r')
   \<and> bu_turns_used r \<le> bu_turns_used r'
   \<and> (0 \<le> bu_elapsed_seconds r' \<longrightarrow> bu_elapsed_seconds r \<le> bu_elapsed_seconds r')
   \<and> \<not> cost_regressed (bu_cost_used_usd r) (bu_cost_used_usd r')"

lemma counters_advance_refl [simp]: "counters_advance r r"
  by (auto simp: counters_advance_def cost_regressed_def split: option.splits)

lemma clamped_le_as_i64: "clamped_u64 i \<le> w \<Longrightarrow> 0 \<le> as_i64 w \<Longrightarrow> i < 2 ^ 64 \<Longrightarrow> i \<le> as_i64 w"
proof -
  assume le: "clamped_u64 i \<le> w" and w: "0 \<le> as_i64 w" and i: "i < 2 ^ 64"
  have "uint w = as_i64 w" using w uint_lt2p [of w] by (auto simp: as_i64_def split: if_splits)
  moreover have "uint (clamped_u64 i) = max 0 i"
    using i by (simp add: clamped_u64_def uint_word_of_int take_bit_eq_mod max_def)
  ultimately show "i \<le> as_i64 w" using le by (simp add: word_le_def max_def split: if_splits)
qed

lemma clamped_u32_le: "clamped_u32 i \<le> w \<Longrightarrow> 0 \<le> i \<Longrightarrow> i < 2 ^ 32 \<Longrightarrow> i \<le> uint w"
  by (simp add: clamped_u32_def word_le_def uint_word_of_int take_bit_eq_mod)

lemma sql_real_regressed:
  "\<not> cost_regressed x y \<Longrightarrow> \<not> cost_regressed x (Option.bind y sql_real)"
  by (auto simp: cost_regressed_def sql_real_def split: option.splits bind_splits if_splits)

lemma checkpoint_advances:
  assumes "counters_ok r" "\<not> checkpoint_regressed r a b c d"
  shows "counters_advance r (record_checkpoint e a b c d r)"
  using assms
  by (auto simp: counters_advance_def checkpoint_regressed_def record_checkpoint_def counters_ok_def not_less
      sql_real_regressed intro: clamped_le_as_i64 clamped_u32_le)

text \<open>C7: a configured budget stays configured, and its counters go back only by overflow of the column: in
  every step of the store the turn counter does not decrease; the token and time counters do not
  decrease unless the new value is 2^63 or more, which the cast to the signed column stores as a
  negative number; and the recorded cost does not decrease and is not known again after it was
  unknown.\<close>

theorem budget_counters_monotone:
  assumes "reachable db" "store_step db db'" "budget_of sid db = Some r"
  shows "\<exists>r'. budget_of sid db' = Some r' \<and> counters_advance r r'"
  using assms(2)
proof cases
  case (append e seq)
  show ?thesis
  proof (cases "sid = ev_session_id e")
    case True
    show ?thesis
    proof (cases "ev_payload e" rule: budget_event_cases)
      case (config b)
      with True assms(3) show ?thesis
        by (simp add: budget_of_append [OF append] configured_def merge_budget_config_def counters_advance_def
            cost_regressed_def split: option.split)
    next
      case (checkpoint a b c d)
      from append_checkpoint [OF append checkpoint] assms(3) True have "\<not> checkpoint_regressed r a b c d" by auto
      with True checkpoint assms(3) reachable_counters_ok [OF assms(1,3)] show ?thesis
        by (simp add: budget_of_append [OF append] checkpoint_advances)
    next
      case other
      with True assms(3) show ?thesis by (simp add: budget_of_append [OF append] budget_case_other)
    qed
  next
    case False
    with assms(3) show ?thesis by (simp add: budget_of_append [OF append])
  qed
next
  case other
  with assms(3) show ?thesis by (simp add: budget_of_def other_write_frame)
qed

subsection \<open>An exhausted budget stops the session\<close>

lemma budget_exhausted_cong:
  "budget_of sid db' = budget_of sid db \<Longrightarrow> session_budget_exhausted_in_tx sid db' = session_budget_exhausted_in_tx sid db"
  by (simp add: session_budget_exhausted_in_tx_def budget_of_def)

lemma cancelled_budget_neutral: "is_session_cancelled p \<Longrightarrow> \<not> is_budget_event p"
  unfolding is_session_cancelled_def is_budget_event_def by (cases p; simp only: event_payload.case simp_thms)

lemma append_cancelled:
  assumes "append_event_in_tx e db = Inr (db', seq)" "is_session_cancelled (ev_payload e)"
  shows "cancel_requested_in_tx (ev_session_id e) db'" "budget_of sid db' = budget_of sid db"
proof -
  obtain reason where p: "ev_payload e = SessionCancelled reason"
    using assms(2) unfolding is_session_cancelled_def by (cases "ev_payload e"; simp only: event_payload.case simp_thms)
  have "sql_lookup ct_session_id (ev_session_id e) (session_control_projection db') =
      Some (case sql_lookup ct_session_id (ev_session_id e) (session_control_projection db) of
          None \<Rightarrow> control_row_of e True | Some old \<Rightarrow> merge_control old (control_row_of e True))"
    using p controls.lookup_upsert_same [of "control_row_of e True"]
    by (simp add: control_log.proj_append [OF assms(1)] control_step_def control_row_of_def)
  then show "cancel_requested_in_tx (ev_session_id e) db'"
    by (simp add: cancel_requested_in_tx_def control_row_of_def merge_control_def split: option.splits)
  show "budget_of sid db' = budget_of sid db"
    using cancelled_budget_neutral [OF assms(2)] by (simp add: budget_of_append [OF assms(1)] budget_case_other)
qed

lemma append_when_cancel:
  assumes "append_when exhausted cancellation db = Inr (db', seq)" "is_session_cancelled (ev_payload cancellation)"
  shows "budget_of sid db' = budget_of sid db" "(seq \<noteq> None) = exhausted"
    "exhausted \<Longrightarrow> cancel_requested_in_tx (ev_session_id cancellation) db'"
  using assms append_cancelled by (auto simp: append_when_def tx_eqs split: if_splits)

text \<open>C8: a committed budget checkpoint reports the budget as exhausted exactly when the committed counters
  exhaust it, and then the session is cancelled in the same transaction, by the cancellation event
  the result names.\<close>

theorem budget_checkpoint_stops:
  assumes "commit_budget_checkpoint checkpoint cancellation db = (db', Inr result)"
  shows "session_budget_exhausted_in_tx (ev_session_id checkpoint) db' = Inr (cb_exhausted result)
    \<and> (cb_exhausted result \<longrightarrow> cancel_requested_in_tx (ev_session_id checkpoint) db')
    \<and> (cb_cancellation_seq_id result \<noteq> None \<longleftrightarrow> cb_exhausted result)"
proof -
  from assms obtain tid db1 cseq exhausted kseq where
    v: "validate_budget_checkpoint_transition checkpoint cancellation [] False = Inr tid"
    and e: "session_budget_exhausted_in_tx (ev_session_id checkpoint) db1 = Inr exhausted"
    and w: "append_when exhausted cancellation db1 = Inr (db', kseq)"
    and r: "cb_exhausted result = exhausted" "cb_cancellation_seq_id result = kseq"
    by (auto simp: commit_budget_checkpoint_def commit_budget_checkpoint_transition_def transaction_Inr tx_eqs)
  from v have c: "is_session_cancelled (ev_payload cancellation)" "ev_session_id cancellation = ev_session_id checkpoint"
    by (auto simp: validate_budget_checkpoint_transition_def and_then_eq_Inr)
  note a = append_when_cancel [OF w c(1)]
  have "session_budget_exhausted_in_tx (ev_session_id checkpoint) db' = Inr exhausted"
    unfolding budget_exhausted_cong [OF a(1)] by (rule e)
  with a r c(2) show ?thesis by simp
qed

subsection \<open>Replaying the budget\<close>

definition json_faithful :: "json_number \<Rightarrow> event_row list \<Rightarrow> bool" where
  "json_faithful num rows \<longleftrightarrow> (\<forall>r \<in> set rows. decode_payload num (ev_payload (er_event r)) = Inr (ev_payload (er_event r)))"

definition stored_form :: "event_row \<Rightarrow> event_row" where
  "stored_form r = \<lparr>er_seq_id = er_seq_id r, er_event = (er_event r)\<lparr>ev_seq_id := Some (er_seq_id r)\<rparr>\<rparr>"

lemma decode_stored_id:
  assumes "decode_payload num (ev_payload (er_event r)) = Inr (ev_payload (er_event r))"
  shows "decode_stored num r = Inr (stored_form r)"
  unfolding decode_stored_def decode_event_def assms by (simp add: stored_form_def)

lemma collect_decode_stored: "json_faithful num rows \<Longrightarrow> collect_results (decode_stored num) rows = Inr (map stored_form rows)"
  unfolding json_faithful_def by (induction rows) (simp_all add: decode_stored_id)

lemma load_session_event_log_reachable:
  assumes "reachable db" "json_faithful num (events db)"
  shows "load_session_event_log num sid db =
    Inr (map stored_form (filter (\<lambda>r. ev_session_id (er_event r) = sid) (events db)))"
proof -
  have "json_faithful num (filter (\<lambda>r. ev_session_id (er_event r) = sid) (events db))"
    using assms(2) by (simp add: json_faithful_def)
  then show ?thesis
    by (simp add: load_session_event_log_def sql_ordered_log reachable_log_wf assms(1) collect_decode_stored)
qed

lemma replay_budget_snoc:
  "replay_budget_events (rs @ [r]) db = and_then (replay_budget_events rs db) (replay_budget_event r)"
  by (induction rs arbitrary: db) (auto simp: and_then_def split: sum.splits)

text \<open>One replayed event does to the row of its session what the append did.\<close>

lemma replay_one_budget:
  assumes app: "append_event_in_tx e db = Inr (db', seq)" and same: "budget_of (ev_session_id e) d = budget_of (ev_session_id e) db"
  shows "\<exists>t. replay_budget_event (stored_form \<lparr>er_seq_id = seq, er_event = e\<rparr>) d = Inr (d\<lparr>session_budget_projection := t\<rparr>)
    \<and> sql_lookup bu_session_id (ev_session_id e) t = budget_of (ev_session_id e) db'
    \<and> (\<forall>s. s \<noteq> ev_session_id e \<longrightarrow> sql_lookup bu_session_id s t = budget_of s d)"
proof (cases "ev_payload e" rule: budget_event_cases)
  case (config b)
  let ?t = "sql_upsert bu_session_id merge_budget_config (budget_row_of e b) (session_budget_projection d)"
  have "replay_budget_event (stored_form \<lparr>er_seq_id = seq, er_event = e\<rparr>) d = Inr (d\<lparr>session_budget_projection := ?t\<rparr>)"
    using config by (simp add: replay_budget_event_def stored_form_def refresh_budget_projection_from_config_def budget_row_of_def)
  then show ?thesis
    using config same by (intro exI [of _ ?t]) (simp add: lookup_config budget_of_append [OF app, unfolded budget_of_def] budget_of_def)
next
  case (checkpoint a b c k)
  let ?t = "sql_update (\<lambda>r. bu_session_id r = ev_session_id e) (record_checkpoint e a b c k) (session_budget_projection d)"
  from append_checkpoint [OF app checkpoint] obtain r where
    "budget_of (ev_session_id e) db = Some r" "\<not> checkpoint_regressed r a b c k" .
  then have "replay_budget_event (stored_form \<lparr>er_seq_id = seq, er_event = e\<rparr>) d = Inr (d\<lparr>session_budget_projection := ?t\<rparr>)"
    using checkpoint same
    by (simp add: replay_budget_event_def stored_form_def refresh_budget_projection_from_checkpoint_def
        budget_of_def record_checkpoint_def [abs_def])
  then show ?thesis
    using checkpoint same by (intro exI [of _ ?t]) (simp add: lookup_checkpoint budget_of_append [OF app, unfolded budget_of_def] budget_of_def)
next
  case other
  then have "replay_budget_event (stored_form \<lparr>er_seq_id = seq, er_event = e\<rparr>) d
      = Inr (d\<lparr>session_budget_projection := session_budget_projection d\<rparr>)"
    by (simp add: replay_budget_event_def stored_form_def budget_case_other)
  then show ?thesis
    using other same by (intro exI [of _ "session_budget_projection d"])
      (simp add: budget_of_append [OF app, unfolded budget_of_def] budget_of_def budget_case_other)
qed

lemma replay_budget_reachable:
  assumes "reachable db" "budget_of sid d = None"
  shows "\<exists>t. replay_budget_events (map stored_form (filter (\<lambda>r. ev_session_id (er_event r) = sid) (events db))) d
      = Inr (d\<lparr>session_budget_projection := t\<rparr>)
    \<and> sql_lookup bu_session_id sid t = budget_of sid db
    \<and> (\<forall>s. s \<noteq> sid \<longrightarrow> sql_lookup bu_session_id s t = budget_of s d)"
  using assms
proof (induction rule: reachable_induct)
  case empty
  then have "replay_budget_events [] d = Inr (d\<lparr>session_budget_projection := session_budget_projection d\<rparr>)" by simp
  with empty show ?case
    by (intro exI [of _ "session_budget_projection d"]) (simp add: budget_of_def budget_log.proj_empty)
next
  case (append e db db' seq)
  from append.IH [OF append.prems] obtain t where t:
    "replay_budget_events (map stored_form (filter (\<lambda>r. ev_session_id (er_event r) = sid) (events db))) d
      = Inr (d\<lparr>session_budget_projection := t\<rparr>)"
    "sql_lookup bu_session_id sid t = budget_of sid db"
    "\<forall>s. s \<noteq> sid \<longrightarrow> sql_lookup bu_session_id s t = budget_of s d"
    by blast
  show ?case
  proof (cases "ev_session_id e = sid")
    case True
    have "budget_of (ev_session_id e) (d\<lparr>session_budget_projection := t\<rparr>) = budget_of (ev_session_id e) db"
      using t(2) True by (simp add: budget_of_def)
    from replay_one_budget [OF append.hyps(2) this] obtain u where
      "replay_budget_event (stored_form \<lparr>er_seq_id = seq, er_event = e\<rparr>) (d\<lparr>session_budget_projection := t\<rparr>)
        = Inr (d\<lparr>session_budget_projection := u\<rparr>)"
      "sql_lookup bu_session_id sid u = budget_of sid db'"
      "\<forall>s. s \<noteq> sid \<longrightarrow> sql_lookup bu_session_id s u = sql_lookup bu_session_id s t"
      using True by (auto simp: budget_of_def)
    then show ?thesis
      using t True by (intro exI [of _ u]) (simp add: append_event_log(1) [OF append.hyps(2)] replay_budget_snoc)
  next
    case False
    then have "budget_of sid db' = budget_of sid db" by (simp add: budget_of_append [OF append.hyps(2)])
    with t False show ?thesis
      by (intro exI [of _ t]) (simp add: append_event_log(1) [OF append.hyps(2)])
  qed
next
  case (other db db')
  then show ?case by (simp add: other_write_frame budget_of_def)
qed

text \<open>C17: replaying a session's log gives the budget row the store already has: on every reachable database
  whose stored events are read back from their JSON text as they were written (\<open>json_faithful\<close>: their
  numbers are finite and the JSON parser \<open>num\<close> returns the printed double, which \<open>serde_json\<close> promises
  only with its feature \<open>float_roundtrip\<close>), \<open>reproject_session_budget\<close> succeeds, changes no budget row of
  any session and no other table.\<close>

theorem reproject_budget_same:
  assumes "reachable db" "json_faithful num (events db)"
  shows "\<exists>t. reproject_session_budget num sid db = (db\<lparr>session_budget_projection := t\<rparr>, Inr ())
    \<and> (\<forall>s. sql_lookup bu_session_id s t = budget_of s db)"
proof -
  let ?d = "db\<lparr>session_budget_projection := sql_delete (\<lambda>r. bu_session_id r = sid) (session_budget_projection db)\<rparr>"
  have "budget_of sid ?d = None" by (simp add: budget_of_def sql_lookup_delete_key)
  from replay_budget_reachable [OF assms(1) this] obtain t where t:
    "replay_budget_events (map stored_form (filter (\<lambda>r. ev_session_id (er_event r) = sid) (events db))) ?d
      = Inr (?d\<lparr>session_budget_projection := t\<rparr>)"
    "sql_lookup bu_session_id sid t = budget_of sid db"
    "\<forall>s. s \<noteq> sid \<longrightarrow> sql_lookup bu_session_id s t = budget_of s ?d"
    by blast
  then have "reproject_session_budget num sid db = (db\<lparr>session_budget_projection := t\<rparr>, Inr ())"
    by (simp add: reproject_session_budget_def transaction_def tx_bind_def tx_read_def tx_write_def
        load_session_event_log_reachable [OF assms])
  moreover have "\<forall>s. sql_lookup bu_session_id s t = budget_of s db"
    using t(2,3) by (auto simp: budget_of_def sql_lookup_delete_key)
  ultimately show ?thesis by blast
qed

end
