(* ===== verification/Bt_Settings.thy ===== *)
theory Bt_Settings
  imports Bt_Claims
begin

section \<open>Session settings\<close>

text \<open>
  Settings revisions: a stored revision never changes, and a committed settings update takes the
  session to the next revision with the requested values.
\<close>

lemma refresh_revisions:
  assumes "refresh_payload e s db = Inr db'"
  shows "\<exists>xs. session_settings_revision_projection db' = session_settings_revision_projection db @ xs
    \<and> (\<forall>k \<in> set (map settings_revision_key xs). sql_lookup settings_revision_key k (session_settings_revision_projection db) = None)"
  using assms
proof (cases rule: refresh_payloadE)
  case (settings r c m mode)
  then show ?thesis
    by (elim project_settings_updated_Inr)
      (auto simp: revisions_after_def revision_row_def settings_revision_key_def)
next
  case (steers_resolved ids out a b)
  with project_steers_shape [of e ids out db] show ?thesis by auto
qed (simp add: project_simple_defs | drule project_shapes; clarsimp)+

lemma step_revisions:
  assumes "store_step db db'"
  shows "\<exists>xs. session_settings_revision_projection db' = session_settings_revision_projection db @ xs"
  using assms
proof cases
  case (append e seq)
  then obtain db2 hs bs ss ts where r: "refresh_payload e seq db2 = Inr db'"
    and db2: "db2 = (logged e seq db)\<lparr>branch_heads := hs, branches := bs, sessions := ss, turn_projection := ts\<rparr>"
    by (rule append_before_payload)
  from refresh_revisions [OF r] db2 show ?thesis by (auto simp: logged_def)
next
  case other
  then show ?thesis
  proof cases
    case (new_revision s)
    then show ?thesis
      by (auto simp: insert_session_settings_revision_in_tx_def and_then_eq_Inr sql_insert_Some)
  qed (auto simp: insert_session_in_tx_def insert_branch_in_tx_def set_default_branch_in_tx_def
      update_branch_summary_def update_session_parent_def append_raw_chunk_in_tx_def link_raw_chunk_def
      and_then_eq_Inr Let_def split: if_splits)
qed

text \<open>C20: settings revisions are immutable: once a revision of a session is stored, every later database has
  exactly the same row for it.\<close>

theorem settings_revision_immutable:
  assumes "store_step\<^sup>*\<^sup>* db db'"
    and "sql_lookup settings_revision_key k (session_settings_revision_projection db) = Some row"
  shows "sql_lookup settings_revision_key k (session_settings_revision_projection db') = Some row"
  using assms
proof (induction rule: rtranclp_induct)
  case (step db1 db2)
  then show ?case using step_revisions [OF step.hyps(2)] by (auto simp: sql_lookup_append)
qed

lemma revision_of_as_i64: "0 < uint r \<Longrightarrow> uint r \<le> i64_max \<Longrightarrow> revision_of_column (as_i64 r) = r"
  by (simp add: revision_of_column_def as_i64_def i64_max_def)

lemma next_settings_revisionD:
  assumes "next_settings_revision r = Inr r'"
  shows "r' = r + 1" "uint r' = uint r + 1" "uint r' \<le> i64_max" "r < r'" "0 < uint r'"
proof -
  from assms have r: "r' = r + 1" and le: "uint r + 1 \<le> i64_max"
    by (auto simp: next_settings_revision_def split: if_splits)
  have "uint r + 1 < 2 ^ 64" using le by (simp add: i64_max_def)
  then have "uint (r + 1) = uint r + 1" by (simp add: uint_word_ariths)
  then show "r' = r + 1" "uint r' = uint r + 1" "uint r' \<le> i64_max" "r < r'" "0 < uint r'"
    using r le by (simp_all add: word_less_def add_nonneg_pos)
qed

text \<open>The session rows an append of a settings event leaves.\<close>

lemma append_settings_sessions:
  assumes "append_event_in_tx e db = Inr (db', seq)" "ev_payload e = SessionSettingsUpdated r c m mode"
    and "sql_lookup se_session_id (ev_session_id e) (sessions db) = Some s"
    and "revision_of_column (se_settings_revision_id s) < r"
  shows "sql_lookup se_session_id (ev_session_id e) (sessions db') = Some (session_follows e r c m mode s)"
    and "\<exists>row. sql_lookup settings_revision_key (ev_session_id e, as_i64 r) (session_settings_revision_projection db') = Some row
      \<and> sv_connection_id row = c \<and> sv_model_id row = m \<and> sv_tool_mode row = mode"
proof -
  from assms(1) obtain db2 where
    h: "refresh_turn_projection e seq (refresh_heads e seq (logged e seq db)) = Inr db2"
    and r: "refresh_payload e seq db2 = Inr db'"
    by (rule append_event_in_txE)
  let ?touch = "\<lambda>s. s\<lparr>se_updated_at := ev_occurred_at e\<rparr>"
  from refresh_turn_shape [OF h] have s2: "sessions db2 = sql_update (\<lambda>s. se_session_id s = ev_session_id e) ?touch (sessions db)"
    by (auto simp: refresh_heads_def logged_def)
  have cur: "sql_lookup se_session_id (ev_session_id e) (sessions db2) = Some (?touch s)"
    using assms(3) by (simp add: s2 sql_lookup_update) (metis sql_lookup_SomeD)
  from r assms(2) have "project_settings_updated e r c m mode db2 = Inr db'" by (simp add: refresh_payload_eqs)
  then obtain current where current: "sql_lookup se_session_id (ev_session_id e) (sessions db2) = Some current"
    and old: "\<And>old. sql_lookup settings_revision_key (ev_session_id e, as_i64 r)
        (session_settings_revision_projection db2) = Some old
        \<Longrightarrow> sv_connection_id old = c \<and> sv_model_id old = m \<and> sv_tool_mode old = mode"
    and db': "db' = db2\<lparr>session_settings_revision_projection := revisions_after e r c m mode db2,
              sessions := sessions_after e r c m mode current db2\<rparr>"
    by (rule project_settings_updated_Inr) blast
  have "sql_lookup se_session_id (ev_session_id e) (sessions db') =
      map_option (\<lambda>x. if se_session_id x = ev_session_id e then session_follows e r c m mode x else x)
        (sql_lookup se_session_id (ev_session_id e) (sessions db2))"
    using cur current assms(4) by (simp add: db' sessions_after_def sql_lookup_update session_follows_def)
  also have "\<dots> = Some (session_follows e r c m mode (?touch s))"
    using cur sql_lookup_SomeD [OF assms(3)] by simp
  finally show "sql_lookup se_session_id (ev_session_id e) (sessions db') = Some (session_follows e r c m mode s)"
    by (simp add: session_follows_def)
  show "\<exists>row. sql_lookup settings_revision_key (ev_session_id e, as_i64 r) (session_settings_revision_projection db') = Some row
      \<and> sv_connection_id row = c \<and> sv_model_id row = m \<and> sv_tool_mode row = mode"
    using old
    by (cases "sql_lookup settings_revision_key (ev_session_id e, as_i64 r) (session_settings_revision_projection db2)")
      (auto simp: db' revisions_after_def sql_lookup_append revision_row_def settings_revision_key_def)
qed

text \<open>A committed settings update takes the session from its revision to the next one. The session
  it returns is the stored session; it has the requested connection, model and tool mode where the
  caller gave one and the previous ones elsewhere, and the same values are stored under the new
  revision.\<close>

theorem settings_update_commits:
  assumes "commit_session_settings_update eid span now sid bid conn model mode db = (db', Inr result)"
  shows "\<exists>s row. sql_lookup se_session_id sid (sessions db) = Some s
    \<and> load_session sid db' = Some (cu_session result)
    \<and> cu_session result = (parse_session_record s)
        \<lparr>sr_connection_id := unwrap_or conn (ConnectionId (se_connection_id s)),
         sr_model_id := unwrap_or model (se_model_id s),
         sr_tool_mode := unwrap_or mode (parse_session_tool_mode (se_tool_mode s)),
         sr_settings_revision_id := revision_of_column (se_settings_revision_id s) + 1, sr_updated_at := now\<rparr>
    \<and> sql_lookup settings_revision_key (sid, as_i64 (revision_of_column (se_settings_revision_id s) + 1))
        (session_settings_revision_projection db') = Some row
    \<and> sv_connection_id row = connection_id_text (sr_connection_id (cu_session result))
    \<and> sv_model_id row = sr_model_id (cu_session result)
    \<and> sv_tool_mode row = session_tool_mode_to_str (sr_tool_mode (cu_session result))"
proof -
  define nconn where "nconn s = unwrap_or conn (ConnectionId (se_connection_id s))" for s :: session_row
  define nmodel where "nmodel s = unwrap_or model (se_model_id s)" for s :: session_row
  define nmode where "nmode s = unwrap_or mode (parse_session_tool_mode (se_tool_mode s))" for s :: session_row
  define event where "event s r = envelope_new eid span now sid bid SkSession
    (SessionSettingsUpdated r (connection_id_text (nconn s)) (nmodel s) (session_tool_mode_to_str (nmode s)))" for s r
  from assms obtain s r seq where s: "sql_lookup se_session_id sid (sessions db) = Some s"
    and r: "next_settings_revision (revision_of_column (se_settings_revision_id s)) = Inr r"
    and app: "append_event_in_tx (event s r) db = Inr (db', seq)"
    and loaded: "load_session sid db' = Some (cu_session result)"
    by (auto simp: commit_session_settings_update_def transaction_Inr tx_eqs Let_def event_def nconn_def
        nmodel_def nmode_def)
  note rev_facts = next_settings_revisionD [OF r]
  have e: "ev_session_id (event s r) = sid" "ev_occurred_at (event s r) = now"
    "ev_payload (event s r) = SessionSettingsUpdated r (connection_id_text (nconn s)) (nmodel s)
       (session_tool_mode_to_str (nmode s))"
    by (simp_all add: event_def envelope_new_def)
  note stored = append_settings_sessions [OF app e(3), unfolded e(1), OF s rev_facts(4)]
  have "cu_session result = parse_session_record
      (session_follows (event s r) r (connection_id_text (nconn s)) (nmodel s) (session_tool_mode_to_str (nmode s)) s)"
    using loaded stored(1) by (simp add: load_session_def)
  also have "\<dots> = (parse_session_record s)\<lparr>sr_connection_id := nconn s, sr_model_id := nmodel s,
      sr_tool_mode := nmode s, sr_settings_revision_id := r, sr_updated_at := now\<rparr>"
    using revision_of_as_i64 [OF rev_facts(5,3)]
    by (simp add: parse_session_record_def session_follows_def e(2) revision_of_column_def)
  finally show ?thesis
    using s loaded stored(2) rev_facts(1) by (auto simp: nconn_def nmodel_def nmode_def)
qed

end
