(* ===== verification/Bt_Witness.thy ===== *)
theory Bt_Witness
  imports Bt_Claims Bt_BudgetLog Bt_Settings Bt_Example
begin

section \<open>The properties on concrete databases\<close>

text \<open>Each property of the session store that has hypotheses is applied here to the databases of
  \<open>Bt_Example\<close>.\<close>

lemmas ex_reachable = ex_db1_opened [THEN opened_reachable] ex_db2_opened [THEN opened_reachable]
  ex_db3_opened [THEN opened_reachable] ex_db4_opened [THEN opened_reachable]
  ex_db5_opened [THEN opened_reachable] ex_b2_opened [THEN opened_reachable]

theorem admit_started_turn_witness:
  "admit_turn_or_queue ex_sid 1 ex_clear ex_started ex_queued ex_db1 = (ex_db2, Inr (Started [1, 2]))
   \<and> \<not> session_has_pending_work_in_tx ex_sid ex_db1 \<and> \<not> cancel_requested_in_tx ex_sid ex_db2"
  using admit_started_turn [OF ex_admit] ex_admit by simp

theorem admit_queued_fifo_witness:
  "admit_turn_or_queue ex_sid 1 ex_clear ex_started2 ex_queued ex_db2 = (ex_db3, Inr (Queued [3] 1))
   \<and> 1 = length (pending_queue ex_sid ex_db3)"
  using admit_queued_fifo [OF ex_reachable(2) ex_queue] ex_queue by simp

theorem claim_queued_head_witness:
  "claim_queued_continuation ex_sid (EventId ''e3'') ex_dispatch ex_db4 = (ex_db5, Inr (Claimed [5, 6, 7]))
   \<and> (\<exists>head. pending_queue ex_sid ex_db4 = head # pending_queue ex_sid ex_db5 \<and> qu_queue_event_id head = EventId ''e3'')"
  using claim_queued_head [OF ex_reachable(4) ex_claim] ex_claim by blast

theorem queued_dispatched_once_witness:
  "claim_queued_continuation ex_sid (EventId ''e3'') ex_dispatch ex_db4 = (ex_db5, Inr (Claimed [5, 6, 7]))
   \<and> snd (claim_queued_continuation ex_sid (EventId ''e3'') ex_dispatch ex_db5) \<noteq> Inr (Claimed [8, 9, 10])"
  using queued_dispatched_once [OF ex_reachable(4) ex_claim rtranclp.rtrancl_refl] ex_claim by blast

theorem no_start_when_blocked_witness:
  "active_turn_exists_in_tx ex_sid ex_db2
   \<and> snd (admit_turn_or_queue ex_sid 1 ex_clear ex_started2 ex_queued ex_db2) \<noteq> Inr (Started [3, 4])"
proof -
  have a: "active_turn_exists_in_tx ex_sid ex_db2"
    by (simp add: active_turn_exists_in_tx_def ex_db2_def)
  then show ?thesis using no_start_when_blocked [OF disjI1, OF a] by blast
qed

theorem finished_turn_cannot_write_witness:
  "commit_turn_terminal_transition ex_sid ex_bid ex_tid ex_finished ex_db3 = (ex_db4, Inr [4])
   \<and> (\<exists>err. commit_turn_terminal_transition ex_sid ex_bid ex_tid ex_finished ex_db4 = (ex_db4, Inl err))"
  using finished_turn_cannot_write [OF ex_finish] ex_finish by blast

theorem budget_checkpoint_stops_witness:
  "cancel_requested_in_tx ex_sid ex_b3 \<and> session_budget_exhausted_in_tx ex_sid ex_b3 = Inr True"
  using budget_checkpoint_stops [OF ex_exhaust] by (simp add: ex_checkpoint_def)

lemma ex_append_checkpoint:
  "\<exists>db' seq. append_event_in_tx ex_checkpoint ex_b2 = Inr (db', seq)"
  by (simp add: ex_eval ex_budget ex_b1_def ex_b2_def ex_turn_row_def ex_config_def ex_cancel_def
      ex_checkpoint_def ex_started_def)

theorem budget_counters_monotone_witness:
  "\<exists>db' r r'. store_step ex_b2 db' \<and> budget_of ex_sid ex_b2 = Some r \<and> bu_tokens_used r = 0
     \<and> budget_of ex_sid db' = Some r' \<and> counters_advance r r'"
proof -
  obtain db' seq where "append_event_in_tx ex_checkpoint ex_b2 = Inr (db', seq)" using ex_append_checkpoint by blast
  then have s: "store_step ex_b2 db'" by (rule store_step.append)
  obtain r where r: "budget_of ex_sid ex_b2 = Some r" "bu_tokens_used r = 0"
    by (simp add: budget_of_def ex_b2_def ex_b1_def)
  from budget_counters_monotone [OF ex_reachable(6) s r(1)] s r show ?thesis by blast
qed

theorem reproject_budget_same_witness:
  "json_faithful Inr (events ex_b2) \<and> (\<exists>t. reproject_session_budget Inr ex_sid ex_b2 = (ex_b2\<lparr>session_budget_projection := t\<rparr>, Inr ()))"
proof -
  have "json_faithful Inr (events ex_b2)"
    by (simp add: json_faithful_def ex_b2_def ex_b1_def ex_config_def ex_started_def decode_payload_def decode_f64_opt_def)
  then show ?thesis using reproject_budget_same [OF ex_reachable(6)] by blast
qed

theorem settings_revision_immutable_witness:
  "store_step\<^sup>*\<^sup>* ex_db1 ex_db2
   \<and> sql_lookup settings_revision_key (ex_sid, 1) (session_settings_revision_projection ex_db2) = Some ex_revision_row"
proof -
  have s: "store_step\<^sup>*\<^sup>* ex_db1 ex_db2" by (rule store_call_steps [OF call_admit [OF ex_admit]])
  have "sql_lookup settings_revision_key (ex_sid, 1) (session_settings_revision_projection ex_db1) = Some ex_revision_row"
    by (simp add: ex_db1_eq settings_revision_key_def ex_revision_row_def)
  from settings_revision_immutable [OF s this] s show ?thesis by blast
qed

lemma ex_settings: "\<exists>db' result. commit_session_settings_update (EventId ''k1'') (SpanId ''x'') 8 ex_sid ex_bid None
    (Some (Some ''gpt'')) None ex_db1 = (db', Inr result)"
  by (simp add: ex_eval commit_session_settings_update_def next_settings_revision_def unwrap_or_def envelope_new_def
      project_settings_updated_def settings_revision_key_def load_session_def)

theorem settings_update_commits_witness:
  "\<exists>db' result s. commit_session_settings_update (EventId ''k1'') (SpanId ''x'') 8 ex_sid ex_bid None
      (Some (Some ''gpt'')) None ex_db1 = (db', Inr result)
    \<and> sql_lookup se_session_id ex_sid (sessions ex_db1) = Some s
    \<and> load_session ex_sid db' = Some (cu_session result) \<and> sr_model_id (cu_session result) = Some ''gpt''"
proof -
  obtain db' result where c: "commit_session_settings_update (EventId ''k1'') (SpanId ''x'') 8 ex_sid ex_bid None
    (Some (Some ''gpt'')) None ex_db1 = (db', Inr result)" using ex_settings by blast
  from settings_update_commits [OF c] c show ?thesis by (auto simp: unwrap_or_def)
qed

theorem execution_log_wf_witness: "opened ex_db5 \<and> log_wf ex_db5"
  using execution_log_wf [OF ex_db5_opened] ex_db5_opened by simp

theorem active_turn_witness:
  "\<exists>a. sql_lookup at_session_id ex_sid (active_turn_projection ex_db2) = Some a \<and> unfinished ex_sid a (events ex_db2)"
proof -
  obtain a where a: "sql_lookup at_session_id ex_sid (active_turn_projection ex_db2) = Some a"
    by (simp add: ex_db2_def)
  with active_turn_is_unfinished_start [OF ex_reachable(2)] show ?thesis by blast
qed

theorem rebuild_active_witness:
  "reachable ex_db4 \<and> (\<exists>t. rebuild_active_turn_projection Inr ex_db4 = Inr (ex_db4\<lparr>active_turn_projection := t\<rparr>))"
  using rebuild_active_same [OF ex_reachable(4)] ex_reachable(4) by blast

end
