(* ===== verification/Bt_Approval.thy ===== *)
theory Bt_Approval
  imports Bt_Fingerprint
begin

section \<open>Approval decisions\<close>

text \<open>
  \<open>bt-runtime/src/approval.rs\<close>: the decisions a process remembers (\<open>ApprovalState\<close>) and the policy
  that decides without a human (\<open>PolicyApprovalEvaluator\<close>). The three hash maps are maps; the mutex
  and the read-write lock make every operation atomic, so an operation is a function on the state.
  A poisoned lock needs a panic inside one of these operations, which none of them has. The clock is
  an argument, and \<open>quote\<close> is the JSON string quoting of \<open>serde_json\<close> that the fingerprint uses.
\<close>

record call_approval =
  ca_request_fingerprint :: "string option"
  ca_decision :: approval_decision

record approval_store =
  per_call :: "session_id \<times> tool_call_id \<rightharpoonup> call_approval"
  per_session :: "session_id \<times> string \<rightharpoonup> approval_decision"
  global_decisions :: "string \<rightharpoonup> approval_decision"

definition approval_state_default :: approval_store where
  "approval_state_default = \<lparr>per_call = Map.empty, per_session = Map.empty, global_decisions = Map.empty\<rparr>"

fun decision_scope :: "approval_decision \<Rightarrow> approval_scope" where
  "decision_scope (Approved at_time who scope src) = scope"
| "decision_scope (Denied at_time who reason scope src) = scope"

fun decision_source :: "approval_decision \<Rightarrow> approval_decision_source" where
  "decision_source (Approved at_time who scope src) = src"
| "decision_source (Denied at_time who reason scope src) = src"

definition apply_reusable_decision ::
  "session_id \<Rightarrow> string \<Rightarrow> approval_decision \<Rightarrow> approval_store \<Rightarrow> approval_store" where
  "apply_reusable_decision sid fp d st =
     (case decision_scope d of
        Once \<Rightarrow> st
      | Session \<Rightarrow> st\<lparr>per_session := (per_session st)((sid, fp) \<mapsto> d)\<rparr>
      | AlwaysScope \<Rightarrow> st\<lparr>global_decisions := (global_decisions st)(fp \<mapsto> d)\<rparr>)"

definition remember_call ::
  "session_id \<Rightarrow> tool_call_id \<Rightarrow> string option \<Rightarrow> approval_decision \<Rightarrow> approval_store \<Rightarrow> approval_store" where
  "remember_call sid cid fp d st =
     st\<lparr>per_call := (per_call st)((sid, cid) \<mapsto> \<lparr>ca_request_fingerprint = fp, ca_decision = d\<rparr>)\<rparr>"

definition record_call ::
  "session_id \<Rightarrow> tool_call_id \<Rightarrow> approval_decision \<Rightarrow> approval_store \<Rightarrow> approval_store" where
  "record_call sid cid d st = remember_call sid cid None d st"

definition record_for_request ::
  "(string \<Rightarrow> string) \<Rightarrow> approval_request \<Rightarrow> approval_decision \<Rightarrow> approval_store \<Rightarrow> approval_store" where
  "record_for_request quote r d st =
     (let fp = fingerprint quote r
      in apply_reusable_decision (rq_session_id r) fp d
           (remember_call (rq_session_id r) (rq_call_id r) (Some fp) d st))"

definition seed_reusable_decision ::
  "session_id \<Rightarrow> string \<Rightarrow> approval_decision \<Rightarrow> approval_store \<Rightarrow> approval_store" where
  "seed_reusable_decision sid fp d st = apply_reusable_decision sid fp d st"

definition get_decision :: "session_id \<Rightarrow> tool_call_id \<Rightarrow> approval_store \<Rightarrow> approval_decision option" where
  "get_decision sid cid st = map_option ca_decision (per_call st (sid, cid))"

definition matching_call ::
  "approval_request \<Rightarrow> string \<Rightarrow> approval_store \<Rightarrow> call_approval option" where
  "matching_call r fp st =
     (case per_call st (rq_session_id r, rq_call_id r) of
        None \<Rightarrow> None
      | Some a \<Rightarrow> if ca_request_fingerprint a = Some fp then Some a else None)"

definition evaluate_request ::
  "(string \<Rightarrow> string) \<Rightarrow> approval_request \<Rightarrow> approval_store \<Rightarrow> approval_store \<times> approval_decision option" where
  "evaluate_request quote r st =
     (let fp = fingerprint quote r; sid = rq_session_id r; cid = rq_call_id r
      in case matching_call r fp st of
           Some existing \<Rightarrow>
             (if decision_scope (ca_decision existing) = Once
              then st\<lparr>per_call := (per_call st)((sid, cid) := None)\<rparr> else st,
              Some (ca_decision existing))
         | None \<Rightarrow>
             (case per_session st (sid, fp) of
                Some d \<Rightarrow> (remember_call sid cid (Some fp) d st, Some d)
              | None \<Rightarrow>
                  (case global_decisions st fp of
                     Some d \<Rightarrow> (remember_call sid cid (Some fp) d st, Some d)
                   | None \<Rightarrow> (st, None))))"

subsection \<open>Policy\<close>

definition contains_shell_control_syntax :: "string \<Rightarrow> bool" where
  "contains_shell_control_syntax command \<longleftrightarrow>
     list_ex (\<lambda>c. byte_of c \<in> set [59, 38, 124, 60, 62, 96, 36, 92, 10, 13]) command"

definition command_matches_pattern :: "string \<Rightarrow> string \<Rightarrow> bool" where
  "command_matches_pattern command pat =
     (let command = str_trim command; pat = str_trim pat
      in if pat = [] \<or> contains_shell_control_syntax command then False
         else if command = pat then True
         else (case strip_prefix pat command of
                 None \<Rightarrow> False
               | Some remainder \<Rightarrow>
                   (case utf8_chars remainder of [] \<Rightarrow> False | ch # _ \<Rightarrow> is_whitespace ch)))"

record policy_approval_evaluator =
  pe_state :: approval_store
  pe_auto_approve_patterns :: "string list"
  pe_auto_approve_sessions :: "session_id set"

definition policy_evaluator_new :: "string list \<Rightarrow> policy_approval_evaluator" where
  "policy_evaluator_new patterns =
     \<lparr>pe_state = approval_state_default, pe_auto_approve_patterns = patterns,
      pe_auto_approve_sessions = {}\<rparr>"

definition set_session_auto_approval ::
  "session_id \<Rightarrow> bool \<Rightarrow> policy_approval_evaluator \<Rightarrow> policy_approval_evaluator" where
  "set_session_auto_approval sid enabled ev =
     ev\<lparr>pe_auto_approve_sessions :=
       (if enabled then insert sid (pe_auto_approve_sessions ev)
        else pe_auto_approve_sessions ev - {sid})\<rparr>"

definition session_auto_approval :: "session_id \<Rightarrow> policy_approval_evaluator \<Rightarrow> bool" where
  "session_auto_approval sid ev \<longleftrightarrow> sid \<in> pe_auto_approve_sessions ev"

definition command_argument :: "approval_request \<Rightarrow> string" where
  "command_argument r =
     (case json_get ''command'' (rq_arguments r) of
        None \<Rightarrow> []
      | Some v \<Rightarrow> (case json_as_str v of None \<Rightarrow> [] | Some s \<Rightarrow> s))"

definition auto_approve :: "time \<Rightarrow> approval_request \<Rightarrow> policy_approval_evaluator \<Rightarrow> approval_decision option" where
  "auto_approve now r ev =
     (if session_auto_approval (rq_session_id r) ev
      then Some (Approved now ''policy:session-auto-approve'' Once (Policy ''session_auto_approve''))
      else if rq_requirement r = FirstUsePerSession
        \<and> risk_class (rq_tool_metadata r) \<in> {Safe, Moderate}
        \<and> display_group (rq_tool_metadata r) \<noteq> External
      then Some (Approved now ''policy:first-use-session'' Session (Policy ''first_use_session''))
      else if display_group (rq_tool_metadata r) = Execution
      then map_option (\<lambda>pat. Approved now ''policy:shell-pattern'' Session (Policy (''command_pattern:'' @ pat)))
        (List.find (command_matches_pattern (command_argument r)) (pe_auto_approve_patterns ev))
      else None)"

definition policy_evaluate ::
  "(string \<Rightarrow> string) \<Rightarrow> time \<Rightarrow> approval_request \<Rightarrow> policy_approval_evaluator
     \<Rightarrow> policy_approval_evaluator \<times> approval_decision option" where
  "policy_evaluate quote now r ev =
     (case evaluate_request quote r (pe_state ev) of
        (st, Some existing) \<Rightarrow> (ev\<lparr>pe_state := st\<rparr>, Some existing)
      | (st, None) \<Rightarrow>
          (case auto_approve now r ev of
             Some d \<Rightarrow> (ev\<lparr>pe_state := record_for_request quote r d st\<rparr>, Some d)
           | None \<Rightarrow> (ev\<lparr>pe_state := st\<rparr>, None)))"

subsection \<open>Executions\<close>

text \<open>Everything a process does with its evaluator, in the order of the calls.\<close>

datatype approval_op =
  RecordCall session_id tool_call_id approval_decision
| RecordForRequest approval_request approval_decision
| SeedReusable session_id string approval_decision
| EvaluateRequest approval_request
| PolicyEvaluate time approval_request
| SetAutoApproval session_id bool

fun approval_op_step :: "(string \<Rightarrow> string) \<Rightarrow> approval_op \<Rightarrow> policy_approval_evaluator \<Rightarrow> policy_approval_evaluator" where
  "approval_op_step quote (RecordCall sid cid d) ev = ev\<lparr>pe_state := record_call sid cid d (pe_state ev)\<rparr>"
| "approval_op_step quote (RecordForRequest r d) ev = ev\<lparr>pe_state := record_for_request quote r d (pe_state ev)\<rparr>"
| "approval_op_step quote (SeedReusable sid fp d) ev = ev\<lparr>pe_state := seed_reusable_decision sid fp d (pe_state ev)\<rparr>"
| "approval_op_step quote (EvaluateRequest r) ev = ev\<lparr>pe_state := fst (evaluate_request quote r (pe_state ev))\<rparr>"
| "approval_op_step quote (PolicyEvaluate now r) ev = fst (policy_evaluate quote now r ev)"
| "approval_op_step quote (SetAutoApproval sid enabled) ev = set_session_auto_approval sid enabled ev"

definition approval_run :: "(string \<Rightarrow> string) \<Rightarrow> string list \<Rightarrow> approval_op list \<Rightarrow> policy_approval_evaluator" where
  "approval_run quote patterns ops = fold (approval_op_step quote) ops (policy_evaluator_new patterns)"

text \<open>Where a decision \<open>d\<close> for the call \<open>cid\<close> of session \<open>sid\<close> with fingerprint \<open>fp\<close> may come from.\<close>

definition covers :: "approval_decision \<Rightarrow> session_id \<Rightarrow> session_id \<Rightarrow> bool \<Rightarrow> bool" where
  "covers d granted_to sid same_call \<longleftrightarrow>
     (granted_to = sid \<and> (same_call \<or> decision_scope d = Session)) \<or> decision_scope d = AlwaysScope"

fun justifies :: "(string \<Rightarrow> string) \<Rightarrow> session_id \<Rightarrow> tool_call_id \<Rightarrow> string \<Rightarrow> approval_decision \<Rightarrow> approval_op \<Rightarrow> bool" where
  "justifies quote sid cid fp d (RecordForRequest r d') \<longleftrightarrow>
     d' = d \<and> fingerprint quote r = fp \<and> covers d (rq_session_id r) sid (rq_call_id r = cid)"
| "justifies quote sid cid fp d (SeedReusable sid' fp' d') \<longleftrightarrow>
     d' = d \<and> fp' = fp \<and> covers d sid' sid False"
| "justifies quote sid cid fp d (PolicyEvaluate now r) \<longleftrightarrow>
     (\<exists>rule. decision_source d = Policy rule) \<and> fingerprint quote r = fp
     \<and> covers d (rq_session_id r) sid (rq_call_id r = cid)"
| "justifies quote sid cid fp d _ \<longleftrightarrow> False"

definition store_justified :: "(string \<Rightarrow> string) \<Rightarrow> approval_op list \<Rightarrow> approval_store \<Rightarrow> bool" where
  "store_justified quote ops st \<longleftrightarrow>
     (\<forall>sid cid fp d. per_call st (sid, cid) = Some \<lparr>ca_request_fingerprint = Some fp, ca_decision = d\<rparr>
        \<longrightarrow> list_ex (justifies quote sid cid fp d) ops)
   \<and> (\<forall>sid fp d. per_session st (sid, fp) = Some d \<longrightarrow>
        decision_scope d = Session \<and> (\<forall>cid. list_ex (justifies quote sid cid fp d) ops))
   \<and> (\<forall>fp d. global_decisions st fp = Some d \<longrightarrow>
        decision_scope d = AlwaysScope \<and> (\<forall>sid cid. list_ex (justifies quote sid cid fp d) ops))"

lemma store_justifiedD:
  assumes "store_justified quote ops st"
  shows "per_call st (sid, cid) = Some a \<Longrightarrow> ca_request_fingerprint a = Some fp
      \<Longrightarrow> list_ex (justifies quote sid cid fp (ca_decision a)) ops"
    and "per_session st (sid, fp) = Some d \<Longrightarrow> decision_scope d = Session \<and> list_ex (justifies quote sid cid fp d) ops"
    and "global_decisions st fp = Some d \<Longrightarrow> decision_scope d = AlwaysScope \<and> list_ex (justifies quote sid cid fp d) ops"
proof -
  assume "per_call st (sid, cid) = Some a" "ca_request_fingerprint a = Some fp"
  then have "per_call st (sid, cid) = Some \<lparr>ca_request_fingerprint = Some fp, ca_decision = ca_decision a\<rparr>"
    by (cases a) simp
  with assms show "list_ex (justifies quote sid cid fp (ca_decision a)) ops"
    unfolding store_justified_def by blast
qed (use assms in \<open>auto simp: store_justified_def\<close>)

lemma store_justified_snoc: "store_justified quote ops st \<Longrightarrow> store_justified quote (ops @ [op]) st"
  unfolding store_justified_def by (simp add: list_ex_append)

lemma store_justified_remember:
  "store_justified quote ops st \<Longrightarrow> list_ex (justifies quote sid cid fp d) ops
     \<Longrightarrow> store_justified quote ops (remember_call sid cid (Some fp) d st)"
  by (simp add: store_justified_def remember_call_def)

lemma store_justified_forget:
  "store_justified quote ops st \<Longrightarrow> store_justified quote ops (st\<lparr>per_call := (per_call st)(k := None)\<rparr>)"
  by (simp add: store_justified_def)

lemma store_justified_reusable:
  assumes "store_justified quote ops st"
    and "decision_scope d = Session \<Longrightarrow> \<forall>cid. list_ex (justifies quote sid cid fp d) ops"
    and "decision_scope d = AlwaysScope \<Longrightarrow> \<forall>sid cid. list_ex (justifies quote sid cid fp d) ops"
  shows "store_justified quote ops (apply_reusable_decision sid fp d st)"
  using assms by (auto simp: store_justified_def apply_reusable_decision_def split: approval_scope.split)

lemma store_justified_record:
  assumes "store_justified quote ops st"
    and "\<And>sid cid. covers d (rq_session_id r) sid (rq_call_id r = cid)
      \<Longrightarrow> list_ex (justifies quote sid cid (fingerprint quote r) d) ops"
  shows "store_justified quote ops (record_for_request quote r d st)"
  unfolding record_for_request_def Let_def
  by (intro store_justified_reusable store_justified_remember assms(1)) (simp_all add: assms(2) covers_def)

lemma store_justified_evaluate:
  assumes "store_justified quote ops st"
  shows "store_justified quote ops (fst (evaluate_request quote r st))"
  using store_justifiedD(2,3) [OF assms]
  by (auto simp: evaluate_request_def Let_def assms store_justified_forget
      intro!: store_justified_remember split: option.split)

lemma auto_approve_source: "auto_approve now r ev = Some d \<Longrightarrow> \<exists>rule. decision_source d = Policy rule"
  by (auto simp: auto_approve_def split: if_splits)

lemma store_justified_step:
  assumes "store_justified quote ops (pe_state ev)"
  shows "store_justified quote (ops @ [op]) (pe_state (approval_op_step quote op ev))"
proof (cases op)
  case (RecordCall sid cid d)
  then show ?thesis
    using store_justified_snoc [OF assms, of op]
    by (auto simp: record_call_def remember_call_def store_justified_def)
next
  case (RecordForRequest r d)
  then show ?thesis
    by (auto intro!: store_justified_record store_justified_snoc [OF assms])
next
  case (SeedReusable sid fp d)
  then show ?thesis
    by (auto simp: seed_reusable_decision_def covers_def intro!: store_justified_reusable store_justified_snoc [OF assms])
next
  case (PolicyEvaluate now r)
  let ?e = "evaluate_request quote r (pe_state ev)"
  have e: "store_justified quote (ops @ [op]) (fst ?e)"
    by (rule store_justified_evaluate [OF store_justified_snoc [OF assms]])
  have "store_justified quote (ops @ [op]) (record_for_request quote r d (fst ?e))" if "auto_approve now r ev = Some d" for d
    using auto_approve_source [OF that] by (intro store_justified_record e) (simp add: PolicyEvaluate)
  with e show ?thesis
    by (auto simp: PolicyEvaluate policy_evaluate_def split: prod.split option.split)
qed (simp_all add: store_justified_snoc store_justified_evaluate assms set_session_auto_approval_def)

lemma run_justified: "store_justified quote ops (pe_state (approval_run quote patterns ops))"
proof (induction ops rule: rev_induct)
  case Nil
  show ?case
    by (simp add: approval_run_def policy_evaluator_new_def approval_state_default_def store_justified_def)
next
  case (snoc op ops)
  then show ?case
    using store_justified_step by (simp add: approval_run_def)
qed

lemma evaluate_justified:
  assumes "store_justified quote ops st" "evaluate_request quote r st = (st', Some d)"
  shows "list_ex (justifies quote (rq_session_id r) (rq_call_id r) (fingerprint quote r) d) ops"
proof -
  consider a where "matching_call r (fingerprint quote r) st = Some a" "d = ca_decision a"
    | "per_session st (rq_session_id r, fingerprint quote r) = Some d"
    | "global_decisions st (fingerprint quote r) = Some d"
    using assms(2) by (auto simp: evaluate_request_def Let_def split: option.splits if_splits)
  then show ?thesis
  proof cases
    case 1
    then show ?thesis
      using store_justifiedD(1) [OF assms(1)] by (auto simp: matching_call_def split: option.splits if_splits)
  qed (use store_justifiedD(2,3) [OF assms(1)] in blast)+
qed

subsection \<open>Properties\<close>

text \<open>C22: no approval is made up or widened. Whatever a process did before, a stored decision that answers a
  request was recorded for a request with the same fingerprint (or seeded for it from the log, or
  made by the policy), in the same call, in the same session when its scope is the session, or in
  any session only when its scope is global.\<close>

theorem decision_is_justified:
  assumes "evaluate_request quote r (pe_state (approval_run quote patterns ops)) = (st', Some d)"
  shows "\<exists>op \<in> set ops. justifies quote (rq_session_id r) (rq_call_id r) (fingerprint quote r) d op"
  using evaluate_justified [OF run_justified assms] by (simp add: list_ex_iff)

text \<open>A one-time decision answers one request. After a stored decision of scope \<open>Once\<close> has been used, the
  same call finds no one-time decision any more, whatever its arguments.\<close>

theorem once_is_consumed:
  assumes "evaluate_request quote r (pe_state (approval_run quote patterns ops)) = (st', Some d)"
    and "decision_scope d = Once"
    and "rq_session_id r' = rq_session_id r" "rq_call_id r' = rq_call_id r"
    and "evaluate_request quote r' st' = (st'', Some d')"
  shows "decision_scope d' \<noteq> Once"
proof -
  let ?st = "pe_state (approval_run quote patterns ops)"
  note inv = store_justifiedD(2,3) [OF run_justified [of quote ops patterns]]
  have "st' = ?st\<lparr>per_call := (per_call ?st)((rq_session_id r, rq_call_id r) := None)\<rparr>"
    using assms(1,2) inv by (auto simp: evaluate_request_def Let_def split: option.splits if_splits)
  with assms(3-5) have "per_session ?st (rq_session_id r', fingerprint quote r') = Some d'
      \<or> global_decisions ?st (fingerprint quote r') = Some d'"
    by (auto simp: evaluate_request_def matching_call_def Let_def split: option.splits)
  with inv show ?thesis by auto
qed

lemma find_matching_pattern:
  "List.find (command_matches_pattern c) pats = Some p \<Longrightarrow> p \<in> set pats \<and> command_matches_pattern c p"
  using find_SomeD by metis

lemma command_matches_patternD:
  assumes "command_matches_pattern c p"
  shows "\<not> contains_shell_control_syntax (str_trim c) \<and> str_trim p \<noteq> []
    \<and> (\<exists>rest. str_trim c = str_trim p @ rest \<and> (rest = [] \<or> is_whitespace (hd (utf8_chars rest))))"
  using assms
  by (auto simp: command_matches_pattern_def Let_def strip_prefix_Some_iff split: if_splits option.splits list.splits)

text \<open>Without a stored decision and outside auto mode, the policy lets a high-risk tool run only when it is
  a shell command that extends one of the configured patterns by whole words and holds none of the
  shell's control characters; the grant is for this session.\<close>

theorem policy_high_risk:
  assumes "snd (evaluate_request quote r (pe_state ev)) = None"
    and "\<not> session_auto_approval (rq_session_id r) ev"
    and "risk_class (rq_tool_metadata r) = High"
    and "snd (policy_evaluate quote now r ev) = Some d"
  shows "display_group (rq_tool_metadata r) = Execution \<and> decision_scope d = Session
    \<and> \<not> contains_shell_control_syntax (str_trim (command_argument r))
    \<and> (\<exists>pat \<in> set (pe_auto_approve_patterns ev). str_trim pat \<noteq> [] \<and>
         (\<exists>rest. str_trim (command_argument r) = str_trim pat @ rest
            \<and> (rest = [] \<or> is_whitespace (hd (utf8_chars rest)))))"
proof -
  have "auto_approve now r ev = Some d"
    using assms(1,4) by (auto simp: policy_evaluate_def split: prod.splits option.splits)
  with assms(2,3) obtain p where g: "display_group (rq_tool_metadata r) = Execution" "decision_scope d = Session"
    and p: "List.find (command_matches_pattern (command_argument r)) (pe_auto_approve_patterns ev) = Some p"
    by (auto simp: auto_approve_def split: if_splits)
  from find_matching_pattern [OF p] g show ?thesis
    using command_matches_patternD by blast
qed

text \<open>Auto mode leaves no reusable grant behind: when it approves a call, every request of another call or
  another session is answered from the store exactly as before.\<close>

theorem auto_mode_grants_one_call:
  assumes "session_auto_approval (rq_session_id r) ev"
    and "snd (evaluate_request quote r (pe_state ev)) = None"
    and "(rq_session_id r', rq_call_id r') \<noteq> (rq_session_id r, rq_call_id r)"
  shows "snd (evaluate_request quote r' (pe_state (fst (policy_evaluate quote now r ev))))
    = snd (evaluate_request quote r' (pe_state ev))"
proof -
  have "fst (evaluate_request quote r (pe_state ev)) = pe_state ev"
    using assms(2) by (auto simp: evaluate_request_def Let_def split: option.splits)
  with assms(1,2) have "pe_state (fst (policy_evaluate quote now r ev)) = remember_call (rq_session_id r)
      (rq_call_id r) (Some (fingerprint quote r))
      (Approved now ''policy:session-auto-approve'' Once (Policy ''session_auto_approve'')) (pe_state ev)"
    by (auto simp: policy_evaluate_def auto_approve_def record_for_request_def apply_reusable_decision_def Let_def
        split: prod.splits option.splits)
  moreover have "matching_call r' fp (remember_call (rq_session_id r) (rq_call_id r) f d st) = matching_call r' fp st" for fp f d st
    using assms(3) by (auto simp: matching_call_def remember_call_def)
  ultimately show ?thesis
    by (simp add: evaluate_request_def Let_def remember_call_def split: option.split)
qed

subsection \<open>Witnesses\<close>

definition ex_once :: approval_decision where
  "ex_once = Approved 5 ''user'' Once Human"

definition ex_call :: approval_request where
  "ex_call = ex_request ''c1'' (JObject [(''command'', JString ''git status'')])"

definition ex_evaluator :: policy_approval_evaluator where
  "ex_evaluator = policy_evaluator_new [''git status'']"

lemma ex_call_simps [simp]:
  "rq_session_id ex_call = SessionId ''s''" "rq_call_id ex_call = ToolCallId ''c1''"
  "risk_class (rq_tool_metadata ex_call) = High" "display_group (rq_tool_metadata ex_call) = Execution"
  by (simp_all add: ex_call_def ex_request_def)

lemma ex_recorded_run:
  "evaluate_request id ex_call (pe_state (approval_run id [] [RecordForRequest ex_call ex_once]))
     = (approval_state_default, Some ex_once)"
  by (simp add: approval_run_def record_for_request_def evaluate_request_def matching_call_def remember_call_def
      policy_evaluator_new_def approval_state_default_def apply_reusable_decision_def ex_once_def Let_def)

theorem decision_is_justified_witness:
  "\<exists>op \<in> set [RecordForRequest ex_call ex_once].
     justifies id (SessionId ''s'') (ToolCallId ''c1'') (fingerprint id ex_call) ex_once op"
  using decision_is_justified [OF ex_recorded_run] by simp

lemma ex_fresh_evaluator: "snd (evaluate_request quote r (pe_state ex_evaluator)) = None"
  by (simp add: ex_evaluator_def policy_evaluator_new_def approval_state_default_def evaluate_request_def
      matching_call_def Let_def)

lemma ex_policy: "snd (policy_evaluate id 9 ex_call ex_evaluator) =
  Some (Approved 9 ''policy:shell-pattern'' Session (Policy ''command_pattern:git status''))"
proof -
  have "command_argument ex_call = ''git status''"
    by (simp add: command_argument_def ex_call_def ex_request_def)
  moreover have "command_matches_pattern ''git status'' ''git status''"
    by code_simp
  moreover have "evaluate_request id ex_call (pe_state ex_evaluator) = (pe_state ex_evaluator, None)"
    by (simp add: ex_evaluator_def policy_evaluator_new_def approval_state_default_def evaluate_request_def
      matching_call_def Let_def)
  ultimately show ?thesis
    by (simp add: policy_evaluate_def auto_approve_def session_auto_approval_def ex_evaluator_def
        policy_evaluator_new_def)
qed

theorem policy_high_risk_witness:
  "\<exists>pat \<in> set (pe_auto_approve_patterns ex_evaluator). str_trim pat \<noteq> [] \<and>
     (\<exists>rest. str_trim (command_argument ex_call) = str_trim pat @ rest
        \<and> (rest = [] \<or> is_whitespace (hd (utf8_chars rest))))"
  using policy_high_risk [OF ex_fresh_evaluator _ _ ex_policy]
  by (simp add: session_auto_approval_def ex_evaluator_def policy_evaluator_new_def)

definition ex_session_wide :: approval_decision where
  "ex_session_wide = Approved 4 ''user'' Session Human"

definition ex_mixed_ops :: "approval_op list" where
  "ex_mixed_ops = [SeedReusable (SessionId ''s'') (fingerprint id ex_call) ex_session_wide, RecordForRequest ex_call ex_once]"

lemma ex_mixed_run:
  "evaluate_request id ex_call (pe_state (approval_run id [] ex_mixed_ops))
     = (seed_reusable_decision (SessionId ''s'') (fingerprint id ex_call) ex_session_wide approval_state_default, Some ex_once)"
  by (simp add: ex_mixed_ops_def approval_run_def record_for_request_def evaluate_request_def matching_call_def remember_call_def
      policy_evaluator_new_def approval_state_default_def seed_reusable_decision_def apply_reusable_decision_def ex_once_def
      ex_session_wide_def Let_def)

lemma ex_second_evaluation:
  "snd (evaluate_request id ex_call (seed_reusable_decision (SessionId ''s'') (fingerprint id ex_call) ex_session_wide
      approval_state_default)) = Some ex_session_wide"
  by (simp add: evaluate_request_def matching_call_def approval_state_default_def seed_reusable_decision_def
      apply_reusable_decision_def ex_session_wide_def Let_def)

theorem once_is_consumed_witness: "decision_scope ex_once = Once \<and> decision_scope ex_session_wide \<noteq> Once"
proof -
  let ?st = "seed_reusable_decision (SessionId ''s'') (fingerprint id ex_call) ex_session_wide approval_state_default"
  have "evaluate_request id ex_call ?st = (fst (evaluate_request id ex_call ?st), Some ex_session_wide)"
    using ex_second_evaluation by (metis prod.collapse)
  from once_is_consumed [OF ex_mixed_run _ refl refl this]
  show ?thesis by (simp add: ex_once_def)
qed

theorem auto_mode_grants_one_call_witness:
  "snd (evaluate_request id (ex_request ''c2'' ex_arguments) (pe_state (fst (policy_evaluate id 9 ex_call
       (set_session_auto_approval (SessionId ''s'') True ex_evaluator))))) = None"
proof -
  let ?ev = "set_session_auto_approval (SessionId ''s'') True ex_evaluator"
  have st: "pe_state ?ev = pe_state ex_evaluator" by (simp add: set_session_auto_approval_def)
  have "session_auto_approval (rq_session_id ex_call) ?ev"
    by (simp add: session_auto_approval_def set_session_auto_approval_def)
  from auto_mode_grants_one_call [OF this, of id "ex_request ''c2'' ex_arguments" 9]
  show ?thesis by (simp add: st ex_fresh_evaluator) (simp add: ex_request_def)
qed

end
