(* ===== verification/Bt_Strings.thy ===== *)
theory Bt_Strings
  imports Bt_Prelude
begin

section \<open>More of the standard library on strings\<close>

text \<open>
  The \<open>str\<close> and \<open>String\<close> methods the text-processing crates use. A method that can panic returns an
  option: \<open>None\<close> is the panic. Sizes and token counts are natural numbers with the saturation at
  \<open>u64::MAX\<close> written out where the source asks for it.
\<close>

definition u64_max :: nat where
  "u64_max = 2 ^ 64 - 1"

definition sat_add :: "nat \<Rightarrow> nat \<Rightarrow> nat" where
  "sat_add a b = min (a + b) u64_max"

definition clamp :: "nat \<Rightarrow> nat \<Rightarrow> nat \<Rightarrow> nat" where
  "clamp lo hi x = (if x < lo then lo else if x > hi then hi else x)"

lemma sat_add_le: "sat_add a b \<le> a + b"
  by (simp add: sat_add_def)

lemma sat_add_mono1: "a \<le> sat_add a b \<or> u64_max < a"
  by (auto simp: sat_add_def)

lemma sat_add_le_iff: "c < u64_max \<Longrightarrow> sat_add a b \<le> c \<longleftrightarrow> a + b \<le> c"
  by (auto simp: sat_add_def min_def)

lemma clamp_bounds: "lo \<le> hi \<Longrightarrow> lo \<le> clamp lo hi x \<and> clamp lo hi x \<le> hi"
  by (simp add: clamp_def)

lemma clamp_le: "clamp lo hi x \<le> max lo x"
  by (simp add: clamp_def)

definition nl :: char where
  "nl = char_of (10 :: nat)"

definition cr :: char where
  "cr = char_of (13 :: nat)"

text \<open>\<open>is_char_boundary\<close> and \<open>String::truncate\<close>: the latter panics inside a character.\<close>

definition is_char_boundary :: "nat \<Rightarrow> string \<Rightarrow> bool" where
  "is_char_boundary i s \<longleftrightarrow> i = 0 \<or> i = length s \<or> (i < length s \<and> \<not> is_continuation (s ! i))"

definition str_truncate :: "nat \<Rightarrow> string \<Rightarrow> string option" where
  "str_truncate n s =
     (if length s < n then Some s else if is_char_boundary n s then Some (take n s) else None)"

text \<open>\<open>str::lines\<close>: split after every newline; a line that ended in a newline loses it and a carriage
  return before it.\<close>

definition strip_cr :: "string \<Rightarrow> string" where
  "strip_cr l = (if l \<noteq> [] \<and> last l = cr then butlast l else l)"

function str_lines :: "string \<Rightarrow> string list" where
  "str_lines s =
     (if s = [] then []
      else (case dropWhile (\<lambda>c. c \<noteq> nl) s of
              [] \<Rightarrow> [s]
            | c # rest \<Rightarrow> strip_cr (takeWhile (\<lambda>c. c \<noteq> nl) s) # str_lines rest))"
  by pat_completeness auto
termination
proof (relation "measure length")
  fix s c and rest :: string
  assume "dropWhile (\<lambda>c. c \<noteq> nl) s = c # rest"
  then have "length (c # rest) \<le> length s" by (metis length_dropWhile_le)
  then show "(rest, s) \<in> measure length" by simp
qed simp

declare str_lines.simps [simp del]

lemma str_lines_single: "s \<noteq> [] \<Longrightarrow> nl \<notin> set s \<Longrightarrow> str_lines s = [s]"
proof -
  assume s: "s \<noteq> []" "nl \<notin> set s"
  then have d: "dropWhile (\<lambda>c. c \<noteq> nl) s = []" by (auto simp: dropWhile_eq_Nil_conv)
  show ?thesis by (subst str_lines.simps) (simp only: d s(1) if_False list.case)
qed

text \<open>\<open>str::split\<close> at one character.\<close>

fun str_split :: "char \<Rightarrow> string \<Rightarrow> string list" where
  "str_split d [] = [[]]"
| "str_split d (c # cs) =
     (if c = d then [] # str_split d cs
      else case str_split d cs of [] \<Rightarrow> [[c]] | w # ws \<Rightarrow> (c # w) # ws)"

definition replace_nl :: "string \<Rightarrow> string" where
  "replace_nl s = map (\<lambda>c. if c = nl then CHR '' '' else c) s"

definition is_digit :: "char \<Rightarrow> bool" where
  "is_digit c \<longleftrightarrow> 48 \<le> byte_of c \<and> byte_of c \<le> 57"

fun digits_value :: "nat \<Rightarrow> string \<Rightarrow> nat" where
  "digits_value acc [] = acc"
| "digits_value acc (c # cs) = digits_value (10 * acc + (byte_of c - 48)) cs"

text \<open>\<open>str::parse\<close> into an unsigned integer below \<open>bound\<close>: an optional plus sign, then digits only.\<close>

definition parse_unsigned :: "nat \<Rightarrow> string \<Rightarrow> nat option" where
  "parse_unsigned bound s =
     (let ds = (case s of c # d # rest \<Rightarrow> if c = CHR ''+'' then d # rest else s | _ \<Rightarrow> s)
      in if ds \<noteq> [] \<and> list_all is_digit ds \<and> digits_value 0 ds < bound then Some (digits_value 0 ds) else None)"

subsection \<open>Counting characters\<close>

definition is_ascii :: "string \<Rightarrow> bool" where
  "is_ascii s \<longleftrightarrow> list_all (\<lambda>c. byte_of c < 128) s"

lemma is_ascii_simps [simp]:
  "is_ascii []" "is_ascii (c # s) \<longleftrightarrow> byte_of c < 128 \<and> is_ascii s"
  "is_ascii (s @ t) \<longleftrightarrow> is_ascii s \<and> is_ascii t"
  by (simp_all add: is_ascii_def)

lemma is_ascii_truncate: "is_ascii s \<Longrightarrow> str_truncate n s = Some (take n s)"
  by (cases "n < length s") (auto simp: str_truncate_def is_char_boundary_def is_ascii_def is_continuation_def
      list_all_length not_less dest!: spec [of _ n])

lemma chars_count_le: "chars_count s \<le> length s"
proof (induction s rule: utf8_chars.induct)
  case (2 c cs)
  then show ?case
    using length_dropWhile_le [of is_continuation cs] by (simp add: chars_count_def)
qed (simp add: chars_count_def)

lemma dropWhile_append_le: "length (utf8_chars (dropWhile is_continuation s)) \<le> length (utf8_chars s)"
  by (cases s) simp_all

lemma chars_count_append: "chars_count (s @ t) \<le> chars_count s + chars_count t"
proof (induction s rule: utf8_chars.induct)
  case (2 c cs)
  show ?case
  proof (cases "\<forall>x \<in> set cs. is_continuation x")
    case True
    then have "takeWhile is_continuation cs = cs" "dropWhile is_continuation cs = []" by auto
    then show ?thesis
      using True dropWhile_append_le [of t] by (simp add: chars_count_def dropWhile_append1 dropWhile_append2)
  next
    case False
    then have "dropWhile is_continuation (cs @ t) = dropWhile is_continuation cs @ t"
      by (auto simp: dropWhile_append1)
    with 2 show ?thesis by (simp add: chars_count_def)
  qed
qed (simp add: chars_count_def)

lemma chars_count_take: "chars_count (chars_take n s) \<le> n"
proof -
  have "chars_count (concat xs) \<le> length xs" if "\<forall>x \<in> set xs. chars_count x \<le> 1" for xs
    using that
  proof (induction xs)
    case (Cons x xs)
    then show ?case using chars_count_append [of x "concat xs"] by simp
  qed (simp add: chars_count_def)
  moreover have "\<forall>x \<in> set (utf8_chars s). chars_count x \<le> 1"
  proof (induction s rule: utf8_chars.induct)
    case (2 c cs)
    then show ?case by (auto simp: chars_count_def dest: set_takeWhileD)
  qed simp
  ultimately have "chars_count (chars_take n s) \<le> length (take n (utf8_chars s))"
    unfolding chars_take_def by (meson in_set_takeD)
  then show ?thesis by simp
qed

lemma chars_count_ascii: "is_ascii s \<Longrightarrow> chars_count s = length s"
proof (induction s rule: utf8_chars.induct)
  case (2 c cs)
  then have "\<not> is_continuation (hd cs)" if "cs \<noteq> []" using that by (cases cs) (auto simp: is_continuation_def)
  then have "takeWhile is_continuation cs = []" "dropWhile is_continuation cs = cs"
    by (cases cs; simp)+
  with 2 show ?case by (simp add: chars_count_def)
qed (simp add: chars_count_def)

subsection \<open>Character boundaries\<close>

text \<open>A \<open>str\<close> always starts at a character boundary.\<close>

definition wf_char :: "string \<Rightarrow> bool" where
  "wf_char c \<longleftrightarrow> c \<noteq> [] \<and> \<not> is_continuation (hd c) \<and> list_all is_continuation (tl c)"

definition starts_char :: "string \<Rightarrow> bool" where
  "starts_char s \<longleftrightarrow> s = [] \<or> \<not> is_continuation (hd s)"

lemma starts_char_concat: "list_all wf_char cs \<Longrightarrow> starts_char (concat cs)"
  by (cases cs) (auto simp: starts_char_def wf_char_def hd_append)

lemma utf8_chars_append_char:
  assumes "wf_char c" "starts_char s"
  shows "utf8_chars (c @ s) = c # utf8_chars s"
proof -
  obtain h t where c: "c = h # t" "list_all is_continuation t" using assms(1) by (cases c) (auto simp: wf_char_def)
  have "takeWhile is_continuation (t @ s) = t" "dropWhile is_continuation (t @ s) = s"
    using assms(2) c(2) by (cases s; simp add: starts_char_def list_all_iff)+
  with c show ?thesis by simp
qed

lemma utf8_chars_concat: "list_all wf_char cs \<Longrightarrow> utf8_chars (concat cs) = cs"
proof (induction cs)
  case (Cons c cs)
  then have "utf8_chars (c @ concat cs) = c # utf8_chars (concat cs)"
    by (intro utf8_chars_append_char starts_char_concat) simp_all
  with Cons show ?case by simp
qed simp

lemma wf_utf8_chars: "starts_char s \<Longrightarrow> list_all wf_char (utf8_chars s)"
proof (induction s rule: utf8_chars.induct)
  case (2 c cs)
  have "starts_char (dropWhile is_continuation cs)"
    unfolding starts_char_def using hd_dropWhile by blast
  then have "list_all wf_char (utf8_chars (dropWhile is_continuation cs))" by (rule "2.IH")
  moreover have "list_all is_continuation (takeWhile is_continuation cs)"
    by (induction cs) simp_all
  then have "wf_char (c # takeWhile is_continuation cs)" using "2.prems" by (simp add: wf_char_def starts_char_def)
  ultimately show ?case by simp
qed simp

lemma utf8_chars_ascii_append:
  "is_ascii a \<Longrightarrow> starts_char s \<Longrightarrow> utf8_chars (a @ s) = map (\<lambda>c. [c]) a @ utf8_chars s"
proof (induction a)
  case (Cons c a)
  then have "starts_char (a @ s)"
    by (cases a) (auto simp: starts_char_def is_continuation_def)
  moreover have "wf_char [c]" using Cons by (simp add: wf_char_def is_continuation_def)
  ultimately show ?case using Cons utf8_chars_append_char [of "[c]" "a @ s"] by simp
qed simp

lemma dropWhile_rev_commute: "dropWhile P (rev (dropWhile P (rev xs))) = rev (dropWhile P (rev (dropWhile P xs)))"
proof (cases "\<forall>x \<in> set xs. P x")
  case False
  define ys where "ys = takeWhile P xs"
  from False obtain x zs where d: "dropWhile P xs = x # zs" by (cases "dropWhile P xs") (auto simp: dropWhile_eq_Nil_conv)
  then have xs: "xs = ys @ x # zs" and x: "\<not> P x"
    unfolding ys_def by (metis takeWhile_dropWhile_id, metis hd_dropWhile list.discI list.sel(1))
  have "\<forall>y \<in> set ys. P y" by (auto simp: ys_def dest: set_takeWhileD)
  moreover have "dropWhile P (rev zs @ x # rest) = dropWhile P (rev zs @ [x]) @ rest" for rest
    using x by (metis append.assoc append_Cons append_Nil dropWhile_append1 in_set_conv_decomp)
  moreover have "dropWhile P (rev zs @ [x]) = dropWhile P (rev zs) @ [x]" using x by (rule dropWhile_append3)
  ultimately show ?thesis using x by (simp add: xs dropWhile_append2)
qed (simp add: dropWhile_eq_Nil_conv [THEN iffD2])

lemma concat_chars_Nil: "list_all wf_char cs \<Longrightarrow> concat cs = [] \<longleftrightarrow> cs = []"
  by (cases cs) (auto simp: wf_char_def)

text \<open>Trimming, on the list of characters.\<close>

definition trim_chars :: "string list \<Rightarrow> string list" where
  "trim_chars cs = rev (dropWhile is_whitespace (rev (dropWhile is_whitespace cs)))"

lemma str_trim_concat: "list_all wf_char cs \<Longrightarrow> str_trim (concat cs) = concat (trim_chars cs)"
  by (simp add: str_trim_def trim_chars_def utf8_chars_concat)

lemma set_trim_chars: "set (trim_chars cs) \<subseteq> set cs"
  by (auto simp: trim_chars_def dest!: set_dropWhileD)

lemma wf_trim_chars: "list_all wf_char cs \<Longrightarrow> list_all wf_char (trim_chars cs)"
  using set_trim_chars [of cs] by (auto simp: list_all_iff)

lemma trim_chars_Nil_iff: "trim_chars cs = [] \<longleftrightarrow> (\<forall>c \<in> set cs. is_whitespace c)"
  by (auto simp: trim_chars_def dropWhile_eq_Nil_conv dest: set_dropWhileD)
    (metis Un_iff set_append takeWhile_dropWhile_id set_takeWhileD)

lemma trim_chars_Cons_space: "is_whitespace c \<Longrightarrow> trim_chars (c # cs) = trim_chars cs"
  by (simp add: trim_chars_def)

lemma trim_chars_end:
  "trim_chars (rev (dropWhile is_whitespace (rev cs))) = trim_chars cs"
  by (simp add: trim_chars_def dropWhile_rev_commute dropWhile_idem)

end
