(* ===== verification/Bt_Compaction.thy ===== *)
theory Bt_Compaction
  imports Bt_Strings Bt_Events
begin

section \<open>Context compaction\<close>

text \<open>
  The compaction half of \<open>bt-context/src/lib.rs\<close>: token estimates, the truncation of tool output, the
  grouping of messages into units that are never cut, the choice of what stays in the context, and
  the summary that stands for what leaves it.

  \<open>js\<close> is \<open>serde_json::Value::to_string\<close>. The fresh id and the clock reading of the summary message
  are arguments. Token counts are natural numbers; the sums of estimates are plain sums, since
  \<open>2 ^ 64\<close> estimated tokens need more than \<open>2 ^ 61\<close> characters of text. \<open>String::truncate\<close> panics when
  it would cut a character, so every function that reaches it returns an option with \<open>None\<close> for the
  panic.
\<close>

definition COMPACTION_SUMMARY_MARKER :: string where
  "COMPACTION_SUMMARY_MARKER = ''[compaction summary]''"

definition LEGACY_SUMMARY_FIRST_LINE :: string where
  "LEGACY_SUMMARY_FIRST_LINE = ''Earlier conversation compacted to fit the model context window.''"

definition SUMMARY_BUDGET_MIN_TOKENS :: nat where
  "SUMMARY_BUDGET_MIN_TOKENS = 64"

definition SUMMARY_BUDGET_MAX_TOKENS :: nat where
  "SUMMARY_BUDGET_MAX_TOKENS = 4096"

subsection \<open>Estimates\<close>

definition estimate_text_tokens :: "string \<Rightarrow> nat" where
  "estimate_text_tokens s = chars_count s div 4 + 8"

fun estimate_message_part_tokens :: "(json \<Rightarrow> string) \<Rightarrow> message_part \<Rightarrow> nat" where
  "estimate_message_part_tokens js (Text t) = estimate_text_tokens t"
| "estimate_message_part_tokens js (ToolCall c) =
     estimate_text_tokens (tc_tool_name c) + estimate_text_tokens (js (tc_arguments c))"
| "estimate_message_part_tokens js (ToolResult r) =
     estimate_text_tokens (tr_tool_name r) + estimate_text_tokens (js (tr_output r))"
| "estimate_message_part_tokens js (Refusal (Some t) reason meta) = estimate_text_tokens t"
| "estimate_message_part_tokens js (Refusal None reason meta) = 0"
| "estimate_message_part_tokens js (Structured name v) = estimate_text_tokens (js v)"
| "estimate_message_part_tokens js (Reasoning t redacted meta) = 0"

definition estimate_message_tokens :: "(json \<Rightarrow> string) \<Rightarrow> message \<Rightarrow> nat" where
  "estimate_message_tokens js m = sum_list (map (estimate_message_part_tokens js) (m_parts m))"

definition estimate_messages_tokens :: "(json \<Rightarrow> string) \<Rightarrow> message list \<Rightarrow> nat" where
  "estimate_messages_tokens js ms = sum_list (map (estimate_message_tokens js) ms)"

subsection \<open>Truncation of tool output\<close>

definition truncate_text :: "string \<Rightarrow> nat \<Rightarrow> nat \<Rightarrow> string option" where
  "truncate_text text_in max_lines max_bytes =
     (let joined = join_with [nl] (take max_lines (str_lines text_in))
      in Option.bind (if length joined > max_bytes then str_truncate max_bytes joined else Some joined)
           (\<lambda>lines. Some (if lines \<noteq> text_in then lines @ [nl] @ ''...[truncated]'' else lines)))"

definition truncate_entry :: "nat \<Rightarrow> nat \<Rightarrow> string \<times> json \<Rightarrow> (string \<times> json) option" where
  "truncate_entry max_lines max_bytes e =
     (case e of (key, JString s) \<Rightarrow>
        (if key \<in> set [''content'', ''stdout'', ''stderr'']
         then map_option (\<lambda>s. (key, JString s)) (truncate_text s max_lines max_bytes) else Some e)
      | _ \<Rightarrow> Some e)"

fun truncate_tool_output :: "nat \<Rightarrow> nat \<Rightarrow> json \<Rightarrow> json option" where
  "truncate_tool_output max_lines max_bytes (JObject es) =
     map_option JObject (those (map (truncate_entry max_lines max_bytes) es))"
| "truncate_tool_output max_lines max_bytes (JString s) =
     map_option JString (truncate_text s max_lines max_bytes)"
| "truncate_tool_output max_lines max_bytes v = Some v"

fun normalize_part :: "nat \<Rightarrow> nat \<Rightarrow> message_part \<Rightarrow> message_part option" where
  "normalize_part max_lines max_bytes (ToolResult r) =
     map_option (\<lambda>out. ToolResult (r\<lparr>tr_output := out\<rparr>)) (truncate_tool_output max_lines max_bytes (tr_output r))"
| "normalize_part max_lines max_bytes p = Some p"

definition normalize_message :: "nat \<Rightarrow> nat \<Rightarrow> message \<Rightarrow> message option" where
  "normalize_message max_lines max_bytes m =
     map_option (\<lambda>parts. m\<lparr>m_parts := parts\<rparr>) (those (map (normalize_part max_lines max_bytes) (m_parts m)))"

definition normalize_messages :: "nat \<Rightarrow> nat \<Rightarrow> message list \<Rightarrow> message list option" where
  "normalize_messages max_lines max_bytes ms = those (map (normalize_message max_lines max_bytes) ms)"

subsection \<open>Message units\<close>

text \<open>A \<open>MessageUnit\<close> has the one field \<open>messages\<close>.\<close>

type_synonym message_unit = "message list"

definition message_tool_call_ids :: "message \<Rightarrow> string list" where
  "message_tool_call_ids m =
     List.map_filter (\<lambda>p. case p of ToolCall c \<Rightarrow> Some (tc_call_id c) | _ \<Rightarrow> None) (m_parts m)"

definition message_tool_result_ids :: "message \<Rightarrow> string list" where
  "message_tool_result_ids m =
     List.map_filter (\<lambda>p. case p of ToolResult r \<Rightarrow> Some (tool_call_id_text (tr_call_id r)) | _ \<Rightarrow> None) (m_parts m)"

text \<open>The inner loop: while calls are pending, the unit takes the next message.\<close>

fun absorb_unit :: "string set \<Rightarrow> message list \<Rightarrow> message list \<times> message list" where
  "absorb_unit pending [] = ([], [])"
| "absorb_unit pending (m # ms) =
     (if pending = {} then ([], m # ms)
      else let (u, rest) = absorb_unit
             (pending - set (message_tool_result_ids m) \<union> set (message_tool_call_ids m)) ms
           in (m # u, rest))"

lemma absorb_unit_append: "absorb_unit pending ms = (u, rest) \<Longrightarrow> ms = u @ rest"
  by (induction pending ms arbitrary: u rest rule: absorb_unit.induct)
    (auto split: if_splits prod.splits)

function build_message_units :: "message list \<Rightarrow> message_unit list" where
  "build_message_units [] = []"
| "build_message_units (m # ms) =
     (case absorb_unit (set (message_tool_call_ids m)) ms of
        (u, rest) \<Rightarrow> (m # u) # build_message_units rest)"
  by pat_completeness auto
termination
  by (relation "measure length") (auto dest!: absorb_unit_append [OF sym])

abbreviation flatten_units :: "message_unit list \<Rightarrow> message list" where
  "flatten_units \<equiv> concat"

subsection \<open>Earlier summaries\<close>

definition normalize_summary_body :: "string \<Rightarrow> string" where
  "normalize_summary_body s =
     (let trimmed = str_trim s
      in str_trim (case strip_prefix COMPACTION_SUMMARY_MARKER trimmed of None \<Rightarrow> trimmed | Some r \<Rightarrow> r))"

definition summary_message_body :: "message \<Rightarrow> string option" where
  "summary_message_body m =
     (if m_role m \<noteq> RSystem then None
      else let trimmed = str_trim_start (join_with [nl] (text_parts m))
           in if prefix COMPACTION_SUMMARY_MARKER trimmed \<or> prefix LEGACY_SUMMARY_FIRST_LINE trimmed
              then let body = normalize_summary_body trimmed in if body \<noteq> [] then Some body else None
              else None)"

fun extract_summary_messages :: "message list \<Rightarrow> string list \<Rightarrow> message list \<Rightarrow> string list \<times> message list" where
  "extract_summary_messages [] folded remaining = (folded, remaining)"
| "extract_summary_messages (m # ms) folded remaining =
     (case summary_message_body m of
        Some body \<Rightarrow> extract_summary_messages ms (if body \<in> set folded then folded else folded @ [body]) remaining
      | None \<Rightarrow> extract_summary_messages ms folded (remaining @ [m]))"

subsection \<open>What stays\<close>

definition split_system_prefix :: "message list \<Rightarrow> message list \<times> message list" where
  "split_system_prefix ms = (takeWhile (\<lambda>m. m_role m = RSystem) ms, dropWhile (\<lambda>m. m_role m = RSystem) ms)"

text \<open>The walk from the newest unit; the first argument list is the units in reverse.\<close>

fun take_tail :: "(json \<Rightarrow> string) \<Rightarrow> nat \<Rightarrow> message_unit list \<Rightarrow> message_unit list \<Rightarrow> nat
     \<Rightarrow> message_unit list \<times> message_unit list" where
  "take_tail js budget [] tail tokens = ([], tail)"
| "take_tail js budget (u # us) tail tokens =
     (let unit_tokens = estimate_messages_tokens js u
      in if tail = [] \<or> sat_add tokens unit_tokens \<le> budget
         then take_tail js budget us (u # tail) (sat_add tokens unit_tokens)
         else (rev (u # us), tail))"

definition opens_on_tool :: "message_unit \<Rightarrow> bool" where
  "opens_on_tool u = (case u of [] \<Rightarrow> False | m # _ \<Rightarrow> m_role m = RTool)"

fun drop_orphans :: "message_unit list \<Rightarrow> message_unit list \<Rightarrow> message_unit list \<times> message_unit list" where
  "drop_orphans dropped (u # v # rest) =
     (if opens_on_tool u then drop_orphans (dropped @ [u]) (v # rest) else (dropped, u # v # rest))"
| "drop_orphans dropped tail = (dropped, tail)"

text \<open>The walk over the dropped messages from the newest.\<close>

fun select_users :: "(json \<Rightarrow> string) \<Rightarrow> nat \<Rightarrow> message list \<Rightarrow> nat \<Rightarrow> message_id set \<Rightarrow> message_id set" where
  "select_users js budget [] used ids = ids"
| "select_users js budget (m # ms) used ids =
     (if m_role m \<noteq> RUser \<or> text_parts m = [] \<or> sat_add used (estimate_message_tokens js m) > budget
      then select_users js budget ms used ids
      else select_users js budget ms (sat_add used (estimate_message_tokens js m)) (insert (m_message_id m) ids))"

fun age_forced :: "bool \<Rightarrow> message list \<Rightarrow> message_unit list \<Rightarrow> message list \<times> message_unit list" where
  "age_forced force dropped (u # v # rest) =
     (if force \<and> dropped = [] then age_forced force (dropped @ u) (v # rest) else (dropped, u # v # rest))"
| "age_forced force dropped tail = (dropped, tail)"

definition selection_total :: "(json \<Rightarrow> string) \<Rightarrow> nat \<Rightarrow> nat \<Rightarrow> message list \<Rightarrow> message_unit list \<Rightarrow> nat" where
  "selection_total js prefix_tokens summary_budget users tail =
     sat_add (sat_add (sat_add prefix_tokens (estimate_messages_tokens js users)) summary_budget)
       (estimate_messages_tokens js (flatten_units tail))"

function shrink_selection ::
  "(json \<Rightarrow> string) \<Rightarrow> nat \<Rightarrow> nat \<Rightarrow> nat \<Rightarrow> message list \<Rightarrow> message_unit list \<Rightarrow> message list
     \<Rightarrow> message list \<times> message_unit list \<times> message list" where
  "shrink_selection js budget prefix_tokens summary_budget users tail dropped =
     (if selection_total js prefix_tokens summary_budget users tail \<le> budget then (users, tail, dropped)
      else (case users of
              removed # users' \<Rightarrow>
                shrink_selection js budget prefix_tokens summary_budget users' tail
                  (sort_key m_created_at (dropped @ [removed]))
            | [] \<Rightarrow>
                (case tail of
                   u # v # rest \<Rightarrow>
                     shrink_selection js budget prefix_tokens summary_budget [] (v # rest) (dropped @ u)
                 | _ \<Rightarrow> (users, tail, dropped))))"
  by pat_completeness auto
termination
  by (relation "measure (\<lambda>(js, budget, pt, sb, users, tail, dropped). length users + length tail)") auto

declare shrink_selection.simps [simp del]

record retention_selection =
  rs_pinned_prefix :: "message list"
  rs_retained_users :: "message list"
  rs_tail :: "message list"
  rs_dropped :: "message list"
  rs_folded_summaries :: "string list"
  rs_summary_budget :: nat
  rs_messages_before :: u32

definition fold_previous_summary :: "string option \<Rightarrow> string list \<Rightarrow> string list" where
  "fold_previous_summary previous folded =
     (case previous of
        None \<Rightarrow> folded
      | Some p \<Rightarrow>
          (let body = normalize_summary_body p
           in if body \<noteq> [] \<and> body \<notin> set folded then body # folded else folded))"

definition summary_budget_of :: "nat \<Rightarrow> nat" where
  "summary_budget_of available = clamp SUMMARY_BUDGET_MIN_TOKENS SUMMARY_BUDGET_MAX_TOKENS (available div 8)"

definition resolve_retention_selection ::
  "(json \<Rightarrow> string) \<Rightarrow> message list \<Rightarrow> nat \<Rightarrow> nat \<Rightarrow> bool \<Rightarrow> string option \<Rightarrow> retention_selection" where
  "resolve_retention_selection js messages budget_tokens user_budget_config force previous_summary =
     (let (folded, remaining) = extract_summary_messages messages [] [];
          folded = fold_previous_summary previous_summary folded;
          (pinned, remainder) = split_system_prefix remaining;
          prefix_tokens = estimate_messages_tokens js pinned;
          units = build_message_units remainder;
          available = budget_tokens - prefix_tokens;
          summary_budget = summary_budget_of available;
          content_budget = available - summary_budget;
          user_budget = min user_budget_config (content_budget div 2);
          tail_budget = content_budget - user_budget;
          (older, tail) = take_tail js tail_budget (rev units) [] 0;
          (dropped_units, tail) = drop_orphans older tail;
          dropped_messages = flatten_units dropped_units;
          ids = select_users js user_budget (rev dropped_messages) 0 {};
          users = filter (\<lambda>m. m_message_id m \<in> ids) dropped_messages;
          dropped = filter (\<lambda>m. m_message_id m \<notin> ids) dropped_messages;
          (dropped, tail) = age_forced force dropped tail;
          (users, tail, dropped) = shrink_selection js budget_tokens prefix_tokens summary_budget users tail dropped
      in \<lparr>rs_pinned_prefix = pinned, rs_retained_users = users, rs_tail = flatten_units tail,
          rs_dropped = dropped, rs_folded_summaries = folded, rs_summary_budget = summary_budget,
          rs_messages_before = word_of_nat (length messages)\<rparr>)"

subsection \<open>The summary\<close>

record file_activity =
  fa_files_read :: "string list"
  fa_files_modified :: "string list"

definition json_path :: "json \<Rightarrow> string option" where
  "json_path v = Option.bind (json_get ''path'' v) json_as_str"

definition search_paths :: "json \<Rightarrow> string list" where
  "search_paths out =
     (case json_get ''matches'' out of Some (JArray vs) \<Rightarrow> List.map_filter json_path vs | _ \<Rightarrow> [])"

text \<open>The \<open>BTreeSet\<close>s are sorted lists without duplicates.\<close>

definition note_file_activity :: "message \<Rightarrow> file_activity \<Rightarrow> file_activity" where
  "note_file_activity m a =
     (case message_tool_result m of
        None \<Rightarrow> a
      | Some r \<Rightarrow>
          (if tr_tool_name r = ''read'' then
             (case json_path (tr_output r) of
                None \<Rightarrow> a | Some p \<Rightarrow> a\<lparr>fa_files_read := insort_insert p (fa_files_read a)\<rparr>)
           else if tr_tool_name r \<in> set [''write'', ''edit''] then
             (case json_path (tr_output r) of
                None \<Rightarrow> a | Some p \<Rightarrow> a\<lparr>fa_files_modified := insort_insert p (fa_files_modified a)\<rparr>)
           else if tr_tool_name r = ''search'' then
             a\<lparr>fa_files_read := fold insort_insert (search_paths (tr_output r)) (fa_files_read a)\<rparr>
           else a))"

definition collect_file_activity :: "message list \<Rightarrow> file_activity" where
  "collect_file_activity ms = fold note_file_activity ms \<lparr>fa_files_read = [], fa_files_modified = []\<rparr>"

fun render_summary_part :: "(json \<Rightarrow> string) \<Rightarrow> message_part \<Rightarrow> string option" where
  "render_summary_part js (Text t) = Some t"
| "render_summary_part js (Refusal (Some t) reason meta) = Some t"
| "render_summary_part js (Structured name v) = Some (js v)"
| "render_summary_part js p = None"

definition render_message_parts_for_summary :: "(json \<Rightarrow> string) \<Rightarrow> message_part list \<Rightarrow> string" where
  "render_message_parts_for_summary js parts =
     (let rendered = join_with [nl] (List.map_filter (render_summary_part js) parts)
      in if rendered = [] then ''[non-text message]'' else rendered)"

primrec role_debug :: "role \<Rightarrow> string" where
  "role_debug RSystem = ''System''"
| "role_debug RUser = ''User''"
| "role_debug RAssistant = ''Assistant''"
| "role_debug RTool = ''Tool''"

definition summary_line :: "(json \<Rightarrow> string) \<Rightarrow> message \<Rightarrow> string option" where
  "summary_line js m =
     (case message_tool_call m of
        Some c \<Rightarrow> map_option (\<lambda>t. ''- Assistant requested tool '' @ tc_tool_name c @ '' with '' @ replace_nl t)
                   (truncate_text (js (tc_arguments c)) 4 160)
      | None \<Rightarrow>
          (case message_tool_result m of
             Some r \<Rightarrow> map_option (\<lambda>t. ''- Tool '' @ tr_tool_name r @ '' returned '' @ replace_nl t)
                        (truncate_text (js (tr_output r)) 4 200)
           | None \<Rightarrow> map_option (\<lambda>t. ''- '' @ role_debug (m_role m) @ '': '' @ replace_nl t)
                        (truncate_text (render_message_parts_for_summary js (m_parts m)) 4 240)))"

text \<open>\<open>max_tokens.saturating_mul(4) as usize\<close>\<close>

definition approx_chars :: "nat \<Rightarrow> nat" where
  "approx_chars tokens = min (4 * tokens) u64_max"

function fit_lines :: "nat \<Rightarrow> nat \<Rightarrow> string list \<Rightarrow> string option" where
  "fit_lines protected_count token_limit lines =
     (if lines = [] then None
      else let candidate = join_with [nl] lines
           in if estimate_text_tokens candidate \<le> token_limit then Some candidate
              else if length lines > protected_count then fit_lines protected_count token_limit (butlast lines)
              else let truncated = chars_take (approx_chars token_limit) candidate
                   in Some (if length truncated < length candidate then truncated @ ''...'' else truncated))"
  by pat_completeness auto
termination
  by (relation "measure (\<lambda>(p, t, lines). length lines)") auto

declare fit_lines.simps [simp del]

definition file_line :: "string \<Rightarrow> string list \<Rightarrow> string list" where
  "file_line label files = (if files = [] then [] else [label @ join_with '', '' (take 8 files)])"

definition build_summary :: "(json \<Rightarrow> string) \<Rightarrow> message list \<Rightarrow> file_activity \<Rightarrow> nat \<Rightarrow> string option option" where
  "build_summary js dropped activity token_limit =
     (if dropped = [] \<or> token_limit = 0 then Some None
      else Option.bind (those (map (summary_line js) (rev (take 8 (rev dropped))))) (\<lambda>message_lines.
        let lines = LEGACY_SUMMARY_FIRST_LINE # file_line ''Files read: '' (fa_files_read activity)
              @ file_line ''Files modified: '' (fa_files_modified activity) @ message_lines;
            protected_count = min (length lines)
              (1 + (if fa_files_read activity = [] then 0 else 1) + (if fa_files_modified activity = [] then 0 else 1))
        in Some (fit_lines protected_count token_limit lines)))"

definition truncate_to_token_estimate :: "string \<Rightarrow> nat \<Rightarrow> string" where
  "truncate_to_token_estimate s budget =
     (if estimate_text_tokens s \<le> budget then s else chars_take (approx_chars budget) s @ ''...'')"

definition folded_section :: "string list \<Rightarrow> nat \<Rightarrow> string" where
  "folded_section folded budget =
     truncate_to_token_estimate (''Previous summary:'' @ [nl] @ join_with [nl, nl] folded)
       (max (budget div 2) SUMMARY_BUDGET_MIN_TOKENS)"

definition compose_fallback_summary_body ::
  "(json \<Rightarrow> string) \<Rightarrow> message list \<Rightarrow> string list \<Rightarrow> file_activity \<Rightarrow> nat \<Rightarrow> string option option" where
  "compose_fallback_summary_body js dropped folded activity budget =
     (let sections = (if folded = [] then [] else [folded_section folded budget]);
          folded_tokens = sum_list (map estimate_text_tokens sections)
      in Option.bind (build_summary js dropped activity (max (budget - folded_tokens) 64)) (\<lambda>digest.
         let sections = (case digest of None \<Rightarrow> sections | Some d \<Rightarrow> d # sections)
         in Some (if sections = [] then None else Some (join_with [nl] sections))))"

record context_compaction =
  xc_summary :: string
  xc_trigger :: context_compaction_trigger
  xc_reason :: "string option"
  xc_summary_message_id :: "message_id option"
  xc_first_kept_message_id :: "message_id option"
  xc_messages_before :: u32
  xc_messages_after :: u32
  xc_tokens_before :: nat
  xc_tokens_after :: nat
  xc_files_read :: "string list"
  xc_files_modified :: "string list"

definition summary_token_room :: "(json \<Rightarrow> string) \<Rightarrow> nat \<Rightarrow> retention_selection \<Rightarrow> nat" where
  "summary_token_room js budget_tokens sel =
     (let non_summary = sat_add (sat_add (estimate_messages_tokens js (rs_pinned_prefix sel))
             (estimate_messages_tokens js (rs_retained_users sel))) (estimate_messages_tokens js (rs_tail sel))
      in clamp 16 (max (rs_summary_budget sel) 16) (budget_tokens - non_summary))"

definition summary_body_of ::
  "(json \<Rightarrow> string) \<Rightarrow> nat \<Rightarrow> retention_selection \<Rightarrow> string option \<Rightarrow> string option option" where
  "summary_body_of js budget_tokens sel summary_override =
     (let room = summary_token_room js budget_tokens sel;
          fallback = compose_fallback_summary_body js (rs_dropped sel) (rs_folded_summaries sel)
            (collect_file_activity (rs_dropped sel)) room
      in case summary_override of
           Some s \<Rightarrow> if str_trim s \<noteq> []
             then Some (Some (truncate_to_token_estimate (str_trim s) (max room (rs_summary_budget sel))))
             else fallback
         | None \<Rightarrow> fallback)"

definition compact_messages ::
  "(json \<Rightarrow> string) \<Rightarrow> message_id \<Rightarrow> time \<Rightarrow> message list \<Rightarrow> nat \<Rightarrow> context_compaction_trigger \<Rightarrow> nat
     \<Rightarrow> string option \<Rightarrow> string option \<Rightarrow> (message list \<times> context_compaction option) option" where
  "compact_messages js fresh now messages budget_tokens trigger user_budget_config previous_summary summary_override =
     (let sel = resolve_retention_selection js messages budget_tokens user_budget_config (trigger = Forced) previous_summary;
          activity = collect_file_activity (rs_dropped sel)
      in Option.bind (summary_body_of js budget_tokens sel summary_override) (\<lambda>body.
         case body of
           None \<Rightarrow> Some (rs_pinned_prefix sel @ rs_retained_users sel @ rs_dropped sel @ rs_tail sel, None)
         | Some summary_body \<Rightarrow>
             let summary_text = COMPACTION_SUMMARY_MARKER @ [nl] @ summary_body;
                 summary_message = message_text fresh now RSystem summary_text;
                 first_kept = (case rs_tail sel of
                     m # _ \<Rightarrow> Some (m_message_id m)
                   | [] \<Rightarrow> (case rs_retained_users sel of m # _ \<Rightarrow> Some (m_message_id m) | [] \<Rightarrow> None))
             in Some (rs_pinned_prefix sel @ rs_retained_users sel @ [summary_message] @ rs_tail sel,
                  Some \<lparr>xc_summary = summary_text, xc_trigger = trigger,
                    xc_reason = Some (case trigger of Forced \<Rightarrow> ''forced'' | TokenBudget \<Rightarrow> ''token_budget''),
                    xc_summary_message_id = Some (m_message_id summary_message),
                    xc_first_kept_message_id = first_kept,
                    xc_messages_before = rs_messages_before sel, xc_messages_after = 0,
                    xc_tokens_before = 0, xc_tokens_after = 0,
                    xc_files_read = fa_files_read activity, xc_files_modified = fa_files_modified activity\<rparr>)))"

record branch_summary =
  bs_summary :: string
  bs_files_read :: "string list"
  bs_files_modified :: "string list"

definition summarize_messages :: "(json \<Rightarrow> string) \<Rightarrow> message list \<Rightarrow> nat \<Rightarrow> branch_summary option option" where
  "summarize_messages js messages token_limit =
     Option.bind (normalize_messages 2000 51200 messages) (\<lambda>normalized.
     let activity = collect_file_activity normalized
     in Option.bind (build_summary js normalized activity token_limit) (\<lambda>summary.
        Some (map_option (\<lambda>s. \<lparr>bs_summary = s, bs_files_read = fa_files_read activity,
          bs_files_modified = fa_files_modified activity\<rparr>) summary)))"

end
