(* ===== verification/Bt_Retention.thy ===== *)
theory Bt_Retention
  imports Bt_Compaction "HOL-Library.Multiset"
begin

section \<open>What compaction keeps\<close>

text \<open>
  Guarantees of the retention choice of \<open>Bt_Compaction\<close>: the units partition the history and a unit
  closes only when its tool calls are answered; nothing is lost between the pinned prefix, the
  retained user messages, the summarised part and the tail; the estimated size fits the budget up to
  a fixed slack; and a compacted context carries exactly one summary.
\<close>

subsection \<open>Units\<close>

text \<open>Every tool call of the messages has a result in a later one.\<close>

fun answered :: "message list \<Rightarrow> bool" where
  "answered [] = True"
| "answered (m # ms) =
     ((\<forall>c \<in> set (message_tool_call_ids m). \<exists>r \<in> set ms. c \<in> set (message_tool_result_ids r)) \<and> answered ms)"

lemma answered_append: "answered xs \<Longrightarrow> answered ys \<Longrightarrow> answered (xs @ ys)"
  by (induction xs) auto

lemma answered_concat: "\<forall>u \<in> set us. answered u \<Longrightarrow> answered (concat us)"
  by (induction us) (auto intro: answered_append)

lemma absorb_unit_answers:
  assumes "absorb_unit pending ms = (u, rest)" "rest \<noteq> []"
  shows "(\<forall>c \<in> pending. \<exists>r \<in> set u. c \<in> set (message_tool_result_ids r)) \<and> answered u"
  using assms
proof (induction pending ms arbitrary: u rest rule: absorb_unit.induct)
  case (2 pending m ms)
  show ?case
  proof (cases "pending = {}")
    case True
    with 2 show ?thesis by simp
  next
    case False
    let ?p = "pending - set (message_tool_result_ids m) \<union> set (message_tool_call_ids m)"
    from False "2.prems"(1) obtain u' where u: "u = m # u'" and a: "absorb_unit ?p ms = (u', rest)"
      by (auto split: prod.splits)
    from "2.IH" [OF False a "2.prems"(2)] show ?thesis
      unfolding u answered.simps set_simps by blast
  qed
qed simp

lemma concat_units: "concat (build_message_units ms) = ms"
  by (induction ms rule: build_message_units.induct) (auto split: prod.split dest: absorb_unit_append)

lemma units_nonempty: "u \<in> set (build_message_units ms) \<Longrightarrow> u \<noteq> []"
  by (induction ms rule: build_message_units.induct) (auto split: prod.splits)

lemma units_Nil_iff: "build_message_units ms = [] \<longleftrightarrow> ms = []"
  by (cases ms) (simp_all split: prod.split)

lemma units_answered: "u \<in> set (butlast (build_message_units ms)) \<Longrightarrow> answered u"
proof (induction ms rule: build_message_units.induct)
  case (2 m ms)
  obtain v rest where a: "absorb_unit (set (message_tool_call_ids m)) ms = (v, rest)" by fastforce
  show ?case
  proof (cases "rest = []")
    case True
    with 2 a show ?thesis by simp
  next
    case False
    with a absorb_unit_answers [OF a False] have "answered (m # v)" by auto
    moreover have "butlast (build_message_units (m # ms)) = (m # v) # butlast (build_message_units rest)"
      using a False by (simp add: units_Nil_iff)
    ultimately show ?thesis using 2 a by auto
  qed
qed simp

lemma answered_before_tail:
  assumes "build_message_units ms = older @ tail" "tail \<noteq> []"
  shows "answered (concat older)"
proof (rule answered_concat, rule ballI)
  fix u assume "u \<in> set older"
  then have "u \<in> set (butlast (older @ tail))" using assms(2) by (simp add: butlast_append)
  then show "answered u" using units_answered [of u ms] assms(1) by simp
qed

subsection \<open>The loops\<close>

lemma extract_summary_eq:
  "snd (extract_summary_messages ms folded remaining) = remaining @ filter (\<lambda>m. summary_message_body m = None) ms"
  by (induction ms folded remaining rule: extract_summary_messages.induct) (auto split: option.splits)

lemma take_tail_append:
  "take_tail js budget us tail t = (older, tail') \<Longrightarrow> older @ tail' = rev us @ tail \<and> (us \<noteq> [] \<or> tail \<noteq> [] \<longrightarrow> tail' \<noteq> [])"
  by (induction js budget us tail t arbitrary: older tail' rule: take_tail.induct)
    (auto simp: Let_def split: if_splits)

lemma drop_orphans_append:
  "drop_orphans dropped tail = (dropped', tail') \<Longrightarrow> dropped' @ tail' = dropped @ tail \<and> (tail \<noteq> [] \<longrightarrow> tail' \<noteq> [])"
  by (induction dropped tail arbitrary: dropped' tail' rule: drop_orphans.induct) (auto split: if_splits)

lemma age_forced_spec:
  "age_forced force dropped tail = (dropped', tail') \<Longrightarrow>
     \<exists>aged. tail = aged @ tail' \<and> dropped' = dropped @ concat aged \<and> (tail \<noteq> [] \<longrightarrow> tail' \<noteq> [])"
proof (induction force dropped tail arbitrary: dropped' tail' rule: age_forced.induct)
  case (1 force dropped u v rest)
  show ?case
  proof (cases "force \<and> dropped = []")
    case True
    with "1.prems" have "age_forced force (dropped @ u) (v # rest) = (dropped', tail')" by simp
    from "1.IH" [OF True this] obtain aged where "v # rest = aged @ tail'" "dropped' = (dropped @ u) @ concat aged"
      "tail' \<noteq> []" by auto
    then show ?thesis by (intro exI [of _ "u # aged"]) simp
  next
    case False
    with 1 show ?thesis by (auto split: if_splits)
  qed
qed auto

lemma shrink_fits:
  "selection_total js pt sb users tail \<le> budget \<Longrightarrow>
     shrink_selection js budget pt sb users tail dropped = (users, tail, dropped)"
  by (simp add: shrink_selection.simps)

lemma shrink_spec:
  assumes "shrink_selection js budget pt sb users tail dropped = (users', tail', dropped')"
  shows "\<exists>removed aged. users = removed @ users' \<and> tail = aged @ tail' \<and> (tail \<noteq> [] \<longrightarrow> tail' \<noteq> [])
    \<and> mset dropped' = mset dropped + mset removed + mset (concat aged)
    \<and> (selection_total js pt sb users' tail' \<le> budget \<or> users' = [] \<and> length tail' \<le> 1)"
  using assms
proof (induction js budget pt sb users tail dropped arbitrary: users' tail' dropped' rule: shrink_selection.induct)
  case (1 js budget pt sb users tail dropped)
  show ?case
  proof (cases "selection_total js pt sb users tail \<le> budget")
    case True
    with "1.prems" show ?thesis by (simp add: shrink_selection.simps)
  next
    case over: False
    show ?thesis
    proof (cases users)
      case (Cons u us)
      let ?d = "sort_key m_created_at (dropped @ [u])"
      from over Cons "1.prems" have "shrink_selection js budget pt sb us tail ?d = (users', tail', dropped')"
        by (subst (asm) shrink_selection.simps) simp
      from "1.IH"(2) [OF over Cons this] obtain removed aged where
        "us = removed @ users'" "tail = aged @ tail'" "tail \<noteq> [] \<longrightarrow> tail' \<noteq> []"
        "mset dropped' = mset ?d + mset removed + mset (concat aged)"
        "selection_total js pt sb users' tail' \<le> budget \<or> users' = [] \<and> length tail' \<le> 1"
        by blast
      with Cons show ?thesis
        by (intro exI [of _ "u # removed"] exI [of _ aged]) simp
    next
      case Nil
      show ?thesis
      proof (cases "\<exists>u v rest. tail = u # v # rest")
        case True
        then obtain u v rest where tail: "tail = u # v # rest" by blast
        from over Nil tail "1.prems" have "shrink_selection js budget pt sb [] (v # rest) (dropped @ u) = (users', tail', dropped')"
          by (subst (asm) shrink_selection.simps) simp
        from "1.IH"(1) [OF over Nil tail refl this] obtain aged where
          "users' = []" "v # rest = aged @ tail'" "tail' \<noteq> []"
          "mset dropped' = mset (dropped @ u) + mset (concat aged)"
          "selection_total js pt sb users' tail' \<le> budget \<or> users' = [] \<and> length tail' \<le> 1"
          by auto
        with Nil tail show ?thesis
          by (intro exI [of _ "[]"] exI [of _ "u # aged"]) simp
      next
        case False
        then have "length tail \<le> 1" by (cases tail rule: remdups_adj.cases) auto
        moreover from False over Nil "1.prems" have "users' = users \<and> tail' = tail \<and> dropped' = dropped"
          by (subst (asm) shrink_selection.simps) (auto split: list.splits)
        ultimately show ?thesis using Nil by simp
      qed
    qed
  qed
qed

lemma select_users_ids:
  "mid \<in> select_users js budget ms used ids \<Longrightarrow>
     mid \<in> ids \<or> (\<exists>m \<in> set ms. m_message_id m = mid \<and> m_role m = RUser \<and> text_parts m \<noteq> [])"
  by (induction js budget ms used ids rule: select_users.induct) (auto split: if_splits)

subsection \<open>The selection as a whole\<close>

abbreviation history :: "message list \<Rightarrow> message list" where
  "history ms \<equiv> filter (\<lambda>m. summary_message_body m = None) ms"

lemma mset_filter_split: "mset (filter P xs) + mset (filter (\<lambda>x. \<not> P x) xs) = mset xs"
  by (induction xs) auto

lemma retention_selection_cases:
  fixes js ms budget user_budget force previous
  defines "sel \<equiv> resolve_retention_selection js ms budget user_budget force previous"
  defines "remainder \<equiv> dropWhile (\<lambda>m. m_role m = RSystem) (history ms)"
  shows "\<exists>older tail users. rs_pinned_prefix sel = takeWhile (\<lambda>m. m_role m = RSystem) (history ms)
    \<and> build_message_units remainder = older @ tail \<and> (remainder \<noteq> [] \<longrightarrow> tail \<noteq> [])
    \<and> rs_tail sel = concat tail
    \<and> mset (rs_retained_users sel @ rs_dropped sel) = mset (concat older)
    \<and> suffix (rs_retained_users sel) users \<and> subseq users (concat older)
    \<and> (\<forall>m \<in> set users. \<exists>m' \<in> set (concat older). m_message_id m' = m_message_id m \<and> m_role m' = RUser \<and> text_parts m' \<noteq> [])
    \<and> (selection_total js (estimate_messages_tokens js (rs_pinned_prefix sel)) (rs_summary_budget sel)
           (rs_retained_users sel) tail \<le> budget \<or> rs_retained_users sel = [] \<and> length tail \<le> 1)
    \<and> rs_summary_budget sel = summary_budget_of (budget - estimate_messages_tokens js (rs_pinned_prefix sel))"
proof -
  obtain folded where ex: "extract_summary_messages ms [] [] = (folded, history ms)"
    using extract_summary_eq [of ms "[]" "[]"] by (cases "extract_summary_messages ms [] []") auto
  define pinned where "pinned = takeWhile (\<lambda>m. m_role m = RSystem) (history ms)"
  define units where "units = build_message_units remainder"
  define pt where "pt = estimate_messages_tokens js pinned"
  define sb where "sb = summary_budget_of (budget - pt)"
  define ub where "ub = min user_budget ((budget - pt - sb) div 2)"
  obtain older0 tail0 where t0: "take_tail js (budget - pt - sb - ub) (rev units) [] 0 = (older0, tail0)" by fastforce
  obtain older1 tail1 where t1: "drop_orphans older0 tail0 = (older1, tail1)" by fastforce
  define ids where "ids = select_users js ub (rev (concat older1)) 0 {}"
  define users where "users = filter (\<lambda>m. m_message_id m \<in> ids) (concat older1)"
  define dropped where "dropped = filter (\<lambda>m. m_message_id m \<notin> ids) (concat older1)"
  obtain dropped2 tail2 where t2: "age_forced force dropped tail1 = (dropped2, tail2)" by fastforce
  obtain users3 tail3 dropped3 where t3: "shrink_selection js budget pt sb users tail2 dropped2 = (users3, tail3, dropped3)"
    by (metis prod_cases3)
  have "sel = \<lparr>rs_pinned_prefix = pinned, rs_retained_users = users3, rs_tail = concat tail3, rs_dropped = dropped3,
      rs_folded_summaries = fold_previous_summary previous folded, rs_summary_budget = sb,
      rs_messages_before = word_of_nat (length ms)\<rparr>"
    unfolding sel_def resolve_retention_selection_def Let_def ex split_system_prefix_def split_conv
    unfolding pinned_def [symmetric] remainder_def [symmetric] units_def [symmetric] pt_def [symmetric]
    unfolding sb_def [symmetric] unfolding ub_def [symmetric] unfolding t0 split_conv t1
    unfolding ids_def [symmetric] unfolding users_def [symmetric] dropped_def [symmetric] t2 split_conv t3
    by (rule refl)
  then have sel: "rs_pinned_prefix sel = pinned" "rs_retained_users sel = users3" "rs_tail sel = concat tail3"
    "rs_dropped sel = dropped3" "rs_summary_budget sel = sb"
    by simp_all
  from take_tail_append [OF t0] drop_orphans_append [OF t1] have u1: "units = older1 @ tail1"
    and n1: "units \<noteq> [] \<longrightarrow> tail1 \<noteq> []" by auto
  from age_forced_spec [OF t2] obtain aged2 where a2: "tail1 = aged2 @ tail2" "dropped2 = dropped @ concat aged2"
    "tail1 \<noteq> [] \<longrightarrow> tail2 \<noteq> []" by blast
  from shrink_spec [OF t3] obtain removed aged3 where a3: "users = removed @ users3" "tail2 = aged3 @ tail3"
    "tail2 \<noteq> [] \<longrightarrow> tail3 \<noteq> []" "mset dropped3 = mset dropped2 + mset removed + mset (concat aged3)"
    "selection_total js pt sb users3 tail3 \<le> budget \<or> users3 = [] \<and> length tail3 \<le> 1" by blast
  let ?older = "older1 @ aged2 @ aged3"
  have "mset users + mset dropped = mset (concat older1)"
    unfolding users_def dropped_def by (rule mset_filter_split)
  then have ms: "mset (users3 @ dropped3) = mset (concat ?older)"
    using a3 a2 by (simp add: union_assoc [symmetric]) (metis mset_append union_commute union_assoc)
  have ids: "\<exists>m' \<in> set (concat ?older). m_message_id m' = m_message_id m \<and> m_role m' = RUser \<and> text_parts m' \<noteq> []"
    if "m \<in> set users" for m
  proof -
    from that have "m_message_id m \<in> ids" by (simp add: users_def)
    from select_users_ids [OF this [unfolded ids_def]] show ?thesis by auto
  qed
  have sub: "subseq users (concat ?older)" unfolding users_def concat_append
    by (rule list_emb_prefix [OF subseq_filter_left])
  show ?thesis
  proof (intro exI conjI)
    show "build_message_units remainder = ?older @ tail3"
      using u1 a2(1) a3(2) by (simp add: units_def)
    show "remainder \<noteq> [] \<longrightarrow> tail3 \<noteq> []"
      using n1 a2(3) a3(3) by (simp add: units_def units_Nil_iff)
    show "suffix (rs_retained_users sel) users" using a3(1) by (simp add: sel suffix_def)
    show "\<forall>m \<in> set users. \<exists>m' \<in> set (concat ?older). m_message_id m' = m_message_id m \<and> m_role m' = RUser \<and> text_parts m' \<noteq> []"
      using ids by blast
  qed (simp_all only: sel pinned_def sub ms a3(5) [unfolded sb_def pt_def pinned_def] sb_def pt_def)
qed

subsection \<open>Sizes\<close>

lemma estimate_messages_append [simp]:
  "estimate_messages_tokens js (xs @ ys) = estimate_messages_tokens js xs + estimate_messages_tokens js ys"
  "estimate_messages_tokens js [] = 0"
  "estimate_messages_tokens js (m # ms) = estimate_message_tokens js m + estimate_messages_tokens js ms"
  by (simp_all add: estimate_messages_tokens_def)









lemma summary_budget_bounds: "64 \<le> summary_budget_of n \<and> summary_budget_of n \<le> 4096"
  unfolding summary_budget_of_def SUMMARY_BUDGET_MIN_TOKENS_def SUMMARY_BUDGET_MAX_TOKENS_def
  by (rule clamp_bounds) simp




subsection \<open>Recognising summaries\<close>

lemma is_whitespace_nl: "is_whitespace [nl]"
  by (simp add: is_whitespace_def nl_def byte_of_def)

lemma marker_chars:
  assumes "starts_char body"
  shows "\<exists>ms. utf8_chars (COMPACTION_SUMMARY_MARKER @ [nl] @ body) = ([CHR ''[''] # ms) @ [nl] # utf8_chars body
    \<and> concat ([CHR ''[''] # ms) = COMPACTION_SUMMARY_MARKER \<and> \<not> is_whitespace [CHR ''['']"
proof -
  let ?ms = "map (\<lambda>c. [c]) (tl COMPACTION_SUMMARY_MARKER)"
  have a: "is_ascii (COMPACTION_SUMMARY_MARKER @ [nl])"
    by (simp add: COMPACTION_SUMMARY_MARKER_def nl_def byte_of_def)
  have "utf8_chars ((COMPACTION_SUMMARY_MARKER @ [nl]) @ body) = ([CHR ''[''] # ?ms) @ [nl] # utf8_chars body"
    unfolding utf8_chars_ascii_append [OF a assms] by (simp add: COMPACTION_SUMMARY_MARKER_def)
  moreover have "concat ([CHR ''[''] # ?ms) = COMPACTION_SUMMARY_MARKER" by (simp add: COMPACTION_SUMMARY_MARKER_def)
  moreover have "\<not> is_whitespace [CHR ''['']" by (simp add: is_whitespace_def byte_of_def)
  ultimately show ?thesis by (intro exI [of _ ?ms]) simp
qed

lemma normalize_marked:
  assumes "starts_char body" "str_trim body \<noteq> []"
  shows "normalize_summary_body (COMPACTION_SUMMARY_MARKER @ [nl] @ body) = str_trim body"
proof -
  let ?B = "utf8_chars body"
  obtain ms where u: "utf8_chars (COMPACTION_SUMMARY_MARKER @ [nl] @ body) = ([CHR ''[''] # ms) @ [nl] # ?B"
    and m: "concat ([CHR ''[''] # ms) = COMPACTION_SUMMARY_MARKER" and w: "\<not> is_whitespace [CHR ''['']"
    using marker_chars [OF assms(1)] by blast
  define E where "E = rev (dropWhile is_whitespace (rev ?B))"
  have wf: "list_all wf_char ?B" by (rule wf_utf8_chars [OF assms(1)])
  moreover have "set E \<subseteq> set ?B" unfolding E_def by (auto dest: set_dropWhileD)
  moreover have "wf_char [nl]" by (simp add: wf_char_def nl_def is_continuation_def byte_of_def)
  ultimately have wfE: "list_all wf_char ([nl] # E)" unfolding list_all_iff by auto
  have "\<exists>c \<in> set ?B. \<not> is_whitespace c"
    using assms(2) str_trim_concat [OF wf] trim_chars_Nil_iff [of ?B] by auto
  then have "dropWhile is_whitespace (rev ?B @ rest) = dropWhile is_whitespace (rev ?B) @ rest" for rest
    by (auto intro: dropWhile_append1)
  then have "str_trim (COMPACTION_SUMMARY_MARKER @ [nl] @ body) = COMPACTION_SUMMARY_MARKER @ concat ([nl] # E)"
    unfolding str_trim_def u using w m by (simp add: E_def)
  moreover have "str_trim (concat ([nl] # E)) = str_trim body"
    using str_trim_concat [OF wfE] str_trim_concat [OF wf] trim_chars_end [of ?B, folded E_def]
    by (simp only: trim_chars_Cons_space [OF is_whitespace_nl] concat_utf8_chars)
  ultimately show ?thesis
    by (simp add: normalize_summary_body_def strip_prefix_def)
qed

lemma summary_roundtrip:
  assumes "starts_char body" "str_trim body \<noteq> []"
  shows "summary_message_body (message_text fresh now RSystem (COMPACTION_SUMMARY_MARKER @ [nl] @ body)) = Some (str_trim body)"
proof -
  let ?t = "COMPACTION_SUMMARY_MARKER @ [nl] @ body"
  have "str_trim_start ?t = ?t"
    using marker_chars [OF assms(1)] unfolding str_trim_start_def
    by (metis append_Cons concat_utf8_chars dropWhile.simps(2))
  moreover have "text_parts (message_text fresh now RSystem ?t) = [?t]"
    by (simp add: message_text_def message_new_def push_message_part_def text_parts_def map_filter_simps)
  ultimately show ?thesis
    using normalize_marked [OF assms] assms(2)
    by (simp add: summary_message_body_def message_text_def message_new_def)
qed

text \<open>A text whose first character can be seen.\<close>

definition opens_visible :: "string \<Rightarrow> bool" where
  "opens_visible s \<longleftrightarrow> s \<noteq> [] \<and> \<not> is_continuation (hd s) \<and> \<not> is_whitespace (hd (utf8_chars s))"

lemma opens_visibleD: "opens_visible s \<Longrightarrow> starts_char s \<and> str_trim s \<noteq> []"
proof -
  assume o: "opens_visible s"
  then have s: "starts_char s" by (simp add: opens_visible_def starts_char_def)
  from o have "\<exists>c \<in> set (utf8_chars s). \<not> is_whitespace c"
    unfolding opens_visible_def by (metis list.set_sel(1) utf8_chars_Nil_iff)
  then have "trim_chars (utf8_chars s) \<noteq> []" by (simp add: trim_chars_Nil_iff)
  with str_trim_concat [OF wf_utf8_chars [OF s]] concat_chars_Nil [OF wf_trim_chars [OF wf_utf8_chars [OF s]]]
  show ?thesis using s by simp
qed

lemma opens_visible_ascii:
  "byte_of c < 128 \<Longrightarrow> byte_of d < 128 \<Longrightarrow> \<not> is_whitespace [c] \<Longrightarrow> opens_visible (c # d # s)"
  by (simp add: opens_visible_def is_continuation_def)

lemma opens_visible_chars:
  assumes "list_all wf_char (c # cs)" "\<not> is_whitespace c"
  shows "opens_visible (concat (c # cs))"
proof -
  have "c \<noteq> [] \<and> \<not> is_continuation (hd c)" using assms(1) by (simp add: wf_char_def)
  with assms(2) show ?thesis
    unfolding opens_visible_def utf8_chars_concat [OF assms(1)] by simp
qed

lemma opens_visible_take_dots:
  assumes "opens_visible s" "0 < n"
  shows "opens_visible (chars_take n s) \<and> opens_visible (chars_take n s @ ''...'')"
proof -
  have s: "starts_char s" using opens_visibleD [OF assms(1)] by simp
  obtain c cs where u: "utf8_chars s = c # cs" using assms(1) by (cases "utf8_chars s") (auto simp: opens_visible_def)
  obtain k where n: "n = Suc k" using assms(2) by (cases n) auto
  have wf: "list_all wf_char (c # take k cs)" using wf_utf8_chars [OF s]
    by (auto simp: u list_all_iff dest: in_set_takeD)
  moreover have "list_all wf_char (c # take k cs @ [''.'', ''.'', ''.''])"
    using wf by (simp add: wf_char_def is_continuation_def byte_of_def)
  moreover have "\<not> is_whitespace c" using assms(1) by (simp add: opens_visible_def u)
  ultimately show ?thesis
    using opens_visible_chars [of c "take k cs"] opens_visible_chars [of c "take k cs @ [''.'', ''.'', ''.'']"]
    by (simp add: chars_take_def u n)
qed

lemma opens_visible_append:
  assumes "opens_visible s" "starts_char t"
  shows "opens_visible (s @ t)"
proof -
  have s: "starts_char s" using opens_visibleD [OF assms(1)] by simp
  obtain c cs where u: "utf8_chars s = c # cs" using assms(1) by (cases "utf8_chars s") (auto simp: opens_visible_def)
  have "list_all wf_char (c # cs @ utf8_chars t)"
    using wf_utf8_chars [OF s] wf_utf8_chars [OF assms(2)] by (simp add: u)
  moreover have "concat (c # cs @ utf8_chars t) = s @ t"
    using concat_utf8_chars [of s] by (simp add: u)
  moreover have "\<not> is_whitespace c" using assms(1) by (simp add: opens_visible_def u)
  ultimately show ?thesis using opens_visible_chars by metis
qed

lemma opens_visible_trim:
  assumes "starts_char s" "str_trim s \<noteq> []"
  shows "opens_visible (str_trim s)"
proof -
  let ?cs = "utf8_chars s"
  have t: "str_trim s = concat (trim_chars ?cs)" using str_trim_concat [OF wf_utf8_chars [OF assms(1)]] by simp
  with assms(2) obtain c cs where c: "trim_chars ?cs = c # cs" by (cases "trim_chars ?cs") auto
  have "trim_chars ?cs = dropWhile is_whitespace (rev (dropWhile is_whitespace (rev ?cs)))"
    by (simp add: trim_chars_def dropWhile_rev_commute)
  with c have "\<not> is_whitespace c" by (metis hd_dropWhile list.discI list.sel(1))
  with wf_trim_chars [OF wf_utf8_chars [OF assms(1)]] show ?thesis
    unfolding t c by (intro opens_visible_chars) simp_all
qed

lemma truncate_visible: "opens_visible s \<Longrightarrow> 0 < n \<Longrightarrow> opens_visible (truncate_to_token_estimate s n)"
  using opens_visible_take_dots [of s "approx_chars n"]
  by (simp add: truncate_to_token_estimate_def approx_chars_def u64_max_def)

lemma join_with_Cons: "\<exists>t. join_with sep (x # xs) = x @ t"
  by (cases xs) auto

lemma legacy_visible: "opens_visible (LEGACY_SUMMARY_FIRST_LINE @ t)"
  unfolding LEGACY_SUMMARY_FIRST_LINE_def append_Cons
  by (rule opens_visible_ascii) (simp_all add: byte_of_def is_whitespace_def)

lemma fit_lines_visible:
  "fit_lines p n lines = Some s \<Longrightarrow> lines = LEGACY_SUMMARY_FIRST_LINE # rest \<Longrightarrow> 0 < p \<Longrightarrow> 0 < n \<Longrightarrow> opens_visible s"
proof (induction p n lines arbitrary: rest rule: fit_lines.induct)
  case (1 p n lines)
  let ?c = "join_with [nl] lines"
  have c: "opens_visible ?c"
    using legacy_visible join_with_Cons [of "[nl]" LEGACY_SUMMARY_FIRST_LINE rest] "1.prems"(2) by metis
  show ?case
  proof (cases "estimate_text_tokens ?c \<le> n \<or> length lines \<le> p")
    case True
    then have "s = ?c \<or> s = chars_take (approx_chars n) ?c \<or> s = chars_take (approx_chars n) ?c @ ''...''"
      using "1.prems"(1) by (subst (asm) fit_lines.simps) (auto simp: Let_def split: if_splits)
    then show ?thesis
      using c opens_visible_take_dots [OF c, of "approx_chars n"] "1.prems"(4)
      by (auto simp: approx_chars_def u64_max_def)
  next
    case False
    then have "fit_lines p n (butlast lines) = Some s"
      using "1.prems"(1,2) by (subst (asm) fit_lines.simps) (simp add: Let_def)
    moreover have "butlast lines = LEGACY_SUMMARY_FIRST_LINE # butlast rest"
      using False "1.prems"(2,3) by (cases rest) auto
    ultimately show ?thesis
      using False "1.IH" [OF _ refl _ _ _ _ "1.prems"(3,4)] "1.prems"(2) by simp
  qed
qed

lemma build_summary_visible:
  "build_summary js dropped activity n = Some (Some s) \<Longrightarrow> opens_visible s"
  by (auto simp: build_summary_def Let_def bind_eq_Some_conv simp del: file_line_def split: if_splits
      intro!: fit_lines_visible)

lemma folded_section_visible: "opens_visible (folded_section folded b)"
  unfolding folded_section_def append_Cons
  by (intro truncate_visible opens_visible_ascii)
    (simp_all add: byte_of_def is_whitespace_def SUMMARY_BUDGET_MIN_TOKENS_def)

lemma fallback_visible:
  assumes "compose_fallback_summary_body js dropped folded activity b = Some (Some s)"
  shows "opens_visible s"
proof -
  let ?F = "folded_section folded b"
  define g where "g = max (b - (if folded = [] then 0 else estimate_text_tokens ?F)) 64"
  obtain digest where d: "build_summary js dropped activity g = Some digest"
    using assms by (cases "build_summary js dropped activity g")
      (auto simp: compose_fallback_summary_body_def g_def split: if_splits)
  have nlF: "starts_char (nl # ?F)" by (simp add: starts_char_def nl_def is_continuation_def byte_of_def)
  show ?thesis
  proof (cases digest)
    case None
    with assms d have "s = ?F" by (auto simp: compose_fallback_summary_body_def g_def split: if_splits)
    then show ?thesis by (simp add: folded_section_visible)
  next
    case (Some x)
    then have x: "opens_visible x" using build_summary_visible d by blast
    from Some assms d have "s = x \<or> s = x @ nl # ?F"
      by (auto simp: compose_fallback_summary_body_def g_def split: if_splits)
    with x opens_visible_append [OF x nlF] show ?thesis by auto
  qed
qed

lemma summary_body_visible:
  assumes "summary_body_of js budget sel override = Some (Some s)" "64 \<le> rs_summary_budget sel"
    and "\<And>w. override = Some w \<Longrightarrow> starts_char w"
  shows "opens_visible s"
proof (cases "\<exists>w. override = Some w \<and> str_trim w \<noteq> []")
  case True
  then obtain w where w: "override = Some w" "str_trim w \<noteq> []" by blast
  with assms(1) have "s = truncate_to_token_estimate (str_trim w)
      (max (summary_token_room js budget sel) (rs_summary_budget sel))"
    by (simp add: summary_body_of_def Let_def)
  then show ?thesis
    using truncate_visible [OF opens_visible_trim [OF assms(3) [OF w(1)] w(2)]] assms(2) by simp
next
  case False
  with assms(1) have "compose_fallback_summary_body js (rs_dropped sel) (rs_folded_summaries sel)
      (collect_file_activity (rs_dropped sel)) (summary_token_room js budget sel) = Some (Some s)"
    by (cases override) (simp_all add: summary_body_of_def Let_def)
  then show ?thesis by (rule fallback_visible)
qed

lemma compact_messagesE:
  assumes "compact_messages js fresh now ms budget trigger ub previous override = Some (out, Some c)"
  obtains sel s where "sel = resolve_retention_selection js ms budget ub (trigger = Forced) previous"
    "summary_body_of js budget sel override = Some (Some s)"
    "xc_summary c = COMPACTION_SUMMARY_MARKER @ [nl] @ s"
    "out = rs_pinned_prefix sel @ rs_retained_users sel @
       [message_text fresh now RSystem (COMPACTION_SUMMARY_MARKER @ [nl] @ s)] @ rs_tail sel"
    "64 \<le> rs_summary_budget sel"
proof -
  let ?sel = "resolve_retention_selection js ms budget ub (trigger = Forced) previous"
  obtain s where "summary_body_of js budget ?sel override = Some (Some s)"
    "xc_summary c = COMPACTION_SUMMARY_MARKER @ [nl] @ s"
    "out = rs_pinned_prefix ?sel @ rs_retained_users ?sel @
       [message_text fresh now RSystem (COMPACTION_SUMMARY_MARKER @ [nl] @ s)] @ rs_tail ?sel"
    using assms unfolding compact_messages_def Let_def
    by (auto simp: bind_eq_Some_conv split: option.splits)
  moreover have "64 \<le> rs_summary_budget ?sel"
    using retention_selection_cases [of js ms budget ub "trigger = Forced" previous] summary_budget_bounds by auto
  ultimately show ?thesis using that by blast
qed

lemma extract_fold: "extract_summary_messages (xs @ ys) folded remaining =
    (case extract_summary_messages xs folded remaining of (f, r) \<Rightarrow> extract_summary_messages ys f r)"
  by (induction xs folded remaining rule: extract_summary_messages.induct) (auto split: option.split)

lemma extract_none: "(\<forall>m \<in> set ms. summary_message_body m = None) \<Longrightarrow>
    extract_summary_messages ms folded remaining = (folded, remaining @ ms)"
  by (induction ms folded remaining rule: extract_summary_messages.induct) auto

lemma selection_subset:
  fixes js ms budget ub force previous
  defines "sel \<equiv> resolve_retention_selection js ms budget ub force previous"
  shows "set (rs_pinned_prefix sel @ rs_retained_users sel @ rs_dropped sel @ rs_tail sel) = set (history ms)"
proof -
  let ?remainder = "dropWhile (\<lambda>m. m_role m = RSystem) (history ms)"
  obtain older tail where s: "rs_pinned_prefix sel = takeWhile (\<lambda>m. m_role m = RSystem) (history ms)"
    "build_message_units ?remainder = older @ tail" "rs_tail sel = concat tail"
    "mset (rs_retained_users sel @ rs_dropped sel) = mset (concat older)"
    using retention_selection_cases [of js ms budget ub force previous] unfolding sel_def by blast
  from s(4) have "set (rs_retained_users sel @ rs_dropped sel) = set (concat older)" by (metis set_mset_mset)
  moreover have "concat older @ concat tail = ?remainder"
    using concat_units [of ?remainder] s(2) by simp
  then have "set (history ms) = set (rs_pinned_prefix sel) \<union> (set (concat older) \<union> set (concat tail))"
    unfolding s(1) by (metis set_append takeWhile_dropWhile_id)
  ultimately show ?thesis unfolding s(3) by auto
qed

subsection \<open>Properties\<close>

text \<open>C28: the history is cut into units without loss, reordering or empty units, and every unit that is
  followed by another one holds, for each tool call in it, a later message with the result of that
  call: a cut between units never separates a call from its result.\<close>

theorem units_never_split_calls:
  "concat (build_message_units ms) = ms \<and> [] \<notin> set (build_message_units ms)
   \<and> list_all answered (butlast (build_message_units ms))"
  using concat_units units_nonempty units_answered by (fastforce simp: list_all_iff)

text \<open>C29: compaction loses nothing it does not summarise. Without the earlier summaries, the history is the
  pinned prefix, a middle part and the retained tail, in this order. The middle part is exactly what
  is summarised plus the user messages kept verbatim, which stay in order; when there is a tail,
  every tool call before it is answered before it.\<close>

theorem selection_partitions_history:
  fixes js ms budget user_budget force previous
  defines "sel \<equiv> resolve_retention_selection js ms budget user_budget force previous"
  shows "\<exists>middle. history ms = rs_pinned_prefix sel @ middle @ rs_tail sel
    \<and> mset middle = mset (rs_retained_users sel @ rs_dropped sel)
    \<and> subseq (rs_retained_users sel) middle
    \<and> (rs_tail sel = [] \<or> answered middle)"
proof -
  let ?remainder = "dropWhile (\<lambda>m. m_role m = RSystem) (history ms)"
  obtain older tail users where s: "rs_pinned_prefix sel = takeWhile (\<lambda>m. m_role m = RSystem) (history ms)"
    "build_message_units ?remainder = older @ tail" "rs_tail sel = concat tail"
    "mset (rs_retained_users sel @ rs_dropped sel) = mset (concat older)"
    "suffix (rs_retained_users sel) users" "subseq users (concat older)"
    using retention_selection_cases [of js ms budget user_budget force previous] unfolding sel_def by blast
  have "concat older @ concat tail = ?remainder" using concat_units [of ?remainder] s(2) by simp
  then have "history ms = rs_pinned_prefix sel @ concat older @ rs_tail sel" unfolding s(1,3) by simp
  moreover have "subseq (rs_retained_users sel) (concat older)"
    using s(5,6) subseq_order.trans suffix_imp_subseq by blast
  moreover have "rs_tail sel = [] \<or> answered (concat older)"
    using answered_before_tail [OF s(2)] s(3) by (cases tail) auto
  ultimately show ?thesis using s(4) by metis
qed


text \<open>C31: summaries form a chain and not a stack. A compacted context holds exactly one summary message; the
  next compaction recognises it, reads back its body and keeps no copy of it, and all other messages
  come from the history.\<close>

theorem summary_chain:
  assumes "compact_messages js fresh now ms budget trigger ub previous override = Some (out, Some c)"
    and "\<And>w. override = Some w \<Longrightarrow> starts_char w"
  shows "\<exists>kept. extract_summary_messages out [] [] = ([normalize_summary_body (xc_summary c)], kept)
    \<and> normalize_summary_body (xc_summary c) \<noteq> [] \<and> length out = length kept + 1 \<and> set kept \<subseteq> set (history ms)"
proof -
  obtain sel s where sel: "sel = resolve_retention_selection js ms budget ub (trigger = Forced) previous"
    and b: "summary_body_of js budget sel override = Some (Some s)" "64 \<le> rs_summary_budget sel"
    and c: "xc_summary c = COMPACTION_SUMMARY_MARKER @ [nl] @ s"
    and out: "out = rs_pinned_prefix sel @ rs_retained_users sel @
       [message_text fresh now RSystem (COMPACTION_SUMMARY_MARKER @ [nl] @ s)] @ rs_tail sel"
    using compact_messagesE [OF assms(1)] by metis
  have v: "starts_char s" "str_trim s \<noteq> []" using opens_visibleD [OF summary_body_visible [OF b assms(2)]] by simp_all
  have sub: "set (rs_pinned_prefix sel @ rs_retained_users sel @ rs_dropped sel @ rs_tail sel) = set (history ms)"
    unfolding sel by (rule selection_subset)
  let ?pre = "rs_pinned_prefix sel @ rs_retained_users sel"
  have "extract_summary_messages ?pre [] [] = ([], ?pre)" using sub by (subst extract_none) auto
  moreover have "extract_summary_messages (rs_tail sel) f r = (f, r @ rs_tail sel)" for f r
    using sub by (subst extract_none) auto
  ultimately have "extract_summary_messages out [] [] = ([str_trim s], ?pre @ rs_tail sel)"
    using extract_fold [of ?pre "[message_text fresh now RSystem (COMPACTION_SUMMARY_MARKER @ [nl] @ s)] @ rs_tail sel" "[]" "[]"]
    by (simp add: out summary_roundtrip [OF v, unfolded append_Cons append_Nil])
  moreover have "normalize_summary_body (xc_summary c) = str_trim s" unfolding c by (rule normalize_marked [OF v])
  ultimately show ?thesis using v(2) sub by (auto simp: out)
qed

subsection \<open>Witnesses\<close>

definition ex_user :: "string \<Rightarrow> message" where
  "ex_user t = \<lparr>m_message_id = MessageId t, m_role = RUser, m_parts = [Text t], m_created_at = 0\<rparr>"

lemma ex_compacted: "\<exists>out c. compact_messages js fresh now ms budget trigger ub previous (Some ''summary'') = Some (out, Some c)"
proof -
  have "str_trim ''summary'' \<noteq> []" by code_simp
  then show ?thesis by (simp add: compact_messages_def summary_body_of_def Let_def)
qed


theorem summary_chain_witness:
  "\<exists>out c kept. compact_messages (\<lambda>_. []) (MessageId ''m'') 1 [ex_user ''a'', ex_user ''b''] 1000 Forced 100 None (Some ''summary'') = Some (out, Some c)
    \<and> extract_summary_messages out [] [] = ([normalize_summary_body (xc_summary c)], kept)"
proof -
  obtain out c where o: "compact_messages (\<lambda>_. []) (MessageId ''m'') 1 [ex_user ''a'', ex_user ''b''] 1000 Forced 100 None (Some ''summary'') = Some (out, Some c)"
    using ex_compacted by blast
  have "starts_char w" if "Some ''summary'' = Some w" for w
    using that by (auto simp: starts_char_def is_continuation_def byte_of_def)
  from summary_chain [OF o this] o show ?thesis by blast
qed

subsection \<open>Two edges\<close>

text \<open>Truncating tool output or a digest line panics exactly when the byte limit falls inside a
  character of the joined lines; ASCII text is never affected.\<close>

theorem truncate_text_panics_iff:
  fixes s :: string
  defines "joined n \<equiv> join_with [nl] (take n (str_lines s))"
  shows "truncate_text s max_lines max_bytes = None \<longleftrightarrow>
    0 < max_bytes \<and> max_bytes < length (joined max_lines) \<and> is_continuation (joined max_lines ! max_bytes)"
  unfolding truncate_text_def joined_def Let_def str_truncate_def is_char_boundary_def
  by (auto split: if_splits)

definition ex_accented :: message where
  "ex_accented = ex_user (replicate 239 CHR ''a'' @ [char_of (195 :: nat), char_of (169 :: nat)])"

text \<open>The deterministic digest aborts on an ordinary message: 239 ASCII letters followed by one accented
  letter.\<close>

theorem digest_panics: "summary_line js ex_accented = None"
proof -
  let ?t = "replicate 239 CHR ''a'' @ [char_of (195 :: nat), char_of (169 :: nat)]"
  have "nl \<notin> set ?t" by code_simp
  then have l: "str_lines ?t = [?t]" by (intro str_lines_single) simp_all
  have "is_continuation (?t ! 240)" by (simp add: nth_append is_continuation_def byte_of_def)
  then have "truncate_text ?t 4 240 = None"
    by (simp add: truncate_text_def l str_truncate_def is_char_boundary_def)
  moreover have "message_tool_call ex_accented = None" "message_tool_result ex_accented = None"
    "render_message_parts_for_summary js (m_parts ex_accented) = ?t"
    by (simp_all add: ex_accented_def ex_user_def message_tool_call_def message_tool_result_def
        render_message_parts_for_summary_def map_filter_simps)
  ultimately show ?thesis by (simp add: summary_line_def)
qed

definition ex_orphan :: message where
  "ex_orphan = \<lparr>m_message_id = MessageId ''r'', m_role = RTool,
     m_parts = [ToolResult \<lparr>tr_call_id = ToolCallId ''c'', tr_tool_name = ''read'', tr_is_error = False,
       tr_output = JNull, tr_duration_ms = None\<rparr>], m_created_at = 0\<rparr>"

text \<open>A forced compaction can leave a tail that opens on a tool result whose call is not in the context:
  the check for such a result runs before the oldest unit is aged out.\<close>

theorem forced_tail_opens_on_tool:
  "map m_role (rs_tail (resolve_retention_selection (\<lambda>_. []) [ex_user ''a'', ex_orphan, ex_user ''b''] 10000 0 True None))
     = [RTool, RUser]"
proof -
  have u: "m_role (ex_user t) = RUser" "message_tool_call_ids (ex_user t) = []" "text_parts (ex_user t) = [t]"
    "estimate_message_tokens js (ex_user t) = estimate_text_tokens t" for t js
    by (simp_all add: ex_user_def message_tool_call_ids_def text_parts_def estimate_message_tokens_def map_filter_simps)
  have r: "m_role ex_orphan = RTool" "message_tool_call_ids ex_orphan = []" "estimate_message_tokens (\<lambda>_. []) ex_orphan = 17"
    by (simp_all add: ex_orphan_def message_tool_call_ids_def estimate_message_tokens_def map_filter_simps
        estimate_text_tokens_def chars_count_def is_continuation_def byte_of_def)
  have e: "estimate_text_tokens ''a'' = 8" "estimate_text_tokens ''b'' = 8"
    by (simp_all add: estimate_text_tokens_def chars_count_def)
  have s: "summary_message_body (ex_user t) = None" "summary_message_body ex_orphan = None" for t
    by (simp_all add: summary_message_body_def u r)
  let ?js = "\<lambda>_. []" and ?a = "ex_user ''a''" and ?b = "ex_user ''b''"
  have x: "extract_summary_messages [?a, ex_orphan, ?b] [] [] = ([], [?a, ex_orphan, ?b])" by (simp add: s)
  have units: "build_message_units [?a, ex_orphan, ?b] = [[?a], [ex_orphan], [?b]]" by (simp add: u r)
  have sb: "summary_budget_of 10000 = 1250"
    by (simp add: summary_budget_of_def SUMMARY_BUDGET_MIN_TOKENS_def SUMMARY_BUDGET_MAX_TOKENS_def clamp_def)
  have tail: "take_tail ?js 8750 [[?b], [ex_orphan], [?a]] [] 0 = ([], [[?a], [ex_orphan], [?b]])"
    by (simp add: u r e sat_add_def u64_max_def)
  have orphans: "drop_orphans [] [[?a], [ex_orphan], [?b]] = ([], [[?a], [ex_orphan], [?b]])"
    by (simp add: opens_on_tool_def u)
  have fits: "selection_total ?js 0 1250 [] [[ex_orphan], [?b]] \<le> 10000"
    by (simp add: selection_total_def sat_add_def u64_max_def u r e)
  show ?thesis
    unfolding resolve_retention_selection_def x split_conv Let_def split_system_prefix_def
    by (simp add: u r units sb tail orphans fits shrink_fits fold_previous_summary_def
        del: take_tail.simps drop_orphans.simps build_message_units.simps)
qed

end
