(* ===== verification/Bt_ContextBuild.thy ===== *)
theory Bt_ContextBuild
  imports Bt_Retention
begin

section \<open>Request assembly\<close>

text \<open>
  The assembler half of \<open>bt-context/src/lib.rs\<close>: when a request is compacted and with which budget,
  the request itself, the plan of the summarisation call, the default thinking configuration with the
  model tables of \<open>bt-core/src/model_capability.rs\<close>, and the system prompt. The catalogue of context
  windows is data of the configuration and an argument; directory listings are an argument of the
  scan for validation surfaces.
\<close>

subsection \<open>Model capabilities\<close>

definition openai_reasoning_family :: "string \<Rightarrow> bool" where
  "openai_reasoning_family model =
     (let m = to_ascii_lowercase model
      in prefix ''o1'' m \<or> prefix ''o3'' m \<or> prefix ''o4'' m \<or> prefix ''gpt-5'' m)"

definition openai_default_reasoning_effort :: "string \<Rightarrow> thinking_effort option" where
  "openai_default_reasoning_effort model =
     (if \<not> openai_reasoning_family model then None
      else if str_contains ''codex-max'' (to_ascii_lowercase model) then Some TeXHigh
      else Some TeHigh)"

definition clamp_openai_chat_reasoning_effort :: "thinking_effort \<Rightarrow> thinking_effort" where
  "clamp_openai_chat_reasoning_effort effort = (if effort = TeXHigh then TeHigh else effort)"

definition anthropic_supports_thinking :: "string \<Rightarrow> bool" where
  "anthropic_supports_thinking model =
     (case strip_prefix ''claude-'' (to_ascii_lowercase model) of
        None \<Rightarrow> False
      | Some rest \<Rightarrow>
          is_some_and (find_map (parse_unsigned (2 ^ 32)) (str_split CHR ''-'' rest)) (\<lambda>major. major \<ge> 4))"

definition default_anthropic_thinking_budget :: "nat \<Rightarrow> nat" where
  "default_anthropic_thinking_budget reserve =
     (let upper = reserve - 1
      in if upper < 1024 then max upper 1 else min (clamp 1024 32768 (reserve - 1024)) upper)"

definition effective_thinking_config ::
  "connection_id \<Rightarrow> string \<Rightarrow> string \<Rightarrow> nat \<Rightarrow> thinking_config option \<Rightarrow> thinking_config option" where
  "effective_thinking_config connection provider model reserve requested =
     (if requested \<noteq> None then requested
      else if provider = ''openai-chatgpt'' \<and> openai_default_reasoning_effort model \<noteq> None
        \<or> provider = ''openai-compatible'' \<and> connection_id_text connection = ''openai''
          \<and> openai_default_reasoning_effort model \<noteq> None
      then Some \<lparr>th_enabled = True, th_effort = openai_default_reasoning_effort model,
             th_budget_tokens = None, th_include_summaries = True\<rparr>
      else if provider = ''anthropic'' \<and> anthropic_supports_thinking model
      then Some \<lparr>th_enabled = True, th_effort = Some TeHigh,
             th_budget_tokens = Some (word_of_nat (default_anthropic_thinking_budget reserve)),
             th_include_summaries = True\<rparr>
      else None)"

subsection \<open>Trigger and budget\<close>

definition f64_one :: int where
  "f64_one = 2 ^ 1074"

definition f64_of_nat :: "nat \<Rightarrow> f64" where
  "f64_of_nat n = f64_round (int n * f64_one)"

text \<open>The exact product of two doubles is \<open>a * b\<close> multiples of \<open>2 ^ -2148\<close>; it is rounded to 53 bits but
  never below the last bit of a subnormal.\<close>

fun f64_mul :: "f64 \<Rightarrow> f64 \<Rightarrow> f64" where
  "f64_mul F64_NaN b = F64_NaN"
| "f64_mul a F64_NaN = F64_NaN"
| "f64_mul (F64_Inf s) (F64_Inf t) = F64_Inf (s \<noteq> t)"
| "f64_mul (F64_Inf s) (F64_Fin n) = (if n = 0 then F64_NaN else F64_Inf (s \<noteq> (n < 0)))"
| "f64_mul (F64_Fin m) (F64_Inf t) = (if m = 0 then F64_NaN else F64_Inf ((m < 0) \<noteq> t))"
| "f64_mul (F64_Fin a) (F64_Fin b) =
     (let m = nat \<bar>a * b\<bar>; k = max (bit_len m - 53) 1074; v = round_half_even m k * 2 ^ (k - 1074)
      in if v \<ge> 2 ^ 2098 then F64_Inf (a * b < 0) else F64_Fin (sgn (a * b) * int v))"

text \<open>\<open>x.floor() as u64\<close>: the cast saturates, NaN becomes 0.\<close>

fun f64_floor_u64 :: "f64 \<Rightarrow> nat" where
  "f64_floor_u64 F64_NaN = 0"
| "f64_floor_u64 (F64_Inf s) = (if s then 0 else u64_max)"
| "f64_floor_u64 (F64_Fin n) = min (nat (n div f64_one)) u64_max"

text \<open>The double nearest to 0.9.\<close>

definition DEFAULT_TRIGGER_FRACTION :: f64 where
  "DEFAULT_TRIGGER_FRACTION = F64_Fin (8106479329266893 * 2 ^ 1021)"

definition valid_fraction :: "f64 \<Rightarrow> bool" where
  "valid_fraction f \<longleftrightarrow> f64_lt f64_zero f \<and> f64_ge (F64_Fin f64_one) f"

definition trigger_tokens :: "nat \<Rightarrow> f64 \<Rightarrow> nat" where
  "trigger_tokens window fraction =
     f64_floor_u64 (f64_mul (f64_of_nat window)
       (if valid_fraction fraction then fraction else DEFAULT_TRIGGER_FRACTION))"

definition compaction_trigger ::
  "bool \<Rightarrow> nat \<Rightarrow> nat \<Rightarrow> nat option \<Rightarrow> nat \<Rightarrow> context_compaction_trigger option" where
  "compaction_trigger force estimated max_prompt observed trigger =
     (if force then Some Forced
      else if estimated > max_prompt then Some TokenBudget
      else if is_some_and observed (\<lambda>n. n > trigger) then Some TokenBudget
      else None)"

text \<open>The product is computed in \<open>u128\<close> and the quotient cast back to \<open>u64\<close>.\<close>

definition effective_prompt_budget :: "nat \<Rightarrow> nat \<Rightarrow> nat option \<Rightarrow> nat" where
  "effective_prompt_budget max_prompt estimated observed =
     (case observed of
        Some n \<Rightarrow>
          (if n > estimated \<and> n > 0
           then ((max_prompt * max estimated 1) mod 2 ^ 128 div n) mod 2 ^ 64 else max_prompt)
      | None \<Rightarrow> max_prompt)"

subsection \<open>The request\<close>

text \<open>The fields of \<open>ContextConfig\<close> that the assembler reads.\<close>

record context_config =
  cx_compaction_trigger_fraction :: f64
  cx_compaction_user_message_budget_tokens :: nat
  cx_reserve_tokens :: nat
  cx_max_tool_result_lines :: nat
  cx_max_tool_result_bytes :: nat

record context_window_entry =
  cw_provider :: string
  cw_model_pattern :: string
  cw_context_window_tokens :: nat

record context_assembler =
  ca_context :: context_config
  ca_windows :: "context_window_entry list"

definition context_window_for :: "context_assembler \<Rightarrow> string \<Rightarrow> string \<Rightarrow> nat" where
  "context_window_for asm provider model =
     (case List.find (\<lambda>e. cw_provider e = provider \<and> str_contains (cw_model_pattern e) model) (ca_windows asm) of
        Some e \<Rightarrow> cw_context_window_tokens e
      | None \<Rightarrow> 32768)"

record structured_output_spec =
  so_schema_name :: "string option"
  so_schema :: json

record completion_request =
  cq_connection_id :: connection_id
  cq_model :: string
  cq_system_prompt :: "string option"
  cq_messages :: "message list"
  cq_tools :: "tool_spec list"
  cq_structured_output :: "structured_output_spec option"
  cq_max_tokens :: "nat option"
  cq_temperature :: "f64 option"
  cq_thinking :: "thinking_config option"

record context_build_options =
  op_force_compaction :: bool
  op_observed_context_tokens :: "nat option"
  op_previous_summary :: "string option"
  op_summary_override :: "string option"

definition default_build_options :: context_build_options where
  "default_build_options = \<lparr>op_force_compaction = False, op_observed_context_tokens = None,
     op_previous_summary = None, op_summary_override = None\<rparr>"

record context_build_output =
  co_request :: completion_request
  co_compaction :: "context_compaction option"

definition system_tokens_of :: "string option \<Rightarrow> nat" where
  "system_tokens_of prompt = (case prompt of None \<Rightarrow> 0 | Some s \<Rightarrow> estimate_text_tokens s)"

definition accept_candidate ::
  "(json \<Rightarrow> string) \<Rightarrow> nat \<Rightarrow> nat \<Rightarrow> context_compaction_trigger \<Rightarrow> message list
     \<Rightarrow> message list \<times> context_compaction option \<Rightarrow> message list \<times> context_compaction option" where
  "accept_candidate js system_tokens tokens_before trigger normalized candidate =
     (let candidate_tokens = sat_add (estimate_messages_tokens js (fst candidate)) system_tokens
      in case snd candidate of
           Some c \<Rightarrow>
             (if trigger \<noteq> Forced \<or> candidate_tokens < tokens_before
              then (fst candidate, Some (c\<lparr>xc_tokens_before := tokens_before, xc_tokens_after := candidate_tokens,
                     xc_messages_after := word_of_nat (length (fst candidate))\<rparr>))
              else (normalized, None))
         | None \<Rightarrow> (normalized, None))"

definition build_request_with_options ::
  "(json \<Rightarrow> string) \<Rightarrow> message_id \<Rightarrow> time \<Rightarrow> context_assembler \<Rightarrow> connection_id \<Rightarrow> string \<Rightarrow> string
     \<Rightarrow> string option \<Rightarrow> message list \<Rightarrow> tool_spec list \<Rightarrow> thinking_config option
     \<Rightarrow> context_build_options \<Rightarrow> context_build_output option" where
  "build_request_with_options js fresh now asm connection provider model system_prompt messages tools thinking options =
     (let window = context_window_for asm provider model;
          cx = ca_context asm;
          max_prompt = window - cx_reserve_tokens cx;
          system_tokens = system_tokens_of system_prompt
      in Option.bind (normalize_messages (cx_max_tool_result_lines cx) (cx_max_tool_result_bytes cx) messages) (\<lambda>normalized.
         let tokens_before = sat_add (estimate_messages_tokens js normalized) system_tokens
         in Option.bind
             (case compaction_trigger (op_force_compaction options) tokens_before max_prompt
                 (op_observed_context_tokens options) (trigger_tokens window (cx_compaction_trigger_fraction cx)) of
                Some trigger \<Rightarrow>
                  map_option (accept_candidate js system_tokens tokens_before trigger normalized)
                    (compact_messages js fresh now normalized
                      (effective_prompt_budget max_prompt tokens_before (op_observed_context_tokens options) - system_tokens)
                      trigger (cx_compaction_user_message_budget_tokens cx) (op_previous_summary options)
                      (op_summary_override options))
              | None \<Rightarrow> Some (normalized, None)) (\<lambda>(selected, compaction).
            Some \<lparr>co_request = \<lparr>cq_connection_id = connection, cq_model = model, cq_system_prompt = system_prompt,
                cq_messages = selected, cq_tools = tools, cq_structured_output = None,
                cq_max_tokens = Some (cx_reserve_tokens cx), cq_temperature = None,
                cq_thinking = effective_thinking_config connection provider model (cx_reserve_tokens cx) thinking\<rparr>,
              co_compaction = compaction\<rparr>)))"

definition build_request_with_metadata ::
  "(json \<Rightarrow> string) \<Rightarrow> message_id \<Rightarrow> time \<Rightarrow> context_assembler \<Rightarrow> connection_id \<Rightarrow> string \<Rightarrow> string
     \<Rightarrow> string option \<Rightarrow> message list \<Rightarrow> tool_spec list \<Rightarrow> thinking_config option \<Rightarrow> context_build_output option" where
  "build_request_with_metadata js fresh now asm connection provider model system_prompt messages tools thinking =
     build_request_with_options js fresh now asm connection provider model system_prompt messages tools thinking
       default_build_options"

definition build_request ::
  "(json \<Rightarrow> string) \<Rightarrow> message_id \<Rightarrow> time \<Rightarrow> context_assembler \<Rightarrow> connection_id \<Rightarrow> string \<Rightarrow> string
     \<Rightarrow> string option \<Rightarrow> message list \<Rightarrow> tool_spec list \<Rightarrow> thinking_config option \<Rightarrow> completion_request option" where
  "build_request js fresh now asm connection provider model system_prompt messages tools thinking =
     map_option co_request
       (build_request_with_metadata js fresh now asm connection provider model system_prompt messages tools thinking)"

subsection \<open>The plan of the summarisation call\<close>

definition SUMMARIZATION_PROMPT_OVERHEAD_TOKENS :: nat where
  "SUMMARIZATION_PROMPT_OVERHEAD_TOKENS = 768"

record compaction_plan =
  pl_trigger :: context_compaction_trigger
  pl_summarization_transcript :: string
  pl_summary_budget_tokens :: nat

definition truncate_chars :: "string \<Rightarrow> nat \<Rightarrow> string" where
  "truncate_chars s max_chars =
     (let truncated = chars_take max_chars s
      in replace_nl (if chars_count truncated < chars_count s then truncated @ ''...'' else truncated))"

primrec role_label :: "role \<Rightarrow> string" where
  "role_label RSystem = ''system''"
| "role_label RUser = ''user''"
| "role_label RAssistant = ''assistant''"
| "role_label RTool = ''tool''"

fun render_transcript_part :: "(json \<Rightarrow> string) \<Rightarrow> message_part \<Rightarrow> string option" where
  "render_transcript_part js (Text t) = Some t"
| "render_transcript_part js (ToolCall c) =
     Some (''[tool_call '' @ tc_tool_name c @ '' '' @ truncate_chars (js (tc_arguments c)) 400 @ '']'')"
| "render_transcript_part js (ToolResult r) =
     Some (''[tool_result '' @ tr_tool_name r @ (if tr_is_error r then '' error'' else []) @ '' ''
       @ truncate_chars (js (tr_output r)) 800 @ '']'')"
| "render_transcript_part js (Refusal (Some t) reason meta) = Some (''[refusal] '' @ t)"
| "render_transcript_part js (Structured name v) = Some (''[structured] '' @ truncate_chars (js v) 400)"
| "render_transcript_part js p = None"

definition render_message_for_transcript :: "(json \<Rightarrow> string) \<Rightarrow> message \<Rightarrow> string" where
  "render_message_for_transcript js m =
     (let rendered = join_with [nl] (List.map_filter (render_transcript_part js) (m_parts m))
      in ''['' @ role_label (m_role m) @ ''] '' @ (if rendered = [] then ''[non-text message]'' else rendered))"

text \<open>The loop that moves \<open>start\<close> towards the oldest line; the arguments are the lines before \<open>start\<close>,
  newest first, the number of lines kept so far and the tokens used.\<close>

fun transcript_start :: "nat \<Rightarrow> nat list \<Rightarrow> nat \<Rightarrow> nat \<Rightarrow> nat" where
  "transcript_start budget [] kept used = 0"
| "transcript_start budget (t # ts) kept used =
     (let next_used = sat_add used t
      in if next_used > budget \<and> kept > 0 then Suc (length ts)
         else transcript_start budget ts (Suc kept) next_used)"

definition transcript_header :: "string list \<Rightarrow> string" where
  "transcript_header folded =
     (if folded = [] then []
      else ''Previous compaction summary (fold its still-relevant content into the new summary):'' @ [nl]
        @ join_with [nl, nl] folded @ [nl, nl])"

definition render_summarization_transcript :: "(json \<Rightarrow> string) \<Rightarrow> string list \<Rightarrow> message list \<Rightarrow> nat \<Rightarrow> string" where
  "render_summarization_transcript js folded dropped input_budget =
     (let header = transcript_header folded;
          lines = map (render_message_for_transcript js) dropped;
          body_budget = input_budget - sat_add (estimate_text_tokens header) 64;
          start = transcript_start body_budget (rev (map estimate_text_tokens lines)) 0 0
      in if lines = []
         then header @ ''No additional messages are being dropped in this compaction.'' @ [nl]
         else header
           @ (if start > 0
              then ''['' @ show_nat start @ '' older dropped messages omitted from this excerpt; they are covered by the previous summary and remain in session history]'' @ [nl]
              else [])
           @ ''Messages being dropped from the model-visible context:'' @ [nl] @ join_with [nl] (drop start lines))"

definition plan_compaction ::
  "(json \<Rightarrow> string) \<Rightarrow> context_assembler \<Rightarrow> string \<Rightarrow> string \<Rightarrow> string \<Rightarrow> string option \<Rightarrow> message list \<Rightarrow> bool
     \<Rightarrow> nat option \<Rightarrow> string option \<Rightarrow> compaction_plan option option" where
  "plan_compaction js asm provider model summarizer_model system_prompt messages force observed previous_summary =
     (let window = context_window_for asm provider model;
          cx = ca_context asm;
          max_prompt = window - cx_reserve_tokens cx;
          system_tokens = system_tokens_of system_prompt
      in Option.bind (normalize_messages (cx_max_tool_result_lines cx) (cx_max_tool_result_bytes cx) messages) (\<lambda>normalized.
         let tokens_before = sat_add (estimate_messages_tokens js normalized) system_tokens
         in case compaction_trigger force tokens_before max_prompt observed
                (trigger_tokens window (cx_compaction_trigger_fraction cx)) of
              None \<Rightarrow> Some None
            | Some trigger \<Rightarrow>
                let sel = resolve_retention_selection js normalized
                      (effective_prompt_budget max_prompt tokens_before observed - system_tokens)
                      (cx_compaction_user_message_budget_tokens cx) (trigger = Forced) previous_summary;
                    input_budget = max (context_window_for asm provider summarizer_model - cx_reserve_tokens cx
                      - rs_summary_budget sel - SUMMARIZATION_PROMPT_OVERHEAD_TOKENS) 512
                in if rs_dropped sel = [] \<and> rs_folded_summaries sel = [] then Some None
                   else Some (Some \<lparr>pl_trigger = trigger,
                     pl_summarization_transcript = render_summarization_transcript js (rs_folded_summaries sel)
                       (rs_dropped sel) input_budget,
                     pl_summary_budget_tokens = rs_summary_budget sel\<rparr>)))"

subsection \<open>The system prompt\<close>

definition MAX_VALIDATION_SURFACES :: nat where
  "MAX_VALIDATION_SURFACES = 12"

definition MAX_VALIDATION_SCAN_DEPTH :: nat where
  "MAX_VALIDATION_SCAN_DEPTH = 3"

definition MAX_VALIDATION_SCAN_ENTRIES :: nat where
  "MAX_VALIDATION_SCAN_ENTRIES = 256"

text \<open>What \<open>fs::read_dir\<close> gives for an entry; the path is \<open>None\<close> when it is not UTF-8.\<close>

record dir_entry =
  de_name :: string
  de_path :: "string option"
  de_is_dir :: bool

definition should_skip_validation_scan_entry :: "string \<Rightarrow> bool" where
  "should_skip_validation_scan_entry name \<longleftrightarrow>
     name \<in> set [''.git'', ''.belltower'', ''target'', ''node_modules'', ''.venv'', ''venv'', ''__pycache__'']
     \<or> prefix ''.'' name"

definition validation_dir_names :: "string list" where
  "validation_dir_names = [''test'', ''tests'', ''spec'', ''specs'', ''fixture'', ''fixtures'', ''schema'', ''schemas'',
     ''expected'', ''golden'']"

definition should_descend_validation_scan :: "string \<Rightarrow> nat \<Rightarrow> bool" where
  "should_descend_validation_scan name depth \<longleftrightarrow> depth = 0 \<or> to_ascii_lowercase name \<in> set validation_dir_names"

definition is_validation_surface_name :: "string \<Rightarrow> bool \<Rightarrow> bool" where
  "is_validation_surface_name name is_dir =
     (let lower = to_ascii_lowercase name
      in if is_dir then lower \<in> set validation_dir_names
         else lower \<in> set [''agents.md'', ''readme.md'', ''makefile'', ''justfile'', ''pyproject.toml'', ''package.json'']
           \<or> list_ex (\<lambda>w. str_contains w lower) [''test'', ''spec'', ''schema'', ''fixture'', ''expected'', ''golden''])"

definition relative_surface_path :: "(string \<Rightarrow> string option) \<Rightarrow> string \<Rightarrow> bool \<Rightarrow> string option" where
  "relative_surface_path relative path is_dir =
     Option.bind (relative path) (\<lambda>rendered.
     if rendered = [] then None
     else Some (if is_dir \<and> last rendered \<noteq> CHR ''/'' then rendered @ ''/'' else rendered))"

definition visit_entry ::
  "(string \<Rightarrow> string option) \<Rightarrow> nat \<Rightarrow> (string \<Rightarrow> nat \<times> string list \<Rightarrow> nat \<times> string list) \<Rightarrow> dir_entry
     \<Rightarrow> nat \<times> string list \<Rightarrow> nat \<times> string list" where
  "visit_entry relative depth descend e st =
     (case st of (visited, surfaces) \<Rightarrow>
        if visited \<ge> MAX_VALIDATION_SCAN_ENTRIES then st
        else if should_skip_validation_scan_entry (de_name e) then (Suc visited, surfaces)
        else (case de_path e of
                None \<Rightarrow> (Suc visited, surfaces)
              | Some path \<Rightarrow>
                  let surfaces = (if is_validation_surface_name (de_name e) (de_is_dir e)
                        then (case relative_surface_path relative path (de_is_dir e) of
                                None \<Rightarrow> surfaces | Some s \<Rightarrow> insort_insert s surfaces)
                        else surfaces)
                  in if de_is_dir e \<and> should_descend_validation_scan (de_name e) depth
                     then descend path (Suc visited, surfaces) else (Suc visited, surfaces)))"

text \<open>The first argument is the number of levels still allowed: the depth of the source is
  \<open>MAX_VALIDATION_SCAN_DEPTH + 1\<close> minus it.\<close>

primrec scan_validation_surfaces ::
  "nat \<Rightarrow> (string \<Rightarrow> dir_entry list option) \<Rightarrow> (string \<Rightarrow> string option) \<Rightarrow> string
     \<Rightarrow> nat \<times> string list \<Rightarrow> nat \<times> string list" where
  "scan_validation_surfaces 0 read_dir relative dir st = st"
| "scan_validation_surfaces (Suc levels) read_dir relative dir st =
     (if fst st \<ge> MAX_VALIDATION_SCAN_ENTRIES then st
      else (case read_dir dir of
              None \<Rightarrow> st
            | Some entries \<Rightarrow>
                fold (visit_entry relative (MAX_VALIDATION_SCAN_DEPTH - levels)
                    (scan_validation_surfaces levels read_dir relative))
                  (sort_key de_name entries) st))"

definition validation_surfaces_for_project ::
  "(string \<Rightarrow> dir_entry list option) \<Rightarrow> (string \<Rightarrow> string option) \<Rightarrow> string \<Rightarrow> string list" where
  "validation_surfaces_for_project read_dir relative project_root =
     take MAX_VALIDATION_SURFACES
       (snd (scan_validation_surfaces (MAX_VALIDATION_SCAN_DEPTH + 1) read_dir relative project_root (0, [])))"

definition render_runtime_context ::
  "(string \<Rightarrow> dir_entry list option) \<Rightarrow> (string \<Rightarrow> string option) \<Rightarrow> session_record \<Rightarrow> string" where
  "render_runtime_context read_dir relative s =
     (let surfaces = validation_surfaces_for_project read_dir relative (sr_project_root s)
      in join_with [nl]
        ([''Runtime context:'', ''- cwd: '' @ sr_project_root s, ''- connection: '' @ connection_id_text (sr_connection_id s)]
         @ (case sr_model_id s of Some m \<Rightarrow> if str_trim m \<noteq> [] then [''- model: '' @ m] else [] | None \<Rightarrow> [])
         @ [''- tool mode: '' @ (case sr_tool_mode s of Standard \<Rightarrow> ''standard'' | Extended \<Rightarrow> ''extended''),
            ''- shell commands run from this cwd/project root.'']
         @ (if surfaces = [] then []
            else ''- validation surfaces detected:'' # map (\<lambda>x. ''  - '' @ x) surfaces)))"

definition TOOL_GUIDANCE_ORDER :: "(string \<times> string) list" where
  "TOOL_GUIDANCE_ORDER =
    [(''search'', ''discover files or matching content''), (''read'', ''inspect a known file''),
     (''list'', ''inspect directory structure''), (''edit'', ''make deliberate local file changes''),
     (''write'', ''create or replace a file intentionally''),
     (''shell'', ''use only when the structured tools are not the right fit''),
     (''web_search'', ''discover external web sources before fetching specific URLs''),
     (''web_fetch'', ''retrieve public URL content with source and truncation metadata''),
     (''plan'', ''track multi-step work explicitly when it helps''),
     (''ask'', ''pause and ask the human when required input is missing''),
     (''inspect'', ''check prior harness state instead of guessing'')]"

definition render_tool_guidance :: "tool_spec list \<Rightarrow> string option" where
  "render_tool_guidance tools =
     (let names = map ts_name tools;
          lines = map (\<lambda>(n, d). ''- `'' @ n @ ''`: '' @ d) (filter (\<lambda>(n, d). n \<in> set names) TOOL_GUIDANCE_ORDER)
            @ (if ''catalogue'' \<in> set names
               then [''- `catalogue`: discover additional external tools when the visible set is not enough.''] else [])
      in if lines = [] then None else Some (''Tool guidance:'' @ [nl] @ join_with [nl] lines))"

definition render_instruction_documents :: "instruction_document list \<Rightarrow> string" where
  "render_instruction_documents docs =
     join_with [nl, nl] (map (\<lambda>d. ''## '' @ id_title d @ [nl] @ str_trim (id_body d)) docs)"

primrec render_plan_status :: "plan_status \<Rightarrow> string" where
  "render_plan_status PlPending = ''pending''"
| "render_plan_status PlInProgress = ''in_progress''"
| "render_plan_status PlCompleted = ''completed''"
| "render_plan_status PlBlocked = ''blocked''"

definition render_active_plan :: "plan_item list \<Rightarrow> string" where
  "render_active_plan items =
     ''Active plan:'' @ [nl] @ join_with [nl]
       (map (\<lambda>i. ''- ['' @ render_plan_status (pi_status i) @ ''] '' @ pi_id i @ '': '' @ pi_content i) items)"

definition system_prompt_build ::
  "(string \<Rightarrow> dir_entry list option) \<Rightarrow> (string \<Rightarrow> string option) \<Rightarrow> session_record \<Rightarrow> string
     \<Rightarrow> instruction_document \<Rightarrow> instruction_document option \<Rightarrow> instruction_document list \<Rightarrow> plan_item list option
     \<Rightarrow> tool_spec list \<Rightarrow> string" where
  "system_prompt_build read_dir relative s provider_family core overlay instructions plan tools =
     join_with [nl, nl]
       ([str_trim (id_body core)]
        @ (case sr_objective s of
             Some x \<Rightarrow> if str_trim x \<noteq> [] then [''Objective:'' @ [nl] @ str_trim x] else [] | None \<Rightarrow> [])
        @ [render_runtime_context read_dir relative s]
        @ (case render_tool_guidance tools of Some g \<Rightarrow> [g] | None \<Rightarrow> [])
        @ (case overlay of
             Some notes \<Rightarrow> if str_trim (id_body notes) \<noteq> []
               then [''Provider notes ('' @ provider_family @ ''):'' @ [nl] @ str_trim (id_body notes)] else []
           | None \<Rightarrow> [])
        @ (if instructions = [] then [] else [render_instruction_documents instructions])
        @ (case plan of Some items \<Rightarrow> if items \<noteq> [] then [render_active_plan items] else [] | None \<Rightarrow> []))"

subsection \<open>Lemmas\<close>

lemma round_half_even_le:
  assumes "m \<le> R * 2 ^ k"
  shows "round_half_even m k \<le> R"
proof -
  have q: "m div 2 ^ k \<le> R" using assms div_le_mono [OF assms, of "2 ^ k"] by simp
  show ?thesis
  proof (cases "m div 2 ^ k = R")
    case True
    then have "R * 2 ^ k \<le> m" by (metis div_times_less_eq_dividend)
    with assms have "m = R * 2 ^ k" by simp
    then show ?thesis by (simp add: round_half_even_def)
  next
    case False
    with q show ?thesis by (auto simp: round_half_even_def Let_def)
  qed
qed

lemma f64_mul_window_le:
  assumes "w < 2 ^ 53" "0 < b" "b \<le> f64_one"
  shows "f64_floor_u64 (f64_mul (F64_Fin (int w * f64_one)) (F64_Fin b)) \<le> w"
proof -
  define m where "m = nat \<bar>int w * f64_one * b\<bar>"
  define k where "k = max (bit_len m - 53) 1074"
  have one: "f64_one = int (2 ^ 1074)" by (simp add: f64_one_def)
  obtain c where c: "b = int c" "c \<le> 2 ^ 1074" using assms(2,3) one by (metis int_nat_eq nat_int of_nat_le_iff order_less_imp_le zero_le_imp_eq_int)
  have m: "m = w * 2 ^ 1074 * c" unfolding m_def c(1) one by (simp add: nat_mult_distrib nat_power_eq abs_mult)
  also have "\<dots> \<le> w * 2 ^ 1074 * 2 ^ 1074" using c(2) by (rule mult_le_mono2)
  finally have mle: "m \<le> w * 2 ^ 2148" by (simp add: power_add [symmetric] mult.assoc)
  also have "\<dots> < 2 ^ 53 * 2 ^ 2148" using assms(1) by simp
  finally have "m < 2 ^ 2201" by (simp add: power_add [symmetric])
  from bit_len_bound [OF this] have k: "1074 \<le> k" "k \<le> 2148" by (simp_all add: k_def)
  have "w * 2 ^ 2148 = (w * 2 ^ (2148 - k)) * 2 ^ k" using k(2) by (simp add: power_add [symmetric])
  with mle have "m \<le> (w * 2 ^ (2148 - k)) * 2 ^ k" by (simp only:)
  then have "round_half_even m k \<le> w * 2 ^ (2148 - k)" by (rule round_half_even_le)
  then have "round_half_even m k * 2 ^ (k - 1074) \<le> w * 2 ^ (2148 - k) * 2 ^ (k - 1074)" by (rule mult_le_mono1)
  also have "\<dots> = w * 2 ^ 1074" using k by (simp add: mult.assoc power_add [symmetric])
  finally have v: "round_half_even m k * 2 ^ (k - 1074) \<le> w * 2 ^ 1074" .
  have "w * 2 ^ 1074 < 2 ^ 53 * 2 ^ 1074" using assms(1) by simp
  also have "\<dots> \<le> 2 ^ 2098" by (simp only: power_add [symmetric]) (rule power_increasing, simp_all)
  finally have nov: "\<not> round_half_even m k * 2 ^ (k - 1074) \<ge> 2 ^ 2098" using v by linarith
  have "sgn (int w * f64_one * b) * int (round_half_even m k * 2 ^ (k - 1074)) = int (round_half_even m k * 2 ^ (k - 1074))"
  proof (cases "w = 0")
    case True
    with v have "round_half_even m k * 2 ^ (k - 1074) = 0" by (metis le_zero_eq mult_zero_left)
    then show ?thesis by (simp only: of_nat_0 mult_zero_right)
  next
    case False
    then have "sgn (int w * f64_one * b) = 1" using assms(2) one by (simp add: sgn_mult)
    then show ?thesis by (simp only: mult_1)
  qed
  with nov have "f64_mul (F64_Fin (int w * f64_one)) (F64_Fin b) = F64_Fin (int (round_half_even m k * 2 ^ (k - 1074)))"
    by (simp only: f64_mul.simps Let_def m_def [symmetric] k_def [symmetric] if_False)
  moreover have "int (round_half_even m k * 2 ^ (k - 1074)) div f64_one \<le> int w"
  proof -
    have "int (round_half_even m k * 2 ^ (k - 1074)) \<le> int w * f64_one" using v unfolding one by (metis of_nat_le_iff of_nat_mult)
    from zdiv_mono1 [OF this, of f64_one] show ?thesis unfolding one by simp
  qed
  ultimately show ?thesis by simp
qed

lemma valid_fraction_bits:
  assumes "valid_fraction f"
  obtains b where "f = F64_Fin b" "0 < b" "b \<le> f64_one"
  using assms by (cases f) (auto simp: valid_fraction_def)

lemma default_fraction_bits: "DEFAULT_TRIGGER_FRACTION = F64_Fin b \<Longrightarrow> 0 < b \<and> b \<le> f64_one"
  by (simp add: DEFAULT_TRIGGER_FRACTION_def f64_one_def)

lemma f64_of_nat_exact: "w < 2 ^ 53 \<Longrightarrow> f64_of_nat w = F64_Fin (int w * f64_one)"
proof -
  assume w: "w < 2 ^ 53"
  define m where "m = nat \<bar>int w * f64_one\<bar>"
  define k where "k = bit_len m - 53"
  have m: "m = w * 2 ^ 1074" by (simp add: m_def f64_one_def nat_mult_distrib nat_power_eq)
  also have "\<dots> < 2 ^ 53 * 2 ^ 1074" using w by simp
  finally have "m < 2 ^ 1127" by (simp add: power_add [symmetric])
  from bit_len_bound [OF this] have "k \<le> 1074" by (simp add: k_def)
  then have "m = (w * 2 ^ (1074 - k)) * 2 ^ k" by (simp add: m power_add [symmetric])
  then have "m mod 2 ^ k = 0" "m div 2 ^ k * 2 ^ k = m" by (metis mod_mult_self2_is_0, simp)
  then have "round_half_even m k * 2 ^ k = m" by (simp add: round_half_even_def)
  moreover have "\<not> m \<ge> 2 ^ 2098"
    using \<open>m < 2 ^ 1127\<close> power_increasing [of 1127 2098 "2 :: nat"] by linarith
  moreover have "sgn (int w * f64_one) * int m = int w * f64_one"
    unfolding m_def by (cases "w = 0") (simp_all add: f64_one_def abs_mult sgn_mult)
  ultimately show ?thesis
    unfolding f64_of_nat_def f64_round_def Let_def m_def [symmetric] k_def [symmetric] by simp
qed

lemma compose_nothing: "compose_fallback_summary_body js [] [] activity b = Some None"
  by (simp add: compose_fallback_summary_body_def build_summary_def)

lemma compact_nothing:
  assumes "rs_dropped (resolve_retention_selection js ms budget ub (trigger = Forced) previous) = []"
    and "rs_folded_summaries (resolve_retention_selection js ms budget ub (trigger = Forced) previous) = []"
  shows "\<exists>out. compact_messages js fresh now ms budget trigger ub previous None = Some (out, None)"
  unfolding compact_messages_def Let_def summary_body_of_def by (simp add: assms compose_nothing)

lemma compact_override:
  "str_trim s \<noteq> [] \<Longrightarrow> \<exists>out c. compact_messages js fresh now ms budget trigger ub previous (Some s) = Some (out, Some c)"
  by (simp add: compact_messages_def summary_body_of_def Let_def)

lemma visit_entry_bounded:
  assumes "fst st \<le> MAX_VALIDATION_SCAN_ENTRIES"
    and "\<And>path st. fst st \<le> MAX_VALIDATION_SCAN_ENTRIES \<Longrightarrow> fst (descend path st) \<le> MAX_VALIDATION_SCAN_ENTRIES"
  shows "fst (visit_entry relative depth descend e st) \<le> MAX_VALIDATION_SCAN_ENTRIES"
  using assms by (auto simp: visit_entry_def Let_def split: prod.split option.split)

lemma fold_bounded:
  assumes "\<And>e st. fst st \<le> n \<Longrightarrow> fst (f e st) \<le> n"
  shows "fst st \<le> n \<Longrightarrow> fst (fold f es st) \<le> (n :: nat)"
  by (induction es arbitrary: st) (simp_all add: assms)

lemma scan_bounded:
  "fst st \<le> MAX_VALIDATION_SCAN_ENTRIES \<Longrightarrow>
     fst (scan_validation_surfaces levels read_dir relative dir st) \<le> MAX_VALIDATION_SCAN_ENTRIES"
proof (induction levels arbitrary: dir st)
  case (Suc levels)
  then show ?case
    by (auto intro!: fold_bounded visit_entry_bounded split: option.split)
qed simp

subsection \<open>Properties\<close>

text \<open>The plan and the build decide alike. When the plan says that nothing will be compacted, a build
  without a model-written summary succeeds and compacts nothing; when a plan exists for an automatic
  trigger, the build that gets the summary back does compact.\<close>

theorem plan_decides_build:
  assumes "plan_compaction js asm provider model summarizer system_prompt ms force observed previous = Some plan"
  shows "(plan = None \<longrightarrow>
      (\<exists>out. build_request_with_options js fresh now asm connection provider model system_prompt ms tools thinking
          \<lparr>op_force_compaction = force, op_observed_context_tokens = observed, op_previous_summary = previous,
           op_summary_override = None\<rparr> = Some out \<and> co_compaction out = None))
    \<and> (\<forall>p s. plan = Some p \<longrightarrow> pl_trigger p \<noteq> Forced \<longrightarrow> str_trim s \<noteq> [] \<longrightarrow>
      (\<exists>out c. build_request_with_options js fresh now asm connection provider model system_prompt ms tools thinking
          \<lparr>op_force_compaction = force, op_observed_context_tokens = observed, op_previous_summary = previous,
           op_summary_override = Some s\<rparr> = Some out \<and> co_compaction out = Some c))"
proof -
  define window where "window = context_window_for asm provider model"
  define cx where "cx = ca_context asm"
  define budget where "budget n = effective_prompt_budget (window - cx_reserve_tokens cx)
      (sat_add (estimate_messages_tokens js n) (system_tokens_of system_prompt)) observed - system_tokens_of system_prompt" for n
  define trig where "trig n = compaction_trigger force (sat_add (estimate_messages_tokens js n) (system_tokens_of system_prompt))
      (window - cx_reserve_tokens cx) observed (trigger_tokens window (cx_compaction_trigger_fraction cx))" for n
  define sel where "sel n t = resolve_retention_selection js n (budget n) (cx_compaction_user_message_budget_tokens cx) (t = Forced) previous"
    for n and t :: context_compaction_trigger
  note defs = window_def [symmetric] cx_def [symmetric] budget_def [symmetric] trig_def [symmetric] sel_def [symmetric]
  from assms obtain n where n: "normalize_messages (cx_max_tool_result_lines cx) (cx_max_tool_result_bytes cx) ms = Some n"
    by (auto simp: plan_compaction_def Let_def bind_eq_Some_conv cx_def)
  from assms n consider (quiet) "plan = None" "trig n = None"
    | (empty) t where "plan = None" "trig n = Some t" "rs_dropped (sel n t) = []" "rs_folded_summaries (sel n t) = []"
    | (work) t p where "plan = Some p" "trig n = Some t" "pl_trigger p = t"
    unfolding plan_compaction_def Let_def defs by (auto split: option.splits if_splits)
  then show ?thesis
  proof cases
    case quiet
    then show ?thesis unfolding build_request_with_options_def Let_def by (simp add: defs n)
  next
    case (empty t)
    obtain out where o: "compact_messages js fresh now n (budget n) t
        (cx_compaction_user_message_budget_tokens cx) previous None = Some (out, None)"
      using compact_nothing [OF empty(3,4) [unfolded sel_def]] by blast
    from empty show ?thesis
      unfolding build_request_with_options_def Let_def by (simp add: defs n o accept_candidate_def)
  next
    case (work t p)
    have "\<exists>out c. build_request_with_options js fresh now asm connection provider model system_prompt ms tools thinking
          \<lparr>op_force_compaction = force, op_observed_context_tokens = observed, op_previous_summary = previous,
           op_summary_override = Some s\<rparr> = Some out \<and> co_compaction out = Some c"
      if s: "str_trim s \<noteq> []" and t: "t \<noteq> Forced" for s
    proof -
      obtain out c where "compact_messages js fresh now n (budget n) t
          (cx_compaction_user_message_budget_tokens cx) previous (Some s) = Some (out, Some c)"
        using compact_override [OF s] by blast
      with work(2) t show ?thesis
        unfolding build_request_with_options_def Let_def by (simp add: defs n accept_candidate_def)
    qed
    with work show ?thesis by simp
  qed
qed

text \<open>The retention budget never exceeds the prompt budget and is the exact proportion: neither the
  product in \<open>u128\<close> nor the cast to \<open>u64\<close> wraps.\<close>

theorem effective_budget_exact:
  assumes "max_prompt < 2 ^ 64" "estimated < 2 ^ 64" "n < 2 ^ 64"
  shows "effective_prompt_budget max_prompt estimated (Some n) \<le> max_prompt
    \<and> effective_prompt_budget max_prompt estimated (Some n) =
        (if n > estimated then max_prompt * max estimated 1 div n else max_prompt)"
proof (cases "n > estimated")
  case True
  have "max_prompt * max estimated 1 < 2 ^ 64 * 2 ^ 64"
    using assms(1,2) by (intro mult_strict_mono) auto
  then have p: "max_prompt * max estimated 1 mod 2 ^ 128 = max_prompt * max estimated 1" by simp
  have "max_prompt * max estimated 1 \<le> max_prompt * n" using True by (intro mult_le_mono2) simp
  then have q: "max_prompt * max estimated 1 div n \<le> max_prompt"
    using True div_le_mono [of "max_prompt * max estimated 1" "max_prompt * n" n] by simp
  with assms(1) have "max_prompt * max estimated 1 div n mod 2 ^ 64 = max_prompt * max estimated 1 div n" by simp
  with True p q show ?thesis by (simp only: effective_prompt_budget_def option.case) simp
qed (simp add: effective_prompt_budget_def)

text \<open>The proactive threshold never lies above the context window, for any configured fraction and
  every window below \<open>2 ^ 53\<close> tokens.\<close>

theorem trigger_within_window:
  assumes "window < 2 ^ 53"
  shows "trigger_tokens window fraction \<le> window"
proof -
  obtain b where b: "(if valid_fraction fraction then fraction else DEFAULT_TRIGGER_FRACTION) = F64_Fin b" "0 < b" "b \<le> f64_one"
    using valid_fraction_bits [of fraction] default_fraction_bits by (metis DEFAULT_TRIGGER_FRACTION_def)
  show ?thesis unfolding trigger_tokens_def b(1) f64_of_nat_exact [OF assms]
    by (intro f64_mul_window_le assms b)
qed

text \<open>The default Anthropic thinking budget is positive, below the tokens reserved for the answer and at
  most 32768.\<close>

theorem thinking_budget_bounds:
  assumes "2 \<le> reserve"
  shows "1 \<le> default_anthropic_thinking_budget reserve \<and> default_anthropic_thinking_budget reserve < reserve
    \<and> default_anthropic_thinking_budget reserve \<le> 32768"
  using assms by (auto simp: default_anthropic_thinking_budget_def clamp_def Let_def)

text \<open>The scan for validation surfaces is bounded whatever the file system answers: it visits at most 256
  entries and reports at most 12 surfaces.\<close>

theorem validation_scan_bounded:
  "fst (scan_validation_surfaces (MAX_VALIDATION_SCAN_DEPTH + 1) read_dir relative root (0, [])) \<le> 256
   \<and> length (validation_surfaces_for_project read_dir relative root) \<le> 12"
  using scan_bounded [of "(0, [])" "MAX_VALIDATION_SCAN_DEPTH + 1" read_dir relative root]
  by (simp add: validation_surfaces_for_project_def MAX_VALIDATION_SCAN_ENTRIES_def MAX_VALIDATION_SURFACES_def
      del: scan_validation_surfaces.simps)

subsection \<open>Witnesses\<close>

theorem effective_budget_exact_witness:
  "effective_prompt_budget 1000 500 (Some 1000) \<le> 1000
   \<and> effective_prompt_budget 1000 500 (Some 1000) = (if (1000 :: nat) > 500 then 1000 * max 500 1 div 1000 else 1000)"
  by (rule effective_budget_exact) simp_all

theorem trigger_within_window_witness: "trigger_tokens 200000 DEFAULT_TRIGGER_FRACTION \<le> 200000"
  by (rule trigger_within_window) simp

theorem thinking_budget_bounds_witness:
  "1 \<le> default_anthropic_thinking_budget 4096 \<and> default_anthropic_thinking_budget 4096 < 4096
   \<and> default_anthropic_thinking_budget 4096 \<le> 32768"
  by (rule thinking_budget_bounds) simp

definition ex_assembler :: context_assembler where
  "ex_assembler = \<lparr>ca_context = \<lparr>cx_compaction_trigger_fraction = DEFAULT_TRIGGER_FRACTION,
     cx_compaction_user_message_budget_tokens = 100, cx_reserve_tokens = 10, cx_max_tool_result_lines = 10,
     cx_max_tool_result_bytes = 100\<rparr>, ca_windows = []\<rparr>"

lemma ex_plan: "plan_compaction (\<lambda>_. []) ex_assembler ''p'' ''m'' ''m'' None [ex_user ''a''] False None None = Some None"
proof -
  have "normalize_messages 10 100 [ex_user ''a''] = Some [ex_user ''a'']"
    by (simp add: normalize_messages_def normalize_message_def ex_user_def)
  moreover have "estimate_messages_tokens (\<lambda>_. []) [ex_user ''a''] = 8"
    by (simp add: ex_user_def estimate_message_tokens_def estimate_text_tokens_def chars_count_def)
  ultimately show ?thesis
    by (simp add: plan_compaction_def ex_assembler_def context_window_for_def compaction_trigger_def
        system_tokens_of_def sat_add_def u64_max_def)
qed

theorem plan_decides_build_witness:
  "\<exists>out. build_request_with_options (\<lambda>_. []) (MessageId ''f'') 0 ex_assembler (ConnectionId ''c'') ''p'' ''m'' None
      [ex_user ''a''] [] None \<lparr>op_force_compaction = False, op_observed_context_tokens = None,
        op_previous_summary = None, op_summary_override = None\<rparr> = Some out \<and> co_compaction out = None"
  using plan_decides_build [OF ex_plan] by blast

end
