(* ===== verification/Bt_Actions.thy ===== *)
theory Bt_Actions
  imports Bt_Types
begin

section \<open>Actions on a world\<close>

text \<open>
  An asynchronous function that talks to code outside the model (a provider, a tool, a name server)
  is an action: it takes the world and returns a result with the next world, also when it fails.
  \<open>act_bind\<close> is \<open>.await?\<close> followed by the rest of the body. Triples state what an action
  keeps of the world and what its result satisfies.
\<close>

subsection \<open>Actions\<close>

type_synonym ('w, 'a) act = "'w \<Rightarrow> 'a result \<times> 'w"

definition act_return :: "'a \<Rightarrow> ('w, 'a) act" where
  "act_return a w = (Inr a, w)"

definition act_lift :: "'a result \<Rightarrow> ('w, 'a) act" where
  "act_lift r w = (r, w)"

definition act_read :: "('w \<Rightarrow> 'a \<times> 'w) \<Rightarrow> ('w, 'a) act" where
  "act_read f w = (case f w of (a, w') \<Rightarrow> (Inr a, w'))"

definition act_bind :: "('w, 'a) act \<Rightarrow> ('a \<Rightarrow> ('w, 'b) act) \<Rightarrow> ('w, 'b) act" where
  "act_bind m f w = (case m w of (Inl e, w') \<Rightarrow> (Inl e, w') | (Inr a, w') \<Rightarrow> f a w')"

subsection \<open>Triples\<close>

definition triple ::
  "('w \<Rightarrow> bool) \<Rightarrow> ('w, 'a) act \<Rightarrow> ('a \<Rightarrow> 'w \<Rightarrow> bool) \<Rightarrow> ('w \<Rightarrow> bool) \<Rightarrow> bool" where
  "triple P m Q E \<longleftrightarrow>
     (\<forall>w. P w \<longrightarrow> (case m w of (Inr a, w') \<Rightarrow> Q a w' | (Inl e, w') \<Rightarrow> E w'))"

lemma tripleI:
  "(\<And>w. P w \<Longrightarrow> case m w of (Inr a, w') \<Rightarrow> Q a w' | (Inl e, w') \<Rightarrow> E w') \<Longrightarrow> triple P m Q E"
  by (simp add: triple_def)

lemma triple_Inr: "triple P m Q E \<Longrightarrow> m w = (Inr a, w') \<Longrightarrow> P w \<Longrightarrow> Q a w'"
  and triple_Inl: "triple P m Q E \<Longrightarrow> m w = (Inl e, w') \<Longrightarrow> P w \<Longrightarrow> E w'"
  by (auto simp: triple_def split: sum.splits dest!: spec [of _ w])

lemma triple_return: "(\<And>w. P w \<Longrightarrow> Q a w) \<Longrightarrow> triple P (act_return a) Q E"
  by (simp add: triple_def act_return_def)

lemma triple_lift:
  "(\<And>a w. r = Inr a \<Longrightarrow> P w \<Longrightarrow> Q a w) \<Longrightarrow> (\<And>w. P w \<Longrightarrow> E w) \<Longrightarrow> triple P (act_lift r) Q E"
  by (auto simp: triple_def act_lift_def split: sum.splits)

lemma triple_bind:
  assumes "triple P m R E" "\<And>a. triple (R a) (f a) Q E"
  shows "triple P (act_bind m f) Q E"
proof (rule tripleI)
  fix w assume "P w"
  obtain r w' where m: "m w = (r, w')" by (cases "m w")
  from assms(1) \<open>P w\<close> m have r: "case r of Inr a \<Rightarrow> R a w' | Inl e \<Rightarrow> E w'"
    by (auto simp: triple_def split: sum.splits)
  from assms(2) have f: "R a w' \<Longrightarrow> case f a w' of (Inr a, w') \<Rightarrow> Q a w' | (Inl e, w') \<Rightarrow> E w'" for a
    by (simp add: triple_def)
  from r f show "case act_bind m f w of (Inr a, w') \<Rightarrow> Q a w' | (Inl e, w') \<Rightarrow> E w'"
    by (cases r) (simp_all add: act_bind_def m)
qed

lemma triple_assume: "(A \<Longrightarrow> triple P m Q E) \<Longrightarrow> triple (\<lambda>w. P w \<and> A) m Q E"
  by (auto simp: triple_def)

lemma triple_weaken:
  "triple P m R E' \<Longrightarrow> (\<And>w. P' w \<Longrightarrow> P w) \<Longrightarrow> (\<And>a w. R a w \<Longrightarrow> Q a w) \<Longrightarrow> (\<And>w. E' w \<Longrightarrow> E w)
    \<Longrightarrow> triple P' m Q E"
  unfolding triple_def by (fastforce split: sum.splits prod.splits)

text \<open>An action that keeps what the log says of the world.\<close>

definition keeps :: "('w \<Rightarrow> 'l) \<Rightarrow> ('w, 'a) act \<Rightarrow> bool" where
  "keeps log m \<longleftrightarrow> (\<forall>w. log (snd (m w)) = log w)"

lemma triple_keeps: "keeps log m \<Longrightarrow> triple (\<lambda>w. P (log w)) m (\<lambda>_ w. P (log w)) (\<lambda>w. P (log w))"
  by (auto simp: triple_def keeps_def split: sum.splits prod.splits) (metis snd_conv)+

lemma keeps_return: "keeps log (act_return a)" and keeps_lift: "keeps log (act_lift r)"
  by (simp_all add: keeps_def act_return_def act_lift_def)

lemma keeps_read: "(\<And>w. log (snd (f w)) = log w) \<Longrightarrow> keeps log (act_read f)"
  by (simp add: keeps_def act_read_def split: prod.splits) (metis snd_conv)

lemma keeps_bind: "keeps log m \<Longrightarrow> (\<And>a. keeps log (f a)) \<Longrightarrow> keeps log (act_bind m f)"
  by (auto simp: keeps_def act_bind_def split: sum.splits prod.splits) (metis snd_conv)+

lemmas keeps_intros = keeps_return keeps_lift keeps_bind

lemma triple_conj:
  "triple P m Q E \<Longrightarrow> triple P' m Q' E' \<Longrightarrow>
     triple (\<lambda>w. P w \<and> P' w) m (\<lambda>a w. Q a w \<and> Q' a w) (\<lambda>w. E w \<and> E' w)"
  unfolding triple_def by (fastforce split: sum.splits prod.splits)

lemma triple_any: "triple (\<lambda>_. True) m (\<lambda>_ _. True) (\<lambda>_. True)"
  by (auto simp: triple_def split: sum.splits prod.splits)

lemma bind_cong_triple:
  assumes "triple (\<lambda>_. True) m (\<lambda>a _. f a = g a) (\<lambda>_. True)"
  shows "act_bind m f = act_bind m g"
proof (rule ext)
  fix w
  show "act_bind m f w = act_bind m g w"
    using triple_Inr [OF assms, of w] by (auto simp: act_bind_def split: sum.splits prod.splits)
qed

lemma bind_lift: "act_bind (act_lift (Inr a)) f = f a" "act_bind (act_lift (Inl e)) f = act_lift (Inl e)"
  by (simp_all add: fun_eq_iff act_bind_def act_lift_def)

lemma act_bind_eq: "act_bind m f w = (Inr b, w') \<longleftrightarrow> (\<exists>a w1. m w = (Inr a, w1) \<and> f a w1 = (Inr b, w'))"
  by (auto simp: act_bind_def split: sum.splits prod.splits)

lemma act_return_eq [simp]: "act_return a w = (Inr b, w') \<longleftrightarrow> a = b \<and> w = w'"
  by (simp add: act_return_def)

lemma act_lift_eq [simp]: "act_lift r w = (x, w') \<longleftrightarrow> r = x \<and> w = w'"
  by (simp add: act_lift_def)

end
