(* ===== verification/Bt_ToolCalls.thy ===== *)
theory Bt_ToolCalls
  imports Bt_Retention Bt_TurnProjection
begin

section \<open>Streamed responses and tool calls\<close>

text \<open>
  The data and the pure functions of \<open>bt-agent/src/lib.rs\<close>: the reassembly of a response from its
  streamed deltas, tool arguments and result messages, and the usage sums. \<open>parse_json\<close> is
  \<open>serde_json::from_str\<close>. The loop over them is in \<open>Bt_TurnLoop\<close>.
\<close>

record completion_chunk =
  ck_llm_call_ordinal :: "u32 option"
  ck_deltas :: "completion_delta list"
  ck_usage :: "token_usage option"
  ck_raw :: "json option"

datatype finish_reason = FrStop | FrToolUse | FrMaxTokens | FrCancelled | FrError

record completion_summary =
  sm_provider :: string
  sm_model :: string
  sm_finish_reason :: finish_reason
  sm_usage :: token_usage
  sm_cost :: "cost_breakdown option"
  sm_latency_ms :: u64

record completed_tool_call =
  ct_call_id :: string
  ct_tool_name :: string
  ct_arguments :: json

record streaming_tool_call_accumulator =
  ac_call_id :: string
  ac_tool_name :: string
  ac_initial_arguments :: "json option"
  ac_partial_json :: string

record parsed_tool_call =
  pc_session_id :: session_id
  pc_call_id :: tool_call_id
  pc_tool_name :: string
  pc_arguments :: json

record turn_input_request =
  ir_call_id :: tool_call_id
  ir_tool_name :: string
  ir_prompt :: string
  ir_choices :: "string list"

text \<open>The texts of \<open>#[error(..)]\<close>.\<close>

primrec error_display :: "belltower_error \<Rightarrow> string" where
  "error_display (Config m) = ''configuration error: '' @ m"
| "error_display (Auth m) = ''authentication error: '' @ m"
| "error_display (Provider m) = ''provider error: '' @ m"
| "error_display (Tool m) = ''tool error: '' @ m"
| "error_display (Protocol m) = ''protocol error: '' @ m"
| "error_display (Storage m) = ''storage error: '' @ m"
| "error_display (NotFound m) = ''not found: '' @ m"
| "error_display (Runtime m) = ''runtime error: '' @ m"
| "error_display (InvalidState m) = ''invalid state: '' @ m"
| "error_display (Unsupported m) = ''unsupported operation: '' @ m"
| "error_display (Io m) = ''I/O error: '' @ m"
| "error_display (Json m) = ''json error: '' @ m"
| "error_display (TomlDeserialize m) = ''toml deserialize error: '' @ m"
| "error_display (TomlSerialize m) = ''toml serialize error: '' @ m"
| "error_display (UrlParse m) = ''url parse error: '' @ m"

subsection \<open>Accumulating a tool call\<close>

definition open_tool_call ::
  "string \<Rightarrow> string \<Rightarrow> json option \<Rightarrow> streaming_tool_call_accumulator list \<Rightarrow> streaming_tool_call_accumulator list" where
  "open_tool_call cid name arguments calls =
     (if list_ex (\<lambda>a. ac_call_id a = cid) calls
      then update_first (\<lambda>a. ac_call_id a = cid)
        (\<lambda>a. let a = a\<lparr>ac_tool_name := name\<rparr>
              in if arguments \<noteq> None then a\<lparr>ac_initial_arguments := arguments\<rparr> else a) calls
      else calls @ [\<lparr>ac_call_id = cid, ac_tool_name = name, ac_initial_arguments = arguments, ac_partial_json = []\<rparr>])"

definition append_tool_call_arguments ::
  "string \<Rightarrow> string \<Rightarrow> streaming_tool_call_accumulator list \<Rightarrow> streaming_tool_call_accumulator list result" where
  "append_tool_call_arguments cid partial_json calls =
     (if list_ex (\<lambda>a. ac_call_id a = cid) calls
      then Inr (update_first (\<lambda>a. ac_call_id a = cid)
        (\<lambda>a. a\<lparr>ac_partial_json := ac_partial_json a @ partial_json\<rparr>) calls)
      else Inl (InvalidState (''tool call `'' @ cid @ ''` received arguments before open'')))"

definition finalize_tool_call ::
  "(string \<Rightarrow> json option) \<Rightarrow> streaming_tool_call_accumulator \<Rightarrow> completed_tool_call result" where
  "finalize_tool_call parse_json a =
     and_then (guard_err (str_trim (ac_call_id a) = []) (InvalidState ''tool call missing `id`'')) (\<lambda>_.
     and_then (guard_err (str_trim (ac_tool_name a) = []) (InvalidState ''tool call missing `name`'')) (\<lambda>_.
     Inr \<lparr>ct_call_id = ac_call_id a, ct_tool_name = ac_tool_name a,
          ct_arguments =
            (if str_trim (ac_partial_json a) \<noteq> []
             then (case parse_json (ac_partial_json a) of Some v \<Rightarrow> v | None \<Rightarrow> JString (ac_partial_json a))
             else (case ac_initial_arguments a of Some v \<Rightarrow> v | None \<Rightarrow> JObject []))\<rparr>))"

fun remove_first :: "('a \<Rightarrow> bool) \<Rightarrow> 'a list \<Rightarrow> 'a list" where
  "remove_first p [] = []"
| "remove_first p (x # xs) = (if p x then xs else x # remove_first p xs)"

definition close_tool_call ::
  "(string \<Rightarrow> json option) \<Rightarrow> string \<Rightarrow> streaming_tool_call_accumulator list
     \<Rightarrow> (streaming_tool_call_accumulator list \<times> completed_tool_call) result" where
  "close_tool_call parse_json cid calls =
     (case List.find (\<lambda>a. ac_call_id a = cid) calls of
        None \<Rightarrow> Inl (InvalidState (''tool call `'' @ cid @ ''` closed before open''))
      | Some a \<Rightarrow>
          and_then (finalize_tool_call parse_json a) (\<lambda>c.
          Inr (remove_first (\<lambda>a. ac_call_id a = cid) calls, c)))"

fun finish_open_tool_calls ::
  "(string \<Rightarrow> json option) \<Rightarrow> streaming_tool_call_accumulator list \<Rightarrow> completed_tool_call list result" where
  "finish_open_tool_calls parse_json [] = Inr []"
| "finish_open_tool_calls parse_json (a # calls) =
     and_then (finalize_tool_call parse_json a) (\<lambda>c.
     and_then (finish_open_tool_calls parse_json calls) (\<lambda>cs. Inr (c # cs)))"

subsection \<open>Accumulating a response\<close>

record response_state =
  ra_assistant_parts :: "message_part list"
  ra_tool_calls :: "completed_tool_call list"
  ra_open_tool_calls :: "streaming_tool_call_accumulator list"
  ra_chunks :: "completion_chunk list"
  ra_usage :: "token_usage option"

definition empty_response :: response_state where
  "empty_response = \<lparr>ra_assistant_parts = [], ra_tool_calls = [], ra_open_tool_calls = [], ra_chunks = [], ra_usage = None\<rparr>"

definition push_assistant_part :: "message_part \<Rightarrow> response_state \<Rightarrow> response_state" where
  "push_assistant_part p st = st\<lparr>ra_assistant_parts := push_message_part (ra_assistant_parts st) p\<rparr>"

fun apply_delta ::
  "(string \<Rightarrow> json option) \<Rightarrow> completion_delta \<Rightarrow> response_state \<Rightarrow> response_state result" where
  "apply_delta pj (AppendText t) st = Inr (push_assistant_part (Text t) st)"
| "apply_delta pj (AppendReasoning t redacted replay) st = Inr (push_assistant_part (Reasoning t redacted replay) st)"
| "apply_delta pj (AppendRefusal t reason meta) st = Inr (push_assistant_part (Refusal t reason meta) st)"
| "apply_delta pj (SetStructuredOutput name v) st =
     Inr (st\<lparr>ra_assistant_parts := ra_assistant_parts st @ [Structured name v]\<rparr>)"
| "apply_delta pj (OpenToolCall cid name arguments) st =
     Inr (st\<lparr>ra_open_tool_calls := open_tool_call cid name arguments (ra_open_tool_calls st)\<rparr>)"
| "apply_delta pj (AppendToolCallArguments cid partial_json) st =
     and_then (append_tool_call_arguments cid partial_json (ra_open_tool_calls st)) (\<lambda>calls.
     Inr (st\<lparr>ra_open_tool_calls := calls\<rparr>))"
| "apply_delta pj (CloseToolCall cid) st =
     and_then (close_tool_call pj cid (ra_open_tool_calls st)) (\<lambda>(calls, c).
     Inr (st\<lparr>ra_open_tool_calls := calls, ra_tool_calls := ra_tool_calls st @ [c]\<rparr>))"

fun apply_deltas ::
  "(string \<Rightarrow> json option) \<Rightarrow> completion_delta list \<Rightarrow> response_state \<Rightarrow> response_state result" where
  "apply_deltas pj [] st = Inr st"
| "apply_deltas pj (d # ds) st = and_then (apply_delta pj d st) (apply_deltas pj ds)"

definition note_chunk :: "completion_chunk \<Rightarrow> response_state \<Rightarrow> response_state" where
  "note_chunk c st =
     st\<lparr>ra_chunks := ra_chunks st @ [c],
        ra_usage := (case ck_usage c of Some u \<Rightarrow> Some u | None \<Rightarrow> ra_usage st)\<rparr>"

record collected_response =
  cr_assistant_parts :: "message_part list"
  cr_tool_calls :: "completed_tool_call list"
  cr_chunks :: "completion_chunk list"
  cr_usage :: "token_usage option"
  cr_finish_reason :: finish_reason

definition finish_response :: "(string \<Rightarrow> json option) \<Rightarrow> response_state \<Rightarrow> collected_response result" where
  "finish_response pj st =
     and_then (finish_open_tool_calls pj (ra_open_tool_calls st)) (\<lambda>rest.
     let calls = ra_tool_calls st @ rest
     in Inr \<lparr>cr_assistant_parts = ra_assistant_parts st, cr_tool_calls = calls, cr_chunks = ra_chunks st,
             cr_usage = ra_usage st, cr_finish_reason = (if calls = [] then FrStop else FrToolUse)\<rparr>)"

subsection \<open>Arguments, messages and usage\<close>

fun normalize_tool_arguments :: "json \<Rightarrow> json" where
  "normalize_tool_arguments (JObject es) = JObject (filter (\<lambda>(k, v). k \<noteq> ''call_id'') es)"
| "normalize_tool_arguments v = v"

definition parse_tool_call :: "session_id \<Rightarrow> completed_tool_call \<Rightarrow> parsed_tool_call" where
  "parse_tool_call sid c =
     \<lparr>pc_session_id = sid, pc_call_id = ToolCallId (ct_call_id c), pc_tool_name = ct_tool_name c,
      pc_arguments = normalize_tool_arguments (ct_arguments c)\<rparr>"

definition execution_arguments :: "parsed_tool_call \<Rightarrow> json" where
  "execution_arguments c =
     (let cid = JString (tool_call_id_text (pc_call_id c))
      in case pc_arguments c of
           JObject es \<Rightarrow> JObject (btree_insert ''call_id'' cid es)
         | v \<Rightarrow> JObject [(''call_id'', cid), (''input'', v)])"

definition json_array_get :: "string \<Rightarrow> json \<Rightarrow> json list option" where
  "json_array_get k v = (case json_get k v of Some (JArray vs) \<Rightarrow> Some vs | _ \<Rightarrow> None)"

definition parse_input_request :: "parsed_tool_call \<Rightarrow> turn_input_request result" where
  "parse_input_request c =
     (let question = (case Option.bind (json_get ''question'' (pc_arguments c)) json_as_str of
            Some q \<Rightarrow> if str_trim q \<noteq> [] then Some (str_trim q) else None | None \<Rightarrow> None)
      in and_then (ok_or (Tool ''ask tool call is missing `question`'') question) (\<lambda>prompt.
         Inr \<lparr>ir_call_id = pc_call_id c, ir_tool_name = pc_tool_name c, ir_prompt = prompt,
              ir_choices = (case json_array_get ''choices'' (pc_arguments c) of
                 Some vs \<Rightarrow> List.map_filter json_as_str vs | None \<Rightarrow> [])\<rparr>))"

definition tool_call_message :: "message_id \<times> time \<Rightarrow> parsed_tool_call \<Rightarrow> message" where
  "tool_call_message stamp c =
     \<lparr>m_message_id = fst stamp, m_role = RAssistant,
      m_parts = [ToolCall \<lparr>tc_tool_name = pc_tool_name c, tc_call_id = tool_call_id_text (pc_call_id c),
        tc_arguments = pc_arguments c\<rparr>],
      m_created_at = snd stamp\<rparr>"

definition tool_result_message :: "message_id \<times> time \<Rightarrow> tool_result_envelope \<Rightarrow> message" where
  "tool_result_message stamp r =
     \<lparr>m_message_id = fst stamp, m_role = RTool, m_parts = [ToolResult r], m_created_at = snd stamp\<rparr>"

definition tool_error_result :: "parsed_tool_call \<Rightarrow> belltower_error \<Rightarrow> tool_result_envelope" where
  "tool_error_result c e =
     \<lparr>tr_call_id = pc_call_id c, tr_tool_name = pc_tool_name c, tr_is_error = True,
      tr_output = JObject [(''error'', JString (error_display e))], tr_duration_ms = None\<rparr>"

definition cancelled_tool_result :: "parsed_tool_call \<Rightarrow> tool_result_envelope" where
  "cancelled_tool_result c =
     \<lparr>tr_call_id = pc_call_id c, tr_tool_name = pc_tool_name c, tr_is_error = True,
      tr_output = JObject [(''cancelled'', JBool True),
        (''error'', JObject [(''code'', JString ''cancelled''),
           (''message'', JString ''tool execution cancelled before completion'')])],
      tr_duration_ms = None\<rparr>"

definition lifecycle_failure_result :: "parsed_tool_call \<Rightarrow> belltower_error \<Rightarrow> tool_result_envelope" where
  "lifecycle_failure_result c e =
     \<lparr>tr_call_id = pc_call_id c, tr_tool_name = pc_tool_name c, tr_is_error = True,
      tr_output = JObject [(''error'', JObject [(''class'', JString (error_class_as_str (error_class_of e))),
        (''code'', JString (error_code e)), (''message'', JString (error_display e)),
        (''retryable'', JBool (error_retryable e))])],
      tr_duration_ms = None\<rparr>"

definition zero_token_usage :: token_usage where
  "zero_token_usage = \<lparr>prompt_tokens = 0, completion_tokens = 0, total_tokens = 0,
     cache_read_tokens = None, cache_write_tokens = None, reasoning_tokens = None\<rparr>"

fun combine_optional_usage :: "u64 option \<Rightarrow> u64 option \<Rightarrow> u64 option" where
  "combine_optional_usage (Some a) (Some b) = Some (a + b)"
| "combine_optional_usage (Some a) None = Some a"
| "combine_optional_usage None b = b"

fun merge_turn_usage :: "token_usage option \<Rightarrow> token_usage option \<Rightarrow> token_usage option" where
  "merge_turn_usage (Some a) (Some b) =
     Some \<lparr>prompt_tokens = prompt_tokens a + prompt_tokens b,
       completion_tokens = completion_tokens a + completion_tokens b,
       total_tokens = total_tokens a + total_tokens b,
       cache_read_tokens = combine_optional_usage (cache_read_tokens a) (cache_read_tokens b),
       cache_write_tokens = combine_optional_usage (cache_write_tokens a) (cache_write_tokens b),
       reasoning_tokens = combine_optional_usage (reasoning_tokens a) (reasoning_tokens b)\<rparr>"
| "merge_turn_usage (Some a) None = Some a"
| "merge_turn_usage None b = b"

end
