(* ===== verification/Bt_TurnLoop.thy ===== *)
theory Bt_TurnLoop
  imports Bt_Actions Bt_ToolCalls Bt_Approval Bt_ContextBuild
begin

section \<open>The turn loop\<close>

text \<open>
  \<open>TurnLoop\<close> of \<open>bt-agent/src/lib.rs\<close>: call the model, collect its streamed response, run the tool
  calls it asks for, and repeat. The provider, the tools, the approval evaluator, the callbacks and
  the lifecycle observer are trait objects or closures there; here they are the fields of
  \<open>turn_env\<close>, actions on a world \<open>'w\<close> that the loop only threads through. An action returns a result
  and the next world, also when it fails. The cancellation signal is an atomic flag that another
  thread may set at any time, so reading it is an action too, and so is the poll of the cancellation
  branch of a \<open>select!\<close> (\<open>te_interrupted\<close>), which happens wherever the raced future may be
  suspended. A stream is the list of the items it yields. \<open>loop\<close> runs on fuel: the code has no bound
  of its own on the number of model calls.
\<close>

subsection \<open>Data\<close>

record turn_request =
  tq_session_id :: session_id
  tq_project_root :: string
  tq_request :: completion_request

record turn_approval =
  ta_call_id :: tool_call_id
  ta_tool_name :: string
  ta_request :: approval_request
  ta_decision :: approval_decision

record turn_approval_request =
  tar_call_id :: tool_call_id
  tar_tool_name :: string
  tar_request :: approval_request

record turn_tool_call_request =
  tcr_call_id :: tool_call_id
  tcr_tool_name :: string
  tcr_arguments :: json
  tcr_metadata :: tool_metadata

datatype tool_call_request_disposition = DispositionRecorded | DispositionCancelled

record llm_call_started =
  ls_ordinal :: u32
  ls_provider :: string
  ls_model :: string
  ls_message_count :: u32
  ls_request :: completion_request

record llm_call_finished =
  lf_ordinal :: u32
  lf_summary :: completion_summary

datatype tool_execution_outcome =
  ToolFinished tool_result_envelope
| ToolCancelled tool_result_envelope
| ToolFailed belltower_error

datatype approval_outcome =
  NotNeeded
| OutcomeApproved approval_request approval_decision
| OutcomeDenied approval_request approval_decision
| OutcomePending approval_request

record turn_result =
  tu_messages :: "message list"
  tu_tool_results :: "tool_result_envelope list"
  tu_completion_chunks :: "completion_chunk list"
  tu_usage :: "token_usage option"
  tu_approvals :: "turn_approval list"
  tu_approval_requests :: "turn_approval_request list"
  tu_input_requests :: "turn_input_request list"
  tu_finish_reason :: finish_reason

text \<open>The local variables of the loop; \<open>tl_context\<close> is \<open>turn.request.messages\<close>, which grows.\<close>

record turn_locals =
  tl_context :: "message list"
  tl_emitted :: "message list"
  tl_tool_results :: "tool_result_envelope list"
  tl_completion_chunks :: "completion_chunk list"
  tl_usage :: "token_usage option"
  tl_approvals :: "turn_approval list"
  tl_approval_requests :: "turn_approval_request list"
  tl_input_requests :: "turn_input_request list"
  tl_llm_call_ordinal :: u32

record 'w turn_env =
  te_signal :: "('w \<Rightarrow> bool \<times> 'w) option"
  te_interrupted :: "'w \<Rightarrow> bool \<times> 'w"
  te_stamp :: "'w \<Rightarrow> (message_id \<times> time) \<times> 'w"
  te_now :: "'w \<Rightarrow> time \<times> 'w"
  te_elapsed :: "'w \<Rightarrow> u64 \<times> 'w"
  te_provider_id :: string
  te_stream :: "completion_request \<Rightarrow> 'w \<Rightarrow> completion_chunk result list result \<times> 'w"
  te_summary :: "completion_summary \<Rightarrow> completion_summary result"
  te_parse_json :: "string \<Rightarrow> json option"
  te_llm_started :: "llm_call_started \<Rightarrow> 'w \<Rightarrow> unit result \<times> 'w"
  te_chunk :: "completion_chunk \<Rightarrow> 'w \<Rightarrow> unit result \<times> 'w"
  te_llm_finished :: "llm_call_finished \<Rightarrow> 'w \<Rightarrow> unit result \<times> 'w"
  te_tool :: "string \<Rightarrow> (tool_spec \<times> (json \<Rightarrow> approval_requirement)) option"
  te_execute :: "string \<Rightarrow> string \<Rightarrow> json \<Rightarrow> 'w \<Rightarrow> tool_result_envelope result \<times> 'w"
  te_execute_racing :: "string \<Rightarrow> string \<Rightarrow> json \<Rightarrow> 'w \<Rightarrow> tool_result_envelope option result \<times> 'w"
  te_evaluate :: "approval_request \<Rightarrow> 'w \<Rightarrow> approval_decision option result \<times> 'w"
  te_tool_requested :: "turn_tool_call_request \<Rightarrow> message \<Rightarrow> 'w \<Rightarrow> tool_call_request_disposition result \<times> 'w"
  te_approval_requested :: "turn_approval_request \<Rightarrow> 'w \<Rightarrow> unit result \<times> 'w"
  te_approval_resolved :: "turn_approval \<Rightarrow> 'w \<Rightarrow> unit result \<times> 'w"
  te_execution_finished :: "tool_result_envelope \<Rightarrow> message \<Rightarrow> 'w \<Rightarrow> unit result \<times> 'w"

definition turn_result_of :: "turn_locals \<Rightarrow> finish_reason \<Rightarrow> turn_result" where
  "turn_result_of st reason =
     \<lparr>tu_messages = tl_emitted st, tu_tool_results = tl_tool_results st,
      tu_completion_chunks = tl_completion_chunks st, tu_usage = tl_usage st,
      tu_approvals = tl_approvals st, tu_approval_requests = tl_approval_requests st,
      tu_input_requests = tl_input_requests st, tu_finish_reason = reason\<rparr>"

definition cancelled_turn_result :: "turn_locals \<Rightarrow> turn_result" where
  "cancelled_turn_result st =
     \<lparr>tu_messages = tl_emitted st, tu_tool_results = tl_tool_results st,
      tu_completion_chunks = tl_completion_chunks st, tu_usage = tl_usage st,
      tu_approvals = tl_approvals st, tu_approval_requests = [], tu_input_requests = [],
      tu_finish_reason = FrCancelled\<rparr>"

datatype turn_flow = TurnGoesOn turn_locals | TurnEnds turn_result

subsection \<open>Cancellation\<close>

definition is_cancelled :: "'w turn_env \<Rightarrow> ('w, bool) act" where
  "is_cancelled env = (case te_signal env of None \<Rightarrow> act_return False | Some read \<Rightarrow> act_read read)"

definition poll_interrupted :: "'w turn_env \<Rightarrow> ('w, bool) act" where
  "poll_interrupted env =
     (case te_signal env of None \<Rightarrow> act_return False | Some _ \<Rightarrow> act_read (te_interrupted env))"

subsection \<open>One model call\<close>

fun collect_items ::
  "'w turn_env \<Rightarrow> u32 \<Rightarrow> completion_chunk result list \<Rightarrow> response_state \<Rightarrow> ('w, response_state option) act" where
  "collect_items env n [] st =
     act_bind (poll_interrupted env) (\<lambda>stop. act_return (if stop then None else Some st))"
| "collect_items env n (item # items) st =
     act_bind (poll_interrupted env) (\<lambda>stop.
     if stop then act_return None else
     act_bind (act_lift item) (\<lambda>chunk.
     let chunk = chunk\<lparr>ck_llm_call_ordinal := Some n\<rparr> in
     act_bind (te_chunk env chunk) (\<lambda>_.
     act_bind (act_lift (apply_deltas (te_parse_json env) (ck_deltas chunk) (note_chunk chunk st)))
       (collect_items env n items))))"

definition collect_response ::
  "'w turn_env \<Rightarrow> u32 \<Rightarrow> completion_chunk result list \<Rightarrow> ('w, collected_response option) act" where
  "collect_response env n items =
     act_bind (collect_items env n items empty_response) (\<lambda>st.
     case st of None \<Rightarrow> act_return None
     | Some st \<Rightarrow> act_lift (and_then (finish_response (te_parse_json env) st) (\<lambda>r. Inr (Some r))))"

definition await_response ::
  "'w turn_env \<Rightarrow> completion_request \<Rightarrow> u32 \<Rightarrow> ('w, collected_response option) act" where
  "await_response env rq n w =
     (case act_bind (poll_interrupted env) (\<lambda>stop.
             if stop then act_return None
             else act_bind (te_stream env rq) (collect_response env n)) w of
        (Inr None, w') \<Rightarrow> (Inr None, w')
      | (r, w') \<Rightarrow>
          act_bind (is_cancelled env) (\<lambda>stop. if stop then act_return None else act_lift r) w')"

definition finish_llm_call ::
  "'w turn_env \<Rightarrow> completion_request \<Rightarrow> u32 \<Rightarrow> finish_reason \<Rightarrow> token_usage \<Rightarrow> ('w, completion_summary) act" where
  "finish_llm_call env rq n reason used =
     act_bind (act_read (te_elapsed env)) (\<lambda>latency.
     act_bind (act_lift (te_summary env
        \<lparr>sm_provider = te_provider_id env, sm_model = cq_model rq, sm_finish_reason = reason,
         sm_usage = used, sm_cost = None, sm_latency_ms = latency\<rparr>)) (\<lambda>summary.
     act_bind (te_llm_finished env \<lparr>lf_ordinal = n, lf_summary = summary\<rparr>) (\<lambda>_.
     act_return summary)))"

definition usage_or_zero :: "token_usage option \<Rightarrow> token_usage" where
  "usage_or_zero u = (case u of Some u \<Rightarrow> u | None \<Rightarrow> zero_token_usage)"

text \<open>The text parts of a response become an assistant message, if there are any.\<close>

definition accept_response ::
  "'w turn_env \<Rightarrow> u32 \<Rightarrow> completion_summary \<Rightarrow> collected_response \<Rightarrow> turn_locals \<Rightarrow> ('w, turn_locals) act" where
  "accept_response env n summary r st =
     (let st = st\<lparr>tl_llm_call_ordinal := n,
                 tl_completion_chunks := tl_completion_chunks st @ cr_chunks r,
                 tl_usage := merge_turn_usage (tl_usage st) (Some (sm_usage summary))\<rparr>
      in if cr_assistant_parts r = [] then act_return st
         else act_bind (act_read (te_stamp env)) (\<lambda>stamp.
           let m = \<lparr>m_message_id = fst stamp, m_role = RAssistant, m_parts = cr_assistant_parts r,
                    m_created_at = snd stamp\<rparr>
           in act_return (st\<lparr>tl_context := tl_context st @ [m], tl_emitted := tl_emitted st @ [m]\<rparr>)))"

subsection \<open>One tool call\<close>

definition observe_tool_lifecycle_failure ::
  "'w turn_env \<Rightarrow> parsed_tool_call \<Rightarrow> belltower_error \<Rightarrow> ('w, unit) act" where
  "observe_tool_lifecycle_failure env c e =
     act_bind (act_read (te_stamp env)) (\<lambda>stamp.
     te_execution_finished env (lifecycle_failure_result c e)
       (tool_result_message stamp (lifecycle_failure_result c e)))"

definition or_observe :: "'w turn_env \<Rightarrow> parsed_tool_call \<Rightarrow> ('w, 'a) act \<Rightarrow> ('w, 'a) act" where
  "or_observe env c m w =
     (case m w of
        (Inr a, w') \<Rightarrow> (Inr a, w')
      | (Inl e, w') \<Rightarrow> act_bind (observe_tool_lifecycle_failure env c e) (\<lambda>_. act_lift (Inl e)) w')"

definition approval_outcome_of ::
  "'w turn_env \<Rightarrow> parsed_tool_call \<Rightarrow> approval_requirement \<Rightarrow> tool_metadata \<Rightarrow> ('w, approval_outcome) act" where
  "approval_outcome_of env c requirement metadata =
     (if requirement = Never then act_return NotNeeded
      else act_bind (act_read (te_now env)) (\<lambda>now.
        let request = \<lparr>rq_session_id = pc_session_id c, rq_call_id = pc_call_id c,
              rq_tool_name = pc_tool_name c, rq_arguments = pc_arguments c,
              rq_requirement = requirement, rq_tool_metadata = metadata, rq_requested_at = now\<rparr>
        in act_bind (te_evaluate env request) (\<lambda>d.
           act_return (case d of
               Some (Approved at_time who scope src) \<Rightarrow> OutcomeApproved request (Approved at_time who scope src)
             | Some (Denied at_time who reason scope src) \<Rightarrow> OutcomeDenied request (Denied at_time who reason scope src)
             | None \<Rightarrow> OutcomePending request))))"

definition execute_tool ::
  "'w turn_env \<Rightarrow> string \<Rightarrow> parsed_tool_call \<Rightarrow> ('w, tool_execution_outcome) act" where
  "execute_tool env root c =
     act_bind (act_lift (ok_or (Unsupported (''unknown tool `'' @ pc_tool_name c @ ''`''))
        (te_tool env (pc_tool_name c)))) (\<lambda>tool.
     act_bind (is_cancelled env) (\<lambda>stop.
     if stop then act_return (ToolCancelled (cancelled_tool_result c))
     else if interrupt_behavior (ts_metadata (fst tool)) = IbImmediate \<and> te_signal env \<noteq> None
     then act_bind (poll_interrupted env) (\<lambda>stop.
       if stop then act_return (ToolCancelled (cancelled_tool_result c))
       else act_bind (te_execute_racing env (pc_tool_name c) root (execution_arguments c)) (\<lambda>r.
         act_return (case r of None \<Rightarrow> ToolCancelled (cancelled_tool_result c) | Some r \<Rightarrow> ToolFinished r)))
     else act_bind (te_execute env (pc_tool_name c) root (execution_arguments c)) (\<lambda>r.
       act_bind (is_cancelled env) (\<lambda>stop.
       act_return (if stop then ToolCancelled r else ToolFinished r)))))"

definition execute_tool_call ::
  "'w turn_env \<Rightarrow> string \<Rightarrow> parsed_tool_call \<Rightarrow> ('w, tool_execution_outcome) act" where
  "execute_tool_call env root c w =
     (case execute_tool env root c w of
        (Inl e, w') \<Rightarrow> (Inr (ToolFailed e), w')
      | (Inr out, w') \<Rightarrow> (Inr out, w'))"

text \<open>The result message of a finished call; a cancellation seen with it ends the turn.\<close>

definition record_tool_outcome ::
  "'w turn_env \<Rightarrow> parsed_tool_call \<Rightarrow> tool_execution_outcome \<Rightarrow> turn_locals \<Rightarrow> ('w, turn_flow) act" where
  "record_tool_outcome env c out st =
     (let (r, was_cancelled) =
            (case out of ToolFinished r \<Rightarrow> (r, False) | ToolCancelled r \<Rightarrow> (r, True)
             | ToolFailed e \<Rightarrow> (tool_error_result c e, False))
      in act_bind (act_read (te_stamp env)) (\<lambda>stamp.
         act_bind (te_execution_finished env r (tool_result_message stamp r)) (\<lambda>_.
         let st = st\<lparr>tl_context := tl_context st @ [tool_result_message stamp r],
                    tl_emitted := tl_emitted st @ [tool_result_message stamp r],
                    tl_tool_results := tl_tool_results st @ [r]\<rparr>
         in if was_cancelled then act_return (TurnEnds (cancelled_turn_result st))
            else act_bind (is_cancelled env) (\<lambda>stop.
              act_return (if stop then TurnEnds (cancelled_turn_result st) else TurnGoesOn st)))))"

definition settle_and_run ::
  "'w turn_env \<Rightarrow> string \<Rightarrow> parsed_tool_call \<Rightarrow> tool_spec \<Rightarrow> approval_requirement \<Rightarrow> turn_locals
     \<Rightarrow> ('w, turn_flow) act" where
  "settle_and_run env root c spec requirement st =
     act_bind (or_observe env c (approval_outcome_of env c requirement (ts_metadata spec))) (\<lambda>outcome.
     case outcome of
       NotNeeded \<Rightarrow>
         act_bind (execute_tool_call env root c) (\<lambda>out. record_tool_outcome env c out st)
     | OutcomeApproved request decision \<Rightarrow>
         let approval = \<lparr>ta_call_id = pc_call_id c, ta_tool_name = pc_tool_name c,
               ta_request = request, ta_decision = decision\<rparr>
         in act_bind (or_observe env c (te_approval_resolved env approval)) (\<lambda>_.
            act_bind (execute_tool_call env root c) (\<lambda>out.
            record_tool_outcome env c out (st\<lparr>tl_approvals := tl_approvals st @ [approval]\<rparr>)))
     | OutcomeDenied request decision \<Rightarrow>
         let approval = \<lparr>ta_call_id = pc_call_id c, ta_tool_name = pc_tool_name c,
               ta_request = request, ta_decision = decision\<rparr>
         in act_bind (or_observe env c (te_approval_resolved env approval)) (\<lambda>_.
            record_tool_outcome env c
              (ToolFinished (tool_error_result c
                 (InvalidState (''tool `'' @ pc_tool_name c @ ''` was denied''))))
              (st\<lparr>tl_approvals := tl_approvals st @ [approval]\<rparr>))
     | OutcomePending request \<Rightarrow>
         let approval_request = \<lparr>tar_call_id = pc_call_id c, tar_tool_name = pc_tool_name c,
               tar_request = request\<rparr>
         in act_bind (or_observe env c (te_approval_requested env approval_request)) (\<lambda>_.
            act_return (TurnEnds (turn_result_of
              (st\<lparr>tl_approval_requests := tl_approval_requests st @ [approval_request]\<rparr>) FrToolUse))))"

definition process_tool_call ::
  "'w turn_env \<Rightarrow> turn_request \<Rightarrow> completed_tool_call \<Rightarrow> turn_locals \<Rightarrow> ('w, turn_flow) act" where
  "process_tool_call env rq call st =
     (let c = parse_tool_call (tq_session_id rq) call in
      act_bind (act_read (te_stamp env)) (\<lambda>stamp.
      act_bind (act_lift (ok_or (Unsupported (''unknown tool `'' @ pc_tool_name c @ ''`''))
         (te_tool env (pc_tool_name c)))) (\<lambda>tool.
      let spec = fst tool; requirement = snd tool (pc_arguments c) in
      act_bind (act_lift (if execution_mode (ts_metadata spec) = UserInput
         then and_then (parse_input_request c) (\<lambda>i. Inr (Some i)) else Inr None)) (\<lambda>input_request.
      act_bind (te_tool_requested env \<lparr>tcr_call_id = pc_call_id c, tcr_tool_name = pc_tool_name c,
         tcr_arguments = pc_arguments c, tcr_metadata = ts_metadata spec\<rparr> (tool_call_message stamp c)) (\<lambda>disposition.
      if disposition = DispositionCancelled then act_return (TurnEnds (cancelled_turn_result st))
      else
        let st = st\<lparr>tl_context := tl_context st @ [tool_call_message stamp c],
                   tl_emitted := tl_emitted st @ [tool_call_message stamp c]\<rparr> in
        act_bind (is_cancelled env) (\<lambda>stop.
        if stop then
          act_bind (act_read (te_stamp env)) (\<lambda>stamp.
          let r = cancelled_tool_result c in
          act_bind (te_execution_finished env r (tool_result_message stamp r)) (\<lambda>_.
          act_return (TurnEnds (cancelled_turn_result
            (st\<lparr>tl_emitted := tl_emitted st @ [tool_result_message stamp r],
                tl_tool_results := tl_tool_results st @ [r]\<rparr>)))))
        else (case input_request of
          Some i \<Rightarrow> act_return (TurnEnds (turn_result_of
            (st\<lparr>tl_input_requests := tl_input_requests st @ [i]\<rparr>) FrToolUse))
        | None \<Rightarrow> settle_and_run env (tq_project_root rq) c spec requirement st)))))))"

fun process_tool_calls ::
  "'w turn_env \<Rightarrow> turn_request \<Rightarrow> completed_tool_call list \<Rightarrow> turn_locals \<Rightarrow> ('w, turn_flow) act" where
  "process_tool_calls env rq [] st = act_return (TurnGoesOn st)"
| "process_tool_calls env rq (c # cs) st =
     act_bind (process_tool_call env rq c st) (\<lambda>flow.
     case flow of TurnEnds r \<Rightarrow> act_return (TurnEnds r)
     | TurnGoesOn st \<Rightarrow> process_tool_calls env rq cs st)"

subsection \<open>The loop\<close>

definition handle_response ::
  "'w turn_env \<Rightarrow> turn_request \<Rightarrow> completion_request \<Rightarrow> u32 \<Rightarrow> collected_response option \<Rightarrow> turn_locals
     \<Rightarrow> ('w, turn_flow) act" where
  "handle_response env rq request n response st =
     (case response of
       None \<Rightarrow>
         act_bind (finish_llm_call env request n FrCancelled zero_token_usage) (\<lambda>_.
         act_return (TurnEnds (cancelled_turn_result st)))
     | Some r \<Rightarrow>
         act_bind (is_cancelled env) (\<lambda>stop.
         if stop then
           act_bind (finish_llm_call env request n FrCancelled (usage_or_zero (cr_usage r))) (\<lambda>_.
           act_return (TurnEnds (cancelled_turn_result st)))
         else
           act_bind (finish_llm_call env request n (cr_finish_reason r) (usage_or_zero (cr_usage r))) (\<lambda>summary.
           act_bind (accept_response env n summary r st) (\<lambda>st.
           if cr_tool_calls r = [] then act_return (TurnEnds (turn_result_of st (cr_finish_reason r)))
           else process_tool_calls env rq (cr_tool_calls r) st))))"

definition turn_iteration :: "'w turn_env \<Rightarrow> turn_request \<Rightarrow> turn_locals \<Rightarrow> ('w, turn_flow) act" where
  "turn_iteration env rq st =
     act_bind (is_cancelled env) (\<lambda>stop.
     if stop then act_return (TurnEnds (cancelled_turn_result st)) else
     let request = (tq_request rq)\<lparr>cq_messages := tl_context st\<rparr>;
         n = tl_llm_call_ordinal st + 1 in
     act_bind (te_llm_started env \<lparr>ls_ordinal = n, ls_provider = te_provider_id env,
        ls_model = cq_model request, ls_message_count = of_nat (length (tl_context st)),
        ls_request = request\<rparr>) (\<lambda>_.
     act_bind (await_response env request n) (\<lambda>response.
     handle_response env rq request n response st)))"

fun turn_loop :: "nat \<Rightarrow> 'w turn_env \<Rightarrow> turn_request \<Rightarrow> turn_locals \<Rightarrow> 'w \<Rightarrow> (turn_result result \<times> 'w) option" where
  "turn_loop 0 env rq st w = None"
| "turn_loop (Suc k) env rq st w =
     (case turn_iteration env rq st w of
        (Inl e, w') \<Rightarrow> Some (Inl e, w')
      | (Inr (TurnEnds r), w') \<Rightarrow> Some (Inr r, w')
      | (Inr (TurnGoesOn st'), w') \<Rightarrow> turn_loop k env rq st' w')"

definition initial_locals :: "turn_request \<Rightarrow> turn_locals" where
  "initial_locals rq =
     \<lparr>tl_context = cq_messages (tq_request rq), tl_emitted = [], tl_tool_results = [],
      tl_completion_chunks = [], tl_usage = None, tl_approvals = [], tl_approval_requests = [],
      tl_input_requests = [], tl_llm_call_ordinal = 0\<rparr>"

definition run_turn :: "nat \<Rightarrow> 'w turn_env \<Rightarrow> turn_request \<Rightarrow> 'w \<Rightarrow> (turn_result result \<times> 'w) option" where
  "run_turn k env rq w = turn_loop k env rq (initial_locals rq) w"

end
