(* ===== verification/Bt_Response.thy ===== *)
theory Bt_Response
  imports Bt_ToolCalls
begin

section \<open>A streamed response is reassembled faithfully\<close>

text \<open>
  What the reassembly of \<open>Bt_ToolCalls\<close> guarantees: the text the model streamed is the text of the
  assistant message, the arguments of a tool call are its own fragments in order whatever other
  deltas are interleaved with them, and the arguments a tool is executed with give back the ones the
  model sent.
\<close>

subsection \<open>Visible text\<close>

fun part_text :: "message_part \<Rightarrow> string" where
  "part_text (Text t) = t"
| "part_text p = []"

fun delta_text :: "completion_delta \<Rightarrow> string" where
  "delta_text (AppendText t) = t"
| "delta_text d = []"

definition parts_text :: "message_part list \<Rightarrow> string" where
  "parts_text ps = concat (map part_text ps)"

definition deltas_text :: "completion_delta list \<Rightarrow> string" where
  "deltas_text ds = concat (map delta_text ds)"

fun is_call_or_result :: "message_part \<Rightarrow> bool" where
  "is_call_or_result (ToolCall c) = True"
| "is_call_or_result (ToolResult r) = True"
| "is_call_or_result p = False"

lemma coalesce_text:
  "coalesce_with p q = Some m \<Longrightarrow> part_text m = part_text p @ part_text q \<and> \<not> is_call_or_result m"
  by (cases "(p, q)" rule: can_coalesce_with.cases) (auto simp: coalesce_with_def split: option.splits if_splits)

lemma push_text [simp]: "parts_text (push_message_part ps p) = parts_text ps @ part_text p"
proof (cases ps rule: rev_cases)
  case (snoc qs q)
  then show ?thesis
    by (cases "coalesce_with q p") (auto simp: push_message_part_def parts_text_def dest: coalesce_text)
qed (simp add: push_message_part_def parts_text_def)

lemma push_no_calls:
  "\<not> is_call_or_result p \<Longrightarrow> \<not> list_ex is_call_or_result ps
    \<Longrightarrow> \<not> list_ex is_call_or_result (push_message_part ps p)"
proof (cases ps rule: rev_cases)
  case (snoc qs q)
  assume "\<not> is_call_or_result p" "\<not> list_ex is_call_or_result ps"
  with snoc show ?thesis
    by (cases "coalesce_with q p") (auto simp: push_message_part_def dest: coalesce_text)
qed (simp add: push_message_part_def)

lemma apply_delta_text:
  "apply_delta pj d st = Inr st' \<Longrightarrow>
     parts_text (ra_assistant_parts st') = parts_text (ra_assistant_parts st) @ delta_text d"
  by (cases d) (auto simp: push_assistant_part_def and_then_eq_Inr parts_text_def[of "_ @ _"] parts_text_def[symmetric])

lemma apply_deltas_text:
  "apply_deltas pj ds st = Inr st' \<Longrightarrow>
     parts_text (ra_assistant_parts st') = parts_text (ra_assistant_parts st) @ deltas_text ds"
  by (induction ds arbitrary: st) (auto simp: deltas_text_def and_then_eq_Inr dest!: apply_delta_text)

lemma apply_delta_no_calls:
  "apply_delta pj d st = Inr st' \<Longrightarrow> \<not> list_ex is_call_or_result (ra_assistant_parts st)
    \<Longrightarrow> \<not> list_ex is_call_or_result (ra_assistant_parts st')"
  by (cases d) (auto simp: push_assistant_part_def and_then_eq_Inr push_no_calls)

lemma apply_deltas_no_calls:
  "apply_deltas pj ds st = Inr st' \<Longrightarrow> \<not> list_ex is_call_or_result (ra_assistant_parts st)
    \<Longrightarrow> \<not> list_ex is_call_or_result (ra_assistant_parts st')"
  by (induction ds arbitrary: st) (auto simp: and_then_eq_Inr dest: apply_delta_no_calls)

text \<open>When a response ends, its message holds exactly the streamed text, in order, and
  no tool call or tool result of its own: calls are turned into messages of their own.\<close>

theorem response_text_lossless:
  assumes "apply_deltas pj ds empty_response = Inr st"
    and "finish_response pj st = Inr r"
  shows "parts_text (cr_assistant_parts r) = deltas_text ds
    \<and> \<not> list_ex is_call_or_result (cr_assistant_parts r)
    \<and> (cr_finish_reason r = FrToolUse \<longleftrightarrow> cr_tool_calls r \<noteq> [])"
  using apply_deltas_text [OF assms(1)] apply_deltas_no_calls [OF assms(1)] assms(2)
  by (auto simp: finish_response_def and_then_eq_Inr empty_response_def Let_def parts_text_def)

theorem response_text_lossless_witness:
  "deltas_text [AppendText ''Hel'', OpenToolCall ''c'' ''t'' None, AppendText ''lo''] = ''Hello''"
proof -
  let ?ds = "[AppendText ''Hel'', OpenToolCall ''c'' ''t'' None, AppendText ''lo'']"
  let ?pj = "\<lambda>_. None"
  let ?st = "the (case apply_deltas ?pj ?ds empty_response of Inr s \<Rightarrow> Some s | Inl _ \<Rightarrow> None)"
  let ?r = "the (case finish_response ?pj ?st of Inr s \<Rightarrow> Some s | Inl _ \<Rightarrow> None)"
  have "apply_deltas ?pj ?ds empty_response = Inr ?st" by code_simp
  moreover have "finish_response ?pj ?st = Inr ?r" by code_simp
  ultimately have "parts_text (cr_assistant_parts ?r) = deltas_text ?ds"
    using response_text_lossless by blast
  moreover have "parts_text (cr_assistant_parts ?r) = ''Hello''" by code_simp
  ultimately show ?thesis by simp
qed

subsection \<open>Arguments of one call\<close>

text \<open>The argument fragments of call \<open>c\<close>, in order.\<close>

fun fragments :: "string \<Rightarrow> completion_delta list \<Rightarrow> string" where
  "fragments c [] = []"
| "fragments c (AppendToolCallArguments c' p # ds) = (if c' = c then p @ fragments c ds else fragments c ds)"
| "fragments c (d # ds) = fragments c ds"

fun opens_or_closes :: "string \<Rightarrow> completion_delta \<Rightarrow> bool" where
  "opens_or_closes c (OpenToolCall c' name args) \<longleftrightarrow> c' = c"
| "opens_or_closes c (CloseToolCall c') \<longleftrightarrow> c' = c"
| "opens_or_closes c d \<longleftrightarrow> False"

definition open_call :: "string \<Rightarrow> response_state \<Rightarrow> streaming_tool_call_accumulator option" where
  "open_call c st = List.find (\<lambda>a. ac_call_id a = c) (ra_open_tool_calls st)"

lemma find_update_first:
  assumes "\<And>a. ac_call_id (f a) = ac_call_id a"
  shows "List.find (\<lambda>a. ac_call_id a = c) (update_first (\<lambda>a. ac_call_id a = c') f xs) =
    (if c' = c then map_option f (List.find (\<lambda>a. ac_call_id a = c) xs)
     else List.find (\<lambda>a. ac_call_id a = c) xs)"
  by (induction xs) (auto simp: assms)

lemma find_remove_first:
  "c' \<noteq> c \<Longrightarrow> List.find (\<lambda>a. ac_call_id a = c) (remove_first (\<lambda>a. ac_call_id a = c') xs) =
     List.find (\<lambda>a. ac_call_id a = c) xs"
  by (induction xs) auto

lemma find_snoc: "List.find P (xs @ [x]) = (case List.find P xs of None \<Rightarrow> if P x then Some x else None | r \<Rightarrow> r)"
  by (induction xs) auto

lemma remove_first_absent: "\<not> list_ex p xs \<Longrightarrow> p x \<Longrightarrow> remove_first p (xs @ [x]) = xs"
  by (induction xs) auto

lemma apply_delta_other:
  assumes "apply_delta pj d st = Inr st'" "open_call c st = Some a" "\<not> opens_or_closes c d"
  shows "open_call c st' = Some (a\<lparr>ac_partial_json := ac_partial_json a @ fragments c [d]\<rparr>)
    \<and> (\<exists>cs. ra_tool_calls st' = ra_tool_calls st @ cs)"
  using assms
  by (cases d)
    (auto simp: open_call_def push_assistant_part_def and_then_eq_Inr open_tool_call_def Let_def
       append_tool_call_arguments_def close_tool_call_def find_update_first find_remove_first find_snoc
       split: if_splits option.splits prod.splits)

lemma fragments_Cons: "fragments c (d # ds) = fragments c [d] @ fragments c ds"
  by (cases d) auto

lemma apply_deltas_other:
  "apply_deltas pj ds st = Inr st' \<Longrightarrow> open_call c st = Some a \<Longrightarrow> list_all (\<lambda>d. \<not> opens_or_closes c d) ds \<Longrightarrow>
     open_call c st' = Some (a\<lparr>ac_partial_json := ac_partial_json a @ fragments c ds\<rparr>)
     \<and> (\<exists>cs. ra_tool_calls st' = ra_tool_calls st @ cs)"
proof (induction ds arbitrary: st a)
  case (Cons d ds)
  from Cons.prems(1) obtain s where s: "apply_delta pj d st = Inr s" "apply_deltas pj ds s = Inr st'"
    by (auto simp: and_then_eq_Inr)
  note d = apply_delta_other [OF s(1) Cons.prems(2)]
  from Cons.IH [OF s(2)] d Cons.prems(3) show ?case by (fastforce simp: fragments_Cons [of c d ds])
qed (simp add: open_call_def)

lemma apply_deltas_append:
  "apply_deltas pj (xs @ ys) st = and_then (apply_deltas pj xs st) (apply_deltas pj ys)"
  by (induction xs arbitrary: st) (auto simp: and_then_def split: sum.splits)

text \<open>C27: a tool call that is opened, streamed and closed is completed with exactly the
  concatenation of its own argument fragments, whatever text, reasoning or other calls' deltas lie
  between them.\<close>

theorem tool_call_reassembled:
  assumes "apply_deltas pj (OpenToolCall c name args # mid @ [CloseToolCall c]) st = Inr st'"
    and "open_call c st = None"
    and "list_all (\<lambda>d. \<not> opens_or_closes c d) mid"
  shows "\<exists>cs call. ra_tool_calls st' = ra_tool_calls st @ cs @ [call]
    \<and> finalize_tool_call pj \<lparr>ac_call_id = c, ac_tool_name = name, ac_initial_arguments = args,
         ac_partial_json = fragments c mid\<rparr> = Inr call"
proof -
  let ?a = "\<lparr>ac_call_id = c, ac_tool_name = name, ac_initial_arguments = args, ac_partial_json = []\<rparr>"
  let ?s = "st\<lparr>ra_open_tool_calls := open_tool_call c name args (ra_open_tool_calls st)\<rparr>"
  from assms(1) obtain s where s: "apply_deltas pj mid ?s = Inr s" "apply_delta pj (CloseToolCall c) s = Inr st'"
    by (auto simp: apply_deltas_append and_then_eq_Inr)
  from assms(2) have "\<not> list_ex (\<lambda>a. ac_call_id a = c) (ra_open_tool_calls st)"
    by (auto simp: open_call_def list_ex_iff find_None_iff)
  with assms(2) have "open_call c ?s = Some ?a"
    by (simp add: open_call_def open_tool_call_def find_snoc)
  from apply_deltas_other [OF s(1) this assms(3)]
  have o: "open_call c s = Some (?a\<lparr>ac_partial_json := fragments c mid\<rparr>)"
    and cs: "\<exists>cs. ra_tool_calls s = ra_tool_calls st @ cs" by auto
  from s(2) o cs show ?thesis
    by (auto simp: and_then_eq_Inr close_tool_call_def open_call_def)
qed

theorem tool_call_reassembled_witness:
  "\<exists>call. finalize_tool_call (\<lambda>_. None) \<lparr>ac_call_id = ''a'', ac_tool_name = ''read'',
      ac_initial_arguments = None, ac_partial_json = ''{}''\<rparr> = Inr call"
proof -
  let ?pj = "\<lambda>_. None"
  let ?mid = "[AppendToolCallArguments ''a'' ''{'', OpenToolCall ''b'' ''ls'' None, AppendText ''x'',
     AppendToolCallArguments ''b'' ''[]'', AppendToolCallArguments ''a'' ''}'', CloseToolCall ''b'']"
  let ?ds = "OpenToolCall ''a'' ''read'' None # ?mid @ [CloseToolCall ''a'']"
  let ?st = "the (case apply_deltas ?pj ?ds empty_response of Inr s \<Rightarrow> Some s | Inl _ \<Rightarrow> None)"
  have "apply_deltas ?pj ?ds empty_response = Inr ?st" by code_simp
  moreover have "open_call ''a'' empty_response = None" by code_simp
  moreover have "list_all (\<lambda>d. \<not> opens_or_closes ''a'' d) ?mid" by code_simp
  ultimately have "\<exists>cs call. ra_tool_calls ?st = ra_tool_calls empty_response @ cs @ [call]
    \<and> finalize_tool_call ?pj \<lparr>ac_call_id = ''a'', ac_tool_name = ''read'', ac_initial_arguments = None,
         ac_partial_json = fragments ''a'' ?mid\<rparr> = Inr call"
    by (rule tool_call_reassembled)
  moreover have "fragments ''a'' ?mid = ''{}''" by code_simp
  ultimately show ?thesis by auto
qed

subsection \<open>Arguments given to a tool\<close>

lemma filter_btree_insert:
  "\<not> P (k, v) \<Longrightarrow> (\<And>w. P (k, w) = P (k, v)) \<Longrightarrow> filter P (btree_insert k v es) = filter P es"
  by (induction k v es rule: btree_insert.induct) auto

lemma normalize_filtered: "k \<notin> set (map fst es) \<Longrightarrow> filter (\<lambda>(k', v). k' \<noteq> k) es = es"
  by (induction es) auto

text \<open>The arguments given to a tool carry the call id of the request, also when the
  model sent a \<open>call_id\<close> of its own, and an object of arguments comes back when the id is
  removed again.\<close>

theorem execution_arguments_roundtrip:
  "json_get ''call_id'' (execution_arguments (parse_tool_call sid c)) = Some (JString (ct_call_id c))
   \<and> (case pc_arguments (parse_tool_call sid c) of
        JObject es \<Rightarrow> normalize_tool_arguments (execution_arguments (parse_tool_call sid c)) = JObject es
      | v \<Rightarrow> normalize_tool_arguments (execution_arguments (parse_tool_call sid c)) = JObject [(''input'', v)])"
proof (cases "ct_arguments c")
  case (JObject es)
  let ?es = "filter (\<lambda>(k, v). k \<noteq> ''call_id'') es"
  have "filter (\<lambda>(k, v). k \<noteq> ''call_id'') ?es = ?es" by (rule normalize_filtered) auto
  with JObject show ?thesis
    by (simp add: parse_tool_call_def execution_arguments_def filter_btree_insert map_of_btree_insert)
qed (simp_all add: parse_tool_call_def execution_arguments_def)

end
