(* ===== verification/Bt_TurnProofs.thy ===== *)
theory Bt_TurnProofs
  imports Bt_TurnLoop Bt_Response
begin

section \<open>What a turn guarantees\<close>

text \<open>
  With the triples of \<open>Bt_Actions\<close>, the promises of the turn loop: the messages of a turn keep every
  tool call with its result, a request the observer has recorded is closed exactly once, and a tool
  that needs an approval never runs without one. What the loop relies on of the tools (they return
  the call id they are given) and of the observer's log are the named hypotheses \<open>tools_echo\<close> and
  \<open>logs_calls\<close>.
\<close>

subsection \<open>The observer's log\<close>

datatype call_event = CallRequested tool_call_id | CallClosed tool_call_id | CloseFailed tool_call_id

text \<open>A call is requested when none is open, and closed while it is; the result is the open call. No
  failed recording occurs in such a run.\<close>

fun call_run :: "tool_call_id option \<Rightarrow> call_event list \<Rightarrow> tool_call_id option option" where
  "call_run cur [] = Some cur"
| "call_run cur (CallRequested c # es) = (if cur = None then call_run (Some c) es else None)"
| "call_run cur (CallClosed c # es) = (if cur = Some c then call_run None es else None)"
| "call_run cur (CloseFailed c # es) = None"

text \<open>What an error may leave: every call closed, or, last of all, the failed attempt to record the result
  of the one open call.\<close>

definition call_run_failed :: "call_event list \<Rightarrow> bool" where
  "call_run_failed es \<longleftrightarrow> call_run None es = Some None
     \<or> (\<exists>es' c. es = es' @ [CloseFailed c] \<and> call_run None es' = Some (Some c))"

lemma call_run_append:
  "call_run cur (xs @ ys) = (case call_run cur xs of None \<Rightarrow> None | Some o' \<Rightarrow> call_run o' ys)"
  by (induction cur xs rule: call_run.induct) auto

text \<open>\<open>log\<close> reads the calls the observer was told of out of the world: a recorded request, and every
  attempt to record a result, with its success. Nothing else in the environment writes it.\<close>

definition logs_calls :: "'w turn_env \<Rightarrow> ('w \<Rightarrow> call_event list) \<Rightarrow> bool" where
  "logs_calls env log \<longleftrightarrow>
     (\<forall>q m w. log (snd (te_tool_requested env q m w)) = log w @
        (if fst (te_tool_requested env q m w) = Inr DispositionRecorded then [CallRequested (tcr_call_id q)] else []))
   \<and> (\<forall>r m w. log (snd (te_execution_finished env r m w)) = log w @
        [if fst (te_execution_finished env r m w) = Inr () then CallClosed (tr_call_id r) else CloseFailed (tr_call_id r)])
   \<and> (\<forall>read. te_signal env = Some read \<longrightarrow> (\<forall>w. log (snd (read w)) = log w))
   \<and> (\<forall>w. log (snd (te_interrupted env w)) = log w \<and> log (snd (te_stamp env w)) = log w
        \<and> log (snd (te_now env w)) = log w \<and> log (snd (te_elapsed env w)) = log w)
   \<and> (\<forall>rq. keeps log (te_stream env rq)) \<and> (\<forall>s. keeps log (te_llm_started env s))
   \<and> (\<forall>c. keeps log (te_chunk env c)) \<and> (\<forall>f. keeps log (te_llm_finished env f))
   \<and> (\<forall>t root args. keeps log (te_execute env t root args) \<and> keeps log (te_execute_racing env t root args))
   \<and> (\<forall>rq. keeps log (te_evaluate env rq)) \<and> (\<forall>rq. keeps log (te_approval_requested env rq))
   \<and> (\<forall>a. keeps log (te_approval_resolved env a))"

text \<open>A tool returns the call id it finds in its arguments.\<close>

definition tools_echo :: "'w turn_env \<Rightarrow> bool" where
  "tools_echo env \<longleftrightarrow>
     (\<forall>t root args w. case te_execute env t root args w of
          (Inr r, w') \<Rightarrow> json_get ''call_id'' args = Some (JString (tool_call_id_text (tr_call_id r)))
        | _ \<Rightarrow> True)
   \<and> (\<forall>t root args w. case te_execute_racing env t root args w of
          (Inr (Some r), w') \<Rightarrow> json_get ''call_id'' args = Some (JString (tool_call_id_text (tr_call_id r)))
        | _ \<Rightarrow> True)"

lemma execution_arguments_call_id:
  "json_get ''call_id'' (execution_arguments c) = Some (JString (tool_call_id_text (pc_call_id c)))"
  by (cases "pc_arguments c") (auto simp: execution_arguments_def map_of_btree_insert)

subsection \<open>Transcripts\<close>

text \<open>A settled transcript: the assistant's own messages, and tool calls each followed by its result.
  The second argument are the results, in order.\<close>

inductive settled :: "message list \<Rightarrow> tool_result_envelope list \<Rightarrow> bool" where
  settled_empty: "settled [] []"
| settled_text: "settled ms rs \<Longrightarrow> m_role m = RAssistant \<Longrightarrow> \<not> list_ex is_call_or_result (m_parts m)
    \<Longrightarrow> settled (ms @ [m]) rs"
| settled_call: "settled ms rs \<Longrightarrow> tr_call_id r = pc_call_id c
    \<Longrightarrow> settled (ms @ [tool_call_message stamp c, tool_result_message stamp' r]) (rs @ [r])"

lemma no_calls_ids: "\<not> list_ex is_call_or_result (m_parts m) \<Longrightarrow> message_tool_call_ids m = []"
proof -
  have "\<not> list_ex is_call_or_result ps \<Longrightarrow>
     List.map_filter (\<lambda>p. case p of ToolCall c \<Rightarrow> Some (tc_call_id c) | _ \<Rightarrow> None) ps = []" for ps
    by (induction ps) (auto simp: List.map_filter_simps split: message_part.splits)
  then show "\<not> list_ex is_call_or_result (m_parts m) \<Longrightarrow> message_tool_call_ids m = []"
    by (simp add: message_tool_call_ids_def)
qed

subsection \<open>Invariants of the loop\<close>

text \<open>\<open>W c\<close> says of a world that call \<open>c\<close> is open in what was observed, or none, and \<open>E\<close> what holds
  when the turn fails. Only the two lifecycle calls move it.\<close>

definition neutral :: "(tool_call_id option \<Rightarrow> 'w \<Rightarrow> bool) \<Rightarrow> ('w, 'a) act \<Rightarrow> bool" where
  "neutral W m \<longleftrightarrow> (\<forall>cur. triple (W cur) m (\<lambda>_. W cur) (W cur))"

definition observes ::
  "'w turn_env \<Rightarrow> (tool_call_id option \<Rightarrow> 'w \<Rightarrow> bool) \<Rightarrow> ('w \<Rightarrow> bool) \<Rightarrow> bool" where
  "observes env W E \<longleftrightarrow>
     (\<forall>w. W None w \<longrightarrow> E w)
   \<and> (\<forall>q m. triple (W None) (te_tool_requested env q m)
        (\<lambda>d. W (if d = DispositionRecorded then Some (tcr_call_id q) else None)) E)
   \<and> (\<forall>r m. triple (W (Some (tr_call_id r))) (te_execution_finished env r m) (\<lambda>_. W None) E)
   \<and> neutral W (is_cancelled env) \<and> neutral W (poll_interrupted env)
   \<and> neutral W (act_read (te_stamp env)) \<and> neutral W (act_read (te_now env))
   \<and> neutral W (act_read (te_elapsed env))
   \<and> (\<forall>rq. neutral W (te_stream env rq)) \<and> (\<forall>s. neutral W (te_llm_started env s))
   \<and> (\<forall>c. neutral W (te_chunk env c)) \<and> (\<forall>f. neutral W (te_llm_finished env f))
   \<and> (\<forall>t root args. neutral W (te_execute env t root args) \<and> neutral W (te_execute_racing env t root args))
   \<and> (\<forall>rq. neutral W (te_evaluate env rq)) \<and> (\<forall>rq. neutral W (te_approval_requested env rq))
   \<and> (\<forall>a. neutral W (te_approval_resolved env a))"

lemma neutralD: "neutral W m \<Longrightarrow> triple (W cur) m (\<lambda>_. W cur) (W cur)"
  by (simp add: neutral_def)

lemma neutral_bind:
  assumes "neutral W m" "\<And>a. neutral W (f a)"
  shows "neutral W (act_bind m f)"
  unfolding neutral_def
proof
  fix cur
  show "triple (W cur) (act_bind m f) (\<lambda>_. W cur) (W cur)"
    by (rule triple_bind [OF neutralD [OF assms(1)] neutralD [OF assms(2)]])
qed

lemma neutral_return: "neutral W (act_return a)" and neutral_lift: "neutral W (act_lift r)"
  by (auto simp: neutral_def intro: triple_return triple_lift)

text \<open>With a neutral first action the state of the observation is kept for the rest.\<close>

lemma triple_neutral:
  assumes "neutral W m" "\<And>a. triple (W cur) (f a) Q E" "\<And>w. W cur w \<Longrightarrow> E w"
  shows "triple (W cur) (act_bind m f) Q E"
proof (rule triple_bind)
  show "triple (W cur) m (\<lambda>_. W cur) E"
    by (rule triple_weaken [OF neutralD [OF assms(1)]]) (auto intro: assms(3))
qed (rule assms(2))

lemma triple_read:
  assumes "neutral W (act_read m)" "\<And>a. triple (W cur) (f a) Q E"
  shows "triple (W cur) (act_bind (act_read m) f) Q E"
proof (rule tripleI)
  fix w assume w: "W cur w"
  obtain a w' where m: "m w = (a, w')" by (cases "m w")
  from neutralD [OF assms(1), of cur] w m have "W cur w'" by (auto simp: triple_def act_read_def)
  with assms(2) show "case act_bind (act_read m) f w of (Inr a, w') \<Rightarrow> Q a w' | (Inl e, w') \<Rightarrow> E w'"
    by (auto simp: act_bind_def act_read_def m triple_def)
qed

lemma triple_is_cancelled:
  assumes "neutral W (is_cancelled env)" "\<And>a. triple (W cur) (f a) Q E"
  shows "triple (W cur) (act_bind (is_cancelled env) f) Q E"
proof (cases "te_signal env")
  case None
  have "act_bind (act_return False) f = f False" by (rule ext) (simp add: act_bind_def act_return_def)
  with assms(2) None show ?thesis by (simp add: is_cancelled_def)
next
  case (Some read)
  with assms show ?thesis by (auto simp: is_cancelled_def intro: triple_read)
qed

lemma observes_trivial: "observes env (\<lambda>_ _. True) (\<lambda>_. True)"
  by (auto simp: observes_def neutral_def triple_def split: sum.splits prod.splits)

definition log_at :: "('w \<Rightarrow> call_event list) \<Rightarrow> call_event list \<Rightarrow> tool_call_id option \<Rightarrow> 'w \<Rightarrow> bool" where
  "log_at log l cur w \<longleftrightarrow> (\<exists>es. log w = l @ es \<and> call_run None es = Some cur)"

lemma log_at_neutral:
  assumes "keeps log m"
  shows "neutral (log_at log l) m"
  unfolding neutral_def
proof
  fix cur
  show "triple (log_at log l cur) m (\<lambda>_. log_at log l cur) (log_at log l cur)"
    using triple_keeps [OF assms, of "\<lambda>x. \<exists>es. x = l @ es \<and> call_run None es = Some cur"]
    by (simp add: log_at_def [abs_def])
qed

lemma log_at_snoc:
  assumes "log_at log l cur w" "log w' = log w @ es" "call_run cur es = Some cur'"
  shows "log_at log l cur' w'"
proof -
  from assms(1) obtain es0 where "log w = l @ es0" "call_run None es0 = Some cur"
    by (auto simp: log_at_def)
  with assms(2,3) show ?thesis
    by (auto simp: log_at_def call_run_append intro!: exI [of _ "es0 @ es"])
qed

lemma logs_calls_observes:
  assumes "logs_calls env log"
  shows "observes env (log_at log l) (\<lambda>w. \<exists>es. log w = l @ es \<and> call_run_failed es)"
proof -
  note a = assms [unfolded logs_calls_def]
  let ?E = "\<lambda>w. \<exists>es. log w = l @ es \<and> call_run_failed es"
  have err: "log_at log l None w \<Longrightarrow> ?E w" for w
    by (auto simp: log_at_def call_run_failed_def)
  have req: "triple (log_at log l None) (te_tool_requested env q m)
        (\<lambda>d. log_at log l (if d = DispositionRecorded then Some (tcr_call_id q) else None)) ?E" for q m
  proof (rule tripleI)
    fix w assume w: "log_at log l None w"
    obtain d w' where m: "te_tool_requested env q m w = (d, w')" by fastforce
    from a m have "log w' = log w @ (if d = Inr DispositionRecorded then [CallRequested (tcr_call_id q)] else [])"
      by (metis fst_conv snd_conv)
    from log_at_snoc [OF w this] show "case te_tool_requested env q m w of
       (Inr d, w') \<Rightarrow> log_at log l (if d = DispositionRecorded then Some (tcr_call_id q) else None) w'
     | (Inl e, w') \<Rightarrow> ?E w'"
      using err [of w'] by (auto simp: m split: sum.splits)
  qed
  have fin: "triple (log_at log l (Some (tr_call_id r))) (te_execution_finished env r m) (\<lambda>_. log_at log l None) ?E" for r m
  proof (rule tripleI)
    fix w assume w: "log_at log l (Some (tr_call_id r)) w"
    obtain d w' where m: "te_execution_finished env r m w = (d, w')" by fastforce
    with a have "log w' = log w @ [if d = Inr () then CallClosed (tr_call_id r) else CloseFailed (tr_call_id r)]"
      by (metis fst_conv snd_conv)
    with w log_at_snoc [OF w, of w' "[CallClosed (tr_call_id r)]"] show "case te_execution_finished env r m w of
       (Inr d, w') \<Rightarrow> log_at log l None w' | (Inl e, w') \<Rightarrow> ?E w'"
      by (auto simp: m log_at_def call_run_failed_def split: sum.splits)
  qed
  have "keeps log (is_cancelled env)" "keeps log (poll_interrupted env)"
    using a by (auto simp: is_cancelled_def poll_interrupted_def split: option.splits intro!: keeps_return keeps_read)
  with a req fin err show ?thesis
    unfolding observes_def by (auto intro!: log_at_neutral keeps_read)
qed

subsection \<open>Every operation keeps the invariant\<close>

definition pending_call :: "turn_result \<Rightarrow> tool_call_id option" where
  "pending_call r =
     (case tu_approval_requests r of a # _ \<Rightarrow> Some (tar_call_id a)
      | [] \<Rightarrow> (case tu_input_requests r of i # _ \<Rightarrow> Some (ir_call_id i) | [] \<Rightarrow> None))"

definition result_ok :: "turn_result \<Rightarrow> bool" where
  "result_ok r \<longleftrightarrow>
     (case pending_call r of
        None \<Rightarrow> settled (tu_messages r) (tu_tool_results r) \<and> tu_finish_reason r \<noteq> FrToolUse
      | Some cid \<Rightarrow> tu_finish_reason r = FrToolUse
          \<and> (\<exists>ms stamp c. tu_messages r = ms @ [tool_call_message stamp c] \<and> pc_call_id c = cid
               \<and> settled ms (tu_tool_results r)))"

definition locals_ok :: "message list \<Rightarrow> turn_locals \<Rightarrow> bool" where
  "locals_ok ctx st \<longleftrightarrow> tl_context st = ctx @ tl_emitted st \<and> settled (tl_emitted st) (tl_tool_results st)
     \<and> tl_approval_requests st = [] \<and> tl_input_requests st = []"

text \<open>The same with the request of call \<open>c\<close> as the last message.\<close>

definition locals_open :: "message list \<Rightarrow> parsed_tool_call \<Rightarrow> turn_locals \<Rightarrow> bool" where
  "locals_open ctx c st \<longleftrightarrow> tl_context st = ctx @ tl_emitted st
     \<and> (\<exists>ms stamp. tl_emitted st = ms @ [tool_call_message stamp c] \<and> settled ms (tl_tool_results st))
     \<and> tl_approval_requests st = [] \<and> tl_input_requests st = []"

definition flow_ok ::
  "(tool_call_id option \<Rightarrow> 'w \<Rightarrow> bool) \<Rightarrow> message list \<Rightarrow> turn_flow \<Rightarrow> 'w \<Rightarrow> bool" where
  "flow_ok W ctx f w \<longleftrightarrow>
     (case f of TurnGoesOn st \<Rightarrow> locals_ok ctx st \<and> W None w
      | TurnEnds r \<Rightarrow> result_ok r \<and> W (pending_call r) w)"

definition outcome_echoes :: "tool_call_id \<Rightarrow> tool_execution_outcome \<Rightarrow> bool" where
  "outcome_echoes cid out \<longleftrightarrow>
     (case out of ToolFinished r \<Rightarrow> tr_call_id r = cid | ToolCancelled r \<Rightarrow> tr_call_id r = cid | ToolFailed e \<Rightarrow> True)"

lemma cancelled_result_ok:
  "settled (tl_emitted st) (tl_tool_results st) \<Longrightarrow>
     result_ok (cancelled_turn_result st) \<and> pending_call (cancelled_turn_result st) = None"
  by (simp add: result_ok_def pending_call_def cancelled_turn_result_def)

lemma settled_snoc:
  "locals_open ctx c st \<Longrightarrow> tr_call_id r = pc_call_id c
    \<Longrightarrow> settled (tl_emitted st @ [tool_result_message stamp r]) (tl_tool_results st @ [r])"
  by (auto simp: locals_open_def intro: settled_call)

lemma tools_echoD:
  assumes "tools_echo env"
  shows "te_execute env t root (execution_arguments c) w = (Inr r, w') \<Longrightarrow> tr_call_id r = pc_call_id c"
    and "te_execute_racing env t root (execution_arguments c) w = (Inr (Some r), w') \<Longrightarrow> tr_call_id r = pc_call_id c"
proof -
  note e = assms [unfolded tools_echo_def, THEN conjunct1, THEN spec, of t, THEN spec, of root, THEN spec,
      of "execution_arguments c", THEN spec, of w]
  note e2 = assms [unfolded tools_echo_def, THEN conjunct2, THEN spec, of t, THEN spec, of root, THEN spec,
      of "execution_arguments c", THEN spec, of w]
  show "te_execute env t root (execution_arguments c) w = (Inr r, w') \<Longrightarrow> tr_call_id r = pc_call_id c"
    using e by (simp add: execution_arguments_call_id tool_call_id.expand)
  show "te_execute_racing env t root (execution_arguments c) w = (Inr (Some r), w') \<Longrightarrow> tr_call_id r = pc_call_id c"
    using e2 by (simp add: execution_arguments_call_id tool_call_id.expand)
qed

lemma observesD:
  assumes "observes env W E"
  shows "neutral W (is_cancelled env)" "neutral W (poll_interrupted env)" "neutral W (act_read (te_stamp env))"
    "neutral W (act_read (te_now env))" "neutral W (act_read (te_elapsed env))" "neutral W (te_stream env rq)"
    "neutral W (te_llm_started env s)" "neutral W (te_chunk env ck)" "neutral W (te_llm_finished env f)"
    "neutral W (te_execute env t root args)" "neutral W (te_execute_racing env t root args)"
    "neutral W (te_evaluate env arq)" "neutral W (te_approval_requested env tarq)"
    "neutral W (te_approval_resolved env ta)"
    "triple (W (Some (tr_call_id r))) (te_execution_finished env r m) (\<lambda>_. W None) E"
  using assms by (simp_all add: observes_def)

lemma observes_err: "observes env W E \<Longrightarrow> W None w \<Longrightarrow> E w"
  unfolding observes_def by blast

lemma observe_failure_closes:
  assumes "observes env W E"
  shows "triple (W (Some (pc_call_id c))) (observe_tool_lifecycle_failure env c e) (\<lambda>_. W None) E"
  unfolding observe_tool_lifecycle_failure_def
  using observesD(15) [OF assms, of "lifecycle_failure_result c e"]
  by (intro triple_read observesD [OF assms]) (simp add: lifecycle_failure_result_def)

lemma or_observe_triple:
  assumes "observes env W E" "triple (W (Some (pc_call_id c))) m Q (W (Some (pc_call_id c)))"
  shows "triple (W (Some (pc_call_id c))) (or_observe env c m) Q E"
proof (rule tripleI)
  fix w assume "W (Some (pc_call_id c)) w"
  with assms(2) have m: "case m w of (Inr a, w') \<Rightarrow> Q a w' | (Inl e, w') \<Rightarrow> W (Some (pc_call_id c)) w'"
    by (simp add: triple_def)
  have "triple (W (Some (pc_call_id c)))
      (act_bind (observe_tool_lifecycle_failure env c e) (\<lambda>_. act_lift (Inl e))) Q E" for e
    by (rule triple_bind [OF observe_failure_closes [OF assms(1)]]) (rule triple_lift, auto intro: observes_err [OF assms(1)])
  note failed = triple_Inr [OF this] triple_Inl [OF this]
  from m failed show "case or_observe env c m w of (Inr a, w') \<Rightarrow> Q a w' | (Inl e, w') \<Rightarrow> E w'"
    by (auto simp: or_observe_def split: sum.splits prod.splits)
qed

lemma execute_tool_triple:
  assumes obs: "observes env W E" and echo: "tools_echo env"
  shows "triple (W cur) (execute_tool env root c) (\<lambda>out w. W cur w \<and> outcome_echoes (pc_call_id c) out) (W cur)"
proof -
  note n = observesD [OF obs]
  have cancelled: "outcome_echoes (pc_call_id c) (ToolCancelled (cancelled_tool_result c))"
    by (simp add: outcome_echoes_def cancelled_tool_result_def)
  have plain: "triple (W cur) (te_execute env t root (execution_arguments c))
      (\<lambda>r w. W cur w \<and> tr_call_id r = pc_call_id c) (W cur)" for t
    using n(10) [of t root "execution_arguments c"] tools_echoD(1) [OF echo]
    by (fastforce simp: neutral_def triple_def split: sum.splits prod.splits)
  have racing: "triple (W cur) (te_execute_racing env t root (execution_arguments c))
      (\<lambda>r w. W cur w \<and> (case r of None \<Rightarrow> True | Some r \<Rightarrow> tr_call_id r = pc_call_id c)) (W cur)" for t
    using n(11) [of t root "execution_arguments c"] tools_echoD(2) [OF echo]
    by (fastforce simp: neutral_def triple_def split: sum.splits prod.splits option.splits)
  have run: "triple (W cur) (act_bind (te_execute env t root (execution_arguments c)) (\<lambda>r.
       act_bind (is_cancelled env) (\<lambda>stop. act_return (if stop then ToolCancelled r else ToolFinished r))))
       (\<lambda>out w. W cur w \<and> outcome_echoes (pc_call_id c) out) (W cur)" for t
    by (rule triple_bind [OF plain], rule triple_assume, rule triple_is_cancelled [OF n(1)], rule triple_return)
      (simp add: outcome_echoes_def)
  have race: "triple (W cur) (act_bind (te_execute_racing env t root (execution_arguments c)) (\<lambda>r.
       act_return (case r of None \<Rightarrow> ToolCancelled (cancelled_tool_result c) | Some r \<Rightarrow> ToolFinished r)))
       (\<lambda>out w. W cur w \<and> outcome_echoes (pc_call_id c) out) (W cur)" for t
    by (rule triple_bind [OF racing])
      (auto intro!: triple_return simp: cancelled outcome_echoes_def cancelled_tool_result_def split: option.splits)
  show ?thesis
    unfolding execute_tool_def
    by (intro triple_neutral [OF neutral_lift] triple_is_cancelled n)
      (auto intro!: triple_return triple_neutral [OF n(2)] run race simp: cancelled)
qed

lemma execute_tool_call_triple:
  assumes "observes env W E" "tools_echo env"
  shows "triple (W cur) (execute_tool_call env root c) (\<lambda>out w. W cur w \<and> outcome_echoes (pc_call_id c) out) E'"
proof (rule tripleI)
  fix w assume w: "W cur w"
  note e = execute_tool_triple [OF assms, of cur root c]
  show "case execute_tool_call env root c w of
     (Inr out, w') \<Rightarrow> W cur w' \<and> outcome_echoes (pc_call_id c) out | (Inl e, w') \<Rightarrow> E' w'"
    using w triple_Inr [OF e] triple_Inl [OF e]
    by (auto simp: execute_tool_call_def outcome_echoes_def split: sum.splits prod.splits)
qed

lemma record_tool_outcome_triple:
  assumes obs: "observes env W E" and out: "outcome_echoes (pc_call_id c) out" and st: "locals_open ctx c st"
  shows "triple (W (Some (pc_call_id c))) (record_tool_outcome env c out st) (flow_ok W ctx) E"
proof -
  obtain r b where r: "(case out of ToolFinished r \<Rightarrow> (r, False) | ToolCancelled r \<Rightarrow> (r, True)
      | ToolFailed e \<Rightarrow> (tool_error_result c e, False)) = (r, b)" by fastforce
  with out have id: "tr_call_id r = pc_call_id c"
    by (auto simp: outcome_echoes_def tool_error_result_def split: tool_execution_outcome.splits)
  note n = observesD [OF obs]
  define st' where "st' stamp = st\<lparr>tl_context := tl_context st @ [tool_result_message stamp r],
      tl_emitted := tl_emitted st @ [tool_result_message stamp r], tl_tool_results := tl_tool_results st @ [r]\<rparr>" for stamp
  from st settled_snoc [OF st id] have ok: "locals_ok ctx (st' stamp)" for stamp
    by (auto simp: st'_def locals_ok_def locals_open_def)
  then have "settled (tl_emitted (st' stamp)) (tl_tool_results (st' stamp))" for stamp
    by (simp add: locals_ok_def)
  note ends = cancelled_result_ok [OF this]
  have "triple (W (Some (pc_call_id c))) (te_execution_finished env r m) (\<lambda>_. W None) E" for m
    using n(15) [of r m] id by simp
  then have "triple (W (Some (pc_call_id c))) (act_bind (act_read (te_stamp env)) (\<lambda>stamp.
      act_bind (te_execution_finished env r (tool_result_message stamp r)) (\<lambda>_.
      if b then act_return (TurnEnds (cancelled_turn_result (st' stamp)))
      else act_bind (is_cancelled env) (\<lambda>stop.
        act_return (if stop then TurnEnds (cancelled_turn_result (st' stamp)) else TurnGoesOn (st' stamp))))))
      (flow_ok W ctx) E"
    using ok ends
    by (intro triple_read n triple_bind [where R = "\<lambda>_. W None"])
      (auto intro!: triple_return triple_is_cancelled n simp: flow_ok_def)
  then show ?thesis unfolding st'_def by (simp add: record_tool_outcome_def r Let_def)
qed

lemma approval_outcome_triple:
  assumes "observes env W E"
  shows "triple (W cur) (approval_outcome_of env c requirement metadata) (\<lambda>_. W cur) (W cur)"
  unfolding approval_outcome_of_def
  by (auto simp: Let_def
    intro!: triple_return triple_read triple_neutral [OF observesD(12) [OF assms]] observesD [OF assms])

lemma settle_and_run_triple:
  assumes obs: "observes env W E" and echo: "tools_echo env" and st: "locals_open ctx c st"
  shows "triple (W (Some (pc_call_id c))) (settle_and_run env root c spec requirement st) (flow_ok W ctx) E"
proof -
  note n = observesD [OF obs]
  have run: "triple (W (Some (pc_call_id c))) (act_bind (execute_tool_call env root c)
      (\<lambda>out. record_tool_outcome env c out st')) (flow_ok W ctx) E" if "locals_open ctx c st'" for st'
  proof (rule triple_bind [OF execute_tool_call_triple [OF obs echo]])
    fix out
    show "triple (\<lambda>w. W (Some (pc_call_id c)) w \<and> outcome_echoes (pc_call_id c) out)
       (record_tool_outcome env c out st') (flow_ok W ctx) E"
      by (rule triple_assume) (rule record_tool_outcome_triple [OF obs _ that])
  qed
  have approvals: "locals_open ctx c (st\<lparr>tl_approvals := as\<rparr>)" for as
    using st by (simp add: locals_open_def)
  have resolved: "triple (W (Some (pc_call_id c))) (or_observe env c (te_approval_resolved env a))
      (\<lambda>_. W (Some (pc_call_id c))) E" for a
    by (rule or_observe_triple [OF obs neutralD [OF n(14)]])
  have requested: "triple (W (Some (pc_call_id c))) (or_observe env c (te_approval_requested env a))
      (\<lambda>_. W (Some (pc_call_id c))) E" for a
    by (rule or_observe_triple [OF obs neutralD [OF n(13)]])
  have denied: "outcome_echoes (pc_call_id c) (ToolFinished (tool_error_result c e))" for e
    by (simp add: outcome_echoes_def tool_error_result_def)
  have suspended: "result_ok (turn_result_of (st\<lparr>tl_approval_requests := tl_approval_requests st @ [a]\<rparr>) FrToolUse)
      \<and> pending_call (turn_result_of (st\<lparr>tl_approval_requests := tl_approval_requests st @ [a]\<rparr>) FrToolUse) = Some (pc_call_id c)"
    if "tar_call_id a = pc_call_id c" for a
    using st that by (auto simp: locals_open_def result_ok_def pending_call_def turn_result_of_def)
  have "triple (W (Some (pc_call_id c))) (or_observe env c (approval_outcome_of env c requirement (ts_metadata spec)))
      (\<lambda>_. W (Some (pc_call_id c))) E"
    by (rule or_observe_triple [OF obs approval_outcome_triple [OF obs]])
  then show ?thesis
    unfolding settle_and_run_def
  proof (rule triple_bind)
    fix outcome
    show "triple (W (Some (pc_call_id c)))
       (case outcome of
          NotNeeded \<Rightarrow> act_bind (execute_tool_call env root c) (\<lambda>out. record_tool_outcome env c out st)
        | OutcomeApproved request decision \<Rightarrow>
            let approval = \<lparr>ta_call_id = pc_call_id c, ta_tool_name = pc_tool_name c,
                  ta_request = request, ta_decision = decision\<rparr>
            in act_bind (or_observe env c (te_approval_resolved env approval)) (\<lambda>_.
               act_bind (execute_tool_call env root c) (\<lambda>out.
               record_tool_outcome env c out (st\<lparr>tl_approvals := tl_approvals st @ [approval]\<rparr>)))
        | OutcomeDenied request decision \<Rightarrow>
            let approval = \<lparr>ta_call_id = pc_call_id c, ta_tool_name = pc_tool_name c,
                  ta_request = request, ta_decision = decision\<rparr>
            in act_bind (or_observe env c (te_approval_resolved env approval)) (\<lambda>_.
               record_tool_outcome env c
                 (ToolFinished (tool_error_result c
                    (InvalidState (''tool `'' @ pc_tool_name c @ ''` was denied''))))
                 (st\<lparr>tl_approvals := tl_approvals st @ [approval]\<rparr>))
        | OutcomePending request \<Rightarrow>
            let approval_request = \<lparr>tar_call_id = pc_call_id c, tar_tool_name = pc_tool_name c,
                  tar_request = request\<rparr>
            in act_bind (or_observe env c (te_approval_requested env approval_request)) (\<lambda>_.
               act_return (TurnEnds (turn_result_of
                 (st\<lparr>tl_approval_requests := tl_approval_requests st @ [approval_request]\<rparr>) FrToolUse))))
       (flow_ok W ctx) E"
      by (cases outcome)
        (auto simp: Let_def flow_ok_def suspended
          intro!: run [OF st] run [OF approvals] record_tool_outcome_triple [OF obs denied approvals]
            triple_bind [OF resolved] triple_bind [OF requested] triple_return)
  qed
qed

lemma parse_input_request_id: "parse_input_request c = Inr i \<Longrightarrow> ir_call_id i = pc_call_id c"
  by (auto simp: parse_input_request_def Let_def and_then_eq_Inr)

lemma after_request_triple:
  assumes obs: "observes env W E" and echo: "tools_echo env" and st: "locals_open ctx c st"
    and input: "\<And>i. input_request = Some i \<Longrightarrow> ir_call_id i = pc_call_id c"
  shows "triple (W (Some (pc_call_id c)))
     (act_bind (is_cancelled env) (\<lambda>stop.
        if stop then
          act_bind (act_read (te_stamp env)) (\<lambda>stamp.
          let r = cancelled_tool_result c in
          act_bind (te_execution_finished env r (tool_result_message stamp r)) (\<lambda>_.
          act_return (TurnEnds (cancelled_turn_result
            (st\<lparr>tl_emitted := tl_emitted st @ [tool_result_message stamp r],
                tl_tool_results := tl_tool_results st @ [r]\<rparr>)))))
        else (case input_request of
          Some i \<Rightarrow> act_return (TurnEnds (turn_result_of
            (st\<lparr>tl_input_requests := tl_input_requests st @ [i]\<rparr>) FrToolUse))
        | None \<Rightarrow> settle_and_run env root c spec requirement st)))
     (flow_ok W ctx) E"
proof (rule triple_is_cancelled)
  note n = observesD [OF obs]
  show "neutral W (is_cancelled env)" by (rule n)
  let ?r = "cancelled_tool_result c"
  have id: "tr_call_id ?r = pc_call_id c" by (simp add: cancelled_tool_result_def)
  have closed: "triple (W (Some (pc_call_id c))) (te_execution_finished env ?r m) (\<lambda>_. W None) E" for m
    using n(15) [of ?r m] by (simp only: id)
  have ends: "result_ok (cancelled_turn_result (st\<lparr>tl_emitted := tl_emitted st @ [tool_result_message stamp ?r],
        tl_tool_results := tl_tool_results st @ [?r]\<rparr>))
      \<and> pending_call (cancelled_turn_result (st\<lparr>tl_emitted := tl_emitted st @ [tool_result_message stamp ?r],
        tl_tool_results := tl_tool_results st @ [?r]\<rparr>)) = None" for stamp
    by (rule cancelled_result_ok) (simp add: settled_snoc [OF st id])
  have cancelled: "triple (W (Some (pc_call_id c))) (act_bind (act_read (te_stamp env)) (\<lambda>stamp.
      let r = cancelled_tool_result c in
      act_bind (te_execution_finished env r (tool_result_message stamp r)) (\<lambda>_.
      act_return (TurnEnds (cancelled_turn_result
        (st\<lparr>tl_emitted := tl_emitted st @ [tool_result_message stamp r],
            tl_tool_results := tl_tool_results st @ [r]\<rparr>)))))) (flow_ok W ctx) E"
    unfolding Let_def
    by (rule triple_read [OF n(3)], rule triple_bind [OF closed], rule triple_return)
      (simp add: flow_ok_def ends)
  have asked: "result_ok (turn_result_of (st\<lparr>tl_input_requests := tl_input_requests st @ [i]\<rparr>) FrToolUse)
     \<and> pending_call (turn_result_of (st\<lparr>tl_input_requests := tl_input_requests st @ [i]\<rparr>) FrToolUse) = Some (pc_call_id c)"
    if "input_request = Some i" for i
    using st input [OF that] by (auto simp: locals_open_def result_ok_def pending_call_def turn_result_of_def)
  fix stop
  show "triple (W (Some (pc_call_id c)))
     (if stop then act_bind (act_read (te_stamp env)) (\<lambda>stamp.
          let r = cancelled_tool_result c in
          act_bind (te_execution_finished env r (tool_result_message stamp r)) (\<lambda>_.
          act_return (TurnEnds (cancelled_turn_result
            (st\<lparr>tl_emitted := tl_emitted st @ [tool_result_message stamp r],
                tl_tool_results := tl_tool_results st @ [r]\<rparr>)))))
      else (case input_request of
          Some i \<Rightarrow> act_return (TurnEnds (turn_result_of
            (st\<lparr>tl_input_requests := tl_input_requests st @ [i]\<rparr>) FrToolUse))
        | None \<Rightarrow> settle_and_run env root c spec requirement st))
     (flow_ok W ctx) E"
    using cancelled settle_and_run_triple [OF obs echo st] asked
    by (cases stop; cases input_request) (auto intro!: triple_return simp: flow_ok_def)
qed

lemma process_tool_call_triple:
  assumes obs: "observes env W E" and echo: "tools_echo env" and st: "locals_ok ctx st"
  shows "triple (W None) (process_tool_call env rq call st) (flow_ok W ctx) E"
proof -
  note n = observesD [OF obs]
  define c where "c = parse_tool_call (tq_session_id rq) call"
  have opened: "locals_open ctx c (st\<lparr>tl_context := tl_context st @ [tool_call_message stamp c],
      tl_emitted := tl_emitted st @ [tool_call_message stamp c]\<rparr>)" for stamp
    using st by (auto simp: locals_ok_def locals_open_def simp del: split_paired_Ex)
  have requested: "triple (W None) (te_tool_requested env \<lparr>tcr_call_id = pc_call_id c, tcr_tool_name = t,
         tcr_arguments = args, tcr_metadata = md\<rparr> m)
      (\<lambda>d. W (if d = DispositionRecorded then Some (pc_call_id c) else None)) E" for t args md m
    using obs by (simp add: observes_def del: split_paired_All) (metis turn_tool_call_request.select_convs(1))
  have input: "triple (W None) (act_lift (if b then and_then (parse_input_request c) (\<lambda>i. Inr (Some i)) else Inr None))
      (\<lambda>i w. W None w \<and> (\<forall>x. i = Some x \<longrightarrow> ir_call_id x = pc_call_id c)) E" for b
    by (rule triple_lift) (auto simp: observes_err [OF obs] and_then_eq_Inr split: if_splits dest: parse_input_request_id)
  have cancelled: "flow_ok W ctx (TurnEnds (cancelled_turn_result st)) w" if "W None w" for w
    using st that cancelled_result_ok [of st] by (simp add: locals_ok_def flow_ok_def)
  show ?thesis
    unfolding process_tool_call_def c_def [symmetric] Let_def
  proof (rule triple_read [OF n(3)], rule triple_neutral [OF neutral_lift _ observes_err [OF obs]],
      rule triple_bind [OF input], rule triple_assume, rule triple_bind [OF requested])
    fix stamp tool d and i :: "turn_input_request option"
    assume i: "\<forall>x. i = Some x \<longrightarrow> ir_call_id x = pc_call_id c"
    let ?st = "st\<lparr>tl_context := tl_context st @ [tool_call_message stamp c],
      tl_emitted := tl_emitted st @ [tool_call_message stamp c]\<rparr>"
    note rest = after_request_triple [OF obs echo opened, unfolded Let_def, of i stamp "tq_project_root rq"
        "fst tool" "snd tool (pc_arguments c)"]
    show "triple (W (if d = DispositionRecorded then Some (pc_call_id c) else None))
       (if d = DispositionCancelled then act_return (TurnEnds (cancelled_turn_result st))
        else act_bind (is_cancelled env) (\<lambda>stop.
          if stop then act_bind (act_read (te_stamp env)) (\<lambda>stamp.
            act_bind (te_execution_finished env (cancelled_tool_result c)
              (tool_result_message stamp (cancelled_tool_result c))) (\<lambda>_.
            act_return (TurnEnds (cancelled_turn_result
              (?st\<lparr>tl_emitted := tl_emitted ?st @ [tool_result_message stamp (cancelled_tool_result c)],
                  tl_tool_results := tl_tool_results ?st @ [cancelled_tool_result c]\<rparr>)))))
          else (case i of
            Some i \<Rightarrow> act_return (TurnEnds (turn_result_of
              (?st\<lparr>tl_input_requests := tl_input_requests ?st @ [i]\<rparr>) FrToolUse))
          | None \<Rightarrow> settle_and_run env (tq_project_root rq) c (fst tool) (snd tool (pc_arguments c)) ?st)))
       (flow_ok W ctx) E"
    proof (cases d)
      case DispositionRecorded
      with rest i show ?thesis by simp
    next
      case DispositionCancelled
      then show ?thesis by (auto intro!: triple_return cancelled)
    qed
  qed
qed

lemma process_tool_calls_triple:
  assumes obs: "observes env W E" and echo: "tools_echo env"
  shows "locals_ok ctx st \<Longrightarrow> triple (W None) (process_tool_calls env rq calls st) (flow_ok W ctx) E"
proof (induction calls arbitrary: st)
  case Nil
  then show ?case by (auto intro!: triple_return simp: flow_ok_def)
next
  case (Cons call calls)
  have "triple (flow_ok W ctx f) (case f of TurnEnds r \<Rightarrow> act_return (TurnEnds r)
     | TurnGoesOn st \<Rightarrow> process_tool_calls env rq calls st) (flow_ok W ctx) E" for f
  proof (cases f)
    case (TurnGoesOn st')
    then show ?thesis
      using triple_assume [OF Cons.IH [of st']]
      by (simp add: flow_ok_def [abs_def] conj_commute)
  qed (auto intro!: triple_return)
  then show ?case
    by (simp add: triple_bind [OF process_tool_call_triple [OF obs echo Cons.prems]])
qed

lemma neutral_collect_items: "observes env W E \<Longrightarrow> neutral W (collect_items env n items st)"
proof (induction items arbitrary: st)
  case Nil
  then show ?case by (auto intro!: neutral_bind neutral_return observesD [OF Nil])
next
  case (Cons item items)
  note obs = observesD [OF Cons.prems]
  show ?case
    unfolding collect_items.simps Let_def
    using Cons.IH [OF Cons.prems] obs by (auto intro!: neutral_bind neutral_return neutral_lift)
qed

lemma collect_items_no_calls:
  "\<not> list_ex is_call_or_result (ra_assistant_parts st)
    \<Longrightarrow> triple (\<lambda>_. True) (collect_items env n items st)
      (\<lambda>r _. case r of None \<Rightarrow> True | Some st \<Rightarrow> \<not> list_ex is_call_or_result (ra_assistant_parts st)) (\<lambda>_. True)"
proof (induction items arbitrary: st)
  case Nil
  then show ?case
    by (auto simp: triple_def act_bind_def act_return_def split: sum.splits prod.splits)
next
  case (Cons item items)
  have "triple (\<lambda>_. True) (act_lift (apply_deltas pj ds (note_chunk ck st)))
     (\<lambda>s _. \<not> list_ex is_call_or_result (ra_assistant_parts s)) (\<lambda>_. True)" for pj ds ck
    by (rule triple_lift) (use apply_deltas_no_calls Cons.prems in \<open>auto simp: note_chunk_def\<close>)
  moreover have "triple (\<lambda>_. \<not> list_ex is_call_or_result (ra_assistant_parts s)) (collect_items env n items s)
     (\<lambda>r _. case r of None \<Rightarrow> True | Some st \<Rightarrow> \<not> list_ex is_call_or_result (ra_assistant_parts st)) (\<lambda>_. True)" for s
    using triple_assume [OF Cons.IH [of s]] by simp
  ultimately have tail: "triple (\<lambda>_. True) (act_bind (act_lift (apply_deltas pj ds (note_chunk ck st)))
      (collect_items env n items))
     (\<lambda>r _. case r of None \<Rightarrow> True | Some st \<Rightarrow> \<not> list_ex is_call_or_result (ra_assistant_parts st)) (\<lambda>_. True)" for pj ds ck
    by (rule triple_bind)
  show ?case
    by (auto simp: Let_def intro!: triple_bind [OF triple_any] triple_return tail)
qed

text \<open>What is known of a response that was collected in full.\<close>

definition response_ok :: "collected_response option \<Rightarrow> bool" where
  "response_ok r \<longleftrightarrow>
     (case r of None \<Rightarrow> True
      | Some r \<Rightarrow> \<not> list_ex is_call_or_result (cr_assistant_parts r)
          \<and> (cr_tool_calls r = [] \<longrightarrow> cr_finish_reason r \<noteq> FrToolUse))"

lemma finish_response_ok:
  "finish_response pj st = Inr r \<Longrightarrow> \<not> list_ex is_call_or_result (ra_assistant_parts st) \<Longrightarrow> response_ok (Some r)"
  by (auto simp: finish_response_def response_ok_def and_then_eq_Inr Let_def)

lemma collect_response_triple:
  assumes "observes env W E"
  shows "triple (W None) (collect_response env n items) (\<lambda>r w. W None w \<and> response_ok r) (W None)"
proof -
  have "\<not> list_ex is_call_or_result (ra_assistant_parts empty_response)" by (simp add: empty_response_def)
  from triple_conj [OF neutralD [OF neutral_collect_items [OF assms]] collect_items_no_calls [OF this]]
  have items: "triple (W None) (collect_items env n items empty_response)
      (\<lambda>r w. W None w \<and> (case r of None \<Rightarrow> True | Some st \<Rightarrow> \<not> list_ex is_call_or_result (ra_assistant_parts st)))
      (W None)" by simp
  show ?thesis
    unfolding collect_response_def
    by (rule triple_bind [OF items], rule triple_assume)
      (auto intro!: triple_return triple_lift simp: and_then_eq_Inr response_ok_def [of None]
        dest: finish_response_ok split: option.splits)
qed

lemma await_response_triple:
  assumes obs: "observes env W E"
  shows "triple (W None) (await_response env rq n) (\<lambda>r w. W None w \<and> response_ok r) (W None)"
proof (rule tripleI)
  fix w assume w: "W None w"
  note o = observesD [OF obs]
  let ?m = "act_bind (poll_interrupted env) (\<lambda>stop. if stop then act_return None
     else act_bind (te_stream env rq) (collect_response env n))"
  have m: "triple (W None) ?m (\<lambda>r w. W None w \<and> response_ok r) (W None)"
    by (rule triple_neutral [OF o(2)])
      (auto intro!: triple_return triple_neutral [OF o(6)] collect_response_triple [OF obs]
        simp: response_ok_def [of None])
  obtain r w' where r: "?m w = (r, w')" by fastforce
  have w': "W None w'" using triple_Inr [OF m, of w _ w'] triple_Inl [OF m, of w _ w'] w r by (cases r) auto
  have ok: "response_ok a" if "r = Inr a" for a using triple_Inr [OF m, of w a w'] w r that by simp
  have none: "response_ok None" by (simp add: response_ok_def)
  have "triple (W None) (act_bind (is_cancelled env) (\<lambda>stop. if stop then act_return None else act_lift r))
      (\<lambda>r w. W None w \<and> response_ok r) (W None)"
    using ok none by (auto intro!: triple_is_cancelled o triple_return triple_lift)
  note t = triple_Inr [OF this _ w'] triple_Inl [OF this _ w']
  show "case await_response env rq n w of
      (Inr a, w') \<Rightarrow> W None w' \<and> response_ok a | (Inl e, w') \<Rightarrow> W None w'"
    using t w' none
    by (auto simp: await_response_def r split: sum.splits prod.splits option.splits)
qed

lemma accept_response_triple:
  assumes obs: "observes env W E" and st: "locals_ok ctx st" and r: "response_ok (Some r)"
  shows "triple (W None) (accept_response env n summary r st) (\<lambda>st w. W None w \<and> locals_ok ctx st) (W None)"
  using st r
  by (auto simp: accept_response_def Let_def locals_ok_def response_ok_def
    intro!: triple_return triple_read observesD [OF obs] settled_text)

lemma finish_llm_call_neutral:
  assumes "observes env W E"
  shows "neutral W (finish_llm_call env request n reason used)"
  unfolding finish_llm_call_def by (intro neutral_bind neutral_lift neutral_return) (auto intro: observesD [OF assms])

lemma stopped_flow: "locals_ok ctx st \<Longrightarrow> W None w \<Longrightarrow> flow_ok W ctx (TurnEnds (cancelled_turn_result st)) w"
  using cancelled_result_ok [of st] by (simp add: locals_ok_def flow_ok_def)

lemma finished_flow:
  "locals_ok ctx st \<Longrightarrow> response_ok (Some r) \<Longrightarrow> cr_tool_calls r = [] \<Longrightarrow> W None w
    \<Longrightarrow> flow_ok W ctx (TurnEnds (turn_result_of st (cr_finish_reason r))) w"
  by (simp add: flow_ok_def locals_ok_def response_ok_def result_ok_def pending_call_def turn_result_of_def)

lemma triple_then_fail:
  assumes "observes env W E" "triple P m Q (W None)"
  shows "triple P m Q E"
  by (rule triple_weaken [OF assms(2)]) (auto intro: observes_err [OF assms(1)])

lemma handle_response_triple:
  assumes obs: "observes env W E" and echo: "tools_echo env" and st: "locals_ok ctx st" and r: "response_ok response"
  shows "triple (W None) (handle_response env rq request n response st) (flow_ok W ctx) E"
proof -
  note o = observesD [OF obs]
  note fin = finish_llm_call_neutral [OF obs]
  have rest: "triple (W None) (act_bind (finish_llm_call env request n reason used) (\<lambda>summary.
      act_bind (accept_response env n summary r st) (\<lambda>st.
      if cr_tool_calls r = [] then act_return (TurnEnds (turn_result_of st (cr_finish_reason r)))
      else process_tool_calls env rq (cr_tool_calls r) st))) (flow_ok W ctx) E"
    if "response_ok (Some r)" for reason used r
    by (rule triple_neutral [OF fin _ observes_err [OF obs]],
        rule triple_bind [OF triple_then_fail [OF obs accept_response_triple [OF obs st that]]], rule triple_assume)
      (auto intro!: triple_return process_tool_calls_triple [OF obs echo] finished_flow that)
  with r show ?thesis
    by (auto simp: handle_response_def split: option.splits
      intro!: triple_is_cancelled o triple_neutral [OF fin _ observes_err [OF obs]] triple_return stopped_flow [OF st])
qed

lemma turn_iteration_triple:
  assumes obs: "observes env W E" and echo: "tools_echo env" and st: "locals_ok ctx st"
  shows "triple (W None) (turn_iteration env rq st) (flow_ok W ctx) E"
  by (auto simp: turn_iteration_def Let_def
    intro!: triple_is_cancelled triple_return stopped_flow [OF st] triple_neutral [OF observesD(7) [OF obs] _ observes_err [OF obs]]
      triple_bind [OF triple_then_fail [OF obs await_response_triple [OF obs]]] triple_assume
      handle_response_triple [OF obs echo st] observesD [OF obs])

lemma turn_loop_invariant:
  assumes "observes env W E" "tools_echo env"
  shows "locals_ok ctx st \<Longrightarrow> W None w \<Longrightarrow> turn_loop k env rq st w = Some (res, w') \<Longrightarrow>
    (case res of Inr r \<Rightarrow> result_ok r \<and> W (pending_call r) w' | Inl e \<Rightarrow> E w')"
proof (induction k arbitrary: st w)
  case (Suc k)
  obtain f w1 where f: "turn_iteration env rq st w = (f, w1)" by fastforce
  note t = turn_iteration_triple [OF assms Suc.prems(1), of rq]
  note ok = triple_Inr [OF t, of w _ w1] triple_Inl [OF t, of w _ w1]
  show ?case
  proof (cases f)
    case (Inl e)
    with Suc.prems f ok show ?thesis by auto
  next
    case (Inr flow)
    with f ok Suc.prems(2) have "flow_ok W ctx flow w1" by blast
    with Suc.prems(3) Suc.IH f Inr show ?thesis by (cases flow) (auto simp: flow_ok_def)
  qed
qed simp

lemma initial_locals_ok: "locals_ok (cq_messages (tq_request rq)) (initial_locals rq)"
  by (simp add: locals_ok_def initial_locals_def settled_empty)

end
