(* ===== verification/Bt_TurnProps.thy ===== *)
theory Bt_TurnProps
  imports Bt_TurnProofs
begin

section \<open>The properties of a turn\<close>

text \<open>
  The promises of \<open>run_turn\<close>, each with an evaluated run of the loop as its witness: a provider that
  asks for one tool and then answers (\<open>demo_env\<close>), with a world that holds the responses left and the
  observer's log.
\<close>

lemma settled_answered: "settled ms rs \<Longrightarrow> answered ms"
proof (induction rule: settled.induct)
  case (settled_text ms rs m)
  then show ?case by (auto intro!: answered_append simp: no_calls_ids)
next
  case (settled_call ms rs r c stamp stamp')
  then show ?case
    by (auto intro!: answered_append
      simp: message_tool_call_ids_def message_tool_result_ids_def tool_call_message_def tool_result_message_def
        List.map_filter_simps)
qed simp

subsection \<open>A concrete run\<close>

type_synonym demo_world = "call_event list \<times> completion_chunk result list list"

definition demo_tool :: "tool_spec" where
  "demo_tool = \<lparr>ts_name = ''shell'', ts_description = [], ts_parameters_schema = JObject [],
     ts_metadata = \<lparr>risk_class = High, is_read_only = False, is_concurrency_safe = False,
       interrupt_behavior = TerminateProcess, execution_mode = EmImmediate, should_defer = False,
       catalogue_tags = [], display_group = Execution\<rparr>\<rparr>"

definition demo_result :: "json \<Rightarrow> tool_result_envelope option" where
  "demo_result args =
     (case json_get ''call_id'' args of
        Some (JString s) \<Rightarrow> Some \<lparr>tr_call_id = ToolCallId s, tr_tool_name = ''shell'', tr_is_error = False,
           tr_output = JString ''ok'', tr_duration_ms = None\<rparr>
      | _ \<Rightarrow> None)"

definition demo_env :: "approval_requirement \<Rightarrow> approval_decision option \<Rightarrow> demo_world turn_env" where
  "demo_env requirement decision =
     \<lparr>te_signal = None, te_interrupted = Pair False, te_stamp = Pair (MessageId ''m'', 0), te_now = Pair 0,
      te_elapsed = Pair 0, te_provider_id = ''p'',
      te_stream = (\<lambda>rq (l, rs). case rs of [] \<Rightarrow> (Inl (Provider ''no response''), (l, [])) | r # rs \<Rightarrow> (Inr r, (l, rs))),
      te_summary = Inr, te_parse_json = (\<lambda>_. None),
      te_llm_started = (\<lambda>_. Pair (Inr ())), te_chunk = (\<lambda>_. Pair (Inr ())), te_llm_finished = (\<lambda>_. Pair (Inr ())),
      te_tool = (\<lambda>n. if n = ''shell'' then Some (demo_tool, \<lambda>_. requirement) else None),
      te_execute = (\<lambda>n root args. Pair (ok_or (Tool ''missing call_id'') (demo_result args))),
      te_execute_racing = (\<lambda>n root args. Pair (ok_or (Tool ''missing call_id'') (map_option Some (demo_result args)))),
      te_evaluate = (\<lambda>_. Pair (Inr decision)),
      te_tool_requested = (\<lambda>q m (l, rs). (Inr DispositionRecorded, (l @ [CallRequested (tcr_call_id q)], rs))),
      te_approval_requested = (\<lambda>_. Pair (Inr ())), te_approval_resolved = (\<lambda>_. Pair (Inr ())),
      te_execution_finished = (\<lambda>r m (l, rs). (Inr (), (l @ [CallClosed (tr_call_id r)], rs)))\<rparr>"

definition demo_chunk :: "completion_delta list \<Rightarrow> completion_chunk" where
  "demo_chunk ds = \<lparr>ck_llm_call_ordinal = None, ck_deltas = ds, ck_usage = None, ck_raw = None\<rparr>"

definition demo_responses :: "completion_chunk result list list" where
  "demo_responses =
     [[Inr (demo_chunk [AppendText ''run'', OpenToolCall ''c1'' ''shell'' (Some (JObject [])), CloseToolCall ''c1''])],
      [Inr (demo_chunk [AppendText ''done''])]]"

definition demo_request :: turn_request where
  "demo_request = \<lparr>tq_session_id = SessionId ''s'', tq_project_root = ''/'',
     tq_request = \<lparr>cq_connection_id = ConnectionId ''c'', cq_model = ''m'', cq_system_prompt = None,
       cq_messages = [], cq_tools = [], cq_structured_output = None, cq_max_tokens = None,
       cq_temperature = None, cq_thinking = None\<rparr>\<rparr>"

lemma demo_echo: "tools_echo (demo_env requirement decision)"
  by (auto simp: tools_echo_def demo_env_def demo_result_def ok_or_def split: option.splits json.splits)

lemma demo_logs: "logs_calls (demo_env requirement decision) fst"
  by (auto simp: logs_calls_def demo_env_def keeps_def split: list.splits prod.splits)

definition result_of_run :: "(turn_result result \<times> 'w) option \<Rightarrow> turn_result option" where
  "result_of_run x = (case x of Some (Inr r, w) \<Rightarrow> Some r | _ \<Rightarrow> None)"

lemma result_of_run_eq: "result_of_run x = Some r \<longleftrightarrow> (\<exists>w. x = Some (Inr r, w))"
  by (auto simp: result_of_run_def split: option.splits sum.splits prod.splits)

definition demo_turn :: "approval_requirement \<Rightarrow> approval_decision option \<Rightarrow> (turn_result result \<times> demo_world) option" where
  "demo_turn requirement decision = run_turn 2 (demo_env requirement decision) demo_request ([], demo_responses)"

subsection \<open>Transcripts\<close>

text \<open>C23: the messages of a finished turn are the assistant's own messages and tool calls, each directly
  followed by its result, in the order of the tool results; every call is answered. Only a turn that
  ends to wait for an approval or for the user's input leaves a call open, the last message, and it is
  the one the request names.\<close>

theorem turn_transcript_settled:
  assumes "tools_echo env"
    and "run_turn k env rq w = Some (Inr r, w')"
  shows "case pending_call r of
      None \<Rightarrow> settled (tu_messages r) (tu_tool_results r) \<and> answered (tu_messages r) \<and> tu_finish_reason r \<noteq> FrToolUse
    | Some cid \<Rightarrow> tu_finish_reason r = FrToolUse \<and> answered (butlast (tu_messages r))
        \<and> settled (butlast (tu_messages r)) (tu_tool_results r)
        \<and> (\<exists>stamp c. last (tu_messages r) = tool_call_message stamp c \<and> pc_call_id c = cid)"
proof -
  from turn_loop_invariant [OF observes_trivial assms(1) initial_locals_ok TrueI assms(2) [unfolded run_turn_def]]
  have "result_ok r" by simp
  show ?thesis
  proof (cases "pending_call r")
    case None
    with \<open>result_ok r\<close> show ?thesis by (auto simp: result_ok_def intro: settled_answered)
  next
    case (Some cid)
    with \<open>result_ok r\<close> obtain ms stamp c where "tu_messages r = ms @ [tool_call_message stamp c]"
      "pc_call_id c = cid" "settled ms (tu_tool_results r)" "tu_finish_reason r = FrToolUse"
      unfolding result_ok_def by auto
    with settled_answered [of ms] show ?thesis
      by (simp only: Some option.case butlast_snoc last_snoc) blast
  qed
qed

theorem turn_transcript_settled_witness:
  "\<exists>r w. demo_turn Never None = Some (Inr r, w) \<and> length (tu_messages r) = 4 \<and> answered (tu_messages r)"
proof -
  let ?x = "demo_turn Never None"
  let ?r = "the (result_of_run ?x)"
  have "map_option (\<lambda>r. (length (tu_messages r), pending_call r)) (result_of_run ?x) = Some (4, None)"
    by code_simp
  then obtain r where "result_of_run ?x = Some r" and l: "length (tu_messages r) = 4" "pending_call r = None"
    by auto
  then obtain w where w: "?x = Some (Inr r, w)" by (auto simp: result_of_run_eq)
  from turn_transcript_settled [OF demo_echo w [unfolded demo_turn_def]] l(2)
  have "answered (tu_messages r)" by simp
  with w l(1) show ?thesis by blast
qed

subsection \<open>Lifecycle\<close>

text \<open>C24: a tool call request that the observer has recorded is closed by exactly one recorded result, for
  the same call and before the next request. A turn that returns, cancelled or not, leaves nothing
  open but the call it waits for when it is suspended for an approval or for input. A turn that fails
  leaves nothing open either, unless recording a closing result is itself what failed: then that attempt
  is the last thing the observer is told, and only its call stays open.\<close>

theorem tool_requests_closed_once:
  assumes "tools_echo env" and "logs_calls env log"
    and "run_turn k env rq w = Some (res, w')"
  shows "\<exists>es. log w' = log w @ es \<and>
    (case res of Inr r \<Rightarrow> call_run None es = Some (pending_call r)
     | Inl e \<Rightarrow> call_run_failed es)"
proof -
  have "log_at log (log w) None w" by (simp add: log_at_def)
  from turn_loop_invariant [OF logs_calls_observes [OF assms(2)] assms(1) initial_locals_ok this
      assms(3) [unfolded run_turn_def]]
  show ?thesis by (auto simp: log_at_def split: sum.splits)
qed

text \<open>A turn that is not suspended, and one that is.\<close>

theorem tool_requests_closed_once_witness:
  "(\<exists>r l rs. demo_turn Never None = Some (Inr r, (l, rs)) \<and> l \<noteq> [] \<and> call_run None l = Some None)
    \<and> (\<exists>r l rs. demo_turn Always None = Some (Inr r, (l, rs)) \<and> call_run None l = Some (Some (ToolCallId ''c1'')))"
proof -
  have run: "\<exists>r l rs. demo_turn requirement None = Some (Inr r, (l, rs)) \<and> pending_call r = cid \<and> l \<noteq> [] \<and> call_run None l = Some cid"
    if "case demo_turn requirement None of Some (Inr r, w) \<Rightarrow> pending_call r = cid \<and> fst w \<noteq> [] | _ \<Rightarrow> False" for requirement cid
  proof -
    from that obtain r l rs where x: "demo_turn requirement None = Some (Inr r, (l, rs))" "pending_call r = cid" "l \<noteq> []"
      by (auto split: option.splits prod.splits sum.splits)
    from tool_requests_closed_once [OF demo_echo demo_logs x(1) [unfolded demo_turn_def]] x show ?thesis by auto
  qed
  have "case demo_turn Never None of Some (Inr r, w) \<Rightarrow> pending_call r = None \<and> fst w \<noteq> [] | _ \<Rightarrow> False"
    "case demo_turn Always None of Some (Inr r, w) \<Rightarrow> pending_call r = Some (ToolCallId ''c1'') \<and> fst w \<noteq> [] | _ \<Rightarrow> False"
    by code_simp+
  from run [OF this(1)] run [OF this(2)] show ?thesis by blast
qed

subsection \<open>Approval\<close>

text \<open>No tool is free of approval, and the evaluator approves nothing.\<close>

definition grants_nothing :: "'w turn_env \<Rightarrow> bool" where
  "grants_nothing env \<longleftrightarrow>
     (\<forall>t spec requirement args. te_tool env t = Some (spec, requirement) \<longrightarrow> requirement args \<noteq> Never)
   \<and> (\<forall>arq w. case te_evaluate env arq w of (Inr (Some (Approved at_time who scope src)), w') \<Rightarrow> False | _ \<Rightarrow> True)"

definition swap_tools ::
  "(string \<Rightarrow> string \<Rightarrow> json \<Rightarrow> 'w \<Rightarrow> tool_result_envelope result \<times> 'w)
    \<Rightarrow> (string \<Rightarrow> string \<Rightarrow> json \<Rightarrow> 'w \<Rightarrow> tool_result_envelope option result \<times> 'w) \<Rightarrow> 'w turn_env \<Rightarrow> 'w turn_env" where
  "swap_tools ex racing env = env\<lparr>te_execute := ex, te_execute_racing := racing\<rparr>"

lemma swap_tools_sel [simp]:
  "te_signal (swap_tools ex racing env) = te_signal env" "te_interrupted (swap_tools ex racing env) = te_interrupted env"
  "te_stamp (swap_tools ex racing env) = te_stamp env" "te_now (swap_tools ex racing env) = te_now env"
  "te_elapsed (swap_tools ex racing env) = te_elapsed env" "te_provider_id (swap_tools ex racing env) = te_provider_id env"
  "te_stream (swap_tools ex racing env) = te_stream env" "te_summary (swap_tools ex racing env) = te_summary env"
  "te_parse_json (swap_tools ex racing env) = te_parse_json env" "te_llm_started (swap_tools ex racing env) = te_llm_started env"
  "te_chunk (swap_tools ex racing env) = te_chunk env" "te_llm_finished (swap_tools ex racing env) = te_llm_finished env"
  "te_tool (swap_tools ex racing env) = te_tool env" "te_evaluate (swap_tools ex racing env) = te_evaluate env"
  "te_tool_requested (swap_tools ex racing env) = te_tool_requested env"
  "te_approval_requested (swap_tools ex racing env) = te_approval_requested env"
  "te_approval_resolved (swap_tools ex racing env) = te_approval_resolved env"
  "te_execution_finished (swap_tools ex racing env) = te_execution_finished env"
  by (simp_all add: swap_tools_def)

lemma swap_tools_ops [simp]:
  "is_cancelled (swap_tools ex racing env) = is_cancelled env"
  "poll_interrupted (swap_tools ex racing env) = poll_interrupted env"
  "finish_llm_call (swap_tools ex racing env) = finish_llm_call env"
  "accept_response (swap_tools ex racing env) = accept_response env"
  "observe_tool_lifecycle_failure (swap_tools ex racing env) = observe_tool_lifecycle_failure env"
  "approval_outcome_of (swap_tools ex racing env) = approval_outcome_of env"
  by (simp_all add: fun_eq_iff is_cancelled_def poll_interrupted_def finish_llm_call_def accept_response_def
      observe_tool_lifecycle_failure_def approval_outcome_of_def Let_def
      cong: option.case_cong if_cong)

lemma swap_tools_items [simp]: "collect_items (swap_tools ex racing env) n items st = collect_items env n items st"
proof (induction items arbitrary: st)
  case (Cons item items)
  then have "collect_items (swap_tools ex racing env) n items = collect_items env n items" by blast
  then show ?case by (simp cong: if_cong)
qed simp

lemma swap_tools_response [simp]:
  "collect_response (swap_tools ex racing env) = collect_response env"
  by (intro ext) (unfold collect_response_def swap_tools_items swap_tools_sel, rule refl)

lemma swap_tools_observe [simp]: "or_observe (swap_tools ex racing env) = or_observe env"
  by (intro ext) (unfold or_observe_def swap_tools_ops, rule refl)

lemma swap_tools_await [simp]: "await_response (swap_tools ex racing env) = await_response env"
  by (intro ext) (unfold await_response_def swap_tools_ops swap_tools_response swap_tools_sel, rule refl)

lemma swap_tools_record [simp]: "record_tool_outcome (swap_tools ex racing env) = record_tool_outcome env"
  by (intro ext) (unfold record_tool_outcome_def swap_tools_ops swap_tools_sel, rule refl)

lemma grants_nothing_outcome:
  assumes "grants_nothing env" "requirement \<noteq> Never"
  shows "triple (\<lambda>_. True) (or_observe env c (approval_outcome_of env c requirement metadata))
    (\<lambda>out _. case out of NotNeeded \<Rightarrow> False | OutcomeApproved _ _ \<Rightarrow> False | _ \<Rightarrow> True) (\<lambda>_. True)"
proof -
  have e: "triple (\<lambda>_. True) (te_evaluate env arq)
     (\<lambda>d _. case d of Some (Approved at_time who scope src) \<Rightarrow> False | _ \<Rightarrow> True) (\<lambda>_. True)" for arq
    using assms(1) unfolding grants_nothing_def triple_def
    by (auto split: sum.splits prod.splits option.splits approval_decision.splits)
  have "triple (\<lambda>_. True) (approval_outcome_of env c requirement metadata)
    (\<lambda>out _. case out of NotNeeded \<Rightarrow> False | OutcomeApproved _ _ \<Rightarrow> False | _ \<Rightarrow> True) (\<lambda>_. True)"
    using assms(2)
    by (auto simp: approval_outcome_of_def Let_def intro!: triple_bind [OF triple_any] triple_bind [OF e] triple_return
      split: option.splits approval_decision.splits)
  then show ?thesis
    by (rule or_observe_triple [where W = "\<lambda>_ _. True", OF observes_trivial])
qed

lemma settle_without_grant:
  assumes "grants_nothing env" "requirement \<noteq> Never"
  shows "settle_and_run (swap_tools ex racing env) root c spec requirement st =
    settle_and_run env root c spec requirement st"
  unfolding settle_and_run_def swap_tools_ops swap_tools_observe swap_tools_record
    swap_tools_sel
  by (rule bind_cong_triple, rule triple_weaken [OF grants_nothing_outcome [OF assms]])
    (auto split: approval_outcome.splits)

lemma process_without_grant:
  assumes "grants_nothing env"
  shows "process_tool_call (swap_tools ex racing env) = process_tool_call env"
proof (intro ext)
  fix rq :: turn_request and call st w
  let ?c = "parse_tool_call (tq_session_id rq) call"
  show "process_tool_call (swap_tools ex racing env) rq call st w = process_tool_call env rq call st w"
  proof (cases "te_tool env (pc_tool_name ?c)")
    case None
    show ?thesis unfolding process_tool_call_def Let_def swap_tools_sel None ok_or_simps bind_lift ..
  next
    case (Some tool)
    with assms have "snd tool args \<noteq> Never" for args
      by (cases tool) (auto simp: grants_nothing_def)
    note eq = settle_without_grant [OF assms this]
    show ?thesis
      unfolding process_tool_call_def Let_def swap_tools_sel swap_tools_ops Some ok_or_simps bind_lift eq ..
  qed
qed

lemma calls_without_grant:
  assumes "grants_nothing env"
  shows "process_tool_calls (swap_tools ex racing env) rq calls = process_tool_calls env rq calls"
proof (induction calls)
  case (Cons call calls)
  show ?case by (rule ext) (simp only: process_tool_calls.simps process_without_grant [OF assms] Cons.IH)
qed (rule ext, simp)

lemma iteration_without_grant:
  assumes "grants_nothing env"
  shows "turn_iteration (swap_tools ex racing env) = turn_iteration env"
  by (intro ext) (unfold turn_iteration_def handle_response_def swap_tools_ops swap_tools_await swap_tools_sel
    calls_without_grant [OF assms], rule refl)

text \<open>C25: a tool that needs approval never runs without one. When nothing is approved and no tool is
  free of approval, replacing the code of every tool changes nothing about a turn: its result, its
  errors and the final world are the same.\<close>

theorem unapproved_tools_never_run:
  assumes "grants_nothing env"
  shows "run_turn k (swap_tools ex racing env) rq w = run_turn k env rq w"
proof -
  have "turn_loop k (swap_tools ex racing env) rq st w = turn_loop k env rq st w" for st
    by (induction k arbitrary: st w) (simp_all add: iteration_without_grant [OF assms] cong: sum.case_cong turn_flow.case_cong)
  then show ?thesis by (simp add: run_turn_def)
qed

theorem unapproved_tools_never_run_witness:
  "run_turn 2 (swap_tools (\<lambda>_ _ _. Pair (Inl (Tool ''ran''))) (\<lambda>_ _ _. Pair (Inl (Tool ''ran''))) (demo_env Always None))
     demo_request ([], demo_responses) = demo_turn Always None
   \<and> map_option tu_finish_reason (result_of_run (demo_turn Always None)) = Some FrToolUse"
proof
  have "grants_nothing (demo_env Always None)"
    by (auto simp: grants_nothing_def demo_env_def split: if_splits)
  from unapproved_tools_never_run [OF this]
  show "run_turn 2 (swap_tools (\<lambda>_ _ _. Pair (Inl (Tool ''ran''))) (\<lambda>_ _ _. Pair (Inl (Tool ''ran''))) (demo_env Always None))
     demo_request ([], demo_responses) = demo_turn Always None"
    by (simp add: demo_turn_def)
  show "map_option tu_finish_reason (result_of_run (demo_turn Always None)) = Some FrToolUse" by code_simp
qed

subsection \<open>Termination\<close>

text \<open>The provider asks for tools in at most \<open>mu\<close> further responses: no action raises \<open>mu\<close>, and a
  response that opens a tool call lowers it.\<close>

definition item_opens_call :: "completion_chunk result \<Rightarrow> bool" where
  "item_opens_call item =
     (case item of Inl e \<Rightarrow> False
      | Inr ck \<Rightarrow> list_ex (\<lambda>d. case d of OpenToolCall c t args \<Rightarrow> True | _ \<Rightarrow> False) (ck_deltas ck))"

definition bounded_tool_use :: "'w turn_env \<Rightarrow> ('w \<Rightarrow> nat) \<Rightarrow> bool" where
  "bounded_tool_use env mu \<longleftrightarrow>
     (\<forall>b. observes env (\<lambda>_ w. mu w \<le> b) (\<lambda>w. mu w \<le> b))
   \<and> (\<forall>rq w. case te_stream env rq w of
        (Inr items, w') \<Rightarrow> list_ex item_opens_call items \<longrightarrow> mu w' < mu w | _ \<Rightarrow> True)"

definition no_tool_state :: "response_state \<Rightarrow> bool" where
  "no_tool_state st \<longleftrightarrow> ra_tool_calls st = [] \<and> ra_open_tool_calls st = []"

lemma apply_delta_no_tools:
  "apply_delta pj d st = Inr st' \<Longrightarrow> no_tool_state st
    \<Longrightarrow> \<not> (case d of OpenToolCall c t args \<Rightarrow> True | _ \<Rightarrow> False) \<Longrightarrow> no_tool_state st'"
  by (cases d) (auto simp: no_tool_state_def push_assistant_part_def and_then_eq_Inr
    append_tool_call_arguments_def close_tool_call_def)

lemma apply_deltas_no_tools:
  "apply_deltas pj ds st = Inr st' \<Longrightarrow> no_tool_state st
    \<Longrightarrow> \<not> list_ex (\<lambda>d. case d of OpenToolCall c t args \<Rightarrow> True | _ \<Rightarrow> False) ds \<Longrightarrow> no_tool_state st'"
  by (induction ds arbitrary: st) (auto simp: and_then_eq_Inr dest: apply_delta_no_tools)

lemma collect_items_no_tools:
  "no_tool_state st \<Longrightarrow> \<not> list_ex item_opens_call items
    \<Longrightarrow> triple (\<lambda>_. True) (collect_items env n items st)
      (\<lambda>r _. case r of None \<Rightarrow> True | Some st \<Rightarrow> no_tool_state st) (\<lambda>_. True)"
proof (induction items arbitrary: st)
  case Nil
  then show ?case by (auto intro!: triple_bind [OF triple_any] triple_return)
next
  case (Cons item items)
  have item: "triple (\<lambda>_. True) (act_lift item)
     (\<lambda>ck _. True \<and> \<not> list_ex (\<lambda>d. case d of OpenToolCall c t args \<Rightarrow> True | _ \<Rightarrow> False) (ck_deltas ck)) (\<lambda>_. True)"
    using Cons.prems(2) by (auto intro!: triple_lift simp: item_opens_call_def)
  have deltas: "triple (\<lambda>_. True) (act_lift (apply_deltas pj ds (note_chunk ck st))) (\<lambda>s _. True \<and> no_tool_state s) (\<lambda>_. True)"
    if "\<not> list_ex (\<lambda>d. case d of OpenToolCall c t args \<Rightarrow> True | _ \<Rightarrow> False) ds" for pj ds ck
    using Cons.prems(1) that apply_deltas_no_tools [of pj ds "note_chunk ck st"]
    by (intro triple_lift) (auto simp: no_tool_state_def note_chunk_def)
  have rest: "triple (\<lambda>_. True) (collect_items env n items s)
     (\<lambda>r _. case r of None \<Rightarrow> True | Some st \<Rightarrow> no_tool_state st) (\<lambda>_. True)" if "no_tool_state s" for s
    using Cons.IH [OF that] Cons.prems(2) by simp
  have "triple (\<lambda>_. True) (act_bind (act_lift item) (\<lambda>chunk. let chunk = chunk\<lparr>ck_llm_call_ordinal := Some n\<rparr> in
     act_bind (te_chunk env chunk) (\<lambda>_.
     act_bind (act_lift (apply_deltas (te_parse_json env) (ck_deltas chunk) (note_chunk chunk st)))
       (collect_items env n items))))
     (\<lambda>r _. case r of None \<Rightarrow> True | Some st \<Rightarrow> no_tool_state st) (\<lambda>_. True)"
    unfolding Let_def
    by (rule triple_bind [OF item], rule triple_assume, rule triple_bind [OF triple_any], rule triple_bind [OF deltas])
      (simp, rule triple_assume, rule rest)
  then show ?case
    unfolding collect_items.simps by (intro triple_bind [OF triple_any]) (auto intro!: triple_return)
qed

lemma collect_response_no_tools:
  assumes "\<not> list_ex item_opens_call items"
  shows "triple (\<lambda>_. True) (collect_response env n items)
    (\<lambda>r _. case r of None \<Rightarrow> True | Some r \<Rightarrow> cr_tool_calls r = []) (\<lambda>_. True)"
proof -
  have "no_tool_state empty_response" by (simp add: no_tool_state_def empty_response_def)
  note items = collect_items_no_tools [OF this assms]
  have "triple (\<lambda>w. case st of None \<Rightarrow> True | Some st \<Rightarrow> no_tool_state st)
     (case st of None \<Rightarrow> act_return None
      | Some st \<Rightarrow> act_lift (and_then (finish_response (te_parse_json env) st) (\<lambda>r. Inr (Some r))))
     (\<lambda>r _. case r of None \<Rightarrow> True | Some r \<Rightarrow> cr_tool_calls r = []) (\<lambda>_. True)" for st
    by (cases st)
      (auto simp: triple_def act_return_def act_lift_def no_tool_state_def finish_response_def and_then_def Let_def
        split: sum.splits)
  then show ?thesis unfolding collect_response_def by (rule triple_bind [OF items])
qed

lemma neutral_noninc:
  "(\<And>b. neutral (\<lambda>_ w. mu w \<le> b) m) \<Longrightarrow> m w = (x, w') \<Longrightarrow> (mu w' :: nat) \<le> mu w"
proof -
  assume "\<And>b. neutral (\<lambda>_ w. mu w \<le> b) m" "m w = (x, w')"
  from triple_Inr [OF neutralD [OF this(1), of "mu w"], of w _ w']
    triple_Inl [OF neutralD [OF this(1), of "mu w"], of w _ w'] this(2)
  show ?thesis by (cases x) auto
qed

lemma await_response_descends:
  assumes mu: "bounded_tool_use env mu"
    and await: "await_response env rq n w = (Inr (Some r), w')" and calls: "cr_tool_calls r \<noteq> []"
  shows "mu w' < mu w"
proof -
  have obs: "observes env (\<lambda>_ w. mu w \<le> b) (\<lambda>w. mu w \<le> b)" for b using mu by (simp add: bounded_tool_use_def)
  note o = observesD [OF obs]
  let ?m = "act_bind (poll_interrupted env) (\<lambda>stop. if stop then act_return None
     else act_bind (te_stream env rq) (collect_response env n))"
  obtain x w3 where x: "?m w = (x, w3)" by fastforce
  with await have x3: "x = Inr (Some r)" "\<exists>stop. is_cancelled env w3 = (Inr stop, w')"
    by (auto simp: await_response_def act_bind_eq split: sum.splits option.splits if_splits)
  with x obtain w1 where w1: "poll_interrupted env w = (Inr False, w1)"
    and rest: "act_bind (te_stream env rq) (collect_response env n) w1 = (Inr (Some r), w3)"
    by (auto simp: act_bind_eq split: if_splits)
  from rest obtain items w2 where w2: "te_stream env rq w1 = (Inr items, w2)"
    and collect: "collect_response env n items w2 = (Inr (Some r), w3)" by (auto simp: act_bind_eq)
  have "list_ex item_opens_call items"
    using triple_Inr [OF collect_response_no_tools [of items env n], of w2 "Some r" w3] collect calls by auto
  with mu w2 have "mu w2 < mu w1"
    unfolding bounded_tool_use_def by (metis (mono_tags, lifting) case_prod_conv sum.case(2))
  moreover have "mu w1 \<le> mu w" by (rule neutral_noninc [OF o(2) w1])
  moreover have "mu w3 \<le> mu w2"
  proof -
    have "neutral (\<lambda>_ w. mu w \<le> b) (collect_response env n items)" for b
      unfolding collect_response_def
      by (rule neutral_bind [OF neutral_collect_items [OF obs]])
        (auto intro: neutral_return neutral_lift split: option.splits)
    from neutral_noninc [OF this collect] show ?thesis .
  qed
  moreover from x3(2) neutral_noninc [OF o(1)] have "mu w' \<le> mu w3" by blast
  ultimately show ?thesis by linarith
qed

lemma handle_response_goes_on:
  "handle_response env rq request n response st w = (Inr (TurnGoesOn st'), w')
    \<Longrightarrow> \<exists>r. response = Some r \<and> cr_tool_calls r \<noteq> []"
  by (cases response) (auto simp: handle_response_def act_bind_eq split: if_splits)

lemma iteration_descends:
  assumes mu: "bounded_tool_use env mu" and echo: "tools_echo env" and st: "locals_ok ctx st"
    and it: "turn_iteration env rq st w = (Inr (TurnGoesOn st'), w')"
  shows "mu w' < mu w \<and> locals_ok ctx st'"
proof -
  have obs: "observes env (\<lambda>_ w. mu w \<le> b) (\<lambda>w. mu w \<le> b)" for b using mu by (simp add: bounded_tool_use_def)
  note o = observesD [OF obs]
  let ?rq = "(tq_request rq)\<lparr>cq_messages := tl_context st\<rparr>"
  let ?n = "tl_llm_call_ordinal st + 1"
  from it obtain w1 s w2 u response w3 where
    w1: "is_cancelled env w = (Inr False, w1)" and w2: "te_llm_started env s w1 = (Inr u, w2)"
    and w3: "await_response env ?rq ?n w2 = (Inr response, w3)"
    and h: "handle_response env rq ?rq ?n response st w3 = (Inr (TurnGoesOn st'), w')"
    by (auto simp: turn_iteration_def Let_def act_bind_eq split: if_splits)
  obtain r where r: "response = Some r" "cr_tool_calls r \<noteq> []" using handle_response_goes_on [OF h] by blast
  have "mu w1 \<le> mu w" "mu w2 \<le> mu w1"
    by (rule neutral_noninc [OF o(1) w1], rule neutral_noninc [OF o(7) w2])
  moreover have "mu w3 < mu w2" by (rule await_response_descends [OF mu w3 [unfolded r] r(2)])
  moreover have "response_ok response"
    using triple_Inr [OF await_response_triple [OF obs], OF w3] by blast
  from triple_Inr [OF handle_response_triple [OF obs echo st this] h, of "mu w3"]
  have "mu w' \<le> mu w3 \<and> locals_ok ctx st'" by (simp add: flow_ok_def)
  ultimately show ?thesis by linarith
qed

lemma turn_loop_returns:
  assumes "bounded_tool_use env mu" "tools_echo env"
  shows "locals_ok ctx st \<Longrightarrow> mu w < k \<Longrightarrow> turn_loop k env rq st w \<noteq> None"
proof (induction k arbitrary: st w)
  case (Suc k)
  show ?case
  proof (cases "\<exists>st' w'. turn_iteration env rq st w = (Inr (TurnGoesOn st'), w')")
    case True
    then obtain st' w' where it: "turn_iteration env rq st w = (Inr (TurnGoesOn st'), w')" by blast
    from iteration_descends [OF assms Suc.prems(1) it] Suc.prems(2)
    have "mu w' < k" "locals_ok ctx st'" by auto
    from Suc.IH [OF this(2,1)] it show ?thesis by simp
  next
    case False
    obtain f w' where f: "turn_iteration env rq st w = (f, w')" by fastforce
    with False show ?thesis by (auto split: sum.splits turn_flow.splits)
  qed
qed simp

text \<open>C26: the loop has no bound of its own on the number of model calls; it returns because the model stops
  asking for tools. If at most \<open>mu\<close> further responses open a tool call, the turn returns after at
  most \<open>mu + 1\<close> calls, with a result or an error.\<close>

theorem turn_returns:
  assumes "bounded_tool_use env mu" and "tools_echo env"
  shows "\<exists>res w'. run_turn (Suc (mu w)) env rq w = Some (res, w')"
  using turn_loop_returns [OF assms initial_locals_ok [of rq], of w "Suc (mu w)" rq]
  by (auto simp: run_turn_def)

definition tool_responses_left :: "demo_world \<Rightarrow> nat" where
  "tool_responses_left w = length (filter (list_ex item_opens_call) (snd w))"

lemma demo_bounded: "bounded_tool_use (demo_env requirement decision) tool_responses_left"
proof -
  have "observes (demo_env requirement decision) (\<lambda>_ w. tool_responses_left w \<le> b) (\<lambda>w. tool_responses_left w \<le> b)" for b
    by (auto simp: observes_def neutral_def triple_def demo_env_def is_cancelled_def poll_interrupted_def
        act_return_def act_read_def tool_responses_left_def ok_or_def split: list.splits option.splits if_splits)
  moreover have "case te_stream (demo_env requirement decision) rq w of
      (Inr items, w') \<Rightarrow> list_ex item_opens_call items \<longrightarrow> tool_responses_left w' < tool_responses_left w
    | _ \<Rightarrow> True" for rq w
    by (auto simp: demo_env_def tool_responses_left_def split: list.splits prod.splits)
  ultimately show ?thesis unfolding bounded_tool_use_def by (intro conjI allI)
qed

theorem turn_returns_witness:
  "\<exists>res w'. run_turn 2 (demo_env Never None) demo_request ([], demo_responses) = Some (res, w')"
proof -
  have "Suc (tool_responses_left ([], demo_responses)) = 2" by code_simp
  with turn_returns [OF demo_bounded [of Never None] demo_echo, of "([], demo_responses)" demo_request]
  show ?thesis by simp
qed

end
