(* ===== verification/Bt_Net.thy ===== *)
theory Bt_Net
  imports Bt_Strings "HOL-Library.Word"
begin

section \<open>Addresses and the public-address filter\<close>

text \<open>
  \<open>parse_ip_literal\<close>, \<open>is_blocked_ip\<close> and its two tables of \<open>bt-tools/src/web.rs\<close>, with the part of
  \<open>std::net\<close> they use: the address types, their classifiers and \<open>FromStr\<close>. The filter is compared
  with a table of address blocks (\<open>ipv4_reserved_blocks\<close>), and it looks through every embedding of a
  version 4 address that the code knows.
\<close>

unbundle bit_operations_syntax

type_synonym u8 = "8 word"
type_synonym u16 = "16 word"

datatype ipv4_addr = Ipv4 (v4a: u8) (v4b: u8) (v4c: u8) (v4d: u8)

text \<open>Eight segments, the first the most significant.\<close>

datatype ipv6_addr = Ipv6 u16 u16 u16 u16 u16 u16 u16 u16

datatype ip_addr = V4 ipv4_addr | V6 ipv6_addr

fun segments :: "ipv6_addr \<Rightarrow> u16 list" where
  "segments (Ipv6 s0 s1 s2 s3 s4 s5 s6 s7) = [s0, s1, s2, s3, s4, s5, s6, s7]"

definition high_octet :: "u16 \<Rightarrow> u8" where
  "high_octet s = ucast (drop_bit 8 s)"

definition low_octet :: "u16 \<Rightarrow> u8" where
  "low_octet s = ucast s"

definition from_be_octets :: "u8 \<Rightarrow> u8 \<Rightarrow> u16" where
  "from_be_octets hi lo = push_bit 8 (ucast hi) OR ucast lo"

definition u128_value :: "ipv6_addr \<Rightarrow> 128 word" where
  "u128_value ip = foldl (\<lambda>v s. push_bit 16 v OR ucast s) 0 (segments ip)"

fun to_ipv4_mapped :: "ipv6_addr \<Rightarrow> ipv4_addr option" where
  "to_ipv4_mapped (Ipv6 s0 s1 s2 s3 s4 s5 s6 s7) =
     (if [s0, s1, s2, s3, s4, s5] = [0, 0, 0, 0, 0, 0xffff]
      then Some (Ipv4 (high_octet s6) (low_octet s6) (high_octet s7) (low_octet s7)) else None)"

subsection \<open>\<open>std::net\<close> parsing\<close>

definition digit_value :: "nat \<Rightarrow> char \<Rightarrow> nat option" where
  "digit_value radix c =
     (let b = byte_of c;
          v = (if 48 \<le> b \<and> b \<le> 57 then b - 48
               else if 97 \<le> b \<and> b \<le> 122 then b - 87
               else if 65 \<le> b \<and> b \<le> 90 then b - 55 else radix)
      in if v < radix then Some v else None)"

text \<open>\<open>read_number\<close>: at most \<open>max_digits\<close> digits, the value below \<open>bound\<close>.\<close>

definition read_number :: "nat \<Rightarrow> nat \<Rightarrow> bool \<Rightarrow> nat \<Rightarrow> string \<Rightarrow> (nat \<times> string) option" where
  "read_number radix max_digits allow_zero_prefix bound s =
     (let ds = takeWhile (\<lambda>c. digit_value radix c \<noteq> None) s;
          v = foldl (\<lambda>acc c. acc * radix + the (digit_value radix c)) 0 ds
      in if length ds > max_digits \<or> ds = [] then None
         else if \<not> allow_zero_prefix \<and> hd ds = CHR ''0'' \<and> length ds > 1 then None
         else if v < bound then Some (v, drop (length ds) s) else None)"

definition read_separator ::
  "char \<Rightarrow> nat \<Rightarrow> (string \<Rightarrow> ('a \<times> string) option) \<Rightarrow> string \<Rightarrow> ('a \<times> string) option" where
  "read_separator sep i inner s =
     (if i = 0 then inner s
      else case s of [] \<Rightarrow> None | c # cs \<Rightarrow> if c = sep then inner cs else None)"

definition read_octet :: "nat \<Rightarrow> string \<Rightarrow> (nat \<times> string) option" where
  "read_octet i = read_separator CHR ''.'' i (read_number 10 3 False 256)"

definition read_ipv4 :: "string \<Rightarrow> (ipv4_addr \<times> string) option" where
  "read_ipv4 s =
     Option.bind (read_octet 0 s) (\<lambda>(a, s). Option.bind (read_octet 1 s) (\<lambda>(b, s).
     Option.bind (read_octet 2 s) (\<lambda>(c, s). Option.bind (read_octet 3 s) (\<lambda>(d, s).
       Some (Ipv4 (of_nat a) (of_nat b) (of_nat c) (of_nat d), s)))))"

text \<open>\<open>read_groups\<close>: up to \<open>limit\<close> groups, of which the last two may be a version 4 address. The
  result holds the groups read and whether they end in one; \<open>i\<close> groups have been read before.\<close>

function read_groups :: "nat \<Rightarrow> nat \<Rightarrow> string \<Rightarrow> u16 list \<times> bool \<times> string" where
  "read_groups limit i s =
     (if i \<ge> limit then ([], False, s)
      else (case (if i < limit - 1 then read_separator CHR '':'' i read_ipv4 s else None) of
        Some (v4, rest) \<Rightarrow>
          ([from_be_octets (v4a v4) (v4b v4), from_be_octets (v4c v4) (v4d v4)], True, rest)
      | None \<Rightarrow>
          (case read_separator CHR '':'' i (read_number 16 4 True 65536) s of
             None \<Rightarrow> ([], False, s)
           | Some (g, rest) \<Rightarrow>
               (case read_groups limit (Suc i) rest of (gs, v4, rest) \<Rightarrow> (of_nat g # gs, v4, rest)))))"
  by pat_completeness auto
termination by (relation "measure (\<lambda>(limit, i, s). limit - i)") auto

declare read_groups.simps [simp del]

definition ipv6_of_segments :: "u16 list \<Rightarrow> ipv6_addr option" where
  "ipv6_of_segments gs =
     (case gs of [s0, s1, s2, s3, s4, s5, s6, s7] \<Rightarrow> Some (Ipv6 s0 s1 s2 s3 s4 s5 s6 s7) | _ \<Rightarrow> None)"

definition read_ipv6 :: "string \<Rightarrow> (ipv6_addr \<times> string) option" where
  "read_ipv6 s =
     (case read_groups 8 0 s of (head, head_v4, rest) \<Rightarrow>
        if length head = 8 then map_option (\<lambda>ip. (ip, rest)) (ipv6_of_segments head)
        else if head_v4 then None
        else Option.bind (strip_prefix ''::'' rest) (\<lambda>rest.
          case read_groups (8 - (length head + 1)) 0 rest of (tail, _, rest) \<Rightarrow>
            map_option (\<lambda>ip. (ip, rest))
              (ipv6_of_segments (head @ replicate (8 - length head - length tail) 0 @ tail))))"

definition parse_ip :: "string \<Rightarrow> ip_addr option" where
  "parse_ip s =
     (case read_ipv4 s of
        Some (ip, rest) \<Rightarrow> if rest = [] then Some (V4 ip) else None
      | None \<Rightarrow> (case read_ipv6 s of
                  Some (ip, rest) \<Rightarrow> if rest = [] then Some (V6 ip) else None
                | None \<Rightarrow> None))"

definition strip_suffix :: "string \<Rightarrow> string \<Rightarrow> string option" where
  "strip_suffix q s = (if suffix q s then Some (take (length s - length q) s) else None)"

definition parse_ip_literal :: "string \<Rightarrow> ip_addr option" where
  "parse_ip_literal host =
     (case parse_ip host of Some ip \<Rightarrow> Some ip
      | None \<Rightarrow> Option.bind (Option.bind (strip_prefix ''['' host) (strip_suffix '']'')) parse_ip)"

subsection \<open>The filter\<close>

definition is_globally_routable_ipv4 :: "ipv4_addr \<Rightarrow> bool" where
  "is_globally_routable_ipv4 ip =
     (case ip of Ipv4 a b c d \<Rightarrow>
       \<not> (a = 0
        \<or> (a = 10 \<or> (a = 172 \<and> 16 \<le> b \<and> b \<le> 31) \<or> (a = 192 \<and> b = 168))
        \<or> (a = 100 \<and> b AND 0b11000000 = 0b01000000)
        \<or> a = 127
        \<or> (a = 169 \<and> b = 254)
        \<or> (a = 192 \<and> b = 0 \<and> c = 0 \<and> d \<noteq> 9 \<and> d \<noteq> 10)
        \<or> (a = 192 \<and> b = 0 \<and> c = 2)
        \<or> (a = 192 \<and> b = 88 \<and> c = 99)
        \<or> (a = 198 \<and> b = 51 \<and> c = 100)
        \<or> (a = 203 \<and> b = 0 \<and> c = 113)
        \<or> (a = 198 \<and> (b = 18 \<or> b = 19))
        \<or> (224 \<le> a \<and> a \<le> 239)
        \<or> a \<ge> 240))"

definition is_globally_routable_ipv6 :: "ipv6_addr \<Rightarrow> bool" where
  "is_globally_routable_ipv6 ip =
     (case ip of Ipv6 s0 s1 s2 s3 s4 s5 s6 s7 \<Rightarrow>
       let value = u128_value ip;
           ietf_protocol_assignment = (s0 = 0x2001 \<and> s1 < 0x0200);
           globally_routable_ietf_exception =
             (value = 0x20010001000000000000000000000001
              \<or> value = 0x20010001000000000000000000000002
              \<or> value = 0x20010001000000000000000000000003
              \<or> (s0 = 0x2001 \<and> s1 = 0x0003)
              \<or> (s0 = 0x2001 \<and> s1 = 0x0004 \<and> s2 = 0x0112)
              \<or> (s0 = 0x2001 \<and> 0x0020 \<le> s1 \<and> s1 \<le> 0x003f));
           documentation = ((s0 = 0x2001 \<and> s1 = 0x0db8) \<or> s0 AND 0xfff0 = 0x3ff0);
           deprecated_site_local = (s0 AND 0xffc0 = 0xfec0);
           nat64_embeds_non_public_ipv4 =
             ([s0, s1, s2, s3, s4, s5] = [0x0064, 0xff9b, 0, 0, 0, 0]
              \<and> \<not> is_globally_routable_ipv4 (Ipv4 (high_octet s6) (low_octet s6) (high_octet s7) (low_octet s7)));
           ipv6_dummy_prefix = ([s0, s1, s2, s3] = [0x0100, 0, 0, 1])
       in \<not> ([s0, s1, s2, s3, s4, s5, s6, s7] = [0, 0, 0, 0, 0, 0, 0, 0]
           \<or> [s0, s1, s2, s3, s4, s5, s6, s7] = [0, 0, 0, 0, 0, 0, 0, 1]
           \<or> [s0, s1, s2, s3, s4, s5] = [0, 0, 0, 0, 0, 0xffff]
           \<or> (s0 = 0x0064 \<and> s1 = 0xff9b \<and> s2 = 1)
           \<or> [s0, s1, s2, s3] = [0x0100, 0, 0, 0]
           \<or> ipv6_dummy_prefix
           \<or> nat64_embeds_non_public_ipv4
           \<or> (ietf_protocol_assignment \<and> \<not> globally_routable_ietf_exception)
           \<or> s0 = 0x2002
           \<or> documentation
           \<or> s0 = 0x5f00
           \<or> s0 AND 0xfe00 = 0xfc00
           \<or> s0 AND 0xffc0 = 0xfe80
           \<or> deprecated_site_local
           \<or> high_octet s0 = 0xff))"

fun is_blocked_ip :: "ip_addr \<Rightarrow> bool" where
  "is_blocked_ip (V4 ip) = (\<not> is_globally_routable_ipv4 ip)"
| "is_blocked_ip (V6 ip) =
     (case to_ipv4_mapped ip of
        Some mapped \<Rightarrow> \<not> is_globally_routable_ipv4 mapped
      | None \<Rightarrow> \<not> is_globally_routable_ipv6 ip)"

subsection \<open>Properties of the filter\<close>

text \<open>The address as a number, and the reserved blocks as network and prefix length.\<close>

fun ipv4_number :: "ipv4_addr \<Rightarrow> nat" where
  "ipv4_number (Ipv4 a b c d) = ((unat a * 256 + unat b) * 256 + unat c) * 256 + unat d"

definition dotted :: "nat \<Rightarrow> nat \<Rightarrow> nat \<Rightarrow> nat \<Rightarrow> nat" where
  "dotted a b c d = ((a * 256 + b) * 256 + c) * 256 + d"

definition in_block :: "nat \<Rightarrow> nat \<times> nat \<Rightarrow> bool" where
  "in_block n block = (case block of (net, len) \<Rightarrow> n div 2 ^ (32 - len) = net div 2 ^ (32 - len))"

definition ipv4_reserved_blocks :: "(nat \<times> nat) list" where
  "ipv4_reserved_blocks =
     [(dotted 0 0 0 0, 8), (dotted 10 0 0 0, 8), (dotted 100 64 0 0, 10), (dotted 127 0 0 0, 8),
      (dotted 169 254 0 0, 16), (dotted 172 16 0 0, 12), (dotted 192 0 0 0, 24), (dotted 192 0 2 0, 24),
      (dotted 192 88 99 0, 24), (dotted 192 168 0 0, 16), (dotted 198 18 0 0, 15), (dotted 198 51 100 0, 24),
      (dotted 203 0 113 0, 24), (dotted 224 0 0 0, 4), (dotted 240 0 0 0, 4)]"

lemma pair_eq:
  assumes "b < 256" "l < 256"
  shows "(a :: nat) * 256 + b = k * 256 + l \<longleftrightarrow> a = k \<and> b = l"
proof
  assume e: "a * 256 + b = k * 256 + l"
  have "a = (a * 256 + b) div 256" using assms by simp
  also have "\<dots> = k" unfolding e using assms by simp
  finally show "a = k \<and> b = l" using e by simp
qed simp

definition octet4 :: "nat \<Rightarrow> nat \<Rightarrow> nat \<Rightarrow> nat \<Rightarrow> bool" where
  "octet4 a b c d \<longleftrightarrow> a < 256 \<and> b < 256 \<and> c < 256 \<and> d < 256"

lemma div_low: "(d :: nat) < 256 \<Longrightarrow> (x * 256 + d) div 256 = x"
  by simp

lemma number_div:
  assumes "octet4 a b c d"
  shows "dotted a b c d div 256 = (a * 256 + b) * 256 + c"
    and "dotted a b c d div 65536 = a * 256 + b"
    and "dotted a b c d div 16777216 = a"
proof -
  have 1: "dotted a b c d div 256 = (a * 256 + b) * 256 + c"
    unfolding dotted_def by (rule div_low) (use assms in \<open>simp add: octet4_def\<close>)
  have "dotted a b c d div 65536 = dotted a b c d div 256 div 256" by (simp add: div_mult2_eq [symmetric])
  also have "\<dots> = a * 256 + b" unfolding 1 by (rule div_low) (use assms in \<open>simp add: octet4_def\<close>)
  finally have 2: "dotted a b c d div 65536 = a * 256 + b" .
  have "dotted a b c d div 16777216 = dotted a b c d div 65536 div 256" by (simp add: div_mult2_eq [symmetric])
  also have "\<dots> = a" unfolding 2 by (rule div_low) (use assms in \<open>simp add: octet4_def\<close>)
  finally have 3: "dotted a b c d div 16777216 = a" .
  show "dotted a b c d div 256 = (a * 256 + b) * 256 + c" "dotted a b c d div 65536 = a * 256 + b"
    "dotted a b c d div 16777216 = a" by (rule 1 2 3)+
qed

lemma number_div_finer:
  assumes "octet4 a b c d"
  shows "dotted a b c d div 131072 = (a * 256 + b) div 2"
    and "dotted a b c d div 1048576 = (a * 256 + b) div 16"
    and "dotted a b c d div 4194304 = (a * 256 + b) div 64"
    and "dotted a b c d div 268435456 = a div 16"
proof -
  have "dotted a b c d div 131072 = dotted a b c d div 65536 div 2"
    "dotted a b c d div 1048576 = dotted a b c d div 65536 div 16"
    "dotted a b c d div 4194304 = dotted a b c d div 65536 div 64"
    "dotted a b c d div 268435456 = dotted a b c d div 16777216 div 16"
    by (simp_all add: div_mult2_eq [symmetric])
  then show "dotted a b c d div 131072 = (a * 256 + b) div 2"
    "dotted a b c d div 1048576 = (a * 256 + b) div 16"
    "dotted a b c d div 4194304 = (a * 256 + b) div 64"
    "dotted a b c d div 268435456 = a div 16"
    by (simp_all only: number_div [OF assms])
qed

lemma block_8:
  "octet4 a b c d \<Longrightarrow> octet4 k 0 0 0 \<Longrightarrow> in_block (dotted a b c d) (dotted k 0 0 0, 8) \<longleftrightarrow> a = k"
  by (simp add: in_block_def number_div)

lemma block_16:
  "octet4 a b c d \<Longrightarrow> octet4 k l 0 0 \<Longrightarrow> in_block (dotted a b c d) (dotted k l 0 0, 16) \<longleftrightarrow> a = k \<and> b = l"
  by (simp add: in_block_def number_div) (simp only: octet4_def pair_eq)

lemma block_24:
  "octet4 a b c d \<Longrightarrow> octet4 k l m 0
    \<Longrightarrow> in_block (dotted a b c d) (dotted k l m 0, 24) \<longleftrightarrow> a = k \<and> b = l \<and> c = m"
  by (simp add: in_block_def number_div del: mult_numeral_left distrib_right_numeral)
    (simp only: octet4_def pair_eq conj_assoc)

lemma div_eq_between: "0 < k \<Longrightarrow> (n :: nat) div k = q \<longleftrightarrow> q * k \<le> n \<and> n < q * k + k"
  by (metis add.commute div_le_dividend div_less_iff_less_mult div_nat_eqI dividend_less_times_div
      less_mult_imp_div_less mult.commute mult_Suc_right order_refl times_div_less_eq_dividend)

lemma window:
  assumes "b < 256" "hi \<le> 256"
  shows "k * 256 + lo \<le> a * 256 + b \<and> a * 256 + b < k * 256 + hi \<longleftrightarrow> a = (k :: nat) \<and> lo \<le> b \<and> b < hi"
proof (cases a k rule: linorder_cases)
  case less
  then have "Suc a * 256 \<le> k * 256" by (intro mult_le_mono1) simp
  with less assms show ?thesis by simp
next
  case greater
  then have "Suc k * 256 \<le> a * 256" by (intro mult_le_mono1) simp
  with greater assms show ?thesis by simp
qed simp

lemma block_finer:
  assumes "octet4 a b c d"
  shows "in_block (dotted a b c d) (dotted 100 64 0 0, 10) \<longleftrightarrow> a = 100 \<and> 64 \<le> b \<and> b < 128"
    and "in_block (dotted a b c d) (dotted 172 16 0 0, 12) \<longleftrightarrow> a = 172 \<and> 16 \<le> b \<and> b < 32"
    and "in_block (dotted a b c d) (dotted 198 18 0 0, 15) \<longleftrightarrow> a = 198 \<and> 18 \<le> b \<and> b < 20"
    and "in_block (dotted a b c d) (dotted 224 0 0 0, 4) \<longleftrightarrow> 224 \<le> a \<and> a < 240"
    and "in_block (dotted a b c d) (dotted 240 0 0 0, 4) \<longleftrightarrow> 240 \<le> a"
proof -
  have b: "b < 256" "a < 256" using assms by (simp_all add: octet4_def)
  have "in_block (dotted a b c d) (dotted 100 64 0 0, 10) \<longleftrightarrow> (a * 256 + b) div 64 = 401"
    "in_block (dotted a b c d) (dotted 172 16 0 0, 12) \<longleftrightarrow> (a * 256 + b) div 16 = 2753"
    "in_block (dotted a b c d) (dotted 198 18 0 0, 15) \<longleftrightarrow> (a * 256 + b) div 2 = 25353"
    "in_block (dotted a b c d) (dotted 224 0 0 0, 4) \<longleftrightarrow> a div 16 = 14"
    "in_block (dotted a b c d) (dotted 240 0 0 0, 4) \<longleftrightarrow> a div 16 = 15"
    by (simp_all add: in_block_def number_div_finer [OF assms]) (simp_all add: dotted_def)
  moreover have "(a * 256 + b) div 64 = 401 \<longleftrightarrow> a = 100 \<and> 64 \<le> b \<and> b < 128"
    "(a * 256 + b) div 16 = 2753 \<longleftrightarrow> a = 172 \<and> 16 \<le> b \<and> b < 32"
    "(a * 256 + b) div 2 = 25353 \<longleftrightarrow> a = 198 \<and> 18 \<le> b \<and> b < 20"
    "a div 16 = 14 \<longleftrightarrow> 224 \<le> a \<and> a < 240" "a div 16 = 15 \<longleftrightarrow> 240 \<le> a"
    using window [OF b(1), of 128 100 64 a] window [OF b(1), of 32 172 16 a] window [OF b(1), of 20 198 18 a] b(2)
    by (simp_all add: div_eq_between [OF zero_less_numeral] linorder_not_less)
  ultimately show "in_block (dotted a b c d) (dotted 100 64 0 0, 10) \<longleftrightarrow> a = 100 \<and> 64 \<le> b \<and> b < 128"
    "in_block (dotted a b c d) (dotted 172 16 0 0, 12) \<longleftrightarrow> a = 172 \<and> 16 \<le> b \<and> b < 32"
    "in_block (dotted a b c d) (dotted 198 18 0 0, 15) \<longleftrightarrow> a = 198 \<and> 18 \<le> b \<and> b < 20"
    "in_block (dotted a b c d) (dotted 224 0 0 0, 4) \<longleftrightarrow> 224 \<le> a \<and> a < 240"
    "in_block (dotted a b c d) (dotted 240 0 0 0, 4) \<longleftrightarrow> 240 \<le> a"
    by simp_all
qed

lemma and_192: "(b :: u8) AND 192 = 64 \<longleftrightarrow> 64 \<le> unat b \<and> unat b < 128"
proof -
  have "unat b < 256" using unsigned_less [of b] by simp
  have "b AND 192 = 64 \<longleftrightarrow> bit b 6 \<and> \<not> bit b 7"
  proof
    assume e: "b AND 192 = 64"
    have "bit (b AND 192) 6 \<longleftrightarrow> bit b 6" "bit (b AND 192) 7 \<longleftrightarrow> bit b 7" by (simp_all add: bit_and_iff)
    then show "bit b 6 \<and> \<not> bit b 7" unfolding e by simp
  next
    assume bits: "bit b 6 \<and> \<not> bit b 7"
    show "b AND 192 = 64"
    proof (rule bit_word_eqI)
      fix n assume "n < LENGTH(8)"
      then have "n \<in> {0, 1, 2, 3, 4, 5, 6, 7}" by auto
      then show "bit (b AND 192) n \<longleftrightarrow> bit (64 :: u8) n"
        using bits by (elim insertE emptyE) (simp_all add: bit_and_iff)
    qed
  qed
  also have "\<dots> \<longleftrightarrow> odd (unat b div 64) \<and> even (unat b div 128)"
  proof -
    have "bit b 6 \<longleftrightarrow> bit (unat b) 6" "bit b 7 \<longleftrightarrow> bit (unat b) 7" by (simp_all add: bit_unsigned_iff)
    then show ?thesis by (simp only: bit_iff_odd [where 'a = nat]) simp
  qed
  also have "\<dots> \<longleftrightarrow> 64 \<le> unat b \<and> unat b < 128"
  proof -
    have "unat b div 128 = unat b div 64 div 2" "unat b div 64 < 4"
      using \<open>unat b < 256\<close> by (simp_all add: div_mult2_eq [symmetric] less_mult_imp_div_less)
    moreover have "odd x \<and> even (x div 2) \<longleftrightarrow> x = 1" if "x < 4" for x :: nat
    proof -
      from that consider "x = 0" | "x = 1" | "x = 2" | "x = 3" by linarith
      then show ?thesis by cases simp_all
    qed
    moreover have "unat b div 64 = 1 \<longleftrightarrow> 64 \<le> unat b \<and> unat b < 128"
      by (simp add: div_eq_between)
    ultimately show ?thesis by simp
  qed
  finally show ?thesis .
qed

text \<open>The filter for version 4 addresses is the table of reserved blocks: an address is public exactly
  when it lies in none of them, the two anycast exceptions of 192.0.0.0/24 apart.\<close>

theorem ipv4_filter_is_block_table:
  "is_globally_routable_ipv4 ip \<longleftrightarrow>
     ipv4_number ip \<in> {dotted 192 0 0 9, dotted 192 0 0 10}
     \<or> list_all (Not \<circ> in_block (ipv4_number ip)) ipv4_reserved_blocks"
proof (cases ip)
  case (Ipv4 a b c d)
  have o: "octet4 (unat a) (unat b) (unat c) (unat d)"
    using unsigned_less [of a] unsigned_less [of b] unsigned_less [of c] unsigned_less [of d]
    by (simp add: octet4_def)
  have n: "ipv4_number ip = dotted (unat a) (unat b) (unat c) (unat d)" by (simp add: Ipv4 dotted_def)
  have exc: "dotted (unat a) (unat b) (unat c) (unat d) = dotted 192 0 0 k \<longleftrightarrow>
      unat a = 192 \<and> unat b = 0 \<and> unat c = 0 \<and> unat d = k" if "k < 256" for k
    using o that unfolding dotted_def octet4_def by (subst pair_eq, simp_all only: pair_eq) auto
  have k: "octet4 k 0 0 0 \<longleftrightarrow> k < 256" "octet4 k l 0 0 \<longleftrightarrow> k < 256 \<and> l < 256"
    "octet4 k l m 0 \<longleftrightarrow> k < 256 \<and> l < 256 \<and> m < 256" for k l m by (simp_all add: octet4_def)
  have w: "a = n \<longleftrightarrow> unat a = unat n" "b = n \<longleftrightarrow> unat b = unat n" "c = n \<longleftrightarrow> unat c = unat n"
    "d = n \<longleftrightarrow> unat d = unat n" for n
    by (simp_all add: word_unat_eq_iff)
  have le: "x \<le> 31 \<longleftrightarrow> x < 32" "x \<le> 239 \<longleftrightarrow> x < 240" "18 \<le> x \<and> x < 20 \<longleftrightarrow> x = 18 \<or> x = 19" for x :: nat
    by auto
  show ?thesis
    unfolding n ipv4_reserved_blocks_def
    using o
    by (simp add: Ipv4 is_globally_routable_ipv4_def block_8 [OF o] block_16 [OF o] block_24 [OF o] block_finer [OF o] k exc and_192
        word_le_nat_alt w)
      (cases "unat a = 192"; cases "unat a = 198"; simp add: le; auto)
qed

lemma octets_of_pair [simp]: "high_octet (from_be_octets a b) = a" "low_octet (from_be_octets a b) = b"
proof -
  show "high_octet (from_be_octets a b) = a"
    by (rule bit_word_eqI) (auto simp: high_octet_def from_be_octets_def bit_simps dest: bit_imp_le_length)
  show "low_octet (from_be_octets a b) = b"
    by (rule bit_word_eqI) (auto simp: low_octet_def from_be_octets_def bit_simps)
qed

lemma u128_second_segment: "ucast (drop_bit 96 (u128_value (Ipv6 s0 s1 s2 s3 s4 s5 s6 s7))) = s1"
  by (rule bit_word_eqI) (auto simp: u128_value_def bit_simps dest: bit_imp_le_length)

text \<open>A version 4 address that is wrapped into a version 6 one does not get past the filter: the mapped
  form and the NAT64 form are blocked exactly when the address itself is, the 6to4 and Teredo forms always.\<close>

theorem embedded_ipv4_not_bypassed:
  "is_blocked_ip (V6 (Ipv6 0 0 0 0 0 0xffff (from_be_octets a b) (from_be_octets c d))) = is_blocked_ip (V4 (Ipv4 a b c d))
   \<and> is_blocked_ip (V6 (Ipv6 0x64 0xff9b 0 0 0 0 (from_be_octets a b) (from_be_octets c d))) = is_blocked_ip (V4 (Ipv4 a b c d))
   \<and> is_blocked_ip (V6 (Ipv6 0x2002 (from_be_octets a b) (from_be_octets c d) s3 s4 s5 s6 s7))
   \<and> is_blocked_ip (V6 (Ipv6 0x2001 0 s2 s3 s4 s5 (from_be_octets a b) (from_be_octets c d)))"
proof -
  have multicast: "high_octet 0x64 \<noteq> 0xff" by (simp add: high_octet_def)
  have teredo: "u128_value (Ipv6 0x2001 0 s2 s3 s4 s5 s6 s7) \<noteq> v" if "ucast (drop_bit 96 v) \<noteq> (0 :: u16)" for v s6 s7
    using that u128_second_segment by metis
  have "is_blocked_ip (V6 (Ipv6 0 0 0 0 0 0xffff (from_be_octets a b) (from_be_octets c d))) = is_blocked_ip (V4 (Ipv4 a b c d))"
    by simp
  moreover have "is_blocked_ip (V6 (Ipv6 0x64 0xff9b 0 0 0 0 (from_be_octets a b) (from_be_octets c d))) = is_blocked_ip (V4 (Ipv4 a b c d))"
    using multicast by (simp add: is_globally_routable_ipv6_def Let_def)
  moreover have "is_blocked_ip (V6 (Ipv6 0x2002 (from_be_octets a b) (from_be_octets c d) s3 s4 s5 s6 s7))"
    by (simp add: is_globally_routable_ipv6_def Let_def)
  moreover have "is_blocked_ip (V6 (Ipv6 0x2001 0 s2 s3 s4 s5 (from_be_octets a b) (from_be_octets c d)))"
    by (simp add: is_globally_routable_ipv6_def Let_def teredo)
  ultimately show ?thesis by blast
qed

end
