(* ===== verification/Bt_Utf8.thy ===== *)
theory Bt_Utf8
  imports Bt_Strings
begin

section \<open>Decoding bytes and searching text\<close>

text \<open>
  \<open>String::from_utf8_lossy\<close>, \<open>str::replace\<close>, \<open>str::find\<close> and \<open>str::split_whitespace\<close> of the standard library.
\<close>

text \<open>\<open>String::from_utf8_lossy\<close>: the well-formed prefix of the bytes is a character, or the longest
  prefix that could start one is replaced by U+FFFD. The step gives validity and length.\<close>

definition byte_in :: "nat \<Rightarrow> nat \<Rightarrow> string \<Rightarrow> nat \<Rightarrow> bool" where
  "byte_in lo hi s i \<longleftrightarrow> i < length s \<and> lo \<le> byte_of (s ! i) \<and> byte_of (s ! i) \<le> hi"

definition second_range :: "nat \<Rightarrow> nat \<times> nat" where
  "second_range b =
     (if b = 0xE0 then (0xA0, 0xBF) else if b = 0xED then (0x80, 0x9F)
      else if b = 0xF0 then (0x90, 0xBF) else if b = 0xF4 then (0x80, 0x8F) else (0x80, 0xBF))"

definition utf8_step :: "string \<Rightarrow> bool \<times> nat" where
  "utf8_step s =
     (let b = byte_of (hd s); width = (if b < 0x80 then 1 :: nat else if 0xC2 \<le> b \<and> b \<le> 0xDF then 2
            else if 0xE0 \<le> b \<and> b \<le> 0xEF then 3 else if 0xF0 \<le> b \<and> b \<le> 0xF4 then 4 else 0);
          second = (case second_range b of (lo, hi) \<Rightarrow> byte_in lo hi s 1)
      in if width = 0 then (False, 1)
         else if width = 1 then (True, 1)
         else if \<not> second then (False, 1)
         else if width = 2 then (True, 2)
         else if \<not> byte_in 0x80 0xBF s 2 then (False, 2)
         else if width = 3 then (True, 3)
         else if \<not> byte_in 0x80 0xBF s 3 then (False, 3)
         else (True, 4))"

lemma utf8_step_pos: "0 < snd (utf8_step x)"
  by (simp add: utf8_step_def Let_def)

definition replacement_char :: string where
  "replacement_char = map char_of [0xEF, 0xBF, 0xBD :: nat]"

function from_utf8_lossy :: "string \<Rightarrow> string" where
  "from_utf8_lossy s =
     (if s = [] then []
      else (if fst (utf8_step s) then take (snd (utf8_step s)) s else replacement_char)
           @ from_utf8_lossy (drop (snd (utf8_step s)) s))"
  by pat_completeness auto
termination
  by (relation "measure length") (auto intro: diff_less utf8_step_pos)

declare from_utf8_lossy.simps [simp del]

fun str_replace :: "string \<Rightarrow> string \<Rightarrow> nat \<Rightarrow> string \<Rightarrow> string" where
  "str_replace from to skip [] = []"
| "str_replace from to skip (c # s) =
     (if skip > 0 then str_replace from to (skip - 1) s
      else if prefix from (c # s) then to @ str_replace from to (length from - 1) s
      else c # str_replace from to 0 s)"

fun str_find :: "string \<Rightarrow> string \<Rightarrow> nat option" where
  "str_find needle [] = (if needle = [] then Some 0 else None)"
| "str_find needle (c # s) =
     (if prefix needle (c # s) then Some 0 else map_option Suc (str_find needle s))"

fun split_chars :: "string list \<Rightarrow> string list" where
  "split_chars [] = [[]]"
| "split_chars (c # cs) =
     (if is_whitespace c then [] # split_chars cs
      else case split_chars cs of [] \<Rightarrow> [c] | w # ws \<Rightarrow> (c @ w) # ws)"

definition split_whitespace :: "string \<Rightarrow> string list" where
  "split_whitespace s = filter (\<lambda>w. w \<noteq> []) (split_chars (utf8_chars s))"

subsection \<open>Facts\<close>

lemma byte_in_append: "byte_in lo hi p i \<Longrightarrow> byte_in lo hi (p @ q) i"
  by (simp add: byte_in_def nth_append)

text \<open>Bytes that decode without a replacement.\<close>

function valid_utf8 :: "string \<Rightarrow> bool" where
  "valid_utf8 s = (if s = [] then True else fst (utf8_step s) \<and> valid_utf8 (drop (snd (utf8_step s)) s))"
  by pat_completeness auto
termination
  by (relation "measure length") (auto intro: diff_less utf8_step_pos)

declare valid_utf8.simps [simp del]

lemma utf8_step_append:
  assumes "p \<noteq> []" "fst (utf8_step p)"
  shows "utf8_step (p @ q) = utf8_step p \<and> snd (utf8_step p) \<le> length p"
proof -
  have "hd (p @ q) = hd p" using assms(1) by simp
  with assms show ?thesis
    unfolding utf8_step_def Let_def
    by (auto simp: byte_in_append byte_in_def Suc_leI nth_append split: prod.splits if_splits)
qed

lemma lossy_append: "valid_utf8 p \<Longrightarrow> from_utf8_lossy (p @ q) = p @ from_utf8_lossy q"
proof (induction "length p" arbitrary: p rule: less_induct)
  case less
  show ?case
  proof (cases "p = []")
    case False
    let ?n = "snd (utf8_step p)"
    from less.prems False have v: "fst (utf8_step p)" "valid_utf8 (drop ?n p)"
      using valid_utf8.simps [of p] by auto
    note st = utf8_step_append [OF False v(1), of q]
    have "from_utf8_lossy (drop ?n p @ q) = drop ?n p @ from_utf8_lossy q"
      using less.hyps [of "drop ?n p"] v(2) False utf8_step_pos [of p] by simp
    then show ?thesis
      using st v(1) False by (subst from_utf8_lossy.simps) (simp flip: append_assoc)
  qed simp
qed

lemma lossy_valid: "valid_utf8 p \<Longrightarrow> from_utf8_lossy p = p"
  using lossy_append [of p "[]"] by (simp add: from_utf8_lossy.simps)

end
