(* ===== verification/Bt_WebFetch.thy ===== *)
theory Bt_WebFetch
  imports Bt_Actions Bt_Net Bt_Utf8 Bt_Fingerprint
begin

section \<open>Fetching a public URL\<close>

text \<open>
  The \<open>web_fetch\<close> tool of \<open>bt-tools/src/web.rs\<close> with \<open>truncate_text\<close> of \<open>bt-tools/src/text.rs\<close>: URL and
  address checks, redirects, the limited body, and the normalisation of the text. The \<open>url\<close> crate
  (\<open>Url::parse\<close>, \<open>join\<close>), the name server and the HTTP client are the fields of \<open>web_env\<close>. The timeout
  abandons the request where it waits: \<open>we_expired\<close> is asked before each wait. The \<open>sort_unstable\<close> of
  the resolved addresses is a sort by \<open>addr_key\<close>, which gives the order of \<open>SocketAddr\<close>.
\<close>

subsection \<open>Text\<close>

definition MAX_TOOL_RESULT_LINES :: nat where
  "MAX_TOOL_RESULT_LINES = 2000"

definition MAX_TOOL_RESULT_BYTES :: nat where
  "MAX_TOOL_RESULT_BYTES = 51200"

text \<open>\<open>None\<close> is the panic of \<open>String::truncate\<close> inside a character.\<close>

definition tool_truncate_text :: "string \<Rightarrow> nat \<Rightarrow> nat \<Rightarrow> string option" where
  "tool_truncate_text text_in max_lines max_bytes =
     (if length text_in \<le> max_bytes \<and> length (str_lines text_in) \<le> max_lines then Some text_in
      else
        let lines = str_lines text_in;
            keep_each_side = max (max_lines div 2) 1;
            head = take keep_each_side lines;
            tail = rev (take keep_each_side (rev lines));
            omitted_lines = length lines - (length head + length tail);
            out = join_with [nl] head @ [nl] @ ''---'' @ [nl]
              @ ''[... '' @ show_nat omitted_lines @ '' lines truncated, '' @ show_nat (length text_in) @ '' bytes total ...]''
              @ [nl] @ ''---'' @ [nl] @ join_with [nl] tail
        in if length out > max_bytes then str_truncate max_bytes out else Some out)"

definition collapse_whitespace :: "string \<Rightarrow> string" where
  "collapse_whitespace s = join_with '' '' (split_whitespace s)"

definition decode_basic_html_entities :: "string \<Rightarrow> string" where
  "decode_basic_html_entities s =
     str_replace ''&#39;'' [char_of (39 :: nat)] 0
       (str_replace ''&quot;'' [char_of (34 :: nat)] 0
         (str_replace ''&gt;'' ''>'' 0
           (str_replace ''&lt;'' ''<'' 0
             (str_replace ''&amp;'' ''&'' 0
               (str_replace ''&nbsp;'' '' '' 0 s)))))"

fun strip_tags :: "bool \<Rightarrow> string list \<Rightarrow> string" where
  "strip_tags in_tag [] = []"
| "strip_tags in_tag (ch # chs) =
     (if ch = ''<'' then CHR '' '' # strip_tags True chs
      else if ch = ''>'' then strip_tags False chs
      else if \<not> in_tag then ch @ strip_tags in_tag chs
      else strip_tags in_tag chs)"

definition html_to_text :: "string \<Rightarrow> string" where
  "html_to_text html = collapse_whitespace (decode_basic_html_entities (strip_tags False (utf8_chars html)))"

definition extract_html_title :: "string \<Rightarrow> string option" where
  "extract_html_title html =
     (let lower = to_ascii_lowercase html in
      Option.bind (str_find ''<title'' lower) (\<lambda>start_tag.
      Option.bind (str_find ''>'' (drop start_tag lower)) (\<lambda>close.
      let content_start = close + start_tag + 1 in
      Option.bind (str_find ''</title>'' (drop content_start lower)) (\<lambda>len.
      let title = collapse_whitespace (decode_basic_html_entities (take len (drop content_start html)))
      in if title = [] then None else Some title))))"

subsection \<open>Requests\<close>

record url =
  url_scheme :: string
  url_host_str :: "string option"
  url_port_or_known_default :: "u16 option"
  url_text :: string

record socket_addr =
  sa_ip :: ip_addr
  sa_port :: u16

record resolved_target =
  rt_host :: string
  rt_addrs :: "socket_addr list"
  rt_override_dns :: bool

text \<open>The status line, the headers that are read, and the body as it arrives.\<close>

record http_response =
  hr_url :: string
  hr_status :: nat
  hr_location :: "string result option"
  hr_content_type :: "string option"
  hr_chunks :: "string result list"

record 'w web_env =
  we_parse :: "string \<Rightarrow> string + url"
  we_join :: "url \<Rightarrow> string \<Rightarrow> string + url"
  we_resolve :: "string \<Rightarrow> u16 \<Rightarrow> 'w \<Rightarrow> (string + socket_addr list) \<times> 'w"
  we_get :: "resolved_target \<Rightarrow> url \<Rightarrow> 'w \<Rightarrow> http_response result \<times> 'w"
  we_expired :: "'w \<Rightarrow> bool \<times> 'w"
  we_show_ip :: "ip_addr \<Rightarrow> string"

definition validate_url_host_without_dns :: "'w web_env \<Rightarrow> url \<Rightarrow> unit result" where
  "validate_url_host_without_dns env u =
     and_then (ok_or (Tool ''URL must include a host'') (url_host_str u)) (\<lambda>host.
     and_then (guard_err (eq_ignore_ascii_case host ''localhost'' \<or> suffix ''.localhost'' host)
       (Tool ''web_fetch does not allow localhost URLs'')) (\<lambda>_.
     case parse_ip_literal host of
       Some ip \<Rightarrow> guard_err (is_blocked_ip ip)
         (Tool (''web_fetch blocked non-public address `'' @ we_show_ip env ip @ ''`''))
     | None \<Rightarrow> Inr ()))"

definition parse_public_http_url :: "'w web_env \<Rightarrow> string \<Rightarrow> url result" where
  "parse_public_http_url env s =
     (case we_parse env s of
        Inl e \<Rightarrow> Inl (Tool (''invalid URL `'' @ s @ ''`: '' @ e))
      | Inr u \<Rightarrow>
          and_then (guard_err (url_scheme u \<noteq> ''http'' \<and> url_scheme u \<noteq> ''https'')
            (Tool (''unsupported web_fetch URL scheme `'' @ url_scheme u @ ''`''))) (\<lambda>_.
          and_then (validate_url_host_without_dns env u) (\<lambda>_. Inr u)))"

definition addr_key :: "socket_addr \<Rightarrow> nat list" where
  "addr_key a =
     (case sa_ip a of
        V4 (Ipv4 a b c d) \<Rightarrow> [0, unat a, unat b, unat c, unat d]
      | V6 ip \<Rightarrow> 1 # map unat (segments ip)) @ [unat (sa_port a)]"

fun first_blocked :: "socket_addr list \<Rightarrow> ip_addr option" where
  "first_blocked [] = None"
| "first_blocked (a # as) = (if is_blocked_ip (sa_ip a) then Some (sa_ip a) else first_blocked as)"

text \<open>An action that is abandoned when the time is up.\<close>

definition or_expired :: "'w web_env \<Rightarrow> ('w, 'a) act \<Rightarrow> ('w, 'a) act" where
  "or_expired env m =
     act_bind (act_read (we_expired env)) (\<lambda>expired.
     if expired then act_lift (Inl (Tool ''web_fetch timed out after 30000 milliseconds'')) else m)"

definition resolve_public_target :: "'w web_env \<Rightarrow> url \<Rightarrow> ('w, resolved_target) act" where
  "resolve_public_target env u =
     act_bind (act_lift (validate_url_host_without_dns env u)) (\<lambda>_.
     act_bind (act_lift (ok_or (Tool ''URL must include a host'') (url_host_str u))) (\<lambda>host.
     let port = (case url_port_or_known_default u of Some p \<Rightarrow> p | None \<Rightarrow> 443) in
     case parse_ip_literal host of
       Some ip \<Rightarrow> act_return \<lparr>rt_host = host, rt_addrs = [\<lparr>sa_ip = ip, sa_port = port\<rparr>], rt_override_dns = False\<rparr>
     | None \<Rightarrow>
         act_bind (or_expired env (act_read (we_resolve env host port))) (\<lambda>r.
         case r of
           Inl e \<Rightarrow> act_lift (Inl (Tool (''failed to resolve web_fetch host `'' @ host @ ''`: '' @ e)))
         | Inr addrs \<Rightarrow>
             if addrs = [] then act_lift (Inl (Tool (''web_fetch host `'' @ host @ ''` resolved to no addresses'')))
             else (case first_blocked addrs of
               Some ip \<Rightarrow> act_lift (Inl (Tool (''web_fetch blocked non-public resolved address `'' @ we_show_ip env ip
                 @ ''` for host `'' @ host @ ''`'')))
             | None \<Rightarrow> act_return \<lparr>rt_host = host, rt_addrs = remdups_adj (sort_key addr_key addrs),
                 rt_override_dns = True\<rparr>))))"

text \<open>The addresses to which the client of \<open>pinned_client\<close> may connect for a URL: it follows no redirect and
  uses no proxy, connects to the address of an IP literal, and asks the name server at connection time,
  \<open>dns\<close>, unless the name is exactly the one that \<open>resolve_to_addrs\<close> overrides.\<close>

definition pinned_client_addrs :: "(string \<Rightarrow> ip_addr list) \<Rightarrow> resolved_target \<Rightarrow> url \<Rightarrow> ip_addr list" where
  "pinned_client_addrs dns t u =
     (case url_host_str u of
        None \<Rightarrow> []
      | Some host \<Rightarrow>
          (case parse_ip_literal host of
             Some ip \<Rightarrow> [ip]
           | None \<Rightarrow> if rt_override_dns t \<and> rt_host t = host then map sa_ip (rt_addrs t) else dns host))"

definition validated_redirect_url :: "'w web_env \<Rightarrow> url \<Rightarrow> string \<Rightarrow> url result" where
  "validated_redirect_url env current location =
     (case we_join env current location of
        Inl e \<Rightarrow> Inl (Tool (''invalid redirect location `'' @ location @ ''`: '' @ e))
      | Inr u \<Rightarrow> and_then (validate_url_host_without_dns env u) (\<lambda>_. Inr u))"

definition is_redirection :: "nat \<Rightarrow> bool" where
  "is_redirection status \<longleftrightarrow> 300 \<le> status \<and> status \<le> 399"

fun send_loop :: "nat \<Rightarrow> 'w web_env \<Rightarrow> url \<Rightarrow> ('w, http_response) act" where
  "send_loop 0 env current = act_lift (Inl (Tool ''too many redirects while fetching public URL''))"
| "send_loop (Suc n) env current =
     act_bind (resolve_public_target env current) (\<lambda>target.
     act_bind (or_expired env (we_get env target current)) (\<lambda>response.
     if \<not> is_redirection (hr_status response) then act_return response
     else case hr_location response of
       None \<Rightarrow> act_return response
     | Some location \<Rightarrow>
         act_bind (act_lift location) (\<lambda>location.
         act_bind (act_lift (validated_redirect_url env current location)) (send_loop n env))))"

definition send_with_safe_redirects :: "'w web_env \<Rightarrow> url \<Rightarrow> ('w, http_response) act" where
  "send_with_safe_redirects env u = send_loop 6 env u"

definition append_limited_bytes :: "string \<Rightarrow> string \<Rightarrow> nat \<Rightarrow> string \<times> bool" where
  "append_limited_bytes bytes chunk cap =
     (let remaining = cap - length bytes in
      if remaining = 0 then (bytes, True)
      else if length chunk > remaining then (bytes @ take remaining chunk, True)
      else (bytes @ chunk, False))"

fun read_chunks :: "'w web_env \<Rightarrow> nat \<Rightarrow> string result list \<Rightarrow> string \<Rightarrow> ('w, string \<times> bool) act" where
  "read_chunks env cap [] bytes = or_expired env (act_return (bytes, False))"
| "read_chunks env cap (c # cs) bytes =
     act_bind (or_expired env (act_lift c)) (\<lambda>chunk.
     case append_limited_bytes bytes chunk cap of (bytes, full) \<Rightarrow>
       if full then act_return (bytes, True) else read_chunks env cap cs bytes)"

definition read_response_body_limited :: "'w web_env \<Rightarrow> http_response \<Rightarrow> nat \<Rightarrow> ('w, string \<times> bool) act" where
  "read_response_body_limited env r max_bytes = read_chunks env (max max_bytes 1) (hr_chunks r) []"

datatype web_fetch_format = FfText | FfMarkdown | FfRaw

record web_fetch_response =
  wf_backend :: string
  wf_requested_url :: string
  wf_final_url :: string
  wf_status :: nat
  wf_content_type :: "string option"
  wf_title :: "string option"
  wf_format :: web_fetch_format
  wf_body :: string
  wf_bytes :: nat
  wf_truncated :: bool
  wf_content_digest :: string

definition parse_fetch_format :: "json option \<Rightarrow> web_fetch_format result" where
  "parse_fetch_format v =
     (let s = (case Option.bind v json_as_str of Some s \<Rightarrow> s | None \<Rightarrow> ''text'')
      in if s = ''text'' then Inr FfText else if s = ''markdown'' then Inr FfMarkdown
         else if s = ''raw'' then Inr FfRaw
         else Inl (Tool (''unsupported web_fetch format `'' @ s @ ''`'')))"

text \<open>The response that is built from the bytes; \<open>None\<close> is the panic in \<open>truncate_text\<close>.\<close>

definition build_fetch_response ::
  "url \<Rightarrow> web_fetch_format \<Rightarrow> nat \<Rightarrow> http_response \<Rightarrow> string \<Rightarrow> bool \<Rightarrow> web_fetch_response option" where
  "build_fetch_response requested format max_bytes r bytes truncated_by_bytes =
     (let raw_text = from_utf8_lossy bytes;
          title = Option.bind (hr_content_type r) (\<lambda>ct. if str_contains ''html'' ct then extract_html_title raw_text else None);
          normalized = (if format = FfMarkdown then html_to_text raw_text else raw_text)
      in map_option (\<lambda>body.
           \<lparr>wf_backend = ''direct_http'', wf_requested_url = url_text requested, wf_final_url = hr_url r,
            wf_status = hr_status r, wf_content_type = hr_content_type r, wf_title = title, wf_format = format,
            wf_body = body, wf_bytes = length bytes, wf_truncated = (truncated_by_bytes \<or> body \<noteq> normalized),
            wf_content_digest = stable_hash bytes\<rparr>)
         (tool_truncate_text normalized MAX_TOOL_RESULT_LINES max_bytes))"

definition fetch_direct ::
  "'w web_env \<Rightarrow> string \<Rightarrow> web_fetch_format \<Rightarrow> nat \<Rightarrow> ('w, web_fetch_response option) act" where
  "fetch_direct env u format max_bytes =
     act_bind (act_lift (parse_public_http_url env u)) (\<lambda>requested.
     act_bind (send_with_safe_redirects env requested) (\<lambda>response.
     act_bind (read_response_body_limited env response max_bytes) (\<lambda>(bytes, truncated).
     act_return (build_fetch_response requested format max_bytes response bytes truncated))))"

definition required_string :: "json \<Rightarrow> string \<Rightarrow> string result" where
  "required_string arguments key =
     ok_or (Tool (''missing string argument `'' @ key @ ''`'')) (Option.bind (json_get key arguments) json_as_str)"

end
