(* ===== verification/Bt_WebProps.thy ===== *)
theory Bt_WebProps
  imports Bt_WebFetch
begin

section \<open>What a fetch guarantees\<close>

text \<open>
  No request leaves for an address the filter blocks, a fetch makes at most six requests, the body kept
  is the first bytes of the one received; and where the text limit cuts a character, the tool panics.
\<close>

subsection \<open>Addresses\<close>

lemma first_blocked_None: "first_blocked as = None \<longleftrightarrow> list_all (\<lambda>a. \<not> is_blocked_ip (sa_ip a)) as"
  by (induction as) auto

text \<open>A request is public when every address its client may connect to passes the filter, whatever the name
  server answers at connection time.\<close>

definition public_request :: "(string \<Rightarrow> ip_addr list) \<Rightarrow> resolved_target \<Rightarrow> url \<Rightarrow> bool" where
  "public_request dns t u \<longleftrightarrow>
     pinned_client_addrs dns t u \<noteq> [] \<and> list_all (\<lambda>ip. \<not> is_blocked_ip ip) (pinned_client_addrs dns t u)"

lemma resolve_public:
  "triple (\<lambda>_. True) (resolve_public_target env u) (\<lambda>t _. True \<and> public_request dns t u) (\<lambda>_. True)"
proof (cases "\<exists>host. url_host_str u = Some host")
  case False
  then show ?thesis
    by (auto simp: resolve_public_target_def validate_url_host_without_dns_def act_bind_def act_lift_def triple_def)
next
  case True
  then obtain host where host: "url_host_str u = Some host" by blast
  show ?thesis
  proof (cases "parse_ip_literal host")
    case (Some ip)
    then show ?thesis
      using host
      by (auto simp: resolve_public_target_def validate_url_host_without_dns_def act_bind_def act_lift_def triple_def
          public_request_def pinned_client_addrs_def act_return_def Let_def guard_err_def and_then_def split: if_splits)
  next
    case None
    have pos: "sort_key addr_key addrs = [] \<longleftrightarrow> addrs = []" for addrs
      by (metis set_empty set_sort)
    have body: "triple (\<lambda>_. True)
       (case r of
           Inl e \<Rightarrow> act_lift (Inl (Tool (''failed to resolve web_fetch host `'' @ host @ ''`: '' @ e)))
         | Inr addrs \<Rightarrow>
             if addrs = [] then act_lift (Inl (Tool (''web_fetch host `'' @ host @ ''` resolved to no addresses'')))
             else (case first_blocked addrs of
               Some ip \<Rightarrow> act_lift (Inl (Tool (''web_fetch blocked non-public resolved address `'' @ we_show_ip env ip
                 @ ''` for host `'' @ host @ ''`'')))
             | None \<Rightarrow> act_return \<lparr>rt_host = host, rt_addrs = remdups_adj (sort_key addr_key addrs),
                 rt_override_dns = True\<rparr>)) (\<lambda>t _. True \<and> public_request dns t u) (\<lambda>_. True)" for r
      by (auto split: sum.splits option.splits intro!: triple_lift triple_return
          simp: public_request_def pinned_client_addrs_def host None first_blocked_None list_all_iff pos)
    show ?thesis
      unfolding resolve_public_target_def host ok_or_simps bind_lift Let_def None option.case
      by (intro triple_bind [OF triple_any] body)
  qed
qed

definition redirect_requests ::
  "(string \<Rightarrow> ip_addr list) \<Rightarrow> (resolved_target \<Rightarrow> url \<Rightarrow> 'w \<Rightarrow> http_response result \<times> 'w) \<Rightarrow> 'w web_env \<Rightarrow> 'w web_env" where
  "redirect_requests dns other env =
     env\<lparr>we_get := (\<lambda>t u. if public_request dns t u then we_get env t u else other t u)\<rparr>"

lemma redirect_requests_sel [simp]:
  "we_parse (redirect_requests dns other env) = we_parse env" "we_join (redirect_requests dns other env) = we_join env"
  "we_resolve (redirect_requests dns other env) = we_resolve env" "we_expired (redirect_requests dns other env) = we_expired env"
  "we_show_ip (redirect_requests dns other env) = we_show_ip env"
  "we_get (redirect_requests dns other env) = (\<lambda>t u. if public_request dns t u then we_get env t u else other t u)"
  by (simp_all add: redirect_requests_def)

lemma redirect_requests_validate [simp]:
  "validate_url_host_without_dns (redirect_requests dns other env) = validate_url_host_without_dns env"
  by (rule ext) (unfold validate_url_host_without_dns_def redirect_requests_sel, rule refl)

lemma redirect_requests_expired [simp]: "or_expired (redirect_requests dns other env) m = or_expired env m"
  by (unfold or_expired_def redirect_requests_sel, rule refl)

lemma redirect_requests_parse [simp]:
  "parse_public_http_url (redirect_requests dns other env) = parse_public_http_url env"
  by (rule ext) (unfold parse_public_http_url_def redirect_requests_sel redirect_requests_validate, rule refl)

lemma redirect_requests_ops [simp]:
  "validated_redirect_url (redirect_requests dns other env) u l = validated_redirect_url env u l"
  "resolve_public_target (redirect_requests dns other env) u = resolve_public_target env u"
  by (unfold validated_redirect_url_def resolve_public_target_def redirect_requests_sel redirect_requests_validate
      redirect_requests_expired, (rule refl)+)

lemma send_loop_public: "send_loop n (redirect_requests dns other env) u = send_loop n env u"
proof (induction n arbitrary: u)
  case (Suc n)
  then have IH: "send_loop n (redirect_requests dns other env) = send_loop n env" by blast
  show ?case
    unfolding send_loop.simps redirect_requests_ops redirect_requests_expired redirect_requests_sel IH
    by (rule bind_cong_triple, rule triple_weaken [OF resolve_public [where dns = dns]]) simp_all
qed simp

lemma read_chunks_env: "read_chunks (redirect_requests dns other env) cap cs bytes = read_chunks env cap cs bytes"
proof (induction cs arbitrary: bytes)
  case (Cons c cs)
  then have "read_chunks (redirect_requests dns other env) cap cs = read_chunks env cap cs" by blast
  then show ?case by (simp only: read_chunks.simps redirect_requests_expired)
qed simp

text \<open>C32: whatever a fetch is given, and wherever redirects and name servers lead it, it never sends a request
  for which its client could connect to an address that the filter blocks, also when the name server
  answers differently at connection time than when the name was checked (DNS rebinding): replacing what
  such requests would do changes nothing of the fetch.\<close>

theorem fetch_contacts_public_only:
  "fetch_direct (redirect_requests dns other env) u format max_bytes = fetch_direct env u format max_bytes"
  by (simp add: fetch_direct_def send_with_safe_redirects_def read_response_body_limited_def send_loop_public
      read_chunks_env)

subsection \<open>Number of requests\<close>

text \<open>\<open>sent\<close> reads off the world how many requests were sent.\<close>

definition counts_requests :: "'w web_env \<Rightarrow> ('w \<Rightarrow> nat) \<Rightarrow> bool" where
  "counts_requests env sent \<longleftrightarrow>
     (\<forall>t u w. sent (snd (we_get env t u w)) = Suc (sent w))
   \<and> (\<forall>h p w. sent (snd (we_resolve env h p w)) = sent w)
   \<and> (\<forall>w. sent (snd (we_expired env w)) = sent w)"

lemma keeps_or_expired: "counts_requests env sent \<Longrightarrow> keeps sent m \<Longrightarrow> keeps sent (or_expired env m)"
  unfolding or_expired_def
  by (auto intro!: keeps_bind keeps_read keeps_lift simp: counts_requests_def)

lemma keeps_resolve: "counts_requests env sent \<Longrightarrow> keeps sent (resolve_public_target env u)"
  unfolding resolve_public_target_def Let_def
  by (auto split: option.splits sum.splits simp: counts_requests_def
      intro!: keeps_bind keeps_return keeps_lift keeps_or_expired keeps_read)

lemma send_loop_count:
  assumes "counts_requests env sent"
  shows "sent (snd (send_loop n env u w)) \<le> sent w + n"
proof (induction n arbitrary: u w)
  case (Suc n)
  have bind: "sent (snd (act_bind m f w)) \<le> b"
    if "\<And>x w'. m w = (x, w') \<Longrightarrow> sent w' \<le> b" "\<And>a w'. m w = (Inr a, w') \<Longrightarrow> sent (snd (f a w')) \<le> b"
    for m :: "('a, 'x) act" and f :: "'x \<Rightarrow> ('a, 'y) act" and w b
    using that by (auto simp: act_bind_def split: sum.splits prod.splits)
  have res: "resolve_public_target env u w = (x, w1) \<Longrightarrow> sent w1 = sent w" for x w1
    using keeps_resolve [OF assms, of u] by (simp add: keeps_def) (metis snd_conv)
  have get: "or_expired env (we_get env t u) w1 = (x, w2) \<Longrightarrow> sent w2 \<le> Suc (sent w1)" for t x w1 w2
  proof -
    assume o: "or_expired env (we_get env t u) w1 = (x, w2)"
    obtain b w' where e: "we_expired env w1 = (b, w')" by fastforce
    with assms have "sent w' = sent w1" unfolding counts_requests_def by (metis snd_conv)
    moreover have "sent (snd (we_get env t u w')) = Suc (sent w')"
      using assms by (simp add: counts_requests_def)
    ultimately show ?thesis
      using o e by (cases b) (auto simp: or_expired_def act_bind_def act_read_def act_lift_def)
  qed
  have rest: "sent (snd (act_bind (act_lift l) (\<lambda>location.
      act_bind (act_lift (validated_redirect_url env u location)) (send_loop n env)) w2)) \<le> sent w2 + n" for l w2
    using Suc.IH by (auto simp: act_bind_def act_lift_def split: sum.splits)
  show ?case
    unfolding send_loop.simps
  proof (rule bind)
    show "resolve_public_target env u w = (x, w') \<Longrightarrow> sent w' \<le> sent w + Suc n" for x w'
      using res by fastforce
    fix t w1 assume "resolve_public_target env u w = (Inr t, w1)"
    with res have w1: "sent w1 = sent w" by blast
    show "sent (snd (act_bind (or_expired env (we_get env t u)) (\<lambda>response.
       if \<not> is_redirection (hr_status response) then act_return response
       else case hr_location response of None \<Rightarrow> act_return response
         | Some location \<Rightarrow> act_bind (act_lift location) (\<lambda>location.
             act_bind (act_lift (validated_redirect_url env u location)) (send_loop n env))) w1)) \<le> sent w + Suc n"
    proof (rule bind)
      show "or_expired env (we_get env t u) w1 = (x, w2) \<Longrightarrow> sent w2 \<le> sent w + Suc n" for x w2
        using get w1 by fastforce
      fix r w2 assume "or_expired env (we_get env t u) w1 = (Inr r, w2)"
      with get w1 have "sent w2 \<le> Suc (sent w)" by fastforce
      then show "sent (snd ((if \<not> is_redirection (hr_status r) then act_return r
       else case hr_location r of None \<Rightarrow> act_return r
         | Some location \<Rightarrow> act_bind (act_lift location) (\<lambda>location.
             act_bind (act_lift (validated_redirect_url env u location)) (send_loop n env))) w2)) \<le> sent w + Suc n"
        using le_trans [OF rest [of _ w2], of "sent w + Suc n"] by (auto simp: act_return_def split: option.splits)
    qed
  qed
qed (simp add: act_lift_def)

lemma read_chunks_keeps: "counts_requests env sent \<Longrightarrow> keeps sent (read_chunks env cap cs bytes)"
proof (induction cs arbitrary: bytes)
  case Nil
  then show ?case using keeps_or_expired [OF Nil, of "act_return (bytes, False)"] by (simp add: keeps_return)
next
  case (Cons c cs)
  then show ?case
    using keeps_or_expired [OF Cons.prems, of "act_lift c"]
    by (auto simp: keeps_lift split: prod.splits intro!: keeps_intros)
qed

text \<open>A fetch sends at most six requests: the first and five redirects.\<close>

theorem fetch_request_bound:
  assumes "counts_requests env sent"
  shows "sent (snd (fetch_direct env u format max_bytes w)) \<le> sent w + 6"
proof (cases "parse_public_http_url env u")
  case (Inl e)
  then show ?thesis by (simp add: fetch_direct_def act_bind_def act_lift_def)
next
  case (Inr requested)
  obtain x w1 where s: "send_loop 6 env requested w = (x, w1)" by fastforce
  with send_loop_count [OF assms, of 6 requested w] have w1: "sent w1 \<le> sent w + 6" by simp
  have "keeps sent (act_bind (read_response_body_limited env r max_bytes) (\<lambda>(bytes, truncated).
      act_return (build_fetch_response requested format max_bytes r bytes truncated)))" for r
    unfolding read_response_body_limited_def
    by (auto intro!: keeps_bind keeps_return read_chunks_keeps [OF assms] split: prod.splits)
  then show ?thesis
    using w1 by (cases x)
      (simp_all add: fetch_direct_def Inr bind_lift send_with_safe_redirects_def act_bind_def [of "send_loop 6 env requested"] s keeps_def)
qed

definition counting_env :: "nat web_env" where
  "counting_env =
     \<lparr>we_parse = (\<lambda>s. Inr \<lparr>url_scheme = ''http'', url_host_str = Some ''8.8.8.8'', url_port_or_known_default = Some 80, url_text = s\<rparr>),
      we_join = (\<lambda>u s. Inr u), we_resolve = (\<lambda>h p. Pair (Inl ''none'')),
      we_get = (\<lambda>t u w. (Inr \<lparr>hr_url = url_text u, hr_status = 302, hr_location = Some (Inr ''/''), hr_content_type = None,
        hr_chunks = []\<rparr>, Suc w)),
      we_expired = Pair False, we_show_ip = (\<lambda>_. [])\<rparr>"

theorem fetch_request_bound_witness:
  "snd (fetch_direct counting_env ''http://8.8.8.8/'' FfText 1024 0) \<le> 6"
proof -
  have "counts_requests counting_env (\<lambda>w. w)" by (simp add: counts_requests_def counting_env_def)
  from fetch_request_bound [OF this, of "''http://8.8.8.8/''" FfText 1024 0] show ?thesis by simp
qed

subsection \<open>Limits\<close>

lemma append_limited:
  "length bytes \<le> cap \<Longrightarrow> append_limited_bytes bytes chunk cap = (bytes', full) \<Longrightarrow>
     bytes' = take cap (bytes @ chunk) \<and> (full \<longleftrightarrow> length bytes = cap \<or> length (bytes @ chunk) > cap)"
  by (auto simp: append_limited_bytes_def Let_def split: if_splits)

lemma read_chunks_prefix:
  "read_chunks env cap (map Inr cs) bytes w = (Inr (out, truncated), w') \<Longrightarrow> length bytes \<le> cap \<Longrightarrow> [] \<notin> set cs
    \<Longrightarrow> out = take cap (bytes @ concat cs) \<and> (truncated \<longleftrightarrow> length (bytes @ concat cs) > cap)"
proof (induction cs arbitrary: bytes w)
  case Nil
  then show ?case
    by (auto simp: or_expired_def act_bind_eq split: if_splits)
next
  case (Cons c cs)
  obtain bytes' full where a: "append_limited_bytes bytes c cap = (bytes', full)" by fastforce
  note l = append_limited [OF Cons.prems(2) a]
  have c: "c \<noteq> []" using Cons.prems(3) by auto
  from Cons.prems(1) a obtain w1 where
    "(if full then act_return (bytes', True) else read_chunks env cap (map Inr cs) bytes') w1 = (Inr (out, truncated), w')"
    by (auto simp: or_expired_def act_bind_eq split: if_splits)
  then show ?case
  proof (cases full)
    case True
    with \<open>(if full then _ else _) w1 = _\<close> have "out = bytes'" "truncated" by auto
    moreover have "length (bytes @ c) > cap" using l True c Cons.prems(2) by (cases c) auto
    ultimately show ?thesis using l by auto
  next
    case False
    with \<open>(if full then _ else _) w1 = _\<close> have r: "read_chunks env cap (map Inr cs) bytes' w1 = (Inr (out, truncated), w')"
      by simp
    have "bytes' = bytes @ c" "length bytes' \<le> cap" using l False by auto
    with Cons.IH [OF r] Cons.prems(3) show ?thesis by simp
  qed
qed

text \<open>The body that is kept is the first \<open>max_bytes\<close> bytes of the one received, and the response says it
  was cut exactly when there was more.\<close>

theorem body_is_prefix:
  assumes "read_response_body_limited env r max_bytes w = (Inr (out, truncated), w')"
    and "hr_chunks r = map Inr cs" and "[] \<notin> set cs"
  shows "out = take (max max_bytes 1) (concat cs) \<and> (truncated \<longleftrightarrow> length (concat cs) > max max_bytes 1)"
  using read_chunks_prefix [of env "max max_bytes 1" cs "[]" w out truncated w'] assms
  by (simp add: read_response_body_limited_def)

theorem body_is_prefix_witness:
  "take 3 ''abcd'' = ''abc''"
proof -
  let ?r = "\<lparr>hr_url = [], hr_status = 200, hr_location = None, hr_content_type = None, hr_chunks = map Inr [''ab'', ''cd'']\<rparr>"
  have "read_response_body_limited counting_env ?r 3 0 = (Inr (''abc'', True), 0)" by code_simp
  from body_is_prefix [OF this, of "[''ab'', ''cd'']"] show ?thesis by simp
qed

subsection \<open>Cutting tool output\<close>

text \<open>C40: a single line that is too long is cut to its first bytes, unless the limit falls inside a character:
then the tool panics. A search hit is cut this way at 500 bytes.
\<close>

theorem long_line_cut:
  assumes "nl \<notin> set line" "max_bytes < length line"
  shows "tool_truncate_text line max_lines max_bytes =
    (if is_char_boundary max_bytes line then Some (take max_bytes line) else None)"
proof -
  have lines: "str_lines line = [line]" using assms by (intro str_lines_single) auto
  have "is_char_boundary max_bytes (line @ rest) = is_char_boundary max_bytes line" for rest
    using assms(2) by (auto simp: is_char_boundary_def nth_append)
  then show ?thesis
    using assms(2) by (simp add: tool_truncate_text_def Let_def lines str_truncate_def)
qed

theorem long_line_cut_witness:
  "tool_truncate_text (replicate 499 CHR ''a'' @ map char_of [0xC3, 0xA9 :: nat]) 1 500 = None"
proof -
  let ?line = "replicate 499 CHR ''a'' @ map char_of [0xC3, 0xA9 :: nat]"
  have "nl \<noteq> CHR ''a''" "nl \<notin> set (map char_of [0xC3, 0xA9 :: nat])" by code_simp+
  then have "nl \<notin> set ?line" by auto
  moreover have "\<not> is_char_boundary 500 ?line"
    by (simp add: is_char_boundary_def nth_append is_continuation_def byte_of_def)
  ultimately show ?thesis using long_line_cut [of ?line 500 1] by simp
qed

end
