(* ===== verification/Bt_Sse.thy ===== *)
theory Bt_Sse
  imports Bt_Utf8
begin

section \<open>The server-sent event parser\<close>

text \<open>
  \<open>bt-providers/src/sse.rs\<close>: the bytes of a provider's response arrive in chunks of any size; \<open>push\<close>
  decodes a chunk, appends it to the buffer, normalises line ends and takes every complete frame out of
  the buffer. \<open>sse_reference\<close> is the abstract contract: the events of the whole text, cut at once.
\<close>

record sse_event =
  se_event :: "string option"
  se_data :: string

type_synonym sse_parser = string

definition sse_new :: sse_parser where
  "sse_new = []"

fun frame_line :: "string option \<times> string list \<Rightarrow> string \<Rightarrow> string option \<times> string list" where
  "frame_line (event, data) line =
     (case strip_prefix ''event:'' line of
        Some v \<Rightarrow> (Some (str_trim v), data)
      | None \<Rightarrow> (case strip_prefix ''data:'' line of
          Some v \<Rightarrow> (event, data @ [str_trim v])
        | None \<Rightarrow> (event, data)))"

definition frame_events :: "string \<Rightarrow> sse_event list" where
  "frame_events frame =
     (if frame = [] then []
      else case foldl frame_line (None, []) (str_lines frame) of
        (event, data) \<Rightarrow> if data \<noteq> [] then [\<lparr> se_event = event, se_data = join_with [nl] data \<rparr>] else [])"

lemma str_find_bound: "str_find p s = Some b \<Longrightarrow> b + length p \<le> length s"
  by (induction p s arbitrary: b rule: str_find.induct)
    (auto split: if_splits dest: prefix_length_le)

function sse_drain :: "sse_parser \<Rightarrow> sse_event list \<times> sse_parser" where
  "sse_drain buffer =
     (case str_find [nl, nl] buffer of
        None \<Rightarrow> ([], buffer)
      | Some boundary \<Rightarrow>
          (case sse_drain (drop (boundary + 2) buffer) of
             (events, rest) \<Rightarrow> (frame_events (take boundary buffer) @ events, rest)))"
  by pat_completeness auto
termination
  by (relation "measure length") (auto dest: str_find_bound)

declare sse_drain.simps [simp del]

definition sse_push :: "sse_parser \<Rightarrow> string \<Rightarrow> sse_event list \<times> sse_parser" where
  "sse_push buffer chunk = sse_drain (str_replace [cr, nl] [nl] 0 (buffer @ from_utf8_lossy chunk))"

text \<open>Pushing the chunks of a response one after the other, as every provider does.\<close>

fun sse_feed :: "sse_parser \<Rightarrow> string list \<Rightarrow> sse_event list \<times> sse_parser" where
  "sse_feed buffer [] = ([], buffer)"
| "sse_feed buffer (chunk # chunks) =
     (case sse_push buffer chunk of
        (events, buffer) \<Rightarrow> (case sse_feed buffer chunks of (later, rest) \<Rightarrow> (events @ later, rest)))"

text \<open>The abstract contract: the text received so far, decoded and cut into frames in one go.\<close>

definition sse_reference :: "string \<Rightarrow> sse_event list \<times> sse_parser" where
  "sse_reference received = sse_drain (str_replace [cr, nl] [nl] 0 received)"

subsection \<open>Line ends\<close>

text \<open>\<open>replace("\r\n", "\n")\<close> drops every carriage return that a newline follows.\<close>

fun crlf :: "string \<Rightarrow> string" where
  "crlf [] = []"
| "crlf (c # s) = (if c = cr \<and> s \<noteq> [] \<and> hd s = nl then crlf s else c # crlf s)"

lemma cr_neq_nl [simp]: "cr \<noteq> nl" "nl \<noteq> cr"
  by (simp_all add: cr_def nl_def)

lemma str_replace_crlf: "str_replace [cr, nl] [nl] 0 s = crlf s"
proof (induction "length s" arbitrary: s rule: less_induct)
  case less
  show ?case
  proof (cases s)
    case (Cons c t)
    show ?thesis
    proof (cases "c = cr \<and> t \<noteq> [] \<and> hd t = nl")
      case True
      then obtain u where t: "t = nl # u" by (cases t) auto
      have "str_replace [cr, nl] [nl] 0 u = crlf u" using less Cons t by simp
      then show ?thesis using True by (simp add: Cons t)
    next
      case False
      have "\<not> prefix [cr, nl] (c # t)" using False by (cases t) auto
      moreover have "str_replace [cr, nl] [nl] 0 t = crlf t" using less Cons by simp
      ultimately show ?thesis using False by (simp only: Cons str_replace.simps crlf.simps if_False less_irrefl)
    qed
  qed simp
qed

definition no_stray_cr :: "string \<Rightarrow> bool" where
  "no_stray_cr s \<longleftrightarrow> \<not> sublist [cr, cr, nl] s"

lemma no_stray_cr_append: "no_stray_cr (s @ t) \<Longrightarrow> no_stray_cr s"
  unfolding no_stray_cr_def by (metis sublist_append_rightI sublist_order.order_trans)

lemma no_stray_cr_Cons: "no_stray_cr (c # s) \<Longrightarrow> no_stray_cr s"
  by (simp add: no_stray_cr_def sublist_Cons_right)

lemma hd_crlf:
  assumes "no_stray_cr (cr # a @ b)" "a \<noteq> []"
  shows "hd (crlf a @ b) = nl \<longleftrightarrow> hd a = nl"
proof (cases a)
  case (Cons d u)
  have "\<not> (d = cr \<and> u \<noteq> [] \<and> hd u = nl)"
  proof
    assume "d = cr \<and> u \<noteq> [] \<and> hd u = nl"
    then have "cr # a @ b = [] @ [cr, cr, nl] @ tl u @ b" using Cons by (cases u) auto
    then show False using assms(1) unfolding no_stray_cr_def sublist_def by blast
  qed
  then have "crlf a = d # crlf u" using Cons by (simp only: crlf.simps if_False)
  then show ?thesis using Cons by simp
qed (use assms in simp)

lemma crlf_crlf_append: "no_stray_cr (a @ b) \<Longrightarrow> crlf (crlf a @ b) = crlf (a @ b)"
proof (induction a)
  case (Cons c a)
  then have IH: "crlf (crlf a @ b) = crlf (a @ b)" using no_stray_cr_Cons by simp
  show ?case
  proof (cases "c = cr \<and> a \<noteq> [] \<and> hd a = nl")
    case True
    then show ?thesis using IH by (simp add: hd_append)
  next
    case False
    then have head: "crlf (c # a) = c # crlf a" by (simp only: crlf.simps if_False)
    have "c = cr \<and> crlf a @ b \<noteq> [] \<and> hd (crlf a @ b) = nl
      \<longleftrightarrow> c = cr \<and> a @ b \<noteq> [] \<and> hd (a @ b) = nl"
    proof (cases "a = [] \<or> c \<noteq> cr")
      case True
      then show ?thesis by auto
    next
      case False
      then show ?thesis
        using Cons.prems hd_crlf [of a b] \<open>\<not> (c = cr \<and> a \<noteq> [] \<and> hd a = nl)\<close>
        by (cases a) (auto simp: hd_append)
    qed
    then have "crlf (c # crlf a @ b) = (if c = cr \<and> a @ b \<noteq> [] \<and> hd (a @ b) = nl
        then crlf (crlf a @ b) else c # crlf (crlf a @ b))"
      by (simp only: crlf.simps)
    then show ?thesis unfolding head append_Cons IH by (simp only: crlf.simps)
  qed
qed simp

lemma crlf_append: "F = [] \<or> last F \<noteq> cr \<Longrightarrow> crlf (F @ Y) = crlf F @ crlf Y"
proof (induction F)
  case (Cons c F)
  then show ?case by (cases F) (auto simp: hd_append)
qed simp

lemma length_crlf: "length (crlf s) \<le> length s"
  by (induction s rule: crlf.induct) (auto split: if_splits)

lemma crlf_fixed_prefix: "crlf (F @ Y) = F @ Y \<Longrightarrow> F = [] \<or> last F \<noteq> cr \<Longrightarrow> crlf F = F"
  using length_crlf [of F] length_crlf [of Y] crlf_append [of F Y]
  by (metis add_le_cancel_right append_eq_append_conv le_antisym length_append nat_add_left_cancel_le)

subsection \<open>Frames\<close>

lemma prefix_iff_take: "prefix p s \<longleftrightarrow> take (length p) s = p"
  by (metis append_eq_conv_conj append_take_drop_id prefixE prefixI)

lemma str_find_append: "str_find p s = Some b \<Longrightarrow> str_find p (s @ y) = Some b"
proof (induction p s arbitrary: b rule: str_find.induct)
  case (1 needle)
  then show ?case by (cases y) (auto split: if_splits)
next
  case (2 needle c s)
  show ?case
  proof (cases "prefix needle (c # s)")
    case True
    then have "prefix needle ((c # s) @ y)" by (rule prefix_prefix)
    then show ?thesis using True "2.prems" by simp
  next
    case False
    then obtain d where d: "str_find needle s = Some d" "b = Suc d" using "2.prems" by auto
    have "length needle \<le> length (c # s)" using str_find_bound [OF d(1)] by simp
    then have "take (length needle) ((c # s) @ y) = take (length needle) (c # s)" by (simp only: take_append) simp
    then have "\<not> prefix needle ((c # s) @ y)" using False unfolding prefix_iff_take by metis
    then show ?thesis using "2.IH" [OF False d(1)] d(2) by simp
  qed
qed

lemma str_find_at: "str_find p s = Some b \<Longrightarrow> take (length p) (drop b s) = p"
  by (induction p s arbitrary: b rule: str_find.induct)
    (auto split: if_splits simp: prefix_iff_take)

lemma str_find_take: "str_find p s = Some b \<Longrightarrow> str_find p (take (b + length p) s) = Some b"
proof (induction p s arbitrary: b rule: str_find.induct)
  case (2 needle c s)
  show ?case
  proof (cases "prefix needle (c # s)")
    case True
    then have "b = 0" using "2.prems" by simp
    moreover have "take (length needle) (c # s) = needle" using True by (simp add: prefix_iff_take)
    ultimately show ?thesis by (cases needle) auto
  next
    case False
    then obtain d where d: "str_find needle s = Some d" "b = Suc d" using "2.prems" by auto
    then have "str_find needle (take (d + length needle) s) = Some d" using "2.IH" [OF False] by simp
    moreover have "\<not> prefix needle (c # take (d + length needle) s)"
      using False by (auto simp: prefix_iff_take take_Cons')
    ultimately show ?thesis using d(2) by simp
  qed
qed (auto split: if_splits)

text \<open>Draining stops after a prefix that no later text changes.\<close>

lemma sse_drain_consumed:
  "sse_drain s = (es, r) \<Longrightarrow> \<exists>F. s = F @ r \<and> (F = [] \<or> last F \<noteq> cr)
     \<and> (\<forall>Z. sse_drain (F @ Z) = (case sse_drain Z of (es', r') \<Rightarrow> (es @ es', r')))"
proof (induction s arbitrary: es r rule: sse_drain.induct)
  case (1 s)
  show ?case
  proof (cases "str_find [nl, nl] s")
    case None
    then have "es = []" "r = s" using "1.prems" by (simp_all add: sse_drain.simps [of s])
    then show ?thesis by (intro exI [of _ "[]"]) (simp split: prod.split)
  next
    case (Some b)
    obtain es1 r1 where d: "sse_drain (drop (b + 2) s) = (es1, r1)" by fastforce
    then have e: "es = frame_events (take b s) @ es1" "r = r1"
      using "1.prems" Some by (auto simp: sse_drain.simps [of s])
    obtain F where F: "drop (b + 2) s = F @ r" "F = [] \<or> last F \<noteq> cr"
      "\<And>Z. sse_drain (F @ Z) = (case sse_drain Z of (es', r') \<Rightarrow> (es1 @ es', r'))"
      using "1.IH" [OF Some d] e(2) by blast
    have len: "b + 2 \<le> length s" using str_find_bound [OF Some] by simp
    let ?H = "take (b + 2) s"
    have "take 2 (drop b s) = [nl, nl]" using str_find_at [OF Some] by (simp add: numeral_2_eq_2)
    then have H: "?H = take b s @ [nl, nl]" unfolding take_add by simp
    have "sse_drain (?H @ F @ Z) = (case sse_drain Z of (es', r') \<Rightarrow> (es @ es', r'))" for Z
      using str_find_append [OF str_find_take [OF Some], of "F @ Z"] len
      by (subst sse_drain.simps) (simp add: F(3) e(1) split: prod.split)
    moreover have "s = (?H @ F) @ r" using F(1) append_take_drop_id [of "b + 2" s] by simp
    moreover have "last (?H @ F) \<noteq> cr" using F(2) H by auto
    ultimately show ?thesis by (metis append.assoc)
  qed
qed

lemma sse_push_crlf: "sse_push buf c = sse_drain (crlf (buf @ from_utf8_lossy c))"
  by (simp add: sse_push_def str_replace_crlf)

lemma sse_push_step:
  assumes "no_stray_cr (t @ from_utf8_lossy c)" "sse_reference t = (es, buf)"
  shows "(case sse_push buf c of (es', buf') \<Rightarrow> (es @ es', buf')) = sse_reference (t @ from_utf8_lossy c)"
proof -
  let ?c = "from_utf8_lossy c"
  have d: "sse_drain (crlf t) = (es, buf)" using assms(2) by (simp add: sse_reference_def str_replace_crlf)
  obtain F where F: "crlf t = F @ buf" "F = [] \<or> last F \<noteq> cr"
    "\<And>Z. sse_drain (F @ Z) = (case sse_drain Z of (es', r') \<Rightarrow> (es @ es', r'))"
    using sse_drain_consumed [OF d] by blast
  have "no_stray_cr t" using assms(1) by (rule no_stray_cr_append)
  then have "crlf (F @ buf) = F @ buf" using crlf_crlf_append [of t "[]"] F(1) by simp
  then have "crlf F = F" using F(2) by (rule crlf_fixed_prefix)
  then have "crlf (t @ ?c) = F @ crlf (buf @ ?c)"
    using crlf_crlf_append [OF assms(1)] F(1) crlf_append [OF F(2), of "buf @ ?c"] by simp
  then show ?thesis
    by (simp add: sse_push_crlf sse_reference_def str_replace_crlf F(3))
qed

lemma sse_feed_continues:
  assumes "no_stray_cr (t @ concat (map from_utf8_lossy chunks))" "sse_reference t = (es, buf)"
  shows "(case sse_feed buf chunks of (es', buf') \<Rightarrow> (es @ es', buf'))
    = sse_reference (t @ concat (map from_utf8_lossy chunks))"
  using assms
proof (induction chunks arbitrary: t es buf)
  case (Cons c chunks)
  let ?c = "from_utf8_lossy c"
  have nc: "no_stray_cr (t @ ?c)" using Cons.prems(1) no_stray_cr_append [of "t @ ?c"] by simp
  obtain es' buf' where p: "sse_push buf c = (es', buf')" by fastforce
  have "sse_reference (t @ ?c) = (es @ es', buf')"
    using sse_push_step [OF nc Cons.prems(2)] p by simp
  then have "(case sse_feed buf' chunks of (es2, buf2) \<Rightarrow> ((es @ es') @ es2, buf2))
      = sse_reference ((t @ ?c) @ concat (map from_utf8_lossy chunks))"
    using Cons.prems by (intro Cons.IH) simp_all
  then show ?case using p by (simp split: prod.splits)
qed simp

lemma sse_feed_decoded:
  assumes "no_stray_cr (concat (map from_utf8_lossy chunks))"
  shows "sse_feed sse_new chunks = sse_reference (concat (map from_utf8_lossy chunks))"
proof -
  have "sse_reference [] = ([], sse_new)"
    by (simp add: sse_reference_def sse_new_def sse_drain.simps [of "[]"])
  then show ?thesis using sse_feed_continues [of "[]" chunks "[]" sse_new] assms by (simp split: prod.splits)
qed

lemma map_lossy_valid: "list_all valid_utf8 chunks \<Longrightarrow> map from_utf8_lossy chunks = chunks"
  by (induction chunks) (simp_all add: lossy_valid)

text \<open>C37: a response whose text holds no carriage return directly before a CR LF pair may be cut into chunks
  anywhere between its characters, also inside a line end: the parser yields the events of the whole text
  and keeps its incomplete tail. (In a text with CR CR LF the replacement of line ends is applied again to
  what is still buffered, so the cut would matter.)\<close>

theorem sse_refines_reference:
  assumes "list_all valid_utf8 chunks" "no_stray_cr (concat chunks)"
  shows "sse_feed sse_new chunks = sse_reference (concat chunks)"
  using sse_feed_decoded [of chunks] assms by (simp add: map_lossy_valid)

definition ex_chunks :: "string list" where
  "ex_chunks = [''data: a'' @ [cr], [nl], [cr, nl], ''event: e'' @ [nl] @ ''data: b'' @ [nl, nl]]"

theorem sse_refines_reference_witness:
  "sse_feed sse_new ex_chunks = sse_reference (concat ex_chunks)"
proof (rule sse_refines_reference)
  show "list_all valid_utf8 ex_chunks" by code_simp
  show "no_stray_cr (concat ex_chunks)" unfolding no_stray_cr_def by code_simp
qed

text \<open>A character of several bytes: what precedes the cut decodes to one replacement character, and every
  byte after the cut to one more.\<close>

definition utf8_char :: "string \<Rightarrow> bool" where
  "utf8_char x \<longleftrightarrow> x \<noteq> [] \<and> utf8_step x = (True, length x)"

definition is_continuation_byte :: "char \<Rightarrow> bool" where
  "is_continuation_byte c \<longleftrightarrow> 0x80 \<le> byte_of c \<and> byte_of c \<le> 0xBF"

lemma second_range_bounds: "second_range b = (lo, hi) \<Longrightarrow> 0x80 \<le> lo \<and> hi \<le> 0xBF"
  by (auto simp: second_range_def split: if_splits)

lemma utf8_step_continuation: "is_continuation_byte c \<Longrightarrow> utf8_step (c # s) = (False, 1)"
  by (simp add: is_continuation_byte_def utf8_step_def Let_def)

lemma utf8_char_bytes:
  assumes "utf8_char x" "0 < i" "i < length x"
  shows "is_continuation_byte (x ! i)"
proof -
  obtain lo hi where r: "second_range (byte_of (hd x)) = (lo, hi)" by fastforce
  have "i = 1 \<or> i = 2 \<or> i = 3"
    using assms by (auto simp: utf8_char_def utf8_step_def Let_def split: if_splits prod.splits)
  then consider "i = 1" | "i = 2" | "i = 3" by blast
  then show ?thesis
    using assms second_range_bounds [OF r] r
    by cases (auto simp: utf8_char_def utf8_step_def Let_def byte_in_def is_continuation_byte_def split: if_splits)
qed

lemma utf8_char_cut:
  assumes "utf8_char x" "0 < k" "k < length x"
  shows "utf8_step (take k x) = (False, k)"
proof -
  have h: "hd (take k x) = hd x"
    using assms by (cases x; cases k) simp_all
  obtain lo hi where r: "second_range (byte_of (hd x)) = (lo, hi)" by fastforce
  have "k = 1 \<or> k = 2 \<or> k = 3"
    using assms by (auto simp: utf8_char_def utf8_step_def Let_def split: if_splits prod.splits)
  then consider "k = 1" | "k = 2" | "k = 3" by blast
  then show ?thesis
    using assms r unfolding utf8_char_def utf8_step_def Let_def h
    by cases (auto simp: byte_in_def split: if_splits)
qed

lemma lossy_cut:
  assumes "utf8_char x" "0 < k" "k < length x"
  shows "from_utf8_lossy (take k x) = replacement_char"
  using utf8_char_cut [OF assms] assms
  by (subst from_utf8_lossy.simps) (auto simp: from_utf8_lossy.simps [of "[]"])

lemma lossy_continuation:
  "list_all is_continuation_byte ys
    \<Longrightarrow> from_utf8_lossy (ys @ s) = concat (replicate (length ys) replacement_char) @ from_utf8_lossy s"
proof (induction ys)
  case (Cons y ys)
  then show ?case
    by (subst from_utf8_lossy.simps) (simp add: utf8_step_continuation)
qed simp

lemma utf8_char_valid: "utf8_char x \<Longrightarrow> valid_utf8 x"
  by (subst valid_utf8.simps) (simp add: utf8_char_def valid_utf8.simps [of "[]"])

text \<open>C38: a chunk that ends inside a character loses that character: whatever the character and wherever
  inside it the chunk ends, the parser goes on with one replacement character for the bytes before the
  cut and one for each byte after it, while the same bytes in one chunk keep the character. (Neither
  text has a stray carriage return before a CR LF pair.)\<close>

theorem sse_split_character_lost:
  assumes "utf8_char x" "0 < k" "k < length x" "valid_utf8 p" "valid_utf8 q"
    and "no_stray_cr (p @ concat (replicate (Suc (length x - k)) replacement_char) @ q)" "no_stray_cr (p @ x @ q)"
  shows "sse_feed sse_new [p @ take k x, drop k x @ q]
      = sse_reference (p @ concat (replicate (Suc (length x - k)) replacement_char) @ q)
    \<and> sse_feed sse_new [p @ x @ q] = sse_reference (p @ x @ q)"
proof -
  have "list_all is_continuation_byte (drop k x)"
    using utf8_char_bytes [OF assms(1)] assms(2) by (auto simp: list_all_length)
  then have "from_utf8_lossy (drop k x @ q) = concat (replicate (length x - k) replacement_char) @ q"
    using assms(5) by (simp add: lossy_continuation lossy_valid)
  moreover have "from_utf8_lossy (p @ take k x) = p @ replacement_char"
    using lossy_append [OF assms(4)] lossy_cut [OF assms(1-3)] by simp
  moreover have "from_utf8_lossy (p @ x @ q) = p @ x @ q"
    using lossy_append [OF assms(4), of "x @ q"] lossy_append [OF utf8_char_valid [OF assms(1)], of q] assms(5)
    by (simp add: lossy_valid)
  ultimately show ?thesis
    using sse_feed_decoded [of "[p @ take k x, drop k x @ q]"] sse_feed_decoded [of "[p @ x @ q]"] assms(6,7)
    by simp
qed

text \<open>The euro sign, cut after its first byte.\<close>

theorem sse_split_character_lost_witness:
  "fst (sse_feed sse_new [''data: 5 '' @ map char_of [226 :: nat], map char_of [130, 172 :: nat] @ [nl, nl]])
     = [\<lparr> se_event = None, se_data = ''5 '' @ replacement_char @ replacement_char @ replacement_char \<rparr>]"
proof -
  let ?x = "map char_of [226, 130, 172 :: nat]"
  have "sse_feed sse_new [''data: 5 '' @ take 1 ?x, drop 1 ?x @ [nl, nl]]
      = sse_reference (''data: 5 '' @ concat (replicate (Suc (length ?x - 1)) replacement_char) @ [nl, nl])"
    by (rule sse_split_character_lost [THEN conjunct1])
      (code_simp | (unfold no_stray_cr_def, code_simp))+
  moreover have "fst (sse_reference (''data: 5 '' @ concat (replicate (Suc (length ?x - 1)) replacement_char) @ [nl, nl]))
      = [\<lparr> se_event = None, se_data = ''5 '' @ replacement_char @ replacement_char @ replacement_char \<rparr>]"
    by code_simp
  ultimately show ?thesis by simp
qed

end
