(* ===== verification/Bt_Chunks.thy ===== *)
theory Bt_Chunks
  imports Bt_Sse Bt_Response Bt_ContextBuild
begin

section \<open>What the providers share\<close>

text \<open>
  The pieces every provider of \<open>bt-providers\<close> is built from: reading a \<open>serde_json::Value\<close>, an ordered
  \<open>BTreeMap\<close>, chunks of deltas, and the loop of \<open>stream_completion\<close> that pushes the received bytes
  through the event parser and hands out the decoded chunks. \<open>from_str\<close> is \<open>serde_json::from_str\<close>,
  and \<open>js\<close> is \<open>Value::to_string\<close>.
\<close>

subsection \<open>Values\<close>

text \<open>\<open>as_u64\<close>: a number printed without sign, fraction or exponent, that fits.\<close>

fun json_as_u64 :: "json \<Rightarrow> u64 option" where
  "json_as_u64 (JNumber s) =
     (if s \<noteq> [] \<and> list_all is_digit s \<and> int (digits_value 0 s) < 2 ^ 64
      then Some (word_of_int (int (digits_value 0 s))) else None)"
| "json_as_u64 v = None"

fun json_as_bool :: "json \<Rightarrow> bool option" where
  "json_as_bool (JBool b) = Some b"
| "json_as_bool v = None"

fun json_as_array :: "json \<Rightarrow> json list option" where
  "json_as_array (JArray vs) = Some vs"
| "json_as_array v = None"

definition get_str :: "string \<Rightarrow> json \<Rightarrow> string option" where
  "get_str k v = Option.bind (json_get k v) json_as_str"

definition get_u64 :: "string \<Rightarrow> json \<Rightarrow> u64 option" where
  "get_u64 k v = Option.bind (json_get k v) json_as_u64"

text \<open>\<open>payload.get(field).and_then(as_array)\<close> with a string member of every element.\<close>

definition string_members :: "string \<Rightarrow> string \<Rightarrow> json \<Rightarrow> string list" where
  "string_members field member payload =
     List.map_filter (get_str member)
       (case Option.bind (json_get field payload) json_as_array of Some vs \<Rightarrow> vs | None \<Rightarrow> [])"

fun value_text :: "(json \<Rightarrow> string) \<Rightarrow> json \<Rightarrow> string" where
  "value_text js (JString s) = s"
| "value_text js v = js v"

text \<open>A \<open>serde_json\<close> result with the text of its error; the \<open>?\<close> operator makes it a \<open>Json\<close> error.\<close>

definition serde_result :: "string + 'a \<Rightarrow> 'a result" where
  "serde_result r = (case r of Inl e \<Rightarrow> Inl (Json e) | Inr v \<Rightarrow> Inr v)"

lemma serde_result_simps [simp]: "serde_result (Inl e) = Inl (Json e)" "serde_result (Inr v) = Inr v"
  by (simp_all add: serde_result_def)

subsection \<open>Ordered maps\<close>

fun bt_put :: "'k::linorder \<Rightarrow> 'v \<Rightarrow> ('k \<times> 'v) list \<Rightarrow> ('k \<times> 'v) list" where
  "bt_put k v [] = [(k, v)]"
| "bt_put k v ((k', v') # es) =
     (if k < k' then (k, v) # (k', v') # es
      else if k = k' then (k, v) # es
      else (k', v') # bt_put k v es)"

definition bt_del :: "'k \<Rightarrow> ('k \<times> 'v) list \<Rightarrow> ('k \<times> 'v) list" where
  "bt_del k es = filter (\<lambda>(k', v). k' \<noteq> k) es"

text \<open>\<open>entry(k).or_default()\<close>\<close>

definition bt_entry :: "'v \<Rightarrow> 'k \<Rightarrow> ('k \<times> 'v) list \<Rightarrow> 'v" where
  "bt_entry d k es = (case map_of es k of Some v \<Rightarrow> v | None \<Rightarrow> d)"

lemma map_of_bt_put [simp]: "map_of (bt_put k v es) k' = (if k' = k then Some v else map_of es k')"
  by (induction es) auto

lemma map_of_bt_del [simp]: "map_of (bt_del k es) k' = (if k' = k then None else map_of es k')"
  by (induction es) (auto simp: bt_del_def)

lemma keys_bt_put [simp]: "set (map fst (bt_put k v es)) = insert k (set (map fst es))"
  by (induction es rule: bt_put.induct) auto

lemma sorted_bt_put: "sorted_wrt (<) (map fst es) \<Longrightarrow> sorted_wrt (<) (map fst (bt_put k v es))"
proof (induction es)
  case (Cons e es)
  obtain k' v' where e: "e = (k', v')" by (cases e)
  show ?case
    using Cons keys_bt_put [of k v es] by (auto simp: e dest: less_trans)
qed simp

lemma sorted_bt_del: "sorted_wrt (<) (map fst es) \<Longrightarrow> sorted_wrt (<) (map fst (bt_del k es))"
  by (induction es) (auto simp: bt_del_def)

subsection \<open>Chunks\<close>

definition delta_chunk :: "completion_delta list \<Rightarrow> completion_chunk" where
  "delta_chunk ds = \<lparr>ck_llm_call_ordinal = None, ck_deltas = ds, ck_usage = None, ck_raw = None\<rparr>"

definition usage_chunk :: "token_usage \<Rightarrow> completion_chunk" where
  "usage_chunk u = \<lparr>ck_llm_call_ordinal = None, ck_deltas = [], ck_usage = Some u, ck_raw = None\<rparr>"

definition attach_raw_to_all :: "completion_chunk list \<Rightarrow> json \<Rightarrow> completion_chunk list" where
  "attach_raw_to_all chunks raw =
     map (\<lambda>c. if ck_raw c = None then c\<lparr>ck_raw := Some raw\<rparr> else c) chunks"

text \<open>A response event that carries nothing still becomes one chunk with its raw form.\<close>

definition or_empty_chunk :: "completion_chunk list \<Rightarrow> completion_chunk list" where
  "or_empty_chunk chunks = (if chunks = [] then [delta_chunk []] else chunks)"

text \<open>The deltas the agent gets to see.\<close>

definition chunk_deltas :: "completion_chunk list \<Rightarrow> completion_delta list" where
  "chunk_deltas chunks = concat (map ck_deltas chunks)"

lemma chunk_deltas_simps [simp]:
  "chunk_deltas [] = []"
  "chunk_deltas (c # cs) = ck_deltas c @ chunk_deltas cs"
  "chunk_deltas (cs @ ds) = chunk_deltas cs @ chunk_deltas ds"
  by (simp_all add: chunk_deltas_def)

lemma ck_deltas_simps [simp]:
  "ck_deltas (delta_chunk ds) = ds" "ck_deltas (usage_chunk u) = []"
  by (simp_all add: delta_chunk_def usage_chunk_def)

lemma chunk_deltas_raw [simp]: "chunk_deltas (attach_raw_to_all cs raw) = chunk_deltas cs"
  by (induction cs) (simp_all add: attach_raw_to_all_def)

lemma chunk_deltas_or_empty [simp]: "chunk_deltas (or_empty_chunk cs) = chunk_deltas cs"
  by (simp add: or_empty_chunk_def)

lemma chunk_deltas_map [simp]: "chunk_deltas (map (\<lambda>x. delta_chunk [f x]) xs) = map f xs"
  by (induction xs) simp_all

subsection \<open>The streaming loop\<close>

text \<open>
  A chunk of the body is an error of the transport or bytes. The loop ends at the first error, of the
  transport or of decoding; what was handed out before stays handed out. The second component is that
  error, or the decoder's state after the last byte.
\<close>

fun decode_events ::
  "(sse_event \<Rightarrow> 's \<Rightarrow> (completion_chunk list \<times> 's) result) \<Rightarrow> sse_event list \<Rightarrow> 's
     \<Rightarrow> completion_chunk list \<times> 's result" where
  "decode_events decode [] st = ([], Inr st)"
| "decode_events decode (e # es) st =
     (case decode e st of
        Inl err \<Rightarrow> ([], Inl err)
      | Inr (cs, st') \<Rightarrow> (case decode_events decode es st' of (ds, r) \<Rightarrow> (cs @ ds, r)))"

fun decode_bytes ::
  "(sse_event \<Rightarrow> 's \<Rightarrow> (completion_chunk list \<times> 's) result) \<Rightarrow> string result list \<Rightarrow> sse_parser \<Rightarrow> 's
     \<Rightarrow> completion_chunk list \<times> 's result" where
  "decode_bytes decode [] parser st = ([], Inr st)"
| "decode_bytes decode (Inl err # items) parser st = ([], Inl err)"
| "decode_bytes decode (Inr bytes # items) parser st =
     (case sse_push parser bytes of
        (events, parser') \<Rightarrow>
          (case decode_events decode events st of
             (cs, Inl err) \<Rightarrow> (cs, Inl err)
           | (cs, Inr st') \<Rightarrow> (case decode_bytes decode items parser' st' of (ds, r) \<Rightarrow> (cs @ ds, r))))"

definition stream_response ::
  "(sse_event \<Rightarrow> 's \<Rightarrow> (completion_chunk list \<times> 's) result) \<Rightarrow> ('s \<Rightarrow> completion_chunk list) \<Rightarrow> 's
     \<Rightarrow> string result list \<Rightarrow> completion_chunk list \<times> unit result" where
  "stream_response decode flush initial items =
     (case decode_bytes decode items sse_new initial of
        (cs, Inl err) \<Rightarrow> (cs, Inl err)
      | (cs, Inr st) \<Rightarrow> (cs @ flush st, Inr ()))"

lemma decode_events_append:
  "decode_events decode (es @ fs) st =
     (case decode_events decode es st of
        (cs, Inl err) \<Rightarrow> (cs, Inl err)
      | (cs, Inr st') \<Rightarrow> (case decode_events decode fs st' of (ds, r) \<Rightarrow> (cs @ ds, r)))"
  by (induction es arbitrary: st) (auto split: sum.splits prod.splits)

lemma decode_events_Cons_Inr:
  assumes "decode_events decode (e # es) st = (cs, Inr st')"
  obtains cs1 st1 cs2 where "decode e st = Inr (cs1, st1)" "decode_events decode es st1 = (cs2, Inr st')" "cs = cs1 @ cs2"
  using assms by (auto split: sum.splits prod.splits)

text \<open>Without transport errors the loop decodes the events of the parser.\<close>

lemma decode_bytes_feed:
  "decode_bytes decode (map Inr chunks) parser st = decode_events decode (fst (sse_feed parser chunks)) st"
proof (induction chunks arbitrary: parser st)
  case (Cons c chunks)
  obtain es p where p: "sse_push parser c = (es, p)" by fastforce
  obtain fs q where q: "sse_feed p chunks = (fs, q)" by fastforce
  show ?case using Cons.IH [of p] by (simp add: p q decode_events_append split: prod.splits sum.splits)
qed simp

text \<open>So what a provider streams does not depend on where the network cuts its response.\<close>

lemma stream_response_chunking:
  assumes "list_all valid_utf8 chunks" "no_stray_cr (concat chunks)"
  shows "stream_response decode flush initial (map Inr chunks) =
    (case decode_events decode (fst (sse_reference (concat chunks))) initial of
        (cs, Inl err) \<Rightarrow> (cs, Inl err)
      | (cs, Inr st) \<Rightarrow> (cs @ flush st, Inr ()))"
  using sse_feed_decoded [of chunks] assms
  by (simp add: stream_response_def decode_bytes_feed map_lossy_valid)

subsection \<open>The deltas of one call\<close>

text \<open>Which tool call a delta is about.\<close>

fun delta_call :: "completion_delta \<Rightarrow> string option" where
  "delta_call (OpenToolCall c name args) = Some c"
| "delta_call (AppendToolCallArguments c p) = Some c"
| "delta_call (CloseToolCall c) = Some c"
| "delta_call d = None"

definition deltas_of :: "string \<Rightarrow> completion_delta list \<Rightarrow> completion_delta list" where
  "deltas_of c ds = filter (\<lambda>d. delta_call d = Some c) ds"

lemma deltas_of_simps [simp]:
  "deltas_of c [] = []"
  "deltas_of c (d # ds) = (if delta_call d = Some c then d # deltas_of c ds else deltas_of c ds)"
  "deltas_of c (ds @ es) = deltas_of c ds @ deltas_of c es"
  by (simp_all add: deltas_of_def)

lemma deltas_of_map_append [simp]:
  "deltas_of c (map (AppendToolCallArguments c') ps) = (if c' = c then map (AppendToolCallArguments c) ps else [])"
  by (induction ps) auto

lemma fragments_deltas_of: "fragments c (deltas_of c ds) = fragments c ds"
  by (induction c ds rule: fragments.induct) auto

lemma fragments_map_append: "fragments c (map (AppendToolCallArguments c) ps) = concat ps"
  by (induction ps) auto

lemma fragments_append: "fragments c (xs @ ys) = fragments c xs @ fragments c ys"
  by (induction c xs rule: fragments.induct) auto

text \<open>The well-formed life of a call on the wire: it is opened, gets argument fragments, and is closed.\<close>

definition call_life :: "string \<Rightarrow> string \<Rightarrow> json option \<Rightarrow> string list \<Rightarrow> completion_delta list" where
  "call_life c name args ps = OpenToolCall c name args # map (AppendToolCallArguments c) ps @ [CloseToolCall c]"

text \<open>The agent completes such a call with the concatenation of its fragments, whatever is streamed in
  between, if it accepts the response at all.\<close>

lemma other_delta: "delta_call d \<noteq> Some c \<Longrightarrow> \<not> opens_or_closes c d \<and> fragments c [d] = []"
  by (cases d) auto

lemma delta_call_append: "delta_call d = Some c \<Longrightarrow> \<not> opens_or_closes c d \<Longrightarrow> \<exists>p. d = AppendToolCallArguments c p"
  by (cases d) auto

lemma deltas_of_split:
  assumes "deltas_of c ds = x # xs"
  obtains pre post where "ds = pre @ x # post" "deltas_of c pre = []" "deltas_of c post = xs"
  using assms unfolding deltas_of_def filter_eq_Cons_iff by (auto simp: filter_empty_conv)

lemma deltas_of_split_append:
  assumes "deltas_of c ds = xs @ ys"
  obtains pre post where "ds = pre @ post" "deltas_of c pre = xs" "deltas_of c post = ys"
  using assms
proof (induction xs arbitrary: ds thesis)
  case Nil
  show ?case using Nil(1) [of "[]" ds] Nil(2) by simp
next
  case (Cons x xs)
  obtain pre post where p: "ds = pre @ x # post" "deltas_of c pre = []" "deltas_of c post = xs @ ys"
    using deltas_of_split [of c ds x "xs @ ys"] Cons.prems(2) by auto
  obtain pre' post' where q: "post = pre' @ post'" "deltas_of c pre' = xs" "deltas_of c post' = ys"
    using Cons.IH [OF _ p(3)] by blast
  have "delta_call x = Some c"
    using Cons.prems(2) unfolding deltas_of_def by (auto dest!: filter_eq_ConsD)
  then show ?case using Cons.prems(1) [of "pre @ x # pre'" post'] p q by simp
qed

lemma not_opened_kept:
  assumes "apply_deltas pj ds st = Inr st'" "open_call c st = None" "deltas_of c ds = []"
  shows "open_call c st' = None"
  using assms
proof (induction ds arbitrary: st)
  case (Cons d ds)
  from Cons.prems(1) obtain s where s: "apply_delta pj d st = Inr s" "apply_deltas pj ds s = Inr st'"
    by (auto simp: and_then_eq_Inr)
  have "delta_call d \<noteq> Some c" using Cons.prems(3) by (auto split: if_splits)
  then have "open_call c s = None"
    using s(1) Cons.prems(2)
    by (cases d)
      (auto simp: open_call_def push_assistant_part_def and_then_eq_Inr open_tool_call_def Let_def
         append_tool_call_arguments_def close_tool_call_def find_update_first find_remove_first find_snoc
         split: if_splits option.splits prod.splits)
  then show ?case using Cons.IH [OF s(2)] Cons.prems(3) by (auto split: if_splits)
qed simp

lemma calls_grow: "apply_deltas pj ds st = Inr st' \<Longrightarrow> \<exists>cs. ra_tool_calls st' = ra_tool_calls st @ cs"
proof (induction ds arbitrary: st)
  case (Cons d ds)
  from Cons.prems obtain s where s: "apply_delta pj d st = Inr s" "apply_deltas pj ds s = Inr st'"
    by (auto simp: and_then_eq_Inr)
  have "\<exists>cs. ra_tool_calls s = ra_tool_calls st @ cs"
    using s(1) by (cases d) (auto simp: push_assistant_part_def and_then_eq_Inr)
  then show ?case using Cons.IH [OF s(2)] by force
qed simp

lemma call_life_completed:
  assumes "apply_deltas pj ds st = Inr st'" "open_call c st = None" "deltas_of c ds = call_life c name args ps"
  shows "\<exists>call. call \<in> set (ra_tool_calls st')
    \<and> finalize_tool_call pj \<lparr>ac_call_id = c, ac_tool_name = name, ac_initial_arguments = args,
         ac_partial_json = concat ps\<rparr> = Inr call"
proof -
  obtain pre rest where pre: "ds = pre @ OpenToolCall c name args # rest" "deltas_of c pre = []"
    and rest: "deltas_of c rest = map (AppendToolCallArguments c) ps @ [CloseToolCall c]"
    using deltas_of_split [OF assms(3) [unfolded call_life_def]] by blast
  obtain m q where m: "rest = m @ q" "deltas_of c m = map (AppendToolCallArguments c) ps"
    "deltas_of c q = [CloseToolCall c]"
    by (rule deltas_of_split_append [OF rest])
  obtain gap post where g: "q = gap @ CloseToolCall c # post" "deltas_of c gap = []"
    by (rule deltas_of_split [OF m(3)])
  define mid where "mid = m @ gap"
  have mid: "rest = mid @ CloseToolCall c # post" "deltas_of c mid = map (AppendToolCallArguments c) ps"
    using m g by (simp_all add: mid_def)
  have quiet: "list_all (\<lambda>d. \<not> opens_or_closes c d) mid"
    unfolding list_all_iff
  proof
    fix d assume d: "d \<in> set mid"
    show "\<not> opens_or_closes c d"
    proof (cases "delta_call d = Some c")
      case True
      then have "d \<in> set (map (AppendToolCallArguments c) ps)"
        using d unfolding mid(2) [symmetric] deltas_of_def by simp
      then show ?thesis by auto
    qed (simp add: other_delta)
  qed
  let ?a = "\<lparr>ac_call_id = c, ac_tool_name = name, ac_initial_arguments = args, ac_partial_json = []\<rparr>"
  from assms(1) pre(1) mid(1) obtain s1 s2 s3 where s: "apply_deltas pj pre st = Inr s1"
    "apply_deltas pj mid (s1\<lparr>ra_open_tool_calls := open_tool_call c name args (ra_open_tool_calls s1)\<rparr>) = Inr s2"
    "apply_delta pj (CloseToolCall c) s2 = Inr s3" "apply_deltas pj post s3 = Inr st'"
    by (auto simp: apply_deltas_append and_then_eq_Inr)
  have none: "open_call c s1 = None" by (rule not_opened_kept [OF s(1) assms(2) pre(2)])
  then have "\<not> list_ex (\<lambda>a. ac_call_id a = c) (ra_open_tool_calls s1)"
    by (auto simp: open_call_def list_ex_iff find_None_iff)
  with none have "open_call c (s1\<lparr>ra_open_tool_calls := open_tool_call c name args (ra_open_tool_calls s1)\<rparr>) = Some ?a"
    by (simp add: open_call_def open_tool_call_def find_snoc)
  from apply_deltas_other [OF s(2) this quiet]
  have o: "open_call c s2 = Some (?a\<lparr>ac_partial_json := fragments c mid\<rparr>)" by simp
  have "fragments c mid = concat ps"
    using fragments_deltas_of [of c mid] by (simp add: mid(2) fragments_map_append)
  with s(3) o obtain call where "call \<in> set (ra_tool_calls s3)"
    "finalize_tool_call pj (?a\<lparr>ac_partial_json := concat ps\<rparr>) = Inr call"
    by (auto simp: and_then_eq_Inr close_tool_call_def open_call_def)
  then show ?thesis using calls_grow [OF s(4)] by auto
qed

end
