(* ===== verification/Bt_OpenAi.thy ===== *)
theory Bt_OpenAi
  imports Bt_Chunks
begin

section \<open>The OpenAI-compatible provider\<close>

text \<open>
  \<open>bt-providers/src/openai.rs\<close> and \<open>openai/request.rs\<close>: a completion request becomes a chat request,
  and the events of the streamed answer become deltas. Tool calls arrive as fragments under an index;
  \<open>ToolCallAccumulator\<close> holds a call back until its id and name are known. \<open>from_value\<close> is the derived
  deserialisation of a response event.
\<close>

subsection \<open>Streamed responses\<close>

record openai_function_delta =
  of_name :: "string option"
  of_arguments :: "string option"

record openai_tool_call_delta =
  od_index :: nat
  od_id :: "string option"
  od_function :: "openai_function_delta option"

record openai_stream_delta =
  os_content :: "string option"
  os_refusal :: "string option"
  os_reasoning :: "string option"
  os_reasoning_content :: "string option"
  os_tool_calls :: "openai_tool_call_delta list option"

record openai_stream_choice =
  oc_delta :: openai_stream_delta
  oc_finish_reason :: "string option"

record openai_usage =
  ou_prompt_tokens :: u64
  ou_completion_tokens :: u64
  ou_total_tokens :: u64
  ou_cached_tokens :: "u64 option option"
  ou_reasoning_tokens :: "u64 option option"

record openai_stream_response =
  or_choices :: "openai_stream_choice list"
  or_usage :: "openai_usage option"

record openai_accumulator =
  oa_id :: "string option"
  oa_name :: "string option"
  oa_opened :: bool
  oa_buffered_arguments :: "string list"
  oa_source_raw :: "json option"

definition openai_accumulator_default :: openai_accumulator where
  "openai_accumulator_default =
     \<lparr>oa_id = None, oa_name = None, oa_opened = False, oa_buffered_arguments = [], oa_source_raw = None\<rparr>"

text \<open>The sum of a release build wraps.\<close>

definition token_usage_from_openai :: "openai_usage \<Rightarrow> token_usage" where
  "token_usage_from_openai u =
     \<lparr>prompt_tokens = ou_prompt_tokens u, completion_tokens = ou_completion_tokens u,
      total_tokens = (if ou_total_tokens u > 0 then ou_total_tokens u
                      else ou_prompt_tokens u + ou_completion_tokens u),
      cache_read_tokens = Option.bind (ou_cached_tokens u) id, cache_write_tokens = None,
      reasoning_tokens = Option.bind (ou_reasoning_tokens u) id\<rparr>"

definition maybe_emit_tool_call_open ::
  "openai_accumulator \<Rightarrow> completion_delta list \<Rightarrow> openai_accumulator \<times> completion_delta list" where
  "maybe_emit_tool_call_open a emitted =
     (if oa_opened a then (a, emitted)
      else case (oa_id a, oa_name a) of
        (Some cid, Some name) \<Rightarrow>
          (a\<lparr>oa_opened := True, oa_buffered_arguments := []\<rparr>,
           emitted @ [OpenToolCall cid name None]
             @ map (AppendToolCallArguments cid) (oa_buffered_arguments a))
      | _ \<Rightarrow> (a, emitted))"

text \<open>The part of a delta that names and fills the call.\<close>

definition apply_function_delta ::
  "openai_function_delta \<Rightarrow> openai_accumulator \<Rightarrow> completion_delta list
     \<Rightarrow> openai_accumulator \<times> completion_delta list" where
  "apply_function_delta f a emitted =
     (let a = (case of_name f of Some n \<Rightarrow> a\<lparr>oa_name := Some n\<rparr> | None \<Rightarrow> a)
      in case maybe_emit_tool_call_open a emitted of
        (a, emitted) \<Rightarrow>
          (case of_arguments f of
             None \<Rightarrow> (a, emitted)
           | Some arguments \<Rightarrow>
               if oa_opened a
               then (a, case oa_id a of
                          Some cid \<Rightarrow> emitted @ [AppendToolCallArguments cid arguments]
                        | None \<Rightarrow> emitted)
               else (a\<lparr>oa_buffered_arguments := oa_buffered_arguments a @ [arguments]\<rparr>, emitted)))"

definition apply_to_accumulator ::
  "openai_tool_call_delta \<Rightarrow> json \<Rightarrow> openai_accumulator \<Rightarrow> openai_accumulator \<times> completion_delta list" where
  "apply_to_accumulator d raw a =
     (let a = a\<lparr>oa_source_raw := Some raw\<rparr>;
          a = (case od_id d of Some i \<Rightarrow> a\<lparr>oa_id := Some i\<rparr> | None \<Rightarrow> a)
      in case (case od_function d of Some f \<Rightarrow> apply_function_delta f a [] | None \<Rightarrow> (a, [])) of
        (a, emitted) \<Rightarrow> maybe_emit_tool_call_open a emitted)"

definition pad_accumulators :: "nat \<Rightarrow> openai_accumulator list \<Rightarrow> openai_accumulator list" where
  "pad_accumulators i accs = accs @ replicate (i + 1 - length accs) openai_accumulator_default"

definition apply_tool_call_delta ::
  "openai_accumulator list \<Rightarrow> openai_tool_call_delta \<Rightarrow> json
     \<Rightarrow> openai_accumulator list \<times> completion_delta list" where
  "apply_tool_call_delta accs d raw =
     (let accs = pad_accumulators (od_index d) accs
      in case apply_to_accumulator d raw (accs ! od_index d) of
        (a, emitted) \<Rightarrow> (accs[od_index d := a], emitted))"

definition flush_accumulator :: "openai_accumulator \<Rightarrow> completion_chunk option" where
  "flush_accumulator a =
     (case (oa_id a, oa_name a) of
        (Some cid, Some name) \<Rightarrow>
          Some ((delta_chunk
            ((if oa_opened a then [] else [OpenToolCall cid name None])
             @ map (AppendToolCallArguments cid) (oa_buffered_arguments a)
             @ [CloseToolCall cid]))\<lparr>ck_raw := oa_source_raw a\<rparr>)
      | _ \<Rightarrow> None)"

definition openai_flush :: "openai_accumulator list \<Rightarrow> completion_chunk list" where
  "openai_flush accs = List.map_filter flush_accumulator accs"

fun apply_tool_call_deltas ::
  "openai_accumulator list \<Rightarrow> openai_tool_call_delta list \<Rightarrow> json
     \<Rightarrow> openai_accumulator list \<times> completion_delta list" where
  "apply_tool_call_deltas accs [] raw = (accs, [])"
| "apply_tool_call_deltas accs (d # ds) raw =
     (case apply_tool_call_delta accs d raw of
        (accs, emitted) \<Rightarrow> (case apply_tool_call_deltas accs ds raw of (accs, rest) \<Rightarrow> (accs, emitted @ rest)))"

definition nonempty :: "string option \<Rightarrow> string option" where
  "nonempty x = (case x of Some s \<Rightarrow> if s = [] then None else Some s | None \<Rightarrow> None)"

text \<open>One choice of an event: reasoning, text, refusal, then the tool call deltas, one chunk each.\<close>

definition choice_chunks ::
  "openai_accumulator list \<Rightarrow> openai_stream_choice \<Rightarrow> json \<Rightarrow> openai_accumulator list \<times> completion_chunk list" where
  "choice_chunks accs choice raw =
     (let d = oc_delta choice;
          reasoning = (case nonempty (os_reasoning d) of Some r \<Rightarrow> Some r | None \<Rightarrow> nonempty (os_reasoning_content d));
          visible =
            (case reasoning of Some r \<Rightarrow> [delta_chunk [AppendReasoning (Some r) False None]] | None \<Rightarrow> [])
            @ (case nonempty (os_content d) of Some t \<Rightarrow> [delta_chunk [AppendText t]] | None \<Rightarrow> [])
            @ (case nonempty (os_refusal d) of
                 Some t \<Rightarrow> [delta_chunk [AppendRefusal (Some t) (Some ''refusal'') None]] | None \<Rightarrow> [])
      in case apply_tool_call_deltas accs (case os_tool_calls d of Some ds \<Rightarrow> ds | None \<Rightarrow> []) raw of
        (accs, emitted) \<Rightarrow> (accs, visible @ map (\<lambda>x. delta_chunk [x]) emitted))"

fun choices_chunks ::
  "openai_accumulator list \<Rightarrow> openai_stream_choice list \<Rightarrow> json
     \<Rightarrow> openai_accumulator list \<times> completion_chunk list" where
  "choices_chunks accs [] raw = (accs, [])"
| "choices_chunks accs (c # cs) raw =
     (case choice_chunks accs c raw of
        (accs, chunks) \<Rightarrow> (case choices_chunks accs cs raw of (accs, rest) \<Rightarrow> (accs, chunks @ rest)))"

definition openai_event_chunks ::
  "(json \<Rightarrow> string + openai_stream_response) \<Rightarrow> json \<Rightarrow> openai_accumulator list
     \<Rightarrow> (completion_chunk list \<times> openai_accumulator list) result" where
  "openai_event_chunks from_value raw accs =
     and_then (serde_result (from_value raw)) (\<lambda>parsed.
       case choices_chunks accs (or_choices parsed) raw of
         (accs, chunks) \<Rightarrow>
           let flush = list_ex (\<lambda>c. oc_finish_reason c = Some ''tool_calls'') (or_choices parsed);
               chunks = chunks @ (if flush then attach_raw_to_all (openai_flush accs) raw else []);
               chunks = chunks @ (case or_usage parsed of
                  Some u \<Rightarrow> [usage_chunk (token_usage_from_openai u)] | None \<Rightarrow> [])
           in Inr (attach_raw_to_all (or_empty_chunk chunks) raw, if flush then [] else accs))"

definition openai_decode ::
  "(string \<Rightarrow> string + json) \<Rightarrow> (json \<Rightarrow> string + openai_stream_response) \<Rightarrow> sse_event \<Rightarrow> openai_accumulator list
     \<Rightarrow> (completion_chunk list \<times> openai_accumulator list) result" where
  "openai_decode from_str from_value event accs =
     (if str_trim (se_data event) = ''[DONE]''
      then Inr (attach_raw_to_all (openai_flush accs) (JString ''[DONE]''), [])
      else and_then (serde_result (from_str (se_data event))) (\<lambda>raw. openai_event_chunks from_value raw accs))"

subsection \<open>Structured output\<close>

text \<open>With a schema the text of the answer is held back, and parsed as one value at the end.\<close>

record structured_output_accumulator =
  sa_schema_name :: "string option"
  sa_buffered_text :: string
  sa_saw_refusal :: bool
  sa_raw_evidence :: "json list"

definition structured_output_new :: "structured_output_spec \<Rightarrow> structured_output_accumulator" where
  "structured_output_new spec =
     \<lparr>sa_schema_name = so_schema_name spec, sa_buffered_text = [], sa_saw_refusal = False, sa_raw_evidence = []\<rparr>"

definition structured_output_finish ::
  "(string \<Rightarrow> string + json) \<Rightarrow> structured_output_accumulator \<Rightarrow> completion_chunk option result" where
  "structured_output_finish from_str acc =
     (if sa_saw_refusal acc \<or> str_trim (sa_buffered_text acc) = [] then Inr None
      else case from_str (sa_buffered_text acc) of
        Inl e \<Rightarrow> Inl (Provider (''structured output did not parse as JSON: '' @ e))
      | Inr v \<Rightarrow>
          Inr (Some ((delta_chunk [SetStructuredOutput (sa_schema_name acc) v])
            \<lparr>ck_raw := (if sa_raw_evidence acc = [] then None else Some (last (sa_raw_evidence acc)))\<rparr>)))"

fun capture_delta ::
  "completion_delta \<Rightarrow> structured_output_accumulator \<Rightarrow> structured_output_accumulator" where
  "capture_delta (AppendText t) acc = acc\<lparr>sa_buffered_text := sa_buffered_text acc @ t\<rparr>"
| "capture_delta (AppendRefusal t r m) acc = acc\<lparr>sa_saw_refusal := True\<rparr>"
| "capture_delta d acc = acc"

fun is_append_text :: "completion_delta \<Rightarrow> bool" where
  "is_append_text (AppendText t) \<longleftrightarrow> True"
| "is_append_text d \<longleftrightarrow> False"

definition capture_structured_output_chunk ::
  "completion_chunk \<Rightarrow> structured_output_accumulator \<Rightarrow> completion_chunk option \<times> structured_output_accumulator" where
  "capture_structured_output_chunk chunk acc =
     (let acc = fold capture_delta (ck_deltas chunk) acc;
          captured = list_ex is_append_text (ck_deltas chunk);
          acc = (case ck_raw chunk of
            Some raw \<Rightarrow> if captured then acc\<lparr>sa_raw_evidence := sa_raw_evidence acc @ [raw]\<rparr> else acc
          | None \<Rightarrow> acc);
          chunk = chunk\<lparr>ck_deltas := filter (\<lambda>d. \<not> is_append_text d) (ck_deltas chunk)\<rparr>
      in (if ck_deltas chunk = [] \<and> ck_usage chunk = None \<and> ck_raw chunk = None then None else Some chunk, acc))"

fun capture_chunks ::
  "completion_chunk list \<Rightarrow> structured_output_accumulator \<Rightarrow> completion_chunk list \<times> structured_output_accumulator" where
  "capture_chunks [] acc = ([], acc)"
| "capture_chunks (c # cs) acc =
     (case capture_structured_output_chunk c acc of
        (out, acc) \<Rightarrow> (case capture_chunks cs acc of
          (outs, acc) \<Rightarrow> ((case out of Some o' \<Rightarrow> [o'] | None \<Rightarrow> []) @ outs, acc)))"

text \<open>What \<open>stream_completion\<close> streams once the response has begun. The last flush is not captured, and
  an error of the stream ends it before the structured value.\<close>

definition openai_stream ::
  "(string \<Rightarrow> string + json) \<Rightarrow> (json \<Rightarrow> string + openai_stream_response) \<Rightarrow> structured_output_spec option
     \<Rightarrow> string result list \<Rightarrow> completion_chunk list \<times> unit result" where
  "openai_stream from_str from_value spec items =
     (case spec of
        None \<Rightarrow> stream_response (openai_decode from_str from_value) openai_flush [] items
      | Some s \<Rightarrow>
          (case decode_bytes (openai_decode from_str from_value) items sse_new [] of
             (cs, r) \<Rightarrow> (case capture_chunks cs (structured_output_new s) of
               (outs, acc) \<Rightarrow>
                 (case r of
                    Inl err \<Rightarrow> (outs, Inl err)
                  | Inr accs \<Rightarrow>
                      (case structured_output_finish from_str acc of
                         Inl err \<Rightarrow> (outs @ openai_flush accs, Inl err)
                       | Inr final \<Rightarrow> (outs @ openai_flush accs
                           @ (case final of Some c \<Rightarrow> [c] | None \<Rightarrow> []), Inr ()))))))"

definition parse_openai_model_ids :: "json \<Rightarrow> string list" where
  "parse_openai_model_ids payload = string_members ''data'' ''id'' payload"

subsection \<open>Requests\<close>

record openai_message_tool_call =
  ot_id :: string
  ot_name :: string
  ot_arguments :: string

record openai_message =
  om_role :: string
  om_content :: "json option"
  om_tool_calls :: "openai_message_tool_call list option"
  om_tool_call_id :: "string option"

record openai_tool =
  ol_name :: string
  ol_description :: string
  ol_parameters :: json

record openai_response_format =
  rf_name :: string
  rf_schema :: json
  rf_strict :: bool

record openai_chat_request =
  ch_model :: string
  ch_messages :: "openai_message list"
  ch_stream :: bool
  ch_include_usage :: "bool option"
  ch_max_tokens :: "nat option"
  ch_max_completion_tokens :: "nat option"
  ch_temperature :: "f64 option"
  ch_tool_choice :: "string option"
  ch_tools :: "openai_tool list option"
  ch_response_format :: "openai_response_format option"
  ch_reasoning_effort :: "thinking_effort option"

primrec openai_role :: "role \<Rightarrow> string" where
  "openai_role RSystem = ''system''"
| "openai_role RUser = ''user''"
| "openai_role RAssistant = ''assistant''"
| "openai_role RTool = ''tool''"

fun openai_part_text :: "(json \<Rightarrow> string) \<Rightarrow> message_part \<Rightarrow> string option" where
  "openai_part_text js (Text t) = Some t"
| "openai_part_text js (ToolResult r) = Some (value_text js (tr_output r))"
| "openai_part_text js (Refusal (Some t) reason meta) = Some t"
| "openai_part_text js (Structured name v) = Some (value_text js v)"
| "openai_part_text js p = None"

definition render_message_text_for_openai :: "(json \<Rightarrow> string) \<Rightarrow> message_part list \<Rightarrow> string" where
  "render_message_text_for_openai js parts = concat (List.map_filter (openai_part_text js) parts)"

fun openai_part_call :: "(json \<Rightarrow> string) \<Rightarrow> message_part \<Rightarrow> openai_message_tool_call option" where
  "openai_part_call js (ToolCall c) =
     Some \<lparr>ot_id = tc_call_id c, ot_name = tc_tool_name c, ot_arguments = value_text js (tc_arguments c)\<rparr>"
| "openai_part_call js p = None"

definition message_to_openai :: "(json \<Rightarrow> string) \<Rightarrow> message \<Rightarrow> openai_message" where
  "message_to_openai js m =
     (let content = render_message_text_for_openai js (m_parts m);
          calls = List.map_filter (openai_part_call js) (m_parts m)
      in \<lparr>om_role = openai_role (m_role m),
          om_content = (if content \<noteq> [] then Some (JString content) else Some (JString [])),
          om_tool_calls = (if calls \<noteq> [] then Some calls else None),
          om_tool_call_id = map_option (\<lambda>r. tool_call_id_text (tr_call_id r)) (message_tool_result m)\<rparr>)"

definition uses_openai_reasoning_token_budget :: "string \<Rightarrow> string \<Rightarrow> bool" where
  "uses_openai_reasoning_token_budget provider_id model \<longleftrightarrow>
     provider_id = ''openai'' \<and> openai_reasoning_family model"

definition openai_reasoning_effort :: "string \<Rightarrow> string \<Rightarrow> thinking_config option \<Rightarrow> thinking_effort option" where
  "openai_reasoning_effort provider_id model thinking =
     (if \<not> uses_openai_reasoning_token_budget provider_id model then None
      else case thinking of
        None \<Rightarrow> None
      | Some t \<Rightarrow>
          if \<not> th_enabled t then None
          else Some (clamp_openai_chat_reasoning_effort
            (case th_effort t of Some e \<Rightarrow> e | None \<Rightarrow> TeHigh)))"

definition supports_structured_output :: "string \<Rightarrow> bool" where
  "supports_structured_output provider_id \<longleftrightarrow> provider_id = ''openai''"

definition structured_output_response_format ::
  "string \<Rightarrow> structured_output_spec option \<Rightarrow> openai_response_format option" where
  "structured_output_response_format provider_id spec =
     (if \<not> supports_structured_output provider_id then None
      else map_option (\<lambda>s. \<lparr>rf_name = (case so_schema_name s of Some n \<Rightarrow> n | None \<Rightarrow> ''belltower_structured_output''),
        rf_schema = so_schema s, rf_strict = True\<rparr>) spec)"

definition tool_spec_to_openai :: "tool_spec \<Rightarrow> openai_tool" where
  "tool_spec_to_openai t =
     \<lparr>ol_name = ts_name t, ol_description = ts_description t, ol_parameters = ts_parameters_schema t\<rparr>"

definition build_chat_request :: "(json \<Rightarrow> string) \<Rightarrow> string \<Rightarrow> completion_request \<Rightarrow> openai_chat_request" where
  "build_chat_request js provider_id rq =
     (let system = (case cq_system_prompt rq of
            Some s \<Rightarrow> if str_trim s \<noteq> []
              then [\<lparr>om_role = ''system'', om_content = Some (JString s), om_tool_calls = None, om_tool_call_id = None\<rparr>]
              else []
          | None \<Rightarrow> []);
          reasoning = uses_openai_reasoning_token_budget provider_id (cq_model rq)
      in \<lparr>ch_model = cq_model rq,
          ch_messages = system @ map (message_to_openai js) (cq_messages rq),
          ch_stream = True,
          ch_include_usage = (if provider_id = ''openai'' then Some True else None),
          ch_max_tokens = (if reasoning then None else cq_max_tokens rq),
          ch_max_completion_tokens = (if reasoning then cq_max_tokens rq else None),
          ch_temperature = cq_temperature rq,
          ch_tool_choice = (if cq_tools rq \<noteq> [] then Some ''auto'' else None),
          ch_tools = (if cq_tools rq \<noteq> [] then Some (map tool_spec_to_openai (cq_tools rq)) else None),
          ch_response_format = structured_output_response_format provider_id (cq_structured_output rq),
          ch_reasoning_effort = openai_reasoning_effort provider_id (cq_model rq) (cq_thinking rq)\<rparr>)"

text \<open>What \<open>stream_completion\<close> refuses before anything is sent.\<close>

definition openai_accepts :: "string \<Rightarrow> completion_request \<Rightarrow> unit result" where
  "openai_accepts provider_id rq =
     and_then (guard_err (cq_structured_output rq \<noteq> None \<and> \<not> supports_structured_output provider_id)
       (Unsupported (''structured output is not supported for provider `'' @ provider_id @ ''`''))) (\<lambda>_.
     guard_err (cq_structured_output rq \<noteq> None \<and> cq_tools rq \<noteq> [])
       (Unsupported ''structured output is not supported together with tool calling yet''))"

subsection \<open>Every call reaches the agent whole\<close>

text \<open>The fragments sent for index \<open>i\<close>, in order.\<close>

definition delta_arguments :: "openai_tool_call_delta \<Rightarrow> string list" where
  "delta_arguments d = (case od_function d of
     Some f \<Rightarrow> (case of_arguments f of Some a \<Rightarrow> [a] | None \<Rightarrow> []) | None \<Rightarrow> [])"

definition delta_name :: "openai_tool_call_delta \<Rightarrow> string option" where
  "delta_name d = Option.bind (od_function d) of_name"

definition arguments_at :: "nat \<Rightarrow> openai_tool_call_delta list \<Rightarrow> string list" where
  "arguments_at i ds = concat (map delta_arguments (filter (\<lambda>d. od_index d = i) ds))"

text \<open>Index \<open>i\<close> names call \<open>c\<close> of tool \<open>n\<close> and no other index does: what an endpoint must send.\<close>

definition names_call :: "nat \<Rightarrow> string \<Rightarrow> string \<Rightarrow> openai_tool_call_delta \<Rightarrow> bool" where
  "names_call i c n d \<longleftrightarrow>
     (if od_index d = i then od_id d \<in> {None, Some c} \<and> delta_name d \<in> {None, Some n} else od_id d \<noteq> Some c)"

definition id_seen :: "nat \<Rightarrow> openai_tool_call_delta list \<Rightarrow> bool" where
  "id_seen i ds \<longleftrightarrow> list_ex (\<lambda>d. od_index d = i \<and> od_id d \<noteq> None) ds"

definition name_seen :: "nat \<Rightarrow> openai_tool_call_delta list \<Rightarrow> bool" where
  "name_seen i ds \<longleftrightarrow> list_ex (\<lambda>d. od_index d = i \<and> delta_name d \<noteq> None) ds"

text \<open>The accumulator at index \<open>i\<close>, and what of call \<open>c\<close> it has let out so far.\<close>

definition acc_at :: "nat \<Rightarrow> openai_accumulator list \<Rightarrow> openai_accumulator" where
  "acc_at i accs = (if i < length accs then accs ! i else openai_accumulator_default)"

definition acc_ok ::
  "string \<Rightarrow> string \<Rightarrow> bool \<Rightarrow> bool \<Rightarrow> string list \<Rightarrow> completion_delta list \<Rightarrow> openai_accumulator \<Rightarrow> bool" where
  "acc_ok c n ids names args out a \<longleftrightarrow>
     oa_id a = (if ids then Some c else None) \<and> oa_name a = (if names then Some n else None)
   \<and> oa_opened a = (ids \<and> names)
   \<and> (if ids \<and> names then oa_buffered_arguments a = [] \<and> out = OpenToolCall c n None # map (AppendToolCallArguments c) args
      else oa_buffered_arguments a = args \<and> out = [])"

definition acc_pre ::
  "string \<Rightarrow> string \<Rightarrow> bool \<Rightarrow> bool \<Rightarrow> string list \<Rightarrow> completion_delta list \<Rightarrow> openai_accumulator \<Rightarrow> bool" where
  "acc_pre c n ids names args out a \<longleftrightarrow>
     oa_id a = (if ids then Some c else None) \<and> oa_name a = (if names then Some n else None)
   \<and> (if oa_opened a
      then ids \<and> names \<and> oa_buffered_arguments a = [] \<and> out = OpenToolCall c n None # map (AppendToolCallArguments c) args
      else oa_buffered_arguments a = args \<and> out = [])"

lemma acc_ok_pre: "acc_ok c n ids names args out a \<longleftrightarrow> acc_pre c n ids names args out a \<and> oa_opened a = (ids \<and> names)"
  by (auto simp: acc_ok_def acc_pre_def)

lemma acc_pre_set:
  "acc_pre c n ids names args out a \<Longrightarrow> acc_pre c n True names args out (a\<lparr>oa_id := Some c\<rparr>)"
  "acc_pre c n ids names args out a \<Longrightarrow> acc_pre c n ids True args out (a\<lparr>oa_name := Some n\<rparr>)"
  "acc_pre c n ids names args out (a\<lparr>oa_source_raw := r\<rparr>) = acc_pre c n ids names args out a"
  by (auto simp: acc_pre_def split: if_splits)

lemma maybe_emit_ok:
  assumes "acc_pre c n ids names args out a" "maybe_emit_tool_call_open a em = (a', em')"
  shows "\<exists>x. em' = em @ x \<and> acc_ok c n ids names args (out @ deltas_of c x) a'"
proof (cases "oa_opened a \<or> \<not> (ids \<and> names)")
  case True
  then have "a' = a" "em' = em"
    using assms by (auto simp: maybe_emit_tool_call_open_def acc_pre_def split: if_splits)
  then show ?thesis using assms(1) True by (auto simp: acc_ok_pre acc_pre_def)
next
  case False
  then have "a' = a\<lparr>oa_opened := True, oa_buffered_arguments := []\<rparr>"
    "em' = em @ OpenToolCall c n None # map (AppendToolCallArguments c) args" "out = []"
    using assms by (auto simp: maybe_emit_tool_call_open_def acc_pre_def)
  then show ?thesis using assms(1) False by (auto simp: acc_ok_def acc_pre_def)
qed

lemma acc_ok_arguments:
  assumes "acc_ok c n ids names args out a"
  shows "oa_opened a \<Longrightarrow> oa_id a = Some c \<and> acc_ok c n ids names (args @ [p]) (out @ [AppendToolCallArguments c p]) a"
    "\<not> oa_opened a \<Longrightarrow> acc_ok c n ids names (args @ [p]) out (a\<lparr>oa_buffered_arguments := oa_buffered_arguments a @ [p]\<rparr>)"
  using assms by (auto simp: acc_ok_def)

lemma apply_function_delta_ok:
  assumes "acc_pre c n ids names args out a" "of_name f \<in> {None, Some n}" "apply_function_delta f a [] = (a', em)"
  shows "acc_ok c n ids (names \<or> of_name f \<noteq> None)
      (args @ (case of_arguments f of Some p \<Rightarrow> [p] | None \<Rightarrow> [])) (out @ deltas_of c em) a'"
proof -
  define b where "b = (case of_name f of Some n \<Rightarrow> a\<lparr>oa_name := Some n\<rparr> | None \<Rightarrow> a)"
  have "acc_pre c n ids (names \<or> of_name f \<noteq> None) args out b"
    using assms(1, 2) by (auto simp: b_def acc_pre_set)
  moreover obtain b' em' where m: "maybe_emit_tool_call_open b [] = (b', em')" by fastforce
  ultimately have ok: "acc_ok c n ids (names \<or> of_name f \<noteq> None) args (out @ deltas_of c em') b'"
    using maybe_emit_ok by fastforce
  show ?thesis
    using assms(3) acc_ok_arguments [OF ok] ok
    by (auto simp: apply_function_delta_def m simp flip: b_def split: option.splits if_splits)
qed

lemma apply_to_accumulator_split:
  "apply_to_accumulator d raw a =
     (case (case od_function d of
        Some f \<Rightarrow> apply_function_delta f (case od_id d of Some i \<Rightarrow> a\<lparr>oa_source_raw := Some raw, oa_id := Some i\<rparr>
          | None \<Rightarrow> a\<lparr>oa_source_raw := Some raw\<rparr>) []
      | None \<Rightarrow> (case od_id d of Some i \<Rightarrow> a\<lparr>oa_source_raw := Some raw, oa_id := Some i\<rparr>
          | None \<Rightarrow> a\<lparr>oa_source_raw := Some raw\<rparr>, [])) of
        (a, emitted) \<Rightarrow> maybe_emit_tool_call_open a emitted)"
  by (cases "od_id d"; cases "od_function d") (simp_all add: apply_to_accumulator_def)

lemma apply_to_accumulator_ok:
  assumes "acc_ok c n ids names args out a" "od_id d \<in> {None, Some c}" "delta_name d \<in> {None, Some n}"
    and "apply_to_accumulator d raw a = (a', em)"
  shows "acc_ok c n (ids \<or> od_id d \<noteq> None) (names \<or> delta_name d \<noteq> None) (args @ delta_arguments d)
      (out @ deltas_of c em) a'"
proof -
  define b where "b = (case od_id d of Some i \<Rightarrow> a\<lparr>oa_source_raw := Some raw, oa_id := Some i\<rparr>
    | None \<Rightarrow> a\<lparr>oa_source_raw := Some raw\<rparr>)"
  note split = apply_to_accumulator_split [of d raw a, folded b_def]
  have pre: "acc_pre c n (ids \<or> od_id d \<noteq> None) names args out b"
    using assms(1, 2) by (auto simp: b_def acc_ok_pre acc_pre_set)
  obtain b' em' where f: "(case od_function d of Some f \<Rightarrow> apply_function_delta f b [] | None \<Rightarrow> (b, [])) = (b', em')"
    by fastforce
  have "acc_pre c n (ids \<or> od_id d \<noteq> None) (names \<or> delta_name d \<noteq> None) (args @ delta_arguments d)
      (out @ deltas_of c em') b'"
  proof (cases "od_function d")
    case None
    then show ?thesis using pre f by (simp add: delta_name_def delta_arguments_def)
  next
    case (Some g)
    then show ?thesis
      using apply_function_delta_ok [OF pre, of g b' em'] f assms(3)
      by (simp add: delta_name_def delta_arguments_def acc_ok_pre)
  qed
  moreover have "maybe_emit_tool_call_open b' em' = (a', em)"
    using assms(4) unfolding split f by simp
  ultimately show ?thesis using maybe_emit_ok by fastforce
qed

lemma maybe_emit_other:
  assumes "oa_id a \<noteq> Some c" "maybe_emit_tool_call_open a em = (a', em')"
  shows "oa_id a' \<noteq> Some c \<and> deltas_of c em' = deltas_of c em"
  using assms by (auto simp: maybe_emit_tool_call_open_def split: if_splits option.splits)

lemma apply_function_delta_other:
  assumes "oa_id a \<noteq> Some c" "apply_function_delta f a [] = (a', em)"
  shows "oa_id a' \<noteq> Some c \<and> deltas_of c em = []"
proof -
  define b where "b = (case of_name f of Some n \<Rightarrow> a\<lparr>oa_name := Some n\<rparr> | None \<Rightarrow> a)"
  have "oa_id b \<noteq> Some c" using assms(1) by (auto simp: b_def split: option.splits)
  moreover obtain b' em' where m: "maybe_emit_tool_call_open b [] = (b', em')" by fastforce
  ultimately have "oa_id b' \<noteq> Some c \<and> deltas_of c em' = []" using maybe_emit_other by fastforce
  then show ?thesis
    using assms(2) by (auto simp: apply_function_delta_def m simp flip: b_def split: option.splits if_splits)
qed

lemma apply_to_accumulator_other:
  assumes "oa_id a \<noteq> Some c" "od_id d \<noteq> Some c" "apply_to_accumulator d raw a = (a', em)"
  shows "oa_id a' \<noteq> Some c \<and> deltas_of c em = []"
proof -
  define b where "b = (case od_id d of Some i \<Rightarrow> a\<lparr>oa_source_raw := Some raw, oa_id := Some i\<rparr>
    | None \<Rightarrow> a\<lparr>oa_source_raw := Some raw\<rparr>)"
  note split = apply_to_accumulator_split [of d raw a, folded b_def]
  have b: "oa_id b \<noteq> Some c" using assms(1, 2) by (auto simp: b_def split: option.splits)
  obtain b' em' where f: "(case od_function d of Some f \<Rightarrow> apply_function_delta f b [] | None \<Rightarrow> (b, [])) = (b', em')"
    by fastforce
  then have "oa_id b' \<noteq> Some c \<and> deltas_of c em' = []"
    using b apply_function_delta_other by (fastforce split: option.splits)
  moreover have "maybe_emit_tool_call_open b' em' = (a', em)"
    using assms(3) unfolding split f by simp
  ultimately show ?thesis using maybe_emit_other by fastforce
qed

definition accs_ok ::
  "nat \<Rightarrow> string \<Rightarrow> string \<Rightarrow> openai_tool_call_delta list \<Rightarrow> completion_delta list \<Rightarrow> openai_accumulator list \<Rightarrow> bool" where
  "accs_ok i c n ds out accs \<longleftrightarrow>
     acc_ok c n (id_seen i ds) (name_seen i ds) (arguments_at i ds) out (acc_at i accs)
   \<and> (\<forall>j < length accs. j \<noteq> i \<longrightarrow> oa_id (accs ! j) \<noteq> Some c)"

lemma accs_ok_initial: "accs_ok i c n [] [] []"
  by (simp add: accs_ok_def acc_ok_def acc_at_def id_seen_def name_seen_def arguments_at_def openai_accumulator_default_def)

lemma pad_accumulators:
  "i < length (pad_accumulators i accs)" "length accs \<le> length (pad_accumulators i accs)"
  "acc_at j (pad_accumulators i accs) = acc_at j accs"
  by (auto simp: pad_accumulators_def acc_at_def nth_append)

lemma accs_ok_acc_at:
  "accs_ok i c n ds out accs \<longleftrightarrow>
     acc_ok c n (id_seen i ds) (name_seen i ds) (arguments_at i ds) out (acc_at i accs)
   \<and> (\<forall>j. j \<noteq> i \<longrightarrow> oa_id (acc_at j accs) \<noteq> Some c)"
  by (auto simp: accs_ok_def acc_at_def openai_accumulator_default_def)

lemma accs_ok_delta:
  assumes "accs_ok i c n ds out accs" "names_call i c n d" "apply_tool_call_delta accs d raw = (accs', em)"
  shows "accs_ok i c n (ds @ [d]) (out @ deltas_of c em) accs'"
proof -
  let ?p = "pad_accumulators (od_index d) accs"
  obtain a where a: "apply_to_accumulator d raw (acc_at (od_index d) accs) = (a, em)"
    and accs': "accs' = ?p[od_index d := a]"
    using assms(3) pad_accumulators(1) [of "od_index d" accs] pad_accumulators(3) [of "od_index d" "od_index d" accs]
    by (auto simp: apply_tool_call_delta_def Let_def acc_at_def split: prod.splits)
  have at: "acc_at j accs' = (if j = od_index d then a else acc_at j accs)" for j
    using pad_accumulators(1) [of "od_index d" accs] pad_accumulators(3) [of j "od_index d" accs]
    by (auto simp: accs' acc_at_def)
  have ids: "oa_id (acc_at j accs) \<noteq> Some c" if "j \<noteq> i" for j
    using assms(1) that by (simp add: accs_ok_acc_at)
  show ?thesis
  proof (cases "od_index d = i")
    case True
    then have "od_id d \<in> {None, Some c}" "delta_name d \<in> {None, Some n}"
      using assms(2) by (simp_all add: names_call_def)
    from apply_to_accumulator_ok [OF _ this a] assms(1) show ?thesis
      using True ids by (simp add: accs_ok_acc_at at id_seen_def name_seen_def arguments_at_def)
  next
    case False
    then have "oa_id a \<noteq> Some c" "deltas_of c em = []"
      using apply_to_accumulator_other [OF ids [OF False] _ a] assms(2) by (simp_all add: names_call_def)
    then show ?thesis
      using assms(1) False by (simp add: accs_ok_acc_at at id_seen_def name_seen_def arguments_at_def)
  qed
qed

lemma accs_ok_deltas:
  "accs_ok i c n ds out accs \<Longrightarrow> list_all (names_call i c n) es \<Longrightarrow>
     apply_tool_call_deltas accs es raw = (accs', em) \<Longrightarrow> accs_ok i c n (ds @ es) (out @ deltas_of c em) accs'"
proof (induction accs es raw arbitrary: ds out em accs' rule: apply_tool_call_deltas.induct)
  case (2 accs d es raw)
  obtain accs1 em1 where 1: "apply_tool_call_delta accs d raw = (accs1, em1)" by fastforce
  obtain accs2 em2 where 2: "apply_tool_call_deltas accs1 es raw = (accs2, em2)" by fastforce
  have "accs_ok i c n (ds @ [d]) (out @ deltas_of c em1) accs1"
    using accs_ok_delta [OF "2.prems"(1) _ 1] "2.prems"(2) by simp
  from "2.IH" [OF 1 [symmetric] this _ 2] "2.prems"(2, 3) 1 2 show ?case by auto
qed simp

lemma flush_other:
  "\<forall>a \<in> set accs. oa_id a \<noteq> Some c \<Longrightarrow> deltas_of c (chunk_deltas (openai_flush accs)) = []"
  by (induction accs)
    (auto simp: openai_flush_def flush_accumulator_def List.map_filter_simps split: option.splits)

lemma openai_flush_append: "openai_flush (xs @ ys) = openai_flush xs @ openai_flush ys"
  by (simp add: openai_flush_def map_filter_def)

lemma flush_call:
  assumes "accs_ok i c n ds out accs" "id_seen i ds" "name_seen i ds"
  shows "out @ deltas_of c (chunk_deltas (openai_flush accs)) = call_life c n None (arguments_at i ds)"
proof -
  let ?a = "acc_at i accs"
  have a: "oa_id ?a = Some c" "oa_name ?a = Some n" "oa_opened ?a" "oa_buffered_arguments ?a = []"
    "out = OpenToolCall c n None # map (AppendToolCallArguments c) (arguments_at i ds)"
    using assms by (auto simp: accs_ok_def acc_ok_def)
  then have i: "i < length accs" "accs ! i = ?a" by (auto simp: acc_at_def openai_accumulator_default_def split: if_splits)
  have others: "\<forall>x \<in> set (take i accs) \<union> set (drop (Suc i) accs). oa_id x \<noteq> Some c"
    using assms(1) i(1) by (fastforce simp: accs_ok_def in_set_conv_nth)
  have "accs = take i accs @ ?a # drop (Suc i) accs" using i id_take_nth_drop [of i accs] by simp
  then have "openai_flush accs = openai_flush (take i accs) @ openai_flush [?a] @ openai_flush (drop (Suc i) accs)"
    using openai_flush_append by (metis append_Cons append_Nil)
  moreover have "deltas_of c (chunk_deltas (openai_flush [?a])) = [CloseToolCall c]"
    using a by (simp add: openai_flush_def flush_accumulator_def List.map_filter_simps)
  ultimately show ?thesis
    using flush_other [of "take i accs" c] flush_other [of "drop (Suc i) accs" c] others a(5)
    by (simp add: call_life_def)
qed

text \<open>The tool call deltas of an event, and whether it ends the calls.\<close>

definition choice_calls :: "openai_stream_choice \<Rightarrow> openai_tool_call_delta list" where
  "choice_calls ch = (case os_tool_calls (oc_delta ch) of Some ds \<Rightarrow> ds | None \<Rightarrow> [])"

definition parsed_event ::
  "(string \<Rightarrow> string + json) \<Rightarrow> (json \<Rightarrow> string + openai_stream_response) \<Rightarrow> sse_event \<Rightarrow> openai_stream_response option" where
  "parsed_event from_str from_value e =
     (if str_trim (se_data e) = ''[DONE]'' then None
      else case from_str (se_data e) of
        Inl err \<Rightarrow> None
      | Inr raw \<Rightarrow> (case from_value raw of Inl err \<Rightarrow> None | Inr p \<Rightarrow> Some p))"

definition event_calls ::
  "(string \<Rightarrow> string + json) \<Rightarrow> (json \<Rightarrow> string + openai_stream_response) \<Rightarrow> sse_event \<Rightarrow> openai_tool_call_delta list" where
  "event_calls from_str from_value e =
     (case parsed_event from_str from_value e of
        Some p \<Rightarrow> concat (map choice_calls (or_choices p)) | None \<Rightarrow> [])"

definition ends_calls ::
  "(string \<Rightarrow> string + json) \<Rightarrow> (json \<Rightarrow> string + openai_stream_response) \<Rightarrow> sse_event \<Rightarrow> bool" where
  "ends_calls from_str from_value e =
     (case parsed_event from_str from_value e of
        Some p \<Rightarrow> list_ex (\<lambda>c. oc_finish_reason c = Some ''tool_calls'') (or_choices p) | None \<Rightarrow> True)"

lemma apply_tool_call_deltas_append:
  "apply_tool_call_deltas accs (xs @ ys) raw =
     (case apply_tool_call_deltas accs xs raw of
        (accs, em) \<Rightarrow> (case apply_tool_call_deltas accs ys raw of (accs, em') \<Rightarrow> (accs, em @ em')))"
  by (induction accs xs raw rule: apply_tool_call_deltas.induct) (auto split: prod.splits)

lemma choices_chunks_calls:
  "choices_chunks accs cs raw = (accs', chunks) \<Longrightarrow>
     \<exists>em. apply_tool_call_deltas accs (concat (map choice_calls cs)) raw = (accs', em)
       \<and> deltas_of c (chunk_deltas chunks) = deltas_of c em"
proof (induction accs cs raw arbitrary: chunks rule: choices_chunks.induct)
  case (2 accs ch cs raw)
  obtain accs1 chunks1 where 1: "choice_chunks accs ch raw = (accs1, chunks1)" by fastforce
  obtain chunks2 where 2: "choices_chunks accs1 cs raw = (accs', chunks2)" "chunks = chunks1 @ chunks2"
    using "2.prems" 1 by (auto split: prod.splits)
  obtain em1 where em1: "apply_tool_call_deltas accs (choice_calls ch) raw = (accs1, em1)"
    "deltas_of c (chunk_deltas chunks1) = deltas_of c em1"
    using 1 by (auto simp: choice_chunks_def choice_calls_def Let_def split: prod.splits option.splits)
  obtain em2 where "apply_tool_call_deltas accs1 (concat (map choice_calls cs)) raw = (accs', em2)"
    "deltas_of c (chunk_deltas chunks2) = deltas_of c em2"
    using "2.IH" [OF 1 [symmetric] 2(1)] by blast
  then show ?case using em1 2(2) by (simp add: apply_tool_call_deltas_append)
qed simp

lemma openai_decode_calls:
  assumes "openai_decode from_str from_value e accs = Inr (cs, accs')"
  obtains accs1 em raw where
    "apply_tool_call_deltas accs (event_calls from_str from_value e) raw = (accs1, em)"
    "deltas_of c (chunk_deltas cs) = deltas_of c em
       @ (if ends_calls from_str from_value e then deltas_of c (chunk_deltas (openai_flush accs1)) else [])"
    "accs' = (if ends_calls from_str from_value e then [] else accs1)"
proof (cases "str_trim (se_data e) = ''[DONE]''")
  case True
  then show ?thesis
    using assms that [of JNull accs "[]"]
    by (auto simp: openai_decode_def event_calls_def ends_calls_def parsed_event_def)
next
  case False
  then obtain raw p where raw: "from_str (se_data e) = Inr raw" "from_value raw = Inr p"
    using assms
    by (auto simp: openai_decode_def openai_event_chunks_def and_then_eq_Inr serde_result_def split: sum.splits)
  obtain accs1 chunks where ch: "choices_chunks accs (or_choices p) raw = (accs1, chunks)" by fastforce
  obtain em where em: "apply_tool_call_deltas accs (concat (map choice_calls (or_choices p))) raw = (accs1, em)"
    "deltas_of c (chunk_deltas chunks) = deltas_of c em"
    using choices_chunks_calls [OF ch] by blast
  have p: "parsed_event from_str from_value e = Some p" using False raw by (simp add: parsed_event_def)
  show ?thesis
  proof (rule that)
    show "apply_tool_call_deltas accs (event_calls from_str from_value e) raw = (accs1, em)"
      by (simp add: event_calls_def p em(1))
    show "deltas_of c (chunk_deltas cs) = deltas_of c em
       @ (if ends_calls from_str from_value e then deltas_of c (chunk_deltas (openai_flush accs1)) else [])"
      using assms False raw ch em(2) p
      by (auto simp: openai_decode_def openai_event_chunks_def ends_calls_def Let_def split: option.splits if_splits)
    show "accs' = (if ends_calls from_str from_value e then [] else accs1)"
      using assms False raw ch p
      by (auto simp: openai_decode_def openai_event_chunks_def ends_calls_def Let_def split: if_splits)
  qed
qed

text \<open>No event carries tool call deltas after one that ended the calls.\<close>

fun calls_then_end ::
  "(string \<Rightarrow> string + json) \<Rightarrow> (json \<Rightarrow> string + openai_stream_response) \<Rightarrow> sse_event list \<Rightarrow> bool" where
  "calls_then_end from_str from_value [] \<longleftrightarrow> True"
| "calls_then_end from_str from_value (e # es) \<longleftrightarrow>
     (if ends_calls from_str from_value e then list_all (\<lambda>e. event_calls from_str from_value e = []) es
      else calls_then_end from_str from_value es)"

lemma quiet_events:
  assumes "list_all (\<lambda>e. event_calls from_str from_value e = []) es"
    and "decode_events (openai_decode from_str from_value) es accs = (cs, Inr accs')"
  shows "deltas_of c (chunk_deltas (cs @ openai_flush accs')) = deltas_of c (chunk_deltas (openai_flush accs))"
  using assms
proof (induction es arbitrary: accs cs)
  case (Cons e es)
  obtain cs1 st1 cs2 where d: "openai_decode from_str from_value e accs = Inr (cs1, st1)"
    "decode_events (openai_decode from_str from_value) es st1 = (cs2, Inr accs')" "cs = cs1 @ cs2"
    by (rule decode_events_Cons_Inr [OF Cons.prems(2)])
  from d(1) obtain accs1 em raw where o: "apply_tool_call_deltas accs [] raw = (accs1, em)"
    "deltas_of c (chunk_deltas cs1) = deltas_of c em
       @ (if ends_calls from_str from_value e then deltas_of c (chunk_deltas (openai_flush accs1)) else [])"
    "st1 = (if ends_calls from_str from_value e then [] else accs1)"
    using Cons.prems(1) by (elim openai_decode_calls [where c = c]) auto
  have "deltas_of c (chunk_deltas (cs2 @ openai_flush accs')) = deltas_of c (chunk_deltas (openai_flush st1))"
    using Cons.IH [OF _ d(2)] Cons.prems(1) by simp
  then show ?case using o d(3) by (auto simp: openai_flush_def)
qed simp

lemma decode_events_calls:
  assumes "accs_ok i c n ds out accs"
    and "decode_events (openai_decode from_str from_value) es accs = (cs, Inr accs')"
    and "calls_then_end from_str from_value es"
    and "list_all (\<lambda>e. list_all (names_call i c n) (event_calls from_str from_value e)) es"
    and "ds' = ds @ concat (map (event_calls from_str from_value) es)" "id_seen i ds'" "name_seen i ds'"
  shows "out @ deltas_of c (chunk_deltas (cs @ openai_flush accs')) = call_life c n None (arguments_at i ds')"
  using assms
proof (induction es arbitrary: accs cs ds out)
  case Nil
  then show ?case using flush_call [of i c n ds out accs] by simp
next
  case (Cons e es)
  obtain cs1 st1 cs2 where d: "openai_decode from_str from_value e accs = Inr (cs1, st1)"
    "decode_events (openai_decode from_str from_value) es st1 = (cs2, Inr accs')" "cs = cs1 @ cs2"
    by (rule decode_events_Cons_Inr [OF Cons.prems(2)])
  from d(1) obtain accs1 em raw where o: "apply_tool_call_deltas accs (event_calls from_str from_value e) raw = (accs1, em)"
    "deltas_of c (chunk_deltas cs1) = deltas_of c em
       @ (if ends_calls from_str from_value e then deltas_of c (chunk_deltas (openai_flush accs1)) else [])"
    "st1 = (if ends_calls from_str from_value e then [] else accs1)"
    by (elim openai_decode_calls [where c = c]) auto
  let ?ds = "ds @ event_calls from_str from_value e"
  have ok: "accs_ok i c n ?ds (out @ deltas_of c em) accs1"
    using accs_ok_deltas [OF Cons.prems(1) _ o(1)] Cons.prems(4) by simp
  show ?case
  proof (cases "ends_calls from_str from_value e")
    case False
    have "(out @ deltas_of c em) @ deltas_of c (chunk_deltas (cs2 @ openai_flush accs'))
        = call_life c n None (arguments_at i ds')"
    proof (rule Cons.IH [OF ok])
      show "decode_events (openai_decode from_str from_value) es accs1 = (cs2, Inr accs')"
        using d(2) o(3) False by simp
      show "calls_then_end from_str from_value es" using Cons.prems(3) False by simp
      show "list_all (\<lambda>e. list_all (names_call i c n) (event_calls from_str from_value e)) es"
        using Cons.prems(4) by simp
      show "ds' = ?ds @ concat (map (event_calls from_str from_value) es)" using Cons.prems(5) by simp
    qed (fact Cons.prems(6) Cons.prems(7))+
    then show ?thesis using o(2) False d(3) by simp
  next
    case True
    then have quiet: "list_all (\<lambda>e. event_calls from_str from_value e = []) es" using Cons.prems(3) by simp
    then have "concat (map (event_calls from_str from_value) es) = []" by (auto simp: list_all_iff)
    then have "ds' = ?ds" using Cons.prems(5) by simp
    then have "(out @ deltas_of c em) @ deltas_of c (chunk_deltas (openai_flush accs1)) = call_life c n None (arguments_at i ds')"
      using flush_call [OF ok] Cons.prems(6, 7) by simp
    moreover have "deltas_of c (chunk_deltas (cs2 @ openai_flush accs')) = []"
      using quiet_events [OF quiet d(2), of c] o(3) True by (simp add: openai_flush_def List.map_filter_simps)
    ultimately show ?thesis using o(2) d(3) True by simp
  qed
qed

text \<open>C33: end to end, from the bytes of the response to the agent: when an endpoint streams a tool call under
an index, in any number of fragments interleaved with other calls, the provider opens the call once,
passes every fragment on once and in order, also those that came before the call's id and name, and
closes it once; the agent completes the call with exactly the concatenated arguments.
\<close>

theorem openai_call_delivered:
  assumes "openai_stream from_str from_value None (map Inr chunks) = (cs, Inr ())"
    and "fst (sse_feed sse_new chunks) = es"
    and "calls_then_end from_str from_value es"
    and "ds = concat (map (event_calls from_str from_value) es)"
    and "list_all (names_call i c n) ds" "id_seen i ds" "name_seen i ds"
    and "apply_deltas pj (chunk_deltas cs) empty_response = Inr st"
  shows "deltas_of c (chunk_deltas cs) = call_life c n None (arguments_at i ds)
    \<and> (\<exists>call \<in> set (ra_tool_calls st).
         finalize_tool_call pj \<lparr>ac_call_id = c, ac_tool_name = n, ac_initial_arguments = None,
           ac_partial_json = concat (arguments_at i ds)\<rparr> = Inr call)"
proof -
  obtain out accs where d: "decode_events (openai_decode from_str from_value) es [] = (out, Inr accs)"
    "cs = out @ openai_flush accs"
    using assms(1, 2)
    by (auto simp: openai_stream_def stream_response_def decode_bytes_feed split: prod.splits sum.splits)
  have "list_all (\<lambda>e. list_all (names_call i c n) (event_calls from_str from_value e)) es"
    using assms(5) unfolding assms(4) by (auto simp: list_all_iff)
  from decode_events_calls [OF accs_ok_initial d(1) assms(3) this, of ds] assms(4, 6, 7)
  have life: "deltas_of c (chunk_deltas cs) = call_life c n None (arguments_at i ds)" by (simp add: d(2))
  have "open_call c empty_response = None" by (simp add: open_call_def empty_response_def)
  from call_life_completed [OF assms(8) this life] life show ?thesis by blast
qed

text \<open>Two calls whose fragments are interleaved; the first fragment comes before its id.\<close>

definition ex_delta :: "openai_tool_call_delta list \<Rightarrow> string option \<Rightarrow> openai_stream_response" where
  "ex_delta ds finish =
     \<lparr>or_choices = [\<lparr>oc_delta = \<lparr>os_content = None, os_refusal = None, os_reasoning = None,
        os_reasoning_content = None, os_tool_calls = Some ds\<rparr>, oc_finish_reason = finish\<rparr>], or_usage = None\<rparr>"

definition ex_part :: "nat \<Rightarrow> string option \<Rightarrow> string option \<Rightarrow> string \<Rightarrow> openai_tool_call_delta" where
  "ex_part i cid name args = \<lparr>od_index = i, od_id = cid, od_function = Some \<lparr>of_name = name, of_arguments = Some args\<rparr>\<rparr>"

fun ex_from_value :: "json \<Rightarrow> string + openai_stream_response" where
  "ex_from_value (JString s) =
     (if s = ''1'' then Inr (ex_delta [ex_part 1 None (Some ''ls'') ''[''] None)
      else if s = ''2'' then Inr (ex_delta [ex_part 0 (Some ''a'') (Some ''cat'') ''{'', ex_part 1 (Some ''b'') None ''1''] None)
      else if s = ''3'' then Inr (ex_delta [ex_part 1 None None '']'', ex_part 0 None None ''}''] (Some ''tool_calls''))
      else Inl ''unknown'')"
| "ex_from_value v = Inl ''unknown''"

definition ex_response :: "string list" where
  "ex_response = [''data:1'' @ [nl], [nl] @ ''data:2'' @ [nl, nl] @ ''da'', ''ta:3'' @ [nl, nl]]"

definition ex_events :: "sse_event list" where
  "ex_events = map (\<lambda>d. \<lparr>se_event = None, se_data = d\<rparr>) [''1'', ''2'', ''3'']"

lemma ex_response_events: "fst (sse_feed sse_new ex_response) = ex_events"
  by code_simp

definition ex_decoded :: "completion_chunk list \<times> openai_accumulator list result" where
  "ex_decoded = decode_events (openai_decode (\<lambda>s. Inr (JString s)) ex_from_value) ex_events []"

definition ex_calls :: "openai_tool_call_delta list" where
  "ex_calls = [ex_part 1 None (Some ''ls'') ''['', ex_part 0 (Some ''a'') (Some ''cat'') ''{'',
     ex_part 1 (Some ''b'') None ''1'', ex_part 1 None None '']'', ex_part 0 None None ''}'']"

lemma ex_decoded_eq: "chunk_deltas (fst ex_decoded) =
    [OpenToolCall ''a'' ''cat'' None, AppendToolCallArguments ''a'' ''{'', OpenToolCall ''b'' ''ls'' None,
     AppendToolCallArguments ''b'' ''['', AppendToolCallArguments ''b'' ''1'', AppendToolCallArguments ''b'' '']'',
     AppendToolCallArguments ''a'' ''}'', CloseToolCall ''a'', CloseToolCall ''b'']"
  "snd ex_decoded = Inr []"
  by code_simp+

lemma ex_events_calls: "map (event_calls (\<lambda>s. Inr (JString s)) ex_from_value) ex_events =
    [[ex_calls ! 0], [ex_calls ! 1, ex_calls ! 2], [ex_calls ! 3, ex_calls ! 4]]"
  by code_simp

theorem openai_call_delivered_witness:
  "deltas_of ''b'' (chunk_deltas (fst (openai_stream (\<lambda>s. Inr (JString s)) ex_from_value None (map Inr ex_response))))
     = call_life ''b'' ''ls'' None [''['', ''1'', '']'']"
proof -
  let ?fs = "\<lambda>s. Inr (JString s)"
  let ?ds = "concat [[ex_calls ! 0], [ex_calls ! 1, ex_calls ! 2], [ex_calls ! 3, ex_calls ! 4]]"
  let ?pj = "\<lambda>s. Some (JString s)"
  let ?st = "the (case apply_deltas ?pj (chunk_deltas (fst ex_decoded)) empty_response of Inr s \<Rightarrow> Some s | Inl _ \<Rightarrow> None)"
  have "decode_events (openai_decode ?fs ex_from_value) ex_events [] = (fst ex_decoded, Inr [])"
    using ex_decoded_eq(2) unfolding ex_decoded_def by (metis prod.collapse)
  then have stream: "openai_stream ?fs ex_from_value None (map Inr ex_response) = (fst ex_decoded, Inr ())"
    by (simp add: openai_stream_def stream_response_def decode_bytes_feed ex_response_events
        openai_flush_def List.map_filter_simps)
  have "deltas_of ''b'' (chunk_deltas (fst ex_decoded)) = call_life ''b'' ''ls'' None (arguments_at 1 ?ds)"
  proof (rule openai_call_delivered [OF stream ex_response_events, THEN conjunct1])
    show "calls_then_end ?fs ex_from_value ex_events" by code_simp
    show "?ds = concat (map (event_calls ?fs ex_from_value) ex_events)" by (simp only: ex_events_calls)
    show "list_all (names_call 1 ''b'' ''ls'') ?ds" by code_simp
    show "id_seen 1 ?ds" by code_simp
    show "name_seen 1 ?ds" by code_simp
    show "apply_deltas ?pj (chunk_deltas (fst ex_decoded)) empty_response = Inr ?st"
      unfolding ex_decoded_eq(1) by code_simp
  qed
  moreover have "arguments_at 1 ?ds = [''['', ''1'', '']'']" by code_simp
  ultimately show ?thesis by (simp only: stream fst_conv)
qed

end
