(* ===== verification/Bt_Anthropic.thy ===== *)
theory Bt_Anthropic
  imports Bt_Chunks
begin

section \<open>The Anthropic provider\<close>

text \<open>
  \<open>bt-providers/src/anthropic.rs\<close>: the translation of a conversation into alternating user and assistant
  entries of content blocks, and the decoding of the streamed answer. Content blocks are numbered; tool
  uses and thinking blocks under construction are kept in \<open>BTreeMap\<close>s by that number. \<open>pretty\<close> is
  \<open>serde_json::to_string_pretty\<close>.
\<close>

subsection \<open>Streamed responses\<close>

record anthropic_tool_use =
  au_id :: "string option"
  au_name :: "string option"
  au_source_raw :: "json option"

record anthropic_thinking_block =
  ab_thinking :: string
  ab_signature :: string

record anthropic_state =
  as_tool_uses :: "(u64 \<times> anthropic_tool_use) list"
  as_thinking_blocks :: "(u64 \<times> anthropic_thinking_block) list"
  as_prompt_tokens :: u64
  as_completion_tokens :: u64
  as_cache_read_tokens :: "u64 option"
  as_cache_write_tokens :: "u64 option"
  as_reasoning_tokens :: "u64 option"

definition anthropic_tool_use_default :: anthropic_tool_use where
  "anthropic_tool_use_default = \<lparr>au_id = None, au_name = None, au_source_raw = None\<rparr>"

definition anthropic_thinking_default :: anthropic_thinking_block where
  "anthropic_thinking_default = \<lparr>ab_thinking = [], ab_signature = []\<rparr>"

definition anthropic_state_default :: anthropic_state where
  "anthropic_state_default =
     \<lparr>as_tool_uses = [], as_thinking_blocks = [], as_prompt_tokens = 0, as_completion_tokens = 0,
      as_cache_read_tokens = None, as_cache_write_tokens = None, as_reasoning_tokens = None\<rparr>"

definition start_tool_use ::
  "u64 \<Rightarrow> json \<Rightarrow> json \<Rightarrow> anthropic_state \<Rightarrow> completion_delta option \<times> anthropic_state" where
  "start_tool_use i block raw st =
     (let a = (bt_entry anthropic_tool_use_default i (as_tool_uses st))
            \<lparr>au_source_raw := Some raw, au_id := get_str ''id'' block, au_name := get_str ''name'' block\<rparr>
      in (case (au_id a, au_name a) of
            (Some cid, Some name) \<Rightarrow> Some (OpenToolCall cid name (json_get ''input'' block))
          | _ \<Rightarrow> None,
          st\<lparr>as_tool_uses := bt_put i a (as_tool_uses st)\<rparr>))"

definition push_tool_input ::
  "u64 \<Rightarrow> string \<Rightarrow> json \<Rightarrow> anthropic_state \<Rightarrow> completion_delta option \<times> anthropic_state" where
  "push_tool_input i partial_json raw st =
     (let a = (bt_entry anthropic_tool_use_default i (as_tool_uses st))\<lparr>au_source_raw := Some raw\<rparr>
      in (map_option (\<lambda>cid. AppendToolCallArguments cid partial_json) (au_id a),
          st\<lparr>as_tool_uses := bt_put i a (as_tool_uses st)\<rparr>))"

definition finish_tool_use ::
  "u64 \<Rightarrow> anthropic_state \<Rightarrow> (completion_delta \<times> json option) option \<times> anthropic_state" where
  "finish_tool_use i st =
     (case map_of (as_tool_uses st) i of
        None \<Rightarrow> (None, st)
      | Some a \<Rightarrow> (map_option (\<lambda>cid. (CloseToolCall cid, au_source_raw a)) (au_id a),
                   st\<lparr>as_tool_uses := bt_del i (as_tool_uses st)\<rparr>))"

fun flush_tool_uses :: "u64 list \<Rightarrow> anthropic_state \<Rightarrow> completion_chunk list" where
  "flush_tool_uses [] st = []"
| "flush_tool_uses (i # is) st =
     (case finish_tool_use i st of
        (Some (d, raw), st) \<Rightarrow> (delta_chunk [d])\<lparr>ck_raw := raw\<rparr> # flush_tool_uses is st
      | (None, st) \<Rightarrow> flush_tool_uses is st)"

definition anthropic_flush :: "anthropic_state \<Rightarrow> completion_chunk list" where
  "anthropic_flush st = flush_tool_uses (map fst (as_tool_uses st)) st"

definition start_thinking :: "u64 \<Rightarrow> string \<Rightarrow> anthropic_state \<Rightarrow> anthropic_state" where
  "start_thinking i initial st =
     (let a = bt_entry anthropic_thinking_default i (as_thinking_blocks st)
      in st\<lparr>as_thinking_blocks := bt_put i (a\<lparr>ab_thinking := ab_thinking a @ initial\<rparr>) (as_thinking_blocks st)\<rparr>)"

definition push_thinking :: "u64 \<Rightarrow> string \<Rightarrow> anthropic_state \<Rightarrow> anthropic_state" where
  "push_thinking i t st =
     (case map_of (as_thinking_blocks st) i of
        None \<Rightarrow> st
      | Some a \<Rightarrow> st\<lparr>as_thinking_blocks := bt_put i (a\<lparr>ab_thinking := ab_thinking a @ t\<rparr>) (as_thinking_blocks st)\<rparr>)"

definition push_signature :: "u64 \<Rightarrow> string \<Rightarrow> anthropic_state \<Rightarrow> anthropic_state" where
  "push_signature i sig st =
     (case map_of (as_thinking_blocks st) i of
        None \<Rightarrow> st
      | Some a \<Rightarrow> st\<lparr>as_thinking_blocks := bt_put i (a\<lparr>ab_signature := ab_signature a @ sig\<rparr>) (as_thinking_blocks st)\<rparr>)"

text \<open>The signed block as the provider must get it back.\<close>

definition thinking_block :: "string \<Rightarrow> string \<Rightarrow> json" where
  "thinking_block thinking signature =
     JObject [(''signature'', JString signature), (''thinking'', JString thinking), (''type'', JString ''thinking'')]"

definition finish_thinking :: "u64 \<Rightarrow> anthropic_state \<Rightarrow> json option \<times> anthropic_state" where
  "finish_thinking i st =
     (case map_of (as_thinking_blocks st) i of
        None \<Rightarrow> (None, st)
      | Some a \<Rightarrow> (if ab_signature a = [] then None else Some (thinking_block (ab_thinking a) (ab_signature a)),
                   st\<lparr>as_thinking_blocks := bt_del i (as_thinking_blocks st)\<rparr>))"

definition set_if_some :: "'a option \<Rightarrow> 'a option \<Rightarrow> 'a option" where
  "set_if_some new old = (case new of Some v \<Rightarrow> Some v | None \<Rightarrow> old)"

definition update_usage :: "json \<Rightarrow> anthropic_state \<Rightarrow> anthropic_state" where
  "update_usage usage st =
     st\<lparr>as_prompt_tokens := (case get_u64 ''input_tokens'' usage of Some n \<Rightarrow> n | None \<Rightarrow> as_prompt_tokens st),
        as_completion_tokens := (case get_u64 ''output_tokens'' usage of Some n \<Rightarrow> n | None \<Rightarrow> as_completion_tokens st),
        as_cache_read_tokens := set_if_some (get_u64 ''cache_read_input_tokens'' usage) (as_cache_read_tokens st),
        as_cache_write_tokens := set_if_some (get_u64 ''cache_creation_input_tokens'' usage) (as_cache_write_tokens st),
        as_reasoning_tokens :=
          set_if_some (Option.bind (json_get ''output_tokens_details'' usage) (get_u64 ''reasoning_tokens''))
            (as_reasoning_tokens st)\<rparr>"

definition usage_snapshot :: "anthropic_state \<Rightarrow> token_usage option" where
  "usage_snapshot st =
     (let total = as_prompt_tokens st + as_completion_tokens st
      in if total = 0 \<and> as_cache_read_tokens st = None \<and> as_cache_write_tokens st = None
            \<and> as_reasoning_tokens st = None
         then None
         else Some \<lparr>prompt_tokens = as_prompt_tokens st, completion_tokens = as_completion_tokens st,
           total_tokens = total, cache_read_tokens = as_cache_read_tokens st,
           cache_write_tokens = as_cache_write_tokens st, reasoning_tokens = as_reasoning_tokens st\<rparr>)"

definition anthropic_replay :: "json \<Rightarrow> json" where
  "anthropic_replay block = JObject [(''block'', block), (''provider'', JString ''anthropic'')]"

definition event_index :: "json \<Rightarrow> u64" where
  "event_index raw = (case get_u64 ''index'' raw of Some i \<Rightarrow> i | None \<Rightarrow> 0)"

definition option_chunk :: "completion_delta option \<Rightarrow> completion_chunk list" where
  "option_chunk d = (case d of Some d \<Rightarrow> [delta_chunk [d]] | None \<Rightarrow> [])"

text \<open>The three events of a content block.\<close>

definition block_start :: "json \<Rightarrow> anthropic_state \<Rightarrow> completion_chunk list \<times> anthropic_state" where
  "block_start raw st =
     (let i = event_index raw
      in case json_get ''content_block'' raw of
        None \<Rightarrow> ([], st)
      | Some block \<Rightarrow>
          let kind = get_str ''type'' block
          in if kind = Some ''text'' then
               (case get_str ''text'' block of
                  Some t \<Rightarrow> if t \<noteq> [] then [delta_chunk [AppendText t]] else []
                | None \<Rightarrow> [], st)
             else if kind = Some ''thinking'' then
               (let t = (case get_str ''thinking'' block of Some t \<Rightarrow> t | None \<Rightarrow> [])
                in (if t \<noteq> [] then [delta_chunk [AppendReasoning (Some t) False None]] else [],
                    start_thinking i t st))
             else if kind = Some ''redacted_thinking'' then
               ([delta_chunk [AppendReasoning None True
                   (map_option (\<lambda>d. anthropic_replay
                       (JObject [(''data'', JString d), (''type'', JString ''redacted_thinking'')]))
                     (get_str ''data'' block))]], st)
             else if kind = Some ''tool_use'' then
               (case start_tool_use i block raw st of (d, st) \<Rightarrow> (option_chunk d, st))
             else ([], st))"

definition block_delta :: "json \<Rightarrow> anthropic_state \<Rightarrow> completion_chunk list \<times> anthropic_state" where
  "block_delta raw st =
     (let i = event_index raw
      in case json_get ''delta'' raw of
        None \<Rightarrow> ([], st)
      | Some delta \<Rightarrow>
          let kind = get_str ''type'' delta
          in if kind = Some ''text_delta'' then
               (option_chunk (map_option AppendText (get_str ''text'' delta)), st)
             else if kind = Some ''thinking_delta'' then
               (case get_str ''thinking'' delta of
                  None \<Rightarrow> ([], st)
                | Some t \<Rightarrow> ([delta_chunk [AppendReasoning (Some t) False None]], push_thinking i t st))
             else if kind = Some ''signature_delta'' then
               (case get_str ''signature'' delta of
                  None \<Rightarrow> ([], st) | Some s \<Rightarrow> ([], push_signature i s st))
             else if kind = Some ''input_json_delta'' then
               (case get_str ''partial_json'' delta of
                  None \<Rightarrow> ([], st)
                | Some p \<Rightarrow> (case push_tool_input i p raw st of (d, st) \<Rightarrow> (option_chunk d, st)))
             else ([], st))"

definition block_stop :: "json \<Rightarrow> anthropic_state \<Rightarrow> completion_chunk list \<times> anthropic_state" where
  "block_stop raw st =
     (let i = event_index raw
      in case finish_tool_use i st of
        (tool, st) \<Rightarrow> (case finish_thinking i st of
          (block, st) \<Rightarrow>
            (option_chunk (map_option fst tool)
             @ option_chunk (map_option (\<lambda>b. AppendReasoning None False (Some (anthropic_replay b))) block), st)))"

definition message_delta_chunks :: "json \<Rightarrow> completion_chunk list" where
  "message_delta_chunks raw =
     (if Option.bind (json_get ''delta'' raw) (get_str ''stop_reason'') = Some ''refusal''
      then [delta_chunk [AppendRefusal None (Some ''refusal'') (json_get ''delta'' raw)]] else [])"

definition anthropic_event_type :: "sse_event \<Rightarrow> json \<Rightarrow> string" where
  "anthropic_event_type event raw =
     (case get_str ''type'' raw of
        Some t \<Rightarrow> t | None \<Rightarrow> (case se_event event of Some t \<Rightarrow> t | None \<Rightarrow> []))"

definition anthropic_event ::
  "string \<Rightarrow> json \<Rightarrow> anthropic_state \<Rightarrow> completion_chunk list \<times> anthropic_state" where
  "anthropic_event kind raw st =
     (case (if kind = ''message_start'' then
              ([], case Option.bind (json_get ''message'' raw) (json_get ''usage'') of
                     Some u \<Rightarrow> update_usage u st | None \<Rightarrow> st)
            else if kind = ''message_delta'' then
              (message_delta_chunks raw,
               case json_get ''usage'' raw of Some u \<Rightarrow> update_usage u st | None \<Rightarrow> st)
            else if kind = ''content_block_start'' then block_start raw st
            else if kind = ''content_block_delta'' then block_delta raw st
            else if kind = ''content_block_stop'' then block_stop raw st
            else ([], st)) of
        (chunks, st) \<Rightarrow>
          let usage = (if kind \<in> {''message_start'', ''message_delta'', ''message_stop''} then usage_snapshot st else None);
              chunks = chunks @ (case usage of Some u \<Rightarrow> [usage_chunk u] | None \<Rightarrow> [])
          in (attach_raw_to_all (or_empty_chunk chunks) raw, st))"

definition anthropic_decode ::
  "(string \<Rightarrow> string + json) \<Rightarrow> sse_event \<Rightarrow> anthropic_state \<Rightarrow> (completion_chunk list \<times> anthropic_state) result" where
  "anthropic_decode from_str event st =
     and_then (serde_result (from_str (se_data event))) (\<lambda>raw.
       Inr (anthropic_event (anthropic_event_type event raw) raw st))"

definition anthropic_stream ::
  "(string \<Rightarrow> string + json) \<Rightarrow> string result list \<Rightarrow> completion_chunk list \<times> unit result" where
  "anthropic_stream from_str items =
     stream_response (anthropic_decode from_str) anthropic_flush anthropic_state_default items"

definition parse_anthropic_model_ids :: "json \<Rightarrow> string list" where
  "parse_anthropic_model_ids payload = string_members ''data'' ''id'' payload"

subsection \<open>Requests\<close>

record anthropic_message =
  an_role :: string
  an_content :: "json list"

record anthropic_tool =
  aw_name :: string
  aw_description :: string
  aw_input_schema :: json

record anthropic_messages_request =
  ar_model :: string
  ar_system :: "string option"
  ar_messages :: "anthropic_message list"
  ar_max_tokens :: nat
  ar_stream :: bool
  ar_temperature :: "f64 option"
  ar_tools :: "anthropic_tool list option"
  ar_thinking_budget :: "u64 option"

definition anthropic_default_max_tokens :: nat where
  "anthropic_default_max_tokens = 4096"

primrec anthropic_role :: "role \<Rightarrow> string" where
  "anthropic_role RUser = ''user''"
| "anthropic_role RAssistant = ''assistant''"
| "anthropic_role RTool = ''user''"
| "anthropic_role RSystem = ''user''"

definition text_block :: "string \<Rightarrow> json" where
  "text_block t = JObject [(''text'', JString t), (''type'', JString ''text'')]"

definition tool_use_block :: "tool_call \<Rightarrow> json" where
  "tool_use_block c =
     JObject [(''id'', JString (tc_call_id c)), (''input'', tc_arguments c), (''name'', JString (tc_tool_name c)),
       (''type'', JString ''tool_use'')]"

definition tool_result_block :: "(json \<Rightarrow> string) \<Rightarrow> tool_result_envelope \<Rightarrow> json" where
  "tool_result_block pretty r =
     JObject [(''content'', JString (value_text pretty (tr_output r))), (''is_error'', JBool (tr_is_error r)),
       (''tool_use_id'', JString (tool_call_id_text (tr_call_id r))), (''type'', JString ''tool_result'')]"

definition anthropic_replay_block :: "json \<Rightarrow> json option" where
  "anthropic_replay_block replay =
     (if get_str ''provider'' replay = Some ''anthropic'' then json_get ''block'' replay else None)"

fun part_blocks :: "(json \<Rightarrow> string) \<Rightarrow> bool \<Rightarrow> message_part \<Rightarrow> json list" where
  "part_blocks pretty thinking (Text t) = [text_block t]"
| "part_blocks pretty thinking (ToolCall c) = [tool_use_block c]"
| "part_blocks pretty thinking (ToolResult r) = [tool_result_block pretty r]"
| "part_blocks pretty thinking (Refusal (Some t) reason meta) = [text_block t]"
| "part_blocks pretty thinking (Structured name v) = [text_block (value_text pretty v)]"
| "part_blocks pretty thinking (Reasoning t redacted (Some replay)) =
     (if thinking then (case anthropic_replay_block replay of Some b \<Rightarrow> [b] | None \<Rightarrow> []) else [])"
| "part_blocks pretty thinking p = []"

definition message_blocks :: "(json \<Rightarrow> string) \<Rightarrow> bool \<Rightarrow> message_part list \<Rightarrow> json list" where
  "message_blocks pretty thinking parts = concat (map (part_blocks pretty thinking) parts)"

fun render_part_as_text :: "(json \<Rightarrow> string) \<Rightarrow> message_part \<Rightarrow> string option" where
  "render_part_as_text pretty (Text t) = Some t"
| "render_part_as_text pretty (ToolCall c) =
     Some (''Tool call '' @ tc_tool_name c @ ''('' @ value_text pretty (tc_arguments c) @ '')'')"
| "render_part_as_text pretty (ToolResult r) = Some (value_text pretty (tr_output r))"
| "render_part_as_text pretty (Refusal (Some t) reason meta) = Some t"
| "render_part_as_text pretty (Structured name v) = Some (value_text pretty v)"
| "render_part_as_text pretty p = None"

definition render_system_message :: "(json \<Rightarrow> string) \<Rightarrow> message_part list \<Rightarrow> string" where
  "render_system_message pretty parts = join_with [nl] (List.map_filter (render_part_as_text pretty) parts)"

definition push_entry :: "anthropic_message list \<Rightarrow> string \<Rightarrow> json list \<Rightarrow> anthropic_message list" where
  "push_entry translated role content =
     (if content = [] then translated
      else if translated \<noteq> [] \<and> an_role (last translated) = role
      then butlast translated @ [(last translated)\<lparr>an_content := an_content (last translated) @ content\<rparr>]
      else translated @ [\<lparr>an_role = role, an_content = content\<rparr>])"

fun translate_messages ::
  "(json \<Rightarrow> string) \<Rightarrow> bool \<Rightarrow> message list \<Rightarrow> string list \<Rightarrow> anthropic_message list
     \<Rightarrow> string list \<times> anthropic_message list" where
  "translate_messages pretty thinking [] system translated = (system, translated)"
| "translate_messages pretty thinking (m # ms) system translated =
     (if m_role m = RSystem
      then translate_messages pretty thinking ms (system @ [render_system_message pretty (m_parts m)]) translated
      else translate_messages pretty thinking ms system
        (push_entry translated (anthropic_role (m_role m)) (message_blocks pretty thinking (m_parts m))))"

definition messages_to_anthropic ::
  "(json \<Rightarrow> string) \<Rightarrow> string option \<Rightarrow> message list \<Rightarrow> bool \<Rightarrow> string option \<times> anthropic_message list" where
  "messages_to_anthropic pretty system_prompt ms thinking =
     (case translate_messages pretty thinking ms
         (case system_prompt of Some s \<Rightarrow> if str_trim s \<noteq> [] then [s] else [] | None \<Rightarrow> []) [] of
        (system, translated) \<Rightarrow> (if system \<noteq> [] then Some (join_with [nl, nl] system) else None, translated))"

definition thinking_to_anthropic :: "thinking_config \<Rightarrow> u64 option" where
  "thinking_to_anthropic t =
     (if \<not> th_enabled t then None
      else Some (case th_budget_tokens t of Some b \<Rightarrow> b | None \<Rightarrow> 1024))"

definition tool_spec_to_anthropic :: "tool_spec \<Rightarrow> anthropic_tool" where
  "tool_spec_to_anthropic t =
     \<lparr>aw_name = ts_name t, aw_description = ts_description t, aw_input_schema = ts_parameters_schema t\<rparr>"

definition build_anthropic_request :: "(json \<Rightarrow> string) \<Rightarrow> completion_request \<Rightarrow> anthropic_messages_request" where
  "build_anthropic_request pretty rq =
     (let thinking = Option.bind (cq_thinking rq) thinking_to_anthropic
      in case messages_to_anthropic pretty (cq_system_prompt rq) (cq_messages rq) (thinking \<noteq> None) of
        (system, messages) \<Rightarrow>
          \<lparr>ar_model = cq_model rq, ar_system = system, ar_messages = messages,
           ar_max_tokens = (case cq_max_tokens rq of Some n \<Rightarrow> n | None \<Rightarrow> anthropic_default_max_tokens),
           ar_stream = True, ar_temperature = cq_temperature rq,
           ar_tools = (if cq_tools rq \<noteq> [] then Some (map tool_spec_to_anthropic (cq_tools rq)) else None),
           ar_thinking_budget = thinking\<rparr>)"

definition anthropic_accepts :: "completion_request \<Rightarrow> unit result" where
  "anthropic_accepts rq =
     guard_err (cq_structured_output rq \<noteq> None) (Unsupported ''structured output is not supported for anthropic yet'')"

end
