(* ===== verification/Bt_AnthropicProps.thy ===== *)
theory Bt_AnthropicProps
  imports Bt_Anthropic Bt_TurnProps
begin

section \<open>What the Anthropic provider sends and keeps\<close>

text \<open>
  Anthropic accepts a request only when user and assistant entries alternate and every tool use is
  answered at the start of the next entry, and it wants a signed thinking block back unchanged. Both are
  promises of the translation: the first composed with the turn loop, whose transcripts it translates,
  the second from the stream that delivers the block to the request that replays it.
\<close>

subsection \<open>Answered calls\<close>

definition block_is :: "string \<Rightarrow> json \<Rightarrow> bool" where
  "block_is kind b \<longleftrightarrow> get_str ''type'' b = Some kind"

definition use_ids :: "json list \<Rightarrow> string list" where
  "use_ids bs = List.map_filter (get_str ''id'') (filter (block_is ''tool_use'') bs)"

definition result_ids :: "json list \<Rightarrow> string list" where
  "result_ids bs = List.map_filter (get_str ''tool_use_id'') (filter (block_is ''tool_result'') bs)"

lemma ids_append [simp]:
  "use_ids (xs @ ys) = use_ids xs @ use_ids ys" "result_ids (xs @ ys) = result_ids xs @ result_ids ys"
  "use_ids [] = []" "result_ids [] = []"
  by (simp_all add: use_ids_def result_ids_def map_filter_def)

text \<open>The results of an entry are those of the tool uses of the entry before it, in order. The run
  yields the tool uses still to be answered.\<close>

fun answer_run :: "string list \<Rightarrow> anthropic_message list \<Rightarrow> string list option" where
  "answer_run due [] = Some due"
| "answer_run due (e # es) =
     (if result_ids (an_content e) = due then answer_run (use_ids (an_content e)) es else None)"

lemma answer_run_append:
  "answer_run due (xs @ ys) = (case answer_run due xs of None \<Rightarrow> None | Some d \<Rightarrow> answer_run d ys)"
  by (induction due xs rule: answer_run.induct) auto

definition alternating :: "anthropic_message list \<Rightarrow> bool" where
  "alternating es \<longleftrightarrow> successively (\<lambda>a b. an_role a \<noteq> an_role b) es"

definition entries_ok :: "anthropic_message list \<Rightarrow> string list \<Rightarrow> bool" where
  "entries_ok es due \<longleftrightarrow> answer_run [] es = Some due \<and> alternating es \<and> list_all (\<lambda>e. an_content e \<noteq> []) es"

lemma entries_ok_Nil: "entries_ok [] []"
  by (simp add: entries_ok_def alternating_def)

text \<open>The two ways an entry list grows.\<close>

lemma push_new:
  assumes "entries_ok es due" "content \<noteq> []" "es = [] \<or> an_role (last es) \<noteq> role" "result_ids content = due"
  shows "entries_ok (push_entry es role content) (use_ids content)"
  using assms
  by (auto simp: entries_ok_def push_entry_def answer_run_append alternating_def successively_append_iff)

lemma alternating_snoc: "alternating (b @ [x]) \<longleftrightarrow> alternating b \<and> (b = [] \<or> an_role (last b) \<noteq> an_role x)"
  by (auto simp: alternating_def successively_append_iff)

lemma push_merge:
  assumes "entries_ok es []" "es \<noteq> []" "an_role (last es) = role" "result_ids content = []" "content \<noteq> []"
  shows "entries_ok (push_entry es role content) (use_ids content)"
proof -
  obtain b l where es: "es = b @ [l]" using assms(2) by (cases es rule: rev_cases) auto
  have "an_role l = role" using assms(3) es by simp
  then have push: "push_entry es role content = b @ [l\<lparr>an_content := an_content l @ content\<rparr>]"
    using assms(5) by (simp add: push_entry_def es)
  have run: "answer_run [] b = Some (result_ids (an_content l))" "use_ids (an_content l) = []"
    using assms(1) by (auto simp: entries_ok_def es answer_run_append split: option.splits if_splits)
  show ?thesis
    using assms(1, 4, 5) run unfolding push by (simp add: entries_ok_def es answer_run_append alternating_snoc)
qed

lemma push_entry_ok:
  assumes "entries_ok es []" "result_ids content = []"
  shows "entries_ok (push_entry es role content) (use_ids content)"
proof (cases "content = [] \<or> es = [] \<or> an_role (last es) \<noteq> role")
  case True
  then show ?thesis using assms push_new [OF assms(1), of content role] by (auto simp: push_entry_def)
qed (use push_merge assms in simp)

subsection \<open>Conversations\<close>

text \<open>A replayed block is not itself a tool block; the providers only keep thinking blocks.\<close>

fun safe_replay :: "message_part \<Rightarrow> bool" where
  "safe_replay (Reasoning t redacted (Some replay)) \<longleftrightarrow>
     (case anthropic_replay_block replay of
        Some b \<Rightarrow> \<not> block_is ''tool_use'' b \<and> \<not> block_is ''tool_result'' b | None \<Rightarrow> True)"
| "safe_replay p \<longleftrightarrow> True"

definition plain_message :: "message \<Rightarrow> bool" where
  "plain_message m \<longleftrightarrow> \<not> list_ex is_call_or_result (m_parts m) \<and> list_all safe_replay (m_parts m)"

inductive conversation :: "message list \<Rightarrow> bool" where
  conv_empty: "conversation []"
| conv_plain: "conversation ms \<Longrightarrow> plain_message m \<Longrightarrow> conversation (ms @ [m])"
| conv_call: "conversation ms \<Longrightarrow> tr_call_id r = pc_call_id c
    \<Longrightarrow> conversation (ms @ [tool_call_message stamp c, tool_result_message stamp' r])"

lemma text_block_ids [simp]: "use_ids [text_block t] = []" "result_ids [text_block t] = []"
  by (simp_all add: use_ids_def result_ids_def block_is_def text_block_def get_str_def List.map_filter_simps)

lemma plain_part_ids:
  assumes p: "\<not> is_call_or_result p" "safe_replay p"
  shows "use_ids (part_blocks pretty thinking p) = []" "result_ids (part_blocks pretty thinking p) = []"
proof -
  have "use_ids (part_blocks pretty thinking p) = [] \<and> result_ids (part_blocks pretty thinking p) = []"
  proof (cases p)
    case r: (Reasoning t redacted replay)
    show ?thesis
    proof (cases "thinking \<and> (\<exists>v b. replay = Some v \<and> anthropic_replay_block v = Some b)")
      case True
      then obtain v b where "replay = Some v" "anthropic_replay_block v = Some b" by blast
      then show ?thesis using p(2) True by (simp add: r use_ids_def result_ids_def List.map_filter_simps)
    next
      case False
      then have "part_blocks pretty thinking p = []" by (cases replay) (auto simp: r split: option.split)
      then show ?thesis by simp
    qed
  next
    case (Refusal t reason meta)
    then show ?thesis by (cases t) simp_all
  qed (insert p(1), auto)
  then show "use_ids (part_blocks pretty thinking p) = []" "result_ids (part_blocks pretty thinking p) = []" by simp_all
qed

lemma plain_message_ids:
  assumes "plain_message m"
  shows "use_ids (message_blocks pretty thinking (m_parts m)) = []"
    "result_ids (message_blocks pretty thinking (m_parts m)) = []"
proof -
  have "\<not> list_ex is_call_or_result ps \<Longrightarrow> list_all safe_replay ps \<Longrightarrow>
    use_ids (message_blocks pretty thinking ps) = [] \<and> result_ids (message_blocks pretty thinking ps) = []" for ps
    by (induction ps) (simp_all add: message_blocks_def plain_part_ids)
  with assms show "use_ids (message_blocks pretty thinking (m_parts m)) = []"
    "result_ids (message_blocks pretty thinking (m_parts m)) = []"
    by (auto simp: plain_message_def)
qed

lemma call_message_blocks:
  "message_blocks pretty thinking (m_parts (tool_call_message stamp c)) \<noteq> []"
  "use_ids (message_blocks pretty thinking (m_parts (tool_call_message stamp c))) = [tool_call_id_text (pc_call_id c)]"
  "result_ids (message_blocks pretty thinking (m_parts (tool_call_message stamp c))) = []"
  "message_blocks pretty thinking (m_parts (tool_result_message stamp r)) \<noteq> []"
  "use_ids (message_blocks pretty thinking (m_parts (tool_result_message stamp r))) = []"
  "result_ids (message_blocks pretty thinking (m_parts (tool_result_message stamp r))) = [tool_call_id_text (tr_call_id r)]"
  by (simp_all add: message_blocks_def tool_call_message_def tool_result_message_def tool_use_block_def
      tool_result_block_def use_ids_def result_ids_def block_is_def get_str_def List.map_filter_simps)

lemma last_push_entry: "content \<noteq> [] \<Longrightarrow> an_role (last (push_entry es role content)) = role \<and> push_entry es role content \<noteq> []"
  by (simp add: push_entry_def)

lemma translate_append:
  "translate_messages pretty thinking (ms @ ns) system es =
     (case translate_messages pretty thinking ms system es of
        (system, es) \<Rightarrow> translate_messages pretty thinking ns system es)"
  by (induction ms arbitrary: system es) auto

lemma translate_call:
  assumes "entries_ok es []" "tr_call_id r = pc_call_id c"
  shows "\<exists>es'. translate_messages pretty thinking [tool_call_message stamp c, tool_result_message stamp' r] system es
      = (system, es') \<and> entries_ok es' []"
proof -
  let ?use = "message_blocks pretty thinking (m_parts (tool_call_message stamp c))"
  let ?res = "message_blocks pretty thinking (m_parts (tool_result_message stamp' r))"
  let ?mid = "push_entry es ''assistant'' ?use"
  have "entries_ok ?mid [tool_call_id_text (pc_call_id c)]"
    using push_entry_ok [OF assms(1), of ?use "''assistant''"] by (simp add: call_message_blocks)
  then have "entries_ok (push_entry ?mid ''user'' ?res) (use_ids ?res)"
    using assms(2) last_push_entry [of ?use es "''assistant''"] by (intro push_new) (simp_all add: call_message_blocks)
  then have "entries_ok (push_entry ?mid ''user'' ?res) []" by (simp only: call_message_blocks)
  moreover have "m_role (tool_call_message stamp c) = RAssistant" "m_role (tool_result_message stamp' r) = RTool"
    by (simp_all add: tool_call_message_def tool_result_message_def)
  ultimately show ?thesis by simp
qed

lemma translate_plain:
  assumes "entries_ok es []" "plain_message m"
  shows "\<exists>system' es'. translate_messages pretty thinking [m] system es = (system', es') \<and> entries_ok es' []"
  using push_entry_ok [OF assms(1) plain_message_ids(2) [OF assms(2)]] plain_message_ids(1) [OF assms(2)] assms(1)
  by simp

lemma translate_conversation:
  "conversation ms \<Longrightarrow> entries_ok es [] \<Longrightarrow>
     \<exists>system' es'. translate_messages pretty thinking ms system es = (system', es') \<and> entries_ok es' []"
proof (induction rule: conversation.induct)
  case (conv_plain ms m)
  then obtain system' es' where t: "translate_messages pretty thinking ms system es = (system', es')" "entries_ok es' []"
    by blast
  from translate_plain [OF t(2) conv_plain.hyps(2)] show ?case
    unfolding translate_append t(1) by (simp only: prod.case)
next
  case (conv_call ms r c stamp stamp')
  then obtain system' es' where t: "translate_messages pretty thinking ms system es = (system', es')" "entries_ok es' []"
    by blast
  from translate_call [OF t(2) conv_call.hyps(2)] show ?case
    unfolding translate_append t(1) prod.case by blast
qed simp

text \<open>No block is lost and none is reordered.\<close>

lemma push_entry_content: "concat (map an_content (push_entry es role content)) = concat (map an_content es) @ content"
  by (cases es rule: rev_cases) (auto simp: push_entry_def)

definition sent_blocks :: "(json \<Rightarrow> string) \<Rightarrow> bool \<Rightarrow> message list \<Rightarrow> json list" where
  "sent_blocks pretty thinking ms =
     concat (map (\<lambda>m. message_blocks pretty thinking (m_parts m)) (filter (\<lambda>m. m_role m \<noteq> RSystem) ms))"

lemma translate_content:
  "translate_messages pretty thinking ms system es = (system', es') \<Longrightarrow>
     concat (map an_content es') = concat (map an_content es) @ sent_blocks pretty thinking ms"
  by (induction ms arbitrary: system es)
    (auto simp: sent_blocks_def push_entry_content split: if_splits)

lemma conversation_append: "conversation ns \<Longrightarrow> conversation ms \<Longrightarrow> conversation (ms @ ns)"
proof (induction rule: conversation.induct)
  case (conv_plain ns m)
  then show ?case using conversation.conv_plain [of "ms @ ns" m] by simp
next
  case (conv_call ns r c stamp stamp')
  then show ?case using conversation.conv_call [of "ms @ ns" r c stamp stamp'] by simp
qed simp

lemma settled_conversation:
  "settled ms rs \<Longrightarrow> list_all (\<lambda>m. list_all safe_replay (m_parts m)) ms \<Longrightarrow> conversation ms"
  by (induction rule: settled.induct) (auto intro: conversation.intros simp: plain_message_def)

text \<open>C34: after any turn that ends without waiting, the request built for Anthropic from the history and the
turn's transcript is one the endpoint accepts: entries alternate between user and assistant and are not
empty, every tool use is answered by the results at the next entry and nothing else is, and all blocks
are there in order.
\<close>

theorem anthropic_request_pairs_calls:
  assumes "tools_echo env"
    and "run_turn k env rq w = Some (Inr r, w')" "pending_call r = None"
    and "conversation earlier" "list_all (\<lambda>m. list_all safe_replay (m_parts m)) (tu_messages r)"
    and "messages_to_anthropic pretty prompt (earlier @ tu_messages r) thinking = (system, es)"
  shows "alternating es \<and> list_all (\<lambda>e. an_content e \<noteq> []) es \<and> answer_run [] es = Some []
    \<and> concat (map an_content es) = sent_blocks pretty thinking (earlier @ tu_messages r)"
proof -
  from turn_loop_invariant [OF observes_trivial assms(1) initial_locals_ok TrueI assms(2) [unfolded run_turn_def]]
  have "settled (tu_messages r) (tu_tool_results r)" using assms(3) by (simp add: result_ok_def)
  then have conv: "conversation (earlier @ tu_messages r)"
    using assms(4, 5) by (auto intro: conversation_append settled_conversation)
  from assms(6) obtain sys sys' where t: "translate_messages pretty thinking (earlier @ tu_messages r) sys [] = (sys', es)"
    by (auto simp: messages_to_anthropic_def split: prod.splits)
  from translate_conversation [OF conv entries_ok_Nil] t have "entries_ok es []" by (metis prod.inject)
  then show ?thesis using translate_content [OF t] by (simp add: entries_ok_def)
qed

definition demo_history :: "message list" where
  "demo_history = [message_text (MessageId ''u'') 0 RUser ''go'']"

theorem anthropic_request_pairs_calls_witness:
  "\<exists>r w. demo_turn Never None = Some (Inr r, w) \<and>
     answer_run [] (snd (messages_to_anthropic (\<lambda>_. ''v'') None (demo_history @ tu_messages r) False)) = Some []
   \<and> map an_role (snd (messages_to_anthropic (\<lambda>_. ''v'') None (demo_history @ tu_messages r) False))
       = [''user'', ''assistant'', ''user'', ''assistant'']"
proof -
  let ?x = "demo_turn Never None"
  let ?r = "the (result_of_run ?x)"
  let ?q = "\<lambda>r. messages_to_anthropic (\<lambda>_. ''v'') None (demo_history @ tu_messages r) False"
  have "map_option (\<lambda>r. (pending_call r, list_all (\<lambda>m. list_all safe_replay (m_parts m)) (tu_messages r),
      map an_role (snd (?q r)))) (result_of_run ?x) = Some (None, True, [''user'', ''assistant'', ''user'', ''assistant''])"
    by code_simp
  then obtain r where "result_of_run ?x = Some r" and l: "pending_call r = None"
    "list_all (\<lambda>m. list_all safe_replay (m_parts m)) (tu_messages r)"
    "map an_role (snd (?q r)) = [''user'', ''assistant'', ''user'', ''assistant'']"
    by auto
  then obtain w where w: "?x = Some (Inr r, w)" by (auto simp: result_of_run_eq)
  have "plain_message (message_text (MessageId ''u'') 0 RUser ''go'')" by code_simp
  then have h: "conversation demo_history"
    using conv_plain [OF conv_empty] by (simp add: demo_history_def)
  have "answer_run [] (snd (?q r)) = Some []"
    using anthropic_request_pairs_calls [OF demo_echo w [unfolded demo_turn_def] l(1) h l(2)
        prod.collapse [of "?q r", symmetric]] by blast
  then show ?thesis using w l(3) by (intro exI [of _ r] exI [of _ w] conjI)
qed

subsection \<open>Signed thinking\<close>

text \<open>Events with their types, one after the other.\<close>

fun anthropic_run :: "(string \<times> json) list \<Rightarrow> anthropic_state \<Rightarrow> completion_chunk list \<times> anthropic_state" where
  "anthropic_run [] st = ([], st)"
| "anthropic_run ((kind, raw) # es) st =
     (case anthropic_event kind raw st of
        (cs, st) \<Rightarrow> (case anthropic_run es st of (ds, st) \<Rightarrow> (cs @ ds, st)))"

lemma decode_events_run:
  assumes "decode_events (anthropic_decode from_str) es st = (cs, Inr st')"
  shows "\<exists>raws. map from_str (map se_data es) = map Inr raws
    \<and> anthropic_run (zip (map2 anthropic_event_type es raws) raws) st = (cs, st')"
  using assms
proof (induction es arbitrary: st cs)
  case (Cons e es)
  obtain cs1 st1 cs2 where d: "anthropic_decode from_str e st = Inr (cs1, st1)"
    and 2: "decode_events (anthropic_decode from_str) es st1 = (cs2, Inr st')" "cs = cs1 @ cs2"
    by (rule decode_events_Cons_Inr [OF Cons.prems])
  from d obtain raw where raw: "from_str (se_data e) = Inr raw"
    and 1: "anthropic_event (anthropic_event_type e raw) raw st = (cs1, st1)"
    by (auto simp: anthropic_decode_def serde_result_def split: sum.splits)
  from Cons.IH [OF 2(1)] obtain raws where "map from_str (map se_data es) = map Inr raws"
    "anthropic_run (zip (map2 anthropic_event_type es raws) raws) st1 = (cs2, st')" by blast
  then show ?case using raw 1 2(2) by (intro exI [of _ "raw # raws"]) simp
qed simp

text \<open>The block at index \<open>i\<close>: what an event adds to it, and whether it starts or stops it.\<close>

definition delta_member :: "string \<Rightarrow> string \<Rightarrow> u64 \<Rightarrow> string \<times> json \<Rightarrow> string" where
  "delta_member kind member i e =
     (case e of (event, raw) \<Rightarrow>
       if event = ''content_block_delta'' \<and> event_index raw = i
          \<and> Option.bind (json_get ''delta'' raw) (get_str ''type'') = Some kind
       then (case Option.bind (json_get ''delta'' raw) (get_str member) of Some t \<Rightarrow> t | None \<Rightarrow> []) else [])"

abbreviation thinking_of :: "u64 \<Rightarrow> string \<times> json \<Rightarrow> string" where
  "thinking_of \<equiv> delta_member ''thinking_delta'' ''thinking''"

abbreviation signature_of :: "u64 \<Rightarrow> string \<times> json \<Rightarrow> string" where
  "signature_of \<equiv> delta_member ''signature_delta'' ''signature''"

definition block_bound :: "u64 \<Rightarrow> string \<times> json \<Rightarrow> bool" where
  "block_bound i e \<longleftrightarrow>
     (fst e = ''content_block_start'' \<or> fst e = ''content_block_stop'') \<and> event_index (snd e) = i"

abbreviation thinking_at :: "u64 \<Rightarrow> anthropic_state \<Rightarrow> anthropic_thinking_block option" where
  "thinking_at i st \<equiv> map_of (as_thinking_blocks st) i"

lemma tool_steps_keep_thinking [simp]:
  "as_thinking_blocks (snd (start_tool_use i block raw st)) = as_thinking_blocks st"
  "as_thinking_blocks (snd (push_tool_input i p raw st)) = as_thinking_blocks st"
  "as_thinking_blocks (snd (finish_tool_use i st)) = as_thinking_blocks st"
  "as_thinking_blocks (update_usage u st) = as_thinking_blocks st"
  by (auto simp: start_tool_use_def push_tool_input_def finish_tool_use_def update_usage_def Let_def split: option.splits)

lemma thinking_at_steps:
  "thinking_at j (start_thinking i t st) =
     (if j = i then Some ((bt_entry anthropic_thinking_default i (as_thinking_blocks st))
        \<lparr>ab_thinking := ab_thinking (bt_entry anthropic_thinking_default i (as_thinking_blocks st)) @ t\<rparr>)
      else thinking_at j st)"
  "thinking_at j (push_thinking i t st) =
     (if j = i then map_option (\<lambda>a. a\<lparr>ab_thinking := ab_thinking a @ t\<rparr>) (thinking_at i st) else thinking_at j st)"
  "thinking_at j (push_signature i t st) =
     (if j = i then map_option (\<lambda>a. a\<lparr>ab_signature := ab_signature a @ t\<rparr>) (thinking_at i st) else thinking_at j st)"
  "thinking_at j (snd (finish_thinking i st)) = (if j = i then None else thinking_at j st)"
  by (auto simp: start_thinking_def push_thinking_def push_signature_def finish_thinking_def Let_def split: option.splits)

lemma block_start_thinking: "event_index raw \<noteq> i \<Longrightarrow> thinking_at i (snd (block_start raw st)) = thinking_at i st"
  by (simp add: block_start_def Let_def thinking_at_steps prod.case_eq_if split: option.split)

lemma block_stop_thinking: "event_index raw \<noteq> i \<Longrightarrow> thinking_at i (snd (block_stop raw st)) = thinking_at i st"
  by (simp add: block_stop_def Let_def thinking_at_steps prod.case_eq_if)

lemma block_delta_thinking:
  "thinking_at i (snd (block_delta raw st)) =
     map_option (\<lambda>a. a\<lparr>ab_thinking := ab_thinking a @ thinking_of i (''content_block_delta'', raw),
       ab_signature := ab_signature a @ signature_of i (''content_block_delta'', raw)\<rparr>) (thinking_at i st)"
  by (cases "thinking_at i st"; cases "json_get ''delta'' raw")
    (auto simp: block_delta_def Let_def thinking_at_steps prod.case_eq_if delta_member_def split: option.split)

lemma anthropic_event_thinking:
  assumes "\<not> block_bound i (kind, raw)"
  shows "thinking_at i (snd (anthropic_event kind raw st)) =
     map_option (\<lambda>a. a\<lparr>ab_thinking := ab_thinking a @ thinking_of i (kind, raw),
       ab_signature := ab_signature a @ signature_of i (kind, raw)\<rparr>) (thinking_at i st)"
proof (cases "kind = ''content_block_delta''")
  case True
  then show ?thesis by (simp add: anthropic_event_def Let_def prod.case_eq_if block_delta_thinking)
next
  case False
  then have none: "thinking_of i (kind, raw) = []" "signature_of i (kind, raw) = []"
    by (simp_all add: delta_member_def)
  have "thinking_at i (snd (anthropic_event kind raw st)) = thinking_at i st"
  proof (cases "kind = ''content_block_start'' \<or> kind = ''content_block_stop''")
    case True
    then have "event_index raw \<noteq> i" using assms by (auto simp: block_bound_def)
    then show ?thesis
      using True by (auto simp: anthropic_event_def Let_def prod.case_eq_if block_start_thinking block_stop_thinking)
  next
    case False
    then show ?thesis
      using \<open>kind \<noteq> ''content_block_delta''\<close>
      by (simp add: anthropic_event_def Let_def prod.case_eq_if split: option.split)
  qed
  then show ?thesis by (cases "thinking_at i st") (simp_all add: none)
qed

lemma anthropic_run_append:
  "anthropic_run (xs @ ys) st =
     (case anthropic_run xs st of (cs, st) \<Rightarrow> (case anthropic_run ys st of (ds, st) \<Rightarrow> (cs @ ds, st)))"
  by (induction xs st rule: anthropic_run.induct) (auto split: prod.splits)

lemma anthropic_run_thinking:
  "list_all (\<lambda>e. \<not> block_bound i e) es \<Longrightarrow> thinking_at i st = Some a \<Longrightarrow>
     thinking_at i (snd (anthropic_run es st)) =
       Some (a\<lparr>ab_thinking := ab_thinking a @ concat (map (thinking_of i) es),
         ab_signature := ab_signature a @ concat (map (signature_of i) es)\<rparr>)"
proof (induction es st arbitrary: a rule: anthropic_run.induct)
  case (2 kind raw es st)
  obtain cs1 st1 where 1: "anthropic_event kind raw st = (cs1, st1)" by fastforce
  have "thinking_at i st1 = Some (a\<lparr>ab_thinking := ab_thinking a @ thinking_of i (kind, raw),
       ab_signature := ab_signature a @ signature_of i (kind, raw)\<rparr>)"
    using anthropic_event_thinking [of i kind raw st] "2.prems" 1 by simp
  from "2.IH" [OF 1 [symmetric] _ this] "2.prems"(1) show ?case by (simp add: 1 prod.case_eq_if)
qed simp

definition starts_thinking :: "u64 \<Rightarrow> string \<Rightarrow> json \<Rightarrow> bool" where
  "starts_thinking i initial raw \<longleftrightarrow> event_index raw = i
     \<and> Option.bind (json_get ''content_block'' raw) (get_str ''type'') = Some ''thinking''
     \<and> (case Option.bind (json_get ''content_block'' raw) (get_str ''thinking'') of Some t \<Rightarrow> t | None \<Rightarrow> []) = initial"

lemma block_start_starts:
  "starts_thinking i initial raw \<Longrightarrow> thinking_at i st = None \<Longrightarrow>
     thinking_at i (snd (anthropic_event ''content_block_start'' raw st)) = Some \<lparr>ab_thinking = initial, ab_signature = []\<rparr>"
  by (cases "json_get ''content_block'' raw")
    (auto simp: anthropic_event_def starts_thinking_def block_start_def Let_def prod.case_eq_if thinking_at_steps
      bt_entry_def anthropic_thinking_default_def)

lemma block_stop_emits:
  assumes "thinking_at i st = Some a" "ab_signature a \<noteq> []" "event_index raw = i"
  shows "AppendReasoning None False (Some (anthropic_replay (thinking_block (ab_thinking a) (ab_signature a))))
    \<in> set (chunk_deltas (fst (anthropic_event ''content_block_stop'' raw st)))"
proof -
  have "thinking_at i (snd (finish_tool_use i st)) = Some a" using assms(1) by simp
  then have "fst (finish_thinking i (snd (finish_tool_use i st))) = Some (thinking_block (ab_thinking a) (ab_signature a))"
    using assms(2) by (simp add: finish_thinking_def)
  then show ?thesis
    using assms(3)
    by (simp add: anthropic_event_def block_stop_def Let_def prod.case_eq_if option_chunk_def)
qed

text \<open>A part that bears a replay is never merged with another.\<close>

lemma replay_part_kept:
  "Reasoning t r (Some v) \<in> set ps \<Longrightarrow> Reasoning t r (Some v) \<in> set (push_message_part ps p)"
  "Reasoning t r (Some v) \<in> set (push_message_part ps (Reasoning t r (Some v)))"
proof -
  have merged: "coalesce_with p (Reasoning t r (Some v)) = None" "coalesce_with (Reasoning t r (Some v)) p = None" for p
    by (cases p; simp add: coalesce_with_def)+
  show "Reasoning t r (Some v) \<in> set (push_message_part ps (Reasoning t r (Some v)))"
    by (simp add: push_message_part_def merged)
  assume p: "Reasoning t r (Some v) \<in> set ps"
  then obtain qs q where "ps = qs @ [q]" by (cases ps rule: rev_cases) auto
  with p show "Reasoning t r (Some v) \<in> set (push_message_part ps p)"
    by (cases "q = Reasoning t r (Some v)") (auto simp: push_message_part_def merged split: option.split)
qed

lemma replay_delta_kept:
  "apply_deltas pj ds st = Inr st' \<Longrightarrow>
     Reasoning t r (Some v) \<in> set (ra_assistant_parts st) \<or> AppendReasoning t r (Some v) \<in> set ds \<Longrightarrow>
     Reasoning t r (Some v) \<in> set (ra_assistant_parts st')"
proof (induction ds arbitrary: st)
  case (Cons d ds)
  from Cons.prems(1) obtain s where s: "apply_delta pj d st = Inr s" "apply_deltas pj ds s = Inr st'"
    by (auto simp: and_then_eq_Inr)
  have "Reasoning t r (Some v) \<in> set (ra_assistant_parts s) \<or> AppendReasoning t r (Some v) \<in> set ds"
  proof (cases "AppendReasoning t r (Some v) \<in> set ds \<or> d = AppendReasoning t r (Some v)")
    case True
    then show ?thesis using s(1) by (auto simp: push_assistant_part_def replay_part_kept)
  next
    case False
    then have "Reasoning t r (Some v) \<in> set (ra_assistant_parts st)" using Cons.prems(2) by auto
    then show ?thesis
      using s(1) by (cases d) (auto simp: push_assistant_part_def replay_part_kept and_then_eq_Inr)
  qed
  then show ?case by (rule Cons.IH [OF s(2)])
qed simp

text \<open>C35: a signed thinking block survives the round trip: streamed under an index in any number of thinking
and signature fragments, with other blocks in between, it becomes one part of the assistant's message,
which the next request with thinking turns back into the very block, the whole text and the whole
signature.
\<close>

theorem signed_thinking_replayed:
  assumes "anthropic_run ((''content_block_start'', first) # mid @ [(''content_block_stop'', final)]) st = (cs, st')"
    and "thinking_at i st = None" "starts_thinking i initial first" "event_index final = i"
    and "list_all (\<lambda>e. \<not> block_bound i e) mid"
    and "concat (map (signature_of i) mid) \<noteq> []"
    and "apply_deltas pj (chunk_deltas cs) response = Inr response'"
  shows "thinking_block (initial @ concat (map (thinking_of i) mid)) (concat (map (signature_of i) mid))
    \<in> set (message_blocks pretty True (ra_assistant_parts response'))"
proof -
  let ?b = "thinking_block (initial @ concat (map (thinking_of i) mid)) (concat (map (signature_of i) mid))"
  obtain cs1 st1 where 1: "anthropic_event ''content_block_start'' first st = (cs1, st1)" by fastforce
  obtain cs2 st2 where 2: "anthropic_run mid st1 = (cs2, st2)" by fastforce
  have "thinking_at i st1 = Some \<lparr>ab_thinking = initial, ab_signature = []\<rparr>"
    using block_start_starts [OF assms(3, 2)] 1 by simp
  from anthropic_run_thinking [OF assms(5) this] 2
  have "thinking_at i st2 = Some \<lparr>ab_thinking = initial @ concat (map (thinking_of i) mid),
      ab_signature = concat (map (signature_of i) mid)\<rparr>" by simp
  from block_stop_emits [OF this _ assms(4)] assms(6)
  have "AppendReasoning None False (Some (anthropic_replay ?b))
    \<in> set (chunk_deltas (fst (anthropic_event ''content_block_stop'' final st2)))" by simp
  then have "AppendReasoning None False (Some (anthropic_replay ?b)) \<in> set (chunk_deltas cs)"
    using assms(1) by (auto simp: anthropic_run_append 1 2 prod.case_eq_if)
  from replay_delta_kept [OF assms(7) disjI2 [OF this]]
  have "Reasoning None False (Some (anthropic_replay ?b)) \<in> set (ra_assistant_parts response')" .
  moreover have "part_blocks pretty True (Reasoning None False (Some (anthropic_replay ?b))) = [?b]"
    by (simp add: anthropic_replay_block_def anthropic_replay_def get_str_def)
  ultimately show ?thesis
    by (auto simp: message_blocks_def intro!: bexI [of _ "Reasoning None False (Some (anthropic_replay ?b))"])
qed

text \<open>A thinking block at index 0 with a text block at index 1 between its fragments.\<close>

definition ex_thinking_start :: json where
  "ex_thinking_start = JObject [(''content_block'', JObject [(''thinking'', JString ''a''), (''type'', JString ''thinking'')])]"

definition ex_block_delta :: "string \<Rightarrow> string \<Rightarrow> string \<Rightarrow> string \<Rightarrow> string \<times> json" where
  "ex_block_delta i kind member text =
     (''content_block_delta'', JObject [(''delta'', JObject [(member, JString text), (''type'', JString kind)]), (''index'', JNumber i)])"

definition ex_thinking_mid :: "(string \<times> json) list" where
  "ex_thinking_mid =
     [ex_block_delta ''0'' ''thinking_delta'' ''thinking'' ''b'', ex_block_delta ''1'' ''text_delta'' ''text'' ''x'',
      ex_block_delta ''0'' ''signature_delta'' ''signature'' ''s1'', ex_block_delta ''0'' ''signature_delta'' ''signature'' ''s2'']"

theorem signed_thinking_replayed_witness:
  "\<exists>response. apply_deltas (\<lambda>_. None) (chunk_deltas (fst (anthropic_run ((''content_block_start'', ex_thinking_start)
       # ex_thinking_mid @ [(''content_block_stop'', JObject [])]) anthropic_state_default))) empty_response = Inr response
   \<and> thinking_block ''ab'' ''s1s2'' \<in> set (message_blocks (\<lambda>_. []) True (ra_assistant_parts response))"
proof -
  let ?run = "anthropic_run ((''content_block_start'', ex_thinking_start)
       # ex_thinking_mid @ [(''content_block_stop'', JObject [])]) anthropic_state_default"
  let ?r = "apply_deltas (\<lambda>_. None) (chunk_deltas (fst ?run)) empty_response"
  have "(case ?r of Inr s \<Rightarrow> True | Inl e \<Rightarrow> False)" by code_simp
  then obtain response where r: "?r = Inr response" by (auto split: sum.splits)
  have "thinking_block (''a'' @ concat (map (thinking_of 0) ex_thinking_mid)) (concat (map (signature_of 0) ex_thinking_mid))
    \<in> set (message_blocks (\<lambda>_. []) True (ra_assistant_parts response))"
  proof (rule signed_thinking_replayed [OF prod.collapse [symmetric] _ _ _ _ _ r])
    show "thinking_at 0 anthropic_state_default = None" by (simp add: anthropic_state_default_def)
    show "starts_thinking 0 ''a'' ex_thinking_start" by code_simp
    show "event_index (JObject []) = 0" by code_simp
    show "list_all (\<lambda>e. \<not> block_bound 0 e) ex_thinking_mid" by code_simp
    show "concat (map (signature_of 0) ex_thinking_mid) \<noteq> []" by code_simp
  qed
  moreover have "concat (map (thinking_of 0) ex_thinking_mid) = ''b''" "concat (map (signature_of 0) ex_thinking_mid) = ''s1s2''"
    by code_simp+
  ultimately show ?thesis using r by auto
qed

end
