(* ===== verification/Bt_ChatGpt.thy ===== *)
theory Bt_ChatGpt
  imports Bt_Chunks
begin

section \<open>The ChatGPT provider\<close>

text \<open>
  \<open>bt-providers/src/chatgpt.rs\<close>: the Responses endpoint. Output items are announced, filled and completed
  under an item id; the final arguments of a call are reconciled with what was streamed. Reasoning items
  come back encrypted and are replayed verbatim. Also the choice of provider and credential in
  \<open>bt-providers/src/lib.rs\<close>.
\<close>

subsection \<open>Item ids\<close>

definition is_ascii_alphanumeric :: "char \<Rightarrow> bool" where
  "is_ascii_alphanumeric c \<longleftrightarrow>
     is_digit c \<or> 65 \<le> byte_of c \<and> byte_of c \<le> 90 \<or> 97 \<le> byte_of c \<and> byte_of c \<le> 122"

definition item_id_char :: "char \<Rightarrow> bool" where
  "item_id_char c \<longleftrightarrow> is_ascii_alphanumeric c \<or> c = CHR ''_'' \<or> c = CHR ''-''"

text \<open>\<open>truncate(64)\<close> cannot panic: every character left is ASCII (\<open>normalized_item_id_truncates\<close>).\<close>

definition normalized_item_id :: "string \<Rightarrow> string" where
  "normalized_item_id call_id =
     (let normalized = concat (map (\<lambda>ch. case ch of [c] \<Rightarrow> if item_id_char c then [c] else ''_'' | _ \<Rightarrow> ''_'')
            (utf8_chars call_id));
          normalized = (if normalized = [] then ''generated'' else normalized)
      in if prefix ''fc_'' normalized then normalized else ''fc_'' @ normalized)"

definition function_item_id :: "string \<Rightarrow> string" where
  "function_item_id call_id =
     (let normalized = normalized_item_id call_id in if length normalized > 64 then take 64 normalized else normalized)"

subsection \<open>Streamed responses\<close>

record chatgpt_accumulator =
  ga_call_id :: "string option"
  ga_name :: "string option"
  ga_opened :: bool
  ga_arguments :: string
  ga_source_raw :: "json option"

type_synonym chatgpt_calls = "(string \<times> chatgpt_accumulator) list"

definition chatgpt_accumulator_default :: chatgpt_accumulator where
  "chatgpt_accumulator_default =
     \<lparr>ga_call_id = None, ga_name = None, ga_opened = False, ga_arguments = [], ga_source_raw = None\<rparr>"

definition open_tool_call_if_ready :: "chatgpt_accumulator \<Rightarrow> chatgpt_accumulator \<times> completion_delta list" where
  "open_tool_call_if_ready a =
     (if ga_opened a then (a, [])
      else case (ga_call_id a, ga_name a) of
        (Some cid, Some name) \<Rightarrow>
          (a\<lparr>ga_opened := True\<rparr>,
           OpenToolCall cid name None
             # (if ga_arguments a \<noteq> [] then [AppendToolCallArguments cid (ga_arguments a)] else []))
      | _ \<Rightarrow> (a, []))"

definition semantic_tool_call_chunks :: "completion_delta list \<Rightarrow> completion_chunk list" where
  "semantic_tool_call_chunks ds = (if ds = [] then [] else [delta_chunk ds])"

text \<open>The id an item is filed under.\<close>

definition item_id_of :: "json \<Rightarrow> string option" where
  "item_id_of item =
     (case get_str ''id'' item of
        Some i \<Rightarrow> Some i
      | None \<Rightarrow> map_option function_item_id (get_str ''call_id'' item))"

definition apply_output_item_added ::
  "chatgpt_calls \<Rightarrow> json \<Rightarrow> json \<Rightarrow> completion_chunk list \<times> chatgpt_calls" where
  "apply_output_item_added calls item raw =
     (if get_str ''type'' item \<noteq> Some ''function_call'' then ([], calls)
      else case item_id_of item of
        None \<Rightarrow> ([], calls)
      | Some i \<Rightarrow>
          let a = (bt_entry chatgpt_accumulator_default i calls)\<lparr>ga_source_raw := Some raw\<rparr>;
              a = (case get_str ''call_id'' item of Some c \<Rightarrow> a\<lparr>ga_call_id := Some c\<rparr> | None \<Rightarrow> a);
              a = (case get_str ''name'' item of Some n \<Rightarrow> a\<lparr>ga_name := Some n\<rparr> | None \<Rightarrow> a);
              a = (case get_str ''arguments'' item of
                     Some args \<Rightarrow> a\<lparr>ga_arguments := ga_arguments a @ args\<rparr> | None \<Rightarrow> a)
          in case open_tool_call_if_ready a of
            (a, ds) \<Rightarrow> (semantic_tool_call_chunks ds, bt_put i a calls))"

definition apply_function_call_argument_delta ::
  "chatgpt_calls \<Rightarrow> string \<Rightarrow> string \<Rightarrow> json \<Rightarrow> completion_chunk list \<times> chatgpt_calls" where
  "apply_function_call_argument_delta calls i delta raw =
     (case map_of calls i of
        None \<Rightarrow> ([], calls)
      | Some a \<Rightarrow>
          (case open_tool_call_if_ready (a\<lparr>ga_source_raw := Some raw, ga_arguments := ga_arguments a @ delta\<rparr>) of
             (a, ds) \<Rightarrow>
               let ds = ds @ (if ga_opened a
                    then (case ga_call_id a of Some c \<Rightarrow> [AppendToolCallArguments c delta] | None \<Rightarrow> []) else [])
               in (semantic_tool_call_chunks ds, bt_put i a calls)))"

definition reconcile_function_call_arguments ::
  "chatgpt_calls \<Rightarrow> string \<Rightarrow> string \<Rightarrow> json \<Rightarrow> completion_chunk list \<times> chatgpt_calls" where
  "reconcile_function_call_arguments calls i arguments raw =
     (case map_of calls i of
        None \<Rightarrow> ([], calls)
      | Some a \<Rightarrow>
          (case open_tool_call_if_ready (a\<lparr>ga_source_raw := Some raw\<rparr>) of
             (a, ds) \<Rightarrow>
               let ds = ds @
                    (if prefix (ga_arguments a) arguments
                     then (let suffix = drop (length (ga_arguments a)) arguments
                           in case ga_call_id a of
                                Some c \<Rightarrow> if suffix \<noteq> [] then [AppendToolCallArguments c suffix] else []
                              | None \<Rightarrow> [])
                     else if arguments \<noteq> ga_arguments a
                     then (case ga_call_id a of Some c \<Rightarrow> [AppendToolCallArguments c arguments] | None \<Rightarrow> [])
                     else [])
               in (semantic_tool_call_chunks ds, bt_put i (a\<lparr>ga_arguments := arguments\<rparr>) calls)))"

definition finalize_accumulator :: "chatgpt_accumulator \<Rightarrow> completion_delta list" where
  "finalize_accumulator a =
     (case (ga_call_id a, ga_name a) of
        (Some c, Some name) \<Rightarrow>
          (if ga_opened a then []
           else OpenToolCall c name None
             # (if ga_arguments a \<noteq> [] then [AppendToolCallArguments c (ga_arguments a)] else []))
          @ [CloseToolCall c]
      | _ \<Rightarrow> [])"

definition chatgpt_flush :: "chatgpt_calls \<Rightarrow> completion_chunk list" where
  "chatgpt_flush calls =
     concat (map (\<lambda>(i, a). if finalize_accumulator a \<noteq> []
       then [(delta_chunk (finalize_accumulator a))\<lparr>ck_raw := ga_source_raw a\<rparr>] else []) calls)"

definition chatgpt_replay :: "json \<Rightarrow> json" where
  "chatgpt_replay item = JObject [(''item'', item), (''provider'', JString ''openai-chatgpt'')]"

definition apply_output_item_done ::
  "chatgpt_calls \<Rightarrow> json \<Rightarrow> json \<Rightarrow> completion_chunk list \<times> chatgpt_calls" where
  "apply_output_item_done calls item raw =
     (if get_str ''type'' item = Some ''reasoning'' \<and> json_get ''encrypted_content'' item \<noteq> None
      then ([delta_chunk [AppendReasoning None False (Some (chatgpt_replay item))]], calls)
      else if get_str ''type'' item \<noteq> Some ''function_call'' then ([], calls)
      else case item_id_of item of
        None \<Rightarrow> ([], calls)
      | Some i \<Rightarrow>
          (case (case get_str ''arguments'' item of
                   Some args \<Rightarrow> reconcile_function_call_arguments calls i args raw
                 | None \<Rightarrow> ([], calls)) of
             (chunks, calls) \<Rightarrow>
               let ds = chunk_deltas chunks @
                 (case map_of calls i of Some a \<Rightarrow> finalize_accumulator a | None \<Rightarrow> [])
               in (semantic_tool_call_chunks ds, bt_del i calls)))"

definition token_usage_from_chatgpt :: "json \<Rightarrow> token_usage option" where
  "token_usage_from_chatgpt v =
     (case (get_u64 ''input_tokens'' v, get_u64 ''output_tokens'' v) of
        (Some p, Some c) \<Rightarrow>
          Some \<lparr>prompt_tokens = p, completion_tokens = c,
            total_tokens = (case get_u64 ''total_tokens'' v of Some t \<Rightarrow> t | None \<Rightarrow> p + c),
            cache_read_tokens = Option.bind (json_get ''input_tokens_details'' v) (get_u64 ''cached_tokens''),
            cache_write_tokens = None,
            reasoning_tokens = Option.bind (json_get ''output_tokens_details'' v) (get_u64 ''reasoning_tokens'')\<rparr>
      | _ \<Rightarrow> None)"

definition compact_body :: "string \<Rightarrow> string" where
  "compact_body body =
     (let compact = join_with '' '' (split_whitespace body) in if compact = [] then ''empty response'' else compact)"

definition nonempty_delta :: "json \<Rightarrow> string option" where
  "nonempty_delta raw =
     (case get_str ''delta'' raw of Some d \<Rightarrow> if d \<noteq> [] then Some d else None | None \<Rightarrow> None)"

definition delta_chunks :: "(string \<Rightarrow> completion_delta) \<Rightarrow> json \<Rightarrow> completion_chunk list" where
  "delta_chunks f raw = (case nonempty_delta raw of Some d \<Rightarrow> [delta_chunk [f d]] | None \<Rightarrow> [])"

text \<open>The effect of one event.\<close>

definition chatgpt_event_chunks ::
  "string \<Rightarrow> json \<Rightarrow> chatgpt_calls \<Rightarrow> completion_chunk list \<times> chatgpt_calls" where
  "chatgpt_event_chunks kind raw calls =
     (if kind = ''response.output_text.delta'' then (delta_chunks AppendText raw, calls)
      else if kind = ''response.refusal.delta'' then
        (delta_chunks (\<lambda>d. AppendRefusal (Some d) (Some ''refusal'') None) raw, calls)
      else if kind = ''response.reasoning_summary_text.delta'' then
        (delta_chunks (\<lambda>d. AppendReasoning (Some d) False None) raw, calls)
      else if kind = ''response.output_item.added'' then
        (case json_get ''item'' raw of
           Some item \<Rightarrow> apply_output_item_added calls item raw | None \<Rightarrow> ([], calls))
      else if kind = ''response.function_call_arguments.delta'' then
        (case (get_str ''item_id'' raw, nonempty_delta raw) of
           (Some i, Some d) \<Rightarrow> apply_function_call_argument_delta calls i d raw
         | _ \<Rightarrow> ([], calls))
      else if kind = ''response.function_call_arguments.done'' then
        (case (get_str ''item_id'' raw, get_str ''arguments'' raw) of
           (Some i, Some args) \<Rightarrow> reconcile_function_call_arguments calls i args raw
         | _ \<Rightarrow> ([], calls))
      else if kind = ''response.output_item.done'' then
        (case json_get ''item'' raw of
           Some item \<Rightarrow> apply_output_item_done calls item raw | None \<Rightarrow> ([], calls))
      else if kind = ''response.completed'' then
        (case Option.bind (Option.bind (json_get ''response'' raw) (json_get ''usage'')) token_usage_from_chatgpt of
           Some u \<Rightarrow> [usage_chunk u] | None \<Rightarrow> [], calls)
      else ([], calls))"

definition chatgpt_decode ::
  "(string \<Rightarrow> string + json) \<Rightarrow> sse_event \<Rightarrow> chatgpt_calls \<Rightarrow> (completion_chunk list \<times> chatgpt_calls) result" where
  "chatgpt_decode from_str event calls =
     (if str_trim (se_data event) = ''[DONE]''
      then Inr (attach_raw_to_all (chatgpt_flush calls) (JString ''[DONE]''), [])
      else and_then (serde_result (from_str (se_data event))) (\<lambda>raw.
        let kind = (case get_str ''type'' raw of Some k \<Rightarrow> k | None \<Rightarrow> [])
        in if kind = ''response.failed'' \<or> kind = ''error''
           then Inl (Provider (''ChatGPT Responses stream failed: '' @ compact_body (se_data event)))
           else case chatgpt_event_chunks kind raw calls of
             (chunks, calls) \<Rightarrow> Inr (attach_raw_to_all (or_empty_chunk chunks) raw, calls)))"

definition chatgpt_stream ::
  "(string \<Rightarrow> string + json) \<Rightarrow> string result list \<Rightarrow> completion_chunk list \<times> unit result" where
  "chatgpt_stream from_str items = stream_response (chatgpt_decode from_str) chatgpt_flush [] items"

fun member_model_id :: "json \<Rightarrow> string option" where
  "member_model_id model =
     (if Option.bind (json_get ''supported_in_api'' model) json_as_bool = Some False then None
      else case get_str ''slug'' model of Some s \<Rightarrow> Some s | None \<Rightarrow> get_str ''id'' model)"

definition parse_chatgpt_model_ids :: "json \<Rightarrow> string list" where
  "parse_chatgpt_model_ids payload =
     List.map_filter member_model_id
       (case Option.bind (json_get ''models'' payload) json_as_array of Some vs \<Rightarrow> vs | None \<Rightarrow> [])"

subsection \<open>Requests\<close>

record chatgpt_reasoning_config =
  gr_effort :: thinking_effort
  gr_summary :: "string option"

record chatgpt_tool =
  gt_name :: string
  gt_description :: string
  gt_parameters :: json

record chatgpt_request =
  gq_model :: string
  gq_instructions :: string
  gq_input :: "json list"
  gq_stream :: bool
  gq_store :: bool
  gq_include :: "string list option"
  gq_reasoning :: "chatgpt_reasoning_config option"
  gq_tools :: "chatgpt_tool list option"
  gq_tool_choice :: "string option"
  gq_parallel_tool_calls :: "bool option"
  gq_temperature :: "f64 option"

definition default_chatgpt_instructions :: string where
  "default_chatgpt_instructions = ''You are Belltower.''"

definition chatgpt_reasoning :: "thinking_config option \<Rightarrow> chatgpt_reasoning_config option" where
  "chatgpt_reasoning thinking =
     (case thinking of
        None \<Rightarrow> None
      | Some t \<Rightarrow>
          if \<not> th_enabled t then None
          else Some \<lparr>gr_effort = (case th_effort t of Some e \<Rightarrow> e | None \<Rightarrow> TeHigh),
            gr_summary = (if th_include_summaries t then Some ''auto'' else None)\<rparr>)"

fun visible_part_text :: "(json \<Rightarrow> string) \<Rightarrow> message_part \<Rightarrow> string option" where
  "visible_part_text js (Text t) = Some t"
| "visible_part_text js (Refusal (Some t) reason meta) = Some t"
| "visible_part_text js (Structured name v) = Some (value_text js v)"
| "visible_part_text js (ToolResult r) = Some (value_text js (tr_output r))"
| "visible_part_text js p = None"

definition render_visible_message_text :: "(json \<Rightarrow> string) \<Rightarrow> message_part list \<Rightarrow> string" where
  "render_visible_message_text js parts = concat (List.map_filter (visible_part_text js) parts)"

definition message_input_text_item :: "string \<Rightarrow> string \<Rightarrow> json" where
  "message_input_text_item role text =
     JObject [(''content'', JArray [JObject [(''text'', JString text), (''type'', JString ''input_text'')]]),
       (''role'', JString role), (''type'', JString ''message'')]"

definition assistant_message_item_id :: "nat \<Rightarrow> string" where
  "assistant_message_item_id index = ''msg_'' @ show_nat (index + 1)"

definition assistant_text_item :: "nat \<Rightarrow> string \<Rightarrow> json" where
  "assistant_text_item index text =
     JObject [(''content'', JArray [JObject [(''annotations'', JArray []), (''text'', JString text),
           (''type'', JString ''output_text'')]]),
       (''id'', JString (assistant_message_item_id index)), (''role'', JString ''assistant''),
       (''status'', JString ''completed''), (''type'', JString ''message'')]"

definition function_call_item :: "(json \<Rightarrow> string) \<Rightarrow> tool_call \<Rightarrow> json" where
  "function_call_item js c =
     JObject [(''arguments'', JString (value_text js (tc_arguments c))), (''call_id'', JString (tc_call_id c)),
       (''id'', JString (function_item_id (tc_call_id c))), (''name'', JString (tc_tool_name c)),
       (''type'', JString ''function_call'')]"

definition function_call_output_item :: "(json \<Rightarrow> string) \<Rightarrow> tool_result_envelope \<Rightarrow> json" where
  "function_call_output_item js r =
     JObject [(''call_id'', JString (tool_call_id_text (tr_call_id r))),
       (''output'', JString (value_text js (tr_output r))), (''type'', JString ''function_call_output'')]"

text \<open>The items built so far, the number of assistant messages among them, and the text not yet flushed.\<close>

type_synonym item_state = "json list \<times> nat \<times> string"

fun flush_assistant_text :: "item_state \<Rightarrow> item_state" where
  "flush_assistant_text (items, index, buffered) =
     (if str_trim buffered = [] then (items, index, [])
      else (items @ [assistant_text_item index buffered], index + 1, []))"

definition push_item :: "json \<Rightarrow> item_state \<Rightarrow> item_state" where
  "push_item item st = (case flush_assistant_text st of (items, index, buffered) \<Rightarrow> (items @ [item], index, buffered))"

definition buffer_text :: "string \<Rightarrow> item_state \<Rightarrow> item_state" where
  "buffer_text t st = (case st of (items, index, buffered) \<Rightarrow> (items, index, buffered @ t))"

definition chatgpt_replay_item :: "json \<Rightarrow> json option" where
  "chatgpt_replay_item replay =
     (if get_str ''provider'' replay = Some ''openai-chatgpt'' then json_get ''item'' replay else None)"

fun assistant_part_items :: "(json \<Rightarrow> string) \<Rightarrow> message_part \<Rightarrow> item_state \<Rightarrow> item_state" where
  "assistant_part_items js (Text t) st = buffer_text t st"
| "assistant_part_items js (Refusal (Some t) reason meta) st = buffer_text t st"
| "assistant_part_items js (Structured name v) st = buffer_text (value_text js v) st"
| "assistant_part_items js (ToolCall c) st = push_item (function_call_item js c) st"
| "assistant_part_items js (ToolResult r) st = push_item (function_call_output_item js r) st"
| "assistant_part_items js (Reasoning t redacted (Some replay)) st =
     (case chatgpt_replay_item replay of Some item \<Rightarrow> push_item item st | None \<Rightarrow> st)"
| "assistant_part_items js p st = st"

definition extend_assistant_input_items ::
  "(json \<Rightarrow> string) \<Rightarrow> message \<Rightarrow> json list \<Rightarrow> nat \<Rightarrow> json list \<times> nat" where
  "extend_assistant_input_items js m items index =
     (case flush_assistant_text (fold (assistant_part_items js) (m_parts m) (items, index, [])) of
        (items, index, buffered) \<Rightarrow> (items, index))"

definition tool_result_items :: "(json \<Rightarrow> string) \<Rightarrow> message \<Rightarrow> json list" where
  "tool_result_items js m =
     List.map_filter (\<lambda>p. case p of ToolResult r \<Rightarrow> Some (function_call_output_item js r) | _ \<Rightarrow> None) (m_parts m)"

fun input_items :: "(json \<Rightarrow> string) \<Rightarrow> message list \<Rightarrow> json list \<Rightarrow> nat \<Rightarrow> json list" where
  "input_items js [] items index = items"
| "input_items js (m # ms) items index =
     (case m_role m of
        RSystem \<Rightarrow> input_items js ms items index
      | RUser \<Rightarrow>
          (let text = render_visible_message_text js (m_parts m)
           in input_items js ms
             (items @ (if str_trim text \<noteq> [] then [message_input_text_item ''user'' text] else [])) index)
      | RAssistant \<Rightarrow>
          (case extend_assistant_input_items js m items index of (items, index) \<Rightarrow> input_items js ms items index)
      | RTool \<Rightarrow> input_items js ms (items @ tool_result_items js m) index)"

definition request_input_items :: "(json \<Rightarrow> string) \<Rightarrow> completion_request \<Rightarrow> json list" where
  "request_input_items js rq = input_items js (cq_messages rq) [] 0"

definition request_instructions :: "(json \<Rightarrow> string) \<Rightarrow> completion_request \<Rightarrow> string" where
  "request_instructions js rq =
     (let own = (case cq_system_prompt rq of
            Some s \<Rightarrow> if str_trim s \<noteq> [] then [str_trim s] else [] | None \<Rightarrow> []);
          sections = own @ filter (\<lambda>t. t \<noteq> [])
            (map (\<lambda>m. str_trim (render_visible_message_text js (m_parts m)))
              (filter (\<lambda>m. m_role m = RSystem) (cq_messages rq)))
      in if sections = [] then default_chatgpt_instructions else join_with [nl, nl] sections)"

definition tool_spec_to_chatgpt :: "tool_spec \<Rightarrow> chatgpt_tool" where
  "tool_spec_to_chatgpt t =
     \<lparr>gt_name = ts_name t, gt_description = ts_description t, gt_parameters = ts_parameters_schema t\<rparr>"

definition build_chatgpt_request :: "(json \<Rightarrow> string) \<Rightarrow> completion_request \<Rightarrow> chatgpt_request" where
  "build_chatgpt_request js rq =
     (let reasoning = chatgpt_reasoning (cq_thinking rq)
      in \<lparr>gq_model = cq_model rq, gq_instructions = request_instructions js rq, gq_input = request_input_items js rq,
          gq_stream = True, gq_store = False,
          gq_include = (if reasoning \<noteq> None then Some [''reasoning.encrypted_content''] else None),
          gq_reasoning = reasoning,
          gq_tools = (if cq_tools rq \<noteq> [] then Some (map tool_spec_to_chatgpt (cq_tools rq)) else None),
          gq_tool_choice = (if cq_tools rq \<noteq> [] then Some ''auto'' else None),
          gq_parallel_tool_calls = (if cq_tools rq \<noteq> [] then Some True else None),
          gq_temperature = cq_temperature rq\<rparr>)"

definition chatgpt_accepts :: "completion_request \<Rightarrow> unit result" where
  "chatgpt_accepts rq =
     guard_err (cq_structured_output rq \<noteq> None)
       (Unsupported ''structured output is not supported for provider `openai-chatgpt` yet'')"

subsection \<open>Choosing a provider (lib.rs)\<close>

datatype runtime_credential =
  ApiKey string
| BearerToken string "string option" "string option"
| JsonDocument string

primrec runtime_credential_label :: "runtime_credential \<Rightarrow> string" where
  "runtime_credential_label (ApiKey secret) = ''api_key''"
| "runtime_credential_label (BearerToken access refresh account) = ''bearer_token''"
| "runtime_credential_label (JsonDocument document) = ''json_document''"

text \<open>Which provider is built, with the credential it gets.\<close>

datatype provider_choice =
  OpenAiCompatible "string option"
| OpenAiChatGpt string string
| Anthropic "string option"
| ClaudeCli

definition connection_supported :: "string \<Rightarrow> bool" where
  "connection_supported provider \<longleftrightarrow>
     provider \<in> {''openai-compatible'', ''openai-chatgpt'', ''anthropic'', ''claude-cli''}"

definition unsupported_credential :: "string \<Rightarrow> runtime_credential \<Rightarrow> belltower_error" where
  "unsupported_credential provider c =
     Unsupported (''provider `'' @ provider @ ''` does not support '' @ runtime_credential_label c
       @ '' runtime credentials'')"

fun openai_auth_token :: "runtime_credential option \<Rightarrow> string option result" where
  "openai_auth_token None = Inr None"
| "openai_auth_token (Some (ApiKey secret)) = Inr (Some secret)"
| "openai_auth_token (Some (BearerToken access refresh account)) = Inr (Some access)"
| "openai_auth_token (Some c) = Inl (unsupported_credential ''openai-compatible'' c)"

fun anthropic_api_key :: "runtime_credential option \<Rightarrow> string option result" where
  "anthropic_api_key None = Inr None"
| "anthropic_api_key (Some (ApiKey secret)) = Inr (Some secret)"
| "anthropic_api_key (Some c) = Inl (unsupported_credential ''anthropic'' c)"

definition chatgpt_account_id :: "string option \<Rightarrow> string result" where
  "chatgpt_account_id account =
     ok_or (Auth ''ChatGPT credentials are missing `chatgpt_account_id`; rerun `belltower login chatgpt`'') account"

fun openai_chatgpt_auth :: "runtime_credential option \<Rightarrow> (string \<times> string) result" where
  "openai_chatgpt_auth (Some (BearerToken access refresh account)) =
     and_then (chatgpt_account_id account) (\<lambda>i. Inr (access, i))"
| "openai_chatgpt_auth (Some c) = Inl (unsupported_credential ''openai-chatgpt'' c)"
| "openai_chatgpt_auth None =
     Inl (Auth ''provider `openai-chatgpt` requires stored OAuth credentials; run `belltower login chatgpt`'')"

definition provider_for_connection :: "string \<Rightarrow> runtime_credential option \<Rightarrow> provider_choice result" where
  "provider_for_connection provider credential =
     (if provider = ''openai-compatible'' then
        and_then (openai_auth_token credential) (\<lambda>t. Inr (OpenAiCompatible t))
      else if provider = ''openai-chatgpt'' then
        and_then (openai_chatgpt_auth credential) (\<lambda>(t, i). Inr (OpenAiChatGpt t i))
      else if provider = ''anthropic'' then
        and_then (anthropic_api_key credential) (\<lambda>k. Inr (Anthropic k))
      else if provider = ''claude-cli'' then Inr ClaudeCli
      else Inl (Unsupported (''provider `'' @ provider @ ''` is not implemented yet'')))"

lemma provider_for_connection_supported:
  "provider_for_connection provider credential = Inr p \<Longrightarrow> connection_supported provider"
  by (simp add: provider_for_connection_def connection_supported_def split: if_splits)

end
