(* ===== verification/Bt_ChatGptProps.thy ===== *)
theory Bt_ChatGptProps
  imports Bt_ChatGpt
begin

section \<open>What the ChatGPT provider promises\<close>

text \<open>
  Item ids are always ones the endpoint accepts, and the arguments of a call, streamed and then sent
  again in full by the closing events, reach the agent once, as long as the closing events extend what
  was streamed. When they do not, both are concatenated.
\<close>

subsection \<open>Item ids\<close>

lemma item_id_char_ascii: "item_id_char c \<Longrightarrow> byte_of c < 128"
  by (auto simp: item_id_char_def is_ascii_alphanumeric_def is_digit_def byte_of_def)

lemma item_id_char_literals: "item_id_char CHR ''_''" "item_id_char CHR ''f''" "item_id_char CHR ''c''"
  "list_all item_id_char ''generated''"
  by code_simp+

lemma normalized_item_id_chars: "list_all item_id_char (normalized_item_id call_id)"
proof -
  define f where "f = (\<lambda>ch. case ch of [c] \<Rightarrow> if item_id_char c then [c] else ''_'' | _ \<Rightarrow> ''_'')"
  have f: "list_all item_id_char (f ch)" for ch
    by (auto simp: f_def item_id_char_literals split: list.split)
  have body: "list_all item_id_char (concat (map f chs))" for chs
    by (induction chs) (simp_all add: f)
  show ?thesis
    unfolding normalized_item_id_def f_def [symmetric] Let_def using body item_id_char_literals by auto
qed

lemma normalized_item_id_truncates:
  "str_truncate 64 (normalized_item_id call_id) = Some (take 64 (normalized_item_id call_id))"
  using normalized_item_id_chars [of call_id] item_id_char_ascii
  by (intro is_ascii_truncate) (auto simp: is_ascii_def list_all_iff)

lemma normalized_item_id_prefix: "prefix ''fc_'' (normalized_item_id call_id)"
  by (simp add: normalized_item_id_def Let_def)

text \<open>C39: whatever the call id, the item id sent for it has the form the endpoint requires: it starts with
fc_, has at most 64 characters, and consists of letters, digits, underscores and hyphens.
\<close>

theorem function_item_id_valid:
  "prefix ''fc_'' (function_item_id call_id) \<and> length (function_item_id call_id) \<le> 64
   \<and> list_all item_id_char (function_item_id call_id)"
proof -
  have "prefix ''fc_'' (take 64 (normalized_item_id call_id))"
    using normalized_item_id_prefix [of call_id] by (auto simp: prefix_def)
  moreover have "list_all item_id_char (take 64 (normalized_item_id call_id))"
    using normalized_item_id_chars [of call_id] by (auto simp: list_all_iff dest: in_set_takeD)
  ultimately show ?thesis
    using normalized_item_id_prefix [of call_id] normalized_item_id_chars [of call_id]
    by (simp add: function_item_id_def Let_def)
qed

subsection \<open>Events of one item\<close>

definition chatgpt_kind :: "json \<Rightarrow> string" where
  "chatgpt_kind raw = (case get_str ''type'' raw of Some k \<Rightarrow> k | None \<Rightarrow> [])"

fun chatgpt_run :: "json list \<Rightarrow> chatgpt_calls \<Rightarrow> completion_chunk list \<times> chatgpt_calls" where
  "chatgpt_run [] calls = ([], calls)"
| "chatgpt_run (raw # raws) calls =
     (case chatgpt_event_chunks (chatgpt_kind raw) raw calls of
        (cs, calls) \<Rightarrow> (case chatgpt_run raws calls of (ds, calls) \<Rightarrow> (cs @ ds, calls)))"

lemma chatgpt_run_append:
  "chatgpt_run (xs @ ys) calls =
     (case chatgpt_run xs calls of (cs, calls) \<Rightarrow> (case chatgpt_run ys calls of (ds, calls) \<Rightarrow> (cs @ ds, calls)))"
  by (induction xs calls rule: chatgpt_run.induct) (auto split: prod.splits)

text \<open>The item an event is about, and the call it names.\<close>

definition event_item :: "json \<Rightarrow> string option" where
  "event_item raw =
     (if chatgpt_kind raw \<in> {''response.output_item.added'', ''response.output_item.done''}
      then Option.bind (json_get ''item'' raw) item_id_of
      else if chatgpt_kind raw \<in> {''response.function_call_arguments.delta'', ''response.function_call_arguments.done''}
      then get_str ''item_id'' raw else None)"

definition event_call :: "json \<Rightarrow> string option" where
  "event_call raw = Option.bind (json_get ''item'' raw) (get_str ''call_id'')"

definition elsewhere :: "string \<Rightarrow> string \<Rightarrow> json \<Rightarrow> bool" where
  "elsewhere k c raw \<longleftrightarrow> event_item raw \<noteq> Some k \<and> event_call raw \<noteq> Some c"

text \<open>No item but \<open>k\<close> is filed for call \<open>c\<close>.\<close>

definition others_differ :: "string \<Rightarrow> string \<Rightarrow> chatgpt_calls \<Rightarrow> bool" where
  "others_differ k c calls \<longleftrightarrow> (\<forall>j a. j \<noteq> k \<longrightarrow> map_of calls j = Some a \<longrightarrow> ga_call_id a \<noteq> Some c)"

lemma others_differ_put:
  "others_differ k c calls \<Longrightarrow> j = k \<or> ga_call_id a \<noteq> Some c \<Longrightarrow> others_differ k c (bt_put j a calls)"
  by (auto simp: others_differ_def)

lemma others_differ_del: "others_differ k c calls \<Longrightarrow> others_differ k c (bt_del j calls)"
  by (auto simp: others_differ_def split: if_splits)

lemma open_if_ready_other:
  assumes "ga_call_id a \<noteq> Some c"
  shows "deltas_of c (snd (open_tool_call_if_ready a)) = []"
    "ga_call_id (fst (open_tool_call_if_ready a)) = ga_call_id a"
  using assms by (auto simp: open_tool_call_if_ready_def split: option.split)

lemma semantic_deltas [simp]: "chunk_deltas (semantic_tool_call_chunks ds) = ds"
  by (simp add: semantic_tool_call_chunks_def)

lemma added_elsewhere:
  assumes "apply_output_item_added calls item raw = (cs, calls')" "others_differ k c calls"
    and "item_id_of item \<noteq> Some k" "get_str ''call_id'' item \<noteq> Some c"
  shows "deltas_of c (chunk_deltas cs) = [] \<and> map_of calls' k = map_of calls k \<and> others_differ k c calls'"
proof (cases "get_str ''type'' item = Some ''function_call'' \<and> item_id_of item \<noteq> None")
  case False
  then show ?thesis using assms(1, 2) by (auto simp: apply_output_item_added_def split: if_splits)
next
  case True
  then obtain j where j: "item_id_of item = Some j" "j \<noteq> k" using assms(3) by auto
  obtain a where a: "ga_call_id a \<noteq> Some c" "cs = semantic_tool_call_chunks (snd (open_tool_call_if_ready a))"
    "calls' = bt_put j (fst (open_tool_call_if_ready a)) calls"
  proof
    let ?a0 = "(bt_entry chatgpt_accumulator_default j calls)\<lparr>ga_source_raw := Some raw\<rparr>"
    let ?a1 = "case get_str ''call_id'' item of Some c \<Rightarrow> ?a0\<lparr>ga_call_id := Some c\<rparr> | None \<Rightarrow> ?a0"
    let ?a2 = "case get_str ''name'' item of Some n \<Rightarrow> ?a1\<lparr>ga_name := Some n\<rparr> | None \<Rightarrow> ?a1"
    let ?a3 = "case get_str ''arguments'' item of Some x \<Rightarrow> ?a2\<lparr>ga_arguments := ga_arguments ?a2 @ x\<rparr> | None \<Rightarrow> ?a2"
    have "ga_call_id ?a0 \<noteq> Some c"
      using assms(2) j(2) by (auto simp: bt_entry_def others_differ_def chatgpt_accumulator_default_def split: option.splits)
    then have "ga_call_id ?a1 \<noteq> Some c" using assms(4) by (auto split: option.splits)
    then show "ga_call_id ?a3 \<noteq> Some c" by (auto split: option.splits)
    show "cs = semantic_tool_call_chunks (snd (open_tool_call_if_ready ?a3))"
      "calls' = bt_put j (fst (open_tool_call_if_ready ?a3)) calls"
      using assms(1) True j(1) by (simp_all add: apply_output_item_added_def Let_def prod.case_eq_if)
  qed
  then show ?thesis
    using j(2) open_if_ready_other [OF a(1)] others_differ_put [OF assms(2), of j] by simp
qed

lemma delta_elsewhere:
  assumes "others_differ k c calls" "j \<noteq> k"
  shows "deltas_of c (chunk_deltas (fst (apply_function_call_argument_delta calls j d raw))) = []"
    "map_of (snd (apply_function_call_argument_delta calls j d raw)) k = map_of calls k"
    "others_differ k c (snd (apply_function_call_argument_delta calls j d raw))"
proof -
  have "deltas_of c (chunk_deltas (fst (apply_function_call_argument_delta calls j d raw))) = []
    \<and> map_of (snd (apply_function_call_argument_delta calls j d raw)) k = map_of calls k
    \<and> others_differ k c (snd (apply_function_call_argument_delta calls j d raw))"
  proof (cases "map_of calls j")
    case (Some a)
    let ?a = "a\<lparr>ga_source_raw := Some raw, ga_arguments := ga_arguments a @ d\<rparr>"
    have "ga_call_id ?a \<noteq> Some c" using assms Some by (auto simp: others_differ_def)
    from open_if_ready_other [OF this] this show ?thesis
      using assms Some others_differ_put [OF assms(1), of j "fst (open_tool_call_if_ready ?a)"]
      by (auto simp: apply_function_call_argument_delta_def Let_def prod.case_eq_if split: option.split)
  qed (simp add: apply_function_call_argument_delta_def assms)
  then show "deltas_of c (chunk_deltas (fst (apply_function_call_argument_delta calls j d raw))) = []"
    "map_of (snd (apply_function_call_argument_delta calls j d raw)) k = map_of calls k"
    "others_differ k c (snd (apply_function_call_argument_delta calls j d raw))" by simp_all
qed

lemma reconcile_elsewhere:
  assumes "others_differ k c calls" "j \<noteq> k"
  shows "deltas_of c (chunk_deltas (fst (reconcile_function_call_arguments calls j args raw))) = []"
    "map_of (snd (reconcile_function_call_arguments calls j args raw)) k = map_of calls k"
    "others_differ k c (snd (reconcile_function_call_arguments calls j args raw))"
proof -
  have "deltas_of c (chunk_deltas (fst (reconcile_function_call_arguments calls j args raw))) = []
    \<and> map_of (snd (reconcile_function_call_arguments calls j args raw)) k = map_of calls k
    \<and> others_differ k c (snd (reconcile_function_call_arguments calls j args raw))"
  proof (cases "map_of calls j")
    case (Some a)
    let ?a = "a\<lparr>ga_source_raw := Some raw\<rparr>"
    have "ga_call_id ?a \<noteq> Some c" using assms Some by (auto simp: others_differ_def)
    from open_if_ready_other [OF this] this show ?thesis
      using assms Some others_differ_put [OF assms(1), of j "(fst (open_tool_call_if_ready ?a))\<lparr>ga_arguments := args\<rparr>"]
      by (auto simp: reconcile_function_call_arguments_def Let_def prod.case_eq_if split: option.split)
  qed (simp add: reconcile_function_call_arguments_def assms)
  then show "deltas_of c (chunk_deltas (fst (reconcile_function_call_arguments calls j args raw))) = []"
    "map_of (snd (reconcile_function_call_arguments calls j args raw)) k = map_of calls k"
    "others_differ k c (snd (reconcile_function_call_arguments calls j args raw))" by simp_all
qed

lemma finalize_other: "ga_call_id a \<noteq> Some c \<Longrightarrow> deltas_of c (finalize_accumulator a) = []"
  by (auto simp: finalize_accumulator_def split: option.split)

lemma done_elsewhere:
  assumes "apply_output_item_done calls item raw = (cs, calls')" "others_differ k c calls" "item_id_of item \<noteq> Some k"
  shows "deltas_of c (chunk_deltas cs) = [] \<and> map_of calls' k = map_of calls k \<and> others_differ k c calls'"
proof (cases "get_str ''type'' item = Some ''function_call'' \<and> item_id_of item \<noteq> None")
  case False
  then show ?thesis using assms(1, 2) by (auto simp: apply_output_item_done_def split: if_splits)
next
  case True
  then obtain j where j: "item_id_of item = Some j" "j \<noteq> k" using assms(3) by auto
  let ?r = "case get_str ''arguments'' item of
      Some args \<Rightarrow> reconcile_function_call_arguments calls j args raw | None \<Rightarrow> ([], calls)"
  have r: "deltas_of c (chunk_deltas (fst ?r)) = []" "map_of (snd ?r) k = map_of calls k" "others_differ k c (snd ?r)"
    using reconcile_elsewhere [OF assms(2) j(2)] assms(2) by (simp_all split: option.split)
  have "deltas_of c (case map_of (snd ?r) j of Some a \<Rightarrow> finalize_accumulator a | None \<Rightarrow> []) = []"
    using r(3) j(2) by (auto simp: others_differ_def finalize_other split: option.split)
  then show ?thesis
    using assms(1) True j r others_differ_del [OF r(3)]
    by (auto simp: apply_output_item_done_def Let_def prod.case_eq_if)
qed

lemma delta_chunks_other:
  "(\<And>d. delta_call (f d) = None) \<Longrightarrow> deltas_of c (chunk_deltas (delta_chunks f raw)) = []"
  by (auto simp: delta_chunks_def split: option.split)

lemma event_elsewhere:
  assumes "chatgpt_event_chunks (chatgpt_kind raw) raw calls = (cs, calls')" "others_differ k c calls" "elsewhere k c raw"
  shows "deltas_of c (chunk_deltas cs) = [] \<and> map_of calls' k = map_of calls k \<and> others_differ k c calls'"
proof -
  let ?kind = "chatgpt_kind raw"
  consider (added) "?kind = ''response.output_item.added''" | (done_item) "?kind = ''response.output_item.done''"
    | (delta) "?kind = ''response.function_call_arguments.delta''" | (done_args) "?kind = ''response.function_call_arguments.done''"
    | (other) "?kind \<noteq> ''response.output_item.added''" "?kind \<noteq> ''response.output_item.done''"
      "?kind \<noteq> ''response.function_call_arguments.delta''" "?kind \<noteq> ''response.function_call_arguments.done''"
    by blast
  then show ?thesis
  proof cases
    case added
    show ?thesis
    proof (cases "json_get ''item'' raw")
      case (Some item)
      then have "item_id_of item \<noteq> Some k" "get_str ''call_id'' item \<noteq> Some c"
        using assms(3) added by (simp_all add: elsewhere_def event_item_def event_call_def)
      moreover have "apply_output_item_added calls item raw = (cs, calls')"
        using assms(1) Some by (simp add: chatgpt_event_chunks_def added)
      ultimately show ?thesis using added_elsewhere [OF _ assms(2)] by blast
    qed (use assms in \<open>simp add: chatgpt_event_chunks_def added\<close>)
  next
    case done_item
    show ?thesis
    proof (cases "json_get ''item'' raw")
      case (Some item)
      then have "item_id_of item \<noteq> Some k"
        using assms(3) done_item by (simp add: elsewhere_def event_item_def)
      moreover have "apply_output_item_done calls item raw = (cs, calls')"
        using assms(1) Some by (simp add: chatgpt_event_chunks_def done_item)
      ultimately show ?thesis using done_elsewhere [OF _ assms(2)] by blast
    qed (use assms in \<open>simp add: chatgpt_event_chunks_def done_item\<close>)
  next
    case delta
    have "get_str ''item_id'' raw \<noteq> Some k" using assms(3) delta by (simp add: elsewhere_def event_item_def)
    then show ?thesis
      using assms(1, 2) delta_elsewhere [OF assms(2)]
      by (auto simp: chatgpt_event_chunks_def delta split: option.splits) (metis fst_conv snd_conv)+
  next
    case done_args
    have "get_str ''item_id'' raw \<noteq> Some k" using assms(3) done_args by (simp add: elsewhere_def event_item_def)
    then show ?thesis
      using assms(1, 2) reconcile_elsewhere [OF assms(2)]
      by (auto simp: chatgpt_event_chunks_def done_args split: option.splits) (metis fst_conv snd_conv)+
  next
    case other
    then have "calls' = calls \<and> deltas_of c (chunk_deltas cs) = []"
      using assms(1) by (auto simp: chatgpt_event_chunks_def delta_chunks_other split: if_splits option.splits)
    then show ?thesis using assms(2) by simp
  qed
qed

lemma run_elsewhere:
  "list_all (elsewhere k c) raws \<Longrightarrow> others_differ k c calls \<Longrightarrow> chatgpt_run raws calls = (cs, calls') \<Longrightarrow>
     deltas_of c (chunk_deltas cs) = [] \<and> map_of calls' k = map_of calls k \<and> others_differ k c calls'"
proof (induction raws calls arbitrary: cs rule: chatgpt_run.induct)
  case (2 raw raws calls)
  obtain cs1 calls1 where 1: "chatgpt_event_chunks (chatgpt_kind raw) raw calls = (cs1, calls1)" by fastforce
  obtain cs2 where 2: "chatgpt_run raws calls1 = (cs2, calls')" "cs = cs1 @ cs2"
    using "2.prems"(3) 1 by (auto split: prod.splits)
  have e: "deltas_of c (chunk_deltas cs1) = [] \<and> map_of calls1 k = map_of calls k \<and> others_differ k c calls1"
    using event_elsewhere [OF 1 "2.prems"(2)] "2.prems"(1) by simp
  with "2.IH" [OF 1 [symmetric] _ _ 2(1)] "2.prems"(1) show ?case by (simp add: 2(2))
qed simp

subsection \<open>The item itself\<close>

text \<open>The item is open for the agent, and what it counts as streamed is \<open>a\<close>.\<close>

definition item_open :: "string \<Rightarrow> string \<Rightarrow> string \<Rightarrow> chatgpt_calls \<Rightarrow> bool" where
  "item_open k c streamed calls \<longleftrightarrow> others_differ k c calls \<and>
     (\<exists>a. map_of calls k = Some a \<and> ga_call_id a = Some c \<and> ga_name a \<noteq> None \<and> ga_opened a \<and> ga_arguments a = streamed)"

definition announces :: "string \<Rightarrow> string \<Rightarrow> string \<Rightarrow> string \<Rightarrow> json \<Rightarrow> bool" where
  "announces k c name initial raw \<longleftrightarrow> chatgpt_kind raw = ''response.output_item.added'' \<and>
     (case json_get ''item'' raw of None \<Rightarrow> False | Some item \<Rightarrow>
        get_str ''type'' item = Some ''function_call'' \<and> item_id_of item = Some k \<and> get_str ''call_id'' item = Some c
      \<and> get_str ''name'' item = Some name
      \<and> (case get_str ''arguments'' item of Some x \<Rightarrow> x | None \<Rightarrow> []) = initial)"

lemma announced:
  assumes "announces k c name initial raw" "map_of calls k = None" "others_differ k c calls"
    and "chatgpt_event_chunks (chatgpt_kind raw) raw calls = (cs, calls')"
  shows "deltas_of c (chunk_deltas cs) = OpenToolCall c name None # map (AppendToolCallArguments c) (if initial = [] then [] else [initial])
    \<and> item_open k c initial calls'"
  using assms others_differ_put [OF assms(3), of k]
  by (auto simp: announces_def chatgpt_event_chunks_def apply_output_item_added_def bt_entry_def Let_def
      chatgpt_accumulator_default_def open_tool_call_if_ready_def item_open_def
      split: option.splits if_splits)

definition streams :: "string \<Rightarrow> json \<Rightarrow> bool" where
  "streams k raw \<longleftrightarrow> chatgpt_kind raw = ''response.function_call_arguments.delta'' \<and> get_str ''item_id'' raw = Some k"

definition streamed_text :: "string \<Rightarrow> json \<Rightarrow> string" where
  "streamed_text k raw = (if streams k raw then (case nonempty_delta raw of Some d \<Rightarrow> d | None \<Rightarrow> []) else [])"

lemma streamed_step:
  assumes "streams k raw" "item_open k c streamed calls"
    and "chatgpt_event_chunks (chatgpt_kind raw) raw calls = (cs, calls')"
  shows "deltas_of c (chunk_deltas cs)
      = map (AppendToolCallArguments c) (if streamed_text k raw = [] then [] else [streamed_text k raw])
    \<and> item_open k c (streamed @ streamed_text k raw) calls'"
proof (cases "nonempty_delta raw")
  case None
  then show ?thesis using assms by (auto simp: streams_def streamed_text_def chatgpt_event_chunks_def)
next
  case (Some d)
  then have d: "d \<noteq> []" by (auto simp: nonempty_delta_def split: option.splits if_splits)
  obtain a where a: "others_differ k c calls" "map_of calls k = Some a" "ga_call_id a = Some c" "ga_name a \<noteq> None"
    "ga_opened a" "ga_arguments a = streamed"
    using assms(2) by (auto simp: item_open_def)
  show ?thesis
    using assms(1, 3) Some d a others_differ_put [OF a(1), of k]
    by (auto simp: streams_def streamed_text_def chatgpt_event_chunks_def apply_function_call_argument_delta_def
        open_tool_call_if_ready_def item_open_def)
qed

text \<open>The closing events carry the arguments in full.\<close>

definition rest_of :: "string \<Rightarrow> string \<Rightarrow> string" where
  "rest_of streamed final = (if prefix streamed final then drop (length streamed) final else final)"

lemma reconciled:
  assumes "item_open k c streamed calls" "reconcile_function_call_arguments calls k final raw = (cs, calls')"
  shows "deltas_of c (chunk_deltas cs)
      = map (AppendToolCallArguments c) (if prefix streamed final \<and> rest_of streamed final = [] then [] else [rest_of streamed final])
    \<and> item_open k c final calls'"
proof -
  obtain a where a: "others_differ k c calls" "map_of calls k = Some a" "ga_call_id a = Some c" "ga_name a \<noteq> None"
    "ga_opened a" "ga_arguments a = streamed"
    using assms(1) by (auto simp: item_open_def)
  show ?thesis
    using assms(2) a others_differ_put [OF a(1), of k]
    by (auto simp: reconcile_function_call_arguments_def open_tool_call_if_ready_def item_open_def rest_of_def Let_def)
qed

definition confirms :: "string \<Rightarrow> string \<Rightarrow> json \<Rightarrow> bool" where
  "confirms k final raw \<longleftrightarrow> chatgpt_kind raw = ''response.function_call_arguments.done''
     \<and> get_str ''item_id'' raw = Some k \<and> get_str ''arguments'' raw = Some final"

definition completes :: "string \<Rightarrow> string \<Rightarrow> json \<Rightarrow> bool" where
  "completes k final raw \<longleftrightarrow> chatgpt_kind raw = ''response.output_item.done'' \<and>
     (case json_get ''item'' raw of None \<Rightarrow> False | Some item \<Rightarrow>
        get_str ''type'' item = Some ''function_call'' \<and> item_id_of item = Some k \<and> get_str ''arguments'' item = Some final)"

lemma confirmed:
  assumes "confirms k final raw" "item_open k c streamed calls"
    and "chatgpt_event_chunks (chatgpt_kind raw) raw calls = (cs, calls')"
  shows "deltas_of c (chunk_deltas cs)
      = map (AppendToolCallArguments c) (if prefix streamed final \<and> rest_of streamed final = [] then [] else [rest_of streamed final])
    \<and> item_open k c final calls'"
  using assms reconciled [OF assms(2)] by (simp add: confirms_def chatgpt_event_chunks_def)

lemma completed:
  assumes "completes k final raw" "item_open k c streamed calls"
    and "chatgpt_event_chunks (chatgpt_kind raw) raw calls = (cs, calls')"
  shows "deltas_of c (chunk_deltas cs)
      = map (AppendToolCallArguments c) (if prefix streamed final \<and> rest_of streamed final = [] then [] else [rest_of streamed final])
        @ [CloseToolCall c]
    \<and> map_of calls' k = None \<and> others_differ k c calls'"
proof -
  obtain item where item: "json_get ''item'' raw = Some item" "get_str ''type'' item = Some ''function_call''"
    "item_id_of item = Some k" "get_str ''arguments'' item = Some final"
    using assms(1) by (auto simp: completes_def split: option.splits)
  obtain cs1 calls1 where r: "reconcile_function_call_arguments calls k final raw = (cs1, calls1)" by fastforce
  note r' = reconciled [OF assms(2) r]
  then obtain a where a: "map_of calls1 k = Some a" "ga_call_id a = Some c" "ga_name a \<noteq> None" "ga_opened a"
    by (auto simp: item_open_def)
  have "apply_output_item_done calls item raw = (cs, calls')"
    using assms(1, 3) item(1) by (simp add: completes_def chatgpt_event_chunks_def)
  then have "cs = semantic_tool_call_chunks (chunk_deltas cs1 @ finalize_accumulator a)" "calls' = bt_del k calls1"
    using item r a(1) by (simp_all add: apply_output_item_done_def Let_def)
  then show ?thesis
    using r' a others_differ_del [of k c calls1 k] by (auto simp: finalize_accumulator_def item_open_def)
qed

lemma run_streams:
  "list_all (\<lambda>r. streams k r \<or> elsewhere k c r) raws \<Longrightarrow> item_open k c streamed calls \<Longrightarrow>
     chatgpt_run raws calls = (cs, calls') \<Longrightarrow>
     \<exists>ps. deltas_of c (chunk_deltas cs) = map (AppendToolCallArguments c) ps
       \<and> concat ps = concat (map (streamed_text k) raws)
       \<and> item_open k c (streamed @ concat (map (streamed_text k) raws)) calls'"
proof (induction raws calls arbitrary: cs streamed rule: chatgpt_run.induct)
  case (1 calls)
  then show ?case by (intro exI [of _ "[]"]) simp
next
  case (2 raw raws calls)
  obtain cs1 calls1 where 1: "chatgpt_event_chunks (chatgpt_kind raw) raw calls = (cs1, calls1)" by fastforce
  obtain cs2 where 2: "chatgpt_run raws calls1 = (cs2, calls')" "cs = cs1 @ cs2"
    using "2.prems"(3) 1 by (auto split: prod.splits)
  have "\<exists>ps. deltas_of c (chunk_deltas cs1) = map (AppendToolCallArguments c) ps
      \<and> concat ps = streamed_text k raw \<and> item_open k c (streamed @ streamed_text k raw) calls1"
  proof (cases "streams k raw")
    case True
    from streamed_step [OF True "2.prems"(2) 1] show ?thesis
      by (cases "streamed_text k raw = []") (auto intro: exI [of _ "[streamed_text k raw]"])
  next
    case False
    then have e: "elsewhere k c raw" using "2.prems"(1) by simp
    have "others_differ k c calls" using "2.prems"(2) by (simp add: item_open_def)
    from event_elsewhere [OF 1 this e] "2.prems"(2) False show ?thesis
      by (auto simp: item_open_def streamed_text_def)
  qed
  then obtain ps where ps: "deltas_of c (chunk_deltas cs1) = map (AppendToolCallArguments c) ps"
    "concat ps = streamed_text k raw" "item_open k c (streamed @ streamed_text k raw) calls1" by blast
  from "2.IH" [OF 1 [symmetric] _ ps(3) 2(1)] "2.prems"(1)
  obtain qs where "deltas_of c (chunk_deltas cs2) = map (AppendToolCallArguments c) qs"
    "concat qs = concat (map (streamed_text k) raws)"
    "item_open k c ((streamed @ streamed_text k raw) @ concat (map (streamed_text k) raws)) calls'" by auto
  then show ?case using ps 2(2) by (intro exI [of _ "ps @ qs"]) simp
qed

lemma rest_of_self [simp]: "rest_of x x = []"
  by (simp add: rest_of_def)

lemma run_confirms:
  "list_all (\<lambda>r. confirms k final r \<or> elsewhere k c r) raws \<Longrightarrow> item_open k c streamed calls \<Longrightarrow>
     chatgpt_run raws calls = (cs, calls') \<Longrightarrow>
     \<exists>ps x. deltas_of c (chunk_deltas cs) = map (AppendToolCallArguments c) ps
       \<and> concat ps @ rest_of x final = rest_of streamed final \<and> item_open k c x calls'"
proof (induction raws calls arbitrary: cs streamed rule: chatgpt_run.induct)
  case (1 calls)
  then show ?case by (intro exI [of _ "[]"] exI [of _ streamed]) simp
next
  case (2 raw raws calls)
  obtain cs1 calls1 where 1: "chatgpt_event_chunks (chatgpt_kind raw) raw calls = (cs1, calls1)" by fastforce
  obtain cs2 where 2: "chatgpt_run raws calls1 = (cs2, calls')" "cs = cs1 @ cs2"
    using "2.prems"(3) 1 by (auto split: prod.splits)
  have "\<exists>ps x. deltas_of c (chunk_deltas cs1) = map (AppendToolCallArguments c) ps
      \<and> concat ps @ rest_of x final = rest_of streamed final \<and> item_open k c x calls1"
  proof (cases "confirms k final raw")
    case True
    from confirmed [OF True "2.prems"(2) 1] show ?thesis
      by (intro exI [of _ "if prefix streamed final \<and> rest_of streamed final = [] then [] else [rest_of streamed final]"]
          exI [of _ final]) auto
  next
    case False
    then have e: "elsewhere k c raw" using "2.prems"(1) by simp
    have "others_differ k c calls" using "2.prems"(2) by (simp add: item_open_def)
    from event_elsewhere [OF 1 this e] "2.prems"(2) show ?thesis
      by (intro exI [of _ "[]"] exI [of _ streamed]) (auto simp: item_open_def)
  qed
  then obtain ps x where ps: "deltas_of c (chunk_deltas cs1) = map (AppendToolCallArguments c) ps"
    "concat ps @ rest_of x final = rest_of streamed final" "item_open k c x calls1" by blast
  from "2.IH" [OF 1 [symmetric] _ ps(3) 2(1)] "2.prems"(1)
  obtain qs y where "deltas_of c (chunk_deltas cs2) = map (AppendToolCallArguments c) qs"
    "concat qs @ rest_of y final = rest_of x final" "item_open k c y calls'" by auto
  then show ?case using ps 2(2) by (intro exI [of _ "ps @ qs"] exI [of _ y]) simp
qed

lemma chatgpt_call_streamed:
  assumes "chatgpt_run (first # streaming @ confirming @ final_event # later) calls = (cs, calls')"
    and "map_of calls k = None" "others_differ k c calls"
    and "announces k c name initial first"
    and "list_all (\<lambda>r. streams k r \<or> elsewhere k c r) streaming"
    and "list_all (\<lambda>r. confirms k final r \<or> elsewhere k c r) confirming"
    and "completes k final final_event" "list_all (elsewhere k c) later"
    and "s = initial @ concat (map (streamed_text k) streaming)"
  shows "\<exists>ps. deltas_of c (chunk_deltas cs) = call_life c name None ps \<and> concat ps = s @ rest_of s final
    \<and> map_of calls' k = None"
proof -
  obtain cs1 c1 where 1: "chatgpt_event_chunks (chatgpt_kind first) first calls = (cs1, c1)" by fastforce
  obtain cs2 c2 where 2: "chatgpt_run streaming c1 = (cs2, c2)" by fastforce
  obtain cs3 c3 where 3: "chatgpt_run confirming c2 = (cs3, c3)" by fastforce
  obtain cs4 c4 where 4: "chatgpt_event_chunks (chatgpt_kind final_event) final_event c3 = (cs4, c4)" by fastforce
  obtain cs5 where 5: "chatgpt_run later c4 = (cs5, calls')" "cs = cs1 @ cs2 @ cs3 @ cs4 @ cs5"
    using assms(1) by (auto simp: chatgpt_run_append 1 2 3 4 split: prod.splits)
  note a = announced [OF assms(4, 2, 3) 1]
  obtain ps2 where b: "deltas_of c (chunk_deltas cs2) = map (AppendToolCallArguments c) ps2"
    "concat ps2 = concat (map (streamed_text k) streaming)" "item_open k c s c2"
    using run_streams [OF assms(5) conjunct2 [OF a] 2] assms(9) by blast
  obtain ps3 x where d: "deltas_of c (chunk_deltas cs3) = map (AppendToolCallArguments c) ps3"
    "concat ps3 @ rest_of x final = rest_of s final" "item_open k c x c3"
    using run_confirms [OF assms(6) b(3) 3] by blast
  note e = completed [OF assms(7) d(3) 4]
  have f: "deltas_of c (chunk_deltas cs5) = [] \<and> map_of calls' k = None"
    using run_elsewhere [OF assms(8) _ 5(1)] e by simp
  let ?p1 = "if initial = [] then [] else [initial]"
  let ?p4 = "if prefix x final \<and> rest_of x final = [] then [] else [rest_of x final]"
  have "deltas_of c (chunk_deltas cs) = call_life c name None (?p1 @ ps2 @ ps3 @ ?p4)"
    using a b(1) d(1) e f by (simp add: 5(2) call_life_def)
  moreover have "concat (?p1 @ ps2 @ ps3 @ ?p4) = s @ rest_of s final"
    using b(2) d(2) assms(9) by auto
  ultimately show ?thesis using f by blast
qed

text \<open>C36: a function call of the Responses stream reaches the agent as one opened, filled and closed call,
whatever other items are interleaved; the closing events, which send the arguments again in full, add
only what is missing when they extend the streamed text, so the agent gets exactly the final arguments.
When they do not extend it, the agent gets the streamed text followed by the final arguments.
\<close>

theorem chatgpt_call_delivered:
  assumes "chatgpt_run (first # streaming @ confirming @ final_event # later) calls = (cs, calls')"
    and "map_of calls k = None" "others_differ k c calls"
    and "announces k c name initial first"
    and "list_all (\<lambda>r. streams k r \<or> elsewhere k c r) streaming"
    and "list_all (\<lambda>r. confirms k final r \<or> elsewhere k c r) confirming"
    and "completes k final final_event" "list_all (elsewhere k c) later"
    and "s = initial @ concat (map (streamed_text k) streaming)"
    and "open_call c response = None" "apply_deltas pj (chunk_deltas cs) response = Inr response'"
  shows "\<exists>call \<in> set (ra_tool_calls response').
    finalize_tool_call pj \<lparr>ac_call_id = c, ac_tool_name = name, ac_initial_arguments = None,
      ac_partial_json = (if prefix s final then final else s @ final)\<rparr> = Inr call"
proof -
  from chatgpt_call_streamed [OF assms(1-9)] obtain ps where ps:
    "deltas_of c (chunk_deltas cs) = call_life c name None ps" "concat ps = s @ rest_of s final" by blast
  have "s @ rest_of s final = (if prefix s final then final else s @ final)"
    by (auto simp: rest_of_def prefix_def)
  with call_life_completed [OF assms(11, 10) ps(1)] ps(2) show ?thesis by auto
qed

definition ex_item_event :: "string \<Rightarrow> string \<Rightarrow> string \<Rightarrow> json" where
  "ex_item_event kind i args =
     JObject [(''item'', JObject [(''arguments'', JString args), (''call_id'', JString (''c'' @ i)), (''id'', JString i),
         (''name'', JString ''ls''), (''type'', JString ''function_call'')]), (''type'', JString kind)]"

definition ex_args_event :: "string \<Rightarrow> string \<Rightarrow> string \<Rightarrow> string \<Rightarrow> json" where
  "ex_args_event kind member i args =
     JObject [(member, JString args), (''item_id'', JString i),
       (''type'', JString (''response.function_call_arguments.'' @ kind))]"

text \<open>The closing events format the arguments differently from the streamed fragments.\<close>

definition ex_streaming :: "json list" where
  "ex_streaming = [ex_args_event ''delta'' ''delta'' ''1'' ''{ '', ex_item_event ''response.output_item.added'' ''2'' [],
     ex_args_event ''delta'' ''delta'' ''1'' ''}'']"

theorem chatgpt_call_delivered_witness:
  "\<exists>response. apply_deltas (\<lambda>s. if s = ''{}'' then Some (JObject []) else None)
      (chunk_deltas (fst (chatgpt_run (ex_item_event ''response.output_item.added'' ''1'' [] # ex_streaming
        @ [ex_args_event ''done'' ''arguments'' ''1'' ''{}''] @ ex_item_event ''response.output_item.done'' ''1'' ''{}'' # []) [])))
      empty_response = Inr response
   \<and> (\<exists>call \<in> set (ra_tool_calls response). ct_call_id call = ''c1'' \<and> ct_arguments call = JString ''{ }{}'')"
proof -
  let ?first = "ex_item_event ''response.output_item.added'' ''1'' []"
  let ?confirming = "[ex_args_event ''done'' ''arguments'' ''1'' ''{}'']"
  let ?final = "ex_item_event ''response.output_item.done'' ''1'' ''{}''"
  let ?pj = "\<lambda>s. if s = ''{}'' then Some (JObject []) else None"
  let ?run = "chatgpt_run (?first # ex_streaming @ ?confirming @ ?final # []) []"
  have "(case apply_deltas ?pj (chunk_deltas (fst ?run)) empty_response of Inr s \<Rightarrow> True | Inl e \<Rightarrow> False)"
    by code_simp
  then obtain response where r: "apply_deltas ?pj (chunk_deltas (fst ?run)) empty_response = Inr response"
    by (auto split: sum.splits)
  have "\<exists>call \<in> set (ra_tool_calls response).
    finalize_tool_call ?pj \<lparr>ac_call_id = ''c1'', ac_tool_name = ''ls'', ac_initial_arguments = None,
      ac_partial_json = (if prefix ''{ }'' ''{}'' then ''{}'' else ''{ }'' @ ''{}'')\<rparr> = Inr call"
  proof (rule chatgpt_call_delivered [OF prod.collapse [symmetric] _ _ _ _ _ _ _ _ _ r])
    show "map_of [] ''1'' = (None :: chatgpt_accumulator option)" "others_differ ''1'' ''c1'' []"
      by (simp_all add: others_differ_def)
    show "announces ''1'' ''c1'' ''ls'' [] ?first" by code_simp
    show "list_all (\<lambda>r. streams ''1'' r \<or> elsewhere ''1'' ''c1'' r) ex_streaming" by code_simp
    show "list_all (\<lambda>r. confirms ''1'' ''{}'' r \<or> elsewhere ''1'' ''c1'' r) ?confirming" by code_simp
    show "completes ''1'' ''{}'' ?final" by code_simp
    show "''{ }'' = [] @ concat (map (streamed_text ''1'') ex_streaming)" by code_simp
    show "list_all (elsewhere ''1'' ''c1'') []" "open_call ''c1'' empty_response = None" by (simp, code_simp)
  qed
  then obtain call where call: "call \<in> set (ra_tool_calls response)" and f: "finalize_tool_call ?pj \<lparr>ac_call_id = ''c1'',
      ac_tool_name = ''ls'', ac_initial_arguments = None,
      ac_partial_json = (if prefix ''{ }'' ''{}'' then ''{}'' else ''{ }'' @ ''{}'')\<rparr> = Inr call" by blast
  have "finalize_tool_call ?pj \<lparr>ac_call_id = ''c1'', ac_tool_name = ''ls'', ac_initial_arguments = None,
      ac_partial_json = (if prefix ''{ }'' ''{}'' then ''{}'' else ''{ }'' @ ''{}'')\<rparr>
    = Inr \<lparr>ct_call_id = ''c1'', ct_tool_name = ''ls'', ct_arguments = JString ''{ }{}''\<rparr>" by code_simp
  then have "call = \<lparr>ct_call_id = ''c1'', ct_tool_name = ''ls'', ct_arguments = JString ''{ }{}''\<rparr>"
    unfolding f by (rule sum.inject(2) [THEN iffD1])
  then have "ct_call_id call = ''c1''" "ct_arguments call = JString ''{ }{}''" by simp_all
  then show ?thesis by (intro exI [of _ response] conjI r bexI [OF _ call])
qed

end
