(* ===== verification/Bt_BundleTypes.thy ===== *)
theory Bt_BundleTypes
  imports Bt_Replay
begin

section \<open>Portable session bundles: the data model\<close>

text \<open>
  The types of \<open>bt-core/src/bundle.rs\<close>: portable content hashes with their parser, node, content and
  event range references, branch manifests and the bundle manifest; and the content hash of
  \<open>bt-session/src/export.rs\<close> (\<open>hash_bytes\<close>, \<open>to_lower_hex\<close>).

  SHA-256 is a dependency: \<open>digest\<close>, a function from bytes to the 32 bytes of the digest. Ordinals and
  sizes (\<open>u64\<close>) are natural numbers: they are indexes and lengths of vectors in memory, are only
  compared, and their single increment (\<open>last.ordinal + 1\<close>) is applied to the index of an element.
\<close>

subsection \<open>Portable hashes\<close>

datatype portable_hash = PortableHash (hash_text: string)

definition SHA256_PREFIX :: string where
  "SHA256_PREFIX = ''sha256:''"

definition SHA256_HEX_LEN :: nat where
  "SHA256_HEX_LEN = 64"

definition is_lower_hex :: "char \<Rightarrow> bool" where
  "is_lower_hex c \<longleftrightarrow> (48 \<le> byte_of c \<and> byte_of c \<le> 57) \<or> (97 \<le> byte_of c \<and> byte_of c \<le> 102)"

text \<open>\<open>validate_portable_hash\<close>, \<open>PortableHash::new\<close>: \<open>None\<close> is \<open>PortableHashParseError\<close>.\<close>

definition validate_portable_hash :: "string \<Rightarrow> bool" where
  "validate_portable_hash v =
     (case strip_prefix SHA256_PREFIX v of
        None \<Rightarrow> False
      | Some hex \<Rightarrow> length hex = SHA256_HEX_LEN \<and> list_all is_lower_hex hex)"

definition portable_hash_new :: "string \<Rightarrow> portable_hash option" where
  "portable_hash_new v = (if validate_portable_hash v then Some (PortableHash v) else None)"

definition from_sha256_hex :: "string \<Rightarrow> portable_hash" where
  "from_sha256_hex hex = PortableHash (SHA256_PREFIX @ to_ascii_lowercase hex)"

definition sha256_hex :: "portable_hash \<Rightarrow> string" where
  "sha256_hex h =
     (case strip_prefix SHA256_PREFIX (hash_text h) of None \<Rightarrow> hash_text h | Some hex \<Rightarrow> hex)"

definition lower_hex_digit :: "nat \<Rightarrow> char" where
  "lower_hex_digit n = ''0123456789abcdef'' ! n"

definition to_lower_hex :: "string \<Rightarrow> string" where
  "to_lower_hex bytes =
     concat (map (\<lambda>b. [lower_hex_digit (byte_of b div 16), lower_hex_digit (byte_of b mod 16)]) bytes)"

definition hash_bytes :: "(string \<Rightarrow> string) \<Rightarrow> string \<Rightarrow> portable_hash" where
  "hash_bytes digest bytes = from_sha256_hex (to_lower_hex (digest bytes))"

lemma byte_of_less: "byte_of c < 256"
  unfolding byte_of_def by (cases c) (simp add: of_char_Char horner_sum_simps)

lemma lower_hex_digit_lower: "n < 16 \<Longrightarrow> is_lower_hex (lower_hex_digit n) \<and> ascii_lower (lower_hex_digit n) = lower_hex_digit n"
proof -
  have all: "list_all (\<lambda>n. is_lower_hex (lower_hex_digit n) \<and> ascii_lower (lower_hex_digit n) = lower_hex_digit n) [0..<16]"
    by code_simp
  assume "n < 16"
  then show ?thesis
    using all by (simp add: list_all_iff)
qed

lemma to_lower_hex_props:
  "list_all is_lower_hex (to_lower_hex bytes)" "map ascii_lower (to_lower_hex bytes) = to_lower_hex bytes"
  "length (to_lower_hex bytes) = 2 * length bytes"
proof (induction bytes)
  case (Cons b bytes)
  have "byte_of b div 16 < 16" "byte_of b mod 16 < 16"
    using byte_of_less [of b] by auto
  then show
    "list_all is_lower_hex (to_lower_hex (b # bytes))"
    "map ascii_lower (to_lower_hex (b # bytes)) = to_lower_hex (b # bytes)"
    "length (to_lower_hex (b # bytes)) = 2 * length (b # bytes)"
    using Cons lower_hex_digit_lower by (auto simp: to_lower_hex_def)
qed (simp_all add: to_lower_hex_def)

lemma hash_bytes_text: "hash_text (hash_bytes digest b) = SHA256_PREFIX @ to_lower_hex (digest b)"
  by (simp add: hash_bytes_def from_sha256_hex_def to_ascii_lowercase_def to_lower_hex_props)

text \<open>Every hash the code computes is one the parser accepts.\<close>

lemma hash_bytes_canonical:
  assumes "length (digest b) = 32"
  shows "portable_hash_new (hash_text (hash_bytes digest b)) = Some (hash_bytes digest b)"
proof -
  have "validate_portable_hash (hash_text (hash_bytes digest b))"
    using assms
    by (simp add: validate_portable_hash_def hash_bytes_text strip_prefix_def to_lower_hex_props
        SHA256_HEX_LEN_def)
  then show ?thesis
    by (simp add: portable_hash_new_def)
qed

lemma sha256_hex_hash_bytes: "sha256_hex (hash_bytes digest b) = to_lower_hex (digest b)"
  by (simp add: sha256_hex_def hash_bytes_text strip_prefix_def)

instantiation portable_hash :: linorder
begin
definition less_eq_portable_hash :: "portable_hash \<Rightarrow> portable_hash \<Rightarrow> bool" where
  "less_eq_portable_hash a b \<longleftrightarrow> hash_text a \<le> hash_text b"
definition less_portable_hash :: "portable_hash \<Rightarrow> portable_hash \<Rightarrow> bool" where
  "less_portable_hash a b \<longleftrightarrow> hash_text a < hash_text b"
instance
  by standard (auto simp: less_eq_portable_hash_def less_portable_hash_def portable_hash.expand)
end

subsection \<open>References and manifests\<close>

record session_node_ref =
  nr_bundle_hash :: "portable_hash option"
  nr_session_id :: session_id
  nr_branch_id :: branch_id
  nr_ordinal :: nat
  nr_store_seq_id :: "i64 option"
  nr_event_id :: event_id
  nr_event_hash :: portable_hash

record content_ref =
  cr_hash :: portable_hash
  cr_media_type :: "string option"
  cr_size_bytes :: nat
  cr_path :: "string option"

record event_range =
  rg_branch_id :: branch_id
  rg_ordinal_start :: nat
  rg_ordinal_end :: nat
  rg_first_event_hash :: portable_hash
  rg_last_event_hash :: portable_hash
  rg_seq_start :: "i64 option"
  rg_seq_end :: "i64 option"

record bundle_artifact_ref =
  ba_artifact_id :: string
  ba_kind :: string
  ba_source_node :: session_node_ref
  ba_content :: content_ref

record branch_manifest =
  bm_branch_id :: branch_id
  bm_parent_branch_id :: "branch_id option"
  bm_parent_event_id :: "event_id option"
  bm_head :: "session_node_ref option"
  bm_is_default :: bool
  bm_summary :: "string option"

record producer_info =
  pr_name :: string
  pr_version :: string

datatype redaction_policy = RedactionNone

datatype artifact_mode = TraceOnly | TracePlusPatches | TracePlusArtifacts

record session_bundle_manifest =
  sm_schema_version :: nat
  sm_bundle_hash :: portable_hash
  sm_session :: session_record
  sm_branches :: "branch_manifest list"
  sm_event_ranges :: "event_range list"
  sm_producer :: producer_info
  sm_redaction :: redaction_policy
  sm_artifact_mode :: artifact_mode
  sm_contents :: "content_ref list"
  sm_artifacts :: "bundle_artifact_ref list"

end
