(* ===== verification/Bt_Portable.thy ===== *)
theory Bt_Portable
  imports Bt_BundleTypes
begin

section \<open>Portable events\<close>

text \<open>
  The portable form of an event (\<open>bt-session/src/export.rs\<close>): \<open>PortableEventPayload\<close> with the source's
  variants, the conversions from and to the live payload, the kind labels and the references to raw
  chunk contents. A live event refers to rows of the local store (its sequence number, raw chunk
  ids, context boundaries); the portable one refers to contents by hash and drops the rest.

  Variants with the same fields are converted by \<open>from_value(to_value(..))\<close>, which copies the fields:
  both enums derive \<open>Serialize\<close> and \<open>Deserialize\<close> with the same variant and field names. JSON has no
  NaN or infinity: an optional field reads the \<open>null\<close> they are written as as \<open>None\<close>, a required one
  refuses it. A local id map (\<open>HashMap\<close>) is a function to an option; a \<open>BTreeSet\<close> of references is the
  list of its elements in order, here of at most one.
\<close>

record raw_chunk_event_ref =
  rw_local_chunk_id :: i64
  rw_content_hash :: portable_hash

definition invalid_bundle :: "string \<Rightarrow> belltower_error" where
  "invalid_bundle m = Protocol (''invalid session bundle: '' @ m)"

definition show_i64 :: "i64 \<Rightarrow> string" where
  "show_i64 i = (if i < 0 then ''-'' @ show_nat (nat (- i)) else show_nat (nat i))"

subsection \<open>Manifests and compactions\<close>

record portable_context_message_ref =
  pm_message_id :: message_id
  pm_role :: role
  pm_source_branch_id :: "branch_id option"
  pm_part_count :: u32
  pm_visible_text_chars :: u64

record portable_context_manifest =
  pf_turn_id :: turn_id
  pf_branch_id :: branch_id
  pf_llm_call_ordinal :: u32
  pf_provider :: string
  pf_model :: string
  pf_settings_revision_id :: u64
  pf_system_prompt_present :: bool
  pf_system_prompt_char_count :: u64
  pf_messages :: "portable_context_message_ref list"
  pf_tools :: "context_tool_ref list"
  pf_attachments :: "context_attachment list"
  pf_max_tokens :: "u64 option"
  pf_thinking :: "thinking_config option"
  pf_compacted :: bool

definition message_ref_from_live :: "context_message_ref \<Rightarrow> portable_context_message_ref" where
  "message_ref_from_live r =
     \<lparr>pm_message_id = cm_message_id r, pm_role = cm_role r,
      pm_source_branch_id = cm_source_branch_id r, pm_part_count = cm_part_count r,
      pm_visible_text_chars = cm_visible_text_chars r\<rparr>"

definition message_ref_to_live :: "portable_context_message_ref \<Rightarrow> context_message_ref" where
  "message_ref_to_live r =
     \<lparr>cm_message_id = pm_message_id r, cm_role = pm_role r,
      cm_source_branch_id = pm_source_branch_id r, cm_source_seq_id = None,
      cm_part_count = pm_part_count r, cm_visible_text_chars = pm_visible_text_chars r\<rparr>"

definition manifest_from_live :: "context_manifest \<Rightarrow> portable_context_manifest" where
  "manifest_from_live m =
     \<lparr>pf_turn_id = mf_turn_id m, pf_branch_id = mf_branch_id m,
      pf_llm_call_ordinal = mf_llm_call_ordinal m, pf_provider = mf_provider m,
      pf_model = mf_model m, pf_settings_revision_id = mf_settings_revision_id m,
      pf_system_prompt_present = mf_system_prompt_present m,
      pf_system_prompt_char_count = mf_system_prompt_char_count m,
      pf_messages = map message_ref_from_live (mf_messages m), pf_tools = mf_tools m,
      pf_attachments = mf_attachments m, pf_max_tokens = mf_max_tokens m,
      pf_thinking = mf_thinking m, pf_compacted = mf_compacted m\<rparr>"

definition manifest_to_live :: "portable_context_manifest \<Rightarrow> context_manifest" where
  "manifest_to_live m =
     \<lparr>mf_turn_id = pf_turn_id m, mf_branch_id = pf_branch_id m,
      mf_llm_call_ordinal = pf_llm_call_ordinal m, mf_provider = pf_provider m,
      mf_model = pf_model m, mf_settings_revision_id = pf_settings_revision_id m,
      mf_context_boundary_seq_id = None,
      mf_system_prompt_present = pf_system_prompt_present m,
      mf_system_prompt_char_count = pf_system_prompt_char_count m,
      mf_messages = map message_ref_to_live (pf_messages m), mf_tools = pf_tools m,
      mf_attachments = pf_attachments m, mf_max_tokens = pf_max_tokens m,
      mf_thinking = pf_thinking m, mf_compacted = pf_compacted m\<rparr>"

text \<open>The fields of \<open>PortableEventPayload::ContextCompacted\<close>.\<close>

record portable_context_compacted =
  pc_compaction_id :: compaction_id
  pc_window_number :: "u64 option"
  pc_previous_compaction_id :: "compaction_id option"
  pc_first_compaction_id :: "compaction_id option"
  pc_trigger :: context_compaction_trigger
  pc_phase :: context_compaction_phase
  pc_status :: context_compaction_status
  pc_reason :: "string option"
  pc_provider :: "string option"
  pc_model :: "string option"
  pc_summary_message_id :: "message_id option"
  pc_first_kept_message_id :: "message_id option"
  pc_first_kept_branch_id :: "branch_id option"
  pc_latency_ms :: "u64 option"
  pc_summary :: string
  pc_messages_before :: u32
  pc_messages_after :: u32
  pc_tokens_before :: u64
  pc_tokens_after :: u64
  pc_files_read :: "string list"
  pc_files_modified :: "string list"

definition compacted_from_live :: "context_compacted \<Rightarrow> portable_context_compacted" where
  "compacted_from_live c =
     \<lparr>pc_compaction_id = cc_compaction_id c,
      pc_window_number = cc_window_number c,
      pc_previous_compaction_id = cc_previous_compaction_id c,
      pc_first_compaction_id = cc_first_compaction_id c,
      pc_trigger = cc_trigger c,
      pc_phase = cc_phase c,
      pc_status = cc_status c,
      pc_reason = cc_reason c,
      pc_provider = cc_provider c,
      pc_model = cc_model c,
      pc_summary_message_id = cc_summary_message_id c,
      pc_first_kept_message_id = cc_first_kept_message_id c,
      pc_first_kept_branch_id = cc_first_kept_branch_id c,
      pc_latency_ms = cc_latency_ms c,
      pc_summary = cc_summary c,
      pc_messages_before = cc_messages_before c,
      pc_messages_after = cc_messages_after c,
      pc_tokens_before = cc_tokens_before c,
      pc_tokens_after = cc_tokens_after c,
      pc_files_read = cc_files_read c,
      pc_files_modified = cc_files_modified c\<rparr>"

definition compacted_to_live :: "portable_context_compacted \<Rightarrow> context_compacted" where
  "compacted_to_live c =
     \<lparr>cc_compaction_id = pc_compaction_id c,
      cc_window_number = pc_window_number c,
      cc_previous_compaction_id = pc_previous_compaction_id c,
      cc_first_compaction_id = pc_first_compaction_id c,
      cc_trigger = pc_trigger c,
      cc_phase = pc_phase c,
      cc_status = pc_status c,
      cc_reason = pc_reason c,
      cc_provider = pc_provider c,
      cc_model = pc_model c,
      cc_context_boundary_seq_id = None,
      cc_summary_message_id = pc_summary_message_id c,
      cc_first_kept_message_id = pc_first_kept_message_id c,
      cc_first_kept_branch_id = pc_first_kept_branch_id c,
      cc_first_kept_seq_id = None,
      cc_latency_ms = pc_latency_ms c,
      cc_summary = pc_summary c,
      cc_messages_before = pc_messages_before c,
      cc_messages_after = pc_messages_after c,
      cc_tokens_before = pc_tokens_before c,
      cc_tokens_after = pc_tokens_after c,
      cc_files_read = pc_files_read c,
      cc_files_modified = pc_files_modified c\<rparr>"

subsection \<open>Payloads\<close>

datatype (plugins only: size code) portable_event_payload =
  P_SessionStarted string string
| P_SessionSpawnRequested session_id string string "string option"
| P_SessionSpawned session_id branch_id string
| P_SessionHandoffRecorded session_id branch_id "turn_id option" string string
| P_SessionResultImported session_id string string
| P_SessionResultRejected session_id string
| P_RelatedSessionMessageRecorded related_session_message_direction event_id related_session_message
| P_RelatedSessionMessageResolved related_session_message_id related_session_message_status "turn_id option" "string option"
| P_RelatedSessionMessageSettled related_session_message_id related_session_message_id related_session_message_kind turn_id
| P_SessionSettingsUpdated u64 string "string option" string
| P_SessionEnded string
| P_BranchCreated "branch_id option" "event_id option"
| P_BranchActivated branch_id
| P_BranchSummarized branch_id string "string list" "string list"
| P_MessageAppended message
| P_TurnStarted turn_id string string u32 u64 turn_start_source "tool_call_id option"
| P_TurnInstructionProvenanceRecorded turn_instruction_provenance
| P_TurnContextManifestRecorded portable_context_manifest
| P_CompletionRequested u32 string string u32
| P_CompletionChunk "u32 option" "completion_delta list" "portable_hash option"
| P_CompletionFinished u32 string string token_usage "cost_breakdown option" string u64
| P_SessionError error_class string string bool
| P_TurnFinished turn_id string string string "string option" u64
| P_ToolCallRequested tool_call_id string json
| P_ToolOperationRecorded tool_call_id string tool_operation_context
| P_ToolApprovalRequested tool_call_id string "approval_request_snapshot option"
| P_ToolApprovalResolved tool_call_id string "string option" "approval_resolution option" approval_decision
| P_ToolExecutionFinished tool_call_id string tool_result_envelope
| P_PlanUpdated "plan_item list"
| P_BudgetConfigured budget_config
| P_ContextCompacted portable_context_compacted
| P_BudgetCheckpoint u64 u32 u64 "f64 option"
| P_SessionQueuedMessageEnqueued message u64
| P_SessionQueuedMessageResolved event_id queued_message_resolution_outcome "string option"
| P_SessionCancelled string
| P_SessionCancelCleared string
| P_SessionSteered string u64
| P_SessionSteersResolved "event_id list" steer_resolution_outcome "string option" "string option"
| P_OperatorCommandRecorded string string string bool
| P_RawChunkPersisted string portable_hash string "u32 option"

primrec portable_kind :: "portable_event_payload \<Rightarrow> string" where
  "portable_kind (P_SessionStarted a b) = ''session.started''"
| "portable_kind (P_SessionSpawnRequested a b c d) = ''session.spawn.requested''"
| "portable_kind (P_SessionSpawned a b c) = ''session.spawned''"
| "portable_kind (P_SessionHandoffRecorded a b c d e) = ''session.handoff.recorded''"
| "portable_kind (P_SessionResultImported a b c) = ''session.result.imported''"
| "portable_kind (P_SessionResultRejected a b) = ''session.result.rejected''"
| "portable_kind (P_RelatedSessionMessageRecorded a b c) = ''session.related_message.recorded''"
| "portable_kind (P_RelatedSessionMessageResolved a b c d) = ''session.related_message.resolved''"
| "portable_kind (P_RelatedSessionMessageSettled a b c d) = ''session.related_message.settled''"
| "portable_kind (P_SessionSettingsUpdated a b c d) = ''session.settings.updated''"
| "portable_kind (P_SessionEnded a) = ''session.ended''"
| "portable_kind (P_BranchCreated a b) = ''branch.created''"
| "portable_kind (P_BranchActivated a) = ''branch.activated''"
| "portable_kind (P_BranchSummarized a b c d) = ''branch.summarized''"
| "portable_kind (P_MessageAppended a) = ''message.appended''"
| "portable_kind (P_TurnStarted a b c d e f g) = ''turn.started''"
| "portable_kind (P_TurnInstructionProvenanceRecorded a) = ''turn.instructions.recorded''"
| "portable_kind (P_TurnContextManifestRecorded a) = ''turn.context_manifest.recorded''"
| "portable_kind (P_CompletionRequested a b c d) = ''completion.requested''"
| "portable_kind (P_CompletionChunk a b c) = ''completion.chunk''"
| "portable_kind (P_CompletionFinished a b c d e f g) = ''completion.finished''"
| "portable_kind (P_SessionError a b c d) = ''session.error''"
| "portable_kind (P_TurnFinished a b c d e f) = ''turn.finished''"
| "portable_kind (P_ToolCallRequested a b c) = ''tool.call.requested''"
| "portable_kind (P_ToolOperationRecorded a b c) = ''tool.operation.recorded''"
| "portable_kind (P_ToolApprovalRequested a b c) = ''tool.approval.requested''"
| "portable_kind (P_ToolApprovalResolved a b c d e) = ''tool.approval.resolved''"
| "portable_kind (P_ToolExecutionFinished a b c) = ''tool.execution.finished''"
| "portable_kind (P_PlanUpdated a) = ''plan.updated''"
| "portable_kind (P_BudgetConfigured a) = ''budget.configured''"
| "portable_kind (P_ContextCompacted a) = ''context.compacted''"
| "portable_kind (P_BudgetCheckpoint a b c d) = ''budget.checkpoint''"
| "portable_kind (P_SessionQueuedMessageEnqueued a b) = ''session.queued_message.enqueued''"
| "portable_kind (P_SessionQueuedMessageResolved a b c) = ''session.queued_message.resolved''"
| "portable_kind (P_SessionCancelled a) = ''session.cancelled''"
| "portable_kind (P_SessionCancelCleared a) = ''session.cancel.cleared''"
| "portable_kind (P_SessionSteered a b) = ''session.steered''"
| "portable_kind (P_SessionSteersResolved a b c d) = ''session.steers.resolved''"
| "portable_kind (P_OperatorCommandRecorded a b c d) = ''operator.command.recorded''"
| "portable_kind (P_RawChunkPersisted a b c d) = ''raw_chunk.persisted''"

text \<open>\<open>raw_chunk_content_refs\<close>\<close>

definition raw_chunk_content_refs :: "portable_event_payload \<Rightarrow> portable_hash list" where
  "raw_chunk_content_refs p =
     (case p of
        P_CompletionChunk a b (Some h) \<Rightarrow> [h]
      | P_RawChunkPersisted a h c d \<Rightarrow> [h]
      | _ \<Rightarrow> [])"

definition raw_chunk_ref ::
  "i64 \<Rightarrow> (i64 \<Rightarrow> portable_hash option) \<Rightarrow> string \<Rightarrow> raw_chunk_event_ref result" where
  "raw_chunk_ref cid hashes label =
     and_then (ok_or (invalid_bundle (label @ '' references missing raw chunk '' @ show_i64 cid))
       (hashes cid))
     (\<lambda>h. Inr \<lparr>rw_local_chunk_id = cid, rw_content_hash = h\<rparr>)"

definition imported_raw_chunk_id ::
  "event_id \<Rightarrow> portable_hash \<Rightarrow> (event_id \<times> portable_hash \<Rightarrow> i64 option) \<Rightarrow> string \<Rightarrow> i64 result" where
  "imported_raw_chunk_id eid h ids label =
     ok_or (invalid_bundle (label @ '' event '' @ event_id_text eid @ '' references raw chunk content ''
         @ hash_text h @ '' that was not imported'')) (ids (eid, h))"

text \<open>\<open>from_value (to_value x)\<close>: a \<open>serde_json::Value\<close> holds a finite double as it is, without a text, and
  \<open>Null\<close> for the others.\<close>

definition value_f64_opt :: "f64 option \<Rightarrow> f64 option" where
  "value_f64_opt x = (case x of Some v \<Rightarrow> if f64_finite v then Some v else None | None \<Rightarrow> None)"

definition json_cost :: "cost_breakdown \<Rightarrow> cost_breakdown result" where
  "json_cost c =
     (if f64_finite (prompt_usd c) \<and> f64_finite (completion_usd c) \<and> f64_finite (total_usd c)
      then Inr (c\<lparr>cache_read_usd := value_f64_opt (cache_read_usd c),
                  cache_write_usd := value_f64_opt (cache_write_usd c),
                  reasoning_usd := value_f64_opt (reasoning_usd c)\<rparr>)
      else Inl (Json ''invalid type: null, expected f64''))"

primrec payload_from_live ::
  "event_payload \<Rightarrow> (i64 \<Rightarrow> portable_hash option) \<Rightarrow> (portable_event_payload \<times> raw_chunk_event_ref list) result"
where
  "payload_from_live (SessionStarted a b) hashes =
     Inr (P_SessionStarted a b, [])"
| "payload_from_live (SessionSpawnRequested a b c d) hashes =
     Inr (P_SessionSpawnRequested a b c d, [])"
| "payload_from_live (SessionSpawned a b c) hashes =
     Inr (P_SessionSpawned a b c, [])"
| "payload_from_live (SessionHandoffRecorded a b c d e) hashes =
     Inr (P_SessionHandoffRecorded a b c d e, [])"
| "payload_from_live (SessionResultImported a b c) hashes =
     Inr (P_SessionResultImported a b c, [])"
| "payload_from_live (SessionResultRejected a b) hashes =
     Inr (P_SessionResultRejected a b, [])"
| "payload_from_live (RelatedSessionMessageRecorded a b c) hashes =
     Inr (P_RelatedSessionMessageRecorded a b c, [])"
| "payload_from_live (RelatedSessionMessageResolved a b c d) hashes =
     Inr (P_RelatedSessionMessageResolved a b c d, [])"
| "payload_from_live (RelatedSessionMessageSettled a b c d) hashes =
     Inr (P_RelatedSessionMessageSettled a b c d, [])"
| "payload_from_live (SessionSettingsUpdated a b c d) hashes =
     Inr (P_SessionSettingsUpdated a b c d, [])"
| "payload_from_live (SessionEnded a) hashes =
     Inr (P_SessionEnded a, [])"
| "payload_from_live (BranchCreated a b) hashes =
     Inr (P_BranchCreated a b, [])"
| "payload_from_live (BranchActivated a) hashes =
     Inr (P_BranchActivated a, [])"
| "payload_from_live (BranchSummarized a b c d) hashes =
     Inr (P_BranchSummarized a b c d, [])"
| "payload_from_live (MessageAppended a) hashes =
     Inr (P_MessageAppended a, [])"
| "payload_from_live (TurnStarted a b c d e f g) hashes =
     Inr (P_TurnStarted a b c d e f g, [])"
| "payload_from_live (TurnInstructionProvenanceRecorded a) hashes =
     Inr (P_TurnInstructionProvenanceRecorded a, [])"
| "payload_from_live (TurnContextManifestRecorded a) hashes =
     Inr (P_TurnContextManifestRecorded (manifest_from_live a), [])"
| "payload_from_live (CompletionRequested a b c d) hashes =
     Inr (P_CompletionRequested a b c d, [])"
| "payload_from_live (CompletionChunk a b c) hashes =
     (case c of
        None \<Rightarrow> Inr (P_CompletionChunk a b None, [])
      | Some cid \<Rightarrow> and_then (raw_chunk_ref cid hashes ''completion chunk'') (\<lambda>r.
          Inr (P_CompletionChunk a b (Some (rw_content_hash r)), [r])))"
| "payload_from_live (CompletionFinished a b c d e f g) hashes =
     (case e of
        None \<Rightarrow> Inr (P_CompletionFinished a b c d None f g, [])
      | Some cost \<Rightarrow> and_then (json_cost cost) (\<lambda>cost'.
          Inr (P_CompletionFinished a b c d (Some cost') f g, [])))"
| "payload_from_live (SessionError a b c d) hashes =
     Inr (P_SessionError a b c d, [])"
| "payload_from_live (TurnFinished a b c d e f) hashes =
     Inr (P_TurnFinished a b c d e f, [])"
| "payload_from_live (ToolCallRequested a b c) hashes =
     Inr (P_ToolCallRequested a b c, [])"
| "payload_from_live (ToolOperationRecorded a b c) hashes =
     Inr (P_ToolOperationRecorded a b c, [])"
| "payload_from_live (ToolApprovalRequested a b c) hashes =
     Inr (P_ToolApprovalRequested a b c, [])"
| "payload_from_live (ToolApprovalResolved a b c d e) hashes =
     Inr (P_ToolApprovalResolved a b c d e, [])"
| "payload_from_live (ToolExecutionFinished a b c) hashes =
     Inr (P_ToolExecutionFinished a b c, [])"
| "payload_from_live (PlanUpdated a) hashes =
     Inr (P_PlanUpdated a, [])"
| "payload_from_live (BudgetConfigured a) hashes =
     Inr (P_BudgetConfigured (a\<lparr>max_cost_usd := value_f64_opt (max_cost_usd a)\<rparr>), [])"
| "payload_from_live (ContextCompacted a) hashes =
     Inr (P_ContextCompacted (compacted_from_live a), [])"
| "payload_from_live (BudgetCheckpoint a b c d) hashes =
     Inr (P_BudgetCheckpoint a b c (value_f64_opt d), [])"
| "payload_from_live (SessionQueuedMessageEnqueued a b) hashes =
     Inr (P_SessionQueuedMessageEnqueued a b, [])"
| "payload_from_live (SessionQueuedMessageResolved a b c) hashes =
     Inr (P_SessionQueuedMessageResolved a b c, [])"
| "payload_from_live (SessionCancelled a) hashes =
     Inr (P_SessionCancelled a, [])"
| "payload_from_live (SessionCancelCleared a) hashes =
     Inr (P_SessionCancelCleared a, [])"
| "payload_from_live (SessionSteered a b) hashes =
     Inr (P_SessionSteered a b, [])"
| "payload_from_live (SessionSteersResolved a b c d) hashes =
     Inr (P_SessionSteersResolved a b c d, [])"
| "payload_from_live (OperatorCommandRecorded a b c d) hashes =
     Inr (P_OperatorCommandRecorded a b c d, [])"
| "payload_from_live (RawChunkPersisted a b c d) hashes =
     and_then (raw_chunk_ref b hashes ''raw chunk persisted event'') (\<lambda>r.
       Inr (P_RawChunkPersisted a (rw_content_hash r) c d, [r]))"

primrec payload_to_live ::
  "portable_event_payload \<Rightarrow> event_id \<Rightarrow> (event_id \<times> portable_hash \<Rightarrow> i64 option) \<Rightarrow> event_payload result"
where
  "payload_to_live (P_SessionStarted a b) eid ids =
     Inr (SessionStarted a b)"
| "payload_to_live (P_SessionSpawnRequested a b c d) eid ids =
     Inr (SessionSpawnRequested a b c d)"
| "payload_to_live (P_SessionSpawned a b c) eid ids =
     Inr (SessionSpawned a b c)"
| "payload_to_live (P_SessionHandoffRecorded a b c d e) eid ids =
     Inr (SessionHandoffRecorded a b c d e)"
| "payload_to_live (P_SessionResultImported a b c) eid ids =
     Inr (SessionResultImported a b c)"
| "payload_to_live (P_SessionResultRejected a b) eid ids =
     Inr (SessionResultRejected a b)"
| "payload_to_live (P_RelatedSessionMessageRecorded a b c) eid ids =
     Inr (RelatedSessionMessageRecorded a b c)"
| "payload_to_live (P_RelatedSessionMessageResolved a b c d) eid ids =
     Inr (RelatedSessionMessageResolved a b c d)"
| "payload_to_live (P_RelatedSessionMessageSettled a b c d) eid ids =
     Inr (RelatedSessionMessageSettled a b c d)"
| "payload_to_live (P_SessionSettingsUpdated a b c d) eid ids =
     Inr (SessionSettingsUpdated a b c d)"
| "payload_to_live (P_SessionEnded a) eid ids =
     Inr (SessionEnded a)"
| "payload_to_live (P_BranchCreated a b) eid ids =
     Inr (BranchCreated a b)"
| "payload_to_live (P_BranchActivated a) eid ids =
     Inr (BranchActivated a)"
| "payload_to_live (P_BranchSummarized a b c d) eid ids =
     Inr (BranchSummarized a b c d)"
| "payload_to_live (P_MessageAppended a) eid ids =
     Inr (MessageAppended a)"
| "payload_to_live (P_TurnStarted a b c d e f g) eid ids =
     Inr (TurnStarted a b c d e f g)"
| "payload_to_live (P_TurnInstructionProvenanceRecorded a) eid ids =
     Inr (TurnInstructionProvenanceRecorded a)"
| "payload_to_live (P_TurnContextManifestRecorded a) eid ids =
     Inr (TurnContextManifestRecorded (manifest_to_live a))"
| "payload_to_live (P_CompletionRequested a b c d) eid ids =
     Inr (CompletionRequested a b c d)"
| "payload_to_live (P_CompletionChunk a b c) eid ids =
     (case c of
        None \<Rightarrow> Inr (CompletionChunk a b None)
      | Some h \<Rightarrow> and_then (imported_raw_chunk_id eid h ids ''completion chunk'') (\<lambda>cid.
          Inr (CompletionChunk a b (Some cid))))"
| "payload_to_live (P_CompletionFinished a b c d e f g) eid ids =
     (case e of
        None \<Rightarrow> Inr (CompletionFinished a b c d None f g)
      | Some cost \<Rightarrow> and_then (json_cost cost) (\<lambda>cost'.
          Inr (CompletionFinished a b c d (Some cost') f g)))"
| "payload_to_live (P_SessionError a b c d) eid ids =
     Inr (SessionError a b c d)"
| "payload_to_live (P_TurnFinished a b c d e f) eid ids =
     Inr (TurnFinished a b c d e f)"
| "payload_to_live (P_ToolCallRequested a b c) eid ids =
     Inr (ToolCallRequested a b c)"
| "payload_to_live (P_ToolOperationRecorded a b c) eid ids =
     Inr (ToolOperationRecorded a b c)"
| "payload_to_live (P_ToolApprovalRequested a b c) eid ids =
     Inr (ToolApprovalRequested a b c)"
| "payload_to_live (P_ToolApprovalResolved a b c d e) eid ids =
     Inr (ToolApprovalResolved a b c d e)"
| "payload_to_live (P_ToolExecutionFinished a b c) eid ids =
     Inr (ToolExecutionFinished a b c)"
| "payload_to_live (P_PlanUpdated a) eid ids =
     Inr (PlanUpdated a)"
| "payload_to_live (P_BudgetConfigured a) eid ids =
     Inr (BudgetConfigured (a\<lparr>max_cost_usd := value_f64_opt (max_cost_usd a)\<rparr>))"
| "payload_to_live (P_ContextCompacted a) eid ids =
     Inr (ContextCompacted (compacted_to_live a))"
| "payload_to_live (P_BudgetCheckpoint a b c d) eid ids =
     Inr (BudgetCheckpoint a b c (value_f64_opt d))"
| "payload_to_live (P_SessionQueuedMessageEnqueued a b) eid ids =
     Inr (SessionQueuedMessageEnqueued a b)"
| "payload_to_live (P_SessionQueuedMessageResolved a b c) eid ids =
     Inr (SessionQueuedMessageResolved a b c)"
| "payload_to_live (P_SessionCancelled a) eid ids =
     Inr (SessionCancelled a)"
| "payload_to_live (P_SessionCancelCleared a) eid ids =
     Inr (SessionCancelCleared a)"
| "payload_to_live (P_SessionSteered a b) eid ids =
     Inr (SessionSteered a b)"
| "payload_to_live (P_SessionSteersResolved a b c d) eid ids =
     Inr (SessionSteersResolved a b c d)"
| "payload_to_live (P_OperatorCommandRecorded a b c d) eid ids =
     Inr (OperatorCommandRecorded a b c d)"
| "payload_to_live (P_RawChunkPersisted a b c d) eid ids =
     and_then (imported_raw_chunk_id eid b ids ''raw chunk persisted event'') (\<lambda>cid.
       Inr (RawChunkPersisted a cid c d))"

subsection \<open>Envelopes and records\<close>

record portable_envelope =
  pe_event_id :: event_id
  pe_session_id :: session_id
  pe_branch_id :: branch_id
  pe_turn_id :: "turn_id option"
  pe_span_id :: span_id
  pe_parent_span_id :: "span_id option"
  pe_span_kind :: span_kind
  pe_occurred_at :: time
  pe_payload :: portable_event_payload
  pe_attributes :: "(string \<times> json) list"

record bundle_event_record =
  sb_ordinal :: nat
  sb_event_kind :: string
  sb_event_hash :: portable_hash
  sb_event :: portable_envelope

definition envelope_from_live ::
  "event_envelope \<Rightarrow> (i64 \<Rightarrow> portable_hash option)
     \<Rightarrow> (portable_envelope \<times> raw_chunk_event_ref list) result" where
  "envelope_from_live e hashes =
     and_then (payload_from_live (ev_payload e) hashes) (\<lambda>(payload, refs).
     Inr (\<lparr>pe_event_id = ev_event_id e, pe_session_id = ev_session_id e,
           pe_branch_id = ev_branch_id e, pe_turn_id = ev_turn_id e, pe_span_id = ev_span_id e,
           pe_parent_span_id = ev_parent_span_id e, pe_span_kind = ev_span_kind e,
           pe_occurred_at = ev_occurred_at e, pe_payload = payload,
           pe_attributes = ev_attributes e\<rparr>, refs))"

definition envelope_to_live ::
  "portable_envelope \<Rightarrow> (event_id \<times> portable_hash \<Rightarrow> i64 option) \<Rightarrow> event_envelope result" where
  "envelope_to_live q ids =
     and_then (payload_to_live (pe_payload q) (pe_event_id q) ids) (\<lambda>payload.
     Inr \<lparr>ev_seq_id = None, ev_event_id = pe_event_id q, ev_session_id = pe_session_id q,
          ev_branch_id = pe_branch_id q, ev_turn_id = pe_turn_id q, ev_span_id = pe_span_id q,
          ev_parent_span_id = pe_parent_span_id q, ev_span_kind = pe_span_kind q,
          ev_occurred_at = pe_occurred_at q, ev_payload = payload,
          ev_attributes = pe_attributes q\<rparr>)"

subsection \<open>What survives\<close>

text \<open>What an event becomes when it is exported from one store and imported into another: the sequence
  number and the context boundaries are gone, and a raw chunk id is the id the chunk with the same
  content has in the other store.\<close>

definition relocated_manifest :: "context_manifest \<Rightarrow> context_manifest" where
  "relocated_manifest m =
     m\<lparr>mf_context_boundary_seq_id := None,
       mf_messages := map (\<lambda>r. r\<lparr>cm_source_seq_id := None\<rparr>) (mf_messages m)\<rparr>"

definition relocated_payload ::
  "(i64 \<Rightarrow> portable_hash option) \<Rightarrow> (portable_hash \<Rightarrow> i64 option) \<Rightarrow> event_payload \<Rightarrow> event_payload" where
  "relocated_payload hashes ids p =
     (case p of
        CompletionChunk a b (Some cid) \<Rightarrow> CompletionChunk a b (Option.bind (hashes cid) ids)
      | RawChunkPersisted a cid c d \<Rightarrow> RawChunkPersisted a (the (Option.bind (hashes cid) ids)) c d
      | TurnContextManifestRecorded m \<Rightarrow> TurnContextManifestRecorded (relocated_manifest m)
      | ContextCompacted c \<Rightarrow>
          ContextCompacted (c\<lparr>cc_context_boundary_seq_id := None, cc_first_kept_seq_id := None\<rparr>)
      | _ \<Rightarrow> p)"

definition relocated ::
  "(i64 \<Rightarrow> portable_hash option) \<Rightarrow> (event_id \<times> portable_hash \<Rightarrow> i64 option) \<Rightarrow> event_envelope \<Rightarrow> event_envelope"
where
  "relocated hashes ids e =
     e\<lparr>ev_seq_id := None,
       ev_payload := relocated_payload hashes (\<lambda>h. ids (ev_event_id e, h)) (ev_payload e)\<rparr>"

lemma value_f64_opt_idem [simp]: "value_f64_opt (value_f64_opt x) = value_f64_opt x"
  by (auto simp: value_f64_opt_def split: option.splits)

lemma json_cost_idem: "json_cost c = Inr c' \<Longrightarrow> json_cost c' = Inr c'"
  by (auto simp: json_cost_def split: if_splits)

lemma message_ref_round_trip: "message_ref_to_live (message_ref_from_live r) = r\<lparr>cm_source_seq_id := None\<rparr>"
  by (simp add: message_ref_to_live_def message_ref_from_live_def)

lemma message_ref_round_trip_portable: "message_ref_from_live (message_ref_to_live q) = q"
  by (simp add: message_ref_to_live_def message_ref_from_live_def)

lemma manifest_round_trip [simp]:
  "manifest_to_live (manifest_from_live m) = relocated_manifest m"
  "manifest_from_live (manifest_to_live q) = q"
  by (simp_all add: manifest_to_live_def manifest_from_live_def relocated_manifest_def comp_def
      message_ref_round_trip message_ref_round_trip_portable)

lemma compacted_round_trip [simp]:
  "compacted_to_live (compacted_from_live c) =
     c\<lparr>cc_context_boundary_seq_id := None, cc_first_kept_seq_id := None\<rparr>"
  "compacted_from_live (compacted_to_live q) = q"
  by (simp_all add: compacted_to_live_def compacted_from_live_def)

lemma relocation_invisible [simp]:
  "manifest_from_live (relocated_manifest m) = manifest_from_live m"
  "compacted_from_live (c\<lparr>cc_context_boundary_seq_id := None, cc_first_kept_seq_id := None\<rparr>) =
     compacted_from_live c"
  using manifest_round_trip(2) [of "manifest_from_live m"] compacted_round_trip(2) [of "compacted_from_live c"]
  by simp_all

lemma json_cost_back: "json_cost c = Inr c' \<Longrightarrow> json_cost c' = Inr c'' \<Longrightarrow> json_cost c'' = Inr c'"
  using json_cost_idem by fastforce

lemma raw_chunk_ref_Inr:
  "raw_chunk_ref cid hashes label = Inr r \<longleftrightarrow>
     hashes cid = Some (rw_content_hash r) \<and> rw_local_chunk_id r = cid"
  by (cases r) (auto simp: raw_chunk_ref_def and_then_eq_Inr)

lemma imported_raw_chunk_id_Inr: "imported_raw_chunk_id eid h ids label = Inr i \<longleftrightarrow> ids (eid, h) = Some i"
  by (simp add: imported_raw_chunk_id_def)

lemma payload_from_live_kind:
  "payload_from_live p hashes = Inr (q, refs) \<Longrightarrow> portable_kind q = payload_kind p"
  by (cases p) (auto simp: and_then_eq_Inr split: option.splits)

lemma payload_from_live_refs:
  "payload_from_live p hashes = Inr (q, refs) \<Longrightarrow> raw_chunk_content_refs q = map rw_content_hash refs"
  by (cases p) (auto simp: raw_chunk_content_refs_def and_then_eq_Inr split: option.splits)

lemma payload_from_live_hashes:
  "payload_from_live p hashes = Inr (q, refs) \<Longrightarrow> r \<in> set refs
     \<Longrightarrow> hashes (rw_local_chunk_id r) = Some (rw_content_hash r)"
  by (cases p) (auto simp: raw_chunk_ref_Inr and_then_eq_Inr split: option.splits)

lemma payload_from_live_single: "payload_from_live p hashes = Inr (q, refs) \<Longrightarrow> length refs \<le> 1"
  by (cases p) (auto simp: and_then_eq_Inr split: option.splits)

text \<open>Importing an exported payload whose contents are all there succeeds, and what is imported has the
  same portable form in any store that holds the same contents.\<close>

lemma payload_import:
  assumes "payload_from_live p hashes = Inr (q, refs)"
    and "\<forall>r \<in> set refs. ids (eid, rw_content_hash r) \<noteq> None"
  shows "\<exists>p'. payload_to_live q eid ids = Inr p'"
  using assms by (cases p) (auto simp: imported_raw_chunk_id_def and_then_eq_Inr dest: json_cost_idem
      split: option.splits)

lemma payload_stable:
  assumes "payload_from_live p hashes = Inr (q, refs)" and "payload_to_live q eid ids = Inr p'"
    and "\<forall>r \<in> set refs. \<forall>i. ids (eid, rw_content_hash r) = Some i \<longrightarrow> hashes' i = Some (rw_content_hash r)"
  shows "\<exists>refs'. payload_from_live p' hashes' = Inr (q, refs') \<and> map rw_content_hash refs' = map rw_content_hash refs"
proof (cases p)
  case (CompletionFinished a b c d cost f g)
  with assms(1,2) show ?thesis
    by (cases cost) (auto simp: and_then_eq_Inr, erule (1) json_cost_back)
qed (insert assms, auto simp: imported_raw_chunk_id_Inr raw_chunk_ref_def and_then_eq_Inr split: option.splits)

text \<open>A payload whose numbers are finite: what a faithful JSON parser reads back as it was written.\<close>

lemma value_f64_decoded: "decode_f64_opt Inr x = Inr (value_f64_opt x)"
  by (simp add: decode_f64_opt_def value_f64_opt_def split: option.split)

lemma json_cost_decoded: "decode_cost Inr c = Inr c \<Longrightarrow> json_cost c = Inr c"
  by (cases c) (auto simp: decode_cost_def json_cost_def decode_f64_def value_f64_decoded and_then_eq_Inr split: if_splits)

lemma payload_relocated:
  assumes "payload_from_live p hashes = Inr (q, refs)" and "payload_to_live q eid ids = Inr p'"
    and "decode_payload Inr p = Inr p"
  shows "p' = relocated_payload hashes (\<lambda>h. ids (eid, h)) p"
proof (cases p)
  case (CompletionChunk a b c)
  with assms show ?thesis
    by (cases c) (auto simp: imported_raw_chunk_id_Inr raw_chunk_ref_Inr relocated_payload_def and_then_eq_Inr)
next
  case (RawChunkPersisted a cid c d)
  with assms show ?thesis
    by (auto simp: imported_raw_chunk_id_Inr raw_chunk_ref_Inr relocated_payload_def and_then_eq_Inr)
next
  case (CompletionFinished a b c d cost f g)
  then have "cost = Some k \<Longrightarrow> decode_cost Inr k = Inr k" for k
    using assms(3) by (auto simp: decode_payload_def and_then_eq_Inr)
  with CompletionFinished assms(1,2) show ?thesis
    by (cases cost) (auto simp: json_cost_decoded relocated_payload_def)
next
  case (BudgetConfigured b)
  with assms show ?thesis
    by (auto simp: relocated_payload_def decode_payload_def value_f64_decoded)
next
  case (BudgetCheckpoint a b c d)
  with assms show ?thesis
    by (auto simp: relocated_payload_def decode_payload_def value_f64_decoded)
qed (insert assms(1,2), auto simp: relocated_payload_def)

lemma envelope_from_live_eq:
  "envelope_from_live e hashes = Inr (q, refs) \<longleftrightarrow>
     payload_from_live (ev_payload e) hashes = Inr (pe_payload q, refs) \<and>
     pe_event_id q = ev_event_id e \<and> pe_session_id q = ev_session_id e \<and>
     pe_branch_id q = ev_branch_id e \<and> pe_turn_id q = ev_turn_id e \<and> pe_span_id q = ev_span_id e \<and>
     pe_parent_span_id q = ev_parent_span_id e \<and> pe_span_kind q = ev_span_kind e \<and>
     pe_occurred_at q = ev_occurred_at e \<and> pe_attributes q = ev_attributes e"
  by (cases q) (auto simp: envelope_from_live_def and_then_eq_Inr)

lemma envelope_to_live_eq:
  "envelope_to_live q ids = Inr e \<longleftrightarrow>
     payload_to_live (pe_payload q) (pe_event_id q) ids = Inr (ev_payload e) \<and> ev_seq_id e = None \<and>
     ev_event_id e = pe_event_id q \<and> ev_session_id e = pe_session_id q \<and>
     ev_branch_id e = pe_branch_id q \<and> ev_turn_id e = pe_turn_id q \<and> ev_span_id e = pe_span_id q \<and>
     ev_parent_span_id e = pe_parent_span_id q \<and> ev_span_kind e = pe_span_kind q \<and>
     ev_occurred_at e = pe_occurred_at q \<and> ev_attributes e = pe_attributes q"
  by (cases e) (auto simp: envelope_to_live_def and_then_eq_Inr)

lemma envelope_import:
  assumes "envelope_from_live e hashes = Inr (q, refs)"
    and "\<forall>r \<in> set refs. ids (ev_event_id e, rw_content_hash r) \<noteq> None"
  shows "\<exists>e'. envelope_to_live q ids = Inr e'"
  using assms payload_import [of "ev_payload e" hashes "pe_payload q" refs ids "ev_event_id e"]
  by (auto simp: envelope_from_live_eq envelope_to_live_def)

lemma envelope_stable:
  assumes "envelope_from_live e hashes = Inr (q, refs)" and "envelope_to_live q ids = Inr e'"
    and "\<forall>r \<in> set refs. \<forall>i. ids (ev_event_id e, rw_content_hash r) = Some i \<longrightarrow> hashes' i = Some (rw_content_hash r)"
  shows "\<exists>refs'. envelope_from_live e' hashes' = Inr (q, refs') \<and> map rw_content_hash refs' = map rw_content_hash refs"
  using assms payload_stable [of "ev_payload e" hashes "pe_payload q" refs "ev_event_id e" ids "ev_payload e'" hashes']
  by (auto simp: envelope_from_live_eq envelope_to_live_eq)

lemma envelope_relocated:
  assumes "envelope_from_live e hashes = Inr (q, refs)" and "envelope_to_live q ids = Inr e'"
    and "decode_payload Inr (ev_payload e) = Inr (ev_payload e)"
  shows "e' = relocated hashes ids e"
  using assms payload_relocated [of "ev_payload e" hashes "pe_payload q" refs "ev_event_id e" ids "ev_payload e'"]
  by (cases e, cases e') (auto simp: envelope_from_live_eq envelope_to_live_eq relocated_def)

end
