(* ===== verification/Bt_Bundle.thy ===== *)
theory Bt_Bundle
  imports Bt_Portable Bt_Utf8
begin

section \<open>Validation of session bundles\<close>

text \<open>
  \<open>validate_session_bundle_directory\<close> of \<open>bt-session/src/export.rs\<close> with its checks, in the order of
  the source, and the records of a bundle (\<open>SessionBundleRawChunkRef\<close>, \<open>SessionBundleChecksums\<close>, the
  report).

  A bundle directory is the list of its entries that are not directories, in the order
  \<open>read_dir\<close> walks them, by relative path; \<open>FsOther\<close> stands for what is neither a file nor a directory.
  Reading anything but a regular file is an error here: a manifest behind a symbolic link, which
  \<open>fs::read\<close> would follow, is refused by the inventory check that comes next. Names are UTF-8.
  Messages that print a path of the local file system stop before it.

  SHA-256, the JSON texts of the bundle's records and their parsers, and the UUID parser are
  dependencies: the fields of \<open>bundle_codec\<close>. A parser returns the text of its error.
\<close>

subsection \<open>Records of a bundle\<close>

record raw_chunk_bundle_ref =
  rf_chunk_ordinal :: nat
  rf_session_id :: session_id
  rf_branch_id :: "branch_id option"
  rf_turn_id :: "turn_id option"
  rf_llm_call_ordinal :: "u32 option"
  rf_event_id :: "string option"
  rf_provider :: string
  rf_stream_name :: string
  rf_content :: content_ref

record checksum_entry =
  ck_path :: string
  ck_hash :: portable_hash
  ck_size_bytes :: nat

record bundle_checksums =
  cs_schema_version :: nat
  cs_files :: "checksum_entry list"

record validation_report =
  vr_bundle_hash :: portable_hash
  vr_session_id :: session_id
  vr_event_count :: nat
  vr_raw_chunk_reference_count :: nat
  vr_raw_chunk_content_count :: nat
  vr_content_count :: nat
  vr_artifact_count :: nat

record event_record_info =
  ei_ordinal :: nat
  ei_event_id :: event_id
  ei_branch_id :: branch_id
  ei_event_hash :: portable_hash
  ei_content_refs :: "portable_hash list"
  ei_raw_refs :: "raw_chunk_event_ref list"

record raw_chunk_ref_identity =
  ri_chunk_ordinal :: nat
  ri_ref_session_id :: session_id
  ri_ref_branch_id :: "branch_id option"
  ri_ref_turn_id :: "turn_id option"
  ri_ref_llm_call_ordinal :: "u32 option"
  ri_ref_provider :: string
  ri_ref_stream_name :: string
  ri_content_hash :: portable_hash
  ri_content_size_bytes :: nat
  ri_content_path :: "string option"

record bundle_codec =
  bc_digest :: "string \<Rightarrow> string"
  bc_event_value :: "portable_envelope \<Rightarrow> string"
  bc_event_line :: "bundle_event_record \<Rightarrow> string"
  bc_parse_event :: "string \<Rightarrow> string + bundle_event_record"
  bc_ref_line :: "raw_chunk_bundle_ref \<Rightarrow> string"
  bc_parse_ref :: "string \<Rightarrow> string + raw_chunk_bundle_ref"
  bc_checksums_text :: "bundle_checksums \<Rightarrow> string"
  bc_parse_checksums :: "string \<Rightarrow> string + bundle_checksums"
  bc_manifest_text :: "session_bundle_manifest \<Rightarrow> string"
  bc_parse_manifest :: "string \<Rightarrow> string + session_bundle_manifest"
  bc_parse_event_id :: "string \<Rightarrow> string + event_id"
  bc_json_number :: json_number

definition SESSION_BT_SCHEMA_VERSION :: nat where
  "SESSION_BT_SCHEMA_VERSION = 1"

definition SESSION_BT_MANIFEST :: string where "SESSION_BT_MANIFEST = ''manifest.json''"
definition SESSION_BT_EVENTS :: string where "SESSION_BT_EVENTS = ''events.jsonl''"
definition SESSION_BT_RAW_CHUNK_REFS :: string where "SESSION_BT_RAW_CHUNK_REFS = ''raw_chunk_refs.jsonl''"
definition SESSION_BT_CHECKSUMS :: string where "SESSION_BT_CHECKSUMS = ''checksums.json''"
definition SESSION_BT_RAW_CHUNKS_DIR :: string where "SESSION_BT_RAW_CHUNKS_DIR = ''raw_chunks''"
definition SESSION_BT_ARTIFACTS_DIR :: string where "SESSION_BT_ARTIFACTS_DIR = ''artifacts''"

definition bundle_hash_bytes :: "bundle_codec \<Rightarrow> string \<Rightarrow> portable_hash" where
  "bundle_hash_bytes codec bytes = hash_bytes (bc_digest codec) bytes"

definition canonical_event_hash :: "bundle_codec \<Rightarrow> portable_envelope \<Rightarrow> portable_hash" where
  "canonical_event_hash codec e = bundle_hash_bytes codec (bc_event_value codec e)"

subsection \<open>Paths and files\<close>

datatype fs_entry = FsFile string | FsOther

type_synonym bundle_dir = "(string \<times> fs_entry) list"

text \<open>\<open>Path::components\<close> of a relative path without the current-directory ones.\<close>

definition slash :: char where
  "slash = CHR ''/''"

definition path_components :: "string \<Rightarrow> string list" where
  "path_components p = filter (\<lambda>c. c \<noteq> [] \<and> c \<noteq> ''.'') (str_split slash p)"

definition validate_bundle_relative_path :: "string \<Rightarrow> unit result" where
  "validate_bundle_relative_path p =
     and_then (guard_err (p = [] \<or> hd p = slash) (invalid_bundle (''bundle path must be relative: '' @ p)))
     (\<lambda>_. guard_err (''..'' \<in> set (path_components p))
        (invalid_bundle (''bundle path must not escape bundle root: '' @ p)))"

text \<open>\<open>fs::read(dir.join(path))\<close>. A path that ends in a separator or in \<open>.\<close> names a directory.\<close>

definition fs_read :: "bundle_dir \<Rightarrow> string \<Rightarrow> string result" where
  "fs_read dir p =
     (if last (str_split slash p) \<in> {[], ''.''} then Inl (Io ''not a file'')
      else case map_of dir (join_with [slash] (path_components p)) of
             Some (FsFile bytes) \<Rightarrow> Inr bytes
           | _ \<Rightarrow> Inl (Io ''no such file''))"

text \<open>\<open>path.split('/').next()\<close>\<close>

definition first_segment :: "string \<Rightarrow> string" where
  "first_segment p = hd (str_split slash p)"

text \<open>A loop of fallible checks, and the iteration order of a \<open>BTreeSet\<close>.\<close>

fun check_all :: "('a \<Rightarrow> unit result) \<Rightarrow> 'a list \<Rightarrow> unit result" where
  "check_all f [] = Inr ()"
| "check_all f (x # xs) = and_then (f x) (\<lambda>_. check_all f xs)"

definition bt_set :: "'a::linorder list \<Rightarrow> 'a list" where
  "bt_set xs = sort (remdups xs)"

fun collect_bundle_files :: "bundle_dir \<Rightarrow> string list result" where
  "collect_bundle_files [] = Inr []"
| "collect_bundle_files ((path, FsFile bytes) # rest) =
     and_then (validate_bundle_relative_path path) (\<lambda>_.
     and_then (collect_bundle_files rest) (\<lambda>files. Inr (path # files)))"
| "collect_bundle_files ((path, FsOther) # rest) =
     Inl (invalid_bundle ''bundle path is not a regular file or directory: '')"

fun checksum_paths_of :: "string list \<Rightarrow> checksum_entry list \<Rightarrow> string list result" where
  "checksum_paths_of seen [] = Inr seen"
| "checksum_paths_of seen (entry # entries) =
     and_then (validate_bundle_relative_path (ck_path entry)) (\<lambda>_.
     and_then (guard_err (ck_path entry \<in> set seen)
       (invalid_bundle (''duplicate checksum entry '' @ ck_path entry))) (\<lambda>_.
     checksum_paths_of (seen @ [ck_path entry]) entries))"

definition content_paths :: "content_ref list \<Rightarrow> string list" where
  "content_paths contents = List.map_filter cr_path contents"

definition validate_bundle_inventory_is_closed ::
  "bundle_dir \<Rightarrow> session_bundle_manifest \<Rightarrow> bundle_checksums \<Rightarrow> unit result" where
  "validate_bundle_inventory_is_closed dir manifest checksums =
     and_then (check_all validate_bundle_relative_path (content_paths (sm_contents manifest))) (\<lambda>_.
     let expected = [SESSION_BT_EVENTS, SESSION_BT_RAW_CHUNK_REFS] @ content_paths (sm_contents manifest)
     in and_then (checksum_paths_of [] (cs_files checksums)) (\<lambda>listed.
     and_then (check_all (\<lambda>p. guard_err (p \<notin> set listed)
         (invalid_bundle (''checksum manifest is missing required path '' @ p))) (bt_set expected)) (\<lambda>_.
     and_then (check_all (\<lambda>p. guard_err (p \<notin> set expected)
         (invalid_bundle (''checksum manifest contains unreferenced path '' @ p))) (bt_set listed)) (\<lambda>_.
     and_then (collect_bundle_files dir) (\<lambda>files.
     let actual = filter (\<lambda>p. p \<noteq> SESSION_BT_MANIFEST \<and> p \<noteq> SESSION_BT_CHECKSUMS) files
     in and_then (check_all (\<lambda>p. guard_err (p \<notin> set listed)
         (invalid_bundle (''bundle contains untracked file '' @ p))) (bt_set actual)) (\<lambda>_.
     check_all (\<lambda>p. guard_err (p \<notin> set actual)
         (invalid_bundle (''checksum path '' @ p @ '' does not exist in bundle''))) (bt_set listed)))))))"

definition verify_file_checksum :: "bundle_codec \<Rightarrow> bundle_dir \<Rightarrow> checksum_entry \<Rightarrow> unit result" where
  "verify_file_checksum codec dir entry =
     and_then (validate_bundle_relative_path (ck_path entry)) (\<lambda>_.
     and_then (case fs_read dir (ck_path entry) of
         Inl e \<Rightarrow> Inl (invalid_bundle (''checksum entry '' @ ck_path entry @ '' cannot be read''))
       | Inr bytes \<Rightarrow> Inr bytes) (\<lambda>bytes.
     let h = bundle_hash_bytes codec bytes
     in and_then (guard_err (h \<noteq> ck_hash entry)
         (invalid_bundle (''checksum mismatch for '' @ ck_path entry @ '': expected ''
           @ hash_text (ck_hash entry) @ '', got '' @ hash_text h))) (\<lambda>_.
     guard_err (length bytes \<noteq> ck_size_bytes entry)
       (invalid_bundle (''size mismatch for '' @ ck_path entry @ '': expected ''
         @ show_nat (ck_size_bytes entry) @ '', got '' @ show_nat (length bytes))))))"

subsection \<open>Reading records\<close>

definition serde_json_error :: "string + 'a \<Rightarrow> 'a result" where
  "serde_json_error r = (case r of Inl e \<Rightarrow> Inl (Json e) | Inr v \<Rightarrow> Inr v)"

definition read_json :: "(string \<Rightarrow> string + 'a) \<Rightarrow> bundle_dir \<Rightarrow> string \<Rightarrow> string \<Rightarrow> 'a result" where
  "read_json parse dir path label =
     and_then (case fs_read dir path of
         Inl e \<Rightarrow> Inl (Protocol (''failed to read '' @ label)) | Inr bytes \<Rightarrow> Inr bytes) (\<lambda>bytes.
     serde_json_error (parse bytes))"

fun parse_lines :: "(string \<Rightarrow> string + 'a) \<Rightarrow> string \<Rightarrow> nat \<Rightarrow> string list \<Rightarrow> 'a list result" where
  "parse_lines parse label n [] = Inr []"
| "parse_lines parse label n (line # rest) =
     (if str_trim line = [] then parse_lines parse label (n + 1) rest
      else case parse line of
             Inl e \<Rightarrow> Inl (Protocol (''failed to parse '' @ label @ '' line '' @ show_nat (n + 1) @ '': '' @ e))
           | Inr item \<Rightarrow> and_then (parse_lines parse label (n + 1) rest) (\<lambda>items. Inr (item # items)))"

definition read_jsonl :: "(string \<Rightarrow> string + 'a) \<Rightarrow> bundle_dir \<Rightarrow> string \<Rightarrow> string \<Rightarrow> 'a list result" where
  "read_jsonl parse dir path label =
     and_then (case fs_read dir path of
         Inl e \<Rightarrow> Inl (Protocol (''failed to read '' @ label))
       | Inr bytes \<Rightarrow> if valid_utf8 bytes then Inr bytes else Inl (Protocol (''failed to read '' @ label)))
     (\<lambda>text. parse_lines parse label 0 (str_lines text))"

definition read_manifest :: "bundle_codec \<Rightarrow> bundle_dir \<Rightarrow> session_bundle_manifest result" where
  "read_manifest codec dir = read_json (bc_parse_manifest codec) dir SESSION_BT_MANIFEST ''manifest''"

definition read_event_records :: "bundle_codec \<Rightarrow> bundle_dir \<Rightarrow> bundle_event_record list result" where
  "read_event_records codec dir = read_jsonl (bc_parse_event codec) dir SESSION_BT_EVENTS ''event records''"

definition read_raw_chunk_refs :: "bundle_codec \<Rightarrow> bundle_dir \<Rightarrow> raw_chunk_bundle_ref list result" where
  "read_raw_chunk_refs codec dir =
     read_jsonl (bc_parse_ref codec) dir SESSION_BT_RAW_CHUNK_REFS ''raw chunk refs''"

subsection \<open>Contents\<close>

definition validate_raw_chunk_content :: "bundle_codec \<Rightarrow> bundle_dir \<Rightarrow> raw_chunk_bundle_ref \<Rightarrow> unit result" where
  "validate_raw_chunk_content codec dir r =
     and_then (ok_or (invalid_bundle (''raw chunk ref '' @ show_nat (rf_chunk_ordinal r) @ '' has no content path''))
       (cr_path (rf_content r))) (\<lambda>path.
     and_then (validate_bundle_relative_path path) (\<lambda>_.
     and_then (fs_read dir path) (\<lambda>bytes.
     let h = bundle_hash_bytes codec bytes
     in and_then (guard_err (h \<noteq> cr_hash (rf_content r))
         (invalid_bundle (''raw chunk '' @ show_nat (rf_chunk_ordinal r) @ '' hash mismatch: expected ''
           @ hash_text (cr_hash (rf_content r)) @ '', got '' @ hash_text h))) (\<lambda>_.
     guard_err (length bytes \<noteq> cr_size_bytes (rf_content r))
       (invalid_bundle (''raw chunk '' @ show_nat (rf_chunk_ordinal r) @ '' size mismatch: expected ''
         @ show_nat (cr_size_bytes (rf_content r)) @ '', got '' @ show_nat (length bytes)))))))"

definition validate_content :: "bundle_codec \<Rightarrow> bundle_dir \<Rightarrow> content_ref \<Rightarrow> unit result" where
  "validate_content codec dir c =
     (case cr_path c of
        None \<Rightarrow> Inr ()
      | Some path \<Rightarrow>
          and_then (validate_bundle_relative_path path) (\<lambda>_.
          and_then (fs_read dir path) (\<lambda>bytes.
          let h = bundle_hash_bytes codec bytes
          in and_then (guard_err (h \<noteq> cr_hash c)
              (invalid_bundle (''content ref '' @ hash_text (cr_hash c) @ '' hash mismatch: got '' @ hash_text h))) (\<lambda>_.
          guard_err (length bytes \<noteq> cr_size_bytes c)
            (invalid_bundle (''content ref '' @ hash_text (cr_hash c) @ '' size mismatch: expected ''
              @ show_nat (cr_size_bytes c) @ '', got '' @ show_nat (length bytes)))))))"

definition validate_manifest_raw_chunk_inventory ::
  "portable_hash list \<Rightarrow> portable_hash list \<Rightarrow> content_ref list \<Rightarrow> unit result" where
  "validate_manifest_raw_chunk_inventory raw_hashes content_hashes contents =
     and_then (check_all (\<lambda>h. guard_err (h \<notin> set content_hashes)
       (invalid_bundle (''raw chunk content '' @ hash_text h @ '' is missing from manifest contents'')))
       (bt_set raw_hashes)) (\<lambda>_.
     check_all (\<lambda>c. case cr_path c of
         None \<Rightarrow> Inr ()
       | Some path \<Rightarrow> guard_err (first_segment path = SESSION_BT_RAW_CHUNKS_DIR \<and> cr_hash c \<notin> set raw_hashes)
           (invalid_bundle (''manifest raw chunk content '' @ hash_text (cr_hash c)
             @ '' is missing from raw_chunk_refs''))) contents)"

subsection \<open>Event records\<close>

definition validate_event_record ::
  "bundle_codec \<Rightarrow> portable_hash list \<Rightarrow> portable_hash list \<Rightarrow> session_id \<Rightarrow> nat \<Rightarrow> event_id list
     \<Rightarrow> bundle_event_record \<Rightarrow> event_record_info result" where
  "validate_event_record codec content_hashes raw_hashes sid expected seen r =
     (let e = sb_event r; n = show_nat (sb_ordinal r) in
      and_then (guard_err (sb_ordinal r \<noteq> expected)
        (invalid_bundle (''event ordinal gap: expected '' @ show_nat expected @ '', got '' @ n))) (\<lambda>_.
      let h = canonical_event_hash codec e in
      and_then (guard_err (h \<noteq> sb_event_hash r)
        (invalid_bundle (''event '' @ n @ '' hash mismatch: expected '' @ hash_text (sb_event_hash r)
          @ '', got '' @ hash_text h))) (\<lambda>_.
      and_then (guard_err (sb_event_kind r \<noteq> portable_kind (pe_payload e))
        (invalid_bundle (''event '' @ n @ '' kind mismatch: declared '' @ sb_event_kind r @ '', payload ''
          @ portable_kind (pe_payload e)))) (\<lambda>_.
      let refs = raw_chunk_content_refs (pe_payload e) in
      and_then (check_all (\<lambda>c.
          and_then (guard_err (c \<notin> set content_hashes)
            (invalid_bundle (''event '' @ n @ '' references raw chunk content '' @ hash_text c
              @ '' missing from manifest contents''))) (\<lambda>_.
          guard_err (c \<notin> set raw_hashes)
            (invalid_bundle (''event '' @ n @ '' references raw chunk content '' @ hash_text c
              @ '' missing from raw_chunk_refs'')))) refs) (\<lambda>_.
      and_then (guard_err (pe_event_id e \<in> set seen)
        (invalid_bundle (''duplicate event_id '' @ event_id_text (pe_event_id e)))) (\<lambda>_.
      and_then (guard_err (pe_session_id e \<noteq> sid)
        (invalid_bundle (''event '' @ n @ '' belongs to session '' @ session_id_text (pe_session_id e)
          @ '', expected '' @ session_id_text sid))) (\<lambda>_.
      Inr \<lparr>ei_ordinal = sb_ordinal r, ei_event_id = pe_event_id e, ei_branch_id = pe_branch_id e,
           ei_event_hash = h, ei_content_refs = refs, ei_raw_refs = []\<rparr>)))))))"

fun validate_event_records_from ::
  "bundle_codec \<Rightarrow> portable_hash list \<Rightarrow> portable_hash list \<Rightarrow> session_id \<Rightarrow> nat \<Rightarrow> event_id list
     \<Rightarrow> bundle_event_record list \<Rightarrow> event_record_info list result" where
  "validate_event_records_from codec content_hashes raw_hashes sid n seen [] = Inr []"
| "validate_event_records_from codec content_hashes raw_hashes sid n seen (r # rs) =
     and_then (validate_event_record codec content_hashes raw_hashes sid n seen r) (\<lambda>info.
     and_then (validate_event_records_from codec content_hashes raw_hashes sid (n + 1)
       (seen @ [ei_event_id info]) rs) (\<lambda>infos. Inr (info # infos)))"

definition validate_event_records ::
  "bundle_codec \<Rightarrow> bundle_event_record list \<Rightarrow> portable_hash list \<Rightarrow> portable_hash list
     \<Rightarrow> session_bundle_manifest \<Rightarrow> event_record_info list result" where
  "validate_event_records codec records content_hashes raw_hashes manifest =
     validate_event_records_from codec content_hashes raw_hashes (sr_session_id (sm_session manifest)) 0 [] records"

subsection \<open>Raw chunk references\<close>

text \<open>Collecting into a \<open>BTreeMap\<close>: a later entry of the same key replaces the earlier one.\<close>

definition last_entry :: "('a \<Rightarrow> 'k) \<Rightarrow> 'a list \<Rightarrow> 'k \<Rightarrow> 'a option" where
  "last_entry key xs k = List.find (\<lambda>x. key x = k) (rev xs)"

definition raw_ref_identity :: "raw_chunk_bundle_ref \<Rightarrow> raw_chunk_ref_identity" where
  "raw_ref_identity r =
     \<lparr>ri_chunk_ordinal = rf_chunk_ordinal r, ri_ref_session_id = rf_session_id r,
      ri_ref_branch_id = rf_branch_id r, ri_ref_turn_id = rf_turn_id r,
      ri_ref_llm_call_ordinal = rf_llm_call_ordinal r, ri_ref_provider = rf_provider r,
      ri_ref_stream_name = rf_stream_name r, ri_content_hash = cr_hash (rf_content r),
      ri_content_size_bytes = cr_size_bytes (rf_content r), ri_content_path = cr_path (rf_content r)\<rparr>"

definition raw_ref_event_id :: "bundle_codec \<Rightarrow> raw_chunk_bundle_ref \<Rightarrow> event_id result" where
  "raw_ref_event_id codec r =
     and_then (ok_or (invalid_bundle (''raw chunk '' @ show_nat (rf_chunk_ordinal r)
         @ '' does not include an event_id'')) (rf_event_id r)) (\<lambda>text.
     case bc_parse_event_id codec text of
       Inl e \<Rightarrow> Inl (invalid_bundle (''raw chunk '' @ show_nat (rf_chunk_ordinal r) @ '' has invalid event_id: '' @ e))
     | Inr eid \<Rightarrow> Inr eid)"

text \<open>One reference against the references before it: \<open>earlier\<close> are the ones the loop has accepted.\<close>

definition validate_raw_chunk_ref ::
  "bundle_codec \<Rightarrow> session_bundle_manifest \<Rightarrow> event_record_info list \<Rightarrow> (raw_chunk_bundle_ref \<times> event_id) list
     \<Rightarrow> raw_chunk_bundle_ref \<Rightarrow> event_id result" where
  "validate_raw_chunk_ref codec manifest infos earlier r =
     (let n = show_nat (rf_chunk_ordinal r); sid = sr_session_id (sm_session manifest);
          h = cr_hash (rf_content r) in
      and_then (guard_err (rf_session_id r \<noteq> sid)
        (invalid_bundle (''raw chunk '' @ n @ '' belongs to session '' @ session_id_text (rf_session_id r)
          @ '', expected '' @ session_id_text sid))) (\<lambda>_.
      and_then (ok_or (invalid_bundle (''raw chunk '' @ n @ '' does not include a branch_id''))
        (rf_branch_id r)) (\<lambda>bid.
      and_then (guard_err (bid \<notin> set (map bm_branch_id (sm_branches manifest)))
        (invalid_bundle (''raw chunk '' @ n @ '' references missing branch '' @ branch_id_text bid))) (\<lambda>_.
      and_then (guard_err (case last_entry (\<lambda>(x, _). rf_chunk_ordinal x) earlier (rf_chunk_ordinal r) of
            None \<Rightarrow> False | Some (x, _) \<Rightarrow> raw_ref_identity x \<noteq> raw_ref_identity r)
        (invalid_bundle (''raw chunk '' @ n @ '' has inconsistent refs''))) (\<lambda>_.
      and_then (raw_ref_event_id codec r) (\<lambda>eid.
      and_then (ok_or (invalid_bundle (''raw chunk '' @ n @ '' references missing event '' @ event_id_text eid))
        (last_entry ei_event_id infos eid)) (\<lambda>info.
      and_then (guard_err (ei_branch_id info \<noteq> bid)
        (invalid_bundle (''raw chunk '' @ n @ '' branch '' @ branch_id_text bid @ '' does not match event ''
          @ event_id_text eid @ '' branch '' @ branch_id_text (ei_branch_id info)))) (\<lambda>_.
      and_then (guard_err (h \<notin> set (ei_content_refs info))
        (invalid_bundle (''raw chunk '' @ n @ '' content '' @ hash_text h @ '' is not referenced by event ''
          @ event_id_text eid))) (\<lambda>_.
      and_then (guard_err ((eid, h) \<in> set (map (\<lambda>(x, e). (e, cr_hash (rf_content x))) earlier))
        (invalid_bundle (''duplicate raw chunk ref for event '' @ event_id_text eid @ '' content ''
          @ hash_text h))) (\<lambda>_.
      Inr eid))))))))))"

fun validate_raw_chunk_refs_from ::
  "bundle_codec \<Rightarrow> session_bundle_manifest \<Rightarrow> event_record_info list \<Rightarrow> (raw_chunk_bundle_ref \<times> event_id) list
     \<Rightarrow> raw_chunk_bundle_ref list \<Rightarrow> (raw_chunk_bundle_ref \<times> event_id) list result" where
  "validate_raw_chunk_refs_from codec manifest infos earlier [] = Inr earlier"
| "validate_raw_chunk_refs_from codec manifest infos earlier (r # rs) =
     and_then (validate_raw_chunk_ref codec manifest infos earlier r) (\<lambda>eid.
     validate_raw_chunk_refs_from codec manifest infos (earlier @ [(r, eid)]) rs)"

definition validate_raw_chunk_refs ::
  "bundle_codec \<Rightarrow> raw_chunk_bundle_ref list \<Rightarrow> session_bundle_manifest \<Rightarrow> event_record_info list \<Rightarrow> unit result" where
  "validate_raw_chunk_refs codec refs manifest infos =
     and_then (validate_raw_chunk_refs_from codec manifest infos [] refs) (\<lambda>accepted.
     check_all (\<lambda>info. check_all (\<lambda>h.
         guard_err ((ei_event_id info, h) \<notin> set (map (\<lambda>(x, e). (e, cr_hash (rf_content x))) accepted))
           (invalid_bundle (''event '' @ event_id_text (ei_event_id info) @ '' references raw chunk content ''
             @ hash_text h @ '' missing from raw_chunk_refs for that event''))) (ei_content_refs info)) infos)"

subsection \<open>Branches\<close>

fun validate_branch_ids :: "branch_id list \<Rightarrow> branch_manifest list \<Rightarrow> unit result" where
  "validate_branch_ids seen [] = Inr ()"
| "validate_branch_ids seen (b # bs) =
     and_then (guard_err (bm_branch_id b \<in> set seen)
       (invalid_bundle (''duplicate branch_id '' @ branch_id_text (bm_branch_id b)))) (\<lambda>_.
     validate_branch_ids (seen @ [bm_branch_id b]) bs)"

definition validate_branch_parent ::
  "branch_id list \<Rightarrow> event_record_info list \<Rightarrow> branch_manifest \<Rightarrow> unit result" where
  "validate_branch_parent branch_ids infos b =
     (let name = ''branch '' @ branch_id_text (bm_branch_id b) in
      and_then (case bm_parent_branch_id b of
          None \<Rightarrow> Inr ()
        | Some p \<Rightarrow> guard_err (p \<notin> set branch_ids)
            (invalid_bundle (name @ '' references missing parent branch '' @ branch_id_text p))) (\<lambda>_.
      case bm_parent_event_id b of
        None \<Rightarrow> Inr ()
      | Some eid \<Rightarrow>
          and_then (ok_or (invalid_bundle (name @ '' references missing parent event '' @ event_id_text eid))
            (last_entry ei_event_id infos eid)) (\<lambda>info.
          case bm_parent_branch_id b of
            None \<Rightarrow> Inr ()
          | Some p \<Rightarrow> guard_err (ei_branch_id info \<noteq> p)
              (invalid_bundle (name @ '' parent event '' @ event_id_text eid @ '' belongs to branch ''
                @ branch_id_text (ei_branch_id info) @ '', expected '' @ branch_id_text p)))))"

definition validate_branch_head ::
  "session_bundle_manifest \<Rightarrow> event_record_info list \<Rightarrow> branch_manifest \<Rightarrow> unit result" where
  "validate_branch_head manifest infos b =
     (let name = ''branch '' @ branch_id_text (bm_branch_id b) in
      case bm_head b of
        None \<Rightarrow> guard_err (last_entry ei_branch_id infos (bm_branch_id b) \<noteq> None)
          (invalid_bundle (name @ '' has events but no head''))
      | Some head \<Rightarrow>
          and_then (guard_err (nr_session_id head \<noteq> sr_session_id (sm_session manifest))
            (invalid_bundle (name @ '' head points to session '' @ session_id_text (nr_session_id head)))) (\<lambda>_.
          and_then (guard_err (nr_branch_id head \<noteq> bm_branch_id b)
            (invalid_bundle (name @ '' head points to branch '' @ branch_id_text (nr_branch_id head)))) (\<lambda>_.
          and_then (guard_err (nr_bundle_hash head \<noteq> Some (sm_bundle_hash manifest))
            (invalid_bundle (name @ '' head has wrong bundle hash''))) (\<lambda>_.
          and_then (guard_err (nr_store_seq_id head \<noteq> None)
            (invalid_bundle (name @ '' head carries a local store_seq_id''))) (\<lambda>_.
          and_then (ok_or (invalid_bundle (name @ '' head references missing event ''
              @ event_id_text (nr_event_id head))) (last_entry ei_event_id infos (nr_event_id head))) (\<lambda>info.
          and_then (guard_err (ei_branch_id info \<noteq> bm_branch_id b \<or> ei_ordinal info \<noteq> nr_ordinal head
              \<or> ei_event_hash info \<noteq> nr_event_hash head)
            (invalid_bundle (name @ '' head does not match event '' @ event_id_text (nr_event_id head)
              @ '' tuple''))) (\<lambda>_.
          guard_err (case last_entry ei_branch_id infos (bm_branch_id b) of
              None \<Rightarrow> False | Some latest \<Rightarrow> ei_event_id latest \<noteq> nr_event_id head)
            (invalid_bundle (name @ '' head is not the branch tip'')))))))))"

definition validate_manifest_branches ::
  "session_bundle_manifest \<Rightarrow> event_record_info list \<Rightarrow> unit result" where
  "validate_manifest_branches manifest infos =
     and_then (validate_branch_ids [] (sm_branches manifest)) (\<lambda>_.
     let defaults = length (filter bm_is_default (sm_branches manifest));
         ids = map bm_branch_id (sm_branches manifest) in
     and_then (guard_err (defaults \<noteq> 1)
       (invalid_bundle (''bundle must have exactly one default branch, found '' @ show_nat defaults))) (\<lambda>_.
     and_then (check_all (\<lambda>b. and_then (validate_branch_parent ids infos b) (\<lambda>_.
       validate_branch_head manifest infos b)) (sm_branches manifest)) (\<lambda>_.
     check_all (\<lambda>info. guard_err (ei_branch_id info \<notin> set ids)
       (invalid_bundle (''event '' @ show_nat (ei_ordinal info) @ '' references missing branch ''
         @ branch_id_text (ei_branch_id info)))) infos)))"

subsection \<open>Event ranges\<close>

fun cover_ordinals ::
  "event_record_info list \<Rightarrow> branch_id \<Rightarrow> nat list \<Rightarrow> nat list \<Rightarrow> nat list result" where
  "cover_ordinals infos bid covered [] = Inr covered"
| "cover_ordinals infos bid covered (n # ns) =
     and_then (ok_or (invalid_bundle (''range for branch '' @ branch_id_text bid
         @ '' includes missing ordinal '' @ show_nat n)) (last_entry ei_ordinal infos n)) (\<lambda>info.
     and_then (guard_err (ei_branch_id info \<noteq> bid)
       (invalid_bundle (''range for branch '' @ branch_id_text bid
         @ '' crosses branch boundary at ordinal '' @ show_nat n))) (\<lambda>_.
     and_then (guard_err (n \<in> set covered)
       (invalid_bundle (''event ordinal '' @ show_nat n @ '' is covered by more than one range''))) (\<lambda>_.
     cover_ordinals infos bid (covered @ [n]) ns)))"

definition validate_event_range ::
  "event_record_info list \<Rightarrow> nat list \<Rightarrow> event_range \<Rightarrow> nat list result" where
  "validate_event_range infos covered rg =
     (let name = ''range for branch '' @ branch_id_text (rg_branch_id rg);
          s = rg_ordinal_start rg; e = rg_ordinal_end rg in
      and_then (guard_err (s > e)
        (invalid_bundle (name @ '' has invalid ordinal bounds '' @ show_nat s @ ''..'' @ show_nat e))) (\<lambda>_.
      and_then (ok_or (invalid_bundle (name @ '' starts at missing ordinal '' @ show_nat s))
        (last_entry ei_ordinal infos s)) (\<lambda>first.
      and_then (ok_or (invalid_bundle (name @ '' ends at missing ordinal '' @ show_nat e))
        (last_entry ei_ordinal infos e)) (\<lambda>last.
      and_then (cover_ordinals infos (rg_branch_id rg) covered [s..<Suc e]) (\<lambda>covered'.
      and_then (guard_err (ei_event_hash first \<noteq> rg_first_event_hash rg
          \<or> ei_event_hash last \<noteq> rg_last_event_hash rg)
        (invalid_bundle (name @ '' has mismatched boundary hashes''))) (\<lambda>_.
      and_then (guard_err (rg_seq_start rg \<noteq> None \<or> rg_seq_end rg \<noteq> None)
        (invalid_bundle (name @ '' carries local exported seq ids''))) (\<lambda>_.
      Inr covered')))))))"

fun validate_ranges_from ::
  "event_record_info list \<Rightarrow> nat list \<Rightarrow> event_range list \<Rightarrow> nat list result" where
  "validate_ranges_from infos covered [] = Inr covered"
| "validate_ranges_from infos covered (r # rs) =
     and_then (validate_event_range infos covered r) (\<lambda>covered'. validate_ranges_from infos covered' rs)"

definition validate_event_ranges ::
  "session_bundle_manifest \<Rightarrow> event_record_info list \<Rightarrow> unit result" where
  "validate_event_ranges manifest infos =
     and_then (validate_ranges_from infos [] (sm_event_ranges manifest)) (\<lambda>covered.
     check_all (\<lambda>info. guard_err (ei_ordinal info \<notin> set covered)
       (invalid_bundle (''event ordinal '' @ show_nat (ei_ordinal info)
         @ '' is not covered by an event range''))) infos)"

subsection \<open>Artifacts\<close>

definition event_key :: "event_record_info \<Rightarrow> branch_id \<times> event_id \<times> nat \<times> portable_hash" where
  "event_key i = (ei_branch_id i, ei_event_id i, ei_ordinal i, ei_event_hash i)"

definition validate_artifact ::
  "session_bundle_manifest \<Rightarrow> portable_hash list \<Rightarrow> event_record_info list \<Rightarrow> string list
     \<Rightarrow> bundle_artifact_ref \<Rightarrow> unit result" where
  "validate_artifact manifest content_hashes infos seen a =
     (let name = ''artifact '' @ ba_artifact_id a; c = ba_content a; src = ba_source_node a in
      and_then (guard_err (str_trim (ba_artifact_id a) = [])
        (invalid_bundle ''artifact id must not be empty'')) (\<lambda>_.
      and_then (guard_err (str_trim (ba_kind a) = [])
        (invalid_bundle (name @ '' kind must not be empty''))) (\<lambda>_.
      and_then (guard_err (ba_artifact_id a \<in> set seen)
        (invalid_bundle (''duplicate artifact id '' @ ba_artifact_id a))) (\<lambda>_.
      and_then (guard_err (cr_hash c \<notin> set content_hashes)
        (invalid_bundle (name @ '' content '' @ hash_text (cr_hash c) @ '' missing from manifest contents''))) (\<lambda>_.
      and_then (ok_or (invalid_bundle (name @ '' has no content path'')) (cr_path c)) (\<lambda>path.
      and_then (validate_bundle_relative_path path) (\<lambda>_.
      and_then (guard_err (first_segment path \<noteq> SESSION_BT_ARTIFACTS_DIR)
        (invalid_bundle (name @ '' content path must be under '' @ SESSION_BT_ARTIFACTS_DIR @ ''/''))) (\<lambda>_.
      and_then (ok_or (invalid_bundle (name @ '' content '' @ hash_text (cr_hash c)
          @ '' missing from manifest contents''))
        (List.find (\<lambda>x. cr_hash x = cr_hash c \<and> cr_path x = cr_path c) (sm_contents manifest))) (\<lambda>content.
      and_then (guard_err (cr_path content \<noteq> cr_path c \<or> cr_size_bytes content \<noteq> cr_size_bytes c)
        (invalid_bundle (name @ '' content ref does not match manifest contents''))) (\<lambda>_.
      and_then (guard_err (nr_bundle_hash src \<noteq> Some (sm_bundle_hash manifest))
        (invalid_bundle (name @ '' source node has wrong bundle hash''))) (\<lambda>_.
      and_then (guard_err (nr_session_id src \<noteq> sr_session_id (sm_session manifest))
        (invalid_bundle (name @ '' source node points to session '' @ session_id_text (nr_session_id src)))) (\<lambda>_.
      and_then (guard_err (nr_store_seq_id src \<noteq> None)
        (invalid_bundle (name @ '' source node carries a local store_seq_id''))) (\<lambda>_.
      guard_err ((nr_branch_id src, nr_event_id src, nr_ordinal src, nr_event_hash src) \<notin> set (map event_key infos))
        (invalid_bundle (name @ '' source node does not resolve to an event'')))))))))))))))"

fun validate_artifacts_from ::
  "session_bundle_manifest \<Rightarrow> portable_hash list \<Rightarrow> event_record_info list \<Rightarrow> string list
     \<Rightarrow> bundle_artifact_ref list \<Rightarrow> unit result" where
  "validate_artifacts_from manifest content_hashes infos seen [] = Inr ()"
| "validate_artifacts_from manifest content_hashes infos seen (a # as) =
     and_then (validate_artifact manifest content_hashes infos seen a) (\<lambda>_.
     validate_artifacts_from manifest content_hashes infos (seen @ [ba_artifact_id a]) as)"

definition validate_manifest_artifacts ::
  "session_bundle_manifest \<Rightarrow> portable_hash list \<Rightarrow> event_record_info list \<Rightarrow> unit result" where
  "validate_manifest_artifacts manifest content_hashes infos =
     and_then (guard_err (sm_artifact_mode manifest = TraceOnly \<and> sm_artifacts manifest \<noteq> [])
       (invalid_bundle ''trace_only artifact mode must not include artifact refs'')) (\<lambda>_.
     validate_artifacts_from manifest content_hashes infos [] (sm_artifacts manifest))"

subsection \<open>The whole bundle\<close>

definition validate_session_bundle_directory :: "bundle_codec \<Rightarrow> bundle_dir \<Rightarrow> validation_report result" where
  "validate_session_bundle_directory codec dir =
     and_then (read_manifest codec dir) (\<lambda>manifest.
     and_then (guard_err (sm_schema_version manifest \<noteq> SESSION_BT_SCHEMA_VERSION)
       (invalid_bundle (''unsupported manifest schema version '' @ show_nat (sm_schema_version manifest)))) (\<lambda>_.
     and_then (fs_read dir SESSION_BT_CHECKSUMS) (\<lambda>checksums_bytes.
     let bundle_hash = bundle_hash_bytes codec checksums_bytes in
     and_then (guard_err (sm_bundle_hash manifest \<noteq> bundle_hash)
       (invalid_bundle (''manifest bundle_hash '' @ hash_text (sm_bundle_hash manifest)
         @ '' does not match checksum tree '' @ hash_text bundle_hash))) (\<lambda>_.
     and_then (serde_json_error (bc_parse_checksums codec checksums_bytes)) (\<lambda>checksums.
     and_then (guard_err (cs_schema_version checksums \<noteq> SESSION_BT_SCHEMA_VERSION)
       (invalid_bundle (''unsupported checksum schema version '' @ show_nat (cs_schema_version checksums)))) (\<lambda>_.
     and_then (validate_bundle_inventory_is_closed dir manifest checksums) (\<lambda>_.
     and_then (check_all (verify_file_checksum codec dir) (cs_files checksums)) (\<lambda>_.
     and_then (read_raw_chunk_refs codec dir) (\<lambda>raw_chunk_refs.
     and_then (check_all (validate_raw_chunk_content codec dir) raw_chunk_refs) (\<lambda>_.
     let raw_hashes = map (\<lambda>r. cr_hash (rf_content r)) raw_chunk_refs in
     and_then (check_all (validate_content codec dir) (sm_contents manifest)) (\<lambda>_.
     let content_hashes = map cr_hash (sm_contents manifest) in
     and_then (validate_manifest_raw_chunk_inventory raw_hashes content_hashes (sm_contents manifest)) (\<lambda>_.
     and_then (read_event_records codec dir) (\<lambda>event_records.
     and_then (validate_event_records codec event_records content_hashes raw_hashes manifest) (\<lambda>infos.
     and_then (validate_raw_chunk_refs codec raw_chunk_refs manifest infos) (\<lambda>_.
     and_then (validate_manifest_branches manifest infos) (\<lambda>_.
     and_then (validate_event_ranges manifest infos) (\<lambda>_.
     and_then (validate_manifest_artifacts manifest content_hashes infos) (\<lambda>_.
     Inr \<lparr>vr_bundle_hash = bundle_hash, vr_session_id = sr_session_id (sm_session manifest),
          vr_event_count = length event_records, vr_raw_chunk_reference_count = length raw_chunk_refs,
          vr_raw_chunk_content_count = length (bt_set raw_hashes),
          vr_content_count = length (bt_set content_hashes),
          vr_artifact_count = length (sm_artifacts manifest)\<rparr>))))))))))))))))))"

end
