(* ===== verification/Bt_BundleSpec.thy ===== *)
theory Bt_BundleSpec
  imports Bt_Bundle
begin

section \<open>What a validated bundle satisfies\<close>

text \<open>
  Each check of \<open>Bt_Bundle\<close> accepts exactly the bundles that satisfy a declarative condition; the
  conditions together say what a consumer (import, diff, push) may rely on.
\<close>

lemma check_all_Inr: "check_all f xs = Inr u \<longleftrightarrow> (\<forall>x \<in> set xs. f x = Inr ())"
  by (induction xs) (auto simp: and_then_eq_Inr)

lemma set_bt_set [simp]: "set (bt_set xs) = set xs"
  by (simp add: bt_set_def)

lemma distinct_bt_set: "distinct (bt_set xs)"
  by (simp add: bt_set_def)

lemma last_entry_Some: "last_entry key xs k = Some x \<Longrightarrow> x \<in> set xs \<and> key x = k"
  by (auto simp: last_entry_def dest: find_SomeD)

lemma last_entry_None: "last_entry key xs k = None \<longleftrightarrow> k \<notin> key ` set xs"
  by (auto simp: last_entry_def find_None_iff)

lemma last_entry_distinct:
  assumes "distinct (map key xs)"
  shows "last_entry key xs k = Some x \<longleftrightarrow> x \<in> set xs \<and> key x = k"
proof
  assume x: "x \<in> set xs \<and> key x = k"
  then obtain y where y: "last_entry key xs k = Some y"
    using last_entry_None [of key xs k] by (cases "last_entry key xs k") auto
  then have "y = x"
    using last_entry_Some [OF y] x assms by (auto simp: distinct_map dest: inj_onD)
  with y show "last_entry key xs k = Some x" by simp
qed (rule last_entry_Some)

lemma last_entry_snoc: "last_entry key (xs @ [x]) k = (if key x = k then Some x else last_entry key xs k)"
  by (simp add: last_entry_def)

subsection \<open>Files\<close>

lemma relative_path_ok: "validate_bundle_relative_path p = Inr u \<longleftrightarrow> p \<noteq> [] \<and> hd p \<noteq> slash \<and> ''..'' \<notin> set (path_components p)"
  by (auto simp: validate_bundle_relative_path_def and_then_eq_Inr)

lemma checksum_paths_Inr:
  "checksum_paths_of seen entries = Inr ps \<longleftrightarrow>
     ps = seen @ map ck_path entries \<and> (\<forall>e \<in> set entries. validate_bundle_relative_path (ck_path e) = Inr ()) \<and>
     distinct (map ck_path entries) \<and> set (map ck_path entries) \<inter> set seen = {}"
  by (induction entries arbitrary: seen) (auto simp: and_then_eq_Inr)

lemma collect_files_Inr:
  "collect_bundle_files dir = Inr ps \<longleftrightarrow>
     ps = map fst dir \<and> (\<forall>(p, e) \<in> set dir. e \<noteq> FsOther \<and> validate_bundle_relative_path p = Inr ())"
  by (induction dir arbitrary: ps rule: collect_bundle_files.induct) (auto simp: and_then_eq_Inr)

definition payload_files :: "bundle_dir \<Rightarrow> string set" where
  "payload_files dir = fst ` set dir - {SESSION_BT_MANIFEST, SESSION_BT_CHECKSUMS}"

text \<open>The inventory is closed: the checksum list, the paths the manifest names and the files of the
  directory are the same set, and no path leaves the bundle.\<close>

lemma inventory_closed_Inr:
  "validate_bundle_inventory_is_closed dir manifest checksums = Inr u \<longleftrightarrow>
     distinct (map ck_path (cs_files checksums)) \<and>
     ck_path ` set (cs_files checksums) = {SESSION_BT_EVENTS, SESSION_BT_RAW_CHUNK_REFS}
       \<union> set (content_paths (sm_contents manifest)) \<and>
     payload_files dir = ck_path ` set (cs_files checksums) \<and>
     (\<forall>p \<in> ck_path ` set (cs_files checksums) \<union> set (content_paths (sm_contents manifest)) \<union> fst ` set dir.
        validate_bundle_relative_path p = Inr ()) \<and>
     (\<forall>(p, e) \<in> set dir. e \<noteq> FsOther)"
  (is "?lhs \<longleftrightarrow> ?rhs")
proof -
  let ?V = "\<lambda>p. validate_bundle_relative_path p = Inr ()"
  let ?C = "set (content_paths (sm_contents manifest))"
  let ?L = "set (map ck_path (cs_files checksums))"
  let ?E = "{SESSION_BT_EVENTS, SESSION_BT_RAW_CHUNK_REFS} \<union> ?C"
  have "?lhs \<longleftrightarrow> (\<forall>p \<in> ?C. ?V p) \<and> (\<forall>p \<in> ?L. ?V p) \<and> distinct (map ck_path (cs_files checksums)) \<and>
      ?E \<subseteq> ?L \<and> ?L \<subseteq> ?E \<and> (\<forall>x \<in> set dir. snd x \<noteq> FsOther \<and> ?V (fst x)) \<and>
      payload_files dir \<subseteq> ?L \<and> ?L \<subseteq> payload_files dir"
    unfolding validate_bundle_inventory_is_closed_def Let_def
    by (simp add: and_then_eq_Inr check_all_Inr checksum_paths_Inr collect_files_Inr split_beta
        payload_files_def subset_eq) blast
  also have "\<dots> \<longleftrightarrow> ?rhs"
    by (simp add: split_beta ball_Un) blast
  finally show ?thesis .
qed

lemma verify_file_checksum_Inr:
  "verify_file_checksum codec dir entry = Inr u \<longleftrightarrow>
     validate_bundle_relative_path (ck_path entry) = Inr () \<and>
     (\<exists>bytes. fs_read dir (ck_path entry) = Inr bytes \<and> bundle_hash_bytes codec bytes = ck_hash entry \<and>
        length bytes = ck_size_bytes entry)"
  by (auto simp: verify_file_checksum_def and_then_eq_Inr Let_def split: sum.splits)

definition content_present :: "bundle_codec \<Rightarrow> bundle_dir \<Rightarrow> content_ref \<Rightarrow> string \<Rightarrow> bool" where
  "content_present codec dir c path \<longleftrightarrow>
     validate_bundle_relative_path path = Inr () \<and>
     (\<exists>bytes. fs_read dir path = Inr bytes \<and> bundle_hash_bytes codec bytes = cr_hash c \<and>
        length bytes = cr_size_bytes c)"

lemma validate_content_Inr:
  "validate_content codec dir c = Inr u \<longleftrightarrow> (\<forall>path. cr_path c = Some path \<longrightarrow> content_present codec dir c path)"
  by (cases "cr_path c") (auto simp: validate_content_def content_present_def and_then_eq_Inr Let_def)

lemma validate_raw_chunk_content_Inr:
  "validate_raw_chunk_content codec dir r = Inr u \<longleftrightarrow>
     (\<exists>path. cr_path (rf_content r) = Some path \<and> content_present codec dir (rf_content r) path)"
  by (cases "cr_path (rf_content r)")
    (auto simp: validate_raw_chunk_content_def content_present_def and_then_eq_Inr Let_def)

lemma raw_chunk_inventory_Inr:
  "validate_manifest_raw_chunk_inventory raw_hashes content_hashes contents = Inr u \<longleftrightarrow>
     set raw_hashes \<subseteq> set content_hashes \<and>
     (\<forall>c \<in> set contents. \<forall>path. cr_path c = Some path \<and> first_segment path = SESSION_BT_RAW_CHUNKS_DIR
        \<longrightarrow> cr_hash c \<in> set raw_hashes)"
  by (auto simp: validate_manifest_raw_chunk_inventory_def and_then_eq_Inr check_all_Inr split: option.splits)

subsection \<open>Event records\<close>

definition record_info :: "bundle_codec \<Rightarrow> bundle_event_record \<Rightarrow> event_record_info" where
  "record_info codec r =
     \<lparr>ei_ordinal = sb_ordinal r, ei_event_id = pe_event_id (sb_event r),
      ei_branch_id = pe_branch_id (sb_event r), ei_event_hash = canonical_event_hash codec (sb_event r),
      ei_content_refs = raw_chunk_content_refs (pe_payload (sb_event r)), ei_raw_refs = []\<rparr>"

definition record_ok :: "bundle_codec \<Rightarrow> portable_hash set \<Rightarrow> portable_hash set \<Rightarrow> session_id \<Rightarrow> bundle_event_record \<Rightarrow> bool" where
  "record_ok codec content_hashes raw_hashes sid r \<longleftrightarrow>
     canonical_event_hash codec (sb_event r) = sb_event_hash r \<and>
     sb_event_kind r = portable_kind (pe_payload (sb_event r)) \<and>
     set (raw_chunk_content_refs (pe_payload (sb_event r))) \<subseteq> content_hashes \<inter> raw_hashes \<and>
     pe_session_id (sb_event r) = sid"

lemma record_info_simps [simp]:
  "ei_ordinal (record_info codec r) = sb_ordinal r"
  "ei_event_id (record_info codec r) = pe_event_id (sb_event r)"
  "ei_branch_id (record_info codec r) = pe_branch_id (sb_event r)"
  "ei_event_hash (record_info codec r) = canonical_event_hash codec (sb_event r)"
  "ei_content_refs (record_info codec r) = raw_chunk_content_refs (pe_payload (sb_event r))"
  by (simp_all add: record_info_def)

lemma validate_event_record_Inr:
  "validate_event_record codec content_hashes raw_hashes sid n seen r = Inr info \<longleftrightarrow>
     info = record_info codec r \<and> sb_ordinal r = n \<and>
     record_ok codec (set content_hashes) (set raw_hashes) sid r \<and> pe_event_id (sb_event r) \<notin> set seen"
  by (auto simp: validate_event_record_def Let_def and_then_eq_Inr check_all_Inr record_ok_def record_info_def)

lemma validate_event_records_from_Inr:
  "validate_event_records_from codec content_hashes raw_hashes sid n seen rs = Inr infos \<longleftrightarrow>
     infos = map (record_info codec) rs \<and> map sb_ordinal rs = [n..<n + length rs] \<and>
     (\<forall>r \<in> set rs. record_ok codec (set content_hashes) (set raw_hashes) sid r) \<and>
     distinct (map (\<lambda>r. pe_event_id (sb_event r)) rs) \<and> set (map (\<lambda>r. pe_event_id (sb_event r)) rs) \<inter> set seen = {}"
proof (induction rs arbitrary: n seen infos)
  case (Cons r rs)
  have up: "[n..<n + length (r # rs)] = n # [n + 1..<n + 1 + length rs]"
    by (simp add: upt_rec)
  show ?case
    unfolding validate_event_records_from.simps and_then_eq_Inr validate_event_record_Inr Cons.IH up
    by (auto simp del: upt_Suc)
qed auto

lemma validate_event_records_Inr:
  "validate_event_records codec rs content_hashes raw_hashes manifest = Inr infos \<longleftrightarrow>
     infos = map (record_info codec) rs \<and> map sb_ordinal rs = [0..<length rs] \<and>
     (\<forall>r \<in> set rs. record_ok codec (set content_hashes) (set raw_hashes) (sr_session_id (sm_session manifest)) r) \<and>
     distinct (map (\<lambda>r. pe_event_id (sb_event r)) rs)"
  by (simp add: validate_event_records_def validate_event_records_from_Inr)

subsection \<open>Raw chunk references\<close>

definition raw_event :: "bundle_codec \<Rightarrow> raw_chunk_bundle_ref \<Rightarrow> event_id" where
  "raw_event codec r = projr (raw_ref_event_id codec r)"

definition ref_key :: "bundle_codec \<Rightarrow> raw_chunk_bundle_ref \<Rightarrow> event_id \<times> portable_hash" where
  "ref_key codec r = (raw_event codec r, cr_hash (rf_content r))"

definition raw_ref_ok ::
  "bundle_codec \<Rightarrow> session_bundle_manifest \<Rightarrow> event_record_info list \<Rightarrow> raw_chunk_bundle_ref \<Rightarrow> bool" where
  "raw_ref_ok codec manifest infos r \<longleftrightarrow>
     rf_session_id r = sr_session_id (sm_session manifest) \<and>
     raw_ref_event_id codec r = Inr (raw_event codec r) \<and>
     (\<exists>bid info. rf_branch_id r = Some bid \<and> bid \<in> bm_branch_id ` set (sm_branches manifest) \<and>
        last_entry ei_event_id infos (raw_event codec r) = Some info \<and> ei_branch_id info = bid \<and>
        cr_hash (rf_content r) \<in> set (ei_content_refs info))"

text \<open>References with the same chunk ordinal describe the same chunk.\<close>

definition consistent_refs :: "raw_chunk_bundle_ref list \<Rightarrow> bool" where
  "consistent_refs rs \<longleftrightarrow>
     (\<forall>x \<in> set rs. \<forall>y \<in> set rs. rf_chunk_ordinal x = rf_chunk_ordinal y \<longrightarrow> raw_ref_identity x = raw_ref_identity y)"

lemma consistent_snoc:
  assumes "consistent_refs xs"
  shows "consistent_refs (xs @ [r]) \<longleftrightarrow>
     (\<forall>x \<in> set xs. rf_chunk_ordinal x = rf_chunk_ordinal r \<longrightarrow> raw_ref_identity x = raw_ref_identity r)"
  (is "?lhs \<longleftrightarrow> ?rhs")
proof
  assume all: ?rhs
  show ?lhs
    unfolding consistent_refs_def
  proof (intro ballI impI)
    fix x y
    assume "x \<in> set (xs @ [r])" "y \<in> set (xs @ [r])" and eq: "rf_chunk_ordinal x = rf_chunk_ordinal y"
    then consider "x \<in> set xs" "y \<in> set xs" | "x \<in> set xs" "y = r" | "x = r" "y \<in> set xs" | "x = r" "y = r"
      by auto
    then show "raw_ref_identity x = raw_ref_identity y"
    proof cases
      case 1
      then show ?thesis by (rule assms [unfolded consistent_refs_def, rule_format, OF _ _ eq])
    next
      case 2
      with eq all [rule_format, of x] show ?thesis by simp
    next
      case 3
      with eq all [rule_format, of y] show ?thesis by simp
    qed simp
  qed
next
  assume l: ?lhs
  show ?rhs
  proof (intro ballI impI)
    fix x
    assume "x \<in> set xs" "rf_chunk_ordinal x = rf_chunk_ordinal r"
    then show "raw_ref_identity x = raw_ref_identity r"
      by (intro l [unfolded consistent_refs_def, rule_format]) simp_all
  qed
qed

lemma last_entry_consistent:
  assumes "consistent_refs (map fst earlier)"
  shows "(case last_entry (\<lambda>(x, _). rf_chunk_ordinal x) earlier (rf_chunk_ordinal r) of
            None \<Rightarrow> False | Some (x, _) \<Rightarrow> raw_ref_identity x \<noteq> raw_ref_identity r) \<longleftrightarrow>
         \<not> consistent_refs (map fst earlier @ [r])"
proof (cases "last_entry (\<lambda>(x, _). rf_chunk_ordinal x) earlier (rf_chunk_ordinal r)")
  case None
  then have "x \<in> set (map fst earlier) \<Longrightarrow> rf_chunk_ordinal x \<noteq> rf_chunk_ordinal r" for x
    by (force simp: last_entry_None)
  with None assms show ?thesis by (auto simp: consistent_snoc)
next
  case (Some p)
  obtain x e where p: "p = (x, e)" by (cases p)
  have x: "x \<in> set (map fst earlier)" "rf_chunk_ordinal x = rf_chunk_ordinal r"
    using last_entry_Some [OF Some] rev_image_eqI [of "(x, e)" "set earlier" x fst] by (simp_all add: p)
  have "raw_ref_identity y = raw_ref_identity x"
    if "y \<in> set (map fst earlier)" "rf_chunk_ordinal y = rf_chunk_ordinal r" for y
    using assms x that unfolding consistent_refs_def by metis
  then have "(\<forall>y \<in> set (map fst earlier). rf_chunk_ordinal y = rf_chunk_ordinal r
      \<longrightarrow> raw_ref_identity y = raw_ref_identity r) \<longleftrightarrow> raw_ref_identity x = raw_ref_identity r"
    using x by metis
  then show ?thesis
    unfolding consistent_snoc [OF assms] Some by (simp add: p)
qed

lemma validate_raw_chunk_ref_Inr:
  assumes "consistent_refs (map fst earlier)" and "\<forall>(x, e) \<in> set earlier. e = raw_event codec x"
  shows "validate_raw_chunk_ref codec manifest infos earlier r = Inr eid \<longleftrightarrow>
     eid = raw_event codec r \<and> raw_ref_ok codec manifest infos r \<and>
     ref_key codec r \<notin> (ref_key codec \<circ> fst) ` set earlier \<and> consistent_refs (map fst earlier @ [r])"
proof -
  have keys: "(\<lambda>(x, e). (e, cr_hash (rf_content x))) ` set earlier = (ref_key codec \<circ> fst) ` set earlier"
    using assms(2) by (auto simp: ref_key_def image_iff split_beta)
  have body: "validate_raw_chunk_ref codec manifest infos earlier r = Inr eid \<longleftrightarrow>
      rf_session_id r = sr_session_id (sm_session manifest) \<and>
      (\<exists>bid. rf_branch_id r = Some bid \<and> bid \<in> bm_branch_id ` set (sm_branches manifest) \<and>
        consistent_refs (map fst earlier @ [r]) \<and> raw_ref_event_id codec r = Inr eid \<and>
        (\<exists>info. last_entry ei_event_id infos eid = Some info \<and> ei_branch_id info = bid \<and>
          cr_hash (rf_content r) \<in> set (ei_content_refs info) \<and>
          (eid, cr_hash (rf_content r)) \<notin> (ref_key codec \<circ> fst) ` set earlier))"
    unfolding validate_raw_chunk_ref_def Let_def last_entry_consistent [OF assms(1)]
    by (simp add: and_then_eq_Inr keys) blast
  show ?thesis
  proof (cases "raw_ref_event_id codec r")
    case (Inr e)
    then show ?thesis
      unfolding body raw_ref_ok_def ref_key_def raw_event_def by auto
  qed (simp add: body raw_ref_ok_def)
qed

lemma validate_raw_chunk_refs_from_Inr:
  assumes "consistent_refs (map fst earlier)" and "\<forall>(x, e) \<in> set earlier. e = raw_event codec x"
  shows "validate_raw_chunk_refs_from codec manifest infos earlier rs = Inr acc \<longleftrightarrow>
     acc = earlier @ map (\<lambda>r. (r, raw_event codec r)) rs \<and> (\<forall>r \<in> set rs. raw_ref_ok codec manifest infos r) \<and>
     distinct (map (ref_key codec) rs) \<and> ref_key codec ` set rs \<inter> (ref_key codec \<circ> fst) ` set earlier = {} \<and>
     consistent_refs (map fst earlier @ rs)"
  using assms
proof (induction rs arbitrary: earlier)
  case (Cons r rs)
  let ?e = "earlier @ [(r, raw_event codec r)]"
  have weaken: "consistent_refs (map fst earlier @ r # rs) \<Longrightarrow> consistent_refs (map fst ?e)"
    by (auto simp: consistent_refs_def)
  have "validate_raw_chunk_refs_from codec manifest infos earlier (r # rs) = Inr acc \<longleftrightarrow>
      validate_raw_chunk_ref codec manifest infos earlier r = Inr (raw_event codec r) \<and>
      validate_raw_chunk_refs_from codec manifest infos ?e rs = Inr acc"
    using Cons.prems by (auto simp: and_then_eq_Inr validate_raw_chunk_ref_Inr)
  then show ?case
    using Cons.IH [of ?e] Cons.prems weaken by (auto simp: validate_raw_chunk_ref_Inr)
qed auto

lemma validate_raw_chunk_refs_Inr:
  "validate_raw_chunk_refs codec rs manifest infos = Inr u \<longleftrightarrow>
     (\<forall>r \<in> set rs. raw_ref_ok codec manifest infos r) \<and> distinct (map (ref_key codec) rs) \<and> consistent_refs rs \<and>
     (\<forall>i \<in> set infos. \<forall>h \<in> set (ei_content_refs i). (ei_event_id i, h) \<in> ref_key codec ` set rs)"
  unfolding validate_raw_chunk_refs_def
  by (auto simp: and_then_eq_Inr check_all_Inr validate_raw_chunk_refs_from_Inr consistent_refs_def ref_key_def
      image_image)

subsection \<open>Branches\<close>

lemma validate_branch_ids_Inr:
  "validate_branch_ids seen bs = Inr u \<longleftrightarrow>
     distinct (map bm_branch_id bs) \<and> bm_branch_id ` set bs \<inter> set seen = {}"
  by (induction bs arbitrary: seen) (auto simp: and_then_eq_Inr)

definition branch_parent_ok :: "branch_id set \<Rightarrow> event_record_info list \<Rightarrow> branch_manifest \<Rightarrow> bool" where
  "branch_parent_ok ids infos b \<longleftrightarrow>
     (\<forall>p. bm_parent_branch_id b = Some p \<longrightarrow> p \<in> ids) \<and>
     (\<forall>eid. bm_parent_event_id b = Some eid \<longrightarrow>
        (\<exists>info. last_entry ei_event_id infos eid = Some info \<and>
           (\<forall>p. bm_parent_branch_id b = Some p \<longrightarrow> ei_branch_id info = p)))"

lemma validate_branch_parent_Inr:
  "validate_branch_parent ids infos b = Inr u \<longleftrightarrow> branch_parent_ok (set ids) infos b"
  by (cases "bm_parent_branch_id b"; cases "bm_parent_event_id b")
    (auto simp: validate_branch_parent_def branch_parent_ok_def and_then_eq_Inr Let_def)

definition head_matches ::
  "session_bundle_manifest \<Rightarrow> event_record_info list \<Rightarrow> branch_id \<Rightarrow> session_node_ref \<Rightarrow> bool" where
  "head_matches manifest infos bid head \<longleftrightarrow>
     nr_session_id head = sr_session_id (sm_session manifest) \<and> nr_branch_id head = bid \<and>
     nr_bundle_hash head = Some (sm_bundle_hash manifest) \<and> nr_store_seq_id head = None \<and>
     (\<exists>info. last_entry ei_event_id infos (nr_event_id head) = Some info \<and> ei_branch_id info = bid \<and>
        ei_ordinal info = nr_ordinal head \<and> ei_event_hash info = nr_event_hash head) \<and>
     (\<forall>latest. last_entry ei_branch_id infos bid = Some latest \<longrightarrow> ei_event_id latest = nr_event_id head)"

definition branch_head_ok :: "session_bundle_manifest \<Rightarrow> event_record_info list \<Rightarrow> branch_manifest \<Rightarrow> bool" where
  "branch_head_ok manifest infos b \<longleftrightarrow>
     (case bm_head b of
        None \<Rightarrow> bm_branch_id b \<notin> ei_branch_id ` set infos
      | Some head \<Rightarrow> head_matches manifest infos (bm_branch_id b) head)"

lemma validate_branch_head_Inr:
  "validate_branch_head manifest infos b = Inr u \<longleftrightarrow> branch_head_ok manifest infos b"
proof (cases "bm_head b")
  case None
  then show ?thesis
    by (simp add: validate_branch_head_def branch_head_ok_def Let_def last_entry_None)
next
  case (Some head)
  have tip: "(case last_entry ei_branch_id infos (bm_branch_id b) of
        None \<Rightarrow> False | Some latest \<Rightarrow> ei_event_id latest \<noteq> nr_event_id head) \<longleftrightarrow>
      \<not> (\<forall>latest. last_entry ei_branch_id infos (bm_branch_id b) = Some latest \<longrightarrow> ei_event_id latest = nr_event_id head)"
    by (simp split: option.split)
  from Some show ?thesis
    unfolding validate_branch_head_def branch_head_ok_def head_matches_def Let_def
    by (simp add: and_then_eq_Inr tip) blast
qed

definition branches_ok :: "session_bundle_manifest \<Rightarrow> event_record_info list \<Rightarrow> bool" where
  "branches_ok manifest infos \<longleftrightarrow>
     distinct (map bm_branch_id (sm_branches manifest)) \<and>
     length (filter bm_is_default (sm_branches manifest)) = 1 \<and>
     (\<forall>b \<in> set (sm_branches manifest).
        branch_parent_ok (bm_branch_id ` set (sm_branches manifest)) infos b \<and> branch_head_ok manifest infos b) \<and>
     ei_branch_id ` set infos \<subseteq> bm_branch_id ` set (sm_branches manifest)"

lemma validate_manifest_branches_Inr:
  "validate_manifest_branches manifest infos = Inr u \<longleftrightarrow> branches_ok manifest infos"
  unfolding validate_manifest_branches_def branches_ok_def Let_def
  by (simp add: and_then_eq_Inr check_all_Inr validate_branch_ids_Inr validate_branch_parent_Inr
      validate_branch_head_Inr image_subset_iff)

subsection \<open>Event ranges\<close>

definition range_ordinals :: "event_range \<Rightarrow> nat list" where
  "range_ordinals rg = [rg_ordinal_start rg..<Suc (rg_ordinal_end rg)]"

definition range_ok :: "event_record_info list \<Rightarrow> event_range \<Rightarrow> bool" where
  "range_ok infos rg \<longleftrightarrow>
     rg_ordinal_start rg \<le> rg_ordinal_end rg \<and>
     (\<forall>n \<in> set (range_ordinals rg). \<exists>info. last_entry ei_ordinal infos n = Some info \<and> ei_branch_id info = rg_branch_id rg) \<and>
     (\<exists>info. last_entry ei_ordinal infos (rg_ordinal_start rg) = Some info \<and> ei_event_hash info = rg_first_event_hash rg) \<and>
     (\<exists>info. last_entry ei_ordinal infos (rg_ordinal_end rg) = Some info \<and> ei_event_hash info = rg_last_event_hash rg) \<and>
     rg_seq_start rg = None \<and> rg_seq_end rg = None"

lemma cover_ordinals_Inr:
  "cover_ordinals infos bid covered ns = Inr covered' \<longleftrightarrow>
     covered' = covered @ ns \<and> distinct ns \<and> set ns \<inter> set covered = {} \<and>
     (\<forall>n \<in> set ns. \<exists>info. last_entry ei_ordinal infos n = Some info \<and> ei_branch_id info = bid)"
  by (induction ns arbitrary: covered) (auto simp: and_then_eq_Inr)

lemma validate_event_range_Inr:
  "validate_event_range infos covered rg = Inr covered' \<longleftrightarrow>
     covered' = covered @ range_ordinals rg \<and> range_ok infos rg \<and> set (range_ordinals rg) \<inter> set covered = {}"
proof (cases "last_entry ei_ordinal infos (rg_ordinal_start rg)")
  case None
  then show ?thesis
    by (simp add: validate_event_range_def range_ok_def Let_def and_then_eq_Inr)
next
  case first: (Some first)
  show ?thesis
  proof (cases "last_entry ei_ordinal infos (rg_ordinal_end rg)")
    case None
    then show ?thesis
      by (simp add: validate_event_range_def range_ok_def Let_def and_then_eq_Inr)
  next
    case (Some last)
    with first show ?thesis
      unfolding validate_event_range_def Let_def range_ok_def range_ordinals_def
      by (auto simp: and_then_eq_Inr cover_ordinals_Inr simp del: upt_Suc)
  qed
qed

lemma validate_ranges_from_Inr:
  "validate_ranges_from infos covered rs = Inr covered' \<longleftrightarrow>
     covered' = covered @ concat (map range_ordinals rs) \<and> (\<forall>r \<in> set rs. range_ok infos r) \<and>
     distinct (concat (map range_ordinals rs)) \<and> set (concat (map range_ordinals rs)) \<inter> set covered = {}"
proof (induction rs arbitrary: covered)
  case (Cons r rs)
  have d: "distinct (range_ordinals r)" by (simp add: range_ordinals_def)
  show ?case
    unfolding validate_ranges_from.simps and_then_eq_Inr validate_event_range_Inr Cons.IH
    using d by auto
qed auto

definition ranges_ok :: "event_range list \<Rightarrow> event_record_info list \<Rightarrow> bool" where
  "ranges_ok rs infos \<longleftrightarrow>
     (\<forall>r \<in> set rs. range_ok infos r) \<and> distinct (concat (map range_ordinals rs)) \<and>
     ei_ordinal ` set infos \<subseteq> set (concat (map range_ordinals rs))"

lemma validate_event_ranges_Inr:
  "validate_event_ranges manifest infos = Inr u \<longleftrightarrow> ranges_ok (sm_event_ranges manifest) infos"
  unfolding validate_event_ranges_def ranges_ok_def
  by (simp add: and_then_eq_Inr check_all_Inr validate_ranges_from_Inr subset_eq)

subsection \<open>Artifacts\<close>

definition artifact_ok ::
  "session_bundle_manifest \<Rightarrow> event_record_info list \<Rightarrow> bundle_artifact_ref \<Rightarrow> bool" where
  "artifact_ok manifest infos a \<longleftrightarrow>
     str_trim (ba_artifact_id a) \<noteq> [] \<and> str_trim (ba_kind a) \<noteq> [] \<and>
     (\<exists>path. cr_path (ba_content a) = Some path \<and> validate_bundle_relative_path path = Inr () \<and>
        first_segment path = SESSION_BT_ARTIFACTS_DIR) \<and>
     (\<exists>c. List.find (\<lambda>x. cr_hash x = cr_hash (ba_content a) \<and> cr_path x = cr_path (ba_content a))
        (sm_contents manifest) = Some c \<and> cr_size_bytes c = cr_size_bytes (ba_content a)) \<and>
     nr_bundle_hash (ba_source_node a) = Some (sm_bundle_hash manifest) \<and>
     nr_session_id (ba_source_node a) = sr_session_id (sm_session manifest) \<and>
     nr_store_seq_id (ba_source_node a) = None \<and>
     (nr_branch_id (ba_source_node a), nr_event_id (ba_source_node a), nr_ordinal (ba_source_node a),
      nr_event_hash (ba_source_node a)) \<in> event_key ` set infos"

lemma validate_artifact_Inr:
  "validate_artifact manifest (map cr_hash (sm_contents manifest)) infos seen a = Inr u \<longleftrightarrow>
     artifact_ok manifest infos a \<and> ba_artifact_id a \<notin> set seen"
proof -
  have listed: "List.find (\<lambda>x. cr_hash x = cr_hash (ba_content a) \<and> cr_path x = cr_path (ba_content a))
      (sm_contents manifest) = Some c \<Longrightarrow>
      cr_hash (ba_content a) \<in> cr_hash ` set (sm_contents manifest) \<and> cr_path c = cr_path (ba_content a)" for c
    by (drule find_SomeD, auto intro!: image_eqI [of _ _ c])
  show ?thesis
  proof (cases "List.find (\<lambda>x. cr_hash x = cr_hash (ba_content a) \<and> cr_path x = cr_path (ba_content a))
      (sm_contents manifest)")
    case None
    then show ?thesis
      by (simp add: validate_artifact_def artifact_ok_def Let_def and_then_eq_Inr)
  next
    case (Some c)
    note l = listed [OF Some]
    show ?thesis
    proof (cases "cr_path (ba_content a)")
      case None
      then show ?thesis
        by (simp add: validate_artifact_def artifact_ok_def Let_def and_then_eq_Inr)
    next
      case path: (Some path)
      show ?thesis
        using l unfolding validate_artifact_def artifact_ok_def Let_def Some
        by (simp add: and_then_eq_Inr path conj_ac)
    qed
  qed
qed

lemma validate_artifacts_from_Inr:
  "validate_artifacts_from manifest (map cr_hash (sm_contents manifest)) infos seen as = Inr u \<longleftrightarrow>
     (\<forall>a \<in> set as. artifact_ok manifest infos a) \<and> distinct (map ba_artifact_id as) \<and>
     ba_artifact_id ` set as \<inter> set seen = {}"
  by (induction as arbitrary: seen) (auto simp: and_then_eq_Inr validate_artifact_Inr)

definition artifacts_ok :: "session_bundle_manifest \<Rightarrow> event_record_info list \<Rightarrow> bool" where
  "artifacts_ok manifest infos \<longleftrightarrow>
     (sm_artifact_mode manifest = TraceOnly \<longrightarrow> sm_artifacts manifest = []) \<and>
     (\<forall>a \<in> set (sm_artifacts manifest). artifact_ok manifest infos a) \<and>
     distinct (map ba_artifact_id (sm_artifacts manifest))"

lemma validate_manifest_artifacts_Inr:
  "validate_manifest_artifacts manifest (map cr_hash (sm_contents manifest)) infos = Inr u \<longleftrightarrow> artifacts_ok manifest infos"
  unfolding validate_manifest_artifacts_def artifacts_ok_def
  by (auto simp: and_then_eq_Inr validate_artifacts_from_Inr)

subsection \<open>The whole bundle\<close>

record bundle_view =
  bv_manifest :: session_bundle_manifest
  bv_checksums_bytes :: string
  bv_checksums :: bundle_checksums
  bv_refs :: "raw_chunk_bundle_ref list"
  bv_records :: "bundle_event_record list"

definition bundle_read :: "bundle_codec \<Rightarrow> bundle_dir \<Rightarrow> bundle_view \<Rightarrow> bool" where
  "bundle_read codec dir v \<longleftrightarrow>
     read_manifest codec dir = Inr (bv_manifest v) \<and>
     fs_read dir SESSION_BT_CHECKSUMS = Inr (bv_checksums_bytes v) \<and>
     bc_parse_checksums codec (bv_checksums_bytes v) = Inr (bv_checksums v) \<and>
     read_raw_chunk_refs codec dir = Inr (bv_refs v) \<and> read_event_records codec dir = Inr (bv_records v)"

definition view_infos :: "bundle_codec \<Rightarrow> bundle_view \<Rightarrow> event_record_info list" where
  "view_infos codec v = map (record_info codec) (bv_records v)"

definition view_sid :: "bundle_view \<Rightarrow> session_id" where
  "view_sid v = sr_session_id (sm_session (bv_manifest v))"

definition raw_hashes :: "bundle_view \<Rightarrow> portable_hash list" where
  "raw_hashes v = map (\<lambda>r. cr_hash (rf_content r)) (bv_refs v)"

definition content_hashes :: "bundle_view \<Rightarrow> portable_hash list" where
  "content_hashes v = map cr_hash (sm_contents (bv_manifest v))"

text \<open>Versions and the hash of the checksum tree; the closed inventory; the files behind the checksums,
  the references and the contents; the references of the events.\<close>

definition files_well_formed :: "bundle_codec \<Rightarrow> bundle_dir \<Rightarrow> bundle_view \<Rightarrow> bool" where
  "files_well_formed codec dir v \<longleftrightarrow>
     sm_schema_version (bv_manifest v) = SESSION_BT_SCHEMA_VERSION \<and>
     cs_schema_version (bv_checksums v) = SESSION_BT_SCHEMA_VERSION \<and>
     sm_bundle_hash (bv_manifest v) = bundle_hash_bytes codec (bv_checksums_bytes v) \<and>
     validate_bundle_inventory_is_closed dir (bv_manifest v) (bv_checksums v) = Inr () \<and>
     (\<forall>e \<in> set (cs_files (bv_checksums v)). verify_file_checksum codec dir e = Inr ()) \<and>
     (\<forall>r \<in> set (bv_refs v). validate_raw_chunk_content codec dir r = Inr ()) \<and>
     (\<forall>c \<in> set (sm_contents (bv_manifest v)). validate_content codec dir c = Inr ())"

definition records_well_formed :: "bundle_codec \<Rightarrow> bundle_view \<Rightarrow> bool" where
  "records_well_formed codec v \<longleftrightarrow>
     validate_manifest_raw_chunk_inventory (raw_hashes v) (content_hashes v) (sm_contents (bv_manifest v)) = Inr () \<and>
     map sb_ordinal (bv_records v) = [0..<length (bv_records v)] \<and>
     (\<forall>r \<in> set (bv_records v). record_ok codec (set (content_hashes v)) (set (raw_hashes v)) (view_sid v) r) \<and>
     distinct (map (\<lambda>r. pe_event_id (sb_event r)) (bv_records v)) \<and>
     (\<forall>r \<in> set (bv_refs v). raw_ref_ok codec (bv_manifest v) (view_infos codec v) r) \<and>
     distinct (map (ref_key codec) (bv_refs v)) \<and> consistent_refs (bv_refs v) \<and>
     (\<forall>i \<in> set (view_infos codec v). \<forall>h \<in> set (ei_content_refs i). (ei_event_id i, h) \<in> ref_key codec ` set (bv_refs v))"

definition well_formed_bundle :: "bundle_codec \<Rightarrow> bundle_dir \<Rightarrow> bundle_view \<Rightarrow> bool" where
  "well_formed_bundle codec dir v \<longleftrightarrow>
     bundle_read codec dir v \<and> files_well_formed codec dir v \<and> records_well_formed codec v \<and>
     branches_ok (bv_manifest v) (view_infos codec v) \<and>
     ranges_ok (sm_event_ranges (bv_manifest v)) (view_infos codec v) \<and>
     artifacts_ok (bv_manifest v) (view_infos codec v)"

definition view_report :: "bundle_view \<Rightarrow> validation_report" where
  "view_report v =
     \<lparr>vr_bundle_hash = sm_bundle_hash (bv_manifest v), vr_session_id = view_sid v,
      vr_event_count = length (bv_records v), vr_raw_chunk_reference_count = length (bv_refs v),
      vr_raw_chunk_content_count = card (set (raw_hashes v)),
      vr_content_count = card (set (content_hashes v)),
      vr_artifact_count = length (sm_artifacts (bv_manifest v))\<rparr>"

lemma length_bt_set: "length (bt_set xs) = card (set xs)"
  by (simp add: bt_set_def length_remdups_card_conv)

lemma serde_json_error_Inr [simp]: "serde_json_error r = Inr v \<longleftrightarrow> r = Inr v"
  by (cases r) (simp_all add: serde_json_error_def)

lemma validate_well_formed:
  assumes "validate_session_bundle_directory codec dir = Inr report"
  obtains v where "well_formed_bundle codec dir v" "report = view_report v"
proof -
  note split = and_then_eq_Inr guard_err_eq_Inr serde_json_error_Inr not_not
  from assms obtain manifest bytes checksums where
      m: "read_manifest codec dir = Inr manifest" "sm_schema_version manifest = SESSION_BT_SCHEMA_VERSION"
        "fs_read dir SESSION_BT_CHECKSUMS = Inr bytes" "sm_bundle_hash manifest = bundle_hash_bytes codec bytes"
        "bc_parse_checksums codec bytes = Inr checksums" "cs_schema_version checksums = SESSION_BT_SCHEMA_VERSION"
        "validate_bundle_inventory_is_closed dir manifest checksums = Inr ()"
        "check_all (verify_file_checksum codec dir) (cs_files checksums) = Inr ()"
    and rest: "validate_session_bundle_directory codec dir = Inr report"
    unfolding validate_session_bundle_directory_def Let_def split by auto
  from rest m obtain refs records infos where
      r: "read_raw_chunk_refs codec dir = Inr refs"
        "check_all (validate_raw_chunk_content codec dir) refs = Inr ()"
        "check_all (validate_content codec dir) (sm_contents manifest) = Inr ()"
        "validate_manifest_raw_chunk_inventory (map (\<lambda>r. cr_hash (rf_content r)) refs)
           (map cr_hash (sm_contents manifest)) (sm_contents manifest) = Inr ()"
        "read_event_records codec dir = Inr records"
        "validate_event_records codec records (map cr_hash (sm_contents manifest))
           (map (\<lambda>r. cr_hash (rf_content r)) refs) manifest = Inr infos"
        "validate_raw_chunk_refs codec refs manifest infos = Inr ()"
        "validate_manifest_branches manifest infos = Inr ()" "validate_event_ranges manifest infos = Inr ()"
        "validate_manifest_artifacts manifest (map cr_hash (sm_contents manifest)) infos = Inr ()"
    and report: "report = \<lparr>vr_bundle_hash = bundle_hash_bytes codec bytes,
          vr_session_id = sr_session_id (sm_session manifest),
          vr_event_count = length records, vr_raw_chunk_reference_count = length refs,
          vr_raw_chunk_content_count = length (bt_set (map (\<lambda>r. cr_hash (rf_content r)) refs)),
          vr_content_count = length (bt_set (map cr_hash (sm_contents manifest))),
          vr_artifact_count = length (sm_artifacts manifest)\<rparr>"
    unfolding validate_session_bundle_directory_def Let_def split by auto
  let ?v = "\<lparr>bv_manifest = manifest, bv_checksums_bytes = bytes, bv_checksums = checksums,
      bv_refs = refs, bv_records = records\<rparr>"
  have infos: "infos = view_infos codec ?v"
    using r(6) by (simp add: validate_event_records_Inr view_infos_def)
  have "well_formed_bundle codec dir ?v"
    using m r unfolding infos
    by (simp add: well_formed_bundle_def bundle_read_def files_well_formed_def records_well_formed_def
        check_all_Inr validate_event_records_Inr validate_raw_chunk_refs_Inr validate_manifest_branches_Inr
        validate_event_ranges_Inr validate_manifest_artifacts_Inr raw_hashes_def content_hashes_def view_sid_def)
  moreover have "report = view_report ?v"
    using m(4) report by (simp add: view_report_def view_sid_def raw_hashes_def content_hashes_def length_bt_set)
  ultimately show ?thesis by (rule that)
qed

lemma well_formed_validates:
  assumes "well_formed_bundle codec dir v"
  shows "validate_session_bundle_directory codec dir = Inr (view_report v)"
proof -
  have inv: "validate_event_records codec (bv_records v) (map cr_hash (sm_contents (bv_manifest v)))
      (map (\<lambda>r. cr_hash (rf_content r)) (bv_refs v)) (bv_manifest v) = Inr (view_infos codec v)"
    using assms by (simp add: well_formed_bundle_def records_well_formed_def validate_event_records_Inr
        view_infos_def raw_hashes_def content_hashes_def view_sid_def)
  have "check_all (verify_file_checksum codec dir) (cs_files (bv_checksums v)) = Inr ()"
    "check_all (validate_raw_chunk_content codec dir) (bv_refs v) = Inr ()"
    "check_all (validate_content codec dir) (sm_contents (bv_manifest v)) = Inr ()"
    "validate_raw_chunk_refs codec (bv_refs v) (bv_manifest v) (view_infos codec v) = Inr ()"
    "validate_manifest_branches (bv_manifest v) (view_infos codec v) = Inr ()"
    "validate_event_ranges (bv_manifest v) (view_infos codec v) = Inr ()"
    "validate_manifest_artifacts (bv_manifest v) (map cr_hash (sm_contents (bv_manifest v))) (view_infos codec v) = Inr ()"
    using assms
    by (simp_all add: well_formed_bundle_def files_well_formed_def records_well_formed_def check_all_Inr
        validate_raw_chunk_refs_Inr validate_manifest_branches_Inr validate_event_ranges_Inr
        validate_manifest_artifacts_Inr)
  with inv show ?thesis
    using assms
    by (simp add: validate_session_bundle_directory_def well_formed_bundle_def bundle_read_def
        files_well_formed_def records_well_formed_def serde_json_error_def view_report_def view_sid_def
        raw_hashes_def content_hashes_def length_bt_set)
qed

lemma well_formed_unique:
  "well_formed_bundle codec dir v \<Longrightarrow> well_formed_bundle codec dir v' \<Longrightarrow> v = v'"
  by (cases v; cases v') (auto simp: well_formed_bundle_def bundle_read_def)

end
