(* ===== verification/Bt_Sync.thy ===== *)
theory Bt_Sync
  imports Bt_BundleSpec
begin

section \<open>Append-only remote sync\<close>

text \<open>
  \<open>bt-session/src/sync.rs\<close>: pushing a bundle to a directory registry and pulling it back. The part of
  the registry that belongs to one session is \<open>remote_session\<close>: the bytes of \<open>heads.json\<close>, whether the
  lock file exists, and the bundle directories by name. Temporary names, which nothing reads, are left
  out: a copy and the replacement of \<open>heads.json\<close> take effect with their final \<open>rename\<close>. The JSON text
  of \<open>heads.json\<close> and its parser are the fields of \<open>sync_codec\<close>.

  A push is cut where other processes can see it: the part before the lock, the decision and the copy
  under the lock, and the replacement of \<open>heads.json\<close>. The changes a push makes to the file system may
  fail; which ones do is the argument \<open>sync_host\<close>. A copy that fails midway leaves files only under
  its temporary name, so it has no effect here; a failed replacement comes after the copy, so the copy
  stays; a lock file that cannot be removed stays, since \<open>drop\<close> ignores the error. Reads of files that
  exist succeed, and so do the writes of a pull to its own output directory.
\<close>

record remote_head =
  rh_branch_id :: branch_id
  rh_head_event_hash :: portable_hash
  rh_bundle_hash :: portable_hash

record remote_state =
  rs_schema_version :: nat
  rs_session_id :: session_id
  rs_default_branch_id :: "branch_id option"
  rs_branch_heads :: "remote_head list"

record push_report =
  pu_session_id :: session_id
  pu_branch_id :: branch_id
  pu_previous_head :: "portable_hash option"
  pu_new_head :: portable_hash
  pu_bundle_hash :: portable_hash
  pu_copied_bundle :: bool
  pu_changed_remote_head :: bool

record pull_report =
  pp_session_id :: session_id
  pp_branch_id :: branch_id
  pp_head_event_hash :: portable_hash
  pp_bundle_hash :: portable_hash

record sync_codec =
  sc_state_text :: "remote_state \<Rightarrow> string"
  sc_parse_state :: "string \<Rightarrow> string + remote_state"

record remote_session =
  rx_heads_json :: "string option"
  rx_locked :: bool
  rx_bundles :: "(string \<times> bundle_dir) list"

record sync_host =
  sh_create_dirs :: "belltower_error option"
  sh_create_lock :: "string option"
  sh_copy :: "belltower_error option"
  sh_write_heads :: "belltower_error option"
  sh_remove_lock :: bool

definition host_step :: "belltower_error option \<Rightarrow> unit result" where
  "host_step failure = (case failure of Some e \<Rightarrow> Inl e | None \<Rightarrow> Inr ())"

definition empty_remote :: remote_session where
  "empty_remote = \<lparr>rx_heads_json = None, rx_locked = False, rx_bundles = []\<rparr>"

definition invalid_sync :: "string \<Rightarrow> belltower_error" where
  "invalid_sync m = InvalidState m"

subsection \<open>State file\<close>

definition read_existing_remote_state ::
  "sync_codec \<Rightarrow> session_id \<Rightarrow> remote_session \<Rightarrow> remote_state result" where
  "read_existing_remote_state sc sid remote =
     and_then (ok_or (Io ''no such file'') (rx_heads_json remote)) (\<lambda>bytes.
     and_then (serde_json_error (sc_parse_state sc bytes)) (\<lambda>st.
     and_then (guard_err (rs_schema_version st \<noteq> SESSION_BT_SCHEMA_VERSION)
       (invalid_sync (''unsupported remote schema version '' @ show_nat (rs_schema_version st)))) (\<lambda>_.
     and_then (guard_err (rs_session_id st \<noteq> sid)
       (invalid_sync (''remote state session '' @ session_id_text (rs_session_id st)
         @ '' does not match requested session '' @ session_id_text sid))) (\<lambda>_.
     Inr st))))"

definition read_remote_state :: "sync_codec \<Rightarrow> session_id \<Rightarrow> remote_session \<Rightarrow> remote_state result" where
  "read_remote_state sc sid remote =
     (case rx_heads_json remote of
        Some _ \<Rightarrow> read_existing_remote_state sc sid remote
      | None \<Rightarrow> Inr \<lparr>rs_schema_version = SESSION_BT_SCHEMA_VERSION, rs_session_id = sid,
                   rs_default_branch_id = None, rs_branch_heads = []\<rparr>)"

definition write_remote_state ::
  "sync_host \<Rightarrow> sync_codec \<Rightarrow> remote_state \<Rightarrow> remote_session \<Rightarrow> remote_session result" where
  "write_remote_state host sc st remote =
     and_then (host_step (sh_write_heads host)) (\<lambda>_.
     Inr (remote\<lparr>rx_heads_json := Some (sc_state_text sc st)\<rparr>))"

subsection \<open>Checks\<close>

definition select_push_branch ::
  "session_bundle_manifest \<Rightarrow> branch_id option \<Rightarrow> branch_manifest result" where
  "select_push_branch manifest bid =
     (case bid of
        Some b \<Rightarrow> ok_or (invalid_sync (''branch '' @ branch_id_text b @ '' is not in bundle''))
          (List.find (\<lambda>x. bm_branch_id x = b) (sm_branches manifest))
      | None \<Rightarrow> ok_or (invalid_sync ''bundle has no branches'')
          (case List.find bm_is_default (sm_branches manifest) of
             Some x \<Rightarrow> Some x
           | None \<Rightarrow> (case sm_branches manifest of [] \<Rightarrow> None | x # _ \<Rightarrow> Some x)))"

definition select_pull_head :: "remote_state \<Rightarrow> branch_id option \<Rightarrow> remote_head result" where
  "select_pull_head st bid =
     (case bid of
        Some b \<Rightarrow> ok_or (invalid_sync (''remote branch '' @ branch_id_text b @ '' not found''))
          (List.find (\<lambda>h. rh_branch_id h = b) (rs_branch_heads st))
      | None \<Rightarrow> (case rs_default_branch_id st of
            Some b \<Rightarrow> ok_or (invalid_sync (''default branch '' @ branch_id_text b @ '' not found''))
              (List.find (\<lambda>h. rh_branch_id h = b) (rs_branch_heads st))
          | None \<Rightarrow> (case rs_branch_heads st of
                [h] \<Rightarrow> Inr h
              | _ \<Rightarrow> Inl (invalid_sync ''remote has multiple heads; pass --branch to select one''))))"

definition enforce_cas ::
  "branch_id \<Rightarrow> portable_hash option \<Rightarrow> portable_hash option \<Rightarrow> portable_hash \<Rightarrow> unit result" where
  "enforce_cas bid previous expected new_head =
     (case (previous, expected) of
        (Some p, Some e) \<Rightarrow> guard_err (p \<noteq> e)
          (InvalidState (''remote branch '' @ branch_id_text bid @ '' head conflict: expected '' @ hash_text e
            @ '', found '' @ hash_text p))
      | (Some p, None) \<Rightarrow> guard_err (p \<noteq> new_head)
          (InvalidState (''remote branch '' @ branch_id_text bid @ '' already has head '' @ hash_text p
            @ ''; pass --expected-head to advance it''))
      | (None, Some e) \<Rightarrow> Inl (InvalidState (''remote branch '' @ branch_id_text bid
            @ '' does not exist; expected head '' @ hash_text e @ '' cannot match''))
      | (None, None) \<Rightarrow> Inr ())"

definition bundle_name :: "portable_hash \<Rightarrow> string" where
  "bundle_name h = sha256_hex h"

definition ensure_pushed_bundle_extends_remote_head ::
  "bundle_dir \<Rightarrow> remote_session \<Rightarrow> remote_head \<Rightarrow> unit result" where
  "ensure_pushed_bundle_extends_remote_head dir remote previous =
     and_then (case Option.bind (map_of (rx_bundles remote) (bundle_name (rh_bundle_hash previous)))
           (\<lambda>d. case fs_read d SESSION_BT_EVENTS of Inl _ \<Rightarrow> None | Inr b \<Rightarrow> Some b) of
         None \<Rightarrow> Inl (invalid_sync (''remote head bundle '' @ hash_text (rh_bundle_hash previous)
           @ '' is missing; refusing to advance an unverifiable head''))
       | Some previous_bytes \<Rightarrow> Inr previous_bytes) (\<lambda>previous_bytes.
     and_then (fs_read dir SESSION_BT_EVENTS) (\<lambda>pushed_bytes.
     guard_err (\<not> prefix previous_bytes pushed_bytes)
       (invalid_sync ''pushed bundle does not extend the remote head's history; append-only registries fork divergent histories instead of rebinding heads'')))"

definition copy_dir_contents :: "bundle_dir \<Rightarrow> bundle_dir result" where
  "copy_dir_contents dir =
     (if FsOther \<in> snd ` set dir then Inl (invalid_sync ''unsupported bundle path '') else Inr dir)"

definition copy_bundle_to_remote ::
  "sync_host \<Rightarrow> bundle_codec \<Rightarrow> bundle_dir \<Rightarrow> portable_hash \<Rightarrow> remote_session \<Rightarrow> (remote_session \<times> bool) result" where
  "copy_bundle_to_remote host codec dir h remote =
     (case map_of (rx_bundles remote) (bundle_name h) of
        Some dest \<Rightarrow> and_then (validate_session_bundle_directory codec dest) (\<lambda>_. Inr (remote, False))
      | None \<Rightarrow> and_then (host_step (sh_copy host)) (\<lambda>_.
          and_then (copy_dir_contents dir) (\<lambda>copied.
          Inr (remote\<lparr>rx_bundles := rx_bundles remote @ [(bundle_name h, copied)]\<rparr>, True))))"

subsection \<open>Push\<close>

record push_request =
  pq_dir :: bundle_dir
  pq_session_id :: session_id
  pq_branch_id :: branch_id
  pq_is_default :: bool
  pq_head :: portable_hash
  pq_bundle_hash :: portable_hash
  pq_expected :: "portable_hash option"

text \<open>What a push does before it asks for the lock.\<close>

definition prepare_push ::
  "bundle_codec \<Rightarrow> bundle_dir \<Rightarrow> branch_id option \<Rightarrow> portable_hash option \<Rightarrow> push_request result" where
  "prepare_push codec dir bid expected =
     and_then (validate_session_bundle_directory codec dir) (\<lambda>validation.
     and_then (read_manifest codec dir) (\<lambda>manifest.
     and_then (select_push_branch manifest bid) (\<lambda>b.
     and_then (ok_or (invalid_sync ''cannot push branch without a head event'') (bm_head b)) (\<lambda>head.
     Inr \<lparr>pq_dir = dir, pq_session_id = sr_session_id (sm_session manifest), pq_branch_id = bm_branch_id b,
          pq_is_default = bm_is_default b, pq_head = nr_event_hash head,
          pq_bundle_hash = vr_bundle_hash validation, pq_expected = expected\<rparr>))))"

definition acquire_remote_state_lock :: "sync_host \<Rightarrow> remote_session \<Rightarrow> remote_session result" where
  "acquire_remote_state_lock host remote =
     and_then (host_step (sh_create_dirs host)) (\<lambda>_.
     (case sh_create_lock host of
        Some m \<Rightarrow> Inl (InvalidState (''failed to acquire remote state lock: '' @ m))
      | None \<Rightarrow>
          if rx_locked remote
          then Inl (invalid_sync ''remote state lock is already held; pull or retry after the active push completes'')
          else Inr (remote\<lparr>rx_locked := True\<rparr>)))"

definition release_remote_state_lock :: "sync_host \<Rightarrow> remote_session \<Rightarrow> remote_session" where
  "release_remote_state_lock host remote = (if sh_remove_lock host then remote\<lparr>rx_locked := False\<rparr> else remote)"

definition remote_head_of :: "remote_state \<Rightarrow> branch_id \<Rightarrow> remote_head option" where
  "remote_head_of st bid = List.find (\<lambda>h. rh_branch_id h = bid) (rs_branch_heads st)"

text \<open>\<open>state.branch_heads[index] = head\<close> for the first head of the branch, or a new entry.\<close>

fun put_head :: "remote_head \<Rightarrow> remote_head list \<Rightarrow> remote_head list" where
  "put_head h [] = [h]"
| "put_head h (x # xs) = (if rh_branch_id x = rh_branch_id h then h # xs else x # put_head h xs)"

definition updated_state :: "push_request \<Rightarrow> bool \<Rightarrow> remote_state \<Rightarrow> remote_state" where
  "updated_state q changed st =
     (let st1 = (if changed
            then st\<lparr>rs_branch_heads := sort_key (branch_id_text \<circ> rh_branch_id)
              (put_head \<lparr>rh_branch_id = pq_branch_id q, rh_head_event_hash = pq_head q,
                 rh_bundle_hash = pq_bundle_hash q\<rparr> (rs_branch_heads st))\<rparr>
            else st)
      in if rs_default_branch_id st1 = None \<or> pq_is_default q
         then st1\<lparr>rs_default_branch_id := Some (pq_branch_id q)\<rparr> else st1)"

text \<open>Under the lock: the decision and the copy; the result carries the state that is written next.\<close>

definition push_under_lock ::
  "sync_host \<Rightarrow> bundle_codec \<Rightarrow> sync_codec \<Rightarrow> push_request \<Rightarrow> remote_session
     \<Rightarrow> (remote_session \<times> remote_state \<times> push_report) result" where
  "push_under_lock host codec sc q remote =
     and_then (read_remote_state sc (pq_session_id q) remote) (\<lambda>st.
     let existing = remote_head_of st (pq_branch_id q);
         previous_head = map_option rh_head_event_hash existing;
         changed = (previous_head \<noteq> Some (pq_head q))
     in and_then (enforce_cas (pq_branch_id q) previous_head (pq_expected q) (pq_head q)) (\<lambda>_.
        and_then (case existing of
            Some h \<Rightarrow> if changed then ensure_pushed_bundle_extends_remote_head (pq_dir q) remote h else Inr ()
          | None \<Rightarrow> Inr ()) (\<lambda>_.
        and_then (copy_bundle_to_remote host codec (pq_dir q) (pq_bundle_hash q) remote) (\<lambda>(remote', copied).
        Inr (remote', updated_state q changed st,
             \<lparr>pu_session_id = pq_session_id q, pu_branch_id = pq_branch_id q, pu_previous_head = previous_head,
              pu_new_head = pq_head q, pu_bundle_hash = pq_bundle_hash q, pu_copied_bundle = copied,
              pu_changed_remote_head = changed\<rparr>)))))"

definition push_session_bundle_directory ::
  "sync_host \<Rightarrow> bundle_codec \<Rightarrow> sync_codec \<Rightarrow> bundle_dir \<Rightarrow> branch_id option \<Rightarrow> portable_hash option \<Rightarrow> remote_session
     \<Rightarrow> remote_session \<times> push_report result" where
  "push_session_bundle_directory host codec sc dir bid expected remote =
     (case and_then (prepare_push codec dir bid expected) (\<lambda>q.
             and_then (acquire_remote_state_lock host remote) (\<lambda>locked. Inr (q, locked))) of
        Inl e \<Rightarrow> (remote, Inl e)
      | Inr (q, locked) \<Rightarrow>
          (case push_under_lock host codec sc q locked of
             Inl e \<Rightarrow> (release_remote_state_lock host locked, Inl e)
           | Inr (remote', st, report) \<Rightarrow>
               (case write_remote_state host sc st remote' of
                  Inl e \<Rightarrow> (release_remote_state_lock host remote', Inl e)
                | Inr remote'' \<Rightarrow> (release_remote_state_lock host remote'', Inr report))))"

subsection \<open>Pull\<close>

datatype pull_target = PullMissing | PullNotDirectory | PullDirectory bool

definition prepare_empty_output_dir :: "pull_target \<Rightarrow> unit result" where
  "prepare_empty_output_dir out =
     (case out of
        PullNotDirectory \<Rightarrow> Inl (invalid_sync ''output path is not a directory'')
      | PullDirectory True \<Rightarrow> Inl (invalid_sync ''output directory is not empty'')
      | _ \<Rightarrow> Inr ())"

definition pull_session_bundle_directory ::
  "bundle_codec \<Rightarrow> sync_codec \<Rightarrow> session_id \<Rightarrow> pull_target \<Rightarrow> branch_id option \<Rightarrow> remote_session
     \<Rightarrow> (bundle_dir \<times> pull_report) result" where
  "pull_session_bundle_directory codec sc sid out bid remote =
     and_then (read_existing_remote_state sc sid remote) (\<lambda>st.
     and_then (select_pull_head st bid) (\<lambda>head.
     and_then (ok_or (invalid_sync (''remote bundle '' @ hash_text (rh_bundle_hash head) @ '' is missing''))
       (map_of (rx_bundles remote) (bundle_name (rh_bundle_hash head)))) (\<lambda>source.
     and_then (prepare_empty_output_dir out) (\<lambda>_.
     and_then (copy_dir_contents source) (\<lambda>output.
     and_then (validate_session_bundle_directory codec output) (\<lambda>_.
     Inr (output, \<lparr>pp_session_id = sid, pp_branch_id = rh_branch_id head,
                   pp_head_event_hash = rh_head_event_hash head, pp_bundle_hash = rh_bundle_hash head\<rparr>)))))))"

end
