(* ===== verification/Bt_SyncProps.thy ===== *)
theory Bt_SyncProps
  imports Bt_Sync
begin

section \<open>What the registry guarantees\<close>

text \<open>
  A bundle hash identifies the evidence of a bundle; the registry keeps, at every moment of any
  interleaving of pushes, a complete and valid bundle behind every head it names, and the log of a
  branch only grows.

  SHA-256 without collisions is the hypothesis that \<open>bundle_hash_bytes\<close> is injective on the bytes of
  the files that are ever pushed.
\<close>

definition file_bytes :: "bundle_dir \<Rightarrow> string set" where
  "file_bytes dir = {b. \<exists>p. (p, FsFile b) \<in> set dir}"

lemma fs_read_bytes: "fs_read dir p = Inr b \<Longrightarrow> b \<in> file_bytes dir"
  by (auto simp: fs_read_def file_bytes_def dest: map_of_SomeD split: if_splits option.splits fs_entry.splits)

lemma well_formed_files:
  assumes "well_formed_bundle codec d v"
  shows "fs_read d SESSION_BT_CHECKSUMS = Inr (bv_checksums_bytes v)"
    and "bc_parse_checksums codec (bv_checksums_bytes v) = Inr (bv_checksums v)"
    and "sm_bundle_hash (bv_manifest v) = bundle_hash_bytes codec (bv_checksums_bytes v)"
    and "payload_files d = ck_path ` set (cs_files (bv_checksums v))"
  using assms by (simp_all add: well_formed_bundle_def bundle_read_def files_well_formed_def inventory_closed_Inr)

lemma well_formed_entry:
  assumes "well_formed_bundle codec d v" "e \<in> set (cs_files (bv_checksums v))"
  obtains bytes where "fs_read d (ck_path e) = Inr bytes" "bundle_hash_bytes codec bytes = ck_hash e"
proof -
  have "verify_file_checksum codec d e = Inr ()"
    using assms by (simp add: well_formed_bundle_def files_well_formed_def)
  then show ?thesis
    using that by (auto simp: verify_file_checksum_Inr)
qed

lemma same_hash_same_files:
  assumes w: "well_formed_bundle codec d1 v1" "well_formed_bundle codec d2 v2"
    and hash: "sm_bundle_hash (bv_manifest v1) = sm_bundle_hash (bv_manifest v2)"
    and inj: "inj_on (bundle_hash_bytes codec) (file_bytes d1 \<union> file_bytes d2)"
  shows "payload_files d1 = payload_files d2" "p \<in> payload_files d1 \<Longrightarrow> fs_read d1 p = fs_read d2 p"
proof -
  note f1 = well_formed_files [OF w(1)] and f2 = well_formed_files [OF w(2)]
  have "bv_checksums_bytes v1 = bv_checksums_bytes v2"
    using f1(3) f2(3) hash fs_read_bytes [OF f1(1)] fs_read_bytes [OF f2(1)]
    by (intro inj_onD [OF inj]) simp_all
  then have c: "bv_checksums v1 = bv_checksums v2"
    using f1(2) f2(2) by simp
  then show "payload_files d1 = payload_files d2"
    using f1(4) f2(4) by simp
  assume "p \<in> payload_files d1"
  then obtain e where e: "p = ck_path e" "e \<in> set (cs_files (bv_checksums v1))"
    unfolding f1(4) by (rule imageE)
  from e(2) have e2: "e \<in> set (cs_files (bv_checksums v2))" unfolding c .
  from well_formed_entry [OF w(1) e(2)]
  obtain b1 where b1: "fs_read d1 p = Inr b1" "bundle_hash_bytes codec b1 = ck_hash e"
    unfolding e(1) .
  from well_formed_entry [OF w(2) e2]
  obtain b2 where b2: "fs_read d2 p = Inr b2" "bundle_hash_bytes codec b2 = ck_hash e"
    unfolding e(1) .
  have "b1 = b2"
    using b1(2) b2(2) fs_read_bytes [OF b1(1)] fs_read_bytes [OF b2(1)]
    by (intro inj_onD [OF inj]) simp_all
  with b1(1) b2(1) show "fs_read d1 p = fs_read d2 p" by simp
qed

lemma evidence_listed:
  assumes "well_formed_bundle codec d v"
  shows "SESSION_BT_EVENTS \<in> payload_files d" "SESSION_BT_RAW_CHUNK_REFS \<in> payload_files d"
  using assms by (simp_all add: well_formed_bundle_def files_well_formed_def inventory_closed_Inr)

lemma bundle_name_inj:
  "bundle_name (bundle_hash_bytes codec a) = bundle_name (bundle_hash_bytes codec b) \<Longrightarrow>
   bundle_hash_bytes codec a = bundle_hash_bytes codec b"
  by (simp add: bundle_name_def bundle_hash_bytes_def sha256_hex_hash_bytes hash_bytes_text portable_hash.expand)

text \<open>A directory that validates with a bundle hash.\<close>

definition valid_bundle :: "bundle_codec \<Rightarrow> bundle_dir \<Rightarrow> portable_hash \<Rightarrow> bool" where
  "valid_bundle codec d h \<longleftrightarrow> (\<exists>r. validate_session_bundle_directory codec d = Inr r \<and> vr_bundle_hash r = h)"

lemma valid_bundle_view:
  assumes "valid_bundle codec d h"
  obtains v where "well_formed_bundle codec d v" "sm_bundle_hash (bv_manifest v) = h"
    "h = bundle_hash_bytes codec (bv_checksums_bytes v)"
proof -
  from assms obtain r where r: "validate_session_bundle_directory codec d = Inr r" "vr_bundle_hash r = h"
    by (auto simp: valid_bundle_def)
  from validate_well_formed [OF r(1)] obtain v where v: "well_formed_bundle codec d v" "r = view_report v" .
  show ?thesis
    using v r(2) by (intro that [of v])
      (simp_all add: view_report_def well_formed_bundle_def files_well_formed_def)
qed

lemma valid_bundle_name_inj:
  "valid_bundle codec d h \<Longrightarrow> valid_bundle codec d' h' \<Longrightarrow> bundle_name h = bundle_name h' \<Longrightarrow> h = h'"
  by (elim valid_bundle_view) (metis bundle_name_inj)

lemma same_bundle_events:
  assumes "valid_bundle codec d h" "valid_bundle codec d' h"
    and inj: "inj_on (bundle_hash_bytes codec) (file_bytes d \<union> file_bytes d')"
  shows "fs_read d SESSION_BT_EVENTS = fs_read d' SESSION_BT_EVENTS"
proof -
  from valid_bundle_view [OF assms(1)] obtain v where
    v: "well_formed_bundle codec d v" "sm_bundle_hash (bv_manifest v) = h" by metis
  from valid_bundle_view [OF assms(2)] obtain v' where
    v': "well_formed_bundle codec d' v'" "sm_bundle_hash (bv_manifest v') = h" by metis
  show ?thesis
    using same_hash_same_files(2) [OF v(1) v'(1) _ inj evidence_listed(1) [OF v(1)]] v v' by simp
qed

lemma events_readable:
  assumes "valid_bundle codec d h"
  obtains bytes where "fs_read d SESSION_BT_EVENTS = Inr bytes"
proof -
  from valid_bundle_view [OF assms] obtain v where v: "well_formed_bundle codec d v" by metis
  then have "read_event_records codec d = Inr (bv_records v)"
    by (simp add: well_formed_bundle_def bundle_read_def)
  then show ?thesis
    using that by (cases "fs_read d SESSION_BT_EVENTS") (auto simp: read_event_records_def read_jsonl_def)
qed

definition event_hashes_of :: "bundle_codec \<Rightarrow> bundle_dir \<Rightarrow> portable_hash list" where
  "event_hashes_of codec d =
     (case read_event_records codec d of Inr rs \<Rightarrow> map sb_event_hash rs | Inl _ \<Rightarrow> [])"

lemma same_events_same_hashes:
  "fs_read d SESSION_BT_EVENTS = fs_read d' SESSION_BT_EVENTS \<Longrightarrow> event_hashes_of codec d = event_hashes_of codec d'"
  by (simp add: event_hashes_of_def read_event_records_def read_jsonl_def)

subsection \<open>Interleaved pushes\<close>

text \<open>The holder of the lock has decided nothing yet, is about to replace \<open>heads.json\<close>, or is about to
  drop the lock. Any number of clients prepare pushes; any step of a push may fail in the file system,
  as its \<open>host\<close> says, and a holder may crash at any point, which leaves the lock behind. \<open>D\<close> are the
  directories that are ever pushed.\<close>

datatype push_phase = Deciding push_request | Writing remote_state | Releasing

record sync_world =
  w_remote :: remote_session
  w_push :: "push_phase option"

inductive sync_step ::
  "bundle_codec \<Rightarrow> sync_codec \<Rightarrow> session_id \<Rightarrow> bundle_dir set \<Rightarrow> sync_world \<Rightarrow> sync_world \<Rightarrow> bool"
  for codec sc sid D where
  acquire: "\<lbrakk>dir \<in> D; prepare_push codec dir bid expected = Inr q; pq_session_id q = sid;
      acquire_remote_state_lock host (w_remote w) = Inr remote\<rbrakk>
    \<Longrightarrow> sync_step codec sc sid D w \<lparr>w_remote = remote, w_push = Some (Deciding q)\<rparr>"
| decide: "\<lbrakk>w_push w = Some (Deciding q); push_under_lock host codec sc q (w_remote w) = Inr (remote, st, report)\<rbrakk>
    \<Longrightarrow> sync_step codec sc sid D w \<lparr>w_remote = remote, w_push = Some (Writing st)\<rparr>"
| reject: "\<lbrakk>w_push w = Some (Deciding q); push_under_lock host codec sc q (w_remote w) = Inl e\<rbrakk>
    \<Longrightarrow> sync_step codec sc sid D w \<lparr>w_remote = release_remote_state_lock host (w_remote w), w_push = None\<rparr>"
| replace_heads: "\<lbrakk>w_push w = Some (Writing st); write_remote_state host sc st (w_remote w) = Inr remote\<rbrakk>
    \<Longrightarrow> sync_step codec sc sid D w \<lparr>w_remote = remote, w_push = Some Releasing\<rparr>"
| replace_fails: "\<lbrakk>w_push w = Some (Writing st); write_remote_state host sc st (w_remote w) = Inl e\<rbrakk>
    \<Longrightarrow> sync_step codec sc sid D w \<lparr>w_remote = release_remote_state_lock host (w_remote w), w_push = None\<rparr>"
| release: "w_push w = Some Releasing
    \<Longrightarrow> sync_step codec sc sid D w \<lparr>w_remote = release_remote_state_lock host (w_remote w), w_push = None\<rparr>"
| crash: "sync_step codec sc sid D w (w\<lparr>w_push := None\<rparr>)"

definition initial_world :: sync_world where
  "initial_world = \<lparr>w_remote = empty_remote, w_push = None\<rparr>"

definition sync_reaches ::
  "bundle_codec \<Rightarrow> sync_codec \<Rightarrow> session_id \<Rightarrow> bundle_dir set \<Rightarrow> sync_world \<Rightarrow> sync_world \<Rightarrow> bool" where
  "sync_reaches codec sc sid D = (sync_step codec sc sid D)\<^sup>*\<^sup>*"

definition no_collisions :: "bundle_codec \<Rightarrow> bundle_dir set \<Rightarrow> bool" where
  "no_collisions codec D \<longleftrightarrow> inj_on (bundle_hash_bytes codec) (\<Union>d \<in> D. file_bytes d)"

subsection \<open>Heads and logs\<close>

definition head_ok :: "bundle_codec \<Rightarrow> remote_session \<Rightarrow> remote_head \<Rightarrow> bool" where
  "head_ok codec remote h \<longleftrightarrow>
     (\<exists>d. map_of (rx_bundles remote) (bundle_name (rh_bundle_hash h)) = Some d \<and>
        valid_bundle codec d (rh_bundle_hash h) \<and> rh_head_event_hash h \<in> set (event_hashes_of codec d))"

definition state_ok :: "bundle_codec \<Rightarrow> session_id \<Rightarrow> remote_session \<Rightarrow> remote_state \<Rightarrow> bool" where
  "state_ok codec sid remote st \<longleftrightarrow>
     rs_schema_version st = SESSION_BT_SCHEMA_VERSION \<and> rs_session_id st = sid \<and>
     distinct (map rh_branch_id (rs_branch_heads st)) \<and>
     (\<forall>b. rs_default_branch_id st = Some b \<longrightarrow> b \<in> rh_branch_id ` set (rs_branch_heads st)) \<and>
     (rs_default_branch_id st = None \<longrightarrow> rs_branch_heads st = []) \<and>
     (\<forall>h \<in> set (rs_branch_heads st). head_ok codec remote h)"

definition bundles_ok :: "bundle_codec \<Rightarrow> bundle_dir set \<Rightarrow> remote_session \<Rightarrow> bool" where
  "bundles_ok codec D remote \<longleftrightarrow>
     (\<forall>(n, d) \<in> set (rx_bundles remote). d \<in> D \<and> (\<exists>h. n = bundle_name h \<and> valid_bundle codec d h))"

definition request_ok :: "bundle_codec \<Rightarrow> session_id \<Rightarrow> bundle_dir set \<Rightarrow> push_request \<Rightarrow> bool" where
  "request_ok codec sid D q \<longleftrightarrow>
     pq_dir q \<in> D \<and> pq_session_id q = sid \<and> valid_bundle codec (pq_dir q) (pq_bundle_hash q) \<and>
     pq_head q \<in> set (event_hashes_of codec (pq_dir q))"

text \<open>The event log a pull of a branch delivers.\<close>

definition head_log :: "remote_session \<Rightarrow> remote_head \<Rightarrow> string option" where
  "head_log remote h =
     Option.bind (map_of (rx_bundles remote) (bundle_name (rh_bundle_hash h)))
       (\<lambda>d. case fs_read d SESSION_BT_EVENTS of Inl _ \<Rightarrow> None | Inr bytes \<Rightarrow> Some bytes)"

definition state_log :: "remote_session \<Rightarrow> remote_state \<Rightarrow> branch_id \<Rightarrow> string option" where
  "state_log remote st bid = Option.bind (remote_head_of st bid) (head_log remote)"

definition remote_log :: "sync_codec \<Rightarrow> session_id \<Rightarrow> remote_session \<Rightarrow> branch_id \<Rightarrow> string option" where
  "remote_log sc sid remote bid =
     (case read_remote_state sc sid remote of Inl _ \<Rightarrow> None | Inr st \<Rightarrow> state_log remote st bid)"

definition log_grows :: "(branch_id \<Rightarrow> string option) \<Rightarrow> (branch_id \<Rightarrow> string option) \<Rightarrow> bool" where
  "log_grows f g \<longleftrightarrow> (\<forall>b x. f b = Some x \<longrightarrow> (\<exists>y. g b = Some y \<and> prefix x y))"

lemma log_grows_refl: "log_grows f f"
  by (auto simp: log_grows_def)

lemma log_grows_trans: "log_grows f g \<Longrightarrow> log_grows g h \<Longrightarrow> log_grows f h"
  by (fastforce simp: log_grows_def intro: prefix_order.trans)

definition sync_invariant ::
  "bundle_codec \<Rightarrow> sync_codec \<Rightarrow> session_id \<Rightarrow> bundle_dir set \<Rightarrow> sync_world \<Rightarrow> bool" where
  "sync_invariant codec sc sid D w \<longleftrightarrow>
     bundles_ok codec D (w_remote w) \<and>
     (\<exists>st. read_remote_state sc sid (w_remote w) = Inr st \<and> state_ok codec sid (w_remote w) st) \<and>
     (case w_push w of
        None \<Rightarrow> True
      | Some (Deciding q) \<Rightarrow> rx_locked (w_remote w) \<and> request_ok codec sid D q
      | Some (Writing st) \<Rightarrow> rx_locked (w_remote w) \<and> state_ok codec sid (w_remote w) st \<and>
          log_grows (remote_log sc sid (w_remote w)) (state_log (w_remote w) st)
      | Some Releasing \<Rightarrow> rx_locked (w_remote w))"

lemma find_distinct:
  "distinct (map f xs) \<Longrightarrow> List.find (\<lambda>x. f x = k) xs = Some x \<longleftrightarrow> x \<in> set xs \<and> f x = k"
  by (induction xs) (auto simp: image_iff)

lemma find_head_exists: "k \<in> f ` set xs \<Longrightarrow> \<exists>x. List.find (\<lambda>x. f x = k) xs = Some x"
  by (induction xs) auto

lemma set_put_head:
  "distinct (map rh_branch_id xs) \<Longrightarrow>
   set (put_head h xs) = insert h {x \<in> set xs. rh_branch_id x \<noteq> rh_branch_id h}"
  by (induction xs) (auto simp: image_iff)

lemma distinct_put_head:
  "distinct (map rh_branch_id xs) \<Longrightarrow> distinct (map rh_branch_id (put_head h xs))"
  by (induction xs) (auto simp: set_put_head)

definition pushed_head :: "push_request \<Rightarrow> remote_head" where
  "pushed_head q = \<lparr>rh_branch_id = pq_branch_id q, rh_head_event_hash = pq_head q,
     rh_bundle_hash = pq_bundle_hash q\<rparr>"

lemma pushed_head_simps [simp]:
  "rh_branch_id (pushed_head q) = pq_branch_id q" "rh_head_event_hash (pushed_head q) = pq_head q"
  "rh_bundle_hash (pushed_head q) = pq_bundle_hash q"
  by (simp_all add: pushed_head_def)

lemma updated_heads:
  assumes "distinct (map rh_branch_id (rs_branch_heads st))"
  shows "set (rs_branch_heads (updated_state q changed st)) =
      (if changed then insert (pushed_head q) {x \<in> set (rs_branch_heads st). rh_branch_id x \<noteq> pq_branch_id q}
       else set (rs_branch_heads st))"
    and "distinct (map rh_branch_id (rs_branch_heads (updated_state q changed st)))"
proof -
  have sorted: "distinct (map rh_branch_id (sort_key k xs)) = distinct (map rh_branch_id xs)"
    for k :: "remote_head \<Rightarrow> string" and xs
    by (simp add: distinct_map)
  note put = set_put_head [OF assms, of "pushed_head q", simplified]
    distinct_put_head [OF assms, of "pushed_head q"]
  show "set (rs_branch_heads (updated_state q changed st)) =
      (if changed then insert (pushed_head q) {x \<in> set (rs_branch_heads st). rh_branch_id x \<noteq> pq_branch_id q}
       else set (rs_branch_heads st))"
    using put(1) by (simp add: updated_state_def Let_def flip: pushed_head_def)
  show "distinct (map rh_branch_id (rs_branch_heads (updated_state q changed st)))"
    using assms put(2) by (simp add: updated_state_def Let_def sorted flip: pushed_head_def)
qed

lemma updated_state_fields:
  "rs_schema_version (updated_state q changed st) = rs_schema_version st"
  "rs_session_id (updated_state q changed st) = rs_session_id st"
  "rs_default_branch_id (updated_state q changed st) =
     (if rs_default_branch_id st = None \<or> pq_is_default q then Some (pq_branch_id q)
      else rs_default_branch_id st)"
  by (simp_all add: updated_state_def Let_def)

subsection \<open>Copying a bundle\<close>

definition keeps_bundles :: "remote_session \<Rightarrow> remote_session \<Rightarrow> bool" where
  "keeps_bundles remote remote' \<longleftrightarrow>
     (\<forall>n d. map_of (rx_bundles remote) n = Some d \<longrightarrow> map_of (rx_bundles remote') n = Some d)"

lemma copy_bundle_to_remoteD:
  assumes copy: "copy_bundle_to_remote host codec dir h remote = Inr (remote', copied)"
    and ok: "bundles_ok codec D remote" and dir: "dir \<in> D" "valid_bundle codec dir h"
  obtains dest where "map_of (rx_bundles remote') (bundle_name h) = Some dest" "dest \<in> D"
    "valid_bundle codec dest h"
    "keeps_bundles remote remote'" "bundles_ok codec D remote'" "rx_locked remote' = rx_locked remote"
    "rx_heads_json remote' = rx_heads_json remote"
proof (cases "map_of (rx_bundles remote) (bundle_name h)")
  case None
  then have r: "remote' = remote\<lparr>rx_bundles := rx_bundles remote @ [(bundle_name h, dir)]\<rparr>"
    using copy by (auto simp: copy_bundle_to_remote_def copy_dir_contents_def and_then_eq_Inr split: if_splits)
  show ?thesis
    using None ok dir by (intro that [of dir]) (auto simp: r keeps_bundles_def map_add_def bundles_ok_def)
next
  case (Some dest)
  then have r: "remote' = remote"
    using copy by (auto simp: copy_bundle_to_remote_def and_then_eq_Inr)
  from Some have "(bundle_name h, dest) \<in> set (rx_bundles remote)"
    by (rule map_of_SomeD)
  with ok obtain h' where h': "bundle_name h = bundle_name h'" "valid_bundle codec dest h'" "dest \<in> D"
    unfolding bundles_ok_def by fast
  have "h' = h"
    by (rule valid_bundle_name_inj [OF h'(2) dir(2) h'(1) [symmetric]])
  with h' Some ok show ?thesis
    by (intro that [of dest]) (simp_all add: r keeps_bundles_def)
qed

subsection \<open>The decision under the lock\<close>

lemma ensure_extendsD:
  assumes "ensure_pushed_bundle_extends_remote_head dir remote h = Inr u"
  obtains old new where "head_log remote h = Some old" "fs_read dir SESSION_BT_EVENTS = Inr new" "prefix old new"
proof (cases "head_log remote h")
  case None
  with assms show ?thesis
    by (simp add: ensure_pushed_bundle_extends_remote_head_def head_log_def)
next
  case (Some old)
  with assms obtain new where "fs_read dir SESSION_BT_EVENTS = Inr new" "prefix old new"
    by (auto simp: ensure_pushed_bundle_extends_remote_head_def head_log_def and_then_eq_Inr)
  with Some show ?thesis by (rule that)
qed

lemma head_ok_mono:
  assumes "keeps_bundles remote remote'"
  shows "head_ok codec remote h \<Longrightarrow> head_ok codec remote' h"
    and "head_log remote h = Some x \<Longrightarrow> head_log remote' h = Some x"
  using assms by (auto simp: keeps_bundles_def head_ok_def head_log_def bind_eq_Some_conv)

lemma state_log_find:
  assumes "distinct (map rh_branch_id (rs_branch_heads st))"
  shows "state_log remote st b = Some x \<longleftrightarrow>
    (\<exists>h \<in> set (rs_branch_heads st). rh_branch_id h = b \<and> head_log remote h = Some x)"
  using find_distinct [OF assms, of b] by (auto simp: state_log_def remote_head_of_def bind_eq_Some_conv)

lemma push_under_lockD:
  assumes "push_under_lock host codec sc q remote = Inr (remote', st', report)"
  obtains st changed copied where
    "read_remote_state sc (pq_session_id q) remote = Inr st"
    "st' = updated_state q changed st"
    "changed \<longleftrightarrow> map_option rh_head_event_hash (remote_head_of st (pq_branch_id q)) \<noteq> Some (pq_head q)"
    "enforce_cas (pq_branch_id q) (map_option rh_head_event_hash (remote_head_of st (pq_branch_id q)))
       (pq_expected q) (pq_head q) = Inr ()"
    "\<And>h. changed \<Longrightarrow> remote_head_of st (pq_branch_id q) = Some h \<Longrightarrow>
       ensure_pushed_bundle_extends_remote_head (pq_dir q) remote h = Inr ()"
    "copy_bundle_to_remote host codec (pq_dir q) (pq_bundle_hash q) remote = Inr (remote', copied)"
    "report = \<lparr>pu_session_id = pq_session_id q, pu_branch_id = pq_branch_id q,
       pu_previous_head = map_option rh_head_event_hash (remote_head_of st (pq_branch_id q)),
       pu_new_head = pq_head q, pu_bundle_hash = pq_bundle_hash q, pu_copied_bundle = copied,
       pu_changed_remote_head = changed\<rparr>"
proof -
  from assms obtain st where st: "read_remote_state sc (pq_session_id q) remote = Inr st"
    by (auto simp: push_under_lock_def and_then_eq_Inr)
  let ?existing = "remote_head_of st (pq_branch_id q)"
  let ?changed = "map_option rh_head_event_hash ?existing \<noteq> Some (pq_head q)"
  from assms st obtain copied where
    "enforce_cas (pq_branch_id q) (map_option rh_head_event_hash ?existing) (pq_expected q) (pq_head q) = Inr ()"
    and ext: "(case ?existing of
        Some h \<Rightarrow> if ?changed then ensure_pushed_bundle_extends_remote_head (pq_dir q) remote h else Inr ()
      | None \<Rightarrow> Inr ()) = Inr ()"
    and "copy_bundle_to_remote host codec (pq_dir q) (pq_bundle_hash q) remote = Inr (remote', copied)"
    and "st' = updated_state q ?changed st"
    and "report = \<lparr>pu_session_id = pq_session_id q, pu_branch_id = pq_branch_id q,
       pu_previous_head = map_option rh_head_event_hash ?existing,
       pu_new_head = pq_head q, pu_bundle_hash = pq_bundle_hash q, pu_copied_bundle = copied,
       pu_changed_remote_head = ?changed\<rparr>"
    by (auto simp: push_under_lock_def Let_def and_then_eq_Inr simp del: not_None_eq)
  moreover have "ensure_pushed_bundle_extends_remote_head (pq_dir q) remote h = Inr ()"
    if "?changed" "?existing = Some h" for h
    using ext that by simp
  ultimately show ?thesis
    by (intro that [OF st, of ?changed copied]) (rule refl | assumption | blast)+
qed

lemma push_keeps_invariant:
  assumes push: "push_under_lock host codec sc q remote = Inr (remote', st', report)"
    and q: "request_ok codec sid D q" and ok: "bundles_ok codec D remote" and nc: "no_collisions codec D"
    and st: "read_remote_state sc sid remote = Inr st" "state_ok codec sid remote st"
  shows "bundles_ok codec D remote'" "rx_heads_json remote' = rx_heads_json remote"
    "rx_locked remote' = rx_locked remote" "state_ok codec sid remote' st'"
    "log_grows (state_log remote st) (state_log remote' st')"
    "keeps_bundles remote remote'"
proof -
  have q': "pq_dir q \<in> D" "pq_session_id q = sid" "valid_bundle codec (pq_dir q) (pq_bundle_hash q)"
      "pq_head q \<in> set (event_hashes_of codec (pq_dir q))"
    using q by (simp_all add: request_ok_def)
  from push_under_lockD [OF push] obtain changed copied where
    st': "st' = updated_state q changed st"
    and changed: "changed \<longleftrightarrow> map_option rh_head_event_hash (remote_head_of st (pq_branch_id q)) \<noteq> Some (pq_head q)"
    and ext: "\<And>h. changed \<Longrightarrow> remote_head_of st (pq_branch_id q) = Some h \<Longrightarrow>
       ensure_pushed_bundle_extends_remote_head (pq_dir q) remote h = Inr ()"
    and copy: "copy_bundle_to_remote host codec (pq_dir q) (pq_bundle_hash q) remote = Inr (remote', copied)"
    using st(1) q'(2) by (metis sum.inject(2))
  from copy_bundle_to_remoteD [OF copy ok q'(1,3)] obtain dest where
    dest: "map_of (rx_bundles remote') (bundle_name (pq_bundle_hash q)) = Some dest" "dest \<in> D"
      "valid_bundle codec dest (pq_bundle_hash q)"
    and keep: "keeps_bundles remote remote'"
    and out: "bundles_ok codec D remote'" "rx_locked remote' = rx_locked remote"
      "rx_heads_json remote' = rx_heads_json remote" .
  show "bundles_ok codec D remote'" "rx_heads_json remote' = rx_heads_json remote"
    "rx_locked remote' = rx_locked remote" by (fact out)+
  show "keeps_bundles remote remote'" by (fact keep)
  note mono = head_ok_mono [OF keep]
  have inj: "inj_on (bundle_hash_bytes codec) (file_bytes dest \<union> file_bytes (pq_dir q))"
    using nc unfolding no_collisions_def by (rule inj_on_subset) (use dest(2) q'(1) in blast)
  have same: "fs_read dest SESSION_BT_EVENTS = fs_read (pq_dir q) SESSION_BT_EVENTS"
    by (rule same_bundle_events [OF dest(3) q'(3) inj])
  have new_ok: "head_ok codec remote' (pushed_head q)"
    using dest q'(4) same_events_same_hashes [OF same] by (simp add: head_ok_def)
  have d: "distinct (map rh_branch_id (rs_branch_heads st))"
    and heads: "\<And>h. h \<in> set (rs_branch_heads st) \<Longrightarrow> head_ok codec remote h"
    using st(2) by (simp_all add: state_ok_def)
  note upd = updated_heads [OF d, of q changed, folded st']
  show "log_grows (state_log remote st) (state_log remote' st')"
    unfolding log_grows_def
  proof (intro allI impI)
    fix b x
    assume "state_log remote st b = Some x"
    then obtain h where h: "h \<in> set (rs_branch_heads st)" "rh_branch_id h = b" "head_log remote h = Some x"
      by (auto simp: state_log_find [OF d])
    show "\<exists>y. state_log remote' st' b = Some y \<and> prefix x y"
    proof (cases "changed \<and> b = pq_branch_id q")
      case False
      with h upd mono(2) [OF h(3)] show ?thesis
        by (intro exI [of _ x]) (auto simp: state_log_find)
    next
      case True
      then have "remote_head_of st (pq_branch_id q) = Some h"
        using h by (simp add: remote_head_of_def find_distinct [OF d])
      from ensure_extendsD [OF ext [OF _ this]] True h(3) obtain new where
        new: "fs_read (pq_dir q) SESSION_BT_EVENTS = Inr new" "prefix x new" by auto
      have "head_log remote' (pushed_head q) = Some new"
        using dest(1) same new(1) by (simp add: head_log_def)
      with True upd new(2) show ?thesis
        by (intro exI [of _ new]) (auto simp: state_log_find)
    qed
  qed
  show "state_ok codec sid remote' st'"
    unfolding state_ok_def
  proof (intro conjI allI impI ballI)
    show "rs_schema_version st' = SESSION_BT_SCHEMA_VERSION" "rs_session_id st' = sid"
      using st(2) by (simp_all add: st' updated_state_fields state_ok_def)
    show "distinct (map rh_branch_id (rs_branch_heads st'))" by (fact upd(2))
    show "rs_branch_heads st' = []" if "rs_default_branch_id st' = None"
      using that by (simp add: st' updated_state_fields split: if_splits)
    show "head_ok codec remote' h" if "h \<in> set (rs_branch_heads st')" for h
      using that upd(1) new_ok mono(1) [OF heads] by (auto split: if_splits)
    show "b \<in> rh_branch_id ` set (rs_branch_heads st')" if "rs_default_branch_id st' = Some b" for b
    proof -
      have old: "rh_branch_id ` set (rs_branch_heads st) \<subseteq> rh_branch_id ` set (rs_branch_heads st')"
        using upd(1) by force
      have pushed: "pq_branch_id q \<in> rh_branch_id ` set (rs_branch_heads st')"
      proof (cases changed)
        case True
        then show ?thesis using upd(1) by force
      next
        case False
        then obtain h where "remote_head_of st (pq_branch_id q) = Some h"
          using changed by (cases "remote_head_of st (pq_branch_id q)") auto
        then show ?thesis
          using old by (force simp: remote_head_of_def find_distinct [OF d])
      qed
      show ?thesis
        using that st(2) old pushed by (auto simp: st' updated_state_fields state_ok_def split: if_splits)
    qed
  qed
qed

subsection \<open>Every reachable registry is consistent\<close>

lemma branch_head_recorded:
  assumes w: "well_formed_bundle codec dir w" and b: "b \<in> set (sm_branches (bv_manifest w))" "bm_head b = Some head"
  shows "nr_event_hash head \<in> set (map sb_event_hash (bv_records w))"
proof -
  have "head_matches (bv_manifest w) (view_infos codec w) (bm_branch_id b) head"
    using w b by (auto simp: well_formed_bundle_def branches_ok_def branch_head_ok_def)
  then obtain info where info: "info \<in> set (view_infos codec w)" "ei_event_hash info = nr_event_hash head"
    by (auto simp: head_matches_def dest: last_entry_Some)
  then obtain r where r: "r \<in> set (bv_records w)" "canonical_event_hash codec (sb_event r) = nr_event_hash head"
    by (auto simp: view_infos_def record_info_def)
  moreover have "canonical_event_hash codec (sb_event r) = sb_event_hash r"
    using w r(1) by (simp add: well_formed_bundle_def records_well_formed_def record_ok_def)
  ultimately show ?thesis by force
qed

lemma select_push_branch_member:
  "select_push_branch manifest bid = Inr b \<Longrightarrow> b \<in> set (sm_branches manifest)"
  by (auto simp: select_push_branch_def dest: find_SomeD split: option.splits list.splits)

lemma prepare_push_request_ok:
  assumes "prepare_push codec dir bid expected = Inr q" "dir \<in> D" "pq_session_id q = sid"
  shows "request_ok codec sid D q"
proof -
  from assms(1) obtain validation manifest b head where
    v: "validate_session_bundle_directory codec dir = Inr validation"
    and m: "read_manifest codec dir = Inr manifest" "select_push_branch manifest bid = Inr b"
    and head: "bm_head b = Some head"
    and q: "q = \<lparr>pq_dir = dir, pq_session_id = sr_session_id (sm_session manifest), pq_branch_id = bm_branch_id b,
          pq_is_default = bm_is_default b, pq_head = nr_event_hash head,
          pq_bundle_hash = vr_bundle_hash validation, pq_expected = expected\<rparr>"
    by (auto simp: prepare_push_def and_then_eq_Inr)
  from validate_well_formed [OF v] obtain w where w: "well_formed_bundle codec dir w" .
  then have r: "read_manifest codec dir = Inr (bv_manifest w)" "read_event_records codec dir = Inr (bv_records w)"
    by (simp_all add: well_formed_bundle_def bundle_read_def)
  have "nr_event_hash head \<in> set (map sb_event_hash (bv_records w))"
    using branch_head_recorded [OF w _ head] select_push_branch_member [OF m(2)] m(1) r(1) by simp
  moreover have "valid_bundle codec dir (vr_bundle_hash validation)"
    using v by (auto simp: valid_bundle_def)
  ultimately show ?thesis
    using assms(2,3) r(2) by (simp add: q request_ok_def event_hashes_of_def)
qed

lemma state_ok_same_bundles:
  "rx_bundles remote' = rx_bundles remote \<Longrightarrow> state_ok codec sid remote' st = state_ok codec sid remote st"
  by (simp add: state_ok_def head_ok_def)

lemma state_log_same_bundles:
  "rx_bundles remote' = rx_bundles remote \<Longrightarrow> state_log remote' st = state_log remote st"
  by (intro ext) (simp add: state_log_def head_log_def [abs_def])

lemma bundles_ok_same:
  "rx_bundles remote' = rx_bundles remote \<Longrightarrow> bundles_ok codec D remote' = bundles_ok codec D remote"
  by (simp add: bundles_ok_def)

lemma read_remote_state_same:
  "rx_heads_json remote' = rx_heads_json remote \<Longrightarrow> read_remote_state sc sid remote' = read_remote_state sc sid remote"
  by (simp add: read_remote_state_def read_existing_remote_state_def split: option.splits)

lemma lock_simps [simp]:
  "rx_bundles (release_remote_state_lock host remote) = rx_bundles remote"
  "rx_heads_json (release_remote_state_lock host remote) = rx_heads_json remote"
  by (simp_all add: release_remote_state_lock_def)

lemma host_step_Inr [simp]: "host_step f = Inr u \<longleftrightarrow> f = None"
  by (auto simp: host_step_def split: option.split)

lemma write_simps:
  assumes "write_remote_state host sc st remote = Inr remote'"
  shows "rx_bundles remote' = rx_bundles remote" "rx_locked remote' = rx_locked remote"
    "rx_heads_json remote' = Some (sc_state_text sc st)"
  using assms by (auto simp: write_remote_state_def and_then_eq_Inr)

lemma acquire_simps:
  assumes "acquire_remote_state_lock host remote = Inr remote'"
  shows "rx_bundles remote' = rx_bundles remote" "rx_heads_json remote' = rx_heads_json remote" "rx_locked remote'"
    "\<not> rx_locked remote" "remote' = remote\<lparr>rx_locked := True\<rparr>"
  using assms by (auto simp: acquire_remote_state_lock_def and_then_eq_Inr split: option.splits if_splits)

lemma read_written_state:
  assumes "sc_parse_state sc (sc_state_text sc st) = Inr st" "state_ok codec sid remote st"
    and "rx_heads_json remote' = Some (sc_state_text sc st)"
  shows "read_remote_state sc sid remote' = Inr st" "read_existing_remote_state sc sid remote' = Inr st"
  using assms by (simp_all add: read_remote_state_def read_existing_remote_state_def
    state_ok_def serde_json_error_def ok_or_def)

lemma head_ok_log: "head_ok codec remote h \<Longrightarrow> \<exists>x. head_log remote h = Some x"
  by (auto simp: head_ok_def head_log_def elim: events_readable)

lemma state_log_keeps:
  assumes "state_ok codec sid remote st" "keeps_bundles remote remote'"
  shows "state_log remote' st = state_log remote st"
proof
  fix b
  show "state_log remote' st b = state_log remote st b"
  proof (cases "remote_head_of st b")
    case (Some h)
    then have "head_ok codec remote h"
      using assms(1) by (auto simp: state_ok_def remote_head_of_def dest: find_SomeD)
    then obtain x where "head_log remote h = Some x"
      using head_ok_log by blast
    with Some head_ok_mono(2) [OF assms(2) this] show ?thesis
      by (simp add: state_log_def)
  qed (simp add: state_log_def)
qed

lemma state_ok_keeps:
  "state_ok codec sid remote st \<Longrightarrow> keeps_bundles remote remote' \<Longrightarrow> state_ok codec sid remote' st"
  by (auto simp: state_ok_def intro: head_ok_mono)

definition texts_parse :: "sync_codec \<Rightarrow> bool" where
  "texts_parse sc \<longleftrightarrow> (\<forall>st. sc_parse_state sc (sc_state_text sc st) = Inr st)"

lemma remote_log_state: "read_remote_state sc sid remote = Inr st \<Longrightarrow> remote_log sc sid remote = state_log remote st"
  by (rule ext) (simp add: remote_log_def)

lemma sync_step_keeps:
  assumes "sync_step codec sc sid D w w'" "sync_invariant codec sc sid D w"
    and nc: "no_collisions codec D" and tp: "texts_parse sc"
  shows "sync_invariant codec sc sid D w' \<and>
    log_grows (remote_log sc sid (w_remote w)) (remote_log sc sid (w_remote w'))"
proof -
  from assms(2) obtain st where ok: "bundles_ok codec D (w_remote w)"
    and st: "read_remote_state sc sid (w_remote w) = Inr st" "state_ok codec sid (w_remote w) st"
    by (auto simp: sync_invariant_def)
  have same: "sync_invariant codec sc sid D (w'\<lparr>w_push := None\<rparr>) \<and>
      log_grows (remote_log sc sid (w_remote w)) (remote_log sc sid (w_remote w'))"
    if "rx_bundles (w_remote w') = rx_bundles (w_remote w)" "rx_heads_json (w_remote w') = rx_heads_json (w_remote w)" for w'
    using ok st
    by (simp add: sync_invariant_def bundles_ok_same [OF that(1)] read_remote_state_same [OF that(2)]
        state_ok_same_bundles [OF that(1)] state_log_same_bundles [OF that(1)] remote_log_state log_grows_refl)
  show ?thesis
    using assms(1)
  proof cases
    case (acquire dir bid expected q host remote)
    note r = acquire_simps [OF acquire(5)]
    with same [of w'] prepare_push_request_ok [OF acquire(3,2,4)] acquire(1) show ?thesis
      by (simp add: sync_invariant_def)
  next
    case (decide q host remote st' report)
    have q: "request_ok codec sid D q" and locked: "rx_locked (w_remote w)"
      using assms(2) decide(2) by (simp_all add: sync_invariant_def)
    note keep = push_keeps_invariant [OF decide(3) q ok nc st]
    have "read_remote_state sc sid remote = Inr st"
      using st(1) read_remote_state_same [OF keep(2)] by simp
    with keep locked state_ok_keeps [OF st(2) keep(6)] state_log_keeps [OF st(2) keep(6)] show ?thesis
      by (simp add: decide(1) sync_invariant_def remote_log_state [OF st(1)] remote_log_state log_grows_refl)
  next
    case (reject q host e)
    then show ?thesis using same [of w'] by simp
  next
    case (replace_heads st' host remote)
    then have st': "state_ok codec sid (w_remote w) st'" "rx_locked (w_remote w)"
        "log_grows (remote_log sc sid (w_remote w)) (state_log (w_remote w) st')"
      using assms(2) by (simp_all add: sync_invariant_def)
    note wr = write_simps [OF replace_heads(3)]
    have "read_remote_state sc sid remote = Inr st'"
      using tp by (intro read_written_state(1) [OF _ st'(1) wr(3)]) (simp add: texts_parse_def)
    moreover have "state_log remote st' = state_log (w_remote w) st'"
      by (rule state_log_same_bundles) (rule wr(1))
    moreover have "bundles_ok codec D remote" "state_ok codec sid remote st'"
      using ok st'(1) by (simp_all add: bundles_ok_same [OF wr(1)] state_ok_same_bundles [OF wr(1)])
    ultimately show ?thesis
      using st'(2,3) by (simp add: replace_heads(1) sync_invariant_def remote_log_state wr(2))
  next
    case replace_fails
    then show ?thesis using same [of w'] by simp
  next
    case release
    then show ?thesis using same [of w'] by simp
  next
    case crash
    then show ?thesis using same [of w] by simp
  qed
qed

lemma initial_world_invariant: "sync_invariant codec sc sid D initial_world"
  by (simp add: sync_invariant_def initial_world_def empty_remote_def bundles_ok_def read_remote_state_def
      state_ok_def)

lemma sync_reaches_keeps:
  assumes "sync_reaches codec sc sid D w w'" "sync_invariant codec sc sid D w"
    and "no_collisions codec D" "texts_parse sc"
  shows "sync_invariant codec sc sid D w' \<and>
    log_grows (remote_log sc sid (w_remote w)) (remote_log sc sid (w_remote w'))"
  using assms(1) unfolding sync_reaches_def
proof (induction rule: rtranclp_induct)
  case base
  with assms(2) show ?case by (simp add: log_grows_refl)
next
  case (step v v')
  with sync_step_keeps [OF step(2)] assms(3,4) show ?case
    by (auto intro: log_grows_trans)
qed

subsection \<open>A push is a run of steps\<close>

lemma reaches_step: "sync_step codec sc sid D w w' \<Longrightarrow> sync_reaches codec sc sid D w' w'' \<Longrightarrow> sync_reaches codec sc sid D w w''"
  unfolding sync_reaches_def by (rule converse_rtranclp_into_rtranclp)

lemma reaches_refl: "sync_reaches codec sc sid D w w"
  by (simp add: sync_reaches_def)

lemma push_reaches:
  assumes push: "push_session_bundle_directory host codec sc dir bid expected remote = (remote', result)"
    and dir: "dir \<in> D" and sid: "\<And>q. prepare_push codec dir bid expected = Inr q \<Longrightarrow> pq_session_id q = sid"
  shows "sync_reaches codec sc sid D \<lparr>w_remote = remote, w_push = None\<rparr> \<lparr>w_remote = remote', w_push = None\<rparr>"
proof (cases "and_then (prepare_push codec dir bid expected) (\<lambda>q.
    and_then (acquire_remote_state_lock host remote) (\<lambda>locked. Inr (q, locked)))")
  case (Inl e)
  with push have "remote' = remote"
    by (simp add: push_session_bundle_directory_def)
  then show ?thesis
    by (simp add: reaches_refl)
next
  case (Inr ql)
  then obtain q locked where q: "prepare_push codec dir bid expected = Inr q"
      "acquire_remote_state_lock host remote = Inr locked" and ql: "ql = (q, locked)"
    by (auto simp: and_then_eq_Inr)
  have acq: "sync_step codec sc sid D \<lparr>w_remote = remote, w_push = None\<rparr>
      \<lparr>w_remote = locked, w_push = Some (Deciding q)\<rparr>"
    by (rule acquire [OF dir q(1) sid [OF q(1)], where host = host]) (simp add: q)
  show ?thesis
  proof (cases "push_under_lock host codec sc q locked")
    case (Inl e)
    with push Inr have r: "remote' = release_remote_state_lock host locked"
      by (simp add: push_session_bundle_directory_def ql)
    have "sync_step codec sc sid D \<lparr>w_remote = locked, w_push = Some (Deciding q)\<rparr>
        \<lparr>w_remote = remote', w_push = None\<rparr>"
      using reject [of "\<lparr>w_remote = locked, w_push = Some (Deciding q)\<rparr>" q host codec sc e] Inl by (simp add: r)
    then show ?thesis
      by (intro reaches_step [OF acq] reaches_step [OF _ reaches_refl])
  next
    case (Inr res)
    obtain remote1 st report where res: "res = (remote1, st, report)"
      by (cases res) auto
    let ?w1 = "\<lparr>w_remote = remote1, w_push = Some (Writing st)\<rparr>"
    have dec: "sync_step codec sc sid D \<lparr>w_remote = locked, w_push = Some (Deciding q)\<rparr> ?w1"
      using Inr by (intro decide [where report = report and host = host]) (simp_all add: res)
    show ?thesis
    proof (cases "write_remote_state host sc st remote1")
      case (Inl e)
      with push \<open>and_then _ _ = Inr ql\<close> \<open>push_under_lock _ _ _ _ _ = _\<close>
      have r: "remote' = release_remote_state_lock host remote1"
        by (simp add: push_session_bundle_directory_def ql res)
      have "sync_step codec sc sid D ?w1 \<lparr>w_remote = remote', w_push = None\<rparr>"
        using replace_fails [of ?w1 st host sc e] Inl by (simp add: r)
      then show ?thesis
        by (intro reaches_step [OF acq] reaches_step [OF dec] reaches_step [OF _ reaches_refl])
    next
      case wrote: (Inr remote2)
      with push \<open>and_then _ _ = Inr ql\<close> Inr
      have r: "remote' = release_remote_state_lock host remote2"
        by (simp add: push_session_bundle_directory_def ql res)
      let ?w2 = "\<lparr>w_remote = remote2, w_push = Some Releasing\<rparr>"
      have "sync_step codec sc sid D ?w1 ?w2"
        using replace_heads [of ?w1 st host sc remote2] wrote by simp
      moreover have "sync_step codec sc sid D ?w2 \<lparr>w_remote = remote', w_push = None\<rparr>"
        using release [of ?w2] by (simp add: r)
      ultimately show ?thesis
        by (intro reaches_step [OF acq] reaches_step [OF dec] reaches_step [OF _ reaches_step [OF _ reaches_refl]])
    qed
  qed
qed

lemma reaches_trans: "sync_reaches codec sc sid D w w' \<Longrightarrow> sync_reaches codec sc sid D w' w'' \<Longrightarrow> sync_reaches codec sc sid D w w''"
  by (simp add: sync_reaches_def)

subsection \<open>Pulling from a consistent registry\<close>

lemma valid_bundle_copies:
  assumes "valid_bundle codec d h"
  shows "copy_dir_contents d = Inr d"
proof -
  from valid_bundle_view [OF assms] obtain v where v: "well_formed_bundle codec d v" by metis
  then have "\<forall>x \<in> set d. snd x \<noteq> FsOther"
    by (auto simp: well_formed_bundle_def files_well_formed_def inventory_closed_Inr)
  then show ?thesis
    by (auto simp: copy_dir_contents_def)
qed

lemma pull_named_head:
  assumes "read_existing_remote_state sc sid remote = Inr st" "select_pull_head st bid = Inr h" "head_ok codec remote h"
  obtains d where "map_of (rx_bundles remote) (bundle_name (rh_bundle_hash h)) = Some d"
    "valid_bundle codec d (rh_bundle_hash h)" "rh_head_event_hash h \<in> set (event_hashes_of codec d)"
    "pull_session_bundle_directory codec sc sid PullMissing bid remote = Inr (d,
       \<lparr>pp_session_id = sid, pp_branch_id = rh_branch_id h, pp_head_event_hash = rh_head_event_hash h,
        pp_bundle_hash = rh_bundle_hash h\<rparr>)"
proof -
  from assms(3) obtain d where d: "map_of (rx_bundles remote) (bundle_name (rh_bundle_hash h)) = Some d"
    "valid_bundle codec d (rh_bundle_hash h)" "rh_head_event_hash h \<in> set (event_hashes_of codec d)"
    by (auto simp: head_ok_def)
  then obtain r where "validate_session_bundle_directory codec d = Inr r"
    by (auto simp: valid_bundle_def)
  with d valid_bundle_copies [OF d(2)] assms(1,2) show ?thesis
    by (intro that [OF d]) (simp add: pull_session_bundle_directory_def prepare_empty_output_dir_def)
qed

end
