(* ===== verification/Bt_Export.thy ===== *)
theory Bt_Export
  imports Bt_BundleSpec Bt_Chunks
begin

section \<open>Exporting a session\<close>

text \<open>
  \<open>export_session_bundle_directory\<close> of \<open>bt-session/src/export.rs\<close> with everything it builds: event
  records, raw chunk references, artifacts, branch manifests, event ranges, checksums and the
  manifest. Writes to the output directory succeed. What the export asks of the host is the argument
  \<open>host\<close>: canonical paths and the file behind one.
\<close>

record exported_raw_chunk =
  xr_chunk_ordinal :: nat
  xr_session_id :: session_id
  xr_branch_id :: "branch_id option"
  xr_turn_id :: "turn_id option"
  xr_llm_call_ordinal :: "u32 option"
  xr_provider :: string
  xr_stream_name :: string
  xr_content :: content_ref
  xr_bytes :: string

datatype artifact_source = ArtifactFile string | ArtifactBytes string string "string option"

record artifact_input =
  ai_artifact_id :: "string option"
  ai_kind :: string
  ai_source :: artifact_source

record export_options =
  eo_artifact_mode :: artifact_mode
  eo_artifacts :: "artifact_input list"

record exported_artifact =
  ea_artifact_id :: string
  ea_kind :: string
  ea_content :: content_ref

record export_host =
  eh_canonicalize :: "string \<Rightarrow> string + string"
  eh_file :: "string \<Rightarrow> fs_entry option"

definition default_export_options :: export_options where
  "default_export_options = \<lparr>eo_artifact_mode = TraceOnly, eo_artifacts = []\<rparr>"

definition artifact_input_file :: "string \<Rightarrow> string \<Rightarrow> artifact_input" where
  "artifact_input_file path kind = \<lparr>ai_artifact_id = None, ai_kind = kind, ai_source = ArtifactFile path\<rparr>"

definition artifact_input_bytes :: "string \<Rightarrow> string \<Rightarrow> string \<Rightarrow> string option \<Rightarrow> artifact_input" where
  "artifact_input_bytes name bytes kind media =
     \<lparr>ai_artifact_id = None, ai_kind = kind, ai_source = ArtifactBytes name bytes media\<rparr>"

fun fold_results :: "('s \<Rightarrow> 'a \<Rightarrow> 's result) \<Rightarrow> 's \<Rightarrow> 'a list \<Rightarrow> 's result" where
  "fold_results f s [] = Inr s"
| "fold_results f s (x # xs) = and_then (f s x) (\<lambda>s'. fold_results f s' xs)"

subsection \<open>Files\<close>

definition fs_write :: "string \<Rightarrow> string \<Rightarrow> bundle_dir \<Rightarrow> bundle_dir" where
  "fs_write path bytes dir = filter (\<lambda>(p, _). p \<noteq> path) dir @ [(path, FsFile bytes)]"

definition write_bundle_file ::
  "bundle_codec \<Rightarrow> string \<Rightarrow> string \<Rightarrow> bundle_dir \<Rightarrow> (bundle_dir \<times> checksum_entry) result" where
  "write_bundle_file codec path bytes dir =
     and_then (validate_bundle_relative_path path) (\<lambda>_.
     Inr (fs_write path bytes dir,
          \<lparr>ck_path = path, ck_hash = bundle_hash_bytes codec bytes, ck_size_bytes = length bytes\<rparr>))"

text \<open>\<open>jsonl_bytes\<close>\<close>

definition jsonl_bytes :: "('a \<Rightarrow> string) \<Rightarrow> 'a list \<Rightarrow> string" where
  "jsonl_bytes line items = concat (map (\<lambda>i. line i @ [nl]) items)"

datatype output_target = OutMissing | OutNotDirectory | OutDirectory bool

text \<open>The flag of a directory says whether it has an entry.\<close>

definition ensure_empty_output_dir :: "output_target \<Rightarrow> unit result" where
  "ensure_empty_output_dir out =
     (case out of
        OutNotDirectory \<Rightarrow> Inl (InvalidState ''bundle output path is not a directory: '')
      | OutDirectory True \<Rightarrow> Inl (InvalidState ''bundle output directory must be empty: '')
      | _ \<Rightarrow> Inr ())"

subsection \<open>Raw chunks\<close>

definition exported_chunk :: "bundle_codec \<Rightarrow> nat \<Rightarrow> raw_chunk_row \<Rightarrow> exported_raw_chunk" where
  "exported_chunk codec n r =
     (let h = bundle_hash_bytes codec (rc_content r)
      in \<lparr>xr_chunk_ordinal = n, xr_session_id = rc_session_id r, xr_branch_id = Some (rc_branch_id r),
          xr_turn_id = rc_turn_id r, xr_llm_call_ordinal = rc_llm_call_ordinal r,
          xr_provider = rc_provider r, xr_stream_name = rc_stream_name r,
          xr_content = \<lparr>cr_hash = h, cr_media_type = Some ''application/octet-stream'',
            cr_size_bytes = length (rc_content r),
            cr_path = Some (SESSION_BT_RAW_CHUNKS_DIR @ ''/'' @ sha256_hex h @ ''.bin'')\<rparr>,
          xr_bytes = rc_content r\<rparr>)"

definition prepare_raw_chunks ::
  "bundle_codec \<Rightarrow> raw_chunk_row list
     \<Rightarrow> (i64 \<Rightarrow> exported_raw_chunk option) \<times> (i64 \<Rightarrow> portable_hash option)" where
  "prepare_raw_chunks codec rows =
     (let chunks = map_of (rev (map (\<lambda>(n, r). (rc_chunk_id r, exported_chunk codec n r)) (enumerate 0 rows)));
          hashes = map_of (rev (map (\<lambda>r. (rc_chunk_id r, bundle_hash_bytes codec (rc_content r))) rows))
      in (chunks, hashes))"

fun build_event_records_from ::
  "bundle_codec \<Rightarrow> (i64 \<Rightarrow> portable_hash option) \<Rightarrow> nat \<Rightarrow> event_row list
     \<Rightarrow> (bundle_event_record \<times> event_record_info) list result" where
  "build_event_records_from codec hashes n [] = Inr []"
| "build_event_records_from codec hashes n (r # rs) =
     and_then (envelope_from_live (er_event r) hashes) (\<lambda>(q, refs).
     let h = canonical_event_hash codec q;
         record = \<lparr>sb_ordinal = n, sb_event_kind = event_kind (er_event r), sb_event_hash = h, sb_event = q\<rparr>;
         info = \<lparr>ei_ordinal = n, ei_event_id = ev_event_id (er_event r), ei_branch_id = ev_branch_id (er_event r),
           ei_event_hash = h, ei_content_refs = raw_chunk_content_refs (pe_payload q), ei_raw_refs = refs\<rparr>
     in and_then (build_event_records_from codec hashes (n + 1) rs) (\<lambda>rest. Inr ((record, info) # rest)))"

definition build_event_records ::
  "bundle_codec \<Rightarrow> event_row list \<Rightarrow> (i64 \<Rightarrow> portable_hash option)
     \<Rightarrow> (bundle_event_record list \<times> event_record_info list) result" where
  "build_event_records codec stored hashes =
     and_then (build_event_records_from codec hashes 0 stored) (\<lambda>pairs. Inr (map fst pairs, map snd pairs))"

text \<open>The output directory, the checksums and what the loop over the references has collected.\<close>

record export_state =
  xs_dir :: bundle_dir
  xs_checksums :: "checksum_entry list"
  xs_written :: "portable_hash list"
  xs_contents :: "(portable_hash \<times> content_ref) list"
  xs_refs :: "raw_chunk_bundle_ref list"

definition raw_chunk_bundle_ref_of :: "event_id \<Rightarrow> exported_raw_chunk \<Rightarrow> raw_chunk_bundle_ref" where
  "raw_chunk_bundle_ref_of eid x =
     \<lparr>rf_chunk_ordinal = xr_chunk_ordinal x, rf_session_id = xr_session_id x, rf_branch_id = xr_branch_id x,
      rf_turn_id = xr_turn_id x, rf_llm_call_ordinal = xr_llm_call_ordinal x,
      rf_event_id = Some (event_id_text eid), rf_provider = xr_provider x,
      rf_stream_name = xr_stream_name x, rf_content = xr_content x\<rparr>"

definition write_raw_chunk_once ::
  "bundle_codec \<Rightarrow> i64 \<Rightarrow> exported_raw_chunk \<Rightarrow> export_state \<Rightarrow> export_state result" where
  "write_raw_chunk_once codec cid x s =
     (if cr_hash (xr_content x) \<in> set (xs_written s) then Inr s
      else and_then (ok_or (invalid_bundle (''raw chunk '' @ show_i64 cid @ '' is missing a content path''))
             (cr_path (xr_content x))) (\<lambda>path.
           and_then (write_bundle_file codec path (xr_bytes x) (xs_dir s)) (\<lambda>(dir, entry).
           Inr (s\<lparr>xs_dir := dir, xs_checksums := xs_checksums s @ [entry],
                  xs_written := xs_written s @ [cr_hash (xr_content x)]\<rparr>))))"

definition add_raw_chunk_ref ::
  "bundle_codec \<Rightarrow> (i64 \<Rightarrow> exported_raw_chunk option) \<Rightarrow> event_id \<Rightarrow> export_state \<Rightarrow> raw_chunk_event_ref
     \<Rightarrow> export_state result" where
  "add_raw_chunk_ref codec chunks eid s r =
     and_then (ok_or (invalid_bundle (''event '' @ event_id_text eid @ '' references missing raw chunk ''
         @ show_i64 (rw_local_chunk_id r))) (chunks (rw_local_chunk_id r))) (\<lambda>x.
     and_then (guard_err (cr_hash (xr_content x) \<noteq> rw_content_hash r)
       (invalid_bundle (''event '' @ event_id_text eid @ '' raw chunk '' @ show_i64 (rw_local_chunk_id r)
         @ '' hash mismatch: expected '' @ hash_text (rw_content_hash r) @ '', got ''
         @ hash_text (cr_hash (xr_content x))))) (\<lambda>_.
     and_then (write_raw_chunk_once codec (rw_local_chunk_id r) x s) (\<lambda>s'.
     Inr (s'\<lparr>xs_contents := (case map_of (xs_contents s') (cr_hash (xr_content x)) of
               Some _ \<Rightarrow> xs_contents s'
             | None \<Rightarrow> bt_put (cr_hash (xr_content x)) (xr_content x) (xs_contents s')),
             xs_refs := xs_refs s' @ [raw_chunk_bundle_ref_of eid x]\<rparr>))))"

definition build_raw_chunk_refs ::
  "bundle_codec \<Rightarrow> (i64 \<Rightarrow> exported_raw_chunk option) \<Rightarrow> event_record_info list \<Rightarrow> bundle_dir
     \<Rightarrow> export_state result" where
  "build_raw_chunk_refs codec chunks infos dir =
     fold_results (\<lambda>s info. fold_results (add_raw_chunk_ref codec chunks (ei_event_id info)) s (ei_raw_refs info))
       \<lparr>xs_dir = dir, xs_checksums = [], xs_written = [], xs_contents = [], xs_refs = []\<rparr> infos"

subsection \<open>Artifacts\<close>

definition ascii_alphanumeric :: "string \<Rightarrow> bool" where
  "ascii_alphanumeric ch \<longleftrightarrow>
     (case ch of
        [c] \<Rightarrow> (48 \<le> byte_of c \<and> byte_of c \<le> 57) \<or> (65 \<le> byte_of c \<and> byte_of c \<le> 90)
              \<or> (97 \<le> byte_of c \<and> byte_of c \<le> 122)
      | _ \<Rightarrow> False)"

definition sanitize_char :: "string \<Rightarrow> char" where
  "sanitize_char ch =
     (if ascii_alphanumeric ch \<or> ch \<in> {''.'', ''-'', ''_''} then hd ch else CHR ''_'')"

definition trim_dots :: "string \<Rightarrow> string" where
  "trim_dots s = rev (dropWhile (\<lambda>c. c = CHR ''.'') (rev (dropWhile (\<lambda>c. c = CHR ''.'') s)))"

definition sanitize_bundle_filename :: "string \<Rightarrow> string" where
  "sanitize_bundle_filename v =
     (let s = trim_dots (map sanitize_char (utf8_chars v)) in if s = [] then ''artifact'' else s)"

text \<open>\<open>Path::file_name\<close> and \<open>Path::extension\<close>.\<close>

definition path_file_name :: "string \<Rightarrow> string option" where
  "path_file_name p =
     (case rev (path_components p) of [] \<Rightarrow> None | c # _ \<Rightarrow> if c = ''..'' then None else Some c)"

definition path_extension :: "string \<Rightarrow> string option" where
  "path_extension p =
     Option.bind (path_file_name p) (\<lambda>name.
       case dropWhile (\<lambda>c. c \<noteq> CHR ''.'') (rev name) of
         [] \<Rightarrow> None
       | _ # before \<Rightarrow> if before = [] then None else Some (rev (takeWhile (\<lambda>c. c \<noteq> CHR ''.'') (rev name))))"

definition infer_media_type :: "string \<Rightarrow> string option" where
  "infer_media_type name =
     map_option (\<lambda>ext.
       let e = to_ascii_lowercase ext in
       if e = ''json'' then ''application/json''
       else if e \<in> {''jsonl'', ''ndjson''} then ''application/x-ndjson''
       else if e \<in> {''md'', ''markdown''} then ''text/markdown''
       else if e \<in> {''txt'', ''log''} then ''text/plain''
       else if e \<in> {''html'', ''htm''} then ''text/html''
       else if e \<in> {''patch'', ''diff''} then ''text/x-patch''
       else if e = ''csv'' then ''text/csv''
       else if e = ''tsv'' then ''text/tab-separated-values''
       else if e = ''svg'' then ''image/svg+xml''
       else if e = ''png'' then ''image/png''
       else if e \<in> {''jpg'', ''jpeg''} then ''image/jpeg''
       else if e = ''pdf'' then ''application/pdf''
       else ''application/octet-stream'') (path_extension name)"

definition path_is_absolute :: "string \<Rightarrow> bool" where
  "path_is_absolute p \<longleftrightarrow> p \<noteq> [] \<and> hd p = slash"

text \<open>\<open>Path::starts_with\<close> of two absolute canonical paths compares components.\<close>

definition resolve_artifact_path :: "export_host \<Rightarrow> session_record \<Rightarrow> string \<Rightarrow> string result" where
  "resolve_artifact_path host session path =
     and_then (case eh_canonicalize host (sr_project_root session) of
         Inl e \<Rightarrow> Inl (Config (''cannot resolve session project root '' @ sr_project_root session @ '': '' @ e))
       | Inr root \<Rightarrow> Inr root) (\<lambda>root.
     let candidate = (if path_is_absolute path then path else root @ ''/'' @ path)
     in and_then (case eh_canonicalize host candidate of
         Inl e \<Rightarrow> Inl (Config (''cannot resolve session bundle artifact '' @ candidate @ '': '' @ e))
       | Inr resolved \<Rightarrow> Inr resolved) (\<lambda>resolved.
     and_then (guard_err (\<not> prefix (path_components root) (path_components resolved))
       (Config (''session bundle artifact '' @ resolved @ '' escapes project root '' @ root))) (\<lambda>_.
     Inr resolved)))"

definition artifact_source_bytes ::
  "export_host \<Rightarrow> session_record \<Rightarrow> artifact_source \<Rightarrow> (string \<times> string \<times> string option) result" where
  "artifact_source_bytes host session source =
     (case source of
        ArtifactBytes name bytes media \<Rightarrow>
          Inr (name, bytes, (case media of Some m \<Rightarrow> Some m | None \<Rightarrow> infer_media_type name))
      | ArtifactFile path \<Rightarrow>
          and_then (resolve_artifact_path host session path) (\<lambda>resolved.
          case eh_file host resolved of
            None \<Rightarrow> Inl (Io ''no such file'')
          | Some FsOther \<Rightarrow> Inl (Config (''session bundle artifact is not a file: '' @ resolved))
          | Some (FsFile bytes) \<Rightarrow>
              let name = (case path_file_name resolved of Some n \<Rightarrow> n | None \<Rightarrow> ''artifact'')
              in Inr (name, bytes, infer_media_type name)))"

definition artifact_path :: "string \<Rightarrow> string \<Rightarrow> string" where
  "artifact_path artifact_id name =
     SESSION_BT_ARTIFACTS_DIR @ ''/'' @ sanitize_bundle_filename artifact_id @ ''-'' @ sanitize_bundle_filename name"

definition artifact_id_of :: "artifact_input \<Rightarrow> portable_hash \<Rightarrow> string" where
  "artifact_id_of a h =
     (case ai_artifact_id a of
        Some i \<Rightarrow> i
      | None \<Rightarrow> sanitize_bundle_filename (ai_kind a) @ ''-'' @ take 12 (sha256_hex h))"

definition export_artifact ::
  "bundle_codec \<Rightarrow> export_host \<Rightarrow> session_record \<Rightarrow> bundle_dir \<times> checksum_entry list \<times> exported_artifact list
     \<Rightarrow> artifact_input \<Rightarrow> (bundle_dir \<times> checksum_entry list \<times> exported_artifact list) result" where
  "export_artifact codec host session st a =
     (case st of (dir, checksums, exported) \<Rightarrow>
      and_then (guard_err (str_trim (ai_kind a) = [])
        (Config ''session bundle artifact kind must not be empty'')) (\<lambda>_.
      and_then (artifact_source_bytes host session (ai_source a)) (\<lambda>(name, bytes, media).
      let h = bundle_hash_bytes codec bytes; aid = artifact_id_of a h; path = artifact_path aid name
      in and_then (guard_err (aid \<in> set (map ea_artifact_id exported))
          (Config (''duplicate session bundle artifact id '' @ aid))) (\<lambda>_.
         and_then (write_bundle_file codec path bytes dir) (\<lambda>(dir', entry).
         Inr (dir', checksums @ [entry], exported @
           [\<lparr>ea_artifact_id = aid, ea_kind = ai_kind a,
             ea_content = \<lparr>cr_hash = h, cr_media_type = media, cr_size_bytes = length bytes,
               cr_path = Some path\<rparr>\<rparr>]))))))"

definition export_artifacts ::
  "bundle_codec \<Rightarrow> export_host \<Rightarrow> session_record \<Rightarrow> export_options \<Rightarrow> bundle_dir \<Rightarrow> checksum_entry list
     \<Rightarrow> (bundle_dir \<times> checksum_entry list \<times> exported_artifact list) result" where
  "export_artifacts codec host session options dir checksums =
     and_then (guard_err (eo_artifact_mode options = TraceOnly \<and> eo_artifacts options \<noteq> [])
       (Config ''trace-only session bundle export cannot include artifacts'')) (\<lambda>_.
     fold_results (export_artifact codec host session) (dir, checksums, []) (eo_artifacts options))"

subsection \<open>Branches, ranges and artifact references\<close>

text \<open>The event \<open>head_event_id\<close> names, or else the last event of the branch.\<close>

definition branch_head_info :: "event_record_info list \<Rightarrow> branch_record \<Rightarrow> event_record_info option" where
  "branch_head_info infos b =
     (case Option.bind (br_head_event_id b) (\<lambda>eid. List.find (\<lambda>i. ei_event_id i = eid) infos) of
        Some i \<Rightarrow> Some i
      | None \<Rightarrow> List.find (\<lambda>i. ei_branch_id i = br_branch_id b) (rev infos))"

definition branch_manifest_of ::
  "event_record_info list \<Rightarrow> portable_hash option \<Rightarrow> branch_record \<Rightarrow> branch_manifest" where
  "branch_manifest_of infos bundle_hash b =
     \<lparr>bm_branch_id = br_branch_id b, bm_parent_branch_id = br_parent_branch_id b,
      bm_parent_event_id = br_parent_event_id b,
      bm_head = map_option (\<lambda>i.
        \<lparr>nr_bundle_hash = bundle_hash, nr_session_id = br_session_id b, nr_branch_id = br_branch_id b,
         nr_ordinal = ei_ordinal i, nr_store_seq_id = None, nr_event_id = ei_event_id i,
         nr_event_hash = ei_event_hash i\<rparr>) (branch_head_info infos b),
      bm_is_default = br_is_default b, bm_summary = br_summary b\<rparr>"

definition build_branch_manifests ::
  "branch_record list \<Rightarrow> event_record_info list \<Rightarrow> portable_hash option \<Rightarrow> branch_manifest list" where
  "build_branch_manifests bs infos bundle_hash = map (branch_manifest_of infos bundle_hash) bs"

definition event_range_from_run :: "event_record_info \<Rightarrow> event_record_info \<Rightarrow> event_range" where
  "event_range_from_run first latest =
     \<lparr>rg_branch_id = ei_branch_id first, rg_ordinal_start = ei_ordinal first, rg_ordinal_end = ei_ordinal latest,
      rg_first_event_hash = ei_event_hash first, rg_last_event_hash = ei_event_hash latest,
      rg_seq_start = None, rg_seq_end = None\<rparr>"

fun event_runs ::
  "branch_id list \<Rightarrow> event_record_info \<Rightarrow> event_record_info \<Rightarrow> event_record_info list \<Rightarrow> event_range list" where
  "event_runs ids first latest [] =
     (if ei_branch_id first \<in> set ids then [event_range_from_run first latest] else [])"
| "event_runs ids first latest (i # is) =
     (if ei_branch_id i \<noteq> ei_branch_id first \<or> ei_ordinal i \<noteq> ei_ordinal latest + 1
      then (if ei_branch_id first \<in> set ids then [event_range_from_run first latest] else [])
           @ event_runs ids i i is
      else event_runs ids first i is)"

definition build_event_ranges :: "branch_record list \<Rightarrow> event_record_info list \<Rightarrow> event_range list" where
  "build_event_ranges bs infos =
     (case sort_key ei_ordinal infos of
        [] \<Rightarrow> []
      | first # rest \<Rightarrow> event_runs (map br_branch_id bs) first first rest)"

definition default_artifact_source_node ::
  "session_record \<Rightarrow> branch_record list \<Rightarrow> event_record_info list \<Rightarrow> portable_hash \<Rightarrow> session_node_ref result" where
  "default_artifact_source_node session bs infos bundle_hash =
     and_then (ok_or (invalid_bundle ''cannot attach artifact without a branch'')
       (case List.find br_is_default bs of
          Some b \<Rightarrow> Some b
        | None \<Rightarrow> (case bs of [] \<Rightarrow> None | b # _ \<Rightarrow> Some b))) (\<lambda>default_branch.
     and_then (ok_or (invalid_bundle ''cannot attach artifact without an event source node'')
       (case branch_head_info infos default_branch of
          Some i \<Rightarrow> Some i
        | None \<Rightarrow> (case rev infos of [] \<Rightarrow> None | i # _ \<Rightarrow> Some i))) (\<lambda>i.
     Inr \<lparr>nr_bundle_hash = Some bundle_hash, nr_session_id = sr_session_id session,
          nr_branch_id = ei_branch_id i, nr_ordinal = ei_ordinal i, nr_store_seq_id = None,
          nr_event_id = ei_event_id i, nr_event_hash = ei_event_hash i\<rparr>))"

definition build_artifact_refs ::
  "session_record \<Rightarrow> branch_record list \<Rightarrow> event_record_info list \<Rightarrow> exported_artifact list \<Rightarrow> portable_hash
     \<Rightarrow> bundle_artifact_ref list result" where
  "build_artifact_refs session bs infos artifacts bundle_hash =
     (if artifacts = [] then Inr []
      else and_then (default_artifact_source_node session bs infos bundle_hash) (\<lambda>node.
        Inr (map (\<lambda>a. \<lparr>ba_artifact_id = ea_artifact_id a, ba_kind = ea_kind a, ba_source_node = node,
                      ba_content = ea_content a\<rparr>) artifacts)))"

subsection \<open>The export\<close>

definition load_branches :: "session_id \<Rightarrow> database \<Rightarrow> branch_record list" where
  "load_branches sid db = sort_key br_created_at (filter (\<lambda>b. br_session_id b = sid) (branches db))"

definition load_all_raw_chunks :: "session_id \<Rightarrow> database \<Rightarrow> raw_chunk_row list" where
  "load_all_raw_chunks sid db = sql_ordered rc_chunk_id (\<lambda>r. rc_session_id r = sid) (raw_chunks db)"

definition belltower_producer :: producer_info where
  "belltower_producer = \<lparr>pr_name = ''belltower'', pr_version = ''0.1.0''\<rparr>"

text \<open>The part after the session has been read: the files in the order they are written, then the
  checksum tree, whose hash is the bundle hash, then the manifest.\<close>

definition write_bundle ::
  "bundle_codec \<Rightarrow> export_host \<Rightarrow> export_options \<Rightarrow> session_record \<Rightarrow> branch_record list \<Rightarrow> event_row list
     \<Rightarrow> raw_chunk_row list \<Rightarrow> (bundle_dir \<times> session_bundle_manifest) result" where
  "write_bundle codec host options session bs stored_events rows =
     (case prepare_raw_chunks codec rows of (chunks, hashes) \<Rightarrow>
      and_then (build_event_records codec stored_events hashes) (\<lambda>(records, infos).
      and_then (build_raw_chunk_refs codec chunks infos []) (\<lambda>s.
      and_then (export_artifacts codec host session options (xs_dir s) (xs_checksums s)) (\<lambda>(dir1, checksums1, artifacts).
      and_then (write_bundle_file codec SESSION_BT_EVENTS (jsonl_bytes (bc_event_line codec) records) dir1) (\<lambda>(dir2, entry2).
      and_then (write_bundle_file codec SESSION_BT_RAW_CHUNK_REFS (jsonl_bytes (bc_ref_line codec) (xs_refs s)) dir2)
        (\<lambda>(dir3, entry3).
      let tree = \<lparr>cs_schema_version = SESSION_BT_SCHEMA_VERSION,
            cs_files = sort_key ck_path (checksums1 @ [entry2, entry3])\<rparr>;
          tree_bytes = bc_checksums_text codec tree;
          bundle_hash = bundle_hash_bytes codec tree_bytes
      in and_then (write_bundle_file codec SESSION_BT_CHECKSUMS tree_bytes dir3) (\<lambda>(dir4, _).
         and_then (build_artifact_refs session bs infos artifacts bundle_hash) (\<lambda>artifact_refs.
         let manifest =
           \<lparr>sm_schema_version = SESSION_BT_SCHEMA_VERSION, sm_bundle_hash = bundle_hash, sm_session = session,
            sm_branches = build_branch_manifests bs infos (Some bundle_hash),
            sm_event_ranges = build_event_ranges bs infos, sm_producer = belltower_producer,
            sm_redaction = RedactionNone, sm_artifact_mode = eo_artifact_mode options,
            sm_contents = sort_key cr_hash (map snd (xs_contents s) @ map ea_content artifacts),
            sm_artifacts = artifact_refs\<rparr>
         in Inr (fs_write SESSION_BT_MANIFEST (bc_manifest_text codec manifest) dir4, manifest)))))))))"

definition export_session_bundle_directory ::
  "bundle_codec \<Rightarrow> export_host \<Rightarrow> output_target \<Rightarrow> export_options \<Rightarrow> session_id \<Rightarrow> database
     \<Rightarrow> (bundle_dir \<times> session_bundle_manifest) result" where
  "export_session_bundle_directory codec host out options sid db =
     and_then (ensure_empty_output_dir out) (\<lambda>_.
     and_then (ok_or (NotFound (''session '' @ session_id_text sid)) (load_session sid db)) (\<lambda>session.
     and_then (load_session_event_log (bc_json_number codec) sid db) (\<lambda>stored.
     write_bundle codec host options session (load_branches sid db) stored (load_all_raw_chunks sid db))))"

end
