(* ===== verification/Bt_Import.thy ===== *)
theory Bt_Import
  imports Bt_Export
begin

section \<open>Importing, continuing and comparing bundles\<close>

text \<open>
  \<open>import_session_bundle_directory\<close>, \<open>continue_session_bundle_directory_inner\<close> and
  \<open>diff_session_bundle_directories_inner\<close> of \<open>bt-session/src/export.rs\<close>. The store operations are those
  of \<open>Bt_Store\<close>; the clock and fresh ids are arguments.
\<close>

record import_report =
  im_bundle_hash :: portable_hash
  im_session_id :: session_id
  im_branch_count :: nat
  im_event_count :: nat
  im_raw_chunk_reference_count :: nat
  im_raw_chunk_content_count :: nat

record continuation_report =
  cn_bundle_hash :: portable_hash
  cn_session_id :: session_id
  cn_branch_id :: branch_id
  cn_parent_branch_id :: branch_id
  cn_parent_event_id :: event_id
  cn_parent_event_hash :: portable_hash
  cn_imported_session :: bool

subsection \<open>Import\<close>

definition branch_records_from_manifest :: "session_bundle_manifest \<Rightarrow> branch_record list" where
  "branch_records_from_manifest m =
     map (\<lambda>b. \<lparr>br_branch_id = bm_branch_id b, br_session_id = sr_session_id (sm_session m),
       br_parent_branch_id = bm_parent_branch_id b, br_parent_event_id = bm_parent_event_id b,
       br_head_event_id = map_option nr_event_id (bm_head b), br_summary = bm_summary b,
       br_created_at = sr_created_at (sm_session m), br_is_default = bm_is_default b\<rparr>) (sm_branches m)"

text \<open>A reference as an insert, with the key events will look it up by.\<close>

definition raw_chunk_import ::
  "bundle_codec \<Rightarrow> bundle_dir \<Rightarrow> raw_chunk_bundle_ref
     \<Rightarrow> ((nat \<times> event_id \<times> portable_hash) \<times> raw_chunk_insert) result" where
  "raw_chunk_import codec dir r =
     (let n = show_nat (rf_chunk_ordinal r) in
      and_then (ok_or (invalid_bundle (''raw chunk '' @ n @ '' does not include a branch_id''))
        (rf_branch_id r)) (\<lambda>bid.
      and_then (raw_ref_event_id codec r) (\<lambda>eid.
      and_then (ok_or (invalid_bundle ''raw chunk content is missing a path'') (cr_path (rf_content r))) (\<lambda>path.
      and_then (validate_bundle_relative_path path) (\<lambda>_.
      and_then (fs_read dir path) (\<lambda>content.
      Inr ((rf_chunk_ordinal r, eid, cr_hash (rf_content r)),
           \<lparr>ri_session_id = rf_session_id r, ri_branch_id = bid, ri_turn_id = rf_turn_id r,
            ri_llm_call_ordinal = rf_llm_call_ordinal r, ri_event_id = rf_event_id r,
            ri_provider = rf_provider r, ri_stream_name = rf_stream_name r, ri_content = content\<rparr>)))))))"

text \<open>\<open>entry(ordinal).or_insert(insert)\<close> on the map by ordinal.\<close>

definition or_insert :: "nat \<Rightarrow> 'v \<Rightarrow> (nat \<times> 'v) list \<Rightarrow> (nat \<times> 'v) list" where
  "or_insert k v es = (case map_of es k of Some _ \<Rightarrow> es | None \<Rightarrow> bt_put k v es)"

definition inserts_by_ordinal :: "((nat \<times> event_id \<times> portable_hash) \<times> raw_chunk_insert) list \<Rightarrow> (nat \<times> raw_chunk_insert) list" where
  "inserts_by_ordinal xs = fold (\<lambda>((n, _), ins). or_insert n ins) xs []"

fun local_ids_by_ref ::
  "(nat \<Rightarrow> i64 option) \<Rightarrow> (nat \<times> event_id \<times> portable_hash) list \<Rightarrow> ((event_id \<times> portable_hash) \<times> i64) list
     \<Rightarrow> ((event_id \<times> portable_hash) \<times> i64) list result" where
  "local_ids_by_ref local [] acc = Inr acc"
| "local_ids_by_ref local ((n, eid, h) # rest) acc =
     and_then (ok_or (invalid_bundle (''raw chunk ordinal '' @ show_nat n @ '' was not imported'')) (local n)) (\<lambda>cid.
     and_then (guard_err (map_of acc (eid, h) \<noteq> None)
       (invalid_bundle (''duplicate raw chunk ref for event '' @ event_id_text eid @ '' content '' @ hash_text h))) (\<lambda>_.
     local_ids_by_ref local rest (acc @ [((eid, h), cid)])))"

definition import_events ::
  "nat list \<Rightarrow> (nat \<times> event_id \<times> portable_hash) list \<Rightarrow> bundle_event_record list \<Rightarrow> i64 list
     \<Rightarrow> event_envelope list result" where
  "import_events ordinals refs records ids =
     and_then (local_ids_by_ref (map_of (zip ordinals ids)) refs []) (\<lambda>table.
     collect_results (\<lambda>r. envelope_to_live (sb_event r) (map_of table)) records)"

text \<open>Everything before the transaction: the branches, the inserts, the reference keys, the records.\<close>

definition prepare_import ::
  "bundle_codec \<Rightarrow> bundle_dir \<Rightarrow> session_bundle_manifest
     \<Rightarrow> (branch_record list \<times> (nat \<times> raw_chunk_insert) list \<times> (nat \<times> event_id \<times> portable_hash) list
          \<times> bundle_event_record list) result" where
  "prepare_import codec dir manifest =
     (let bs = branch_records_from_manifest manifest in
      and_then (guard_err (bs = []) (invalid_bundle ''bundle has no branches to import'')) (\<lambda>_.
      and_then (read_raw_chunk_refs codec dir) (\<lambda>refs.
      and_then (collect_results (raw_chunk_import codec dir) refs) (\<lambda>imports.
      and_then (read_event_records codec dir) (\<lambda>records.
      Inr (bs, inserts_by_ordinal imports, map fst imports, records))))))"

definition import_session_bundle_directory ::
  "bundle_codec \<Rightarrow> time \<Rightarrow> bundle_dir \<Rightarrow> database \<Rightarrow> database \<times> import_report result" where
  "import_session_bundle_directory codec now dir db =
     (let plan =
        and_then (validate_session_bundle_directory codec dir) (\<lambda>report.
        and_then (read_manifest codec dir) (\<lambda>manifest.
        and_then (guard_err (load_session (sr_session_id (sm_session manifest)) db \<noteq> None)
          (InvalidState (''session '' @ session_id_text (sr_session_id (sm_session manifest)) @ '' already exists''))) (\<lambda>_.
        and_then (prepare_import codec dir manifest) (\<lambda>prepared. Inr (report, manifest, prepared)))))
      in case plan of
           Inl e \<Rightarrow> (db, Inl e)
         | Inr (report, manifest, bs, inserts, refs, records) \<Rightarrow>
             (case import_session_with_raw_chunks_and_events now (sm_session manifest) bs (map snd inserts)
                (import_events (map fst inserts) refs records) db of
                (db', Inl e) \<Rightarrow> (db', Inl e)
              | (db', Inr (_, seq_ids)) \<Rightarrow>
                  (db', Inr \<lparr>im_bundle_hash = vr_bundle_hash report,
                    im_session_id = sr_session_id (sm_session manifest), im_branch_count = length bs,
                    im_event_count = length seq_ids, im_raw_chunk_reference_count = length refs,
                    im_raw_chunk_content_count = vr_raw_chunk_content_count report\<rparr>)))"

subsection \<open>Continuation\<close>

definition resolve_continuation_parent_node ::
  "session_bundle_manifest \<Rightarrow> bundle_event_record list \<Rightarrow> portable_hash \<Rightarrow> portable_hash option
     \<Rightarrow> session_node_ref result" where
  "resolve_continuation_parent_node manifest records bundle_hash event_hash =
     and_then
       (case event_hash of
          Some h \<Rightarrow> ok_or (invalid_bundle (''event hash '' @ hash_text h @ '' not found''))
            (List.find (\<lambda>r. sb_event_hash r = h) records)
        | None \<Rightarrow>
            and_then (ok_or (invalid_bundle ''bundle has no branch head to continue from'')
              (map_option nr_event_hash
                (case Option.bind (List.find bm_is_default (sm_branches manifest)) bm_head of
                   Some head \<Rightarrow> Some head
                 | None \<Rightarrow> find_map bm_head (sm_branches manifest)))) (\<lambda>h.
            ok_or (invalid_bundle (''branch head event hash '' @ hash_text h @ '' not found''))
              (List.find (\<lambda>r. sb_event_hash r = h) records)))
     (\<lambda>r. Inr \<lparr>nr_bundle_hash = Some bundle_hash, nr_session_id = pe_session_id (sb_event r),
          nr_branch_id = pe_branch_id (sb_event r), nr_ordinal = sb_ordinal r, nr_store_seq_id = None,
          nr_event_id = pe_event_id (sb_event r), nr_event_hash = sb_event_hash r\<rparr>)"

definition load_all_events :: "bundle_codec \<Rightarrow> session_id \<Rightarrow> database \<Rightarrow> event_envelope list result" where
  "load_all_events codec sid db = and_then (load_session_event_log (bc_json_number codec) sid db) (\<lambda>rows. Inr (map er_event rows))"

definition raw_chunk_hashes_by_local_id ::
  "bundle_codec \<Rightarrow> session_id \<Rightarrow> database \<Rightarrow> i64 \<Rightarrow> portable_hash option" where
  "raw_chunk_hashes_by_local_id codec sid db =
     map_of (rev (map (\<lambda>r. (rc_chunk_id r, bundle_hash_bytes codec (rc_content r))) (load_all_raw_chunks sid db)))"

definition assert_parent_node_imported :: "bundle_codec \<Rightarrow> session_node_ref \<Rightarrow> database \<Rightarrow> unit result" where
  "assert_parent_node_imported codec parent db =
     (let sid = nr_session_id parent in
      and_then (ok_or (InvalidState (''bundle parent branch '' @ branch_id_text (nr_branch_id parent)
          @ '' was not imported'')) (load_branch sid (nr_branch_id parent) db)) (\<lambda>b.
      and_then (load_all_events codec sid db) (\<lambda>evs.
      and_then (ok_or (InvalidState (''bundle parent event '' @ event_id_text (nr_event_id parent)
          @ '' was not imported''))
        (List.find (\<lambda>e. ev_branch_id e = br_branch_id b \<and> ev_event_id e = nr_event_id parent) evs)) (\<lambda>e.
      and_then (envelope_from_live e (raw_chunk_hashes_by_local_id codec sid db)) (\<lambda>(q, _).
      let h = canonical_event_hash codec q in
      guard_err (h \<noteq> nr_event_hash parent)
        (InvalidState (''local parent event '' @ event_id_text (nr_event_id parent) @ '' hash '' @ hash_text h
          @ '' does not match bundle parent hash '' @ hash_text (nr_event_hash parent))))))))"

text \<open>\<open>node_value\<close> is \<open>serde_json::to_value\<close> of the parent node; \<open>fresh\<close> are the new branch, event and span
  ids.\<close>

definition continue_session_bundle_directory ::
  "bundle_codec \<Rightarrow> (session_node_ref \<Rightarrow> json) \<Rightarrow> time \<Rightarrow> branch_id \<times> event_id \<times> span_id \<Rightarrow> bundle_dir
     \<Rightarrow> portable_hash option \<Rightarrow> database \<Rightarrow> database \<times> continuation_report result" where
  "continue_session_bundle_directory codec node_value now fresh dir event_hash db =
     (let plan =
        and_then (validate_session_bundle_directory codec dir) (\<lambda>report.
        and_then (read_manifest codec dir) (\<lambda>manifest.
        and_then (read_event_records codec dir) (\<lambda>records.
        and_then (resolve_continuation_parent_node manifest records (vr_bundle_hash report) event_hash) (\<lambda>parent.
        Inr (report, manifest, parent)))))
      in case plan of
           Inl e \<Rightarrow> (db, Inl e)
         | Inr (report, manifest, parent) \<Rightarrow>
             (let (db1, imported) =
                (if load_session (sr_session_id (sm_session manifest)) db \<noteq> None then (db, Inr False)
                 else case import_session_bundle_directory codec now dir db of
                        (db', Inl e) \<Rightarrow> (db', Inl e)
                      | (db', Inr _) \<Rightarrow> (db', Inr True))
              in case and_then imported (\<lambda>fresh_import.
                   and_then (assert_parent_node_imported codec parent db1) (\<lambda>_. Inr fresh_import)) of
                   Inl e \<Rightarrow> (db1, Inl e)
                 | Inr fresh_import \<Rightarrow>
                     (case fresh of (bid, eid, span) \<Rightarrow>
                      let b = \<lparr>br_branch_id = bid, br_session_id = nr_session_id parent,
                            br_parent_branch_id = Some (nr_branch_id parent),
                            br_parent_event_id = Some (nr_event_id parent), br_head_event_id = None,
                            br_summary = Some (''Continuation from bundle '' @ hash_text (vr_bundle_hash report)
                              @ '' event '' @ hash_text (nr_event_hash parent)),
                            br_created_at = now, br_is_default = False\<rparr>;
                          e = with_attribute (envelope_new eid span now (nr_session_id parent) bid SkChain
                                (BranchCreated (Some (nr_branch_id parent)) (Some (nr_event_id parent))))
                                ''belltower.session.parent_external_ref'' (node_value parent)
                      in case create_branch_with_event_and_default b e db1 of
                           (db2, Inl err) \<Rightarrow> (db2, Inl err)
                         | (db2, Inr _) \<Rightarrow>
                             (db2, Inr \<lparr>cn_bundle_hash = vr_bundle_hash report, cn_session_id = nr_session_id parent,
                               cn_branch_id = bid, cn_parent_branch_id = nr_branch_id parent,
                               cn_parent_event_id = nr_event_id parent,
                               cn_parent_event_hash = nr_event_hash parent, cn_imported_session = fresh_import\<rparr>))))"

subsection \<open>Comparison\<close>

datatype diff_relationship =
  Equivalent | SameLineageUpdate | ForkDivergence | DifferentLineage | RedactionDifference | StructuralDifference

primrec diff_relationship_as_str :: "diff_relationship \<Rightarrow> string" where
  "diff_relationship_as_str Equivalent = ''equivalent''"
| "diff_relationship_as_str SameLineageUpdate = ''same_lineage_update''"
| "diff_relationship_as_str ForkDivergence = ''fork_divergence''"
| "diff_relationship_as_str DifferentLineage = ''different_lineage''"
| "diff_relationship_as_str RedactionDifference = ''redaction_difference''"
| "diff_relationship_as_str StructuralDifference = ''structural_difference''"

record diff_side =
  ds_bundle_hash :: portable_hash
  ds_session_id :: session_id
  ds_event_count :: nat
  ds_branch_count :: nat
  ds_raw_chunk_reference_count :: nat
  ds_raw_chunk_content_count :: nat
  ds_content_count :: nat

record diff_report =
  df_relationship :: diff_relationship
  df_left :: diff_side
  df_right :: diff_side
  df_common_event_count :: nat
  df_left_only_event_count :: nat
  df_right_only_event_count :: nat
  df_left_only_branch_ids :: "branch_id list"
  df_right_only_branch_ids :: "branch_id list"
  df_left_only_content_hashes :: "portable_hash list"
  df_right_only_content_hashes :: "portable_hash list"
  df_left_only_artifact_ids :: "string list"
  df_right_only_artifact_ids :: "string list"
  df_redaction_changed :: bool

definition common_prefix_len :: "portable_hash list \<Rightarrow> portable_hash list \<Rightarrow> nat" where
  "common_prefix_len left right = length (takeWhile (\<lambda>(l, r). l = r) (zip left right))"

text \<open>The elements of the first ordered set that are not in the second; branch ids order as their texts.\<close>

definition set_difference :: "('a \<Rightarrow> 'k::linorder) \<Rightarrow> 'a list \<Rightarrow> 'a list \<Rightarrow> 'a list" where
  "set_difference key left right = filter (\<lambda>x. x \<notin> set right) (sort_key key (remdups left))"

definition classify_bundle_diff ::
  "portable_hash list \<Rightarrow> portable_hash list \<Rightarrow> nat \<Rightarrow> bool \<Rightarrow> bool \<Rightarrow> diff_relationship" where
  "classify_bundle_diff left right common redaction_changed same_inventory =
     (if left = right then
        if redaction_changed then RedactionDifference
        else if same_inventory then Equivalent else StructuralDifference
      else if common = min (length left) (length right) then SameLineageUpdate
      else if common > 0 then ForkDivergence else DifferentLineage)"

definition diff_side_of :: "validation_report \<Rightarrow> session_bundle_manifest \<Rightarrow> diff_side" where
  "diff_side_of r m =
     \<lparr>ds_bundle_hash = vr_bundle_hash r, ds_session_id = vr_session_id r, ds_event_count = vr_event_count r,
      ds_branch_count = length (sm_branches m),
      ds_raw_chunk_reference_count = vr_raw_chunk_reference_count r,
      ds_raw_chunk_content_count = vr_raw_chunk_content_count r, ds_content_count = vr_content_count r\<rparr>"

definition read_diff_bundle ::
  "bundle_codec \<Rightarrow> bundle_dir \<Rightarrow> (session_bundle_manifest \<times> portable_hash list) result" where
  "read_diff_bundle codec dir =
     and_then (read_manifest codec dir) (\<lambda>m.
     and_then (read_event_records codec dir) (\<lambda>records. Inr (m, map sb_event_hash records)))"

definition diff_session_bundle_directories ::
  "bundle_codec \<Rightarrow> bundle_dir \<Rightarrow> bundle_dir \<Rightarrow> diff_report result" where
  "diff_session_bundle_directories codec left_dir right_dir =
     and_then (validate_session_bundle_directory codec left_dir) (\<lambda>left_report.
     and_then (validate_session_bundle_directory codec right_dir) (\<lambda>right_report.
     and_then (read_diff_bundle codec left_dir) (\<lambda>(ml, left).
     and_then (read_diff_bundle codec right_dir) (\<lambda>(mr, right).
     let common = common_prefix_len left right;
         branch_ids = (\<lambda>m. map bm_branch_id (sm_branches m));
         hashes = (\<lambda>m. map cr_hash (sm_contents m));
         artifacts = (\<lambda>m. map ba_artifact_id (sm_artifacts m));
         lb = set_difference branch_id_text (branch_ids ml) (branch_ids mr);
         rb = set_difference branch_id_text (branch_ids mr) (branch_ids ml);
         lc = set_difference id (hashes ml) (hashes mr);
         rc = set_difference id (hashes mr) (hashes ml);
         la = set_difference id (artifacts ml) (artifacts mr);
         ra = set_difference id (artifacts mr) (artifacts ml);
         redaction_changed = (sm_redaction ml \<noteq> sm_redaction mr)
     in Inr \<lparr>df_relationship = classify_bundle_diff left right common redaction_changed
               (lb = [] \<and> rb = [] \<and> lc = [] \<and> rc = [] \<and> la = [] \<and> ra = []),
             df_left = diff_side_of left_report ml, df_right = diff_side_of right_report mr,
             df_common_event_count = common,
             df_left_only_event_count = length left - common,
             df_right_only_event_count = length right - common,
             df_left_only_branch_ids = lb, df_right_only_branch_ids = rb,
             df_left_only_content_hashes = lc, df_right_only_content_hashes = rc,
             df_left_only_artifact_ids = la, df_right_only_artifact_ids = ra,
             df_redaction_changed = redaction_changed\<rparr>))))"

end
