(* ===== verification/Bt_ExportProps.thy ===== *)
theory Bt_ExportProps
  imports Bt_Export
begin

section \<open>Exported bundles validate\<close>

text \<open>
  What \<open>write_bundle\<close> writes is what the validator accepts: the lines read back, every raw chunk is
  written once under its hash, the ranges cut the log into runs and the heads are the last events of
  their branches.
\<close>

subsection \<open>Lines\<close>

text \<open>What the export relies on of \<open>serde_json\<close> for one record: its text is one line that is not blank, and
  parses back.\<close>

definition line_reads_back :: "('a \<Rightarrow> string) \<Rightarrow> (string \<Rightarrow> string + 'a) \<Rightarrow> 'a \<Rightarrow> bool" where
  "line_reads_back line parse x \<longleftrightarrow>
     parse (line x) = Inr x \<and> str_trim (line x) \<noteq> [] \<and> line x \<noteq> [] \<and> nl \<notin> set (line x) \<and> last (line x) \<noteq> cr
       \<and> valid_utf8 (line x)"

lemma valid_utf8_append: "valid_utf8 p \<Longrightarrow> valid_utf8 (p @ q) = valid_utf8 q"
proof (induction "length p" arbitrary: p rule: less_induct)
  case less
  show ?case
  proof (cases "p = []")
    case False
    let ?n = "snd (utf8_step p)"
    from less.prems False have v: "fst (utf8_step p)" "valid_utf8 (drop ?n p)"
      using valid_utf8.simps [of p] by auto
    note st = utf8_step_append [OF False v(1), of q]
    have "valid_utf8 (drop ?n p @ q) = valid_utf8 q"
      using less.hyps [of "drop ?n p"] v(2) False utf8_step_pos [of p] by simp
    then show ?thesis
      using st v(1) False by (subst valid_utf8.simps) simp
  qed simp
qed

lemma valid_utf8_nl: "valid_utf8 [nl]"
  by code_simp

lemma valid_jsonl:
  "\<forall>x \<in> set xs. line_reads_back line parse x \<Longrightarrow> valid_utf8 (jsonl_bytes line xs)"
  by (induction xs) (simp_all add: jsonl_bytes_def line_reads_back_def valid_utf8_append valid_utf8_nl
    valid_utf8.simps [of "[]"] append_assoc [symmetric] del: append_assoc)

lemma str_lines_line:
  assumes "l \<noteq> []" "nl \<notin> set l" "last l \<noteq> cr"
  shows "str_lines (l @ nl # rest) = l # str_lines rest"
proof -
  have "takeWhile (\<lambda>c. c \<noteq> nl) (l @ nl # rest) = l \<and> dropWhile (\<lambda>c. c \<noteq> nl) (l @ nl # rest) = nl # rest"
    using assms(2) by (induction l) auto
  with assms show ?thesis
    by (subst str_lines.simps) (simp add: strip_cr_def)
qed

lemma str_lines_jsonl:
  "\<forall>x \<in> set xs. line_reads_back line parse x \<Longrightarrow> str_lines (jsonl_bytes line xs) = map line xs"
  by (induction xs) (simp_all add: jsonl_bytes_def line_reads_back_def str_lines_line str_lines.simps [of "[]"])

lemma parse_lines_back:
  "\<forall>x \<in> set xs. line_reads_back line parse x \<Longrightarrow> parse_lines parse label n (map line xs) = Inr xs"
  by (induction xs arbitrary: n) (simp_all add: line_reads_back_def)

lemma read_jsonl_back:
  assumes "fs_read dir path = Inr (jsonl_bytes line xs)" "\<forall>x \<in> set xs. line_reads_back line parse x"
  shows "read_jsonl parse dir path label = Inr xs"
  using assms valid_jsonl [OF assms(2)] by (simp add: read_jsonl_def str_lines_jsonl parse_lines_back)

subsection \<open>Paths\<close>

lemma str_split_single: "d \<notin> set s \<Longrightarrow> str_split d s = [s]"
  by (induction s) auto

lemma str_split_append: "d \<notin> set s \<Longrightarrow> str_split d (s @ d # t) = s # str_split d t"
  by (induction s) auto

text \<open>A path that names a file and is its own normal form.\<close>

definition plain_path :: "string \<Rightarrow> bool" where
  "plain_path p \<longleftrightarrow> last (str_split slash p) \<notin> {[], ''.''} \<and> join_with [slash] (path_components p) = p \<and>
     validate_bundle_relative_path p = Inr ()"

lemma fs_read_plain: "plain_path p \<Longrightarrow> map_of dir p = Some (FsFile b) \<Longrightarrow> fs_read dir p = Inr b"
  by (simp add: fs_read_def plain_path_def)

lemma fixed_paths_plain: "plain_path SESSION_BT_MANIFEST" "plain_path SESSION_BT_EVENTS"
  "plain_path SESSION_BT_RAW_CHUNK_REFS" "plain_path SESSION_BT_CHECKSUMS"
  by code_simp+

definition chunk_path :: "portable_hash \<Rightarrow> string" where
  "chunk_path h = SESSION_BT_RAW_CHUNKS_DIR @ ''/'' @ sha256_hex h @ ''.bin''"

lemma slash_not_hex: "slash \<notin> set (to_lower_hex b)"
  using to_lower_hex_props(1) [of b] by (auto simp: list_all_iff is_lower_hex_def slash_def byte_of_def)

lemma chunk_path_split:
  "str_split slash (chunk_path (hash_bytes digest b)) = [''raw_chunks'', to_lower_hex (digest b) @ ''.bin'']"
proof -
  have "str_split slash (''raw_chunks'' @ slash # to_lower_hex (digest b) @ ''.bin'') =
      [''raw_chunks'', to_lower_hex (digest b) @ ''.bin'']"
    using slash_not_hex [of "digest b"]
    by (subst str_split_append) (auto simp: str_split_single slash_def)
  then show ?thesis
    by (simp add: chunk_path_def sha256_hex_hash_bytes SESSION_BT_RAW_CHUNKS_DIR_def slash_def)
qed

lemma append_bin: "x @ ''.bin'' \<noteq> []" "x @ ''.bin'' \<noteq> ''.''" "x @ ''.bin'' \<noteq> ''..''"
  by (simp_all add: append_eq_Cons_conv)

lemma chunk_path_plain: "plain_path (chunk_path (hash_bytes digest b))"
proof -
  have c: "path_components (chunk_path (hash_bytes digest b)) = [''raw_chunks'', to_lower_hex (digest b) @ ''.bin'']"
    using append_bin by (simp add: path_components_def chunk_path_split)
  show ?thesis
    unfolding plain_path_def relative_path_ok c chunk_path_split
    using append_bin
    by (auto simp: chunk_path_def sha256_hex_hash_bytes SESSION_BT_RAW_CHUNKS_DIR_def slash_def)
qed

lemma chunk_path_inj:
  "chunk_path (hash_bytes digest a) = chunk_path (hash_bytes digest b) \<longleftrightarrow> hash_bytes digest a = hash_bytes digest b"
  by (simp add: chunk_path_def sha256_hex_hash_bytes) (metis hash_bytes_text portable_hash.expand same_append_eq)

lemma chunk_path_not_fixed:
  "chunk_path h \<noteq> SESSION_BT_MANIFEST" "chunk_path h \<noteq> SESSION_BT_CHECKSUMS"
  "chunk_path h \<noteq> SESSION_BT_EVENTS" "chunk_path h \<noteq> SESSION_BT_RAW_CHUNK_REFS"
  "SESSION_BT_MANIFEST \<noteq> chunk_path h" "SESSION_BT_CHECKSUMS \<noteq> chunk_path h"
  "SESSION_BT_EVENTS \<noteq> chunk_path h" "SESSION_BT_RAW_CHUNK_REFS \<noteq> chunk_path h"
  by (simp_all add: chunk_path_def SESSION_BT_RAW_CHUNKS_DIR_def SESSION_BT_MANIFEST_def SESSION_BT_CHECKSUMS_def
    SESSION_BT_EVENTS_def SESSION_BT_RAW_CHUNK_REFS_def)

lemma chunk_path_segment: "first_segment (chunk_path (hash_bytes digest b)) = SESSION_BT_RAW_CHUNKS_DIR"
  by (simp add: first_segment_def chunk_path_split SESSION_BT_RAW_CHUNKS_DIR_def)

lemma fs_write_new: "path \<notin> fst ` set dir \<Longrightarrow> fs_write path bytes dir = dir @ [(path, FsFile bytes)]"
  by (force simp: fs_write_def filter_id_conv)

subsection \<open>Raw chunks\<close>

abbreviation chunk_hash :: "exported_raw_chunk \<Rightarrow> portable_hash" where
  "chunk_hash x \<equiv> cr_hash (xr_content x)"

lemma exported_chunk_simps [simp]:
  "xr_chunk_ordinal (exported_chunk codec n r) = n" "xr_session_id (exported_chunk codec n r) = rc_session_id r"
  "xr_branch_id (exported_chunk codec n r) = Some (rc_branch_id r)" "xr_bytes (exported_chunk codec n r) = rc_content r"
  "chunk_hash (exported_chunk codec n r) = bundle_hash_bytes codec (rc_content r)"
  "cr_size_bytes (xr_content (exported_chunk codec n r)) = length (rc_content r)"
  "cr_path (xr_content (exported_chunk codec n r)) = Some (chunk_path (bundle_hash_bytes codec (rc_content r)))"
  by (simp_all add: exported_chunk_def Let_def chunk_path_def)

text \<open>Chunks as \<open>prepare_raw_chunks\<close> makes them, by position in the ordered rows.\<close>

definition prepared_chunk :: "bundle_codec \<Rightarrow> raw_chunk_row list \<Rightarrow> exported_raw_chunk \<Rightarrow> bool" where
  "prepared_chunk codec rows x \<longleftrightarrow> (\<exists>n < length rows. x = exported_chunk codec n (rows ! n))"

lemma prepare_raw_chunksD:
  assumes "prepare_raw_chunks codec rows = (chunks, hashes)"
  shows "chunks cid = Some x \<Longrightarrow> \<exists>n < length rows. rc_chunk_id (rows ! n) = cid \<and> x = exported_chunk codec n (rows ! n)"
    and "hashes cid = Some h \<Longrightarrow> \<exists>r \<in> set rows. rc_chunk_id r = cid \<and> h = bundle_hash_bytes codec (rc_content r)"
proof -
  have c: "chunks = map_of (rev (map (\<lambda>(n, r). (rc_chunk_id r, exported_chunk codec n r)) (enumerate 0 rows)))"
    and h: "hashes = map_of (rev (map (\<lambda>r. (rc_chunk_id r, bundle_hash_bytes codec (rc_content r))) rows))"
    using assms by (simp_all add: prepare_raw_chunks_def)
  show "\<exists>n < length rows. rc_chunk_id (rows ! n) = cid \<and> x = exported_chunk codec n (rows ! n)"
    if "chunks cid = Some x"
    using map_of_SomeD [OF that [unfolded c]] by (auto simp: in_set_enumerate_eq)
  show "\<exists>r \<in> set rows. rc_chunk_id r = cid \<and> h = bundle_hash_bytes codec (rc_content r)" if "hashes cid = Some h"
    using map_of_SomeD [OF that [unfolded h]] by auto
qed

subsection \<open>Event records\<close>

text \<open>One stored event and the record and description the export makes of it at position \<open>n\<close>.\<close>

definition event_exported ::
  "bundle_codec \<Rightarrow> (i64 \<Rightarrow> portable_hash option) \<Rightarrow> nat \<Rightarrow> event_row \<Rightarrow> bundle_event_record \<times> event_record_info \<Rightarrow> bool" where
  "event_exported codec hashes n r p \<longleftrightarrow>
     (\<exists>q refs. envelope_from_live (er_event r) hashes = Inr (q, refs) \<and>
        p = (\<lparr>sb_ordinal = n, sb_event_kind = event_kind (er_event r), sb_event_hash = canonical_event_hash codec q, sb_event = q\<rparr>,
             \<lparr>ei_ordinal = n, ei_event_id = ev_event_id (er_event r), ei_branch_id = ev_branch_id (er_event r),
              ei_event_hash = canonical_event_hash codec q, ei_content_refs = raw_chunk_content_refs (pe_payload q),
              ei_raw_refs = refs\<rparr>))"

lemma build_event_records_fromD:
  "build_event_records_from codec hashes n rows = Inr ps \<Longrightarrow>
   length ps = length rows \<and> (\<forall>i < length rows. event_exported codec hashes (n + i) (rows ! i) (ps ! i))"
proof (induction rows arbitrary: n ps)
  case (Cons r rs)
  then obtain q refs rest where q: "envelope_from_live (er_event r) hashes = Inr (q, refs)"
      and rest: "build_event_records_from codec hashes (n + 1) rs = Inr rest"
      and ps: "event_exported codec hashes n r (hd ps)" "ps = hd ps # rest"
    by (auto simp: and_then_eq_Inr Let_def event_exported_def)
  from Cons.IH [OF rest] show ?case
    by (subst (1 2) ps(2)) (auto simp: nth_Cons ps(1) split: nat.splits)
qed simp

lemma build_event_recordsD:
  assumes "build_event_records codec rows hashes = Inr (records, infos)"
  shows "length records = length rows" "length infos = length rows"
    "i < length rows \<Longrightarrow> event_exported codec hashes i (rows ! i) (records ! i, infos ! i)"
proof -
  from assms obtain ps where ps: "build_event_records_from codec hashes 0 rows = Inr ps"
      "records = map fst ps" "infos = map snd ps"
    by (auto simp: build_event_records_def and_then_eq_Inr)
  with build_event_records_fromD [OF ps(1)] show "length records = length rows" "length infos = length rows"
    "i < length rows \<Longrightarrow> event_exported codec hashes i (rows ! i) (records ! i, infos ! i)"
    by auto
qed

definition plain_info :: "event_record_info \<Rightarrow> event_record_info" where
  "plain_info i = i\<lparr>ei_raw_refs := []\<rparr>"

lemma event_exported_facts:
  assumes "event_exported codec hashes n r (record, info)"
  shows "plain_info info = record_info codec record" "sb_ordinal record = n" "ei_ordinal info = n"
    "sb_event_hash record = canonical_event_hash codec (sb_event record)"
    "sb_event_kind record = portable_kind (pe_payload (sb_event record))"
    "pe_event_id (sb_event record) = ev_event_id (er_event r)" "ei_event_id info = ev_event_id (er_event r)"
    "pe_session_id (sb_event record) = ev_session_id (er_event r)"
    "pe_branch_id (sb_event record) = ev_branch_id (er_event r)" "ei_branch_id info = ev_branch_id (er_event r)"
    "raw_chunk_content_refs (pe_payload (sb_event record)) = map rw_content_hash (ei_raw_refs info)"
    "length (ei_raw_refs info) \<le> 1"
    "\<And>x. x \<in> set (ei_raw_refs info) \<Longrightarrow> hashes (rw_local_chunk_id x) = Some (rw_content_hash x)"
proof -
  from assms obtain q refs where q: "envelope_from_live (er_event r) hashes = Inr (q, refs)"
      and rec: "record = \<lparr>sb_ordinal = n, sb_event_kind = event_kind (er_event r), sb_event_hash = canonical_event_hash codec q, sb_event = q\<rparr>"
      and info: "info = \<lparr>ei_ordinal = n, ei_event_id = ev_event_id (er_event r), ei_branch_id = ev_branch_id (er_event r),
        ei_event_hash = canonical_event_hash codec q, ei_content_refs = raw_chunk_content_refs (pe_payload q),
        ei_raw_refs = refs\<rparr>"
    by (auto simp: event_exported_def)
  from q have p: "payload_from_live (ev_payload (er_event r)) hashes = Inr (pe_payload q, refs)"
    and ids: "pe_event_id q = ev_event_id (er_event r)" "pe_session_id q = ev_session_id (er_event r)"
      "pe_branch_id q = ev_branch_id (er_event r)"
    by (simp_all add: envelope_from_live_eq)
  show "plain_info info = record_info codec record" "sb_ordinal record = n" "ei_ordinal info = n"
    "sb_event_hash record = canonical_event_hash codec (sb_event record)"
    "pe_event_id (sb_event record) = ev_event_id (er_event r)" "ei_event_id info = ev_event_id (er_event r)"
    "pe_session_id (sb_event record) = ev_session_id (er_event r)"
    "pe_branch_id (sb_event record) = ev_branch_id (er_event r)" "ei_branch_id info = ev_branch_id (er_event r)"
    by (simp_all add: rec info ids plain_info_def record_info_def)
  show "sb_event_kind record = portable_kind (pe_payload (sb_event record))"
    using payload_from_live_kind [OF p] by (simp add: rec event_kind_def)
  show "raw_chunk_content_refs (pe_payload (sb_event record)) = map rw_content_hash (ei_raw_refs info)"
    "length (ei_raw_refs info) \<le> 1"
    using payload_from_live_refs [OF p] payload_from_live_single [OF p] by (simp_all add: rec info)
  show "hashes (rw_local_chunk_id x) = Some (rw_content_hash x)" if "x \<in> set (ei_raw_refs info)" for x
    using payload_from_live_hashes [OF p] that by (simp add: info)
qed

subsection \<open>The loop over the references\<close>

lemma fold_results_append:
  "fold_results f s (xs @ ys) = and_then (fold_results f s xs) (\<lambda>s'. fold_results f s' ys)"
  by (induction xs arbitrary: s) (auto simp: and_then_def split: sum.splits)

lemma fold_results_nested:
  "fold_results (\<lambda>s x. fold_results (f x) s (g x)) s xs =
   fold_results (\<lambda>s (x, y). f x s y) s (concat (map (\<lambda>x. map (Pair x) (g x)) xs))"
proof (induction xs arbitrary: s)
  case (Cons x xs)
  have "fold_results (f x) s ys = fold_results (\<lambda>s (x, y). f x s y) s (map (Pair x) ys)" for s ys
    by (induction ys arbitrary: s) (auto simp: and_then_def split: sum.splits)
  then show ?case
    by (simp add: fold_results_append Cons.IH)
qed simp

text \<open>All references with the event that makes them.\<close>

definition event_refs :: "event_record_info list \<Rightarrow> (event_record_info \<times> raw_chunk_event_ref) list" where
  "event_refs infos = concat (map (\<lambda>i. map (Pair i) (ei_raw_refs i)) infos)"

definition chunk_entry :: "exported_raw_chunk \<Rightarrow> checksum_entry" where
  "chunk_entry x = \<lparr>ck_path = chunk_path (chunk_hash x), ck_hash = chunk_hash x, ck_size_bytes = length (xr_bytes x)\<rparr>"

definition chunk_file :: "exported_raw_chunk \<Rightarrow> string \<times> fs_entry" where
  "chunk_file x = (chunk_path (chunk_hash x), FsFile (xr_bytes x))"

text \<open>The state of the loop: \<open>ws\<close> are the chunks written so far, each hash once.\<close>

definition loop_state ::
  "(i64 \<Rightarrow> exported_raw_chunk option) \<Rightarrow> (event_record_info \<times> raw_chunk_event_ref) list \<Rightarrow> exported_raw_chunk list
     \<Rightarrow> export_state \<Rightarrow> bool" where
  "loop_state chunks seen ws s \<longleftrightarrow>
     distinct (map chunk_hash ws) \<and> chunk_hash ` set ws = (\<lambda>(i, r). rw_content_hash r) ` set seen \<and>
     set ws \<subseteq> ran chunks \<and>
     xs_dir s = map chunk_file ws \<and> xs_checksums s = map chunk_entry ws \<and> xs_written s = map chunk_hash ws \<and>
     distinct (map fst (xs_contents s)) \<and> set (xs_contents s) = (\<lambda>x. (chunk_hash x, xr_content x)) ` set ws \<and>
     (\<forall>(i, r) \<in> set seen. \<exists>x. chunks (rw_local_chunk_id r) = Some x \<and> chunk_hash x = rw_content_hash r) \<and>
     xs_refs s = map (\<lambda>(i, r). raw_chunk_bundle_ref_of (ei_event_id i) (the (chunks (rw_local_chunk_id r)))) seen"

lemma fst_bt_put: "fst ` set (bt_put k v es) = insert k (fst ` set es)"
  using keys_bt_put [of k v es] by simp

lemma distinct_bt_put: "distinct (map fst es) \<Longrightarrow> map_of es k = None \<Longrightarrow> distinct (map fst (bt_put k v es))"
  by (induction k v es rule: bt_put.induct) (auto simp: map_of_eq_None_iff fst_bt_put)

lemma set_bt_put_new: "map_of es k = None \<Longrightarrow> set (bt_put k v es) = insert (k, v) (set es)"
  by (induction k v es rule: bt_put.induct) (auto split: if_splits)

lemma loop_step:
  assumes st: "loop_state chunks seen ws s"
    and made: "\<forall>x \<in> ran chunks. \<exists>n r. x = exported_chunk codec n r"
    and step: "add_raw_chunk_ref codec chunks (ei_event_id i) s r = Inr s'"
  shows "\<exists>ws'. loop_state chunks (seen @ [(i, r)]) ws' s'"
proof -
  from step obtain x s1 where x: "chunks (rw_local_chunk_id r) = Some x" "chunk_hash x = rw_content_hash r"
    and wrote: "write_raw_chunk_once codec (rw_local_chunk_id r) x s = Inr s1"
    and s': "s' = s1\<lparr>xs_contents := (case map_of (xs_contents s1) (chunk_hash x) of
               Some _ \<Rightarrow> xs_contents s1 | None \<Rightarrow> bt_put (chunk_hash x) (xr_content x) (xs_contents s1)),
             xs_refs := xs_refs s1 @ [raw_chunk_bundle_ref_of (ei_event_id i) x]\<rparr>"
    by (auto simp: add_raw_chunk_ref_def and_then_eq_Inr)
  from made x(1) obtain n row where xr: "x = exported_chunk codec n row" by (blast intro: ranI)
  have keys: "fst ` set (xs_contents s) = chunk_hash ` set ws"
    using st by (simp add: loop_state_def image_image)
  have ran: "x \<in> ran chunks" using x(1) by (rule ranI)
  show ?thesis
  proof (cases "chunk_hash x \<in> set (xs_written s)")
    case True
    then have "s1 = s" using wrote by (simp add: write_raw_chunk_once_def)
    moreover obtain c where "map_of (xs_contents s) (chunk_hash x) = Some c"
      using True keys st map_of_eq_None_iff [of "xs_contents s" "chunk_hash x"]
      by (cases "map_of (xs_contents s) (chunk_hash x)") (auto simp: loop_state_def)
    ultimately have "s' = s\<lparr>xs_refs := xs_refs s @ [raw_chunk_bundle_ref_of (ei_event_id i) x]\<rparr>"
      by (simp add: s')
    moreover have "insert (rw_content_hash r) (chunk_hash ` set ws) = chunk_hash ` set ws"
      using True st x(2) by (auto simp: loop_state_def)
    ultimately show ?thesis
      using st x by (intro exI [of _ ws]) (simp add: loop_state_def)
  next
    case False
    then have fresh: "chunk_hash x \<notin> chunk_hash ` set ws"
      using st by (simp add: loop_state_def)
    have made_ws: "\<exists>n r. y = exported_chunk codec n r" if "y \<in> set ws" for y
      using st that made by (auto simp: loop_state_def)
    have path: "chunk_path (chunk_hash x) \<notin> fst ` set (xs_dir s)"
    proof
      assume "chunk_path (chunk_hash x) \<in> fst ` set (xs_dir s)"
      then obtain y where y: "y \<in> set ws" "chunk_path (chunk_hash x) = chunk_path (chunk_hash y)"
        using st by (auto simp: loop_state_def chunk_file_def)
      from made_ws [OF y(1)] y(2) xr have "chunk_hash x = chunk_hash y"
        by (auto simp: bundle_hash_bytes_def chunk_path_inj)
      with fresh y(1) show False by simp
    qed
    have "s1 = s\<lparr>xs_dir := xs_dir s @ [chunk_file x], xs_checksums := xs_checksums s @ [chunk_entry x],
        xs_written := xs_written s @ [chunk_hash x]\<rparr>"
      using False wrote fs_write_new [OF path, of "xr_bytes x"]
      by (auto simp: write_raw_chunk_once_def write_bundle_file_def and_then_eq_Inr xr chunk_file_def chunk_entry_def)
    moreover have none: "map_of (xs_contents s) (chunk_hash x) = None"
      using fresh keys by (simp add: map_of_eq_None_iff)
    ultimately show ?thesis
      using st x fresh ran distinct_bt_put [OF _ none] set_bt_put_new [OF none]
      by (intro exI [of _ "ws @ [x]"]) (simp add: s' loop_state_def)
  qed
qed

lemma build_raw_chunk_refsD:
  assumes "build_raw_chunk_refs codec chunks infos [] = Inr s"
    and made: "\<forall>x \<in> ran chunks. \<exists>n r. x = exported_chunk codec n r"
  shows "\<exists>ws. loop_state chunks (event_refs infos) ws s"
proof -
  have run: "fold_results (\<lambda>s (i, r). add_raw_chunk_ref codec chunks (ei_event_id i) s r) s0 todo = Inr s1 \<Longrightarrow>
      loop_state chunks seen ws s0 \<Longrightarrow> \<exists>ws'. loop_state chunks (seen @ todo) ws' s1" for s0 s1 ws seen todo
  proof (induction todo arbitrary: s0 seen ws)
    case (Cons t todo)
    obtain i r where t: "t = (i, r)" by (cases t)
    from Cons.prems(1) obtain s' where s': "add_raw_chunk_ref codec chunks (ei_event_id i) s0 r = Inr s'"
        "fold_results (\<lambda>s (i, r). add_raw_chunk_ref codec chunks (ei_event_id i) s r) s' todo = Inr s1"
      by (auto simp: t and_then_eq_Inr)
    from loop_step [OF Cons.prems(2) made s'(1)] obtain ws' where "loop_state chunks (seen @ [(i, r)]) ws' s'"
      by blast
    from Cons.IH [OF s'(2) this] show ?case by (simp add: t)
  qed auto
  have "loop_state chunks [] [] \<lparr>xs_dir = [], xs_checksums = [], xs_written = [], xs_contents = [], xs_refs = []\<rparr>"
    by (simp add: loop_state_def)
  from run [OF _ this] assms(1) show ?thesis
    by (simp add: build_raw_chunk_refs_def fold_results_nested event_refs_def)
qed

subsection \<open>Event ranges\<close>

lemma plain_info_simps [simp]:
  "ei_ordinal (plain_info i) = ei_ordinal i" "ei_event_id (plain_info i) = ei_event_id i"
  "ei_branch_id (plain_info i) = ei_branch_id i" "ei_event_hash (plain_info i) = ei_event_hash i"
  "ei_content_refs (plain_info i) = ei_content_refs i"
  by (simp_all add: plain_info_def)

lemma event_runs_plain:
  "event_runs ids (plain_info first) (plain_info latest) (map plain_info is) = event_runs ids first latest is"
  by (induction "is" arbitrary: first latest) (simp_all add: event_range_from_run_def)

definition same_branch :: "event_record_info list \<Rightarrow> nat \<Rightarrow> nat \<Rightarrow> bool" where
  "same_branch infos i j \<longleftrightarrow> (\<forall>k. i \<le> k \<and> k \<le> j \<longrightarrow> ei_branch_id (infos ! k) = ei_branch_id (infos ! i))"

definition run_ok :: "event_record_info list \<Rightarrow> event_range \<Rightarrow> bool" where
  "run_ok infos rg \<longleftrightarrow>
     rg_ordinal_start rg \<le> rg_ordinal_end rg \<and> rg_ordinal_end rg < length infos \<and>
     same_branch infos (rg_ordinal_start rg) (rg_ordinal_end rg) \<and>
     ei_branch_id (infos ! rg_ordinal_start rg) = rg_branch_id rg \<and>
     rg_first_event_hash rg = ei_event_hash (infos ! rg_ordinal_start rg) \<and>
     rg_last_event_hash rg = ei_event_hash (infos ! rg_ordinal_end rg) \<and>
     rg_seq_start rg = None \<and> rg_seq_end rg = None"

lemma event_runs_cover:
  assumes ords: "map ei_ordinal infos = [0..<length infos]"
    and ids: "ei_branch_id ` set infos \<subseteq> set ids"
  shows "i \<le> j \<Longrightarrow> j < length infos \<Longrightarrow> same_branch infos i j \<Longrightarrow>
    concat (map range_ordinals (event_runs ids (infos ! i) (infos ! j) (drop (Suc j) infos))) = [i..<length infos] \<and>
    (\<forall>rg \<in> set (event_runs ids (infos ! i) (infos ! j) (drop (Suc j) infos)). run_ok infos rg)"
proof (induction "drop (Suc j) infos" arbitrary: i j)
  case Nil
  then have d: "drop (Suc j) infos = []" and j: "length infos = Suc j" by simp_all
  have ord: "ei_ordinal (infos ! k) = k" if "k < length infos" for k
    using ords that by (metis add_0 length_map nth_map nth_upt)
  have "ei_branch_id (infos ! i) \<in> set ids"
    using ids Nil.prems by auto
  with Nil.prems show ?case
    unfolding d by (simp add: event_range_from_run_def range_ordinals_def run_ok_def ord j)
next
  case (Cons x xs)
  have ord: "ei_ordinal (infos ! k) = k" if "k < length infos" for k
    using ords that by (metis add_0 length_map nth_map nth_upt)
  have j: "Suc j < length infos"
    using Cons.hyps(2) by (metis drop_eq_Nil list.discI not_less)
  then have d: "drop (Suc j) infos = infos ! Suc j # drop (Suc (Suc j)) infos"
    by (simp add: Cons_nth_drop_Suc)
  then have xs: "xs = drop (Suc (Suc j)) infos" using Cons.hyps(2) by simp
  have ij: "ei_branch_id (infos ! i) \<in> set ids"
    using ids Cons.prems by auto
  show ?case
  proof (cases "ei_branch_id (infos ! Suc j) = ei_branch_id (infos ! i)")
    case True
    with Cons.prems(3) have "same_branch infos i (Suc j)"
      unfolding same_branch_def le_Suc_eq by blast
    with Cons.hyps(1) [OF xs, of i] Cons.prems j True show ?thesis
      by (simp add: d ord)
  next
    case False
    have "same_branch infos (Suc j) (Suc j)"
      by (auto simp: same_branch_def dest: le_antisym)
    with Cons.hyps(1) [OF xs, of "Suc j"] j have rest:
      "concat (map range_ordinals (event_runs ids (infos ! Suc j) (infos ! Suc j) (drop (Suc (Suc j)) infos))) = [Suc j..<length infos]"
      "\<forall>rg \<in> set (event_runs ids (infos ! Suc j) (infos ! Suc j) (drop (Suc (Suc j)) infos)). run_ok infos rg"
      by simp_all
    have "run_ok infos (event_range_from_run (infos ! i) (infos ! j))"
      using Cons.prems j by (simp add: run_ok_def event_range_from_run_def ord)
    moreover have "range_ordinals (event_range_from_run (infos ! i) (infos ! j)) = [i..<Suc j]"
      using Cons.prems j by (simp add: range_ordinals_def event_range_from_run_def ord)
    moreover have "[i..<Suc j] @ [Suc j..<length infos] = [i..<length infos]"
      using Cons.prems(1) j by (metis le_SucI less_or_eq_imp_le ordered_cancel_comm_monoid_diff_class.add_diff_inverse upt_add_eq_append)
    ultimately show ?thesis
      using False ij rest by (simp add: d del: upt_Suc)
  qed
qed

lemma last_entry_nth:
  assumes "map key xs = [0..<length xs]"
  shows "last_entry key xs n = Some x \<longleftrightarrow> n < length xs \<and> x = xs ! n"
proof -
  have nth: "key (xs ! k) = k" if "k < length xs" for k
    using assms that by (metis add_0 length_map nth_map nth_upt)
  have "distinct (map key xs)" by (simp add: assms)
  from last_entry_distinct [OF this] show ?thesis
    by (auto simp: in_set_conv_nth nth intro: nth_mem)
qed

lemma build_event_ranges_ok:
  assumes ords: "map ei_ordinal infos = [0..<length infos]"
    and ids: "ei_branch_id ` set infos \<subseteq> set (map br_branch_id bs)"
  shows "ranges_ok (build_event_ranges bs infos) (map plain_info infos)"
proof -
  have ords': "map ei_ordinal (map plain_info infos) = [0..<length (map plain_info infos)]"
    using ords by (simp add: o_def)
  have "sort_key ei_ordinal infos = infos"
    by (rule sort_key_id_if_sorted) (simp add: ords)
  then have "concat (map range_ordinals (build_event_ranges bs infos)) = [0..<length infos] \<and>
      (\<forall>rg \<in> set (build_event_ranges bs infos). run_ok infos rg)"
    using event_runs_cover [OF ords ids, of 0 0]
    by (cases infos) (simp_all add: build_event_ranges_def same_branch_def)
  moreover have "ei_ordinal ` set infos = set [0..<length infos]"
    using arg_cong [OF ords, of set] by simp
  ultimately have cover: "concat (map range_ordinals (build_event_ranges bs infos)) = [0..<length infos]"
    and runs: "\<forall>rg \<in> set (build_event_ranges bs infos). run_ok infos rg"
    and all: "ei_ordinal ` set (map plain_info infos) = set [0..<length infos]"
    by (simp_all add: image_image)
  have "range_ok (map plain_info infos) rg" if "run_ok infos rg" for rg
  proof -
    have branch: "ei_branch_id (infos ! k) = rg_branch_id rg"
      if "rg_ordinal_start rg \<le> k" "k \<le> rg_ordinal_end rg" for k
      using \<open>run_ok infos rg\<close> that unfolding run_ok_def same_branch_def by metis
    from that show ?thesis
      unfolding range_ok_def last_entry_nth [OF ords']
      by (auto simp: run_ok_def range_ordinals_def branch)
  qed
  with runs cover all show ?thesis
    by (simp add: ranges_ok_def)
qed

subsection \<open>Branches\<close>

lemma find_map_list: "List.find P (map f xs) = map_option f (List.find (\<lambda>x. P (f x)) xs)"
  by (induction xs) auto

lemma branch_head_info_plain: "branch_head_info (map plain_info infos) b = map_option plain_info (branch_head_info infos b)"
  by (auto simp: branch_head_info_def find_map_list rev_map split: option.splits bind_splits)

lemma branch_manifest_plain: "branch_manifest_of (map plain_info infos) h b = branch_manifest_of infos h b"
  by (simp add: branch_manifest_of_def branch_head_info_plain option.map_comp o_def)

text \<open>What the store keeps of the branches of one session: \<open>head_event_id\<close> is the last event of its branch
  when it names an event of the session, parents are in the session, and one branch is the default.\<close>

definition branches_consistent :: "session_id \<Rightarrow> branch_record list \<Rightarrow> event_record_info list \<Rightarrow> bool" where
  "branches_consistent sid bs infos \<longleftrightarrow>
     distinct (map br_branch_id bs) \<and> length (filter br_is_default bs) = 1 \<and>
     (\<forall>b \<in> set bs. br_session_id b = sid \<and>
        (\<forall>p. br_parent_branch_id b = Some p \<longrightarrow> p \<in> br_branch_id ` set bs) \<and>
        (\<forall>eid. br_parent_event_id b = Some eid \<longrightarrow>
           (\<exists>i \<in> set infos. ei_event_id i = eid \<and> (\<forall>p. br_parent_branch_id b = Some p \<longrightarrow> ei_branch_id i = p))) \<and>
        (\<forall>i \<in> set infos. br_head_event_id b = Some (ei_event_id i) \<longrightarrow>
           last_entry ei_branch_id infos (br_branch_id b) = Some i)) \<and>
     ei_branch_id ` set infos \<subseteq> br_branch_id ` set bs"

lemma branch_head_is_tip:
  assumes "\<forall>i \<in> set infos. br_head_event_id b = Some (ei_event_id i) \<longrightarrow> last_entry ei_branch_id infos (br_branch_id b) = Some i"
  shows "branch_head_info infos b = last_entry ei_branch_id infos (br_branch_id b)"
proof (cases "Option.bind (br_head_event_id b) (\<lambda>eid. List.find (\<lambda>i. ei_event_id i = eid) infos)")
  case None
  then show ?thesis by (simp add: branch_head_info_def last_entry_def)
next
  case (Some i)
  then have "br_head_event_id b = Some (ei_event_id i)" "i \<in> set infos"
    by (auto simp: bind_eq_Some_conv dest: find_SomeD)
  with assms Some show ?thesis by (simp add: branch_head_info_def)
qed

lemma build_branch_manifests_ok:
  assumes c: "branches_consistent sid bs infos" and ids: "distinct (map ei_event_id infos)"
    and m: "sm_branches m = build_branch_manifests bs infos (Some (sm_bundle_hash m))" "sr_session_id (sm_session m) = sid"
  shows "branches_ok m infos"
proof -
  have d: "distinct (map br_branch_id bs)" and one: "length (filter br_is_default bs) = 1"
    and owned: "ei_branch_id ` set infos \<subseteq> br_branch_id ` set bs"
    using c by (simp_all add: branches_consistent_def)
  have fields: "bm_branch_id (branch_manifest_of infos h b) = br_branch_id b"
    "bm_is_default (branch_manifest_of infos h b) = br_is_default b"
    "bm_parent_branch_id (branch_manifest_of infos h b) = br_parent_branch_id b"
    "bm_parent_event_id (branch_manifest_of infos h b) = br_parent_event_id b" for h b
    by (simp_all add: branch_manifest_of_def)
  have keys: "bm_branch_id ` set (sm_branches m) = br_branch_id ` set bs"
    by (simp add: m(1) build_branch_manifests_def image_image fields)
  have parent: "branch_parent_ok (br_branch_id ` set bs) infos (branch_manifest_of infos h b)" if "b \<in> set bs" for h b
    unfolding branch_parent_ok_def fields last_entry_distinct [OF ids]
    using c that unfolding branches_consistent_def by blast
  have head: "branch_head_ok m infos (branch_manifest_of infos (Some (sm_bundle_hash m)) b)" if "b \<in> set bs" for b
  proof -
    have tip: "branch_head_info infos b = last_entry ei_branch_id infos (br_branch_id b)"
      using c that unfolding branches_consistent_def by (intro branch_head_is_tip) blast
    have sid: "br_session_id b = sid" using c that by (simp add: branches_consistent_def)
    show ?thesis
    proof (cases "last_entry ei_branch_id infos (br_branch_id b)")
      case None
      then show ?thesis
        using last_entry_None [of ei_branch_id infos "br_branch_id b"]
        by (simp add: branch_head_ok_def branch_manifest_of_def tip)
    next
      case (Some i)
      from last_entry_Some [OF Some] have "last_entry ei_event_id infos (ei_event_id i) = Some i"
        by (simp add: last_entry_distinct [OF ids])
      with Some last_entry_Some [OF Some] show ?thesis
        by (simp add: branch_head_ok_def head_matches_def branch_manifest_of_def tip m(2) sid)
    qed
  qed
  have "distinct (map bm_branch_id (sm_branches m))" "length (filter bm_is_default (sm_branches m)) = 1"
    using d one by (simp_all add: m(1) build_branch_manifests_def fields o_def filter_map)
  with parent head owned show ?thesis
    unfolding branches_ok_def keys by (simp add: m(1) build_branch_manifests_def fields)
qed

subsection \<open>The written directory\<close>

definition file_entry :: "bundle_codec \<Rightarrow> string \<Rightarrow> string \<Rightarrow> checksum_entry" where
  "file_entry codec path bytes = \<lparr>ck_path = path, ck_hash = bundle_hash_bytes codec bytes, ck_size_bytes = length bytes\<rparr>"

definition events_text :: "bundle_codec \<Rightarrow> bundle_event_record list \<Rightarrow> string" where
  "events_text codec records = jsonl_bytes (bc_event_line codec) records"

definition refs_text :: "bundle_codec \<Rightarrow> export_state \<Rightarrow> string" where
  "refs_text codec s = jsonl_bytes (bc_ref_line codec) (xs_refs s)"

definition export_tree :: "bundle_codec \<Rightarrow> bundle_event_record list \<Rightarrow> export_state \<Rightarrow> bundle_checksums" where
  "export_tree codec records s =
     \<lparr>cs_schema_version = SESSION_BT_SCHEMA_VERSION,
      cs_files = sort_key ck_path (xs_checksums s
        @ [file_entry codec SESSION_BT_EVENTS (events_text codec records),
           file_entry codec SESSION_BT_RAW_CHUNK_REFS (refs_text codec s)])\<rparr>"

definition written_files ::
  "bundle_codec \<Rightarrow> session_bundle_manifest \<Rightarrow> bundle_event_record list \<Rightarrow> export_state \<Rightarrow> bundle_dir" where
  "written_files codec m records s =
     xs_dir s @ [(SESSION_BT_EVENTS, FsFile (events_text codec records)),
       (SESSION_BT_RAW_CHUNK_REFS, FsFile (refs_text codec s)),
       (SESSION_BT_CHECKSUMS, FsFile (bc_checksums_text codec (export_tree codec records s))),
       (SESSION_BT_MANIFEST, FsFile (bc_manifest_text codec m))]"

definition export_view ::
  "bundle_codec \<Rightarrow> session_bundle_manifest \<Rightarrow> bundle_event_record list \<Rightarrow> export_state \<Rightarrow> bundle_view" where
  "export_view codec m records s =
     \<lparr>bv_manifest = m, bv_checksums_bytes = bc_checksums_text codec (export_tree codec records s),
      bv_checksums = export_tree codec records s, bv_refs = xs_refs s, bv_records = records\<rparr>"

text \<open>What an export without artifacts has computed from the stored events and chunks.\<close>

definition exported ::
  "bundle_codec \<Rightarrow> session_record \<Rightarrow> branch_record list \<Rightarrow> event_row list \<Rightarrow> raw_chunk_row list
     \<Rightarrow> bundle_event_record list \<Rightarrow> event_record_info list \<Rightarrow> export_state \<Rightarrow> session_bundle_manifest \<Rightarrow> bool" where
  "exported codec session bs stored rows records infos s m \<longleftrightarrow>
     (\<exists>chunks hashes. prepare_raw_chunks codec rows = (chunks, hashes) \<and>
        build_event_records codec stored hashes = Inr (records, infos) \<and>
        build_raw_chunk_refs codec chunks infos [] = Inr s) \<and>
     sm_schema_version m = SESSION_BT_SCHEMA_VERSION \<and> sm_session m = session \<and>
     sm_bundle_hash m = bundle_hash_bytes codec (bc_checksums_text codec (export_tree codec records s)) \<and>
     sm_branches m = build_branch_manifests bs infos (Some (sm_bundle_hash m)) \<and>
     sm_event_ranges m = build_event_ranges bs infos \<and>
     sm_contents m = sort_key cr_hash (map snd (xs_contents s)) \<and> sm_artifacts m = []"

lemma exported_loop:
  assumes "exported codec session bs stored rows records infos s m"
  obtains chunks hashes ws where "prepare_raw_chunks codec rows = (chunks, hashes)"
    "build_event_records codec stored hashes = Inr (records, infos)" "loop_state chunks (event_refs infos) ws s"
    "\<forall>x \<in> ran chunks. prepared_chunk codec rows x"
proof -
  from assms obtain chunks hashes where c: "prepare_raw_chunks codec rows = (chunks, hashes)"
      "build_event_records codec stored hashes = Inr (records, infos)"
      "build_raw_chunk_refs codec chunks infos [] = Inr s"
    by (auto simp: exported_def)
  have made: "\<forall>x \<in> ran chunks. prepared_chunk codec rows x"
    using prepare_raw_chunksD(1) [OF c(1)] by (auto simp: ran_def prepared_chunk_def)
  then have "\<forall>x \<in> ran chunks. \<exists>n r. x = exported_chunk codec n r"
    unfolding prepared_chunk_def by blast
  from build_raw_chunk_refsD [OF c(3) this] obtain ws where "loop_state chunks (event_refs infos) ws s" ..
  with c made show ?thesis by (intro that)
qed

lemma prepared_chunk_facts:
  assumes "prepared_chunk codec rows x"
  shows "bundle_hash_bytes codec (xr_bytes x) = chunk_hash x" "cr_size_bytes (xr_content x) = length (xr_bytes x)"
    "cr_path (xr_content x) = Some (chunk_path (chunk_hash x))" "plain_path (chunk_path (chunk_hash x))"
    "first_segment (chunk_path (chunk_hash x)) = SESSION_BT_RAW_CHUNKS_DIR"
    "xr_bytes x \<in> rc_content ` set rows"
  using assms chunk_path_plain chunk_path_segment
  by (auto simp: prepared_chunk_def bundle_hash_bytes_def)

lemma fixed_names_neq:
  "SESSION_BT_EVENTS \<noteq> SESSION_BT_RAW_CHUNK_REFS" "SESSION_BT_EVENTS \<noteq> SESSION_BT_CHECKSUMS"
  "SESSION_BT_EVENTS \<noteq> SESSION_BT_MANIFEST" "SESSION_BT_RAW_CHUNK_REFS \<noteq> SESSION_BT_CHECKSUMS"
  "SESSION_BT_RAW_CHUNK_REFS \<noteq> SESSION_BT_MANIFEST" "SESSION_BT_CHECKSUMS \<noteq> SESSION_BT_MANIFEST"
  "SESSION_BT_RAW_CHUNK_REFS \<noteq> SESSION_BT_EVENTS" "SESSION_BT_CHECKSUMS \<noteq> SESSION_BT_EVENTS"
  "SESSION_BT_MANIFEST \<noteq> SESSION_BT_EVENTS" "SESSION_BT_CHECKSUMS \<noteq> SESSION_BT_RAW_CHUNK_REFS"
  "SESSION_BT_MANIFEST \<noteq> SESSION_BT_RAW_CHUNK_REFS" "SESSION_BT_MANIFEST \<noteq> SESSION_BT_CHECKSUMS"
  by (simp_all add: SESSION_BT_MANIFEST_def SESSION_BT_CHECKSUMS_def SESSION_BT_EVENTS_def
    SESSION_BT_RAW_CHUNK_REFS_def)

lemma loop_dir_keys:
  assumes "loop_state chunks seen ws s" "\<forall>x \<in> ran chunks. prepared_chunk codec rows x"
  shows "distinct (map fst (written_files codec m records s))"
proof -
  have ws: "set ws \<subseteq> ran chunks" "distinct (map chunk_hash ws)"
    using assms(1) by (simp_all add: loop_state_def)
  have "inj_on (chunk_path \<circ> chunk_hash) (set ws)"
  proof (rule inj_onI)
    fix x y
    assume x: "x \<in> set ws" "y \<in> set ws" "(chunk_path \<circ> chunk_hash) x = (chunk_path \<circ> chunk_hash) y"
    then have "prepared_chunk codec rows x" "prepared_chunk codec rows y" using ws(1) assms(2) by auto
    with x(3) have "chunk_hash x = chunk_hash y"
      by (auto simp: prepared_chunk_def bundle_hash_bytes_def chunk_path_inj)
    with x ws(2) show "x = y" by (auto simp: distinct_map dest: inj_onD)
  qed
  then have "distinct (map (chunk_path \<circ> chunk_hash) ws)"
    using ws(2) by (simp add: distinct_map)
  moreover have "map fst (written_files codec m records s) = map (chunk_path \<circ> chunk_hash) ws
      @ [SESSION_BT_EVENTS, SESSION_BT_RAW_CHUNK_REFS, SESSION_BT_CHECKSUMS, SESSION_BT_MANIFEST]"
    using assms(1) by (simp add: written_files_def loop_state_def chunk_file_def)
  ultimately show ?thesis
    by (auto simp: fixed_names_neq chunk_path_not_fixed)
qed

lemma write_bundle_exported:
  assumes wrote: "write_bundle codec host options session bs stored rows = Inr (dir, m)"
    and none: "eo_artifacts options = []"
  obtains records infos s where "exported codec session bs stored rows records infos s m"
    "dir = written_files codec m records s"
proof -
  obtain chunks hashes where c: "prepare_raw_chunks codec rows = (chunks, hashes)"
    by (cases "prepare_raw_chunks codec rows")
  from wrote obtain records infos where r: "build_event_records codec stored hashes = Inr (records, infos)"
    by (auto simp: write_bundle_def c and_then_eq_Inr)
  from wrote obtain s where s: "build_raw_chunk_refs codec chunks infos [] = Inr s"
    by (auto simp: write_bundle_def c r and_then_eq_Inr)
  have arts: "export_artifacts codec host session options d cs = Inr (d, cs, [])" for d cs
    by (simp add: export_artifacts_def none)
  have e: "exported codec session bs stored rows records infos s m"
    using wrote by (auto simp: write_bundle_def c r s arts Let_def write_bundle_file_def and_then_eq_Inr
      build_artifact_refs_def exported_def export_tree_def file_entry_def events_text_def refs_text_def)
  from exported_loop [OF e] obtain ws where
    loop: "loop_state chunks (event_refs infos) ws s" "\<forall>x \<in> ran chunks. prepared_chunk codec rows x"
    using c by (metis prod.inject)
  from loop_dir_keys [OF loop, of m records] have keys: "distinct (map fst (written_files codec m records s))" .
  have "dir = fs_write SESSION_BT_MANIFEST (bc_manifest_text codec m)
      (fs_write SESSION_BT_CHECKSUMS (bc_checksums_text codec (export_tree codec records s))
        (fs_write SESSION_BT_RAW_CHUNK_REFS (refs_text codec s)
          (fs_write SESSION_BT_EVENTS (events_text codec records) (xs_dir s))))"
    using wrote by (auto simp: write_bundle_def c r s arts Let_def write_bundle_file_def and_then_eq_Inr
      build_artifact_refs_def export_tree_def file_entry_def events_text_def refs_text_def)
  then have "dir = written_files codec m records s"
    using keys by (simp add: written_files_def fs_write_new fixed_names_neq)
  with e show ?thesis by (rule that)
qed

text \<open>What the export needs of its dependencies: the records it writes read back, and SHA-256 does not
  collide on the chunks of the session.\<close>

definition reads_back ::
  "bundle_codec \<Rightarrow> bundle_event_record list \<Rightarrow> export_state \<Rightarrow> session_bundle_manifest \<Rightarrow> bool" where
  "reads_back codec records s m \<longleftrightarrow>
     (\<forall>r \<in> set records. line_reads_back (bc_event_line codec) (bc_parse_event codec) r \<and>
        bc_parse_event_id codec (event_id_text (pe_event_id (sb_event r))) = Inr (pe_event_id (sb_event r))) \<and>
     (\<forall>r \<in> set (xs_refs s). line_reads_back (bc_ref_line codec) (bc_parse_ref codec) r) \<and>
     bc_parse_checksums codec (bc_checksums_text codec (export_tree codec records s)) = Inr (export_tree codec records s) \<and>
     bc_parse_manifest codec (bc_manifest_text codec m) = Inr m"

definition chunks_collide :: "bundle_codec \<Rightarrow> raw_chunk_row list \<Rightarrow> bool" where
  "chunks_collide codec rows \<longleftrightarrow> \<not> inj_on (bundle_hash_bytes codec) (rc_content ` set rows)"

text \<open>The raw chunks a session refers to are its own, and on the branch of the event.\<close>

definition chunks_consistent :: "session_id \<Rightarrow> raw_chunk_row list \<Rightarrow> event_record_info list \<Rightarrow> bool" where
  "chunks_consistent sid rows infos \<longleftrightarrow>
     (\<forall>r \<in> set rows. rc_session_id r = sid) \<and>
     (\<forall>i \<in> set infos. \<forall>x \<in> set (ei_raw_refs i). \<forall>r \<in> set rows.
        rc_chunk_id r = rw_local_chunk_id x \<longrightarrow> rc_branch_id r = ei_branch_id i)"

lemma written_reads:
  assumes "loop_state chunks seen ws s" "\<forall>x \<in> ran chunks. prepared_chunk codec rows x"
  shows "fs_read (written_files codec m records s) SESSION_BT_EVENTS = Inr (events_text codec records)"
    "fs_read (written_files codec m records s) SESSION_BT_RAW_CHUNK_REFS = Inr (refs_text codec s)"
    "fs_read (written_files codec m records s) SESSION_BT_CHECKSUMS = Inr (bc_checksums_text codec (export_tree codec records s))"
    "fs_read (written_files codec m records s) SESSION_BT_MANIFEST = Inr (bc_manifest_text codec m)"
    "x \<in> set ws \<Longrightarrow> fs_read (written_files codec m records s) (chunk_path (chunk_hash x)) = Inr (xr_bytes x)"
proof -
  note keys = loop_dir_keys [OF assms, of m records]
  have member: "fs_read (written_files codec m records s) p = Inr b"
    if "plain_path p" "(p, FsFile b) \<in> set (written_files codec m records s)" for p b
    using fs_read_plain [OF that(1)] map_of_is_SomeI [OF keys that(2)] by simp
  show "fs_read (written_files codec m records s) SESSION_BT_EVENTS = Inr (events_text codec records)"
    "fs_read (written_files codec m records s) SESSION_BT_RAW_CHUNK_REFS = Inr (refs_text codec s)"
    "fs_read (written_files codec m records s) SESSION_BT_CHECKSUMS = Inr (bc_checksums_text codec (export_tree codec records s))"
    "fs_read (written_files codec m records s) SESSION_BT_MANIFEST = Inr (bc_manifest_text codec m)"
    by (rule member, rule fixed_paths_plain, simp add: written_files_def)+
  show "fs_read (written_files codec m records s) (chunk_path (chunk_hash x)) = Inr (xr_bytes x)" if "x \<in> set ws"
    using assms that
    by (intro member prepared_chunk_facts(4) [of codec rows]) (auto simp: written_files_def loop_state_def chunk_file_def)
qed

lemma exported_bundle_read:
  assumes "exported codec session bs stored rows records infos s m" "reads_back codec records s m"
  shows "bundle_read codec (written_files codec m records s) (export_view codec m records s)"
proof -
  from exported_loop [OF assms(1)] obtain chunks ws where
    loop: "loop_state chunks (event_refs infos) ws s" "\<forall>x \<in> ran chunks. prepared_chunk codec rows x" by metis
  note reads = written_reads [OF loop, where m = m and records = records]
  have "read_raw_chunk_refs codec (written_files codec m records s) = Inr (xs_refs s)"
    using assms(2) read_jsonl_back [OF reads(2) [unfolded refs_text_def], of "bc_parse_ref codec"]
    by (simp add: read_raw_chunk_refs_def reads_back_def)
  moreover have "read_event_records codec (written_files codec m records s) = Inr records"
    using assms(2) read_jsonl_back [OF reads(1) [unfolded events_text_def], of "bc_parse_event codec"]
    by (simp add: read_event_records_def reads_back_def)
  ultimately show ?thesis
    using assms(2) reads
    by (simp add: bundle_read_def export_view_def reads_back_def read_manifest_def read_json_def serde_json_error_def)
qed

lemma set_content_paths: "set (content_paths cs) = {p. \<exists>c \<in> set cs. cr_path c = Some p}"
  by (force simp: content_paths_def map_filter_def)

text \<open>Every reference points at a written file.\<close>

lemma referenced_chunk:
  assumes loop: "loop_state chunks (event_refs infos) ws s" "\<forall>x \<in> ran chunks. prepared_chunk codec rows x"
    and nc: "\<not> chunks_collide codec rows" and ref: "(i, r) \<in> set (event_refs infos)"
  obtains x w where "chunks (rw_local_chunk_id r) = Some x" "chunk_hash x = rw_content_hash r" "w \<in> set ws"
    "chunk_hash w = chunk_hash x" "xr_bytes w = xr_bytes x" "prepared_chunk codec rows x"
proof -
  from loop(1) ref obtain x where x: "chunks (rw_local_chunk_id r) = Some x" "chunk_hash x = rw_content_hash r"
    by (auto simp: loop_state_def)
  have "rw_content_hash r \<in> chunk_hash ` set ws"
    using loop(1) ref by (force simp: loop_state_def)
  then obtain w where w: "w \<in> set ws" "chunk_hash w = chunk_hash x" using x(2) by auto
  have p: "prepared_chunk codec rows x" "prepared_chunk codec rows w"
    using loop w(1) x(1) by (auto simp: loop_state_def intro: ranI)
  have "xr_bytes w = xr_bytes x"
    using nc w(2) prepared_chunk_facts(1,6) [OF p(1)] prepared_chunk_facts(1,6) [OF p(2)]
      inj_onD [of "bundle_hash_bytes codec" "rc_content ` set rows" "xr_bytes w" "xr_bytes x"]
    by (simp add: chunks_collide_def)
  with x w p show ?thesis by (intro that)
qed

lemma exported_files_well_formed:
  assumes e: "exported codec session bs stored rows records infos s m" and nc: "\<not> chunks_collide codec rows"
  shows "files_well_formed codec (written_files codec m records s) (export_view codec m records s)"
proof -
  from exported_loop [OF e] obtain chunks ws where
    loop: "loop_state chunks (event_refs infos) ws s" "\<forall>x \<in> ran chunks. prepared_chunk codec rows x" by metis
  note reads = written_reads [OF loop, where m = m and records = records] and keys = loop_dir_keys [OF loop, of m records]
  let ?dir = "written_files codec m records s" and ?files = "cs_files (export_tree codec records s)"
  have prepared: "prepared_chunk codec rows x" if "x \<in> set ws" for x
    using loop that by (auto simp: loop_state_def)
  note chunk = prepared_chunk_facts [OF prepared]
  have files: "set ?files = chunk_entry ` set ws \<union> {file_entry codec SESSION_BT_EVENTS (events_text codec records),
      file_entry codec SESSION_BT_RAW_CHUNK_REFS (refs_text codec s)}"
    using loop(1) by (simp add: export_tree_def loop_state_def)
  have contents: "set (sm_contents m) = xr_content ` set ws"
    using e loop(1) by (simp add: exported_def loop_state_def image_image)
  have plain: "validate_bundle_relative_path p = Inr ()" if "plain_path p" for p
    using that by (simp add: plain_path_def)
  have paths: "ck_path ` set ?files = {SESSION_BT_EVENTS, SESSION_BT_RAW_CHUNK_REFS} \<union> (chunk_path \<circ> chunk_hash) ` set ws"
    unfolding files by (auto simp: file_entry_def chunk_entry_def image_iff)
  have cpaths: "set (content_paths (sm_contents m)) = (chunk_path \<circ> chunk_hash) ` set ws"
    unfolding set_content_paths contents by (auto simp: chunk image_iff)
  have fsts: "map fst ?dir = map ck_path (xs_checksums s
        @ [file_entry codec SESSION_BT_EVENTS (events_text codec records),
           file_entry codec SESSION_BT_RAW_CHUNK_REFS (refs_text codec s)]) @ [SESSION_BT_CHECKSUMS, SESSION_BT_MANIFEST]"
    using loop(1) by (simp add: written_files_def loop_state_def chunk_file_def chunk_entry_def file_entry_def)
  have "distinct (map ck_path (xs_checksums s
        @ [file_entry codec SESSION_BT_EVENTS (events_text codec records),
           file_entry codec SESSION_BT_RAW_CHUNK_REFS (refs_text codec s)]))"
    using keys unfolding fsts by simp
  then have distinct: "distinct (map ck_path ?files)"
    by (simp only: export_tree_def bundle_checksums.select_convs distinct_map set_sort distinct_sort)
  have dir: "fst ` set ?dir = {SESSION_BT_EVENTS, SESSION_BT_RAW_CHUNK_REFS, SESSION_BT_CHECKSUMS, SESSION_BT_MANIFEST}
      \<union> (chunk_path \<circ> chunk_hash) ` set ws"
    using loop(1) by (auto simp: written_files_def loop_state_def chunk_file_def image_iff)
  have payload: "payload_files ?dir = ck_path ` set ?files"
    unfolding payload_files_def dir paths by (auto simp: fixed_names_neq chunk_path_not_fixed)
  have all_plain: "validate_bundle_relative_path p = Inr ()"
    if "p \<in> {SESSION_BT_EVENTS, SESSION_BT_RAW_CHUNK_REFS, SESSION_BT_CHECKSUMS, SESSION_BT_MANIFEST}
      \<union> (chunk_path \<circ> chunk_hash) ` set ws" for p
    using that by (auto intro!: plain fixed_paths_plain chunk(4))
  have no_other: "\<forall>(p, e) \<in> set ?dir. e \<noteq> FsOther"
    using loop(1) by (auto simp: written_files_def loop_state_def chunk_file_def)
  have inventory: "validate_bundle_inventory_is_closed ?dir m (export_tree codec records s) = Inr ()"
    unfolding inventory_closed_Inr payload paths cpaths dir
    using distinct all_plain no_other by auto
  have entries: "verify_file_checksum codec ?dir entry = Inr ()" if "entry \<in> set ?files" for entry
    using that all_plain reads unfolding files verify_file_checksum_Inr
    by (auto simp: chunk_entry_def file_entry_def chunk)
  have present: "content_present codec ?dir (xr_content x) (chunk_path (chunk_hash x))"
    if "w \<in> set ws" "chunk_hash w = chunk_hash x" "xr_bytes w = xr_bytes x" "prepared_chunk codec rows x" for x w
    using plain [OF prepared_chunk_facts(4) [OF that(4)]] reads(5) [OF that(1)] that prepared_chunk_facts(1,2) [OF that(4)]
    unfolding content_present_def by auto
  have refs: "validate_raw_chunk_content codec ?dir r = Inr ()" if "r \<in> set (xs_refs s)" for r
  proof -
    from that loop(1) obtain i x where ix: "(i, x) \<in> set (event_refs infos)"
        "r = raw_chunk_bundle_ref_of (ei_event_id i) (the (chunks (rw_local_chunk_id x)))"
      by (auto simp: loop_state_def)
    from referenced_chunk [OF loop nc ix(1)] obtain y w where y: "chunks (rw_local_chunk_id x) = Some y" "w \<in> set ws"
        "chunk_hash w = chunk_hash y" "xr_bytes w = xr_bytes y" "prepared_chunk codec rows y" by metis
    with present [OF y(2-5)] show ?thesis
      by (simp add: ix(2) validate_raw_chunk_content_Inr raw_chunk_bundle_ref_of_def prepared_chunk_facts(3) [OF y(5)])
  qed
  have "validate_content codec ?dir c = Inr ()" if "c \<in> set (sm_contents m)" for c
    using that present prepared unfolding contents validate_content_Inr by (auto simp: chunk)
  with inventory entries refs show ?thesis
    using e by (simp add: files_well_formed_def export_view_def exported_def) (simp add: export_tree_def)
qed

subsection \<open>The exported records\<close>

lemma exported_events:
  assumes "build_event_records codec stored hashes = Inr (records, infos)"
  shows "map plain_info infos = map (record_info codec) records"
    "map sb_ordinal records = [0..<length records]" "map ei_ordinal infos = [0..<length infos]"
    "map ei_event_id infos = map (\<lambda>r. ev_event_id (er_event r)) stored"
    "map (\<lambda>r. pe_event_id (sb_event r)) records = map (\<lambda>r. ev_event_id (er_event r)) stored"
    "map (\<lambda>r. pe_session_id (sb_event r)) records = map (\<lambda>r. ev_session_id (er_event r)) stored"
    "r \<in> set records \<Longrightarrow> canonical_event_hash codec (sb_event r) = sb_event_hash r"
    "r \<in> set records \<Longrightarrow> sb_event_kind r = portable_kind (pe_payload (sb_event r))"
    "r \<in> set records \<Longrightarrow> \<exists>i \<in> set infos. raw_chunk_content_refs (pe_payload (sb_event r)) = map rw_content_hash (ei_raw_refs i)"
    "i \<in> set infos \<Longrightarrow> length (ei_raw_refs i) \<le> 1"
    "i \<in> set infos \<Longrightarrow> ei_content_refs i = map rw_content_hash (ei_raw_refs i)"
proof -
  note b = build_event_recordsD [OF assms]
  note f = event_exported_facts [OF b(3)]
  have len: "length infos = length records" using b by simp
  show plain: "map plain_info infos = map (record_info codec) records"
    using b f(1) by (intro nth_equalityI) simp_all
  show "map sb_ordinal records = [0..<length records]" "map ei_ordinal infos = [0..<length infos]"
    "map ei_event_id infos = map (\<lambda>r. ev_event_id (er_event r)) stored"
    "map (\<lambda>r. pe_event_id (sb_event r)) records = map (\<lambda>r. ev_event_id (er_event r)) stored"
    "map (\<lambda>r. pe_session_id (sb_event r)) records = map (\<lambda>r. ev_session_id (er_event r)) stored"
    using b f by (auto intro!: nth_equalityI)
  show "canonical_event_hash codec (sb_event r) = sb_event_hash r"
    "sb_event_kind r = portable_kind (pe_payload (sb_event r))"
    "\<exists>i \<in> set infos. raw_chunk_content_refs (pe_payload (sb_event r)) = map rw_content_hash (ei_raw_refs i)"
    if "r \<in> set records"
  proof -
    from that obtain k where k: "k < length stored" "r = records ! k" using b(1) by (auto simp: in_set_conv_nth)
    show "canonical_event_hash codec (sb_event r) = sb_event_hash r"
      "sb_event_kind r = portable_kind (pe_payload (sb_event r))"
      using f(4,5) [OF k(1)] k(2) by simp_all
    show "\<exists>i \<in> set infos. raw_chunk_content_refs (pe_payload (sb_event r)) = map rw_content_hash (ei_raw_refs i)"
      using f(11) [OF k(1)] k b(2) by (intro bexI [of _ "infos ! k"]) simp_all
  qed
  show "length (ei_raw_refs i) \<le> 1" "ei_content_refs i = map rw_content_hash (ei_raw_refs i)" if "i \<in> set infos"
  proof -
    from that obtain k where k: "k < length stored" "i = infos ! k" using b(2) by (auto simp: in_set_conv_nth)
    show "length (ei_raw_refs i) \<le> 1" using f(12) [OF k(1)] k(2) by simp
    have "plain_info (infos ! k) = record_info codec (records ! k)" using f(1) [OF k(1)] .
    then have "ei_content_refs (infos ! k) = raw_chunk_content_refs (pe_payload (sb_event (records ! k)))"
      by (metis plain_info_simps(5) record_info_simps(5))
    then show "ei_content_refs i = map rw_content_hash (ei_raw_refs i)"
      using f(11) [OF k(1)] k(2) by simp
  qed
qed

lemma distinct_event_refs:
  assumes "distinct (map ei_event_id infos)" "\<forall>i \<in> set infos. length (ei_raw_refs i) \<le> 1"
  shows "distinct (map (\<lambda>(i, r). (ei_event_id i, rw_content_hash r)) (event_refs infos))"
  using assms
proof (induction infos)
  case (Cons i infos)
  have "distinct (map (\<lambda>(i, r). (ei_event_id i, rw_content_hash r)) (map (Pair i) (ei_raw_refs i)))"
    using Cons.prems(2) by (cases "ei_raw_refs i") auto
  with Cons show ?case
    by (fastforce simp: event_refs_def)
qed (simp add: event_refs_def)

lemma in_event_refs: "(i, r) \<in> set (event_refs infos) \<longleftrightarrow> i \<in> set infos \<and> r \<in> set (ei_raw_refs i)"
  by (auto simp: event_refs_def)

text \<open>The state of one session the export relies on: its events and raw chunks belong to it, and its
  branches are consistent.\<close>

definition session_consistent ::
  "session_id \<Rightarrow> branch_record list \<Rightarrow> event_row list \<Rightarrow> raw_chunk_row list \<Rightarrow> event_record_info list \<Rightarrow> bool" where
  "session_consistent sid bs stored rows infos \<longleftrightarrow>
     distinct (map (\<lambda>r. ev_event_id (er_event r)) stored) \<and> (\<forall>r \<in> set stored. ev_session_id (er_event r) = sid) \<and>
     branches_consistent sid bs infos \<and> chunks_consistent sid rows infos"

lemma last_entry_plain:
  assumes "\<And>i. key (plain_info i) = key i"
  shows "last_entry key (map plain_info infos) k = map_option plain_info (last_entry key infos k)"
  by (simp add: last_entry_def rev_map find_map_list assms)

lemma branches_consistent_plain: "branches_consistent sid bs infos \<Longrightarrow> branches_consistent sid bs (map plain_info infos)"
  unfolding branches_consistent_def last_entry_plain [of ei_branch_id, OF plain_info_simps(3)]
  by (auto simp: image_image)

lemma exported_ref_ok:
  assumes e: "exported codec session bs stored rows records infos s m" and rb: "reads_back codec records s m"
    and c: "session_consistent (sr_session_id session) bs stored rows infos" and nc: "\<not> chunks_collide codec rows"
    and prep: "prepare_raw_chunks codec rows = (chunks, hashes)"
    and build: "build_event_records codec stored hashes = Inr (records, infos)"
    and loop: "loop_state chunks (event_refs infos) ws s" "\<forall>x \<in> ran chunks. prepared_chunk codec rows x"
    and ix: "(i, x) \<in> set (event_refs infos)"
    and r: "r = raw_chunk_bundle_ref_of (ei_event_id i) (the (chunks (rw_local_chunk_id x)))"
  shows "ref_key codec r = (ei_event_id i, rw_content_hash x)" "raw_ref_ok codec m (map plain_info infos) r"
    "\<exists>n < length rows. rf_chunk_ordinal r = n \<and> the (chunks (rw_local_chunk_id x)) = exported_chunk codec n (rows ! n)"
proof -
  note events = exported_events [OF build]
  from ix have i: "i \<in> set infos" "x \<in> set (ei_raw_refs i)" by (simp_all add: in_event_refs)
  from referenced_chunk [OF loop nc ix] obtain y where
    y: "chunks (rw_local_chunk_id x) = Some y" "chunk_hash y = rw_content_hash x" by metis
  from prepare_raw_chunksD(1) [OF prep y(1)] obtain n where
    n: "n < length rows" "rc_chunk_id (rows ! n) = rw_local_chunk_id x" "y = exported_chunk codec n (rows ! n)" by auto
  then have row: "rc_session_id (rows ! n) = sr_session_id session" "rc_branch_id (rows ! n) = ei_branch_id i"
    using c i by (auto simp: session_consistent_def chunks_consistent_def)
  have ids: "distinct (map ei_event_id (map plain_info infos))" "ei_event_id i \<in> set (map (\<lambda>r. pe_event_id (sb_event r)) records)"
    using c i(1) events(4,5) by (simp_all add: session_consistent_def o_def) (metis image_eqI list.set_map)
  then have eid: "raw_ref_event_id codec r = Inr (ei_event_id i)"
    using rb by (auto simp: raw_ref_event_id_def r raw_chunk_bundle_ref_of_def reads_back_def)
  show "ref_key codec r = (ei_event_id i, rw_content_hash x)"
    using y by (simp add: ref_key_def raw_event_def eid) (simp add: r raw_chunk_bundle_ref_of_def)
  show "\<exists>n < length rows. rf_chunk_ordinal r = n \<and> the (chunks (rw_local_chunk_id x)) = exported_chunk codec n (rows ! n)"
    using n y(1) by (intro exI [of _ n]) (simp add: r raw_chunk_bundle_ref_of_def)
  have "last_entry ei_event_id (map plain_info infos) (ei_event_id i) = Some (plain_info i)"
    using i(1) by (simp add: last_entry_distinct [OF ids(1)])
  moreover have "ei_branch_id i \<in> bm_branch_id ` set (sm_branches m)"
    using e c i(1) by (auto simp: exported_def build_branch_manifests_def branch_manifest_of_def image_image
      session_consistent_def branches_consistent_def)
  ultimately show "raw_ref_ok codec m (map plain_info infos) r"
    using e i events(11) [OF i(1)] y row n(3)
    by (simp add: raw_ref_ok_def raw_event_def eid) (simp add: r raw_chunk_bundle_ref_of_def exported_def)
qed

lemma exported_records_well_formed:
  assumes e: "exported codec session bs stored rows records infos s m" and rb: "reads_back codec records s m"
    and c: "session_consistent (sr_session_id session) bs stored rows infos" and nc: "\<not> chunks_collide codec rows"
  shows "records_well_formed codec (export_view codec m records s)"
proof -
  from exported_loop [OF e] obtain chunks hashes ws where prep: "prepare_raw_chunks codec rows = (chunks, hashes)"
    and build: "build_event_records codec stored hashes = Inr (records, infos)"
    and loop: "loop_state chunks (event_refs infos) ws s" "\<forall>x \<in> ran chunks. prepared_chunk codec rows x" .
  note events = exported_events [OF build]
  let ?v = "export_view codec m records s"
  have view: "bv_refs ?v = xs_refs s" "bv_records ?v = records" "bv_manifest ?v = m" "view_sid ?v = sr_session_id session"
      "view_infos codec ?v = map plain_info infos"
    using e events(1) by (simp_all add: export_view_def view_sid_def view_infos_def exported_def)
  have refs: "xs_refs s = map (\<lambda>(i, r). raw_chunk_bundle_ref_of (ei_event_id i) (the (chunks (rw_local_chunk_id r)))) (event_refs infos)"
    and hashes: "chunk_hash ` set ws = (\<lambda>(i, r). rw_content_hash r) ` set (event_refs infos)"
    using loop(1) by (simp_all add: loop_state_def)
  have known: "\<exists>x. chunks (rw_local_chunk_id r) = Some x \<and> chunk_hash x = rw_content_hash r" if "(i, r) \<in> set (event_refs infos)" for i r
    using loop(1) that by (auto simp: loop_state_def)
  have "raw_hashes ?v = map (\<lambda>(i, r). rw_content_hash r) (event_refs infos)"
    unfolding raw_hashes_def view refs by (auto simp: raw_chunk_bundle_ref_of_def dest!: known)
  then have raw: "set (raw_hashes ?v) = (\<lambda>(i, r). rw_content_hash r) ` set (event_refs infos)"
    by simp
  have content: "set (content_hashes ?v) = chunk_hash ` set ws"
    using e loop(1) by (simp add: content_hashes_def view exported_def loop_state_def image_image)
  have sid: "pe_session_id (sb_event r) = sr_session_id session" if "r \<in> set records" for r
    using c that arg_cong [OF events(6), of set] by (force simp: session_consistent_def)
  note ref = exported_ref_ok [OF e rb c nc prep build loop]
  let ?ref = "\<lambda>(i, r). raw_chunk_bundle_ref_of (ei_event_id i) (the (chunks (rw_local_chunk_id r)))"
  have keys: "map (ref_key codec) (xs_refs s) = map (\<lambda>(i, r). (ei_event_id i, rw_content_hash r)) (event_refs infos)"
    unfolding refs using ref(1) by auto
  have ids: "distinct (map ei_event_id infos)" "distinct (map (\<lambda>r. pe_event_id (sb_event r)) records)"
    using c events(4,5) by (simp_all add: session_consistent_def)
  have ok: "\<forall>r \<in> set (xs_refs s). raw_ref_ok codec m (map plain_info infos) r"
    unfolding refs using ref(2) by auto
  have consistent: "consistent_refs (xs_refs s)"
    unfolding consistent_refs_def refs
  proof (intro ballI impI)
    fix r r'
    assume r: "r \<in> set (map ?ref (event_refs infos))" and r': "r' \<in> set (map ?ref (event_refs infos))"
      and same: "rf_chunk_ordinal r = rf_chunk_ordinal r'"
    from r obtain i x where x: "(i, x) \<in> set (event_refs infos)" "r = ?ref (i, x)" by auto
    from r' obtain i' x' where x': "(i', x') \<in> set (event_refs infos)" "r' = ?ref (i', x')" by auto
    have "the (chunks (rw_local_chunk_id x)) = the (chunks (rw_local_chunk_id x'))"
      using ref(3) [OF x(1), of r] ref(3) [OF x'(1), of r'] x(2) x'(2) same by auto
    then show "raw_ref_identity r = raw_ref_identity r'"
      by (simp add: x(2) x'(2) raw_ref_identity_def raw_chunk_bundle_ref_of_def)
  qed
  have listed: "\<forall>i \<in> set (map plain_info infos). \<forall>h \<in> set (ei_content_refs i). (ei_event_id i, h) \<in> ref_key codec ` set (xs_refs s)"
    using arg_cong [OF keys, of set] events(11) by (force simp: in_event_refs)
  have records: "record_ok codec (set (content_hashes ?v)) (set (raw_hashes ?v)) (sr_session_id session) r"
    if "r \<in> set records" for r
    using events(7-9) [OF that] sid [OF that] unfolding record_ok_def content raw hashes
    by (force simp: in_event_refs)
  have "set (raw_hashes ?v) = cr_hash ` set (sm_contents m)"
    using raw content hashes by (simp add: content_hashes_def view)
  then have "set (raw_hashes ?v) \<subseteq> set (content_hashes ?v)" "\<forall>c \<in> set (sm_contents m). cr_hash c \<in> set (raw_hashes ?v)"
    using raw content hashes by auto
  moreover have "distinct (map (ref_key codec) (xs_refs s))"
    using distinct_event_refs [OF ids(1)] events(10) unfolding keys by blast
  ultimately show ?thesis
    unfolding records_well_formed_def raw_chunk_inventory_Inr view
    using events(2) records ids(2) ok consistent listed by blast
qed

subsection \<open>The exported bundle\<close>

lemma exported_well_formed:
  assumes e: "exported codec session bs stored rows records infos s m" and rb: "reads_back codec records s m"
    and c: "session_consistent (sr_session_id session) bs stored rows infos" and nc: "\<not> chunks_collide codec rows"
  shows "well_formed_bundle codec (written_files codec m records s) (export_view codec m records s)"
proof -
  from exported_loop [OF e] obtain hashes where build: "build_event_records codec stored hashes = Inr (records, infos)" by metis
  note events = exported_events [OF build]
  let ?infos = "map plain_info infos"
  have view: "bv_manifest (export_view codec m records s) = m" "view_infos codec (export_view codec m records s) = ?infos"
    using events(1) by (simp_all add: export_view_def view_infos_def)
  have bc: "branches_consistent (sr_session_id session) bs infos"
    using c by (simp add: session_consistent_def)
  have "sm_branches m = build_branch_manifests bs ?infos (Some (sm_bundle_hash m))"
    using e by (simp add: exported_def build_branch_manifests_def branch_manifest_plain)
  then have "branches_ok m ?infos"
    using e c events(4) branches_consistent_plain [OF bc]
    by (intro build_branch_manifests_ok) (auto simp: exported_def session_consistent_def o_def)
  moreover have "ranges_ok (sm_event_ranges m) ?infos"
    using e bc build_event_ranges_ok [OF events(3)] by (simp add: exported_def branches_consistent_def)
  moreover have "artifacts_ok m ?infos"
    using e by (simp add: exported_def artifacts_ok_def)
  ultimately show ?thesis
    unfolding well_formed_bundle_def view
    using exported_bundle_read [OF e rb] exported_files_well_formed [OF e nc] exported_records_well_formed [OF e rb c nc]
    by blast
qed

text \<open>The same in terms of the stored rows.\<close>

definition payload_chunk_ids :: "event_payload \<Rightarrow> i64 list" where
  "payload_chunk_ids p =
     (case p of CompletionChunk a b (Some cid) \<Rightarrow> [cid] | RawChunkPersisted a cid c d \<Rightarrow> [cid] | _ \<Rightarrow> [])"

lemma payload_from_live_ids:
  "payload_from_live p hashes = Inr (q, refs) \<Longrightarrow> map rw_local_chunk_id refs = payload_chunk_ids p"
  by (cases p) (auto simp: payload_chunk_ids_def raw_chunk_ref_def and_then_eq_Inr split: option.splits)

definition row_event_id :: "event_row \<Rightarrow> event_id" where
  "row_event_id r = ev_event_id (er_event r)"

definition row_branch_id :: "event_row \<Rightarrow> branch_id" where
  "row_branch_id r = ev_branch_id (er_event r)"

definition session_intact ::
  "session_id \<Rightarrow> branch_record list \<Rightarrow> event_row list \<Rightarrow> raw_chunk_row list \<Rightarrow> bool" where
  "session_intact sid bs stored rows \<longleftrightarrow>
     distinct (map row_event_id stored) \<and> (\<forall>r \<in> set stored. ev_session_id (er_event r) = sid) \<and>
     distinct (map br_branch_id bs) \<and> length (filter br_is_default bs) = 1 \<and>
     row_branch_id ` set stored \<subseteq> br_branch_id ` set bs \<and>
     (\<forall>b \<in> set bs.
        (\<forall>p. br_parent_branch_id b = Some p \<longrightarrow> p \<in> br_branch_id ` set bs) \<and>
        (\<forall>eid. br_parent_event_id b = Some eid \<longrightarrow>
           (\<exists>r \<in> set stored. row_event_id r = eid \<and> (\<forall>p. br_parent_branch_id b = Some p \<longrightarrow> row_branch_id r = p))) \<and>
        (\<forall>r \<in> set stored. br_head_event_id b = Some (row_event_id r) \<longrightarrow>
           last_entry row_branch_id stored (br_branch_id b) = Some r)) \<and>
     (\<forall>r \<in> set stored. \<forall>cid \<in> set (payload_chunk_ids (ev_payload (er_event r))). \<forall>c \<in> set rows.
        rc_chunk_id c = cid \<longrightarrow> rc_branch_id c = row_branch_id r)"

lemma distinct_key: "distinct (map f xs) \<Longrightarrow> x \<in> set xs \<Longrightarrow> y \<in> set xs \<Longrightarrow> f x = f y \<Longrightarrow> x = y"
  by (auto simp: distinct_map dest: inj_onD)

definition same_row :: "event_record_info \<Rightarrow> event_row \<Rightarrow> bool" where
  "same_row i r \<longleftrightarrow> ei_event_id i = row_event_id r \<and> ei_branch_id i = row_branch_id r \<and>
     map rw_local_chunk_id (ei_raw_refs i) = payload_chunk_ids (ev_payload (er_event r))"

lemma last_entry_rel:
  assumes "list_all2 R xs ys" "\<And>x y. R x y \<Longrightarrow> f x = g y"
  shows "rel_option R (last_entry f xs k) (last_entry g ys k)"
proof -
  have "list_all2 R xs ys \<Longrightarrow> rel_option R (List.find (\<lambda>x. f x = k) xs) (List.find (\<lambda>y. g y = k) ys)" for xs ys
    by (induction rule: list_all2_induct) (auto dest: assms(2))
  then show ?thesis
    using assms(1) by (simp add: last_entry_def)
qed

lemma exported_rows:
  assumes "build_event_records codec stored hashes = Inr (records, infos)"
  shows "list_all2 same_row infos stored"
proof -
  note b = build_event_recordsD [OF assms]
  have "same_row (infos ! k) (stored ! k)" if "k < length stored" for k
  proof -
    note f = event_exported_facts [OF b(3) [OF that]]
    from b(3) [OF that] obtain q where "envelope_from_live (er_event (stored ! k)) hashes = Inr (q, ei_raw_refs (infos ! k))"
      by (auto simp: event_exported_def)
    then have "payload_from_live (ev_payload (er_event (stored ! k))) hashes = Inr (pe_payload q, ei_raw_refs (infos ! k))"
      by (simp add: envelope_from_live_eq)
    from payload_from_live_ids [OF this] f(7,10) show ?thesis
      by (simp add: same_row_def row_event_id_def row_branch_id_def)
  qed
  with b(2) show ?thesis
    by (simp add: list_all2_conv_all_nth)
qed

lemma session_intact_consistent:
  assumes i: "session_intact sid bs stored rows" and build: "build_event_records codec stored hashes = Inr (records, infos)"
    and own: "\<forall>b \<in> set bs. br_session_id b = sid" "\<forall>r \<in> set rows. rc_session_id r = sid"
  shows "session_consistent sid bs stored rows infos"
proof -
  note rel = exported_rows [OF build]
  have left: "\<exists>r \<in> set stored. same_row i r" if "i \<in> set infos" for i
    using rel that by (metis in_set_conv_nth list_all2_conv_all_nth)
  have right: "\<exists>i \<in> set infos. same_row i r" if "r \<in> set stored" for r
    using rel that by (metis in_set_conv_nth list_all2_conv_all_nth)
  have ids: "distinct (map ei_event_id infos)"
    using exported_events(4) [OF build] i by (simp add: session_intact_def row_event_id_def [abs_def])
  have head: "last_entry ei_branch_id infos (br_branch_id b) = Some i"
    if b: "b \<in> set bs" "br_head_event_id b = Some (ei_event_id i)" and i': "i \<in> set infos" for b i
  proof -
    from left [OF i'] obtain r where r: "r \<in> set stored" "same_row i r" ..
    then have "last_entry row_branch_id stored (br_branch_id b) = Some r"
      using i b by (auto simp: session_intact_def same_row_def)
    with last_entry_rel [OF rel, of ei_branch_id row_branch_id "br_branch_id b"] obtain j where
      j: "last_entry ei_branch_id infos (br_branch_id b) = Some j" "same_row j r"
      by (auto simp: same_row_def option_rel_Some2)
    have "j = i"
      using distinct_key [OF ids, of j i] last_entry_Some [OF j(1)] i' j(2) r(2) by (simp add: same_row_def)
    with j(1) show ?thesis by simp
  qed
  have parent: "\<exists>i \<in> set infos. ei_event_id i = eid \<and> (\<forall>p. br_parent_branch_id b = Some p \<longrightarrow> ei_branch_id i = p)"
    if b: "b \<in> set bs" "br_parent_event_id b = Some eid" for b eid
  proof -
    from i b obtain r where r: "r \<in> set stored" "row_event_id r = eid" "\<forall>p. br_parent_branch_id b = Some p \<longrightarrow> row_branch_id r = p"
      unfolding session_intact_def by blast
    from right [OF r(1)] obtain j where "j \<in> set infos" "ei_event_id j = row_event_id r" "ei_branch_id j = row_branch_id r"
      by (auto simp: same_row_def)
    with r(2,3) show ?thesis by (intro bexI [of _ j]) simp_all
  qed
  have owned: "ei_branch_id ` set infos \<subseteq> br_branch_id ` set bs"
  proof (rule image_subsetI)
    fix j assume "j \<in> set infos"
    from left [OF this] obtain r where "r \<in> set stored" "ei_branch_id j = row_branch_id r"
      by (auto simp: same_row_def)
    moreover have "row_branch_id ` set stored \<subseteq> br_branch_id ` set bs"
      using i by (simp add: session_intact_def)
    ultimately show "ei_branch_id j \<in> br_branch_id ` set bs" by auto
  qed
  have "branches_consistent sid bs infos"
    unfolding branches_consistent_def
    using i own(1) head parent owned
    by (intro conjI ballI allI impI) (auto simp only: session_intact_def)
  moreover have "chunks_consistent sid rows infos"
    unfolding chunks_consistent_def
  proof (intro conjI own(2) ballI impI)
    fix j x c
    assume "j \<in> set infos" "x \<in> set (ei_raw_refs j)" "c \<in> set rows" "rc_chunk_id c = rw_local_chunk_id x"
    moreover from left [OF this(1)] obtain r where r: "r \<in> set stored" "same_row j r" ..
    ultimately have "rw_local_chunk_id x \<in> set (payload_chunk_ids (ev_payload (er_event r)))"
      unfolding same_row_def by (metis image_eqI list.set_map)
    with i r \<open>c \<in> set rows\<close> \<open>rc_chunk_id c = _\<close> show "rc_branch_id c = ei_branch_id j"
      by (simp add: session_intact_def same_row_def)
  qed
  ultimately show ?thesis
    using i by (simp add: session_consistent_def session_intact_def row_event_id_def [abs_def])
qed

text \<open>The parts an export computes before it writes.\<close>

definition exported_parts ::
  "bundle_codec \<Rightarrow> event_row list \<Rightarrow> raw_chunk_row list
     \<Rightarrow> (bundle_event_record list \<times> event_record_info list \<times> export_state) result" where
  "exported_parts codec stored rows =
     (case prepare_raw_chunks codec rows of (chunks, hashes) \<Rightarrow>
      and_then (build_event_records codec stored hashes) (\<lambda>(records, infos).
      and_then (build_raw_chunk_refs codec chunks infos []) (\<lambda>s. Inr (records, infos, s))))"

lemma exported_parts_eq:
  "exported codec session bs stored rows records infos s m \<Longrightarrow> exported_parts codec stored rows = Inr (records, infos, s)"
  by (auto simp: exported_def exported_parts_def)

lemma load_session_id: "load_session sid db = Some session \<Longrightarrow> sr_session_id session = sid"
  by (auto simp: load_session_def parse_session_record_def dest: sql_lookup_SomeD)

text \<open>C15: An exported bundle validates. When an export without artifacts of a session whose stored rows
  are intact succeeds, the directory it has written passes the validator, under the bundle hash, the
  session and the counts of its manifest. Intact means: distinct event ids; branches with distinct
  ids, one default, parents in the session and heads that are the last events of their branches; raw
  chunks on the branch of the event that refers to them. Hypotheses on the dependencies: the texts of
  the records read back, and SHA-256 does not collide on the raw chunks of the session.\<close>

theorem exported_bundle_validates:
  assumes export: "export_session_bundle_directory codec host out options sid db = Inr (dir, m)"
    and "eo_artifacts options = []" and stored: "load_session_event_log (bc_json_number codec) sid db = Inr stored"
    and intact: "session_intact sid (load_branches sid db) stored (load_all_raw_chunks sid db)"
    and parts: "exported_parts codec stored (load_all_raw_chunks sid db) = Inr (records, infos, s)"
    and rb: "reads_back codec records s m" and nc: "\<not> chunks_collide codec (load_all_raw_chunks sid db)"
  shows "\<exists>report. validate_session_bundle_directory codec dir = Inr report \<and>
    vr_bundle_hash report = sm_bundle_hash m \<and> vr_session_id report = sid \<and>
    vr_event_count report = length stored \<and> vr_raw_chunk_reference_count report = length (xs_refs s)"
proof -
  from export stored obtain session where session: "load_session sid db = Some session"
    and wrote: "write_bundle codec host options session (load_branches sid db) stored (load_all_raw_chunks sid db) = Inr (dir, m)"
    by (auto simp: export_session_bundle_directory_def and_then_eq_Inr)
  from write_bundle_exported [OF wrote assms(2)] obtain records' infos' s' where
    e: "exported codec session (load_branches sid db) stored (load_all_raw_chunks sid db) records' infos' s' m"
    and dir: "dir = written_files codec m records' s'" .
  with exported_parts_eq [OF e] parts have same: "records' = records" "infos' = infos" "s' = s" by auto
  note e = e [unfolded same]
  from exported_loop [OF e] obtain hashes where build: "build_event_records codec stored hashes = Inr (records, infos)" by metis
  have own: "\<forall>b \<in> set (load_branches sid db). br_session_id b = sid" "\<forall>r \<in> set (load_all_raw_chunks sid db). rc_session_id r = sid"
    by (simp_all add: load_branches_def load_all_raw_chunks_def sql_ordered_def)
  have "well_formed_bundle codec dir (export_view codec m records s)"
    unfolding dir same
    by (rule exported_well_formed [OF e rb _ nc])
      (use session_intact_consistent [OF intact build own] load_session_id [OF session] in simp)
  from well_formed_validates [OF this] show ?thesis
    using e load_session_id [OF session] build_event_recordsD(1) [OF build]
    by (simp add: view_report_def export_view_def view_sid_def exported_def)
qed

end
