(* ===== verification/Bt_BundleExample.thy ===== *)
theory Bt_BundleExample
  imports Bt_Example Bt_SyncProps Bt_Import Bt_ExportProps
begin

section \<open>Concrete bundles\<close>

text \<open>
  Two bundles of the session of \<open>Bt_Example\<close>, the second one extending the first by an event that
  persists a raw chunk, over a small codec: the digest is the text padded to 32 bytes, and every
  record has a short name as its text. The registry codec writes numbers in unary and texts with
  their length.
\<close>

subsection \<open>Codec and records\<close>

definition bx_digest :: "string \<Rightarrow> string" where
  "bx_digest b = take 32 (b @ replicate 32 (CHR 0x00))"

definition bx_hash :: "string \<Rightarrow> portable_hash" where
  "bx_hash b = hash_bytes bx_digest b"

definition bx_event :: "string \<Rightarrow> portable_event_payload \<Rightarrow> portable_envelope" where
  "bx_event eid p =
     \<lparr>pe_event_id = EventId eid, pe_session_id = ex_sid, pe_branch_id = ex_bid, pe_turn_id = None,
      pe_span_id = SpanId ''x'', pe_parent_span_id = None, pe_span_kind = SkSession, pe_occurred_at = 7,
      pe_payload = p, pe_attributes = []\<rparr>"

definition bx_record :: "nat \<Rightarrow> string \<Rightarrow> portable_event_payload \<Rightarrow> bundle_event_record" where
  "bx_record n eid p =
     \<lparr>sb_ordinal = n, sb_event_kind = portable_kind p, sb_event_hash = bx_hash eid, sb_event = bx_event eid p\<rparr>"

definition bx_r0 :: bundle_event_record where
  "bx_r0 = bx_record 0 ''e0'' (P_SessionCancelCleared ''x'')"

definition bx_r1 :: bundle_event_record where
  "bx_r1 = bx_record 1 ''e1'' (P_RawChunkPersisted ''p'' (bx_hash ''X'') ''s'' None)"

definition bx_content :: content_ref where
  "bx_content = \<lparr>cr_hash = bx_hash ''X'', cr_media_type = None, cr_size_bytes = 1, cr_path = Some ''raw_chunks/a''\<rparr>"

definition bx_ref :: raw_chunk_bundle_ref where
  "bx_ref =
     \<lparr>rf_chunk_ordinal = 0, rf_session_id = ex_sid, rf_branch_id = Some ex_bid, rf_turn_id = None,
      rf_llm_call_ordinal = None, rf_event_id = Some ''e1'', rf_provider = ''p'', rf_stream_name = ''s'',
      rf_content = bx_content\<rparr>"

definition bx_node :: "string \<Rightarrow> nat \<Rightarrow> string \<Rightarrow> session_node_ref" where
  "bx_node bundle n eid =
     \<lparr>nr_bundle_hash = Some (bx_hash bundle), nr_session_id = ex_sid, nr_branch_id = ex_bid, nr_ordinal = n,
      nr_store_seq_id = None, nr_event_id = EventId eid, nr_event_hash = bx_hash eid\<rparr>"

definition bx_manifest :: "string \<Rightarrow> nat \<Rightarrow> string \<Rightarrow> content_ref list \<Rightarrow> session_bundle_manifest" where
  "bx_manifest bundle n eid contents =
     \<lparr>sm_schema_version = 1, sm_bundle_hash = bx_hash bundle, sm_session = ex_session,
      sm_branches = [\<lparr>bm_branch_id = ex_bid, bm_parent_branch_id = None, bm_parent_event_id = None,
        bm_head = Some (bx_node bundle n eid), bm_is_default = True, bm_summary = None\<rparr>],
      sm_event_ranges = [\<lparr>rg_branch_id = ex_bid, rg_ordinal_start = 0, rg_ordinal_end = n,
        rg_first_event_hash = bx_hash ''e0'', rg_last_event_hash = bx_hash eid, rg_seq_start = None,
        rg_seq_end = None\<rparr>],
      sm_producer = \<lparr>pr_name = ''belltower'', pr_version = ''0''\<rparr>, sm_redaction = RedactionNone,
      sm_artifact_mode = TraceOnly, sm_contents = contents, sm_artifacts = []\<rparr>"

definition bx_checksums :: "(string \<times> string) list \<Rightarrow> bundle_checksums" where
  "bx_checksums files =
     \<lparr>cs_schema_version = 1,
      cs_files = map (\<lambda>(p, b). \<lparr>ck_path = p, ck_hash = bx_hash b, ck_size_bytes = length b\<rparr>) files\<rparr>"

definition bx_files1 :: "(string \<times> string) list" where
  "bx_files1 = [(''events.jsonl'', ''e0'' @ [nl]), (''raw_chunk_refs.jsonl'', [])]"

definition bx_files2 :: "(string \<times> string) list" where
  "bx_files2 = [(''events.jsonl'', ''e0'' @ [nl] @ ''e1'' @ [nl]), (''raw_chunk_refs.jsonl'', ''r0'' @ [nl]),
     (''raw_chunks/a'', ''X'')]"

definition bx_lookup :: "(string \<times> 'a) list \<Rightarrow> string \<Rightarrow> string + 'a" where
  "bx_lookup table s = (case map_of table s of None \<Rightarrow> Inl ''unknown text'' | Some v \<Rightarrow> Inr v)"

definition bx_codec :: bundle_codec where
  "bx_codec =
     \<lparr>bc_digest = bx_digest, bc_event_value = (\<lambda>e. event_id_text (pe_event_id e)),
      bc_event_line = (\<lambda>r. event_id_text (pe_event_id (sb_event r))),
      bc_parse_event = bx_lookup [(''e0'', bx_r0), (''e1'', bx_r1)],
      bc_ref_line = (\<lambda>r. ''r0''), bc_parse_ref = bx_lookup [(''r0'', bx_ref)],
      bc_checksums_text = (\<lambda>c. if length (cs_files c) = 2 then ''c1'' else ''c2''),
      bc_parse_checksums = bx_lookup [(''c1'', bx_checksums bx_files1), (''c2'', bx_checksums bx_files2)],
      bc_manifest_text = (\<lambda>m. if sm_contents m = [] then ''m1'' else ''m2''),
      bc_parse_manifest = bx_lookup [(''m1'', bx_manifest ''c1'' 0 ''e0'' []), (''m2'', bx_manifest ''c2'' 1 ''e1'' [bx_content])],
      bc_parse_event_id = (\<lambda>s. Inr (EventId s)), bc_json_number = Inr\<rparr>"

definition bx_dir :: "string \<Rightarrow> string \<Rightarrow> (string \<times> string) list \<Rightarrow> bundle_dir" where
  "bx_dir m c files =
     (''manifest.json'', FsFile m) # (''checksums.json'', FsFile c) # map (\<lambda>(p, b). (p, FsFile b)) files"

definition bx_dir1 :: bundle_dir where "bx_dir1 = bx_dir ''m1'' ''c1'' bx_files1"
definition bx_dir2 :: bundle_dir where "bx_dir2 = bx_dir ''m2'' ''c2'' bx_files2"

definition bx_view1 :: bundle_view where
  "bx_view1 = \<lparr>bv_manifest = bx_manifest ''c1'' 0 ''e0'' [], bv_checksums_bytes = ''c1'',
     bv_checksums = bx_checksums bx_files1, bv_refs = [], bv_records = [bx_r0]\<rparr>"

definition bx_view2 :: bundle_view where
  "bx_view2 = \<lparr>bv_manifest = bx_manifest ''c2'' 1 ''e1'' [bx_content], bv_checksums_bytes = ''c2'',
     bv_checksums = bx_checksums bx_files2, bv_refs = [bx_ref], bv_records = [bx_r0, bx_r1]\<rparr>"

lemmas bundle_names = SESSION_BT_MANIFEST_def SESSION_BT_EVENTS_def SESSION_BT_RAW_CHUNK_REFS_def
  SESSION_BT_CHECKSUMS_def SESSION_BT_RAW_CHUNKS_DIR_def SESSION_BT_ARTIFACTS_DIR_def

subsection \<open>The example bundles are well-formed\<close>

lemma bx_hash_codec: "bundle_hash_bytes bx_codec b = bx_hash b"
  by (simp add: bundle_hash_bytes_def bx_codec_def bx_hash_def)

lemma bx_event_hash: "canonical_event_hash bx_codec (bx_event eid p) = bx_hash eid"
  by (simp add: canonical_event_hash_def bx_hash_codec) (simp add: bx_codec_def bx_event_def)

lemma bx_paths:
  "list_all (\<lambda>p. validate_bundle_relative_path p = Inr ())
     [''manifest.json'', ''checksums.json'', ''events.jsonl'', ''raw_chunk_refs.jsonl'', ''raw_chunks/a'']"
  by code_simp

lemma bx_reads:
  "fs_read bx_dir1 ''manifest.json'' = Inr ''m1''" "fs_read bx_dir1 ''checksums.json'' = Inr ''c1''"
  "fs_read bx_dir1 ''events.jsonl'' = Inr (''e0'' @ [nl])" "fs_read bx_dir1 ''raw_chunk_refs.jsonl'' = Inr []"
  "fs_read bx_dir2 ''manifest.json'' = Inr ''m2''" "fs_read bx_dir2 ''checksums.json'' = Inr ''c2''"
  "fs_read bx_dir2 ''events.jsonl'' = Inr (''e0'' @ [nl] @ ''e1'' @ [nl])"
  "fs_read bx_dir2 ''raw_chunk_refs.jsonl'' = Inr (''r0'' @ [nl])"
  "fs_read bx_dir2 ''raw_chunks/a'' = Inr ''X''"
  by code_simp+

lemma bx_lines:
  "str_lines [CHR ''e'', CHR ''0'', nl] = [''e0'']" "str_lines [] = []" "str_lines [CHR ''e'', CHR ''0'', nl, CHR ''e'', CHR ''1'', nl] = [''e0'', ''e1'']"
  "str_lines [CHR ''r'', CHR ''0'', nl] = [''r0'']" "str_trim ''e0'' = ''e0''" "str_trim ''e1'' = ''e1''" "str_trim ''r0'' = ''r0''"
  "valid_utf8 [CHR ''e'', CHR ''0'', nl]" "valid_utf8 [CHR ''e'', CHR ''0'', nl, CHR ''e'', CHR ''1'', nl]" "valid_utf8 [CHR ''r'', CHR ''0'', nl]" "valid_utf8 []"
  "first_segment ''raw_chunks/a'' = ''raw_chunks''"
  by code_simp+

lemma bx_lookups:
  "bc_parse_manifest bx_codec ''m1'' = Inr (bx_manifest ''c1'' 0 ''e0'' [])"
  "bc_parse_manifest bx_codec ''m2'' = Inr (bx_manifest ''c2'' 1 ''e1'' [bx_content])"
  "bc_parse_checksums bx_codec ''c1'' = Inr (bx_checksums bx_files1)"
  "bc_parse_checksums bx_codec ''c2'' = Inr (bx_checksums bx_files2)"
  "bc_parse_event bx_codec ''e0'' = Inr bx_r0" "bc_parse_event bx_codec ''e1'' = Inr bx_r1"
  "bc_parse_ref bx_codec ''r0'' = Inr bx_ref"
  by (simp_all add: bx_codec_def bx_lookup_def)

lemmas bx_read_defs = read_manifest_def read_json_def read_raw_chunk_refs_def read_event_records_def
  read_jsonl_def serde_json_error_def bundle_names bx_reads bx_lines bx_lookups

lemma bx_bundle_read: "bundle_read bx_codec bx_dir1 bx_view1" "bundle_read bx_codec bx_dir2 bx_view2"
  unfolding bundle_read_def bx_view1_def bx_view2_def by (simp_all add: bx_read_defs)

lemmas bx_defs = bx_view1_def bx_view2_def bx_manifest_def bx_checksums_def bx_files1_def bx_files2_def
  bx_r0_def bx_r1_def bx_record_def bx_ref_def bx_content_def bx_node_def

lemmas bx_path_ok = bx_paths [simplified]

lemma bx_entries:
  "set bx_dir1 = {(''manifest.json'', FsFile ''m1''), (''checksums.json'', FsFile ''c1''),
     (''events.jsonl'', FsFile [CHR ''e'', CHR ''0'', nl]), (''raw_chunk_refs.jsonl'', FsFile [])}"
  "set bx_dir2 = {(''manifest.json'', FsFile ''m2''), (''checksums.json'', FsFile ''c2''),
     (''events.jsonl'', FsFile [CHR ''e'', CHR ''0'', nl, CHR ''e'', CHR ''1'', nl]),
     (''raw_chunk_refs.jsonl'', FsFile [CHR ''r'', CHR ''0'', nl]), (''raw_chunks/a'', FsFile ''X'')}"
  by (simp_all add: bx_dir1_def bx_dir2_def bx_dir_def bx_files1_def bx_files2_def)

lemma bx_files_well_formed: "files_well_formed bx_codec bx_dir1 bx_view1" "files_well_formed bx_codec bx_dir2 bx_view2"
  unfolding files_well_formed_def inventory_closed_Inr verify_file_checksum_Inr validate_raw_chunk_content_Inr
    validate_content_Inr content_present_def payload_files_def content_paths_def bx_hash_codec bx_entries
  by (simp_all add: bx_defs SESSION_BT_SCHEMA_VERSION_def bundle_names bx_path_ok bx_reads map_filter_def
    insert_Diff_if) (simp_all add: insert_commute)

lemma bx_event_infos:
  "view_infos bx_codec bx_view1 = [record_info bx_codec bx_r0]"
  "view_infos bx_codec bx_view2 = [record_info bx_codec bx_r0, record_info bx_codec bx_r1]"
  by (simp_all add: view_infos_def bx_view1_def bx_view2_def)

lemma bx_info:
  "record_info bx_codec bx_r0 = \<lparr>ei_ordinal = 0, ei_event_id = EventId ''e0'', ei_branch_id = ex_bid,
     ei_event_hash = bx_hash ''e0'', ei_content_refs = [], ei_raw_refs = []\<rparr>"
  "record_info bx_codec bx_r1 = \<lparr>ei_ordinal = 1, ei_event_id = EventId ''e1'', ei_branch_id = ex_bid,
     ei_event_hash = bx_hash ''e1'', ei_content_refs = [bx_hash ''X''], ei_raw_refs = []\<rparr>"
  by (simp_all add: record_info_def bx_r0_def bx_r1_def bx_record_def bx_event_hash)
    (simp_all add: bx_event_def raw_chunk_content_refs_def)

lemma bx_raw_event: "raw_ref_event_id bx_codec bx_ref = Inr (EventId ''e1'')"
  by (simp add: raw_ref_event_id_def bx_ref_def bx_codec_def)

lemma bx_record_ok:
  "record_ok bx_codec cs rs ex_sid bx_r0"
  "bx_hash ''X'' \<in> cs \<Longrightarrow> bx_hash ''X'' \<in> rs \<Longrightarrow> record_ok bx_codec cs rs ex_sid bx_r1"
  by (simp_all add: record_ok_def bx_r0_def bx_r1_def bx_record_def bx_event_hash)
    (simp_all add: bx_event_def raw_chunk_content_refs_def)

lemma bx_ref_key: "raw_event bx_codec bx_ref = EventId ''e1''"
  "ref_key bx_codec bx_ref = (EventId ''e1'', bx_hash ''X'')"
  by (simp_all add: ref_key_def raw_event_def bx_raw_event) (simp add: bx_ref_def bx_content_def)

lemma bx_ref_ok: "raw_ref_ok bx_codec (bv_manifest bx_view2) (view_infos bx_codec bx_view2) bx_ref"
  unfolding raw_ref_ok_def bx_ref_key bx_raw_event bx_event_infos bx_info
  by (simp add: bx_view2_def bx_manifest_def bx_ref_def bx_content_def ex_session_def last_entry_def)

lemma bx_event_ids:
  "map sb_ordinal [bx_r0, bx_r1] = [0, 1]"
  "map (\<lambda>r. pe_event_id (sb_event r)) [bx_r0, bx_r1] = [EventId ''e0'', EventId ''e1'']"
  by (simp_all add: bx_r0_def bx_r1_def bx_record_def bx_event_def)

lemma bx_view_hashes:
  "raw_hashes bx_view1 = []" "content_hashes bx_view1 = []" "view_sid bx_view1 = ex_sid"
  "raw_hashes bx_view2 = [bx_hash ''X'']" "content_hashes bx_view2 = [bx_hash ''X'']" "view_sid bx_view2 = ex_sid"
  by (simp_all add: raw_hashes_def content_hashes_def view_sid_def bx_view1_def bx_view2_def bx_manifest_def
    bx_ref_def bx_content_def ex_session_def)

lemma bx_view_fields:
  "bv_refs bx_view1 = []" "bv_records bx_view1 = [bx_r0]" "sm_contents (bv_manifest bx_view1) = []"
  "bv_refs bx_view2 = [bx_ref]" "bv_records bx_view2 = [bx_r0, bx_r1]"
  "sm_contents (bv_manifest bx_view2) = [bx_content]" "cr_hash bx_content = bx_hash ''X''"
  by (simp_all add: bx_view1_def bx_view2_def bx_manifest_def bx_content_def)

lemma bx_records_well_formed: "records_well_formed bx_codec bx_view1" "records_well_formed bx_codec bx_view2"
proof -
  note defs = records_well_formed_def raw_chunk_inventory_Inr bx_view_hashes bx_view_fields
  show "records_well_formed bx_codec bx_view1"
    unfolding defs using bx_record_ok(1) bx_event_ids
    by (simp add: consistent_refs_def bx_event_infos bx_info)
  have "\<forall>i \<in> set (view_infos bx_codec bx_view2). \<forall>h \<in> set (ei_content_refs i).
      (ei_event_id i, h) \<in> ref_key bx_codec ` set [bx_ref]"
    by (simp add: bx_event_infos bx_info bx_ref_key)
  then show "records_well_formed bx_codec bx_view2"
    unfolding defs using bx_record_ok bx_event_ids bx_ref_ok
    by (simp add: bx_ref_key bx_view_fields consistent_refs_def)
qed

lemma bx_branches_ok: "branches_ok (bv_manifest bx_view1) (view_infos bx_codec bx_view1)"
  "branches_ok (bv_manifest bx_view2) (view_infos bx_codec bx_view2)"
  unfolding branches_ok_def branch_parent_ok_def branch_head_ok_def head_matches_def bx_event_infos bx_info
  by (simp_all add: bx_defs last_entry_def ex_session_def)

lemma bx_ranges_ok: "ranges_ok (sm_event_ranges (bv_manifest bx_view1)) (view_infos bx_codec bx_view1)"
  "ranges_ok (sm_event_ranges (bv_manifest bx_view2)) (view_infos bx_codec bx_view2)"
  unfolding ranges_ok_def range_ok_def range_ordinals_def bx_event_infos bx_info
  by (simp_all add: bx_defs last_entry_def)

lemma bx_well_formed: "well_formed_bundle bx_codec bx_dir1 bx_view1" "well_formed_bundle bx_codec bx_dir2 bx_view2"
  using bx_bundle_read bx_files_well_formed bx_records_well_formed bx_branches_ok bx_ranges_ok
  by (simp_all add: well_formed_bundle_def artifacts_ok_def) (simp_all add: bx_defs)

lemma bx_valid: "valid_bundle bx_codec bx_dir1 (bx_hash ''c1'')" "valid_bundle bx_codec bx_dir2 (bx_hash ''c2'')"
  using well_formed_validates [OF bx_well_formed(1)] well_formed_validates [OF bx_well_formed(2)]
  by (auto simp: valid_bundle_def view_report_def bx_defs)

subsection \<open>A registry codec\<close>

definition bx_nat :: "nat \<Rightarrow> string" where
  "bx_nat n = replicate n (CHR ''x'') @ ''.''"

definition bx_str :: "string \<Rightarrow> string" where
  "bx_str s = bx_nat (length s) @ s"

definition bx_head_text :: "remote_head \<Rightarrow> string" where
  "bx_head_text h = bx_str (branch_id_text (rh_branch_id h)) @ bx_str (hash_text (rh_head_event_hash h))
     @ bx_str (hash_text (rh_bundle_hash h))"

definition bx_state_text :: "remote_state \<Rightarrow> string" where
  "bx_state_text st =
     bx_nat (rs_schema_version st) @ bx_str (session_id_text (rs_session_id st))
       @ (case rs_default_branch_id st of None \<Rightarrow> bx_nat 0 | Some b \<Rightarrow> bx_nat 1 @ bx_str (branch_id_text b))
       @ bx_nat (length (rs_branch_heads st)) @ concat (map bx_head_text (rs_branch_heads st))"

fun bx_get_nat :: "string \<Rightarrow> nat \<times> string" where
  "bx_get_nat [] = (0, [])"
| "bx_get_nat (c # cs) = (if c = CHR ''x'' then (let (n, r) = bx_get_nat cs in (Suc n, r)) else (0, cs))"

definition bx_get_str :: "string \<Rightarrow> string \<times> string" where
  "bx_get_str s = (let (n, r) = bx_get_nat s in (take n r, drop n r))"

fun bx_get_heads :: "nat \<Rightarrow> string \<Rightarrow> remote_head list" where
  "bx_get_heads 0 s = []"
| "bx_get_heads (Suc n) s =
     (let (b, s1) = bx_get_str s; (e, s2) = bx_get_str s1; (h, s3) = bx_get_str s2
      in \<lparr>rh_branch_id = BranchId b, rh_head_event_hash = PortableHash e, rh_bundle_hash = PortableHash h\<rparr>
           # bx_get_heads n s3)"

definition bx_parse_state :: "string \<Rightarrow> string + remote_state" where
  "bx_parse_state s =
     (let (v, s1) = bx_get_nat s; (sid, s2) = bx_get_str s1; (d, s3) = bx_get_nat s2;
          (bid, s4) = (if d = 0 then ([], s3) else bx_get_str s3); (n, s5) = bx_get_nat s4
      in Inr \<lparr>rs_schema_version = v, rs_session_id = SessionId sid,
              rs_default_branch_id = (if d = 0 then None else Some (BranchId bid)),
              rs_branch_heads = bx_get_heads n s5\<rparr>)"

definition bx_sc :: sync_codec where
  "bx_sc = \<lparr>sc_state_text = bx_state_text, sc_parse_state = bx_parse_state\<rparr>"

lemma bx_get_nat [simp]: "bx_get_nat (bx_nat n @ s) = (n, s)"
  by (induction n) (simp_all add: bx_nat_def)

lemma bx_get_str [simp]: "bx_get_str (bx_str t @ s) = (t, s)"
  by (simp add: bx_get_str_def bx_str_def)

lemma bx_get_heads: "bx_get_heads (length hs) (concat (map bx_head_text hs)) = hs"
  by (induction hs) (simp_all add: bx_head_text_def)

lemma bx_texts_parse: "texts_parse bx_sc"
  by (auto simp: texts_parse_def bx_sc_def bx_state_text_def bx_parse_state_def bx_get_heads split: option.splits)

subsection \<open>Two pushes\<close>

definition bx_dirs :: "bundle_dir set" where
  "bx_dirs = {bx_dir1, bx_dir2}"

definition bx_state :: "string \<Rightarrow> string \<Rightarrow> remote_state" where
  "bx_state eid bundle =
     \<lparr>rs_schema_version = 1, rs_session_id = ex_sid, rs_default_branch_id = Some ex_bid,
      rs_branch_heads = [\<lparr>rh_branch_id = ex_bid, rh_head_event_hash = bx_hash eid, rh_bundle_hash = bx_hash bundle\<rparr>]\<rparr>"

definition bx_remote1 :: remote_session where
  "bx_remote1 = \<lparr>rx_heads_json = Some (bx_state_text (bx_state ''e0'' ''c1'')), rx_locked = False,
     rx_bundles = [(bundle_name (bx_hash ''c1''), bx_dir1)]\<rparr>"

definition bx_remote2 :: remote_session where
  "bx_remote2 = \<lparr>rx_heads_json = Some (bx_state_text (bx_state ''e1'' ''c2'')), rx_locked = False,
     rx_bundles = [(bundle_name (bx_hash ''c1''), bx_dir1), (bundle_name (bx_hash ''c2''), bx_dir2)]\<rparr>"

definition bx_report :: "string option \<Rightarrow> string \<Rightarrow> string \<Rightarrow> push_report" where
  "bx_report previous eid bundle =
     \<lparr>pu_session_id = ex_sid, pu_branch_id = ex_bid, pu_previous_head = map_option bx_hash previous,
      pu_new_head = bx_hash eid, pu_bundle_hash = bx_hash bundle, pu_copied_bundle = True,
      pu_changed_remote_head = True\<rparr>"

text \<open>The texts of all files have different hashes.\<close>

lemma bx_hash_text: "hash_text (bx_hash s) = ''sha256:'' @ to_lower_hex (bx_digest s)"
  by (simp add: bx_hash_def hash_bytes_text SHA256_PREFIX_def)

lemma bx_distinct: "distinct (map (\<lambda>s. to_lower_hex (bx_digest s))
   [''m1'', ''c1'', [CHR ''e'', CHR ''0'', nl], [], ''m2'', ''c2'', [CHR ''e'', CHR ''0'', nl, CHR ''e'', CHR ''1'', nl],
    [CHR ''r'', CHR ''0'', nl], ''X'', ''e0'', ''e1''])"
  by code_simp

lemma bx_hash_eq: "bx_hash s = bx_hash t \<longleftrightarrow> to_lower_hex (bx_digest s) = to_lower_hex (bx_digest t)"
  by (metis append_same_eq bx_hash_text portable_hash.expand same_append_eq)

lemma bx_hash_inj: "inj_on bx_hash (set [''m1'', ''c1'', [CHR ''e'', CHR ''0'', nl], [], ''m2'', ''c2'',
    [CHR ''e'', CHR ''0'', nl, CHR ''e'', CHR ''1'', nl], [CHR ''r'', CHR ''0'', nl], ''X'', ''e0'', ''e1''])"
  using bx_distinct unfolding distinct_map inj_on_def bx_hash_eq by (rule conjunct2)

lemma bx_no_collisions: "no_collisions bx_codec bx_dirs"
proof -
  have "file_bytes d \<subseteq> set [''m1'', ''c1'', [CHR ''e'', CHR ''0'', nl], [], ''m2'', ''c2'',
    [CHR ''e'', CHR ''0'', nl, CHR ''e'', CHR ''1'', nl], [CHR ''r'', CHR ''0'', nl], ''X'', ''e0'', ''e1'']"
    if "d \<in> bx_dirs" for d
    using that by (auto simp: bx_dirs_def file_bytes_def bx_entries)
  then have "(\<Union>d \<in> bx_dirs. file_bytes d) \<subseteq> set [''m1'', ''c1'', [CHR ''e'', CHR ''0'', nl], [], ''m2'', ''c2'',
    [CHR ''e'', CHR ''0'', nl, CHR ''e'', CHR ''1'', nl], [CHR ''r'', CHR ''0'', nl], ''X'', ''e0'', ''e1'']"
    by (rule UN_least)
  then show ?thesis
    unfolding no_collisions_def bx_hash_codec by (rule inj_on_subset [OF bx_hash_inj])
qed

lemma bx_neq: "bx_hash ''e0'' \<noteq> bx_hash ''e1''" "bx_hash ''c1'' \<noteq> bx_hash ''c2''"
  "bundle_name (bx_hash ''c1'') \<noteq> bundle_name (bx_hash ''c2'')"
proof -
  show hash: "bx_hash ''e0'' \<noteq> bx_hash ''e1''" "bx_hash ''c1'' \<noteq> bx_hash ''c2''"
    using bx_distinct by (simp_all add: bx_hash_eq)
  show "bundle_name (bx_hash ''c1'') \<noteq> bundle_name (bx_hash ''c2'')"
    using hash(2) bundle_name_inj [of bx_codec "''c1''" "''c2''"] by (auto simp: bx_hash_codec)
qed

lemma bx_prepare:
  "prepare_push bx_codec bx_dir1 None None = Inr
     \<lparr>pq_dir = bx_dir1, pq_session_id = ex_sid, pq_branch_id = ex_bid, pq_is_default = True,
      pq_head = bx_hash ''e0'', pq_bundle_hash = bx_hash ''c1'', pq_expected = None\<rparr>"
  "prepare_push bx_codec bx_dir2 None (Some (bx_hash ''e0'')) = Inr
     \<lparr>pq_dir = bx_dir2, pq_session_id = ex_sid, pq_branch_id = ex_bid, pq_is_default = True,
      pq_head = bx_hash ''e1'', pq_bundle_hash = bx_hash ''c2'', pq_expected = Some (bx_hash ''e0'')\<rparr>"
  using well_formed_validates [OF bx_well_formed(1)] well_formed_validates [OF bx_well_formed(2)] bx_bundle_read
  by (simp_all add: prepare_push_def bundle_read_def view_report_def select_push_branch_def)
    (simp_all add: bx_defs ex_session_def)

definition bx_host :: sync_host where
  "bx_host = \<lparr>sh_create_dirs = None, sh_create_lock = None, sh_copy = None, sh_write_heads = None, sh_remove_lock = True\<rparr>"

lemma bx_host_simps [simp]:
  "sh_create_dirs bx_host = None" "sh_create_lock bx_host = None" "sh_copy bx_host = None"
  "sh_write_heads bx_host = None" "sh_remove_lock bx_host"
  by (simp_all add: bx_host_def)

lemma bx_push1: "push_session_bundle_directory bx_host bx_codec bx_sc bx_dir1 None None empty_remote =
   (bx_remote1, Inr (bx_report None ''e0'' ''c1''))"
  using valid_bundle_copies [OF bx_valid(1)]
  by (simp add: push_session_bundle_directory_def bx_prepare acquire_remote_state_lock_def host_step_def empty_remote_def
      push_under_lock_def read_remote_state_def Let_def remote_head_of_def enforce_cas_def
      copy_bundle_to_remote_def updated_state_def write_remote_state_def release_remote_state_lock_def
      bx_remote1_def bx_report_def bx_sc_def bx_state_def SESSION_BT_SCHEMA_VERSION_def)

lemma bx_read_state1: "read_remote_state bx_sc ex_sid (bx_remote1\<lparr>rx_locked := b\<rparr>) = Inr (bx_state ''e0'' ''c1'')"
proof -
  have "bx_parse_state (bx_state_text (bx_state ''e0'' ''c1'')) = Inr (bx_state ''e0'' ''c1'')"
    using bx_texts_parse by (simp add: texts_parse_def bx_sc_def)
  then show ?thesis
    by (simp add: read_remote_state_def read_existing_remote_state_def bx_remote1_def bx_sc_def serde_json_error_def)
      (simp add: bx_state_def SESSION_BT_SCHEMA_VERSION_def)
qed

lemma bx_push2: "push_session_bundle_directory bx_host bx_codec bx_sc bx_dir2 None (Some (bx_hash ''e0'')) bx_remote1 =
   (bx_remote2, Inr (bx_report (Some ''e0'') ''e1'' ''c2''))"
proof -
  have "acquire_remote_state_lock bx_host bx_remote1 = Inr (bx_remote1\<lparr>rx_locked := True\<rparr>)"
    by (simp add: acquire_remote_state_lock_def host_step_def bx_remote1_def)
  moreover have "ensure_pushed_bundle_extends_remote_head bx_dir2 (bx_remote1\<lparr>rx_locked := True\<rparr>)
      \<lparr>rh_branch_id = ex_bid, rh_head_event_hash = bx_hash ''e0'', rh_bundle_hash = bx_hash ''c1''\<rparr> = Inr ()"
    by (simp add: ensure_pushed_bundle_extends_remote_head_def bx_remote1_def bundle_names bx_reads)
  ultimately show ?thesis
    using valid_bundle_copies [OF bx_valid(2)] bx_neq
    by (simp add: push_session_bundle_directory_def bx_prepare push_under_lock_def bx_read_state1)
      (simp add: Let_def remote_head_of_def enforce_cas_def copy_bundle_to_remote_def host_step_def updated_state_def
        write_remote_state_def release_remote_state_lock_def bx_remote1_def bx_remote2_def bx_report_def bx_sc_def
        bx_state_def)
qed

definition bx_world1 :: sync_world where "bx_world1 = \<lparr>w_remote = bx_remote1, w_push = None\<rparr>"
definition bx_world2 :: sync_world where "bx_world2 = \<lparr>w_remote = bx_remote2, w_push = None\<rparr>"

lemma bx_reaches:
  "sync_reaches bx_codec bx_sc ex_sid bx_dirs initial_world bx_world1"
  "sync_reaches bx_codec bx_sc ex_sid bx_dirs bx_world1 bx_world2"
  unfolding initial_world_def bx_world1_def bx_world2_def
  by (rule push_reaches [OF bx_push1], simp_all add: bx_dirs_def bx_prepare)
    (rule push_reaches [OF bx_push2], simp_all add: bx_dirs_def bx_prepare)

subsection \<open>A session to export\<close>

text \<open>A store with one session of two events, the second of which refers to a raw chunk, and a codec
  whose texts are those of the records the export makes of them.\<close>

definition xx_rows :: "event_row list" where
  "xx_rows =
     [\<lparr>er_seq_id = 1, er_event = (ex_event ''e0'' None (SessionCancelCleared ''x''))\<lparr>ev_seq_id := Some 1\<rparr>\<rparr>,
      \<lparr>er_seq_id = 2, er_event = (ex_event ''e1'' None (RawChunkPersisted ''p'' 5 ''s'' None))\<lparr>ev_seq_id := Some 2\<rparr>\<rparr>]"

definition xx_chunk :: raw_chunk_row where
  "xx_chunk = \<lparr>rc_chunk_id = 5, rc_session_id = ex_sid, rc_branch_id = ex_bid, rc_turn_id = None,
     rc_llm_call_ordinal = None, rc_event_id = Some ''e1'', rc_provider = ''p'', rc_stream_name = ''s'',
     rc_content = ''X'', rc_received_at = 7\<rparr>"

definition xx_branch :: branch_record where
  "xx_branch = ex_branch\<lparr>br_head_event_id := Some (EventId ''e1'')\<rparr>"

definition xx_db :: database where
  "xx_db = empty_database\<lparr>sessions := [ex_session_row], branches := [xx_branch], events := xx_rows,
     events_autoincrement := 2, raw_chunks := [xx_chunk], raw_chunks_autoincrement := 5\<rparr>"

definition xx_content :: content_ref where
  "xx_content = \<lparr>cr_hash = bx_hash ''X'', cr_media_type = Some ''application/octet-stream'', cr_size_bytes = 1,
     cr_path = Some (chunk_path (bx_hash ''X''))\<rparr>"

definition xx_ref :: raw_chunk_bundle_ref where
  "xx_ref = bx_ref\<lparr>rf_content := xx_content\<rparr>"

definition xx_infos :: "event_record_info list" where
  "xx_infos =
     [\<lparr>ei_ordinal = 0, ei_event_id = EventId ''e0'', ei_branch_id = ex_bid, ei_event_hash = bx_hash ''e0'',
       ei_content_refs = [], ei_raw_refs = []\<rparr>,
      \<lparr>ei_ordinal = 1, ei_event_id = EventId ''e1'', ei_branch_id = ex_bid, ei_event_hash = bx_hash ''e1'',
       ei_content_refs = [bx_hash ''X''],
       ei_raw_refs = [\<lparr>rw_local_chunk_id = 5, rw_content_hash = bx_hash ''X''\<rparr>]\<rparr>]"

definition xx_events_text :: string where "xx_events_text = ''e0'' @ [nl] @ ''e1'' @ [nl]"
definition xx_refs_text :: string where "xx_refs_text = ''r0'' @ [nl]"

definition xx_entry :: "string \<Rightarrow> string \<Rightarrow> checksum_entry" where
  "xx_entry path bytes = \<lparr>ck_path = path, ck_hash = bx_hash bytes, ck_size_bytes = length bytes\<rparr>"

definition xx_tree :: bundle_checksums where
  "xx_tree = \<lparr>cs_schema_version = SESSION_BT_SCHEMA_VERSION,
     cs_files = sort_key ck_path [xx_entry (chunk_path (bx_hash ''X'')) ''X'',
       xx_entry SESSION_BT_EVENTS xx_events_text, xx_entry SESSION_BT_RAW_CHUNK_REFS xx_refs_text]\<rparr>"

definition xx_manifest :: session_bundle_manifest where
  "xx_manifest =
     \<lparr>sm_schema_version = SESSION_BT_SCHEMA_VERSION, sm_bundle_hash = bx_hash ''c'', sm_session = ex_session,
      sm_branches = build_branch_manifests [xx_branch] xx_infos (Some (bx_hash ''c'')),
      sm_event_ranges = build_event_ranges [xx_branch] xx_infos, sm_producer = belltower_producer,
      sm_redaction = RedactionNone, sm_artifact_mode = TraceOnly, sm_contents = [xx_content], sm_artifacts = []\<rparr>"

definition xx_codec :: bundle_codec where
  "xx_codec = bx_codec\<lparr>bc_parse_ref := (\<lambda>_. Inr xx_ref), bc_checksums_text := (\<lambda>_. ''c''),
     bc_parse_checksums := (\<lambda>_. Inr xx_tree), bc_manifest_text := (\<lambda>_. ''m''),
     bc_parse_manifest := (\<lambda>_. Inr xx_manifest)\<rparr>"

definition xx_state :: export_state where
  "xx_state = \<lparr>xs_dir = [(chunk_path (bx_hash ''X''), FsFile ''X'')],
     xs_checksums = [xx_entry (chunk_path (bx_hash ''X'')) ''X''], xs_written = [bx_hash ''X''],
     xs_contents = [(bx_hash ''X'', xx_content)], xs_refs = [xx_ref]\<rparr>"

definition xx_host :: export_host where
  "xx_host = \<lparr>eh_canonicalize = (\<lambda>p. Inr p), eh_file = (\<lambda>_. None)\<rparr>"

lemma xx_codec_simps [simp]:
  "bundle_hash_bytes xx_codec b = bx_hash b" "canonical_event_hash xx_codec (bx_event eid p) = bx_hash eid"
  "bc_json_number xx_codec = Inr" "bc_event_line xx_codec r = event_id_text (pe_event_id (sb_event r))" "bc_ref_line xx_codec r' = ''r0''"
  "bc_checksums_text xx_codec c = ''c''" "bc_manifest_text xx_codec m = ''m''"
  "bc_parse_ref xx_codec t = Inr xx_ref" "bc_parse_checksums xx_codec t = Inr xx_tree"
  "bc_parse_manifest xx_codec t = Inr xx_manifest" "bc_parse_event_id xx_codec t = Inr (EventId t)"
  "bc_parse_event xx_codec = bx_lookup [(''e0'', bx_r0), (''e1'', bx_r1)]"
proof -
  show h: "bundle_hash_bytes xx_codec b = bx_hash b" for b
    by (simp add: bundle_hash_bytes_def xx_codec_def bx_codec_def bx_hash_def)
  show "canonical_event_hash xx_codec (bx_event eid p) = bx_hash eid"
    by (simp add: canonical_event_hash_def h) (simp add: xx_codec_def bx_codec_def bx_event_def)
qed (simp_all add: xx_codec_def bx_codec_def)

lemma xx_loads: "load_session ex_sid xx_db = Some ex_session" "load_branches ex_sid xx_db = [xx_branch]"
  "load_session_event_log Inr ex_sid xx_db = Inr xx_rows" "load_all_raw_chunks ex_sid xx_db = [xx_chunk]"
  by (simp_all add: load_session_def load_branches_def load_session_event_log_def load_all_raw_chunks_def xx_db_def
    sql_lookup_def sql_ordered_def ex_session_row_def parse_session_record_def ex_session_def xx_branch_def ex_branch_def
    xx_rows_def xx_chunk_def decode_stored_def decode_event_def decode_payload_def ex_event_def parse_session_tool_mode_def
    parse_status_def)

lemma xx_prepare: "prepare_raw_chunks xx_codec [xx_chunk] =
   ((\<lambda>cid. if cid = 5 then Some (exported_chunk xx_codec 0 xx_chunk) else None),
    (\<lambda>cid. if cid = 5 then Some (bx_hash ''X'') else None))"
  by (simp add: prepare_raw_chunks_def enumerate_simps fun_eq_iff) (simp add: xx_chunk_def)

lemma xx_live:
  "envelope_from_live (er_event (xx_rows ! 0)) h = Inr (bx_event ''e0'' (P_SessionCancelCleared ''x''), [])"
  "h 5 = Some (bx_hash ''X'') \<Longrightarrow> envelope_from_live (er_event (xx_rows ! 1)) h =
     Inr (bx_event ''e1'' (P_RawChunkPersisted ''p'' (bx_hash ''X'') ''s'' None),
       [\<lparr>rw_local_chunk_id = 5, rw_content_hash = bx_hash ''X''\<rparr>])"
  by (simp_all add: xx_rows_def envelope_from_live_def ex_event_def bx_event_def raw_chunk_ref_def)

lemma xx_records: "h 5 = Some (bx_hash ''X'') \<Longrightarrow> build_event_records xx_codec xx_rows h = Inr ([bx_r0, bx_r1], xx_infos)"
  using xx_live [of h]
  by (simp add: build_event_records_def xx_rows_def Let_def)
    (simp add: bx_r0_def bx_r1_def bx_record_def xx_infos_def event_kind_def bx_event_def raw_chunk_content_refs_def
      payload_kind_def ex_ids)

lemma xx_exported_chunk: "exported_chunk xx_codec 0 xx_chunk =
   \<lparr>xr_chunk_ordinal = 0, xr_session_id = ex_sid, xr_branch_id = Some ex_bid, xr_turn_id = None,
    xr_llm_call_ordinal = None, xr_provider = ''p'', xr_stream_name = ''s'', xr_content = xx_content, xr_bytes = ''X''\<rparr>"
  by (simp add: exported_chunk_def xx_chunk_def xx_content_def chunk_path_def Let_def)

lemma xx_refs: "build_raw_chunk_refs xx_codec (\<lambda>cid. if cid = 5 then Some (exported_chunk xx_codec 0 xx_chunk) else None) xx_infos []
   = Inr xx_state"
proof -
  have "validate_bundle_relative_path (chunk_path (bx_hash ''X'')) = Inr ()"
    using chunk_path_plain [of bx_digest "''X''"] by (simp add: plain_path_def bx_hash_def)
  then show ?thesis
    by (simp add: build_raw_chunk_refs_def xx_infos_def add_raw_chunk_ref_def xx_exported_chunk write_raw_chunk_once_def
        xx_content_def write_bundle_file_def fs_write_def raw_chunk_bundle_ref_of_def)
      (simp add: xx_state_def xx_entry_def xx_content_def xx_ref_def bx_ref_def)
qed

lemma xx_parts: "exported_parts xx_codec xx_rows [xx_chunk] = Inr ([bx_r0, bx_r1], xx_infos, xx_state)"
  by (simp add: exported_parts_def xx_prepare xx_records xx_refs)

lemma xx_texts: "jsonl_bytes (bc_event_line xx_codec) [bx_r0, bx_r1] = xx_events_text"
  "jsonl_bytes (bc_ref_line xx_codec) (xs_refs xx_state) = xx_refs_text"
  by (simp_all add: jsonl_bytes_def bx_r0_def bx_r1_def bx_record_def bx_event_def xx_events_text_def xx_state_def xx_refs_text_def)

lemma xx_tree: "export_tree xx_codec [bx_r0, bx_r1] xx_state = xx_tree"
  by (simp add: export_tree_def xx_tree_def file_entry_def events_text_def refs_text_def xx_texts)
    (simp add: xx_state_def xx_entry_def)

lemma xx_export: "\<exists>dir. export_session_bundle_directory xx_codec xx_host OutMissing default_export_options ex_sid xx_db = Inr (dir, xx_manifest)"
proof -
  have plain: "validate_bundle_relative_path SESSION_BT_EVENTS = Inr ()" "validate_bundle_relative_path SESSION_BT_RAW_CHUNK_REFS = Inr ()"
    "validate_bundle_relative_path SESSION_BT_CHECKSUMS = Inr ()"
    using fixed_paths_plain by (simp_all add: plain_path_def)
  have arts: "export_artifacts xx_codec xx_host ex_session default_export_options d cs = Inr (d, cs, [])" for d cs
    by (simp add: export_artifacts_def default_export_options_def)
  have "\<exists>dir. write_bundle xx_codec xx_host default_export_options ex_session [xx_branch] xx_rows [xx_chunk] = Inr (dir, xx_manifest)"
    by (simp add: write_bundle_def xx_prepare xx_records xx_refs arts xx_texts write_bundle_file_def plain Let_def build_artifact_refs_def)
      (simp add: xx_manifest_def xx_state_def default_export_options_def)
  then show ?thesis
    by (simp add: export_session_bundle_directory_def ensure_empty_output_dir_def xx_loads)
qed

lemma xx_line_texts:
  "str_trim ''e0'' = ''e0''" "str_trim ''e1'' = ''e1''" "str_trim ''r0'' = ''r0''"
  "nl \<notin> set ''e0''" "nl \<notin> set ''e1''" "nl \<notin> set ''r0''" "nl \<noteq> CHR ''e''" "nl \<noteq> CHR ''r''" "nl \<noteq> CHR ''0''" "nl \<noteq> CHR ''1''"
  "CHR ''0'' \<noteq> cr" "CHR ''1'' \<noteq> cr" "valid_utf8 ''e0''" "valid_utf8 ''e1''" "valid_utf8 ''r0''"
  by code_simp+

lemma xx_reads_back: "reads_back xx_codec [bx_r0, bx_r1] xx_state xx_manifest"
proof -
  have "line_reads_back (bc_event_line xx_codec) (bc_parse_event xx_codec) bx_r0"
    "line_reads_back (bc_event_line xx_codec) (bc_parse_event xx_codec) bx_r1"
    by (simp_all add: line_reads_back_def) (simp_all add: bx_r0_def bx_r1_def bx_record_def bx_event_def bx_lookup_def xx_line_texts)
  moreover have "line_reads_back (bc_ref_line xx_codec) (bc_parse_ref xx_codec) xx_ref"
    by (simp add: line_reads_back_def xx_line_texts)
  ultimately show ?thesis
    by (simp add: reads_back_def xx_tree) (simp add: xx_state_def)
qed

lemma xx_intact: "session_intact ex_sid [xx_branch] xx_rows [xx_chunk]"
  by (simp add: session_intact_def xx_rows_def row_event_id_def row_branch_id_def xx_branch_def ex_branch_def xx_chunk_def
    last_entry_def payload_chunk_ids_def)

lemma xx_counts: "length xx_rows = 2" "length (xs_refs xx_state) = 1"
  by (simp_all add: xx_rows_def xx_state_def)

theorem exported_bundle_validates_witness:
  "\<exists>dir report. export_session_bundle_directory xx_codec xx_host OutMissing default_export_options ex_sid xx_db = Inr (dir, xx_manifest) \<and>
     validate_session_bundle_directory xx_codec dir = Inr report \<and> vr_event_count report = 2 \<and> vr_raw_chunk_reference_count report = 1"
proof -
  from xx_export obtain dir where
    "export_session_bundle_directory xx_codec xx_host OutMissing default_export_options ex_sid xx_db = Inr (dir, xx_manifest)" ..
  moreover from exported_bundle_validates [OF this, unfolded xx_codec_simps, OF _ xx_loads(3) _ _ xx_reads_back, of xx_infos]
  have "\<exists>report. validate_session_bundle_directory xx_codec dir = Inr report \<and> vr_event_count report = 2 \<and>
      vr_raw_chunk_reference_count report = 1"
    using xx_counts by (auto simp: xx_loads xx_intact xx_parts chunks_collide_def default_export_options_def)
  ultimately show ?thesis by blast
qed

end
