(* ===== verification/Bt_ImportProps.thy ===== *)
theory Bt_ImportProps
  imports Bt_Import Bt_ExportProps Bt_SyncProps
begin

section \<open>Importing a validated bundle\<close>

text \<open>
  A bundle that validates can be converted: no event, reference or chunk of it makes the import fail
  before the store is asked, and what the import makes of the events exports again as the events of
  the bundle, whatever ids the importing store gives to the raw chunks.
\<close>

subsection \<open>Events\<close>

text \<open>JSON numbers are finite.\<close>

definition portable_normal :: "portable_event_payload \<Rightarrow> bool" where
  "portable_normal q \<longleftrightarrow>
     (case q of
        P_CompletionFinished a b c d (Some cost) f g \<Rightarrow> json_cost cost = Inr cost
      | P_BudgetConfigured b \<Rightarrow> value_f64_opt (max_cost_usd b) = max_cost_usd b
      | P_BudgetCheckpoint a b c d \<Rightarrow> value_f64_opt d = d
      | _ \<Rightarrow> True)"

lemma portable_to_live:
  assumes "portable_normal q" "\<forall>h \<in> set (raw_chunk_content_refs q). ids (eid, h) \<noteq> None"
  shows "\<exists>p. payload_to_live q eid ids = Inr p"
  using assms by (cases q) (auto simp: portable_normal_def raw_chunk_content_refs_def imported_raw_chunk_id_def
      and_then_eq_Inr split: option.splits)

lemma portable_back:
  assumes "portable_normal q" "payload_to_live q eid ids = Inr p"
    and "\<forall>h \<in> set (raw_chunk_content_refs q). \<forall>i. ids (eid, h) = Some i \<longrightarrow> hashes i = Some h"
  shows "\<exists>refs. payload_from_live p hashes = Inr (q, refs)"
  using assms by (cases q) (auto simp: portable_normal_def raw_chunk_content_refs_def imported_raw_chunk_id_Inr
      raw_chunk_ref_def and_then_eq_Inr split: option.splits)

lemma envelope_back:
  assumes "portable_normal (pe_payload q)"
    and "\<forall>h \<in> set (raw_chunk_content_refs (pe_payload q)). \<exists>i. ids (pe_event_id q, h) = Some i \<and> hashes i = Some h"
  shows "\<exists>e. envelope_to_live q ids = Inr e \<and> (\<exists>refs. envelope_from_live e hashes = Inr (q, refs))"
proof -
  from portable_to_live [OF assms(1), of ids "pe_event_id q"] assms(2) obtain p where
    p: "payload_to_live (pe_payload q) (pe_event_id q) ids = Inr p" by fastforce
  from portable_back [OF assms(1) p, of hashes] assms(2) obtain refs where
    "payload_from_live p hashes = Inr (pe_payload q, refs)" by fastforce
  with p show ?thesis
    by (auto simp: envelope_to_live_def envelope_from_live_def)
qed

subsection \<open>Tables\<close>

lemma collect_results_map: "\<forall>x \<in> set xs. f x = Inr (g x) \<Longrightarrow> collect_results f xs = Inr (map g xs)"
  by (induction xs) simp_all

lemma collect_results_all2:
  "\<forall>x \<in> set xs. \<exists>y. f x = Inr y \<and> R y x \<Longrightarrow> \<exists>ys. collect_results f xs = Inr ys \<and> list_all2 R ys xs"
proof (induction xs)
  case (Cons x xs)
  then obtain y ys where "f x = Inr y" "R y x" "collect_results f xs = Inr ys" "list_all2 R ys xs" by auto
  then show ?case by auto
qed simp

lemma map_of_or_insert: "map_of (or_insert k v es) k' = (if k' = k \<and> map_of es k = None then Some v else map_of es k')"
  by (auto simp: or_insert_def split: option.splits)

lemma sorted_or_insert: "sorted_wrt (<) (map fst es) \<Longrightarrow> sorted_wrt (<) (map fst (or_insert k v es))"
  by (auto simp: or_insert_def intro: sorted_bt_put split: option.splits)

lemma keys_or_insert: "fst ` set (or_insert k v es) = insert k (fst ` set es)"
proof (cases "map_of es k")
  case None
  then show ?thesis
    using keys_bt_put [of k v es] by (simp add: or_insert_def)
next
  case (Some a)
  then have "k \<in> fst ` set es"
    using map_of_SomeD [OF Some] by force
  with Some show ?thesis by (auto simp: or_insert_def)
qed

lemma inserts_by_ordinal_facts:
  "sorted_wrt (<) (map fst (inserts_by_ordinal xs))"
  "fst ` set (inserts_by_ordinal xs) = (\<lambda>x. fst (fst x)) ` set xs"
  "(n, ins) \<in> set (inserts_by_ordinal xs) \<Longrightarrow> \<exists>e h. ((n, e, h), ins) \<in> set xs"
proof -
  let ?f = "\<lambda>((n, _), ins). or_insert n ins"
  have fold: "sorted_wrt (<) (map fst es) \<Longrightarrow>
      sorted_wrt (<) (map fst (fold ?f xs es)) \<and> fst ` set (fold ?f xs es) = fst ` set es \<union> (\<lambda>x. fst (fst x)) ` set xs \<and>
      (\<forall>(n, ins) \<in> set (fold ?f xs es). (n, ins) \<in> set es \<or> (\<exists>e h. ((n, e, h), ins) \<in> set xs))" for es
  proof (induction xs arbitrary: es)
    case (Cons x xs)
    obtain n e h ins where x: "x = ((n, e, h), ins)" by (metis prod.exhaust)
    have sub: "set (or_insert n ins es) \<subseteq> insert (n, ins) (set es)"
      by (auto simp: or_insert_def set_bt_put_new split: option.splits)
    note ih = Cons.IH [OF sorted_or_insert [OF Cons.prems, of n ins]]
    have "\<forall>(m, i) \<in> set (fold ?f xs (or_insert n ins es)). (m, i) \<in> set es \<or> (\<exists>e h. ((m, e, h), i) \<in> set (x # xs))"
    proof (clarify)
      fix m i
      assume "(m, i) \<in> set (fold ?f xs (or_insert n ins es))" and new: "\<nexists>e h. ((m, e, h), i) \<in> set (x # xs)"
      then have "(m, i) \<in> set (or_insert n ins es)" using ih by auto
      with sub new show "(m, i) \<in> set es" by (auto simp: x)
    qed
    with ih show ?case by (simp add: x keys_or_insert)
  qed simp
  note f = fold [of "[]", folded inserts_by_ordinal_def, simplified]
  from f show "sorted_wrt (<) (map fst (inserts_by_ordinal xs))" by blast
  from f show "fst ` set (inserts_by_ordinal xs) = (\<lambda>x. fst (fst x)) ` set xs" by blast
  from f show "(n, ins) \<in> set (inserts_by_ordinal xs) \<Longrightarrow> \<exists>e h. ((n, e, h), ins) \<in> set xs" by blast
qed

lemma local_ids_by_ref_map:
  assumes "\<forall>(n, e, h) \<in> set refs. ids n \<noteq> None" "distinct (map (\<lambda>(n, e, h). (e, h)) refs)"
    and "(\<lambda>(n, e, h). (e, h)) ` set refs \<inter> fst ` set acc = {}"
  shows "local_ids_by_ref ids refs acc = Inr (acc @ map (\<lambda>(n, e, h). ((e, h), the (ids n))) refs)"
  using assms
proof (induction refs arbitrary: acc)
  case (Cons r refs)
  obtain n e h where r: "r = (n, e, h)" by (metis prod.exhaust)
  from Cons.prems(1) obtain i where i: "ids n = Some i" by (auto simp: r)
  have "map_of acc (e, h) = None"
    using Cons.prems(3) by (auto simp: r map_of_eq_None_iff)
  with i Cons show ?case
    by (auto simp: r)
qed simp

subsection \<open>A validated bundle\<close>

definition imported_content :: "bundle_dir \<Rightarrow> raw_chunk_bundle_ref \<Rightarrow> string" where
  "imported_content dir r = projr (fs_read dir (the (cr_path (rf_content r))))"

definition imported_insert :: "bundle_dir \<Rightarrow> raw_chunk_bundle_ref \<Rightarrow> raw_chunk_insert" where
  "imported_insert dir r =
     \<lparr>ri_session_id = rf_session_id r, ri_branch_id = the (rf_branch_id r), ri_turn_id = rf_turn_id r,
      ri_llm_call_ordinal = rf_llm_call_ordinal r, ri_event_id = rf_event_id r,
      ri_provider = rf_provider r, ri_stream_name = rf_stream_name r, ri_content = imported_content dir r\<rparr>"

definition import_key :: "bundle_codec \<Rightarrow> raw_chunk_bundle_ref \<Rightarrow> nat \<times> event_id \<times> portable_hash" where
  "import_key codec r = (rf_chunk_ordinal r, ref_key codec r)"

lemma raw_chunk_import_valid:
  assumes "well_formed_bundle codec dir v" and r: "r \<in> set (bv_refs v)"
  shows "raw_chunk_import codec dir r = Inr (import_key codec r, imported_insert dir r)"
    and "bundle_hash_bytes codec (imported_content dir r) = cr_hash (rf_content r)"
proof -
  from assms have ok: "raw_ref_ok codec (bv_manifest v) (view_infos codec v) r"
    and content: "validate_raw_chunk_content codec dir r = Inr ()"
    by (simp_all add: well_formed_bundle_def files_well_formed_def records_well_formed_def)
  from content obtain path bytes where path: "cr_path (rf_content r) = Some path"
      "validate_bundle_relative_path path = Inr ()" "fs_read dir path = Inr bytes"
      "bundle_hash_bytes codec bytes = cr_hash (rf_content r)"
    by (auto simp: validate_raw_chunk_content_Inr content_present_def)
  from path show "bundle_hash_bytes codec (imported_content dir r) = cr_hash (rf_content r)"
    by (simp add: imported_content_def)
  from ok obtain bid where "rf_branch_id r = Some bid" "raw_ref_event_id codec r = Inr (raw_event codec r)"
    by (auto simp: raw_ref_ok_def)
  with path show "raw_chunk_import codec dir r = Inr (import_key codec r, imported_insert dir r)"
    by (simp add: raw_chunk_import_def imported_insert_def imported_content_def import_key_def ref_key_def)
qed

lemma prepare_import_valid:
  assumes w: "well_formed_bundle codec dir v"
  shows "prepare_import codec dir (bv_manifest v) = Inr (branch_records_from_manifest (bv_manifest v),
     inserts_by_ordinal (map (\<lambda>r. (import_key codec r, imported_insert dir r)) (bv_refs v)),
     map (import_key codec) (bv_refs v), bv_records v)"
proof -
  have "sm_branches (bv_manifest v) \<noteq> []"
    using w by (auto simp: well_formed_bundle_def branches_ok_def)
  moreover have "collect_results (raw_chunk_import codec dir) (bv_refs v)
      = Inr (map (\<lambda>r. (import_key codec r, imported_insert dir r)) (bv_refs v))"
    by (rule collect_results_map) (simp add: raw_chunk_import_valid(1) [OF w])
  ultimately show ?thesis
    using w by (simp add: prepare_import_def branch_records_from_manifest_def well_formed_bundle_def bundle_read_def o_def)
qed

text \<open>Every reference finds its chunk: the id the store gave to its ordinal, and under that id the content
  with the hash it names.\<close>

lemma imported_ids:
  fixes codec dir v
  defines "inserts \<equiv> inserts_by_ordinal (map (\<lambda>r. (import_key codec r, imported_insert dir r)) (bv_refs v))"
  assumes w: "well_formed_bundle codec dir v" and r: "r \<in> set (bv_refs v)"
    and ids: "length ids = length inserts" "distinct ids"
  shows "\<exists>i. map_of (zip (map fst inserts) ids) (rf_chunk_ordinal r) = Some i \<and>
    map_of (zip ids (map (\<lambda>(_, ins). bundle_hash_bytes codec (ri_content ins)) inserts)) i = Some (cr_hash (rf_content r))"
proof -
  note facts = inserts_by_ordinal_facts [where xs = "map (\<lambda>r. (import_key codec r, imported_insert dir r)) (bv_refs v)",
      folded inserts_def]
  have "rf_chunk_ordinal r \<in> fst ` set inserts"
    using r by (force simp: facts(2) import_key_def image_image)
  then obtain k where k: "k < length inserts" "fst (inserts ! k) = rf_chunk_ordinal r"
    by (auto simp: in_set_conv_nth)
  obtain n ins where ni: "inserts ! k = (n, ins)" by (cases "inserts ! k")
  have "(n, ins) \<in> set inserts" using nth_mem [OF k(1)] ni by simp
  from facts(3) [OF this] obtain r' where r': "r' \<in> set (bv_refs v)" "rf_chunk_ordinal r' = n" "ins = imported_insert dir r'"
    by (auto simp: import_key_def)
  have "consistent_refs (bv_refs v)"
    using w by (simp add: well_formed_bundle_def records_well_formed_def)
  then have "raw_ref_identity r' = raw_ref_identity r"
    using r r'(1,2) k(2) ni unfolding consistent_refs_def by (metis fst_conv)
  then have same: "cr_hash (rf_content r') = cr_hash (rf_content r)"
    by (simp add: raw_ref_identity_def)
  have hash: "bundle_hash_bytes codec (ri_content ins) = cr_hash (rf_content r)"
    using raw_chunk_import_valid(2) [OF w r'(1)] same r'(3) by (simp add: imported_insert_def)
  have d: "distinct (map fst inserts)"
    using facts(1) by (simp add: strict_sorted_iff)
  have "map_of (zip (map fst inserts) ids) (map fst inserts ! k) = Some (ids ! k)"
    using map_of_zip_nth [of "map fst inserts" ids k] d ids k(1) by simp
  moreover have "map_of (zip ids (map (\<lambda>(_, ins). bundle_hash_bytes codec (ri_content ins)) inserts)) (ids ! k)
      = Some (map (\<lambda>(_, ins). bundle_hash_bytes codec (ri_content ins)) inserts ! k)"
    using map_of_zip_nth [of ids "map (\<lambda>(_, ins). bundle_hash_bytes codec (ri_content ins)) inserts" k] ids k(1) by simp
  ultimately show ?thesis
    using k ni hash by (intro exI [of _ "ids ! k"]) simp
qed

lemma map_of_keyed: "distinct (map f xs) \<Longrightarrow> x \<in> set xs \<Longrightarrow> map_of (map (\<lambda>x. (f x, g x)) xs) (f x) = Some (g x)"
  by (induction xs) (auto simp: rev_image_eqI)

lemma import_table:
  assumes w: "well_formed_bundle codec dir v" and known: "\<forall>r \<in> set (bv_refs v). ids (rf_chunk_ordinal r) \<noteq> None"
  shows "\<exists>table. local_ids_by_ref ids (map (import_key codec) (bv_refs v)) [] = Inr table \<and>
    (\<forall>r \<in> set (bv_refs v). map_of table (ref_key codec r) = ids (rf_chunk_ordinal r))"
proof -
  let ?refs = "map (import_key codec) (bv_refs v)"
  have d: "distinct (map (ref_key codec) (bv_refs v))"
    using w by (simp add: well_formed_bundle_def records_well_formed_def)
  have keys: "distinct (map (\<lambda>(n, e, h). (e, h)) ?refs)"
    using d by (simp add: import_key_def split_beta comp_def)
  have "\<forall>(n, e, h) \<in> set ?refs. ids n \<noteq> None"
    using known by (auto simp: import_key_def)
  from local_ids_by_ref_map [OF this keys, of "[]"]
  have "local_ids_by_ref ids ?refs [] = Inr (map (\<lambda>(n, e, h). ((e, h), the (ids n))) ?refs)" by simp
  then have "local_ids_by_ref ids ?refs [] = Inr (map (\<lambda>r. (ref_key codec r, the (ids (rf_chunk_ordinal r)))) (bv_refs v))"
    by (simp add: import_key_def split_beta comp_def)
  moreover have "map_of (map (\<lambda>r. (ref_key codec r, the (ids (rf_chunk_ordinal r)))) (bv_refs v)) (ref_key codec r)
      = ids (rf_chunk_ordinal r)" if "r \<in> set (bv_refs v)" for r
    using map_of_keyed [OF d that, of "\<lambda>r. the (ids (rf_chunk_ordinal r))"] known that by auto
  ultimately show ?thesis by blast
qed

lemma import_events_valid:
  fixes codec dir v
  defines "inserts \<equiv> inserts_by_ordinal (map (\<lambda>r. (import_key codec r, imported_insert dir r)) (bv_refs v))"
  assumes w: "well_formed_bundle codec dir v" and "\<forall>r \<in> set (bv_records v). portable_normal (pe_payload (sb_event r))"
    and ids: "length ids = length inserts" "distinct ids"
  shows "\<exists>evs. import_events (map fst inserts) (map (import_key codec) (bv_refs v)) (bv_records v) ids = Inr evs \<and>
    list_all2 (\<lambda>e r. \<exists>rs. envelope_from_live e (map_of (zip ids
        (map (\<lambda>(_, ins). bundle_hash_bytes codec (ri_content ins)) inserts))) = Inr (sb_event r, rs)) evs (bv_records v)"
proof -
  let ?local = "map_of (zip (map fst inserts) ids)"
  let ?hashes = "map_of (zip ids (map (\<lambda>(_, ins). bundle_hash_bytes codec (ri_content ins)) inserts))"
  note found = imported_ids [OF w _ ids [unfolded inserts_def], folded inserts_def]
  from import_table [OF w, of ?local] found obtain table where
    table: "local_ids_by_ref ?local (map (import_key codec) (bv_refs v)) [] = Inr table"
      "\<forall>r \<in> set (bv_refs v). map_of table (ref_key codec r) = ?local (rf_chunk_ordinal r)" by fastforce
  have known: "\<exists>i. map_of table (pe_event_id (sb_event r), h) = Some i \<and> ?hashes i = Some h"
    if r: "r \<in> set (bv_records v)" and h: "h \<in> set (raw_chunk_content_refs (pe_payload (sb_event r)))" for r h
  proof -
    have "(ei_event_id (record_info codec r), h) \<in> ref_key codec ` set (bv_refs v)"
      using w r h by (auto simp: well_formed_bundle_def records_well_formed_def view_infos_def)
    then obtain x where x: "x \<in> set (bv_refs v)" "ref_key codec x = (pe_event_id (sb_event r), h)" by auto
    from found [OF x(1)] table(2) x show ?thesis
      by (metis ref_key_def snd_conv)
  qed
  have "\<forall>r \<in> set (bv_records v). \<exists>e. envelope_to_live (sb_event r) (map_of table) = Inr e \<and>
      (\<exists>rs. envelope_from_live e ?hashes = Inr (sb_event r, rs))"
    using assms(3) known by (intro ballI envelope_back) blast+
  from collect_results_all2 [OF this] table(1) show ?thesis
    by (simp add: import_events_def)
qed

text \<open>C16: An import keeps the evidence. A bundle that validates is converted without an error before the
  store is asked, and for any distinct ids the store gives to the inserted raw chunks the events are
  made, one for each record of the bundle, in order; exporting one of them again, with the hashes of
  the inserted chunks under those ids, gives the portable event of the record back. The floats of the
  bundle are finite, as JSON numbers are.\<close>

theorem import_keeps_evidence:
  assumes "validate_session_bundle_directory codec dir = Inr report" and "read_manifest codec dir = Inr m"
    and finite: "\<forall>rs. read_event_records codec dir = Inr rs \<longrightarrow> (\<forall>r \<in> set rs. portable_normal (pe_payload (sb_event r)))"
  shows "\<exists>bs inserts refs records. prepare_import codec dir m = Inr (bs, inserts, refs, records) \<and>
    read_event_records codec dir = Inr records \<and>
    (\<forall>ids. length ids = length inserts \<and> distinct ids \<longrightarrow>
      (\<exists>evs. import_events (map fst inserts) refs records ids = Inr evs \<and>
        list_all2 (\<lambda>e r. \<exists>rs. envelope_from_live e (map_of (zip ids
            (map (\<lambda>(_, ins). bundle_hash_bytes codec (ri_content ins)) inserts))) = Inr (sb_event r, rs)) evs records))"
proof -
  from validate_well_formed [OF assms(1)] obtain v where w: "well_formed_bundle codec dir v" .
  then have m: "m = bv_manifest v" and recs: "read_event_records codec dir = Inr (bv_records v)"
    using assms(2) by (simp_all add: well_formed_bundle_def bundle_read_def)
  let ?ins = "inserts_by_ordinal (map (\<lambda>r. (import_key codec r, imported_insert dir r)) (bv_refs v))"
  have "\<exists>evs. import_events (map fst ?ins) (map (import_key codec) (bv_refs v)) (bv_records v) ids = Inr evs \<and>
        list_all2 (\<lambda>e r. \<exists>rs. envelope_from_live e (map_of (zip ids
            (map (\<lambda>(_, ins). bundle_hash_bytes codec (ri_content ins)) ?ins))) = Inr (sb_event r, rs)) evs (bv_records v)"
    if "length ids = length ?ins" "distinct ids" for ids
    by (rule import_events_valid [OF w _ that]) (use finite recs in blast)
  with prepare_import_valid [OF w] recs show ?thesis
    unfolding m by blast
qed

end
