(* ===== verification/Bt_BundleProps.thy ===== *)
theory Bt_BundleProps
  imports Bt_BundleExample Bt_ImportProps
begin

section \<open>Properties of bundles and of the registry\<close>

text \<open>
  What a registry promises to every client whatever pushes are interleaved and wherever a push dies,
  and what validation, export and import promise of a bundle.
\<close>

subsection \<open>The registry\<close>

text \<open>C9: Every head a registry names can be pulled. In every state that interleaved pushes to a
  registry reach from an empty one (with any number of clients, with rejected pushes, with pushes
  whose file operations fail, and with pushes that die before or after the copy), a pull of any branch of \<open>heads.json\<close>, or of the default branch
  when there is a head, succeeds, delivers a bundle that validates with the hash the head names, and
  its events contain the head event. Hypotheses: SHA-256 does not collide on the files that are pushed,
  and the JSON text of \<open>heads.json\<close> parses back.\<close>

theorem registry_heads_complete:
  assumes "sync_reaches codec sc sid D initial_world w" and "no_collisions codec D" and "texts_parse sc"
    and st: "read_existing_remote_state sc sid (w_remote w) = Inr st"
    and bid: "case bid of None \<Rightarrow> rs_branch_heads st \<noteq> [] | Some b \<Rightarrow> b \<in> rh_branch_id ` set (rs_branch_heads st)"
  shows "\<exists>h \<in> set (rs_branch_heads st). \<exists>d. (\<forall>b. bid = Some b \<longrightarrow> rh_branch_id h = b) \<and>
    valid_bundle codec d (rh_bundle_hash h) \<and> rh_head_event_hash h \<in> set (event_hashes_of codec d) \<and>
    pull_session_bundle_directory codec sc sid PullMissing bid (w_remote w) = Inr (d,
       \<lparr>pp_session_id = sid, pp_branch_id = rh_branch_id h, pp_head_event_hash = rh_head_event_hash h,
        pp_bundle_hash = rh_bundle_hash h\<rparr>)"
proof -
  have "sync_invariant codec sc sid D w"
    using sync_reaches_keeps [OF assms(1) initial_world_invariant assms(2,3)] by simp
  moreover have "read_remote_state sc sid (w_remote w) = Inr st"
    using st by (auto simp: read_remote_state_def read_existing_remote_state_def and_then_eq_Inr split: option.splits)
  ultimately have ok: "state_ok codec sid (w_remote w) st"
    by (auto simp: sync_invariant_def)
  obtain h where h: "select_pull_head st bid = Inr h" "h \<in> set (rs_branch_heads st)" "\<forall>b. bid = Some b \<longrightarrow> rh_branch_id h = b"
  proof -
    let ?b = "case bid of None \<Rightarrow> the (rs_default_branch_id st) | Some b \<Rightarrow> b"
    have "?b \<in> rh_branch_id ` set (rs_branch_heads st)"
      using bid ok by (cases bid; cases "rs_default_branch_id st") (auto simp: state_ok_def)
    then obtain h where h: "List.find (\<lambda>x. rh_branch_id x = ?b) (rs_branch_heads st) = Some h"
      using find_head_exists [of ?b rh_branch_id] by blast
    moreover have "select_pull_head st bid = Inr h"
      using h bid ok by (cases bid; cases "rs_default_branch_id st") (auto simp: select_pull_head_def state_ok_def)
    ultimately show ?thesis
      using find_SomeD [OF h] by (intro that [of h]) auto
  qed
  then have "head_ok codec (w_remote w) h"
    using ok by (simp add: state_ok_def)
  from pull_named_head [OF st h(1) this] h(2,3) show ?thesis
    by metis
qed

lemma bx_read_existing:
  "read_existing_remote_state bx_sc ex_sid (w_remote bx_world2) = Inr (bx_state ''e1'' ''c2'')"
proof -
  have "bx_parse_state (bx_state_text (bx_state ''e1'' ''c2'')) = Inr (bx_state ''e1'' ''c2'')"
    using bx_texts_parse by (simp add: texts_parse_def bx_sc_def)
  then show ?thesis
    by (simp add: read_existing_remote_state_def bx_world2_def bx_remote2_def bx_sc_def serde_json_error_def)
      (simp add: bx_state_def SESSION_BT_SCHEMA_VERSION_def)
qed

theorem registry_heads_complete_witness:
  "\<exists>h \<in> set (rs_branch_heads (bx_state ''e1'' ''c2'')). \<exists>d.
     valid_bundle bx_codec d (rh_bundle_hash h) \<and> rh_head_event_hash h \<in> set (event_hashes_of bx_codec d) \<and>
     pull_session_bundle_directory bx_codec bx_sc ex_sid PullMissing (Some ex_bid) (w_remote bx_world2) = Inr (d,
       \<lparr>pp_session_id = ex_sid, pp_branch_id = rh_branch_id h, pp_head_event_hash = rh_head_event_hash h,
        pp_bundle_hash = rh_bundle_hash h\<rparr>)"
  using registry_heads_complete [OF reaches_trans [OF bx_reaches] bx_no_collisions bx_texts_parse bx_read_existing,
    of "Some ex_bid"]
  by (auto simp: bx_state_def)

text \<open>C10: The registry is append-only. Along any interleaving of pushes, failures and crashes, whatever
  a pull of a branch delivered as its event log at some point, later pulls of the branch deliver a log that
  extends it byte for byte: a divergent history is never bound to an existing head.\<close>

theorem registry_append_only:
  assumes "sync_reaches codec sc sid D initial_world w" and "sync_reaches codec sc sid D w w'"
    and "no_collisions codec D" and "texts_parse sc"
    and "remote_log sc sid (w_remote w) b = Some old"
  shows "\<exists>new. remote_log sc sid (w_remote w') b = Some new \<and> prefix old new"
proof -
  have "sync_invariant codec sc sid D w"
    using sync_reaches_keeps [OF assms(1) initial_world_invariant assms(3,4)] by simp
  from sync_reaches_keeps [OF assms(2) this assms(3,4)] assms(5) show ?thesis
    by (auto simp: log_grows_def)
qed

lemma bx_remote_log: "remote_log bx_sc ex_sid (w_remote bx_world1) ex_bid = Some [CHR ''e'', CHR ''0'', nl]"
  using bx_read_state1 [of False]
  by (simp add: remote_log_def bx_world1_def bx_remote1_def)
    (simp add: state_log_def head_log_def remote_head_of_def bx_state_def bundle_names bx_reads)

theorem registry_append_only_witness:
  "\<exists>new. remote_log bx_sc ex_sid (w_remote bx_world2) ex_bid = Some new \<and>
     prefix [CHR ''e'', CHR ''0'', nl] new"
  by (rule registry_append_only [OF bx_reaches bx_no_collisions bx_texts_parse bx_remote_log])





definition same_evidence :: "bundle_dir \<Rightarrow> bundle_dir \<Rightarrow> bool" where
  "same_evidence d d' \<longleftrightarrow> payload_files d = payload_files d' \<and> (\<forall>p \<in> payload_files d. fs_read d p = fs_read d' p)"

lemma valid_same_evidence:
  assumes "valid_bundle codec d h" "valid_bundle codec d' h"
    and inj: "inj_on (bundle_hash_bytes codec) (file_bytes d \<union> file_bytes d')"
  shows "same_evidence d d'"
proof -
  from valid_bundle_view [OF assms(1)] obtain v where
    v: "well_formed_bundle codec d v" "sm_bundle_hash (bv_manifest v) = h" by metis
  from valid_bundle_view [OF assms(2)] obtain v' where
    v': "well_formed_bundle codec d' v'" "sm_bundle_hash (bv_manifest v') = h" by metis
  show ?thesis
    using same_hash_same_files [OF v(1) v'(1) _ inj] v(2) v'(2) by (simp add: same_evidence_def)
qed

lemma no_collisions_pair:
  assumes "no_collisions codec D" "d \<in> D" "d' \<in> D"
  shows "inj_on (bundle_hash_bytes codec) (file_bytes d \<union> file_bytes d')"
  using assms(1) unfolding no_collisions_def by (rule inj_on_subset) (use assms(2,3) in blast)

text \<open>The world right after a successful decision, from a consistent registry without a push.\<close>

lemma pushed_registry:
  assumes "sync_invariant codec sc sid D \<lparr>w_remote = remote, w_push = None\<rparr>"
    and "no_collisions codec D" and tp: "texts_parse sc" and "dir \<in> D"
    and push: "push_session_bundle_directory host codec sc dir bid expected remote = (remote', Inr report)"
    and sid: "pu_session_id report = sid"
  obtains q st h where "request_ok codec sid D q" "pq_dir q = dir"
    "read_existing_remote_state sc sid remote' = Inr st" "state_ok codec sid remote' st" "bundles_ok codec D remote'"
    "h \<in> set (rs_branch_heads st)" "rh_branch_id h = pu_branch_id report"
    "rh_head_event_hash h = pu_new_head report" "pu_bundle_hash report = pq_bundle_hash q"
    "pu_changed_remote_head report \<Longrightarrow> rh_bundle_hash h = pq_bundle_hash q"
proof -
  from push obtain q locked remote1 st' remote2 where q: "prepare_push codec dir bid expected = Inr q"
      "acquire_remote_state_lock host remote = Inr locked"
      and under: "push_under_lock host codec sc q locked = Inr (remote1, st', report)"
      and written: "write_remote_state host sc st' remote1 = Inr remote2"
      and remote': "remote' = release_remote_state_lock host remote2"
    by (auto simp: push_session_bundle_directory_def and_then_eq_Inr split: sum.splits)
  note wr = write_simps [OF written]
  from push_under_lockD [OF under] obtain st changed copied where
    st: "read_remote_state sc (pq_session_id q) locked = Inr st" and st': "st' = updated_state q changed st"
    and changed: "changed \<longleftrightarrow> map_option rh_head_event_hash (remote_head_of st (pq_branch_id q)) \<noteq> Some (pq_head q)"
    and report: "report = \<lparr>pu_session_id = pq_session_id q, pu_branch_id = pq_branch_id q,
       pu_previous_head = map_option rh_head_event_hash (remote_head_of st (pq_branch_id q)),
       pu_new_head = pq_head q, pu_bundle_hash = pq_bundle_hash q, pu_copied_bundle = copied,
       pu_changed_remote_head = changed\<rparr>" by metis
  have qsid: "pq_session_id q = sid" using sid report by simp
  have req: "request_ok codec sid D q" by (rule prepare_push_request_ok [OF q(1) \<open>dir \<in> D\<close> qsid])
  have dir: "pq_dir q = dir" using q(1) by (auto simp: prepare_push_def and_then_eq_Inr)
  have inv: "bundles_ok codec D locked" "state_ok codec sid locked st"
    using assms(1) st qsid read_remote_state_same [OF acquire_simps(2) [OF q(2)]]
      state_ok_same_bundles [OF acquire_simps(1) [OF q(2)]] bundles_ok_same [OF acquire_simps(1) [OF q(2)]]
    by (auto simp: sync_invariant_def)
  note keep = push_keeps_invariant [OF under req inv(1) assms(2) st [unfolded qsid] inv(2)]
  have b: "rx_bundles remote' = rx_bundles remote1" by (simp add: remote' wr(1))
  have ok: "state_ok codec sid remote' st'" "bundles_ok codec D remote'"
    using keep(1,4) by (simp_all add: bundles_ok_same [OF b] state_ok_same_bundles [OF b])
  have ex: "read_existing_remote_state sc sid remote' = Inr st'"
    using tp by (intro read_written_state(2) [OF _ keep(4)]) (simp_all add: remote' texts_parse_def wr(3))
  have d: "distinct (map rh_branch_id (rs_branch_heads st))" using inv(2) by (simp add: state_ok_def)
  obtain h where h: "h \<in> set (rs_branch_heads st')" "rh_branch_id h = pq_branch_id q" "rh_head_event_hash h = pq_head q"
    "changed \<Longrightarrow> rh_bundle_hash h = pq_bundle_hash q"
  proof (cases changed)
    case True
    then show ?thesis
      using updated_heads(1) [OF d, of q changed] by (intro that [of "pushed_head q"]) (simp_all add: st')
  next
    case False
    then obtain h where "remote_head_of st (pq_branch_id q) = Some h" "rh_head_event_hash h = pq_head q"
      using changed by auto
    then show ?thesis
      using updated_heads(1) [OF d, of q changed] False
      by (intro that [of h]) (auto simp: st' remote_head_of_def find_distinct [OF d])
  qed
  show ?thesis
    by (rule that [OF req dir ex ok h(1)]) (use h report in simp_all)
qed

text \<open>C11: What was pushed is what is pulled. After a successful push to a registry that interleaved
  pushes have built, a pull of the pushed branch succeeds and reports the pushed head event; when the
  push moved the head, the pulled directory has exactly the evidence files of the pushed one, byte for
  byte, under the pushed bundle hash.\<close>

theorem push_then_pull:
  assumes "sync_reaches codec sc sid D initial_world \<lparr>w_remote = remote, w_push = None\<rparr>"
    and nc: "no_collisions codec D" and "texts_parse sc" and dir: "dir \<in> D"
    and "push_session_bundle_directory host codec sc dir bid expected remote = (remote', Inr report)"
    and "pu_session_id report = sid"
  shows "\<exists>d pulled. pull_session_bundle_directory codec sc sid PullMissing (Some (pu_branch_id report)) remote'
      = Inr (d, pulled) \<and> pp_branch_id pulled = pu_branch_id report \<and>
    pp_head_event_hash pulled = pu_new_head report \<and>
    (pu_changed_remote_head report \<longrightarrow> pp_bundle_hash pulled = pu_bundle_hash report \<and> same_evidence d dir)"
proof -
  have "sync_invariant codec sc sid D \<lparr>w_remote = remote, w_push = None\<rparr>"
    using sync_reaches_keeps [OF assms(1) initial_world_invariant assms(2,3)] by simp
  from pushed_registry [OF this assms(2-6)] obtain q st h where
    q: "request_ok codec sid D q" "pq_dir q = dir"
    and st: "read_existing_remote_state sc sid remote' = Inr st" "state_ok codec sid remote' st" "bundles_ok codec D remote'"
    and h: "h \<in> set (rs_branch_heads st)" "rh_branch_id h = pu_branch_id report"
      "rh_head_event_hash h = pu_new_head report" "pu_bundle_hash report = pq_bundle_hash q"
      "pu_changed_remote_head report \<Longrightarrow> rh_bundle_hash h = pq_bundle_hash q" by metis
  have d: "distinct (map rh_branch_id (rs_branch_heads st))" and head: "head_ok codec remote' h"
    using st(2) h(1) by (simp_all add: state_ok_def)
  have "select_pull_head st (Some (pu_branch_id report)) = Inr h"
    using h(1,2) by (simp add: select_pull_head_def find_distinct [OF d])
  from pull_named_head [OF st(1) this head] obtain d where
    d: "map_of (rx_bundles remote') (bundle_name (rh_bundle_hash h)) = Some d" "valid_bundle codec d (rh_bundle_hash h)"
    and pull: "pull_session_bundle_directory codec sc sid PullMissing (Some (pu_branch_id report)) remote' = Inr (d,
       \<lparr>pp_session_id = sid, pp_branch_id = rh_branch_id h, pp_head_event_hash = rh_head_event_hash h,
        pp_bundle_hash = rh_bundle_hash h\<rparr>)" by metis
  have "d \<in> D"
    using map_of_SomeD [OF d(1)] st(3) by (auto simp: bundles_ok_def)
  then have "same_evidence d dir" if "pu_changed_remote_head report"
    using valid_same_evidence [of codec d "pq_bundle_hash q" dir] q d(2) h(5) [OF that] no_collisions_pair [OF nc _ dir]
    by (auto simp: request_ok_def)
  with pull h show ?thesis by auto
qed

theorem push_then_pull_witness:
  "\<exists>d pulled. pull_session_bundle_directory bx_codec bx_sc ex_sid PullMissing (Some ex_bid) bx_remote2
      = Inr (d, pulled) \<and> pp_head_event_hash pulled = bx_hash ''e1'' \<and> same_evidence d bx_dir2"
  using push_then_pull [OF bx_reaches(1) [unfolded bx_world1_def] bx_no_collisions bx_texts_parse _ bx_push2]
  by (auto simp: bx_dirs_def bx_report_def)

subsection \<open>Validated bundles\<close>

text \<open>The order in which \<open>read_dir\<close> walks a directory does not matter to the validator.\<close>

lemma walk_order_irrelevant:
  assumes "distinct (map fst d)" "distinct (map fst d')" "set d = set d'"
  shows "well_formed_bundle codec d v \<longleftrightarrow> well_formed_bundle codec d' v"
proof -
  have m: "map_of d = map_of d'"
    using map_of_inject_set [OF assms(1,2)] assms(3) by simp
  have f: "fs_read d = fs_read d'"
    by (rule ext) (simp add: fs_read_def m)
  have reads: "read_manifest codec d = read_manifest codec d'" "read_raw_chunk_refs codec d = read_raw_chunk_refs codec d'"
      "read_event_records codec d = read_event_records codec d'"
    by (simp_all add: read_manifest_def read_json_def read_raw_chunk_refs_def read_event_records_def read_jsonl_def f)
  have checks: "verify_file_checksum codec d = verify_file_checksum codec d'"
      "validate_raw_chunk_content codec d = validate_raw_chunk_content codec d'"
      "validate_content codec d = validate_content codec d'"
    unfolding fun_eq_iff verify_file_checksum_def validate_raw_chunk_content_def validate_content_def f by simp_all
  have inventory: "validate_bundle_inventory_is_closed d m c = Inr () \<longleftrightarrow> validate_bundle_inventory_is_closed d' m c = Inr ()" for m c
    by (simp add: inventory_closed_Inr payload_files_def assms(3))
  show ?thesis
    by (simp add: well_formed_bundle_def bundle_read_def files_well_formed_def reads f checks inventory)
qed

text \<open>C13: The bundle hash identifies the evidence. Two directories that both validate, with the same
  bundle hash, have the same evidence files with the same bytes (everything but \<open>manifest.json\<close> and
  \<open>checksums.json\<close>), so the same events and raw chunks. Hypothesis: SHA-256 does not collide on the
  files of the two directories.\<close>

theorem bundle_hash_identifies_evidence:
  assumes "validate_session_bundle_directory codec d = Inr r" "validate_session_bundle_directory codec d' = Inr r'"
    and "vr_bundle_hash r = vr_bundle_hash r'"
    and inj: "inj_on (bundle_hash_bytes codec) (file_bytes d \<union> file_bytes d')"
  shows "same_evidence d d' \<and> read_event_records codec d = read_event_records codec d' \<and>
    read_raw_chunk_refs codec d = read_raw_chunk_refs codec d'"
proof -
  have valid: "valid_bundle codec d (vr_bundle_hash r)" "valid_bundle codec d' (vr_bundle_hash r)"
    using assms(1-3) by (auto simp: valid_bundle_def)
  from valid_bundle_view [OF valid(1)] obtain v where v: "well_formed_bundle codec d v" by metis
  have "same_evidence d d'" by (rule valid_same_evidence [OF valid inj])
  with evidence_listed [OF v] show ?thesis
    by (simp add: same_evidence_def read_event_records_def read_raw_chunk_refs_def read_jsonl_def)
qed

lemma bx_rev_valid: "validate_session_bundle_directory bx_codec (rev bx_dir2) = Inr (view_report bx_view2)"
proof (rule well_formed_validates, rule walk_order_irrelevant [THEN iffD1, OF _ _ _ bx_well_formed(2)])
  show keys: "distinct (map fst bx_dir2)"
    by (simp add: bx_dir2_def bx_dir_def bx_files2_def)
  then show "distinct (map fst (rev bx_dir2))"
    by (simp add: rev_map [symmetric])
qed simp

theorem bundle_hash_identifies_evidence_witness: "same_evidence bx_dir2 (rev bx_dir2)"
proof -
  have "file_bytes (rev bx_dir2) = file_bytes bx_dir2"
    by (simp add: file_bytes_def)
  then have "inj_on (bundle_hash_bytes bx_codec) (file_bytes bx_dir2 \<union> file_bytes (rev bx_dir2))"
    using no_collisions_pair [OF bx_no_collisions, of bx_dir2 bx_dir2] by (simp add: bx_dirs_def)
  from bundle_hash_identifies_evidence [OF well_formed_validates [OF bx_well_formed(2)] bx_rev_valid refl this]
  show ?thesis by simp
qed

text \<open>The events of a branch in the order of the log.\<close>

definition branch_records :: "bundle_event_record list \<Rightarrow> branch_id \<Rightarrow> bundle_event_record list" where
  "branch_records rs bid = filter (\<lambda>r. pe_branch_id (sb_event r) = bid) rs"

lemma last_entry_filter:
  "last_entry key xs k = (let ys = filter (\<lambda>x. key x = k) xs in if ys = [] then None else Some (last ys))"
  by (induction xs rule: rev_induct) (simp_all add: last_entry_snoc, simp add: last_entry_def)

lemma last_entry_ordinal:
  assumes "map sb_ordinal rs = [0..<length rs]"
  shows "last_entry ei_ordinal (map (record_info codec) rs) n = Some i \<longleftrightarrow>
    n < length rs \<and> i = record_info codec (rs ! n)"
proof -
  have nth: "sb_ordinal (rs ! k) = k" if "k < length rs" for k
    using assms that by (metis add_0 length_map nth_map nth_upt)
  have "map ei_ordinal (map (record_info codec) rs) = [0..<length rs]"
    using assms by (simp add: o_def)
  then have "distinct (map ei_ordinal (map (record_info codec) rs))" by simp
  from last_entry_distinct [OF this] show ?thesis
    by (auto simp: in_set_conv_nth nth intro: imageI nth_mem)
qed

lemma branch_head_is_last:
  assumes "branch_head_ok m (map (record_info codec) rs) b"
    and "distinct (map (\<lambda>r. pe_event_id (sb_event r)) rs)"
    and "\<forall>r \<in> set rs. canonical_event_hash codec (sb_event r) = sb_event_hash r"
  shows "case bm_head b of
        None \<Rightarrow> branch_records rs (bm_branch_id b) = []
      | Some head \<Rightarrow> branch_records rs (bm_branch_id b) \<noteq> [] \<and>
          (let r = last (branch_records rs (bm_branch_id b)) in
             nr_event_id head = pe_event_id (sb_event r) \<and> nr_ordinal head = sb_ordinal r \<and>
             nr_event_hash head = sb_event_hash r)"
proof (cases "bm_head b")
  case None
  with assms(1) show ?thesis
    by (force simp: branch_head_ok_def branch_records_def filter_empty_conv)
next
  case (Some head)
  let ?infos = "map (record_info codec) rs" and ?bid = "bm_branch_id b"
  have d: "distinct (map ei_event_id ?infos)"
    using assms(2) by (simp add: o_def)
  from assms(1) Some obtain info where info: "info \<in> set ?infos" "ei_event_id info = nr_event_id head"
      "ei_branch_id info = ?bid" "ei_ordinal info = nr_ordinal head" "ei_event_hash info = nr_event_hash head"
    and tip: "\<forall>latest. last_entry ei_branch_id ?infos ?bid = Some latest \<longrightarrow> ei_event_id latest = nr_event_id head"
    by (auto simp: branch_head_ok_def head_matches_def dest: last_entry_Some)
  have "?bid \<in> ei_branch_id ` set ?infos" using info(1,3) by force
  then obtain latest where latest: "last_entry ei_branch_id ?infos ?bid = Some latest"
    using last_entry_None [of ei_branch_id ?infos ?bid] by (cases "last_entry ei_branch_id ?infos ?bid") auto
  let ?ys = "branch_records rs ?bid"
  have filter_infos: "filter (\<lambda>i. ei_branch_id i = ?bid) ?infos = map (record_info codec) ?ys"
    by (simp add: branch_records_def filter_map o_def)
  have ys: "?ys \<noteq> []" "latest = record_info codec (last ?ys)"
    using latest by (auto simp: last_entry_filter filter_infos Let_def last_map split: if_splits)
  have "latest = info"
    using tip latest info(1,2) d last_entry_Some [OF latest] distinct_key [OF d] by metis
  moreover have "last ?ys \<in> set rs"
    using last_in_set [OF ys(1)] by (simp add: branch_records_def)
  ultimately show ?thesis
    using Some info(2-5) ys assms(3) by (auto simp: Let_def)
qed

text \<open>C14: What a validated bundle says about its history. The events are numbered without gaps and have
  distinct ids and one session; every event hash is the hash of the event's canonical form; the event
  ranges of the manifest partition the ordinals, and all events of a range belong to its branch; and
  the head of every branch is the last event of that branch, by id, ordinal and hash.\<close>

theorem validated_bundle_history:
  assumes "validate_session_bundle_directory codec dir = Inr report"
  shows "\<exists>m rs. read_manifest codec dir = Inr m \<and> read_event_records codec dir = Inr rs \<and>
    map sb_ordinal rs = [0..<length rs] \<and> distinct (map (\<lambda>r. pe_event_id (sb_event r)) rs) \<and>
    (\<forall>r \<in> set rs. pe_session_id (sb_event r) = sr_session_id (sm_session m) \<and>
       sb_event_hash r = canonical_event_hash codec (sb_event r)) \<and>
    mset (concat (map range_ordinals (sm_event_ranges m))) = mset [0..<length rs] \<and>
    (\<forall>rg \<in> set (sm_event_ranges m). \<forall>n \<in> set (range_ordinals rg). pe_branch_id (sb_event (rs ! n)) = rg_branch_id rg) \<and>
    (\<forall>b \<in> set (sm_branches m). case bm_head b of
        None \<Rightarrow> branch_records rs (bm_branch_id b) = []
      | Some head \<Rightarrow> branch_records rs (bm_branch_id b) \<noteq> [] \<and>
          (let r = last (branch_records rs (bm_branch_id b)) in
             nr_event_id head = pe_event_id (sb_event r) \<and> nr_ordinal head = sb_ordinal r \<and>
             nr_event_hash head = sb_event_hash r))"
proof -
  from validate_well_formed [OF assms] obtain v where w: "well_formed_bundle codec dir v" .
  let ?m = "bv_manifest v" and ?rs = "bv_records v" and ?infos = "view_infos codec v"
  have reads: "read_manifest codec dir = Inr ?m" "read_event_records codec dir = Inr ?rs"
    using w by (simp_all add: well_formed_bundle_def bundle_read_def)
  have ord: "map sb_ordinal ?rs = [0..<length ?rs]" and ids: "distinct (map (\<lambda>r. pe_event_id (sb_event r)) ?rs)"
    and rec: "\<forall>r \<in> set ?rs. pe_session_id (sb_event r) = sr_session_id (sm_session ?m) \<and>
       sb_event_hash r = canonical_event_hash codec (sb_event r)"
    using w by (auto simp: well_formed_bundle_def records_well_formed_def record_ok_def view_sid_def)
  have infos: "map ei_ordinal ?infos = [0..<length ?rs]" "map ei_event_id ?infos = map (\<lambda>r. pe_event_id (sb_event r)) ?rs"
    using ord by (simp_all add: view_infos_def o_def)
  have at: "last_entry ei_ordinal ?infos n = Some i \<longleftrightarrow> n < length ?rs \<and> i = record_info codec (?rs ! n)" for n i
    using last_entry_ordinal [OF ord] by (simp add: view_infos_def)
  have ranges: "\<forall>rg \<in> set (sm_event_ranges ?m). range_ok ?infos rg"
    "distinct (concat (map range_ordinals (sm_event_ranges ?m)))"
    "{..<length ?rs} \<subseteq> set (concat (map range_ordinals (sm_event_ranges ?m)))"
    using w arg_cong [OF infos(1), of set] by (simp_all add: well_formed_bundle_def ranges_ok_def atLeast0LessThan)
  have in_range: "n < length ?rs \<and> pe_branch_id (sb_event (?rs ! n)) = rg_branch_id rg"
    if "rg \<in> set (sm_event_ranges ?m)" "n \<in> set (range_ordinals rg)" for rg n
    using ranges(1) that by (auto simp: range_ok_def at)
  have "set (concat (map range_ordinals (sm_event_ranges ?m))) = {..<length ?rs}"
    using ranges(3) in_range by auto
  then have part: "mset (concat (map range_ordinals (sm_event_ranges ?m))) = mset [0..<length ?rs]"
    using set_eq_iff_mset_eq_distinct [OF ranges(2) distinct_upt, of 0 "length ?rs"]
    by (simp only: set_upt atLeast0LessThan simp_thms)
  have heads: "case bm_head b of
        None \<Rightarrow> branch_records ?rs (bm_branch_id b) = []
      | Some head \<Rightarrow> branch_records ?rs (bm_branch_id b) \<noteq> [] \<and>
          (let r = last (branch_records ?rs (bm_branch_id b)) in
             nr_event_id head = pe_event_id (sb_event r) \<and> nr_ordinal head = sb_ordinal r \<and>
             nr_event_hash head = sb_event_hash r)" if "b \<in> set (sm_branches ?m)" for b
    using w that by (intro branch_head_is_last [where m = ?m and codec = codec])
      (auto simp: well_formed_bundle_def branches_ok_def records_well_formed_def record_ok_def view_infos_def)
  show ?thesis
    using reads ord ids rec part in_range heads by (intro exI [of _ ?m] exI [of _ ?rs] conjI ballI) simp_all
qed

theorem validated_bundle_history_witness:
  "\<exists>m. read_manifest bx_codec bx_dir2 = Inr m \<and>
     mset (concat (map range_ordinals (sm_event_ranges m))) = mset [0..<2]"
  using validated_bundle_history [OF well_formed_validates [OF bx_well_formed(2)]] bx_bundle_read(2)
  by (auto simp: bundle_read_def bx_view_fields)

subsection \<open>Import\<close>

lemma bx_prepare_import:
  "prepare_import bx_codec bx_dir2 (bv_manifest bx_view2) =
     Inr (branch_records_from_manifest (bv_manifest bx_view2), [(0, imported_insert bx_dir2 bx_ref)],
       [(0, EventId ''e1'', bx_hash ''X'')], [bx_r0, bx_r1])"
  unfolding prepare_import_valid [OF bx_well_formed(2)]
  by (simp add: bx_view_fields inserts_by_ordinal_def or_insert_def import_key_def bx_ref_key)
    (simp add: bx_ref_def)

theorem import_keeps_evidence_witness:
  "\<exists>evs. import_events [0] [(0, EventId ''e1'', bx_hash ''X'')] [bx_r0, bx_r1] [7] = Inr evs \<and>
     list_all2 (\<lambda>e r. \<exists>rs. envelope_from_live e (map_of [(7, bx_hash ''X'')]) = Inr (sb_event r, rs)) evs [bx_r0, bx_r1]"
proof -
  have hash: "bundle_hash_bytes bx_codec (ri_content (imported_insert bx_dir2 bx_ref)) = bx_hash ''X''"
    using raw_chunk_import_valid(2) [OF bx_well_formed(2), of bx_ref]
    by (simp add: bx_view_fields imported_insert_def bx_ref_def)
  have "portable_normal (pe_payload (sb_event bx_r0))" "portable_normal (pe_payload (sb_event bx_r1))"
    by (simp_all add: bx_r0_def bx_r1_def bx_record_def bx_event_def portable_normal_def)
  then show ?thesis
    using import_keeps_evidence [OF well_formed_validates [OF bx_well_formed(2)], of "bv_manifest bx_view2"]
      bx_bundle_read(2) hash
    by (auto simp: bundle_read_def bx_prepare_import bx_view_fields dest!: spec [of _ "[7]"])
qed

end
