(* ===== verification/Spec2Isabelle.thy ===== *)
theory Spec2Isabelle
  imports Bt_Fingerprint Bt_Related Bt_Replay Bt_Ops Bt_Turns Bt_Admit Bt_Claims Bt_BudgetLog Bt_Settings
    Bt_Witness Bt_Approval Bt_ContextBuild Bt_TurnProps Bt_WebProps Bt_OpenAi Bt_AnthropicProps Bt_ChatGptProps
    Bt_BundleProps
begin

text \<open>
  A model of Belltower's event-sourced session core with the control plane it implements, of the
  agent turn that runs on it (context assembly, the model loop, approvals and the web tool), and of
  the portable session bundles that leave a store: export, validation, import and the registries
  bundles are pushed to and pulled from.

  \<^bold>\<open>The program.\<close> Belltower runs coding agents. Everything that happens in a session is an immutable
  event in a SQLite log (\<open>bt-session\<close>), and every other table is a projection of that log which the
  append transaction keeps up to date. The runtime, the server and the terminal client decide what
  may happen next, whether a user message starts a turn or is queued, which continuation may be
  claimed, whether a budget is exhausted, by reading those projections inside the transaction that
  appends the next events. The types of the events are in \<open>bt-core\<close>.

  \<^bold>\<open>Theories and sources.\<close>
  \<^item> \<open>Bt_Prelude\<close>: Rust integers, \<open>Result\<close>, strings as UTF-8 byte strings; \<open>Bt_Float\<close>: IEEE doubles as
    the budget and cost code uses them.
  \<^item> \<open>Bt_Types\<close>: \<open>bt-core/src/ids.rs\<close>, \<open>error.rs\<close>, \<open>messages.rs\<close>, \<open>branches.rs\<close>, \<open>types.rs\<close>,
    \<open>related_sessions.rs\<close>; \<open>Bt_Events\<close>: \<open>events.rs\<close>; \<open>Bt_Fingerprint\<close>: the approval fingerprints of
    \<open>types.rs\<close>.
  \<^item> \<open>Bt_Sql\<close>: keyed tables as lists in insertion order with the SQL statements the store issues
    (\<open>INSERT\<close>, \<open>ON CONFLICT\<close>, \<open>INSERT OR REPLACE\<close>, \<open>UPDATE\<close>, \<open>DELETE\<close>, \<open>SELECT ... ORDER BY\<close>); its
    locale \<open>keyed_table\<close> is the contract of a primary key. \<open>Bt_Database\<close>: the tables of
    \<open>bt-session/src/migration.rs\<close> as records and the value codecs of \<open>store/codec.rs\<close>.
  \<^item> \<open>Bt_TurnProjection\<close>: \<open>turn_projection.rs\<close>. \<open>Bt_Projections\<close>: \<open>store/projections.rs\<close>, one operation
    per arm of \<open>refresh_projections\<close>, and an interpretation of \<open>keyed_table\<close> for each table it writes.
  \<^item> \<open>Bt_Admission\<close>: \<open>store/admission.rs\<close>, the validation of the event batches of a transition.
  \<^item> \<open>Bt_Store\<close>: the transaction wrapper, \<open>append_event_in_tx\<close> and the session, branch, raw chunk and
    import operations of \<open>store.rs\<close>. \<open>Bt_Control\<close>: the control-plane transitions of \<open>store.rs\<close> (active
    turn writes, terminal transitions, budgets, settings, admissions, continuation claims).
    \<open>Bt_Related\<close>: parent, child and sibling sessions (lineage queries, spawn, messages, settlement).
    \<open>Bt_Replay\<close>: event decoding, the rebuilds of \<open>migration.rs\<close> and the reprojections of \<open>store.rs\<close>.

  \<^bold>\<open>State and errors.\<close> A database is a record of tables; \<open>'a tx\<close> is \<open>database \<Rightarrow> error + (database \<times> 'a)\<close>
  and \<open>transaction\<close> keeps the new database on success and the old one on every error, as dropping an
  uncommitted SQLite transaction does. Every early return and \<open>?\<close> of the source is an \<open>Inl\<close> with the
  source's error constructor. Ids are their text; times are integers; \<open>u64\<close> and \<open>u32\<close> are words;
  SQLite integers are \<open>int\<close> with the \<open>as i64\<close> casts written out. Event bodies are kept as values; what
  a JSON round trip changes is applied where the source decodes: doubles that are not finite become
  \<open>null\<close>, and for a finite one the double that the parser of \<open>serde_json\<close> returns, which without its
  feature \<open>float_roundtrip\<close> may be a neighbour of the printed one, is the parameter \<open>json_number\<close>.

  \<^bold>\<open>What is proved.\<close>
  \<^item> \<open>Bt_Log\<close>: the locale \<open>event_sourced\<close> says that a projection starts at a fixed value, changes by a
    step function with every appended event and by nothing else; its consequence is that the table
    is the fold of the step function over the log. It is interpreted for nine tables of the model.
  \<^item> \<open>Bt_Ops\<close>: every public operation of the store is a sequence of these atomic steps
    (\<open>store_call_steps\<close>), so what the steps preserve holds in every execution (\<open>opened\<close>).
  \<^item> \<open>Bt_Turns\<close>: the log is gap-free and ordered; the active turn of a session is its one unfinished
    \<open>turn.started\<close> event; the migration rebuild gives the same rows.
  \<^item> \<open>Bt_Admit\<close>, \<open>Bt_Claims\<close>: admission starts a turn only in an idle session within budget; queued
    messages are dispatched first in, first out and at most once; no admission or claim starts a turn
    while one runs or the budget is exhausted; the operations that require the ownership of a turn
    refuse a finished one. (\<open>append_event\<close> has none of these gates, as in the source.)
  \<^item> \<open>Bt_BudgetLog\<close>: budget counters are monotone while they fit their signed columns, an exhausting checkpoint cancels in the same
    transaction, and replaying the log gives the stored row. \<open>Bt_Settings\<close>: settings revisions are
    immutable and increase by one.
  \<^item> \<open>Bt_Example\<close>, \<open>Bt_Witness\<close>: concrete executions on which every theorem with hypotheses is applied.

  \<^item> \<open>Bt_Approval\<close> (\<open>bt-runtime/src/approval.rs\<close>): stored decisions are justified by what was recorded for the
    same fingerprint and scope, one-time decisions are consumed, and what the policy grants unasked.
  \<^item> \<open>Bt_Compaction\<close>, \<open>Bt_Retention\<close>, \<open>Bt_ContextBuild\<close> (\<open>bt-context/src/lib.rs\<close>): the units of a
    history, the retention selection as a partition of it, the size of a compacted context, the chain
    of summaries, plan against build, and the two places where the code panics or leaves an orphan.
  \<^item> \<open>Bt_ToolCalls\<close>, \<open>Bt_Response\<close>, \<open>Bt_TurnLoop\<close>, \<open>Bt_TurnProofs\<close>, \<open>Bt_TurnProps\<close> (\<open>bt-agent/src/lib.rs\<close>):
    streamed responses are reassembled faithfully; a turn keeps calls with their results, closes every
    recorded request once unless it waits for that call or cannot record its result, never runs an
    unapproved tool and returns. The provider, the tools and the
    observer are actions on a world (\<open>Bt_Actions\<close>), so an effect that must not happen is stated by
    replacing the action: the turn is the same.
  \<^item> \<open>Bt_Net\<close>, \<open>Bt_Utf8\<close>, \<open>Bt_WebFetch\<close>, \<open>Bt_WebProps\<close> (\<open>bt-tools/src/web.rs\<close>, \<open>text.rs\<close>): the public
    address filter is a table of blocks and looks through embeddings; a fetch contacts public addresses
    only, at most six times, and keeps a prefix of the body. The addresses a request may reach are those
    of \<open>pinned_client\<close>: a name that is not the pinned one would be looked up again.
  \<^item> \<open>Bt_Sse\<close>, \<open>Bt_Chunks\<close>, \<open>Bt_OpenAi\<close>, \<open>Bt_Anthropic\<close>, \<open>Bt_AnthropicProps\<close>, \<open>Bt_ChatGpt\<close>, \<open>Bt_ChatGptProps\<close>
    (\<open>bt-providers/src\<close>): the event parser refines the abstract parse of the whole response when no carriage return precedes a
    CR LF pair and no chunk ends inside a character (and what such a chunk does is stated too); the three
    decoders hand every streamed tool call to the agent as one opened, filled and closed call, and the
    theorems follow it from the received bytes to the completed call; the request built for Anthropic
    from a turn's transcript answers every tool use, and signed thinking comes back verbatim.

  \<^item> \<open>Bt_BundleTypes\<close>, \<open>Bt_Portable\<close> (\<open>bt-core/src/bundle.rs\<close>, the portable events of
    \<open>bt-session/src/export.rs\<close>): content hashes and manifests; the portable form of every event and
    the way back. An event survives the trip but for its references to rows of the local store.
  \<^item> \<open>Bt_Bundle\<close>, \<open>Bt_BundleSpec\<close> (\<open>export.rs\<close>): the validator check by check, and the declarative
    \<open>well_formed_bundle\<close>, which holds exactly of the directories the validator accepts.
    \<open>Bt_Export\<close>, \<open>Bt_Import\<close>: export, import, continuation and comparison.
  \<^item> \<open>Bt_Sync\<close> (\<open>bt-session/src/sync.rs\<close>): push and pull. \<open>Bt_SyncProps\<close>: the interleavings of pushes to one
    registry as a step relation, cut where other processes see a push (lock taken, decision and copy,
    replacement of \<open>heads.json\<close>, lock dropped, a failure of the file system at any of them, or the
    process dies), and its invariant by rule induction. Which changes of the file system fail is the
    argument \<open>sync_host\<close> of a push.
  \<^item> \<open>Bt_ExportProps\<close>: an exported bundle validates, from the steps of the export (prepared chunks, the
    reference loop, branch heads and event ranges) to the declarative \<open>well_formed_bundle\<close>.
    \<open>Bt_ImportProps\<close>: a valid bundle is converted without error, and what is imported exports again as
    the same portable events. \<open>Bt_BundleExample\<close>: two concrete bundles with their pushes, and a store that
    is exported. \<open>Bt_BundleProps\<close>: what the registry promises, and what a valid bundle is.

  \<^bold>\<open>Bundles.\<close> A bundle directory is the list of its files by relative path. SHA-256, the JSON texts of
  the bundle's records with their parsers and the UUID parser are the fields of \<open>bundle_codec\<close>; theorems
  that need it assume that the digest does not collide on the files in question and that texts parse
  back. A double that leaves JSON may come back with another last digit (\<open>serde_json\<close> is used without
  \<open>float_roundtrip\<close>), so for events with costs the latter is a real assumption.

  \<^bold>\<open>Loops and bounds.\<close> All definitions are total. \<open>turn_loop\<close> runs on fuel because the code does not
  bound the number of model calls; \<open>turn_returns\<close> gives the fuel that is enough. The redirect loop is the
  code's \<open>0..=5\<close>. The other recursions that are not structural have a measure, among them the two
  recursive lineage queries of \<open>Bt_Related\<close>, where every round adds a session of the finite table.

  \<^bold>\<open>Not modelled.\<close> SQLite itself, file and network I/O, the JSON text of events, read-only listing and
  search queries, the legacy debug bundle (\<open>export_legacy_bundle\<close>), the orchestration of \<open>bt-runtime\<close> around the store, the HTTP transport and the command line provider,
  the file and shell tools, the terminal client, server and telemetry crates. External pieces the model needs
  (\<open>serde_json\<close> parsing and quoting, the \<open>url\<close> crate, the HTTP client, the name server, the cost
  reprojector of \<open>bt-models\<close>, the clock and id generators) are arguments of the definitions that use them.
\<close>

end
